(* ===== verification/Go_Prelude.thy ===== *)
theory Go_Prelude
  imports Complex_Main "HOL-Library.AList" "HOL-Library.List_Lexorder" "HOL-Library.Char_ord"
    "HOL-Library.Product_Lexorder" "HOL-Library.Multiset" "HOL-Library.Code_Target_Nat"
begin

text \<open>
  What every component of the development shares: the Go values the source uses (instants,
  durations, unsigned 64-bit counters, maps, errors) and the lemmas about them that the
  component theories rest on.

  \<^item> An instant of \<open>time.Time\<close> is the number of nanoseconds since Go's zero instant, so
    \<open>t.IsZero()\<close> is \<open>t = 0\<close>, \<open>Before\<close> is \<open><\<close> and \<open>Add\<close> is \<open>+\<close>.
  \<^item> A \<open>uint64\<close> counter is a natural number below \<open>2 ^ 64\<close>, incremented by
    \<open>u64_succ\<close>, which wraps; a Go \<open>int\<close> that the code computes with is wrapped by
    \<open>i64\<close>.
  \<^item> A Go \<open>map\<close> is an association list with distinct keys (\<open>mwf\<close>); the order of the
    list stands for the unspecified iteration order.
  \<^item> A Go \<open>error\<close> is an option of \<open>go_error\<close>, the tree that \<open>errors.Is\<close> and
    \<open>errors.As\<close> walk.
\<close>

named_theorems store_simps "lookups after the updates of the state store"
named_theorems inv_intros "operations preserve the well-formedness of their component"

section \<open>Instants, durations, machine integers\<close>

type_synonym go_time = int
type_synonym duration = int
type_synonym u64 = nat

definition zero_time :: go_time where "zero_time = 0"

definition is_zero :: "go_time \<Rightarrow> bool" where "is_zero t = (t = zero_time)"

definition time_second :: duration where "time_second = 1000000000"

definition u64_max :: u64 where "u64_max = 2 ^ 64 - 1"

definition u64_succ :: "u64 \<Rightarrow> u64" where "u64_succ n = (n + 1) mod 2 ^ 64"

definition i64 :: "int \<Rightarrow> int" where "i64 x = (x + 2 ^ 63) mod 2 ^ 64 - 2 ^ 63"

lemma u64_succ_less: "u64_succ n < 2 ^ 64"
  by (simp add: u64_succ_def)

lemma u64_succ_small: "n < u64_max \<Longrightarrow> u64_succ n = Suc n"
  by (simp add: u64_succ_def u64_max_def)

lemma i64_small: "- (2 ^ 63) \<le> x \<Longrightarrow> x < 2 ^ 63 \<Longrightarrow> i64 x = x"
  by (simp add: i64_def)

lemma i64_wrap:
  assumes "2 ^ 63 \<le> x" "x < 2 ^ 63 + 2 ^ 64"
  shows "i64 x = x - 2 ^ 64"
proof -
  have "(x + 2 ^ 63) mod 2 ^ 64 = (x + 2 ^ 63 - 2 ^ 64) mod 2 ^ 64"
    by (rule minus_mod_self2 [symmetric])
  also have "\<dots> = x + 2 ^ 63 - 2 ^ 64" using assms by (intro mod_pos_pos_trivial) simp_all
  finally show ?thesis by (simp add: i64_def)
qed

lemma i64_range: "- (2 ^ 63) \<le> i64 x" "i64 x < 2 ^ 63"
  by (simp_all add: i64_def pos_mod_bound [of "2 ^ 64" "x + 2 ^ 63", simplified])

text \<open>Go's integer division truncates towards zero, and its remainder takes the dividend's sign.\<close>

definition go_quot :: "int \<Rightarrow> int \<Rightarrow> int" where
  "go_quot a b = sgn a * sgn b * (\<bar>a\<bar> div \<bar>b\<bar>)"

definition go_rem :: "int \<Rightarrow> int \<Rightarrow> int" where
  "go_rem a b = a - b * go_quot a b"

lemma go_quot_nonneg: "0 \<le> a \<Longrightarrow> 0 < b \<Longrightarrow> go_quot a b = a div b"
  by (cases "a = 0") (simp_all add: go_quot_def)

lemma go_quot_neg: "a < 0 \<Longrightarrow> 0 < b \<Longrightarrow> go_quot a b = - ((- a) div b)"
  by (simp add: go_quot_def)

section \<open>Maps\<close>

type_synonym ('k, 'v) gomap = "('k \<times> 'v) list"

abbreviation mget :: "('k, 'v) gomap \<Rightarrow> 'k \<Rightarrow> 'v option" where
  "mget m k \<equiv> map_of m k"

abbreviation mput :: "'k \<Rightarrow> 'v \<Rightarrow> ('k, 'v) gomap \<Rightarrow> ('k, 'v) gomap" where
  "mput k v m \<equiv> AList.update k v m"

abbreviation mdel :: "'k \<Rightarrow> ('k, 'v) gomap \<Rightarrow> ('k, 'v) gomap" where
  "mdel k m \<equiv> AList.delete k m"

definition mwf :: "('k, 'v) gomap \<Rightarrow> bool" where
  "mwf m = distinct (map fst m)"

definition mvals :: "('k, 'v) gomap \<Rightarrow> 'v list" where
  "mvals m = map snd m"

text \<open>\<open>bucket m k\<close> is the inner map or slice \<open>m[k]\<close>: Go reads a missing one as empty.\<close>

definition bucket :: "('a, 'b list) gomap \<Rightarrow> 'a \<Rightarrow> 'b list" where
  "bucket m k = (case mget m k of None \<Rightarrow> [] | Some b \<Rightarrow> b)"

definition mupd_all :: "('k \<Rightarrow> 'v \<Rightarrow> 'v) \<Rightarrow> ('k, 'v) gomap \<Rightarrow> ('k, 'v) gomap" where
  "mupd_all f m = map (\<lambda>(k, v). (k, f k v)) m"

lemma mget_mput [simp]: "mget (mput k v m) k' = (if k' = k then Some v else mget m k')"
  by (simp add: AList.update_conv)

lemma dom_mput: "dom (mget (mput k v m)) = insert k (dom (mget m))"
  by (auto split: if_splits)

lemma dom_upd [simp]: "dom (\<lambda>j. if j = k then Some v else m j) = insert k (dom m)"
  by (auto split: if_splits)

lemma mget_mdel [simp]: "mget (mdel k m) k' = (if k' = k then None else mget m k')"
  by (simp add: AList.delete_conv)

lemma mwf_Nil [simp]: "mwf []"
  by (simp add: mwf_def)

lemma mwf_mput [simp, intro]: "mwf m \<Longrightarrow> mwf (mput k v m)"
  by (simp add: mwf_def AList.distinct_update)

lemma mwf_mdel [simp, intro]: "mwf m \<Longrightarrow> mwf (mdel k m)"
  by (simp add: mwf_def AList.distinct_delete)

lemma mvals_Nil [simp]: "mvals [] = []"
  by (simp add: mvals_def)

lemma mvals_iff: "mwf m \<Longrightarrow> v \<in> set (mvals m) \<longleftrightarrow> (\<exists>k. mget m k = Some v)"
  by (force simp: mwf_def mvals_def image_iff)

lemma length_mvals [simp]: "length (mvals m) = length m"
  by (simp add: mvals_def)

lemma mget_mupd_all [simp]: "mget (mupd_all f m) k = map_option (f k) (mget m k)"
  by (induction m) (auto simp: mupd_all_def)

lemma mwf_mupd_all [simp]: "mwf (mupd_all f m) = mwf m"
  by (simp add: mwf_def mupd_all_def comp_def case_prod_unfold)

lemma bucket_mput [simp]: "bucket (mput k b m) k' = (if k' = k then b else bucket m k')"
  by (simp add: bucket_def)

lemma bucket_mdel [simp]: "bucket (mdel k m) k' = (if k' = k then [] else bucket m k')"
  by (simp add: bucket_def)

lemma mvals_mupd_all: "mvals (mupd_all f m) = map (\<lambda>(k, v). f k v) m"
  by (simp add: mvals_def mupd_all_def comp_def case_prod_unfold)

text \<open>The values of a map nested in a datatype are smaller than it.\<close>

lemma size_list_pair [termination_simp]:
  "(a, b) \<in> set m \<Longrightarrow> f b < Suc (size_list (size_prod g f) m)"
  by (induction m) auto

lemma size_list_elem [termination_simp]:
  "x \<in> set xs \<Longrightarrow> f x < Suc (size_list f xs)"
  by (induction xs) auto

section \<open>Sorted listings\<close>

text \<open>
  \<open>sort.Slice\<close> by a key that is distinct on the listed values has one possible result,
  whatever order the map was iterated in.
\<close>

lemma sort_key_order_independent:
  assumes "mset xs = mset ys" "inj_on key (set xs)"
  shows "sort_key key xs = sort_key key ys"
proof -
  have "mset xs = mset (sort_key key ys)" using assms(1) by simp
  with assms(2) show ?thesis by (intro sort_key_inj_key_eq) simp_all
qed

lemma sorted_sort_key_strict:
  assumes "distinct (map key xs)"
  shows "sorted_wrt (<) (map key (sort_key key xs))"
proof -
  have "mset (map key (sort_key key xs)) = mset (map key xs)" by simp
  then have "distinct (map key (sort_key key xs))"
    using assms by (metis mset_eq_imp_distinct_iff)
  then show ?thesis by (simp add: strict_sorted_iff)
qed

section \<open>Errors\<close>

text \<open>
  \<open>provider.ErrorKind\<close>, the class a provider failure carries, is part of the error tree
  because a \<open>ClassifiedError\<close> can sit anywhere in a chain.
\<close>

datatype error_kind = KTransient | KRateLimit | KAuth | KValidation | KPermanent

fun error_kind_text :: "error_kind \<Rightarrow> string" where
  "error_kind_text KTransient = ''transient''"
| "error_kind_text KRateLimit = ''rate_limit''"
| "error_kind_text KAuth = ''auth''"
| "error_kind_text KValidation = ''validation''"
| "error_kind_text KPermanent = ''permanent''"

text \<open>
  The constructors are the shapes the source builds: \<open>errors.New\<close> (and a \<open>fmt.Errorf\<close>
  without \<open>%w\<close>), a package variable compared by identity, the two context errors, one
  \<open>%w\<close> with the text around it, \<open>errors.Join\<close>, \<open>provider.ClassifiedError\<close>,
  \<open>tools.toolExecutionFailure\<close>, \<open>tools.SuspendedError\<close> (approval, execution, tool and call
  identifiers), a text between two \<open>%w\<close>, and \<open>httpPipelineIncompleteError\<close> (status and budget).
\<close>

datatype go_error =
    ErrText string
  | ErrVar string
  | CtxCanceled
  | CtxDeadline
  | ErrWrap string go_error string
  | ErrJoin "go_error list"
  | ErrClassified error_kind go_error
  | ErrToolFailure go_error
  | ErrSuspended string string string string
  | ErrBoth go_error string go_error
  | ErrIncomplete string string

definition err_pipeline_incomplete :: go_error where
  "err_pipeline_incomplete = ErrVar ''http runtime pipeline incomplete''"

fun err_chain :: "go_error \<Rightarrow> go_error list" where
  "err_chain (ErrWrap p e q) = ErrWrap p e q # err_chain e"
| "err_chain (ErrJoin es) = ErrJoin es # concat (map err_chain es)"
| "err_chain (ErrClassified k e) = ErrClassified k e # err_chain e"
| "err_chain (ErrToolFailure e) = ErrToolFailure e # err_chain e"
| "err_chain (ErrBoth e m f) = ErrBoth e m f # err_chain e @ err_chain f"
| "err_chain (ErrIncomplete s b) = [ErrIncomplete s b, err_pipeline_incomplete]"
| "err_chain e = [e]"

definition errors_is :: "go_error \<Rightarrow> go_error \<Rightarrow> bool" where
  "errors_is e target = (target \<in> set (err_chain e))"

text \<open>\<open>errors.As\<close> for the three error types the source looks for: the first in the chain.\<close>

definition as_classified :: "go_error \<Rightarrow> error_kind option" where
  "as_classified e = (case filter (\<lambda>x. case x of ErrClassified _ _ \<Rightarrow> True | _ \<Rightarrow> False) (err_chain e)
     of ErrClassified k _ # _ \<Rightarrow> Some k | _ \<Rightarrow> None)"

definition as_tool_failure :: "go_error \<Rightarrow> go_error option" where
  "as_tool_failure e = (case filter (\<lambda>x. case x of ErrToolFailure _ \<Rightarrow> True | _ \<Rightarrow> False) (err_chain e)
     of ErrToolFailure i # _ \<Rightarrow> Some i | _ \<Rightarrow> None)"

definition as_suspended :: "go_error \<Rightarrow> (string \<times> string \<times> string \<times> string) option" where
  "as_suspended e = (case filter (\<lambda>x. case x of ErrSuspended _ _ _ _ \<Rightarrow> True | _ \<Rightarrow> False) (err_chain e)
     of ErrSuspended a x t c # _ \<Rightarrow> Some (a, x, t, c) | _ \<Rightarrow> None)"

text \<open>\<open>errors.Join\<close> drops nil errors and is nil when nothing is left.\<close>

definition errors_join :: "go_error option list \<Rightarrow> go_error option" where
  "errors_join es = (case List.map_filter id es of [] \<Rightarrow> None | xs \<Rightarrow> Some (ErrJoin xs))"

fun join_lines :: "string list \<Rightarrow> string" where
  "join_lines [] = []"
| "join_lines [s] = s"
| "join_lines (s # ss) = s @ [CHR 0x0A] @ join_lines ss"

fun err_text :: "go_error \<Rightarrow> string" where
  "err_text (ErrText s) = s"
| "err_text (ErrVar s) = s"
| "err_text CtxCanceled = ''context canceled''"
| "err_text CtxDeadline = ''context deadline exceeded''"
| "err_text (ErrWrap p e q) = p @ err_text e @ q"
| "err_text (ErrJoin es) = join_lines (map err_text es)"
| "err_text (ErrClassified k e) = err_text e"
| "err_text (ErrToolFailure e) = err_text e"
| "err_text (ErrSuspended a x t c) =
     ''execution suspended for approval '' @ [CHR 0x22] @ a @ [CHR 0x22] @ '' on tool '' @
     [CHR 0x22] @ t @ [CHR 0x22]"
| "err_text (ErrBoth e m f) = err_text e @ m @ err_text f"
| "err_text (ErrIncomplete s b) =
     ''http runtime pipeline incomplete: '' @ s @ (if b = [] then [] else '' (budget='' @ b @ '')'')"

lemma errors_is_refl [simp]: "errors_is e e"
  by (cases e) (simp_all add: errors_is_def)

lemma errors_is_wrap: "errors_is (ErrWrap p e q) t \<longleftrightarrow> t = ErrWrap p e q \<or> errors_is e t"
  by (auto simp: errors_is_def)

lemma errors_is_join: "errors_is (ErrJoin es) t \<longleftrightarrow> t = ErrJoin es \<or> (\<exists>e \<in> set es. errors_is e t)"
  by (auto simp: errors_is_def)

lemma errors_join_None: "errors_join es = None \<longleftrightarrow> (\<forall>e \<in> set es. e = None)"
proof -
  have "List.map_filter id es = [] \<longleftrightarrow> (\<forall>e \<in> set es. e = None)"
    by (induction es) (auto simp: List.map_filter_simps split: option.splits)
  then show ?thesis by (auto simp: errors_join_def split: list.splits)
qed

lemma errors_join_Some [simp]: "errors_join (Some e # es) \<noteq> None" "\<exists>e'. errors_join (Some e # es) = Some e'"
  using errors_join_None [of "Some e # es"] by (cases "errors_join (Some e # es)"; simp)+

lemma errors_join_is:
  assumes "errors_join es = Some j" "Some e \<in> set es" "errors_is e t"
  shows "errors_is j t"
proof -
  have "e \<in> set (List.map_filter id es)"
    using assms(2) by (force simp: List.map_filter_def)
  moreover have "j = ErrJoin (List.map_filter id es)"
    using assms(1) by (auto simp: errors_join_def split: list.splits)
  ultimately show ?thesis using assms(3) by (auto simp: errors_is_join)
qed

lemma errors_join_two [simp]:
  "errors_join [None, None] = None"
  "errors_join [Some e, None] = Some (ErrJoin [e])"
  "errors_join [None, Some e] = Some (ErrJoin [e])"
  "errors_join [Some e, Some f] = Some (ErrJoin [e, f])"
  by (simp_all add: errors_join_def List.map_filter_simps)

end
