(* ===== verification/Go_Strings.thy ===== *)
theory Go_Strings
  imports Go_Prelude "HOL-Library.Sublist"
begin

text \<open>
  The functions of Go's \<open>strings\<close> and \<open>strconv\<close> that the components call, over byte
  strings (a HOL \<open>string\<close> is a list of 8-bit characters, as a Go string is a list of bytes):
  \<open>TrimSpace\<close> and \<open>Fields\<close> with Go's Unicode white space in its UTF-8 encoding,
  \<open>Cut\<close>, \<open>Split\<close>, \<open>HasPrefix\<close>, \<open>HasSuffix\<close>, \<open>Contains\<close>, \<open>ReplaceAll\<close>,
  the ASCII part of \<open>EqualFold\<close> and \<open>Atoi\<close>, each with the lemmas its callers use.
\<close>

section \<open>White space\<close>

text \<open>The UTF-8 encodings of the runes for which \<open>unicode.IsSpace\<close> holds.\<close>

definition space_seqs :: "string list" where
  "space_seqs =
     [[CHR 0x20], [CHR 0x09], [CHR 0x0A], [CHR 0x0B], [CHR 0x0C], [CHR 0x0D],
      [CHR 0xC2, CHR 0x85], [CHR 0xC2, CHR 0xA0], [CHR 0xE1, CHR 0x9A, CHR 0x80],
      [CHR 0xE2, CHR 0x80, CHR 0x80], [CHR 0xE2, CHR 0x80, CHR 0x81],
      [CHR 0xE2, CHR 0x80, CHR 0x82], [CHR 0xE2, CHR 0x80, CHR 0x83],
      [CHR 0xE2, CHR 0x80, CHR 0x84], [CHR 0xE2, CHR 0x80, CHR 0x85],
      [CHR 0xE2, CHR 0x80, CHR 0x86], [CHR 0xE2, CHR 0x80, CHR 0x87],
      [CHR 0xE2, CHR 0x80, CHR 0x88], [CHR 0xE2, CHR 0x80, CHR 0x89],
      [CHR 0xE2, CHR 0x80, CHR 0x8A], [CHR 0xE2, CHR 0x80, CHR 0xA8],
      [CHR 0xE2, CHR 0x80, CHR 0xA9], [CHR 0xE2, CHR 0x80, CHR 0xAF],
      [CHR 0xE2, CHR 0x81, CHR 0x9F], [CHR 0xE3, CHR 0x80, CHR 0x80]]"

definition lead_seq :: "string list \<Rightarrow> string \<Rightarrow> string option" where
  "lead_seq ws s = find (\<lambda>w. w \<noteq> [] \<and> prefix w s) ws"

lemma lead_seq_Some: "lead_seq ws s = Some w \<Longrightarrow> w \<noteq> [] \<and> prefix w s \<and> w \<in> set ws"
  by (auto simp: lead_seq_def find_Some_iff)

lemma lead_seq_None: "lead_seq ws s = None \<longleftrightarrow> (\<forall>w \<in> set ws. w \<noteq> [] \<longrightarrow> \<not> prefix w s)"
  by (auto simp: lead_seq_def find_None_iff)

lemma lead_seq_prefix: "lead_seq ws s = None \<Longrightarrow> prefix t s \<Longrightarrow> lead_seq ws t = None"
  unfolding lead_seq_None by (meson prefix_order.trans)

lemma lead_seq_Nil [simp]: "lead_seq ws [] = None"
  by (simp add: lead_seq_None)

function strip :: "string list \<Rightarrow> string \<Rightarrow> string" where
  "strip ws s = (case lead_seq ws s of None \<Rightarrow> s | Some w \<Rightarrow> strip ws (drop (length w) s))"
  by pat_completeness auto
termination
proof (relation "measure (\<lambda>(ws, s). length s)", goal_cases)
  case (2 ws s w)
  then have "w \<noteq> []" "prefix w s" by (auto dest: lead_seq_Some)
  then show ?case by (auto simp: prefix_def)
qed simp

declare strip.simps [simp del]

lemma strip_Nil [simp]: "strip ws [] = []"
  by (simp add: strip.simps)

lemma strip_stop: "lead_seq ws (strip ws s) = None"
proof (induction ws s rule: strip.induct)
  case (1 ws s)
  then show ?case by (subst strip.simps) (auto split: option.splits)
qed

lemma strip_id: "lead_seq ws s = None \<Longrightarrow> strip ws s = s"
  by (simp add: strip.simps)

lemma strip_idem [simp]: "strip ws (strip ws s) = strip ws s"
  by (simp add: strip_id strip_stop)

lemma strip_suffix: "suffix (strip ws s) s"
proof (induction ws s rule: strip.induct)
  case (1 ws s)
  show ?case
  proof (cases "lead_seq ws s")
    case None
    then show ?thesis by (simp add: strip_id)
  next
    case (Some w)
    with 1 have "suffix (strip ws (drop (length w) s)) (drop (length w) s)" by simp
    also have "suffix \<dots> s" by (simp add: suffix_drop)
    finally show ?thesis using Some by (simp add: strip.simps [of ws s])
  qed
qed

text \<open>\<open>strings.TrimSpace\<close>.\<close>

definition trim_space :: "string \<Rightarrow> string" where
  "trim_space s = rev (strip (map rev space_seqs) (rev (strip space_seqs s)))"

lemma trim_space_Nil [simp]: "trim_space [] = []"
  by (simp add: trim_space_def)

lemma trim_space_idem [simp]: "trim_space (trim_space s) = trim_space s"
proof -
  let ?l = "strip space_seqs s" and ?r = "\<lambda>x. strip (map rev space_seqs) x"
  have "prefix (rev (?r (rev ?l))) ?l"
    using strip_suffix [of "map rev space_seqs" "rev ?l"] by (simp add: suffix_to_prefix)
  then have "lead_seq space_seqs (trim_space s) = None"
    unfolding trim_space_def by (rule lead_seq_prefix [OF strip_stop])
  then have "strip space_seqs (trim_space s) = trim_space s" by (rule strip_id)
  then show ?thesis by (simp add: trim_space_def)
qed

lemma trim_space_sublist: "sublist (trim_space s) s"
proof -
  let ?l = "strip space_seqs s"
  have "prefix (trim_space s) ?l"
    using strip_suffix [of "map rev space_seqs" "rev ?l"]
    by (simp add: trim_space_def suffix_to_prefix)
  moreover have "suffix ?l s" by (rule strip_suffix)
  ultimately show ?thesis by (meson prefix_imp_sublist sublist_order.order_trans suffix_imp_sublist)
qed

lemma length_trim_space: "length (trim_space s) \<le> length s"
  using trim_space_sublist by (rule sublist_length_le)

lemma strip_keeps: "c \<in> set s \<Longrightarrow> \<forall>w \<in> set ws. c \<notin> set w \<Longrightarrow> c \<in> set (strip ws s)"
proof (induction ws s rule: strip.induct)
  case (1 ws s)
  show ?case
  proof (cases "lead_seq ws s")
    case None
    with 1 show ?thesis by (simp add: strip_id)
  next
    case (Some w)
    obtain r where "s = w @ r" "w \<in> set ws" using lead_seq_Some [OF Some] by (auto simp: prefix_def)
    with 1 Some show ?thesis by (subst strip.simps) auto
  qed
qed

text \<open>Trimming never removes a character that is no part of the encoding of a space.\<close>

lemma trim_space_keeps: "c \<in> set s \<Longrightarrow> \<forall>w \<in> set space_seqs. c \<notin> set w \<Longrightarrow> c \<in> set (trim_space s)"
  by (simp add: trim_space_def strip_keeps)

lemma trim_space_colon: "CHR '':'' \<in> set s \<Longrightarrow> trim_space s \<noteq> []"
  using trim_space_keeps [of "CHR '':''" s] by (auto simp: space_seqs_def)

text \<open>\<open>strings.Fields\<close>: the maximal runs without white space.\<close>

definition emit_field :: "string \<Rightarrow> string list" where
  "emit_field cur = (if cur = [] then [] else [cur])"

function fields_from :: "string \<Rightarrow> string \<Rightarrow> string list" where
  "fields_from cur s =
     (case s of [] \<Rightarrow> emit_field cur
      | c # r \<Rightarrow> (case lead_seq space_seqs s of
            None \<Rightarrow> fields_from (cur @ [c]) r
          | Some w \<Rightarrow> emit_field cur @ fields_from [] (drop (length w) s)))"
  by pat_completeness auto
termination
proof (relation "measure (\<lambda>(cur, s). length s)", goal_cases)
  case (3 cur s c r w)
  then have "w \<noteq> []" "prefix w s" by (auto dest: lead_seq_Some)
  then show ?case by (auto simp: prefix_def)
qed simp_all

declare fields_from.simps [simp del]

definition go_fields :: "string \<Rightarrow> string list" where
  "go_fields s = fields_from [] s"

lemma fields_from_nonempty: "f \<in> set (fields_from cur s) \<Longrightarrow> f \<noteq> []"
proof (induction cur s rule: fields_from.induct)
  case (1 cur s)
  show ?case
  proof (cases s)
    case Nil
    with "1.prems" show ?thesis
      by (auto simp: fields_from.simps [of cur "[]"] emit_field_def split: if_splits)
  next
    case (Cons c r)
    with 1 show ?thesis
      by (auto simp: fields_from.simps [of cur "c # r"] emit_field_def split: option.splits if_splits)
  qed
qed

section \<open>Searching and cutting\<close>

fun has_prefix :: "string \<Rightarrow> string \<Rightarrow> bool" where
  "has_prefix s p = prefix p s"

definition has_suffix :: "string \<Rightarrow> string \<Rightarrow> bool" where
  "has_suffix s p = suffix p s"

fun contains_str :: "string \<Rightarrow> string \<Rightarrow> bool" where
  "contains_str [] p = (p = [])"
| "contains_str (c # s) p = (prefix p (c # s) \<or> contains_str s p)"

lemma contains_str_sublist: "contains_str s p \<longleftrightarrow> sublist p s"
  by (induction s) (auto simp: sublist_Cons_right)

text \<open>\<open>strings.Cut\<close> at the first occurrence: the text before, the text after, and whether found.\<close>

fun go_cut :: "string \<Rightarrow> string \<Rightarrow> string \<times> string \<times> bool" where
  "go_cut [] sep = (if sep = [] then ([], [], True) else ([], [], False))"
| "go_cut (c # s) sep =
     (if prefix sep (c # s) then ([], drop (length sep) (c # s), True)
      else (case go_cut s sep of (b, a, f) \<Rightarrow> (c # b, a, f)))"

lemma go_cut_found: "go_cut s sep = (b, a, True) \<Longrightarrow> s = b @ sep @ a"
proof (induction s arbitrary: b)
  case Nil
  then show ?case by (auto split: if_splits)
next
  case (Cons c s)
  then show ?case
    by (auto split: if_splits prod.splits simp: prefix_def)
qed

lemma go_cut_not_found: "go_cut s sep = (b, a, False) \<Longrightarrow> b = s \<and> a = [] \<and> \<not> sublist sep s"
proof (induction s arbitrary: b a)
  case Nil
  then show ?case by (auto split: if_splits)
next
  case (Cons c s)
  then show ?case
    by (auto split: if_splits prod.splits simp: sublist_Cons_right)
qed

text \<open>\<open>strings.Split\<close> by a one-byte separator: always at least one piece.\<close>

fun split_on :: "char \<Rightarrow> string \<Rightarrow> string list" where
  "split_on d [] = [[]]"
| "split_on d (c # s) =
     (if c = d then [] # split_on d s
      else (case split_on d s of [] \<Rightarrow> [[c]] | p # ps \<Rightarrow> (c # p) # ps))"

lemma split_on_nonempty [simp]: "split_on d s \<noteq> []"
  by (induction s) (auto split: list.splits)

lemma split_on_no_sep: "p \<in> set (split_on d s) \<Longrightarrow> d \<notin> set p"
proof (induction s arbitrary: p)
  case Nil
  then show ?case by simp
next
  case (Cons c s)
  then show ?case by (auto split: if_splits list.splits)
qed

fun join_with :: "string \<Rightarrow> string list \<Rightarrow> string" where
  "join_with sep [] = []"
| "join_with sep [p] = p"
| "join_with sep (p # ps) = p @ sep @ join_with sep ps"

lemma join_with_Cons: "ps \<noteq> [] \<Longrightarrow> join_with sep (p # ps) = p @ sep @ join_with sep ps"
  by (cases ps) simp_all

lemma join_split_on: "join_with [d] (split_on d s) = s"
proof (induction s)
  case Nil
  show ?case by simp
next
  case (Cons c s)
  show ?case
  proof (cases "c = d")
    case True
    with Cons show ?thesis by (simp add: join_with_Cons)
  next
    case False
    obtain p ps where ps: "split_on d s = p # ps" by (cases "split_on d s") auto
    with Cons.IH have "join_with [d] (p # ps) = s" by simp
    with ps False show ?thesis by (cases ps) auto
  qed
qed

text \<open>\<open>strings.ReplaceAll\<close> for a non-empty pattern.\<close>

function replace_all :: "string \<Rightarrow> string \<Rightarrow> string \<Rightarrow> string" where
  "replace_all [] p r = []"
| "replace_all (c # s) p r =
     (if p \<noteq> [] \<and> prefix p (c # s) then r @ replace_all (drop (length p) (c # s)) p r
      else c # replace_all s p r)"
  by pat_completeness auto
termination
  by (relation "measure (\<lambda>(s, p, r). length s)") (auto simp: prefix_def neq_Nil_conv)

section \<open>ASCII case\<close>

definition lower_char :: "char \<Rightarrow> char" where
  "lower_char c = (let n = (of_char c :: nat) in if 65 \<le> n \<and> n \<le> 90 then char_of (n + 32) else c)"

definition ascii_equal_fold :: "string \<Rightarrow> string \<Rightarrow> bool" where
  "ascii_equal_fold s t = (map lower_char s = map lower_char t)"

section \<open>Decimal integers\<close>

definition digit_of :: "char \<Rightarrow> nat option" where
  "digit_of c = (let n = (of_char c :: nat) in if 48 \<le> n \<and> n \<le> 57 then Some (n - 48) else None)"

fun digits_value :: "nat \<Rightarrow> string \<Rightarrow> nat option" where
  "digits_value acc [] = Some acc"
| "digits_value acc (c # s) =
     (case digit_of c of None \<Rightarrow> None | Some d \<Rightarrow> digits_value (10 * acc + d) s)"

text \<open>\<open>strconv.Atoi\<close>: an optional sign and at least one digit, within the range of \<open>int\<close>.\<close>

definition go_atoi :: "string \<Rightarrow> int option" where
  "go_atoi s =
     (let (neg, ds) = (case s of c # r \<Rightarrow> if c = CHR ''-'' then (True, r)
                                   else if c = CHR ''+'' then (False, r) else (False, s)
                       | [] \<Rightarrow> (False, []))
      in if ds = [] then None
         else case digits_value 0 ds of None \<Rightarrow> None
          | Some n \<Rightarrow> let v = (if neg then - int n else int n)
                     in if - (2 ^ 63) \<le> v \<and> v < 2 ^ 63 then Some v else None)"

text \<open>\<open>strconv.Itoa\<close> for a non-negative number.\<close>

fun nat_text :: "nat \<Rightarrow> string" where
  "nat_text n = (if n < 10 then [char_of (48 + n)] else nat_text (n div 10) @ [char_of (48 + n mod 10)])"

declare nat_text.simps [simp del]

definition int_text :: "int \<Rightarrow> string" where
  "int_text i = (if i < 0 then CHR ''-'' # nat_text (nat (- i)) else nat_text (nat i))"

lemma digit_of_char: "n < 10 \<Longrightarrow> digit_of (char_of (48 + n)) = Some n"
  by (simp add: digit_of_def of_char_of)

lemma digits_value_append:
  "digits_value a (s @ t) = (case digits_value a s of None \<Rightarrow> None | Some b \<Rightarrow> digits_value b t)"
  by (induction s arbitrary: a) (auto split: option.splits)

lemma digits_value_nat_text: "digits_value 0 (nat_text n) = Some n"
proof (induction n rule: nat_text.induct)
  case (1 n)
  show ?case
  proof (cases "n < 10")
    case True
    then show ?thesis by (simp add: nat_text.simps [of n] digit_of_char)
  next
    case False
    with 1 have "digits_value 0 (nat_text (n div 10)) = Some (n div 10)" by simp
    with False show ?thesis
      by (simp add: nat_text.simps [of n] digits_value_append digit_of_char)
  qed
qed

lemma nat_text_head: "\<exists>c r. nat_text n = c # r \<and> digit_of c \<noteq> None"
proof (induction n rule: nat_text.induct)
  case (1 n)
  then show ?case
    by (cases "n < 10") (auto simp: nat_text.simps [of n] digit_of_char)
qed

lemma atoi_nat_text:
  assumes "n < 2 ^ 63"
  shows "go_atoi (nat_text n) = Some (int n)"
proof -
  obtain c r where cr: "nat_text n = c # r" "digit_of c \<noteq> None" using nat_text_head by blast
  then have "c \<noteq> CHR ''-''" "c \<noteq> CHR ''+''" by (auto simp: digit_of_def)
  moreover have "digits_value 0 (c # r) = Some n" using digits_value_nat_text [of n] cr(1) by simp
  ultimately show ?thesis using assms cr(1)
    by (simp add: go_atoi_def del: digits_value.simps)
qed

lemma nat_text_inject: "nat_text m = nat_text n \<Longrightarrow> m = n"
  by (metis digits_value_nat_text option.inject)

end
