(* ===== verification/Policy.thy ===== *)
theory Policy
  imports Go_Strings
begin

text \<open>
  \<open>internal/policy/policy.go\<close>: the actions of the runtime, the interface \<open>PermissionPolicy\<close> as the
  locale \<open>permission_policy\<close> with the one promise that the executor relies on, and the default
  policy, which interprets it.
\<close>

section \<open>Actions and decisions\<close>

text \<open>\<open>EffectText []\<close> is the empty effect, which counts as side-effecting.\<close>

datatype effect = EffectReadOnly | EffectIdempotent | EffectSideEffecting | EffectText string

datatype action_kind =
    ActionToolCall
  | ActionPushWebhook
  | ActionPushQueue
  | ActionSinkFile
  | ActionSinkLog
  | ActionKindText string

record action =
  ac_kind :: action_kind
  ac_tool_name :: string
  ac_tool_call_id :: string
  ac_tool_kind :: string
  ac_target :: string
  ac_effect :: effect
  ac_idempotency_key :: string
  ac_side_effects :: "string list"
  ac_requires_approval :: bool

record decision =
  de_allowed :: bool
  de_reason :: string
  de_suspended :: bool
  de_approval_id :: string

definition err_denied :: go_error where "err_denied = ErrVar ''permission denied''"

definition allow :: "string \<Rightarrow> decision" where
  "allow reason = \<lparr>de_allowed = True, de_reason = trim_space reason, de_suspended = False, de_approval_id = []\<rparr>"

definition deny :: "string \<Rightarrow> decision" where
  "deny reason = (let reason = trim_space reason;
                      reason = (if reason = [] then err_text err_denied else reason)
    in \<lparr>de_allowed = False, de_reason = reason, de_suspended = False, de_approval_id = []\<rparr>)"

definition normalize_effect :: "effect \<Rightarrow> effect" where
  "normalize_effect e = (if e = EffectText [] then EffectSideEffecting else e)"

definition clean_labels :: "string list \<Rightarrow> string list" where
  "clean_labels labels = filter (\<lambda>l. l \<noteq> []) (map trim_space labels)"

definition clean_targets :: "string list \<Rightarrow> string list" where
  "clean_targets targets = filter (\<lambda>t. t \<noteq> []) (map trim_space targets)"

section \<open>The default policy\<close>

record default_policy =
  dp_allowed_side_effects :: "string list"
  dp_allowed_targets :: "(string, string list) gomap"

datatype policy_option = AllowSideEffects "string list" | AllowSideEffectTargets string "string list"

fun apply_policy_option :: "policy_option \<Rightarrow> default_policy \<Rightarrow> default_policy" where
  "apply_policy_option (AllowSideEffects labels) p =
     p \<lparr>dp_allowed_side_effects := dp_allowed_side_effects p @ clean_labels labels\<rparr>"
| "apply_policy_option (AllowSideEffectTargets label targets) p =
     (let label = trim_space label in
      if label = [] then p
      else p \<lparr>dp_allowed_targets := mput label (bucket (dp_allowed_targets p) label @ clean_targets targets)
                 (dp_allowed_targets p)\<rparr>)"

text \<open>A nil option, here \<open>None\<close>, is passed over.\<close>

definition new_default_policy :: "policy_option option list \<Rightarrow> default_policy" where
  "new_default_policy options =
     fold (\<lambda>opt p. case opt of None \<Rightarrow> p | Some f \<Rightarrow> apply_policy_option f p) options
       \<lparr>dp_allowed_side_effects = [], dp_allowed_targets = []\<rparr>"

definition target_allowed :: "default_policy \<Rightarrow> string \<Rightarrow> string \<Rightarrow> bool" where
  "target_allowed p label target =
     (let allowed = bucket (dp_allowed_targets p) label in
      if length allowed = 0 then False
      else if target \<in> set allowed then True
      else ''*'' \<in> set allowed)"

definition action_requires_target_scope :: "action \<Rightarrow> bool" where
  "action_requires_target_scope a =
     (case ac_kind a of
        ActionPushWebhook \<Rightarrow> True
      | ActionPushQueue \<Rightarrow> True
      | ActionSinkFile \<Rightarrow> True
      | ActionToolCall \<Rightarrow> trim_space (ac_target a) \<noteq> []
      | _ \<Rightarrow> False)"

fun check_side_effects :: "default_policy \<Rightarrow> action \<Rightarrow> string \<Rightarrow> string list \<Rightarrow> decision" where
  "check_side_effects p a label [] = allow (label @ '' explicitly allowed'')"
| "check_side_effects p a label (l # ls) =
     (if action_requires_target_scope a
      then let target = trim_space (ac_target a) in
        if target = [] then deny (''side effect '' @ l @ '' requires a target'')
        else if \<not> target_allowed p l target then deny (''side effect '' @ l @ '' target is not allowed'')
        else check_side_effects p a label ls
      else if l \<notin> set (dp_allowed_side_effects p) then deny (''side effect '' @ l @ '' is not allowed'')
      else check_side_effects p a label ls)"

definition authorize_side_effecting_action :: "default_policy \<Rightarrow> action \<Rightarrow> string \<Rightarrow> decision" where
  "authorize_side_effecting_action p a label =
     (let sideEffects = clean_labels (ac_side_effects a) in
      if length sideEffects = 0 then deny (label @ '' requires explicit side effect labels'')
      else check_side_effects p a label sideEffects)"

definition authorize_side_effecting_tool :: "default_policy \<Rightarrow> action \<Rightarrow> decision" where
  "authorize_side_effecting_tool p a = authorize_side_effecting_action p a ''side-effecting tool''"

definition default_authorize :: "default_policy \<Rightarrow> go_error option \<Rightarrow> action \<Rightarrow> decision \<times> go_error option" where
  "default_authorize p ctx a =
     (case ctx of
        Some err \<Rightarrow> (\<lparr>de_allowed = False, de_reason = [], de_suspended = False, de_approval_id = []\<rparr>, Some err)
      | None \<Rightarrow>
        (case ac_kind a of
           ActionToolCall \<Rightarrow>
             if trim_space (ac_tool_name a) = [] then deny ''tool name is required''
             else if ac_requires_approval a then deny ''tool requires explicit approval''
             else if trim_space (ac_tool_kind a) = ''subagent'' then allow ''declared subagent call allowed''
             else (case normalize_effect (ac_effect a) of
               EffectReadOnly \<Rightarrow> allow ''read-only tool call allowed''
             | EffectIdempotent \<Rightarrow>
                 if trim_space (ac_idempotency_key a) = [] then deny ''idempotent tool requires an idempotency key''
                 else allow ''idempotent tool call allowed''
             | EffectSideEffecting \<Rightarrow> authorize_side_effecting_tool p a
             | _ \<Rightarrow> deny ''tool effect is not allowed'')
         | ActionPushWebhook \<Rightarrow> authorize_side_effecting_action p a ''webhook push''
         | ActionPushQueue \<Rightarrow> authorize_side_effecting_action p a ''queue push''
         | ActionSinkFile \<Rightarrow> authorize_side_effecting_action p a ''file sink''
         | ActionSinkLog \<Rightarrow> allow ''redacted log sink allowed''
         | _ \<Rightarrow> deny ''action kind is not allowed'', None))"

section \<open>What the policy permits\<close>

lemma allow_simps [simp]: "de_allowed (allow r)" "\<not> de_suspended (allow r)"
  by (simp_all add: allow_def)

lemma deny_simps [simp]: "\<not> de_allowed (deny r)" "\<not> de_suspended (deny r)"
  by (simp_all add: deny_def Let_def)

text \<open>The side effect \<open>l\<close> of an action is covered by the policy, for its target when it has one.\<close>

definition covered :: "default_policy \<Rightarrow> action \<Rightarrow> string \<Rightarrow> bool" where
  "covered p a l =
     (if action_requires_target_scope a
      then trim_space (ac_target a) \<noteq> []
        \<and> (trim_space (ac_target a) \<in> set (bucket (dp_allowed_targets p) l) \<or> ''*'' \<in> set (bucket (dp_allowed_targets p) l))
      else l \<in> set (dp_allowed_side_effects p))"

definition declares_covered_effects :: "default_policy \<Rightarrow> action \<Rightarrow> bool" where
  "declares_covered_effects p a =
     (clean_labels (ac_side_effects a) \<noteq> [] \<and> (\<forall>l \<in> set (clean_labels (ac_side_effects a)). covered p a l))"

lemma check_side_effects_allowed:
  "de_allowed (check_side_effects p a label ls) \<longleftrightarrow> (\<forall>l \<in> set ls. covered p a l)"
  by (induction ls) (auto simp: covered_def target_allowed_def Let_def)

lemma check_side_effects_not_suspended: "\<not> de_suspended (check_side_effects p a label ls)"
  by (induction ls) (auto simp: Let_def)

lemma authorize_side_effecting_allowed:
  "de_allowed (authorize_side_effecting_action p a label) \<longleftrightarrow> declares_covered_effects p a"
  by (auto simp: authorize_side_effecting_action_def declares_covered_effects_def check_side_effects_allowed Let_def)

lemma authorize_side_effecting_not_suspended: "\<not> de_suspended (authorize_side_effecting_action p a label)"
  by (simp add: authorize_side_effecting_action_def check_side_effects_not_suspended Let_def)

text \<open>
  What the default policy permits, exactly: a named tool call that needs no approval and is a
  declared sub-agent, read-only, idempotent with a key, or side-effecting with declared labels that
  are all covered (for its target, when it names one); a push or file sink whose labels are all
  covered for its target; and the log sink. Everything else is denied, and nothing is suspended.
\<close>

theorem default_policy_permits:
  "snd (default_authorize p None a) = None \<and> \<not> de_suspended (fst (default_authorize p None a))
   \<and> (de_allowed (fst (default_authorize p None a)) \<longleftrightarrow>
      (ac_kind a = ActionToolCall \<and> trim_space (ac_tool_name a) \<noteq> [] \<and> \<not> ac_requires_approval a
        \<and> (trim_space (ac_tool_kind a) = ''subagent'' \<or> ac_effect a = EffectReadOnly
           \<or> (ac_effect a = EffectIdempotent \<and> trim_space (ac_idempotency_key a) \<noteq> [])
           \<or> (ac_effect a \<in> {EffectSideEffecting, EffectText []} \<and> declares_covered_effects p a)))
      \<or> (ac_kind a \<in> {ActionPushWebhook, ActionPushQueue, ActionSinkFile} \<and> declares_covered_effects p a)
      \<or> ac_kind a = ActionSinkLog)"
  by (cases "ac_kind a"; cases "ac_effect a")
    (auto simp: default_authorize_def normalize_effect_def authorize_side_effecting_tool_def
      authorize_side_effecting_allowed authorize_side_effecting_not_suspended Let_def)

section \<open>The interface\<close>

text \<open>
  The promise of a \<open>PermissionPolicy\<close> on which the approval flow rests: a tool call that requires
  approval is never simply allowed, and an error allows nothing.
\<close>

locale permission_policy =
  fixes authorize :: "go_error option \<Rightarrow> action \<Rightarrow> decision \<times> go_error option"
  assumes approval_not_allowed: "ac_kind a = ActionToolCall \<Longrightarrow> ac_requires_approval a \<Longrightarrow>
      \<not> de_allowed (fst (authorize ctx a))"
    and error_not_allowed: "snd (authorize ctx a) \<noteq> None \<Longrightarrow> \<not> de_allowed (fst (authorize ctx a))"
begin

lemma allowed_without_approval:
  "de_allowed (fst (authorize ctx a)) \<Longrightarrow> ac_kind a = ActionToolCall \<Longrightarrow> \<not> ac_requires_approval a"
  using approval_not_allowed by blast

end

interpretation default_pol: permission_policy "default_authorize p"
proof
  show "ac_kind a = ActionToolCall \<Longrightarrow> ac_requires_approval a \<Longrightarrow> \<not> de_allowed (fst (default_authorize p ctx a))" for ctx a
    by (auto simp: default_authorize_def split: option.splits)
  show "snd (default_authorize p ctx a) \<noteq> None \<Longrightarrow> \<not> de_allowed (fst (default_authorize p ctx a))" for ctx a
    by (auto simp: default_authorize_def split: option.splits)
qed

text \<open>
  Closed by default: with no option the policy permits no side effect at all, on any target.
\<close>

theorem default_policy_closed:
  "\<not> declares_covered_effects (new_default_policy []) a"
  by (auto simp: declares_covered_effects_def covered_def new_default_policy_def bucket_def neq_Nil_conv)

text \<open>
  An option only widens the policy, and only by what it names: after allowing targets for a label, a
  scoped effect is covered exactly when it was before or its label is that label and its target (or
  the wildcard) is one of those targets.
\<close>

theorem allow_targets_exact:
  assumes "action_requires_target_scope a" "trim_space (ac_target a) \<noteq> []" "trim_space label \<noteq> []"
  shows "covered (apply_policy_option (AllowSideEffectTargets label targets) p) a l \<longleftrightarrow>
    covered p a l \<or> (l = trim_space label
      \<and> (trim_space (ac_target a) \<in> set (clean_targets targets) \<or> ''*'' \<in> set (clean_targets targets)))"
  using assms by (auto simp: covered_def Let_def)

definition push_action :: action where
  "push_action = \<lparr>ac_kind = ActionPushWebhook, ac_tool_name = [], ac_tool_call_id = [], ac_tool_kind = [],
     ac_target = ''https://h'', ac_effect = EffectText [], ac_idempotency_key = [], ac_side_effects = [''net''],
     ac_requires_approval = False\<rparr>"

theorem allow_targets_exact_witness:
  "covered (apply_policy_option (AllowSideEffectTargets ''net'' [''https://h'']) (new_default_policy [])) push_action ''net''"
proof -
  have t: "trim_space ''https://h'' = ''https://h''" "trim_space ''net'' = ''net''" by code_simp+
  show ?thesis
    by (subst allow_targets_exact) (simp_all add: push_action_def action_requires_target_scope_def t clean_targets_def)
qed

end
