(* ===== verification/Go_Regex.thy ===== *)
theory Go_Regex
  imports Go_Strings
begin

text \<open>
  As much of Go's \<open>regexp\<close> package as the redaction patterns use: a backtracking matcher
  that lists the matches of an expression at a position in the order of preference of the
  leftmost-first semantics, and \<open>ReplaceAllString\<close>. A position is the character before it
  (for \<open>\b\<close>) and the text after it; a match is the position it ends at and the groups it
  captured, the latest first. Every iteration of a repetition must consume a character, which
  no pattern of the source can tell from Go's matcher.
\<close>

datatype regex =
    RChar "char \<Rightarrow> bool"
  | RText string
  | RSeq regex regex
  | RAlt regex regex
  | RStar regex
  | RLazyStar regex
  | RGroup nat regex
  | RBoundary
  | REmpty

type_synonym cursor = "char option \<times> string"
type_synonym groups = "(nat \<times> string) list"

definition word_char :: "char \<Rightarrow> bool" where
  "word_char c = ((CHR ''a'' \<le> c \<and> c \<le> CHR ''z'') \<or> (CHR ''A'' \<le> c \<and> c \<le> CHR ''Z'')
     \<or> (CHR ''0'' \<le> c \<and> c \<le> CHR ''9'') \<or> c = CHR ''_'')"

definition at_boundary :: "cursor \<Rightarrow> bool" where
  "at_boundary p = ((case fst p of None \<Rightarrow> False | Some c \<Rightarrow> word_char c)
     \<noteq> (case snd p of [] \<Rightarrow> False | c # _ \<Rightarrow> word_char c))"

fun advance :: "string \<Rightarrow> cursor \<Rightarrow> cursor option" where
  "advance [] p = Some p"
| "advance (w # ws) (pr, []) = None"
| "advance (w # ws) (pr, c # s) = (if w = c then advance ws (Some c, s) else None)"

text \<open>The repetitions, on the matcher of their body; the fuel is the length of the text.\<close>

fun rep_greedy ::
  "nat \<Rightarrow> (cursor \<Rightarrow> groups \<Rightarrow> (cursor \<times> groups) list) \<Rightarrow> cursor \<Rightarrow> groups \<Rightarrow> (cursor \<times> groups) list" where
  "rep_greedy 0 f p g = [(p, g)]"
| "rep_greedy (Suc n) f p g =
     concat (map (\<lambda>(q, h). if length (snd q) < length (snd p) then rep_greedy n f q h else []) (f p g))
     @ [(p, g)]"

fun rep_lazy ::
  "nat \<Rightarrow> (cursor \<Rightarrow> groups \<Rightarrow> (cursor \<times> groups) list) \<Rightarrow> cursor \<Rightarrow> groups \<Rightarrow> (cursor \<times> groups) list" where
  "rep_lazy 0 f p g = [(p, g)]"
| "rep_lazy (Suc n) f p g = (p, g) #
     concat (map (\<lambda>(q, h). if length (snd q) < length (snd p) then rep_lazy n f q h else []) (f p g))"

primrec rmatch :: "regex \<Rightarrow> cursor \<Rightarrow> groups \<Rightarrow> (cursor \<times> groups) list" where
  "rmatch (RChar P) p g =
     (case snd p of [] \<Rightarrow> [] | c # s \<Rightarrow> if P c then [((Some c, s), g)] else [])"
| "rmatch (RText w) p g = (case advance w p of None \<Rightarrow> [] | Some q \<Rightarrow> [(q, g)])"
| "rmatch (RSeq a b) p g = concat (map (\<lambda>(q, h). rmatch b q h) (rmatch a p g))"
| "rmatch (RAlt a b) p g = rmatch a p g @ rmatch b p g"
| "rmatch (RStar a) p g = rep_greedy (length (snd p)) (rmatch a) p g"
| "rmatch (RLazyStar a) p g = rep_lazy (length (snd p)) (rmatch a) p g"
| "rmatch (RGroup n a) p g =
     map (\<lambda>(q, h). (q, (n, take (length (snd p) - length (snd q)) (snd p)) # h)) (rmatch a p g)"
| "rmatch RBoundary p g = (if at_boundary p then [(p, g)] else [])"
| "rmatch REmpty p g = [(p, g)]"

definition ROpt :: "regex \<Rightarrow> regex" where "ROpt a = RAlt a REmpty"
definition RPlus :: "regex \<Rightarrow> regex" where "RPlus a = RSeq a (RStar a)"

fun RSeqs :: "regex list \<Rightarrow> regex" where
  "RSeqs [] = REmpty"
| "RSeqs [a] = a"
| "RSeqs (a # as) = RSeq a (RSeqs as)"

fun RAlts :: "regex list \<Rightarrow> regex" where
  "RAlts [] = RChar (\<lambda>_. False)"
| "RAlts [a] = a"
| "RAlts (a # as) = RAlt a (RAlts as)"

definition RTimes :: "nat \<Rightarrow> regex \<Rightarrow> regex" where "RTimes n a = RSeqs (replicate n a)"
definition RAtLeast :: "nat \<Rightarrow> regex \<Rightarrow> regex" where "RAtLeast n a = RSeq (RTimes n a) (RStar a)"

text \<open>
  A letter under \<open>(?i)\<close>: both cases, and for \<open>k\<close> and \<open>s\<close> the Kelvin sign and the
  long s, which fold to them.
\<close>

definition RFold :: "char \<Rightarrow> regex" where
  "RFold c =
     (if c = CHR ''k'' then RAlts [RText ''k'', RText ''K'', RText [CHR 0xE2, CHR 0x84, CHR 0xAA]]
      else if c = CHR ''s'' then RAlts [RText ''s'', RText ''S'', RText [CHR 0xC5, CHR 0xBF]]
      else RChar (\<lambda>d. lower_char d = c))"

definition RWord :: "string \<Rightarrow> regex" where "RWord w = RSeqs (map RFold w)"

definition regex_space :: "char \<Rightarrow> bool" where
  "regex_space c = (c \<in> {CHR 0x09, CHR 0x0A, CHR 0x0C, CHR 0x0D, CHR 0x20})"

definition ROneOf :: "string \<Rightarrow> regex" where "ROneOf cs = RChar (\<lambda>c. c \<in> set cs)"
definition RSpaces :: regex where "RSpaces = RStar (RChar regex_space)"

text \<open>
  \<open>ReplaceAllString\<close>: scanning from the left, the preferred match at the first position that
  has one is replaced and the scan goes on after it. A match that consumes nothing is passed
  over.
\<close>

function replace_matches :: "regex \<Rightarrow> (groups \<Rightarrow> string) \<Rightarrow> cursor \<Rightarrow> string" where
  "replace_matches r f (pr, []) = []"
| "replace_matches r f (pr, c # s) =
     (case rmatch r (pr, c # s) [] of
        (q, g) # _ \<Rightarrow>
          (if length (snd q) < length (c # s) then f g @ replace_matches r f q
           else c # replace_matches r f (Some c, s))
      | [] \<Rightarrow> c # replace_matches r f (Some c, s))"
  by pat_completeness auto
termination by (relation "measure (\<lambda>(r, f, p). length (snd p))") auto

definition regex_replace_all :: "regex \<Rightarrow> (groups \<Rightarrow> string) \<Rightarrow> string \<Rightarrow> string" where
  "regex_replace_all r f s = replace_matches r f (None, s)"

definition group_text :: "groups \<Rightarrow> nat \<Rightarrow> string" where
  "group_text g n = (case map_of g n of None \<Rightarrow> [] | Some t \<Rightarrow> t)"

section \<open>Facts\<close>

lemma advance_Some:
  "advance w p = Some q \<Longrightarrow> snd p = w @ snd q"
  by (induction w p rule: advance.induct) (auto split: if_splits)

lemma rep_greedy_step:
  "(q, h) \<in> set (rep_greedy (Suc n) f p g) \<Longrightarrow>
     q = p \<or> (\<exists>q' h'. (q', h') \<in> set (f p g) \<and> (q, h) \<in> set (rep_greedy n f q' h'))"
  by (auto split: if_splits)

lemma rep_greedy_suffix:
  assumes "\<And>p g q h. (q, h) \<in> set (f p g) \<Longrightarrow> suffix (snd q) (snd p)"
    "(q, h) \<in> set (rep_greedy n f p g)"
  shows "suffix (snd q) (snd p)"
  using assms(2)
proof (induction n arbitrary: p g)
  case (Suc n)
  from rep_greedy_step [OF Suc.prems] show ?case
    using Suc.IH assms(1) suffix_order.trans by blast
qed simp

lemma rep_lazy_step:
  "(q, h) \<in> set (rep_lazy (Suc n) f p g) \<Longrightarrow>
     q = p \<or> (\<exists>q' h'. (q', h') \<in> set (f p g) \<and> (q, h) \<in> set (rep_lazy n f q' h'))"
  by (auto split: if_splits)

lemma rep_lazy_suffix:
  assumes "\<And>p g q h. (q, h) \<in> set (f p g) \<Longrightarrow> suffix (snd q) (snd p)"
    "(q, h) \<in> set (rep_lazy n f p g)"
  shows "suffix (snd q) (snd p)"
  using assms(2)
proof (induction n arbitrary: p g)
  case (Suc n)
  from rep_lazy_step [OF Suc.prems] show ?case
    using Suc.IH assms(1) suffix_order.trans by blast
qed simp

text \<open>A match ends at a position of the text it started in.\<close>

lemma rmatch_suffix: "(q, h) \<in> set (rmatch r p g) \<Longrightarrow> suffix (snd q) (snd p)"
proof (induction r arbitrary: p g q h)
  case (RText w)
  then have "advance w p = Some q" by (auto split: option.splits)
  then show ?case by (auto simp: suffix_def dest: advance_Some)
next
  case (RSeq a b)
  then obtain q' h' where "(q', h') \<in> set (rmatch a p g)" "(q, h) \<in> set (rmatch b q' h')" by auto
  with RSeq.IH show ?case using suffix_order.trans by blast
next
  case (RStar r)
  then show ?case using rep_greedy_suffix [of "rmatch r"] by simp
next
  case (RLazyStar r)
  then show ?case using rep_lazy_suffix [of "rmatch r"] by simp
next
  case (RChar P)
  then show ?case by (cases "snd p") (auto simp: suffix_ConsI split: if_splits)
next
  case (RGroup n r)
  then obtain h' where "(q, h') \<in> set (rmatch r p g)" by auto
  with RGroup.IH show ?case by blast
qed (auto split: if_splits)

text \<open>A text without a match is left as it is.\<close>

lemma replace_matches_none:
  assumes "\<And>pr t. suffix t s \<Longrightarrow> t \<noteq> [] \<Longrightarrow> rmatch r (pr, t) [] = []"
  shows "replace_matches r f (pr, s) = s"
  using assms
proof (induction s arbitrary: pr)
  case (Cons c s)
  then show ?case by (simp add: suffix_ConsI)
qed simp

end
