(* ===== verification/Redaction.thy ===== *)
theory Redaction
  imports Go_Regex
begin

text \<open>
  \<open>internal/events/event_stream.go\<close>: which payload keys are sensitive, the credential patterns
  and \<open>RedactText\<close>, \<open>RedactJSONText\<close>, and the sanitisation of event payloads.

  \<open>os.Environ()\<close> and the codec of \<open>encoding/json\<close> are the record \<open>ambient\<close>; a Go
  \<open>any\<close> is \<open>go_any\<close>, with a constructor for each dynamic type the code switches on.
\<close>

section \<open>Sensitive keys\<close>

definition is_upper :: "char \<Rightarrow> bool" where "is_upper c = (CHR ''A'' \<le> c \<and> c \<le> CHR ''Z'')"
definition is_lower :: "char \<Rightarrow> bool" where "is_lower c = (CHR ''a'' \<le> c \<and> c \<le> CHR ''z'')"
definition is_digit :: "char \<Rightarrow> bool" where "is_digit c = (CHR ''0'' \<le> c \<and> c \<le> CHR ''9'')"

text \<open>\<open>prev\<close> is the rune before, if any, and \<open>next\<close> the text after the upper-case letter.\<close>

definition should_insert_camel_separator :: "char option \<Rightarrow> string \<Rightarrow> bool \<Rightarrow> bool" where
  "should_insert_camel_separator prev rest previousWasSeparator =
     (case prev of
        None \<Rightarrow> False
      | Some p \<Rightarrow>
          if previousWasSeparator then False
          else if is_lower p \<or> is_digit p then True
          else if is_upper p then (case rest of [] \<Rightarrow> False | n # _ \<Rightarrow> is_lower n)
          else False)"

fun normalize_key_from :: "char option \<Rightarrow> bool \<Rightarrow> string \<Rightarrow> string \<Rightarrow> string" where
  "normalize_key_from prev sep b [] = b"
| "normalize_key_from prev sep b (r # rs) =
     (if r \<in> {CHR ''-'', CHR ''_'', CHR ''.'', CHR '' ''}
      then (if b \<noteq> [] \<and> \<not> sep then normalize_key_from (Some r) True (b @ ''_'') rs
            else normalize_key_from (Some r) sep b rs)
      else if is_upper r
      then normalize_key_from (Some r) False
             (b @ (if should_insert_camel_separator prev rs sep then ''_'' else []) @ [lower_char r]) rs
      else normalize_key_from (Some r) False (b @ [r]) rs)"

definition trim_underscores :: "string \<Rightarrow> string" where
  "trim_underscores s = rev (dropWhile ((=) (CHR ''_'')) (rev (dropWhile ((=) (CHR ''_'')) s)))"

definition normalize_sensitive_payload_key :: "string \<Rightarrow> string" where
  "normalize_sensitive_payload_key key =
     (let key = trim_space key in if key = [] then [] else trim_underscores (normalize_key_from None False [] key))"

definition sensitive_names :: "string list" where
  "sensitive_names = [''authorization'', ''token'', ''api_key'', ''password'', ''passwd'', ''secret'', ''cookie'',
     ''private_key'', ''secret_key'', ''client_secret'', ''access_key'', ''auth_token'', ''bearer_token'',
     ''credential'', ''credentials'', ''database_url'', ''database_dsn'', ''connection_string'', ''dsn'']"

definition sensitive_suffixes :: "string list" where
  "sensitive_suffixes = [''_token'', ''_secret'', ''_password'', ''_key'', ''_cookie'', ''_credential'',
     ''_credentials'', ''_dsn'', ''_connection_string'']"

definition is_sensitive_payload_key :: "string \<Rightarrow> bool" where
  "is_sensitive_payload_key key =
     (let normalized = normalize_sensitive_payload_key key
      in normalized \<in> set sensitive_names
         \<or> list_ex (has_suffix normalized) sensitive_suffixes
         \<or> contains_str normalized ''api_key'')"

section \<open>Credential patterns\<close>

definition redacted :: string where "redacted = ''[REDACTED]''"

text \<open>The class \<open>[^,\s"'}]\<close>.\<close>

definition value_char :: regex where
  "value_char = RChar (\<lambda>c. \<not> regex_space c \<and> c \<notin> {CHR '','', CHR 0x22, CHR 0x27, CHR ''}''})"

definition assign_sep :: regex where "assign_sep = RSeqs [RSpaces, ROneOf '':='', RSpaces]"

definition opt_dash :: regex where "opt_dash = ROpt (ROneOf ''-_'')"

definition authorization_pattern :: regex where
  "authorization_pattern = RSeqs [RBoundary, RWord ''authorization'', RGroup 1 assign_sep,
     ROpt (RSeqs [RWord ''bearer'', RPlus (RChar regex_space)]), RPlus value_char]"

definition sensitive_assignment_pattern :: regex where
  "sensitive_assignment_pattern = RSeqs [RBoundary,
     RGroup 1 (RAlts [
       RSeqs [ROpt (RAlts [RWord ''access'', RWord ''refresh'', RWord ''session'']), opt_dash, RWord ''token''],
       RSeqs [RWord ''api'', opt_dash, RWord ''key''],
       RWord ''password'',
       RSeqs [RWord ''secret'', ROpt (RSeqs [opt_dash, RWord ''key''])],
       RSeqs [RWord ''client'', opt_dash, RWord ''secret''],
       RSeqs [RWord ''private'', opt_dash, RWord ''key''],
       RWord ''cookie'']),
     RGroup 2 assign_sep, RGroup 3 (RPlus value_char)]"

definition bearer_token_pattern :: regex where
  "bearer_token_pattern = RSeqs [RBoundary, RWord ''bearer'', RPlus (RChar regex_space), RPlus value_char]"

definition known_credential_pattern :: regex where
  "known_credential_pattern = RSeqs [RBoundary,
     RAlts [
       RSeqs [RText ''sk-'', RAtLeast 16 (RChar (\<lambda>c. is_upper c \<or> is_lower c \<or> is_digit c \<or> c \<in> set ''_-''))],
       RSeqs [RText ''AKIA'', RTimes 16 (RChar (\<lambda>c. is_upper c \<or> is_digit c))],
       RSeqs [RText ''gh'', ROneOf ''pousr'', RText ''_'',
         RAtLeast 20 (RChar (\<lambda>c. is_upper c \<or> is_lower c \<or> is_digit c \<or> c = CHR ''_''))]],
     RBoundary]"

definition private_key_pattern :: regex where
  "private_key_pattern =
     (let label = RStar (RChar (\<lambda>c. is_upper c \<or> is_digit c \<or> c = CHR '' ''))
      in RSeqs [RText ''-----BEGIN '', label, RText ''PRIVATE KEY-----'', RLazyStar (RChar (\<lambda>_. True)),
           RText ''-----END '', label, RText ''PRIVATE KEY-----''])"

section \<open>Text and JSON\<close>

datatype json =
    JNull
  | JBool bool
  | JNum string
  | JStr string
  | JArr "json list"
  | JObj "(string \<times> json) list"

text \<open>The environment of the process, the JSON codec (numbers stay opaque) and \<open>strconv.ParseFloat\<close>.\<close>

record ambient =
  environ :: "string list"
  json_decode :: "string \<Rightarrow> json option"
  json_encode :: "json \<Rightarrow> string option"
  parse_float :: "string \<Rightarrow> rat"

fun env_values_from :: "string list \<Rightarrow> string list \<Rightarrow> string list" where
  "env_values_from seen [] = seen"
| "env_values_from seen (entry # entries) =
     (case go_cut entry ''='' of (key, value, ok) \<Rightarrow>
        if \<not> ok \<or> length value < 4 \<or> \<not> is_sensitive_payload_key key then env_values_from seen entries
        else if value \<in> set seen then env_values_from seen entries
        else env_values_from (seen @ [value]) entries)"

definition sensitive_environment_values :: "ambient \<Rightarrow> string list" where
  "sensitive_environment_values E = env_values_from [] (environ E)"

definition redact_sensitive_string :: "ambient \<Rightarrow> string \<Rightarrow> string" where
  "redact_sensitive_string E value =
     (if value = [] then value
      else let r = regex_replace_all authorization_pattern
                     (\<lambda>g. ''Authorization'' @ group_text g 1 @ redacted) value;
               r = regex_replace_all bearer_token_pattern (\<lambda>_. ''Bearer '' @ redacted) r;
               r = regex_replace_all sensitive_assignment_pattern
                     (\<lambda>g. group_text g 1 @ group_text g 2 @ redacted) r;
               r = regex_replace_all known_credential_pattern (\<lambda>_. redacted) r;
               r = regex_replace_all private_key_pattern (\<lambda>_. redacted) r
           in fold (\<lambda>secret r. replace_all secret redacted r) (sensitive_environment_values E) r)"

definition redact_text :: "ambient \<Rightarrow> string \<Rightarrow> string" where
  "redact_text E value = redact_sensitive_string E value"

function redact_json_value :: "ambient \<Rightarrow> string \<Rightarrow> json \<Rightarrow> json \<times> bool" where
  "redact_json_value E key value =
     (if is_sensitive_payload_key key then (JStr redacted, True)
      else case value of
        JObj m \<Rightarrow>
          (let rs = map (\<lambda>(k, v). (k, redact_json_value E k v)) m
           in (JObj (map (\<lambda>(k, r). (k, fst r)) rs), list_ex (\<lambda>(k, r). snd r) rs))
      | JArr xs \<Rightarrow>
          (let rs = map (redact_json_value E []) xs in (JArr (map fst rs), list_ex snd rs))
      | JStr s \<Rightarrow> (let r = redact_text E s in (JStr r, r \<noteq> s))
      | _ \<Rightarrow> (value, False))"
  by pat_completeness auto
termination
  by (relation "measure (\<lambda>(E, k, v). size v)") (auto intro: size_list_pair size_list_elem)

definition redact_json_text :: "ambient \<Rightarrow> string \<Rightarrow> string" where
  "redact_json_text E value =
     (case json_decode E value of
        None \<Rightarrow> redact_text E value
      | Some decoded \<Rightarrow>
          (case redact_json_value E [] decoded of (result, changed) \<Rightarrow>
             if \<not> changed then value
             else case json_encode E result of None \<Rightarrow> redact_text E value | Some encoded \<Rightarrow> encoded))"

section \<open>Payloads\<close>

text \<open>
  The dynamic types of a payload value: the ones \<open>sanitizePayloadValue\<close> switches on, the maps
  and slices of other static types that it reaches by reflection, and everything else.
\<close>

datatype go_any =
    AnyMap "(string \<times> go_any) list"
  | AnyStrMap "(string \<times> string) list"
  | AnyStrsMap "(string \<times> string list) list"
  | AnyList "go_any list"
  | AnyStrs "string list"
  | AnyBytes string
  | AnyStr string
  | AnyReflStrMap "(string \<times> string) list"
  | AnyReflStrsMap "(string \<times> string list) list"
  | AnyReflMap "(string \<times> go_any) list"
  | AnyReflSlice "go_any list"
  | AnyNum rat
  | AnyBool bool
  | AnyNil
  | AnyOpaque string

type_synonym payload = "(string \<times> go_any) list"

definition sanitize_str_entry :: "ambient \<Rightarrow> string \<times> string \<Rightarrow> string \<times> string" where
  "sanitize_str_entry E = (\<lambda>(k, v). (k, if is_sensitive_payload_key k then redacted else redact_json_text E v))"

definition sanitize_strs_entry :: "ambient \<Rightarrow> string \<times> string list \<Rightarrow> string \<times> string list" where
  "sanitize_strs_entry E =
     (\<lambda>(k, vs). (k, if is_sensitive_payload_key k then [redacted] else map (redact_json_text E) vs))"

function sanitize_payload_value :: "ambient \<Rightarrow> string \<Rightarrow> go_any \<Rightarrow> go_any" where
  "sanitize_payload_value E key val =
     (if is_sensitive_payload_key key then AnyStr redacted
      else case val of
        AnyMap m \<Rightarrow> AnyMap (map (\<lambda>(k, v). (k, sanitize_payload_value E k v)) m)
      | AnyStrMap m \<Rightarrow> AnyStrMap (map (sanitize_str_entry E) m)
      | AnyStrsMap m \<Rightarrow> AnyStrsMap (map (sanitize_strs_entry E) m)
      | AnyList xs \<Rightarrow> AnyList (map (sanitize_payload_value E []) xs)
      | AnyStrs xs \<Rightarrow> AnyStrs (map (redact_json_text E) xs)
      | AnyBytes s \<Rightarrow> AnyBytes (redact_json_text E s)
      | AnyStr s \<Rightarrow> AnyStr (redact_json_text E s)
      | AnyReflStrMap m \<Rightarrow> AnyStrMap (map (sanitize_str_entry E) m)
      | AnyReflStrsMap m \<Rightarrow> AnyStrsMap (map (sanitize_strs_entry E) m)
      | AnyReflMap m \<Rightarrow>
          AnyMap (map (\<lambda>(k, v). (k, if is_sensitive_payload_key k then AnyStr redacted
                                   else sanitize_payload_value E k v)) m)
      | AnyReflSlice xs \<Rightarrow> AnyList (map (sanitize_payload_value E []) xs)
      | _ \<Rightarrow> val)"
  by pat_completeness auto
termination
  by (relation "measure (\<lambda>(E, k, v). size v)") (auto intro: size_list_pair size_list_elem)

declare redact_json_value.simps [simp del] sanitize_payload_value.simps [simp del]

definition sanitize_payload :: "ambient \<Rightarrow> payload \<Rightarrow> payload" where
  "sanitize_payload E m = map (\<lambda>(k, v). (k, sanitize_payload_value E k v)) m"

section \<open>What redaction guarantees\<close>

text \<open>
  The masking contract: at every depth, a map entry under a sensitive key holds the mask.
\<close>

fun json_masked :: "json \<Rightarrow> bool" where
  "json_masked (JObj m) = (\<forall>(k, v) \<in> set m. (is_sensitive_payload_key k \<longrightarrow> v = JStr redacted) \<and> json_masked v)"
| "json_masked (JArr xs) = (\<forall>x \<in> set xs. json_masked x)"
| "json_masked _ = True"

fun any_masked :: "go_any \<Rightarrow> bool" where
  "any_masked (AnyMap m) =
     (\<forall>(k, v) \<in> set m. (is_sensitive_payload_key k \<longrightarrow> v = AnyStr redacted) \<and> any_masked v)"
| "any_masked (AnyStrMap m) = (\<forall>(k, v) \<in> set m. is_sensitive_payload_key k \<longrightarrow> v = redacted)"
| "any_masked (AnyStrsMap m) = (\<forall>(k, v) \<in> set m. is_sensitive_payload_key k \<longrightarrow> v = [redacted])"
| "any_masked (AnyList xs) = (\<forall>x \<in> set xs. any_masked x)"
| "any_masked (AnyReflStrMap m) = False"
| "any_masked (AnyReflStrsMap m) = False"
| "any_masked (AnyReflMap m) = False"
| "any_masked (AnyReflSlice xs) = False"
| "any_masked _ = True"

definition payload_masked :: "payload \<Rightarrow> bool" where
  "payload_masked p = any_masked (AnyMap p)"

lemma redact_json_value_masked:
  "json_masked (fst (redact_json_value E key v))
   \<and> (is_sensitive_payload_key key \<longrightarrow> fst (redact_json_value E key v) = JStr redacted)"
proof (induction E key v rule: redact_json_value.induct)
  case (1 E key v)
  show ?case
  proof (cases "is_sensitive_payload_key key")
    case False
    with 1 show ?thesis
      by (subst (1 2) redact_json_value.simps) (fastforce split: json.splits simp: Let_def)
  qed (simp add: redact_json_value.simps)
qed

lemma sanitize_payload_value_masked:
  "any_masked (sanitize_payload_value E key v)
   \<and> (is_sensitive_payload_key key \<longrightarrow> sanitize_payload_value E key v = AnyStr redacted)"
proof (induction E key v rule: sanitize_payload_value.induct)
  case (1 E key v)
  show ?case
  proof (cases "is_sensitive_payload_key key")
    case False
    with 1 show ?thesis
      by (subst (1 2) sanitize_payload_value.simps)
        (cases v; fastforce simp: sanitize_str_entry_def sanitize_strs_entry_def)
  qed (simp add: sanitize_payload_value.simps)
qed

text \<open>C39
  The sanitised payload keeps the keys of the payload, and masks it: at every depth, through maps
  and slices of every static type, the value under a sensitive key is \<open>[REDACTED]\<close>.
\<close>

theorem sanitize_payload_masks:
  "payload_masked (sanitize_payload E p) \<and> map fst (sanitize_payload E p) = map fst p"
  using sanitize_payload_value_masked
  by (fastforce simp: payload_masked_def sanitize_payload_def comp_def case_prod_unfold)

lemma redact_json_value_unchanged:
  "\<not> snd (redact_json_value E key v) \<Longrightarrow> fst (redact_json_value E key v) = v"
proof (induction E key v rule: redact_json_value.induct)
  case (1 E key v)
  show ?case
  proof (cases "is_sensitive_payload_key key")
    case True
    with 1 show ?thesis by (simp add: redact_json_value.simps)
  next
    case False
    show ?thesis
    proof (cases v)
      case (JObj m)
      have "\<forall>(k, w) \<in> set m. fst (redact_json_value E k w) = w"
        using 1 False JObj by (fastforce simp: redact_json_value.simps [of E key] Let_def list_ex_iff)
      then have "map (\<lambda>(k, w). (k, fst (redact_json_value E k w))) m = m"
        by (intro map_idI) auto
      with False JObj show ?thesis
        by (simp add: redact_json_value.simps [of E key] Let_def comp_def case_prod_unfold)
    next
      case (JArr xs)
      have "\<forall>x \<in> set xs. fst (redact_json_value E [] x) = x"
        using 1 False JArr by (fastforce simp: redact_json_value.simps [of E key] Let_def list_ex_iff)
      then have "map (\<lambda>x. fst (redact_json_value E [] x)) xs = xs" by (intro map_idI) auto
      with False JArr show ?thesis
        by (simp add: redact_json_value.simps [of E key] Let_def comp_def)
    qed (use 1 False in \<open>auto simp: redact_json_value.simps [of E key] Let_def\<close>)
  qed
qed

text \<open>
  The redaction of a text that is JSON is the text of a document in which every member under a
  sensitive key is masked: the text itself when nothing had to change, and otherwise the encoding
  of the redacted document (only a document that cannot be encoded falls back to the patterns).
\<close>

theorem redact_json_text_masks:
  assumes "json_decode E s = Some j"
  shows "\<exists>j'. json_masked j' \<and>
    (redact_json_text E s = s \<and> j' = j
     \<or> json_encode E j' = Some (redact_json_text E s)
     \<or> json_encode E j' = None \<and> redact_json_text E s = redact_text E s)"
  using assms redact_json_value_masked [of E "[]" j] redact_json_value_unchanged [of E "[]" j]
  by (cases "redact_json_value E [] j") (auto simp: redact_json_text_def split: option.splits)

definition token_document :: ambient where
  "token_document = \<lparr>environ = [],
     json_decode = (\<lambda>_. Some (JObj [(''userToken'', JStr ''abc'')])),
     json_encode = (\<lambda>j. if j = JObj [(''userToken'', JStr redacted)] then Some ''masked'' else None), parse_float = (\<lambda>_. 0)\<rparr>"

theorem redact_json_text_masks_witness:
  "redact_json_text token_document ''document'' = ''masked''
   \<and> (\<exists>j'. json_masked j' \<and> json_encode token_document j' = Some ''masked'')"
proof -
  have r: "redact_json_text token_document ''document'' = ''masked''" by code_simp
  have "\<not> json_masked (JObj [(''userToken'', JStr ''abc'')])" by code_simp
  then show ?thesis
    using redact_json_text_masks [of token_document "''document''" "JObj [(''userToken'', JStr ''abc'')]"] r
    by (auto simp: token_document_def split: if_splits)
qed

text \<open>
  Free text keeps credentials of an \<open>Authorization\<close> header whose scheme is not \<open>Bearer\<close>:
  the pattern stops at the first blank, so only the name of the scheme is masked.
\<close>

theorem redact_text_keeps_basic_credentials:
  "redact_text \<lparr>environ = [], json_decode = \<lambda>_. None, json_encode = \<lambda>_. None, parse_float = \<lambda>_. 0\<rparr>
     ''Authorization: Basic pw'' = ''Authorization: [REDACTED] pw''"
  by code_simp

end
