(* ===== verification/Ring_Buffer.thy ===== *)
theory Ring_Buffer
  imports Go_Prelude
begin

text \<open>
  The fixed-capacity circular buffer of \<open>internal/events/event_buffer.go\<close>, also the shape of the
  start records in \<open>event_stream_metrics.go\<close>. Its contract is the locale \<open>bounded_log\<close>: a list
  that forgets its oldest element when it is full.
\<close>

record 'a ring =
  ring_entries :: "'a list"
  ring_start :: nat
  ring_size :: nat

definition new_ring :: "'a \<Rightarrow> nat \<Rightarrow> 'a ring" where
  "new_ring zero capacity = \<lparr>ring_entries = replicate capacity zero, ring_start = 0, ring_size = 0\<rparr>"

definition ring_append :: "'a \<Rightarrow> 'a ring \<Rightarrow> 'a ring" where
  "ring_append x b =
     (if ring_size b < length (ring_entries b)
      then b \<lparr>ring_entries := (ring_entries b)[(ring_start b + ring_size b) mod length (ring_entries b) := x],
               ring_size := ring_size b + 1\<rparr>
      else b \<lparr>ring_entries := (ring_entries b)[ring_start b := x],
               ring_start := (ring_start b + 1) mod length (ring_entries b)\<rparr>)"

definition ring_capacity :: "'a ring \<Rightarrow> nat" where
  "ring_capacity b = length (ring_entries b)"

text \<open>\<open>each\<close>: the visitor returns whether to go on; the fuel is the number of entries left.\<close>

fun ring_visit :: "'a ring \<Rightarrow> (nat \<Rightarrow> 'a \<Rightarrow> 's \<Rightarrow> 's \<times> bool) \<Rightarrow> nat \<Rightarrow> nat \<Rightarrow> 's \<Rightarrow> 's" where
  "ring_visit b visit i 0 s = s"
| "ring_visit b visit i (Suc n) s =
     (case visit i (ring_entries b ! ((ring_start b + i) mod length (ring_entries b))) s of
        (s', go) \<Rightarrow> if go then ring_visit b visit (Suc i) n s' else s')"

definition ring_each :: "'a ring \<Rightarrow> (nat \<Rightarrow> 'a \<Rightarrow> 's \<Rightarrow> 's \<times> bool) \<Rightarrow> 's \<Rightarrow> 's" where
  "ring_each b visit s = ring_visit b visit 0 (ring_size b) s"

section \<open>The contract\<close>

locale bounded_log =
  fixes empty :: "nat \<Rightarrow> 'b"
    and app :: "'a \<Rightarrow> 'b \<Rightarrow> 'b"
    and content :: "'b \<Rightarrow> 'a list"
    and cap :: "'b \<Rightarrow> nat"
    and inv :: "'b \<Rightarrow> bool"
  assumes empty_inv: "0 < n \<Longrightarrow> inv (empty n)"
    and empty_content: "content (empty n) = []"
    and empty_cap: "cap (empty n) = n"
    and app_inv: "inv b \<Longrightarrow> inv (app x b)"
    and app_cap: "cap (app x b) = cap b"
    and app_content: "inv b \<Longrightarrow> content (app x b) =
      (if length (content b) < cap b then content b @ [x] else tl (content b) @ [x])"
    and content_bound: "inv b \<Longrightarrow> length (content b) \<le> cap b"
    and cap_pos: "inv b \<Longrightarrow> 0 < cap b"
begin

lemma app_set: "inv b \<Longrightarrow> set (content (app x b)) \<subseteq> insert x (set (content b))"
  by (cases "content b") (auto simp: app_content)

lemma app_last: "inv b \<Longrightarrow> last (content (app x b)) = x"
  by (simp add: app_content)

lemma app_sorted:
  assumes "inv b" "sorted_wrt (<) (map f (content b))" "\<forall>y \<in> set (content b). f y < f x"
  shows "sorted_wrt (<) (map f (content (app x b)))"
  using assms by (cases "content b") (auto simp: app_content sorted_wrt_append)

lemma fold_app_inv: "inv b \<Longrightarrow> inv (fold app xs b) \<and> cap (fold app xs b) = cap b"
  by (induction xs arbitrary: b) (auto simp: app_inv app_cap)

lemma app_drop:
  assumes "inv b" "content b = drop (length ys - cap b) ys"
  shows "content (app x b) = drop (length (ys @ [x]) - cap b) (ys @ [x])"
proof (cases "length ys < cap b")
  case True
  with assms show ?thesis by (simp add: app_content)
next
  case False
  then have "tl (drop (length ys - cap b) ys) = drop (Suc (length ys) - cap b) ys"
    by (simp add: drop_Suc tl_drop Suc_diff_le)
  with False assms cap_pos [OF assms(1)] show ?thesis by (simp add: app_content)
qed

lemma fold_app_content:
  assumes "0 < n"
  shows "content (fold app xs (empty n)) = drop (length xs - n) xs"
proof (induction xs rule: rev_induct)
  case Nil
  show ?case by (simp add: empty_content)
next
  case (snoc x xs)
  have "inv (fold app xs (empty n))" "cap (fold app xs (empty n)) = n"
    using fold_app_inv [OF empty_inv [OF assms]] by (simp_all add: empty_cap)
  with app_drop [of "fold app xs (empty n)" xs x] snoc show ?case by simp
qed

end

section \<open>The ring implements it\<close>

definition ring_content :: "'a ring \<Rightarrow> 'a list" where
  "ring_content b = map (\<lambda>i. ring_entries b ! ((ring_start b + i) mod length (ring_entries b))) [0..<ring_size b]"

definition ring_inv :: "'a ring \<Rightarrow> bool" where
  "ring_inv b = (0 < length (ring_entries b) \<and> ring_start b < length (ring_entries b)
     \<and> ring_size b \<le> length (ring_entries b))"

lemma mod_add_inj:
  fixes s i j n :: nat
  assumes "i < n" "j < n" "(s + i) mod n = (s + j) mod n"
  shows "i = j"
proof -
  have "a = b" if "a \<le> b" "b < n" "(s + a) mod n = (s + b) mod n" for a b
  proof -
    have "n dvd (s + b) - (s + a)"
      using that by (metis mod_eq_dvd_iff_nat add_le_cancel_left)
    then have "n dvd b - a" by simp
    with that show ?thesis by (meson diff_is_0_eq dvd_imp_le le_antisym less_imp_diff_less not_le zero_less_iff_neq_zero)
  qed
  with assms show ?thesis by (metis nat_le_linear)
qed

lemma length_ring_content [simp]: "length (ring_content b) = ring_size b"
  by (simp add: ring_content_def)

lemma ring_content_nth:
  "i < ring_size b \<Longrightarrow> ring_content b ! i = ring_entries b ! ((ring_start b + i) mod length (ring_entries b))"
  by (simp add: ring_content_def)

lemma ring_append_room:
  assumes "ring_inv b" "ring_size b < ring_capacity b"
  shows "ring_content (ring_append x b) = ring_content b @ [x]"
proof (rule nth_equalityI)
  show "length (ring_content (ring_append x b)) = length (ring_content b @ [x])"
    using assms by (simp add: ring_append_def ring_capacity_def)
  fix i assume "i < length (ring_content (ring_append x b))"
  then have i: "i < Suc (ring_size b)" using assms by (simp add: ring_append_def ring_capacity_def)
  have "(ring_start b + ring_size b) mod length (ring_entries b) \<noteq> (ring_start b + i) mod length (ring_entries b)"
    if "i < ring_size b"
    using mod_add_inj [of i "length (ring_entries b)" "ring_size b" "ring_start b"] that assms
    by (auto simp: ring_capacity_def)
  moreover have "(ring_start b + ring_size b) mod length (ring_entries b) < length (ring_entries b)"
    using assms by (simp add: ring_inv_def)
  ultimately show "ring_content (ring_append x b) ! i = (ring_content b @ [x]) ! i"
    using i assms by (auto simp: ring_append_def ring_capacity_def ring_content_def nth_append less_Suc_eq)
qed

lemma ring_append_full:
  assumes "ring_inv b" "\<not> ring_size b < ring_capacity b"
  shows "ring_content (ring_append x b) = tl (ring_content b) @ [x]"
proof (rule nth_equalityI)
  let ?n = "length (ring_entries b)"
  have n: "ring_size b = ?n" "0 < ?n" "ring_start b < ?n"
    using assms by (auto simp: ring_inv_def ring_capacity_def)
  show "length (ring_content (ring_append x b)) = length (tl (ring_content b) @ [x])"
    using n by (simp add: ring_append_def)
  fix i assume "i < length (ring_content (ring_append x b))"
  then have i: "i < ?n" using n by (simp add: ring_append_def)
  have at: "ring_content (ring_append x b) ! i = (ring_entries b)[ring_start b := x] ! ((ring_start b + Suc i) mod ?n)"
    using i n by (simp add: ring_append_def ring_content_def mod_add_left_eq)
  show "ring_content (ring_append x b) ! i = (tl (ring_content b) @ [x]) ! i"
  proof (cases "Suc i = ?n")
    case True
    then have "(ring_start b + Suc i) mod ?n = ring_start b" using n by simp
    moreover have "i = length (tl (ring_content b))" using True n by simp
    ultimately show ?thesis using at n by (simp only: nth_append_length) simp
  next
    case False
    then have "(ring_start b + Suc i) mod ?n \<noteq> ring_start b"
      using mod_add_inj [of "Suc i" ?n 0 "ring_start b"] i n by auto
    moreover have "i < length (ring_entries b) - 1" using False i by simp
    ultimately show ?thesis using at n by (simp add: nth_append nth_tl ring_content_nth)
  qed
qed

interpretation ring_log: bounded_log "new_ring z" ring_append ring_content ring_capacity ring_inv
proof
  fix b :: "'a ring" and x :: 'a and n :: nat
  show "0 < n \<Longrightarrow> ring_inv (new_ring z n)" by (simp add: ring_inv_def new_ring_def)
  show "ring_content (new_ring z n) = []" by (simp add: ring_content_def new_ring_def)
  show "ring_capacity (new_ring z n) = n" by (simp add: ring_capacity_def new_ring_def)
  show "ring_inv b \<Longrightarrow> ring_inv (ring_append x b)" by (auto simp: ring_inv_def ring_append_def)
  show "ring_capacity (ring_append x b) = ring_capacity b" by (simp add: ring_capacity_def ring_append_def)
  show "ring_inv b \<Longrightarrow> ring_content (ring_append x b) =
      (if length (ring_content b) < ring_capacity b then ring_content b @ [x] else tl (ring_content b) @ [x])"
    by (simp add: ring_append_room ring_append_full)
  show "ring_inv b \<Longrightarrow> length (ring_content b) \<le> ring_capacity b" by (simp add: ring_inv_def ring_capacity_def)
  show "ring_inv b \<Longrightarrow> 0 < ring_capacity b" by (simp add: ring_inv_def ring_capacity_def)
qed

text \<open>
  The circular buffer is a bounded log: after any number of appends it holds exactly the latest
  entries, as many as its capacity, in order.
\<close>

theorem ring_holds_latest:
  assumes "0 < n"
  shows "ring_content (fold ring_append xs (new_ring z n)) = drop (length xs - n) xs"
  by (rule ring_log.fold_app_content [OF assms])

theorem ring_holds_latest_witness:
  "ring_content (fold ring_append [1, 2, 3, 4, 5] (new_ring 0 3)) = [3, 4, 5 :: nat]"
  using ring_holds_latest [of 3 "[1, 2, 3, 4, 5 :: nat]" 0] by simp

text \<open>Visiting the entries is a walk over the content that may stop early.\<close>

fun walk :: "(nat \<Rightarrow> 'a \<Rightarrow> 's \<Rightarrow> 's \<times> bool) \<Rightarrow> nat \<Rightarrow> 'a list \<Rightarrow> 's \<Rightarrow> 's" where
  "walk visit i [] s = s"
| "walk visit i (x # xs) s = (case visit i x s of (s', go) \<Rightarrow> if go then walk visit (Suc i) xs s' else s')"

lemma ring_visit_walk:
  "i + n = ring_size b \<Longrightarrow> ring_visit b visit i n s = walk visit i (drop i (ring_content b)) s"
proof (induction n arbitrary: i s)
  case (Suc n)
  then have "drop i (ring_content b) = ring_content b ! i # drop (Suc i) (ring_content b)"
    by (intro Cons_nth_drop_Suc [symmetric]) simp
  with Suc show ?case by (simp add: ring_content_nth split: prod.splits)
qed simp

lemma ring_each_walk: "ring_each b visit s = walk visit 0 (ring_content b) s"
  by (simp add: ring_each_def ring_visit_walk)

end
