(* ===== verification/Go_Time.thy ===== *)
theory Go_Time
  imports Go_Prelude
begin

text \<open>
  The UTC calendar of Go's \<open>time\<close> package, as far as the cron schedules read it: the minute,
  hour, weekday and civil date of an instant, truncation to the minute and \<open>AddDate\<close> by whole
  years. Instants are nanoseconds since 0001-01-01 00:00 UTC, Go's zero instant, and the civil
  date is computed by the 400/100/4/1-year decomposition of the day number.
\<close>

definition minute_ns :: duration where "minute_ns = 60 * 1000000000"
definition hour_ns :: duration where "hour_ns = 60 * minute_ns"
definition day_ns :: duration where "day_ns = 24 * hour_ns"

text \<open>The zero instant of Unix time, in nanoseconds since the zero instant of Go.\<close>

definition unix_epoch :: go_time where "unix_epoch = 62135596800 * 1000000000"

definition time_minute :: "go_time \<Rightarrow> int" where "time_minute t = t div minute_ns mod 60"
definition time_hour :: "go_time \<Rightarrow> int" where "time_hour t = t div hour_ns mod 24"
definition day_number :: "go_time \<Rightarrow> int" where "day_number t = t div day_ns"

text \<open>Day 0 was a Monday, and Go counts weekdays from Sunday.\<close>

definition time_weekday :: "go_time \<Rightarrow> int" where "time_weekday t = (day_number t + 1) mod 7"

definition truncate_minute :: "go_time \<Rightarrow> go_time" where
  "truncate_minute t = t - t mod minute_ns"

section \<open>Civil dates\<close>

definition is_leap :: "int \<Rightarrow> bool" where
  "is_leap y = (y mod 4 = 0 \<and> (y mod 100 \<noteq> 0 \<or> y mod 400 = 0))"

definition days_before_year :: "int \<Rightarrow> int" where
  "days_before_year y = 365 * (y - 1) + (y - 1) div 4 - (y - 1) div 100 + (y - 1) div 400"

definition month_lengths :: "int \<Rightarrow> int list" where
  "month_lengths y = [31, if is_leap y then 29 else 28, 31, 30, 31, 30, 31, 31, 30, 31, 30, 31]"

text \<open>The year and the day within it (from 0) of a day number.\<close>

definition year_day :: "int \<Rightarrow> int \<times> int" where
  "year_day d =
     (let n400 = d div 146097; d = d mod 146097;
          n100 = min (d div 36524) 3; d = d - 36524 * n100;
          n4 = d div 1461; d = d mod 1461;
          n1 = min (d div 365) 3; d = d - 365 * n1
      in (400 * n400 + 100 * n100 + 4 * n4 + n1 + 1, d))"

fun month_day :: "int list \<Rightarrow> int \<Rightarrow> int \<Rightarrow> int \<times> int" where
  "month_day [] m d = (m, d + 1)"
| "month_day (l # ls) m d = (if d < l then (m, d + 1) else month_day ls (m + 1) (d - l))"

definition civil_date :: "go_time \<Rightarrow> int \<times> int \<times> int" where
  "civil_date t = (let (y, yd) = year_day (day_number t); (m, d) = month_day (month_lengths y) 1 yd
     in (y, m, d))"

definition time_month :: "go_time \<Rightarrow> int" where "time_month t = fst (snd (civil_date t))"
definition time_day :: "go_time \<Rightarrow> int" where "time_day t = snd (snd (civil_date t))"

text \<open>
  \<open>Date(y, m, d)\<close> plus the time of day; a day past the end of its month runs into the next,
  which is how \<open>AddDate\<close> normalises 29 February.
\<close>

definition day_of_civil :: "int \<Rightarrow> int \<Rightarrow> int \<Rightarrow> int" where
  "day_of_civil y m d = days_before_year y + sum_list (take (nat (m - 1)) (month_lengths y)) + (d - 1)"

definition add_years :: "go_time \<Rightarrow> int \<Rightarrow> go_time" where
  "add_years t n = (case civil_date t of (y, m, d) \<Rightarrow>
     day_of_civil (y + n) m d * day_ns + t mod day_ns)"

section \<open>Properties of the calendar\<close>

lemma minute_ns_pos [simp]: "0 < minute_ns"
  by (simp add: minute_ns_def)

lemma day_ns_pos [simp]: "0 < day_ns"
  by (simp add: day_ns_def hour_ns_def minute_ns_def)

lemma time_minute_range: "0 \<le> time_minute t \<and> time_minute t \<le> 59"
  by (simp add: time_minute_def)

lemma time_hour_range: "0 \<le> time_hour t \<and> time_hour t \<le> 23"
  by (simp add: time_hour_def)

lemma time_weekday_range: "0 \<le> time_weekday t \<and> time_weekday t \<le> 6"
  by (simp add: time_weekday_def)

lemma truncate_minute_le: "truncate_minute t \<le> t"
  by (simp add: truncate_minute_def)

lemma truncate_minute_gt: "t < truncate_minute t + minute_ns"
  using pos_mod_bound [of minute_ns t] by (simp add: truncate_minute_def)

lemma truncate_minute_dvd: "minute_ns dvd truncate_minute t"
  by (simp add: truncate_minute_def minus_mod_eq_mult_div)

lemma next_minute_least:
  assumes "minute_ns dvd u" "t < u"
  shows "truncate_minute t + minute_ns \<le> u"
proof -
  obtain k where k: "u = minute_ns * k" using assms(1) by blast
  have t: "truncate_minute t = minute_ns * (t div minute_ns)"
    by (simp add: truncate_minute_def minus_mod_eq_mult_div)
  have "minute_ns * (t div minute_ns) \<le> t" using truncate_minute_le [of t] by (simp add: t)
  also have "t < minute_ns * k" using assms(2) k by simp
  finally have "t div minute_ns + 1 \<le> k" by simp
  then have "minute_ns * (t div minute_ns + 1) \<le> minute_ns * k" by simp
  then show ?thesis by (simp add: k t distrib_left)
qed

lemma month_day_range:
  assumes "0 \<le> d" "d < sum_list ls" "\<forall>l \<in> set ls. 0 < l \<and> l \<le> 31"
  shows "m \<le> fst (month_day ls m d) \<and> fst (month_day ls m d) < m + int (length ls)
    \<and> 1 \<le> snd (month_day ls m d) \<and> snd (month_day ls m d) \<le> 31"
  using assms
proof (induction ls m d rule: month_day.induct)
  case (1 m d)
  then show ?case by simp
next
  case (2 l ls m d)
  show ?case
  proof (cases "d < l")
    case True
    with "2.prems" show ?thesis by simp
  next
    case False
    with 2 show ?thesis by force
  qed
qed

lemma sum_month_lengths: "sum_list (month_lengths y) = (if is_leap y then 366 else 365)"
  by (simp add: month_lengths_def)

text \<open>The day number is the days before its year plus the day within the year.\<close>

lemma year_day_number:
  assumes "year_day d = (y, yd)"
  shows "d = days_before_year y + yd"
proof -
  define n400 where "n400 = d div 146097"
  define r400 where "r400 = d mod 146097"
  define n100 where "n100 = min (r400 div 36524) 3"
  define r100 where "r100 = r400 - 36524 * n100"
  define n4 where "n4 = r100 div 1461"
  define r4 where "r4 = r100 mod 1461"
  define n1 where "n1 = min (r4 div 365) 3"
  have "year_day d = (400 * n400 + 100 * n100 + 4 * n4 + n1 + 1, r4 - 365 * n1)"
    by (simp only: year_day_def Let_def n400_def r400_def n100_def r100_def n4_def r4_def n1_def)
  then have y: "y = 400 * n400 + 100 * n100 + 4 * n4 + n1 + 1" and yd: "yd = r4 - 365 * n1"
    using assms by auto
  have r400: "0 \<le> r400" "r400 < 146097" by (simp_all add: r400_def)
  then have n100: "0 \<le> n100" "n100 \<le> 3" by (simp_all add: n100_def pos_imp_zdiv_nonneg_iff)
  have r100: "0 \<le> r100 \<and> r100 \<le> 36524"
  proof (cases "r400 div 36524 \<le> 3")
    case True
    then have "r100 = r400 mod 36524" by (simp add: r100_def n100_def minus_mult_div_eq_mod)
    then show ?thesis by simp
  next
    case False
    then have "r100 = r400 - 36524 * 3" by (simp add: r100_def n100_def)
    moreover have "4 * 36524 \<le> r400" using False by linarith
    ultimately show ?thesis using r400 by simp
  qed
  then have n4: "0 \<le> n4" "n4 \<le> 24"
    using zdiv_mono1 [of r100 36524 1461] by (simp_all add: n4_def pos_imp_zdiv_nonneg_iff)
  have r4: "0 \<le> r4" "r4 < 1461" by (simp_all add: r4_def)
  then have n1: "0 \<le> n1" "n1 \<le> 3" by (simp_all add: n1_def pos_imp_zdiv_nonneg_iff)
  have "(y - 1) div 4 = 100 * n400 + 25 * n100 + n4"
    using y n1 by (intro int_div_pos_eq [where r = n1]) simp_all
  moreover have "(y - 1) div 100 = 4 * n400 + n100"
    using y n1 n4 by (intro int_div_pos_eq [where r = "4 * n4 + n1"]) simp_all
  moreover have "(y - 1) div 400 = n400"
    using y n1 n4 n100 by (intro int_div_pos_eq [where r = "100 * n100 + 4 * n4 + n1"]) simp_all
  moreover have "d = 146097 * n400 + r400" by (simp add: n400_def r400_def)
  moreover have "r400 = 36524 * n100 + r100" by (simp add: r100_def)
  moreover have "r100 = 1461 * n4 + r4" by (simp add: n4_def r4_def)
  ultimately show ?thesis using y yd by (simp add: days_before_year_def)
qed

end
