(* ===== verification/Event_Stream.thy ===== *)
theory Event_Stream
  imports Redaction Ring_Buffer Go_Time
begin

text \<open>
  \<open>internal/events\<close>: the event kinds, the in-process \<open>EventStream\<close> with its retention window,
  its lifetime counters and metric summaries, and the \<open>HookBus\<close>.

  A subscriber is named by a string; \<open>stream_append\<close> returns the deliveries it makes. The
  persistence callback acts on a world \<open>'w\<close>. The metric sums, \<open>float64\<close> in the code, are exact
  rationals here.
\<close>

section \<open>Events and kinds\<close>

record event =
  ev_id :: u64
  ev_at :: go_time
  ev_kind :: string
  ev_exec_id :: string
  ev_session_id :: string
  ev_trace_id :: string
  ev_payload :: payload

definition zero_event :: event where
  "zero_event = \<lparr>ev_id = 0, ev_at = zero_time, ev_kind = [], ev_exec_id = [], ev_session_id = [],
     ev_trace_id = [], ev_payload = []\<rparr>"

definition legacy_event_kinds :: "(string, string) gomap" where
  "legacy_event_kinds =
     [(''session_start'', ''session_started''), (''session_end'', ''session_saved''),
      (''before_llm'', ''llm_call_started''), (''after_llm'', ''llm_call_completed''),
      (''before_tool'', ''tool_call_started''), (''after_tool'', ''tool_call_completed''),
      (''schema_violation'', ''schema_validation_failed''), (''subagent_stop'', ''task_completed'')]"

definition canonical_kind :: "string \<Rightarrow> string" where
  "canonical_kind kind = (case mget legacy_event_kinds kind of Some canonical \<Rightarrow> canonical | None \<Rightarrow> kind)"

definition sanitize_event :: "ambient \<Rightarrow> event \<Rightarrow> event" where
  "sanitize_event E e = e \<lparr>ev_kind := canonical_kind (ev_kind e), ev_payload := sanitize_payload E (ev_payload e)\<rparr>"

definition clone_event :: "ambient \<Rightarrow> event \<Rightarrow> event" where
  "clone_event E e = sanitize_event E e"

definition err_event_id_exhausted :: go_error where
  "err_event_id_exhausted = ErrVar ''event stream ID space exhausted''"

section \<open>Metrics\<close>

definition lifetime_counter_kinds :: "string list" where
  "lifetime_counter_kinds =
     [''pipeline_started'', ''pipeline_completed'', ''pipeline_failed'', ''pipe_started'', ''pipe_completed'',
      ''pipe_failed'', ''llm_call_started'', ''llm_call_completed'', ''llm_call_failed'', ''tool_call_started'',
      ''tool_call_completed'', ''tool_call_failed'', ''stream_dead_lettered'', ''stream_redelivered'']"

definition is_lifetime_counter_kind :: "string \<Rightarrow> bool" where
  "is_lifetime_counter_kind kind = (canonical_kind kind \<in> set lifetime_counter_kinds)"

record metric_summary =
  ms_sum :: rat
  ms_count :: u64

record metric_state =
  mt_open :: "(string, u64 \<times> int) gomap"
  mt_start_order :: "(string \<times> u64) ring"
  mt_llm_call :: metric_summary
  mt_pipeline :: metric_summary
  mt_pipe :: metric_summary
  mt_tool_call :: metric_summary

definition zero_summary :: metric_summary where "zero_summary = \<lparr>ms_sum = 0, ms_count = 0\<rparr>"

definition new_metric_state :: "nat \<Rightarrow> metric_state" where
  "new_metric_state maxOpen = \<lparr>mt_open = [], mt_start_order = new_ring ([], 0) maxOpen,
     mt_llm_call = zero_summary, mt_pipeline = zero_summary, mt_pipe = zero_summary, mt_tool_call = zero_summary\<rparr>"

definition summary_add :: "rat \<Rightarrow> metric_summary \<Rightarrow> metric_summary" where
  "summary_add x s = \<lparr>ms_sum = ms_sum s + x, ms_count = u64_succ (ms_count s)\<rparr>"

definition metric_number :: "ambient \<Rightarrow> payload \<Rightarrow> string \<Rightarrow> rat" where
  "metric_number E p key =
     (case mget p key of
        Some (AnyNum x) \<Rightarrow> x
      | Some (AnyStr s) \<Rightarrow> parse_float E (trim_space s)
      | _ \<Rightarrow> 0)"

datatype metric_action = MetricNone | MetricStart | MetricFinish

definition metric_operation :: "string \<Rightarrow> string \<times> metric_action" where
  "metric_operation kind =
     (if kind = ''pipeline_started'' then (''pipeline'', MetricStart)
      else if kind = ''pipeline_completed'' \<or> kind = ''pipeline_failed'' then (''pipeline'', MetricFinish)
      else if kind = ''pipe_started'' then (''pipe'', MetricStart)
      else if kind = ''pipe_completed'' \<or> kind = ''pipe_failed'' then (''pipe'', MetricFinish)
      else if kind = ''tool_call_started'' then (''tool_call'', MetricStart)
      else if kind = ''tool_call_completed'' \<or> kind = ''tool_call_failed'' then (''tool_call'', MetricFinish)
      else ([], MetricNone))"

definition payload_string :: "payload \<Rightarrow> string \<Rightarrow> string" where
  "payload_string p key = (case mget p key of Some (AnyStr s) \<Rightarrow> s | _ \<Rightarrow> [])"

definition metric_duration_key :: "string \<Rightarrow> event \<Rightarrow> string" where
  "metric_duration_key op e =
     (let parts = [op] @ (if ev_trace_id e \<noteq> [] then [ev_trace_id e]
                          else if ev_exec_id e \<noteq> [] then [ev_exec_id e] else []);
          parts = (if op = ''tool_call''
                   then let callID = payload_string (ev_payload e) ''tool_call_id'';
                            callID = (if callID = [] then payload_string (ev_payload e) ''call_id'' else callID)
                        in if callID \<noteq> [] then parts @ [callID] else parts
                   else parts)
      in if length parts = 1 then [] else join_with '':'' parts)"

definition remember_start :: "string \<Rightarrow> u64 \<Rightarrow> metric_state \<Rightarrow> metric_state" where
  "remember_start key eventID s =
     (let r = mt_start_order s in
      if ring_capacity r = 0 then s
      else if ring_size r = ring_capacity r
      then let evicted = ring_entries r ! ring_start r in
           s \<lparr>mt_open := (case mget (mt_open s) (fst evicted) of
                 Some started \<Rightarrow> if fst started = snd evicted then mdel (fst evicted) (mt_open s) else mt_open s
               | None \<Rightarrow> mt_open s),
             mt_start_order := ring_append (key, eventID) r\<rparr>
      else s \<lparr>mt_start_order := ring_append (key, eventID) r\<rparr>)"

definition add_duration :: "string \<Rightarrow> rat \<Rightarrow> metric_state \<Rightarrow> metric_state" where
  "add_duration op ms s =
     (if op = ''pipeline'' then s \<lparr>mt_pipeline := summary_add ms (mt_pipeline s)\<rparr>
      else if op = ''pipe'' then s \<lparr>mt_pipe := summary_add ms (mt_pipe s)\<rparr>
      else if op = ''tool_call'' then s \<lparr>mt_tool_call := summary_add ms (mt_tool_call s)\<rparr>
      else s)"

definition observe_latency :: "ambient \<Rightarrow> event \<Rightarrow> metric_state \<Rightarrow> metric_state" where
  "observe_latency E e s =
     (if canonical_kind (ev_kind e) = ''llm_call_completed''
      then let latency = metric_number E (ev_payload e) ''latency_ms''
           in if 0 < latency then s \<lparr>mt_llm_call := summary_add latency (mt_llm_call s)\<rparr> else s
      else s)"

definition metric_observe :: "ambient \<Rightarrow> event \<Rightarrow> metric_state \<Rightarrow> metric_state" where
  "metric_observe E e s =
     (let s = observe_latency E e s;
          (op, action) = metric_operation (canonical_kind (ev_kind e));
          key = metric_duration_key op e;
          nanos = i64 (ev_at e - unix_epoch)
      in if op = [] \<or> is_zero (ev_at e) then s
         else if key = [] then s
         else case action of
           MetricStart \<Rightarrow>
             (let s = remember_start key (ev_id e) s in s \<lparr>mt_open := mput key (ev_id e, nanos) (mt_open s)\<rparr>)
         | MetricFinish \<Rightarrow>
             (case mget (mt_open s) key of
                None \<Rightarrow> s
              | Some started \<Rightarrow>
                  add_duration op (max 0 (of_int (i64 (nanos - snd started)) / 1000000))
                    (s \<lparr>mt_open := mdel key (mt_open s)\<rparr>))
         | MetricNone \<Rightarrow> s)"

section \<open>The stream\<close>

record event_stream =
  es_next_id :: u64
  es_events :: "event ring"
  es_appended :: u64
  es_kind_counts :: "(string, u64) gomap"
  es_metrics :: metric_state
  es_subscribers :: "string list"

definition new_event_stream :: "u64 \<Rightarrow> nat \<Rightarrow> event_stream" where
  "new_event_stream initialID retentionLimit =
     \<lparr>es_next_id = initialID, es_events = new_ring zero_event retentionLimit, es_appended = 0,
      es_kind_counts = [], es_metrics = new_metric_state retentionLimit, es_subscribers = []\<rparr>"

text \<open>\<open>WithRetentionLimit\<close> refuses a limit that is not positive.\<close>

definition with_retention_limit :: "int \<Rightarrow> go_error + nat" where
  "with_retention_limit maxEvents =
     (if maxEvents \<le> 0 then Inl (ErrText ''event stream retention limit must be greater than zero'')
      else Inr (nat maxEvents))"

text \<open>What is stored and delivered once the event has its identifier.\<close>

definition stream_record :: "ambient \<Rightarrow> event \<Rightarrow> event_stream \<Rightarrow> event_stream" where
  "stream_record E e s = s \<lparr>
     es_next_id := ev_id e,
     es_events := ring_append e (es_events s),
     es_appended := u64_succ (es_appended s),
     es_kind_counts := (if is_lifetime_counter_kind (ev_kind e)
        then mput (ev_kind e) (u64_succ (case mget (es_kind_counts s) (ev_kind e) of Some n \<Rightarrow> n | None \<Rightarrow> 0))
               (es_kind_counts s)
        else es_kind_counts s),
     es_metrics := metric_observe E e (es_metrics s)\<rparr>"

definition stream_deliveries :: "ambient \<Rightarrow> event \<Rightarrow> event_stream \<Rightarrow> (string \<times> event) list" where
  "stream_deliveries E stored s = map (\<lambda>sub. (sub, clone_event E stored)) (es_subscribers s)"

type_synonym 'w persist = "event \<Rightarrow> 'w \<Rightarrow> (go_error + event) \<times> 'w"

text \<open>
  \<open>EventStream.append\<close>. \<open>ctx1\<close> and \<open>ctx2\<close> are the errors of the context at its two checks; the
  result is the stored event or the error, with the deliveries to the subscribers.
\<close>

definition stream_append ::
  "ambient \<Rightarrow> go_error option \<Rightarrow> go_error option \<Rightarrow> go_time \<Rightarrow> 'w persist option \<Rightarrow> event
     \<Rightarrow> event_stream \<times> 'w \<Rightarrow> (event_stream \<times> 'w) \<times> (go_error + event) \<times> (string \<times> event) list" where
  "stream_append E ctx1 ctx2 now persist ev = (\<lambda>(s, w).
     (case ctx1 of Some err \<Rightarrow> ((s, w), Inl err, [])
      | None \<Rightarrow>
     (case ctx2 of Some err \<Rightarrow> ((s, w), Inl err, [])
      | None \<Rightarrow>
        let e = ev \<lparr>ev_kind := canonical_kind (ev_kind ev),
                    ev_at := (if is_zero (ev_at ev) then now else ev_at ev),
                    ev_payload := sanitize_payload E (ev_payload ev)\<rparr> in
        (case persist of
           None \<Rightarrow>
             if es_next_id s = u64_max then ((s, w), Inl err_event_id_exhausted, [])
             else let e = e \<lparr>ev_id := u64_succ (es_next_id s)\<rparr>; s' = stream_record E e s; stored = clone_event E e
                  in ((s', w), Inr stored, stream_deliveries E stored s')
         | Some f \<Rightarrow>
             (case f e w of
                (Inl err, w') \<Rightarrow> ((s, w'), Inl err, [])
              | (Inr persisted, w') \<Rightarrow>
                  let e = sanitize_event E persisted in
                  if ev_id e = 0
                  then ((s, w'), Inl (ErrText ''durable persistence returned an empty event ID''), [])
                  else if ev_id e \<le> es_next_id s
                  then ((s, w'), Inl (ErrText ''durable event ID did not advance the local stream''), [])
                  else let s' = stream_record E e s; stored = clone_event E e
                       in ((s', w'), Inr stored, stream_deliveries E stored s'))))))"

definition append_persisted ::
  "ambient \<Rightarrow> go_error option \<Rightarrow> go_error option \<Rightarrow> go_time \<Rightarrow> 'w persist option \<Rightarrow> event
     \<Rightarrow> event_stream \<times> 'w \<Rightarrow> (event_stream \<times> 'w) \<times> (go_error + event) \<times> (string \<times> event) list" where
  "append_persisted E ctx1 ctx2 now persist ev sw =
     (case persist of
        None \<Rightarrow> (sw, Inl (ErrText ''event persistence callback is required''), [])
      | Some f \<Rightarrow>
          if ev_id ev \<noteq> 0 then (sw, Inl (ErrText ''event ID must be allocated by durable persistence''), [])
          else stream_append E ctx1 ctx2 now (Some f) ev sw)"

definition ensure_next_id_at_least :: "u64 \<Rightarrow> event_stream \<Rightarrow> event_stream" where
  "ensure_next_id_at_least i s =
     (if i = 0 then s else if es_next_id s < i then s \<lparr>es_next_id := i\<rparr> else s)"

definition stream_subscribe :: "string option \<Rightarrow> event_stream \<Rightarrow> event_stream \<times> go_error option" where
  "stream_subscribe sub s =
     (case sub of None \<Rightarrow> (s, Some (ErrText ''event subscriber is required''))
      | Some f \<Rightarrow> (s \<lparr>es_subscribers := es_subscribers s @ [f]\<rparr>, None))"

definition stream_list :: "ambient \<Rightarrow> event_stream \<Rightarrow> event list" where
  "stream_list E s = ring_each (es_events s) (\<lambda>i e acc. (acc @ [clone_event E e], True)) []"

definition stream_since :: "ambient \<Rightarrow> u64 \<Rightarrow> event_stream \<Rightarrow> event list" where
  "stream_since E i s =
     ring_each (es_events s) (\<lambda>_ e acc. (if i < ev_id e then acc @ [clone_event E e] else acc, True)) []"

text \<open>The cursor, the expected and the next retained identifier of an \<open>EventHistoryGapError\<close>.\<close>

type_synonym history_gap = "u64 \<times> u64 \<times> u64"

definition since_visit ::
  "ambient \<Rightarrow> u64 \<Rightarrow> nat \<Rightarrow> event \<Rightarrow> event list \<times> u64 \<times> history_gap option
     \<Rightarrow> (event list \<times> u64 \<times> history_gap option) \<times> bool" where
  "since_visit E i _ e = (\<lambda>(recorded, expectedID, gap).
     if ev_id e \<le> i then ((recorded, expectedID, gap), True)
     else if ev_id e \<noteq> expectedID then ((recorded, expectedID, Some (i, expectedID, ev_id e)), False)
     else if ev_id e = u64_max then ((recorded @ [clone_event E e], expectedID, gap), False)
     else ((recorded @ [clone_event E e], u64_succ (ev_id e), gap), True))"

definition since_checked :: "ambient \<Rightarrow> u64 \<Rightarrow> event_stream \<Rightarrow> history_gap + event list" where
  "since_checked E i s =
     (if i = u64_max then Inr []
      else case ring_each (es_events s) (since_visit E i) ([], u64_succ i, None) of
        (recorded, _, Some gap) \<Rightarrow> Inl gap
      | (recorded, _, None) \<Rightarrow> Inr recorded)"

record stream_stats =
  st_appended :: u64
  st_retained :: nat
  st_retention_limit :: nat
  st_dropped :: u64
  st_kind_counts :: "(string, u64) gomap"
  st_llm_call :: metric_summary
  st_pipeline :: metric_summary
  st_pipe :: metric_summary
  st_tool_call :: metric_summary

definition stats_of :: "event_stream \<Rightarrow> stream_stats" where
  "stats_of s = \<lparr>st_appended = es_appended s, st_retained = ring_size (es_events s),
     st_retention_limit = ring_capacity (es_events s),
     st_dropped = nat ((int (es_appended s) - int (ring_size (es_events s))) mod 2 ^ 64),
     st_kind_counts = es_kind_counts s, st_llm_call = mt_llm_call (es_metrics s),
     st_pipeline = mt_pipeline (es_metrics s), st_pipe = mt_pipe (es_metrics s),
     st_tool_call = mt_tool_call (es_metrics s)\<rparr>"

section \<open>The hook bus\<close>

type_synonym 'w hook = "event \<Rightarrow> 'w \<Rightarrow> (go_error + event) \<times> 'w"
type_synonym 'w hook_bus = "(string, 'w hook list) gomap"

definition hook_register :: "string \<Rightarrow> 'w hook option \<Rightarrow> 'w hook_bus \<Rightarrow> 'w hook_bus \<times> go_error option" where
  "hook_register kind hook b =
     (if kind = [] then (b, Some (ErrText ''hook event kind is required''))
      else case hook of
        None \<Rightarrow> (b, Some (ErrText ''hook is required''))
      | Some h \<Rightarrow> (let kind = canonical_kind kind in (mput kind (bucket b kind @ [h]) b, None)))"

fun run_hooks :: "ambient \<Rightarrow> string \<Rightarrow> 'w hook list \<Rightarrow> event \<Rightarrow> 'w \<Rightarrow> (go_error + event) \<times> 'w" where
  "run_hooks E kind [] nxt w = (Inr nxt, w)"
| "run_hooks E kind (h # hs) nxt w =
     (case h (clone_event E nxt) w of
        (Inl err, w') \<Rightarrow> (Inl (ErrWrap (''hook '' @ kind @ '' blocked event: '') err []), w')
      | (Inr updated, w') \<Rightarrow> run_hooks E kind hs (clone_event E updated) w')"

definition hook_emit ::
  "ambient \<Rightarrow> go_error option \<Rightarrow> 'w hook_bus option \<Rightarrow> event \<Rightarrow> 'w \<Rightarrow> (go_error + event) \<times> 'w" where
  "hook_emit E ctx bus ev w =
     (case bus of
        None \<Rightarrow> (Inr ev, w)
      | Some b \<Rightarrow>
          (case ctx of
             Some err \<Rightarrow> (Inl err, w)
           | None \<Rightarrow>
               (let e = ev \<lparr>ev_kind := canonical_kind (ev_kind ev)\<rparr>
                in run_hooks E (ev_kind e) (bucket b (ev_kind e)) (clone_event E e) w)))"

section \<open>Kinds and sanitisation\<close>

lemma canonical_kind_idem [simp]: "canonical_kind (canonical_kind k) = canonical_kind k"
  by (simp add: canonical_kind_def legacy_event_kinds_def split: if_splits)

lemma sanitize_event_simps [simp]:
  "ev_id (sanitize_event E e) = ev_id e"
  "ev_at (sanitize_event E e) = ev_at e"
  "ev_exec_id (sanitize_event E e) = ev_exec_id e"
  "ev_session_id (sanitize_event E e) = ev_session_id e"
  "ev_trace_id (sanitize_event E e) = ev_trace_id e"
  "ev_kind (sanitize_event E e) = canonical_kind (ev_kind e)"
  "ev_payload (sanitize_event E e) = sanitize_payload E (ev_payload e)"
  by (simp_all add: sanitize_event_def)

lemma clone_event_simps [simp]:
  "ev_id (clone_event E e) = ev_id e"
  "ev_exec_id (clone_event E e) = ev_exec_id e"
  "ev_payload (clone_event E e) = sanitize_payload E (ev_payload e)"
  by (simp_all add: clone_event_def)

lemma payload_masked_sanitize [simp]: "payload_masked (sanitize_payload E p)"
  using sanitize_payload_value_masked
  by (fastforce simp: payload_masked_def sanitize_payload_def)

section \<open>The metric state is bounded\<close>

text \<open>Every open operation has its start record in the ring, so there are no more of them.\<close>

definition metric_inv :: "metric_state \<Rightarrow> bool" where
  "metric_inv m = (ring_inv (mt_start_order m) \<and> mwf (mt_open m)
     \<and> (\<forall>(k, st) \<in> set (mt_open m). (k, fst st) \<in> set (ring_content (mt_start_order m))))"

lemma metric_inv_new: "0 < n \<Longrightarrow> metric_inv (new_metric_state n)"
  by (simp add: metric_inv_def new_metric_state_def ring_log.empty_inv)

lemma metric_inv_open_bound:
  assumes "metric_inv m"
  shows "length (mt_open m) \<le> ring_capacity (mt_start_order m)"
proof -
  let ?f = "\<lambda>(k, st). (k, fst st)"
  have d: "distinct (map fst (mt_open m))" using assms by (simp add: metric_inv_def mwf_def)
  have "inj_on ?f (set (mt_open m))"
  proof (rule inj_onI)
    fix x y assume "x \<in> set (mt_open m)" "y \<in> set (mt_open m)" "?f x = ?f y"
    then have "fst x = fst y" by (auto simp: case_prod_unfold)
    with \<open>x \<in> _\<close> \<open>y \<in> _\<close> d show "x = y" by (metis eq_key_imp_eq_value prod.collapse)
  qed
  then have "card (set (mt_open m)) = card (?f ` set (mt_open m))" by (simp add: card_image)
  also have "\<dots> \<le> card (set (ring_content (mt_start_order m)))"
    using assms by (intro card_mono) (auto simp: metric_inv_def)
  also have "\<dots> \<le> ring_capacity (mt_start_order m)"
    using assms ring_log.content_bound by (metis card_length le_trans metric_inv_def)
  finally show ?thesis using d by (metis distinct_card distinct_map length_map)
qed

lemma mdel_set: "(k, v) \<in> set (mdel k' m) \<Longrightarrow> (k, v) \<in> set m \<and> k \<noteq> k'"
  by (auto simp: AList.delete_eq)

lemma mput_set: "mwf m \<Longrightarrow> (k, v) \<in> set (mput k' v' m) \<Longrightarrow> (k = k' \<and> v = v') \<or> (k \<noteq> k' \<and> (k, v) \<in> set m)"
proof -
  assume wf: "mwf m" and mem: "(k, v) \<in> set (mput k' v' m)"
  have "mwf (mput k' v' m)" using wf by simp
  then have "mget (mput k' v' m) k = Some v" using mem by (simp only: mwf_def map_of_eq_Some_iff)
  then show ?thesis by (cases "k = k'") (auto dest: map_of_SomeD)
qed

lemma ring_head:
  assumes "ring_inv r" "ring_size r = ring_capacity r"
  shows "ring_entries r ! ring_start r = hd (ring_content r)" "ring_content r \<noteq> []"
proof -
  have "0 < ring_size r" using assms by (simp add: ring_inv_def ring_capacity_def)
  then show "ring_content r \<noteq> []" by (metis length_ring_content list.size(3) less_irrefl)
  then show "ring_entries r ! ring_start r = hd (ring_content r)"
    using \<open>0 < ring_size r\<close> assms(1) by (simp add: hd_conv_nth ring_content_nth ring_inv_def)
qed

lemma remember_start_inv:
  assumes "metric_inv m"
  shows "metric_inv (remember_start k e m)"
    "(k, e) \<in> set (ring_content (mt_start_order (remember_start k e m)))"
proof -
  let ?r = "mt_start_order m"
  have r: "ring_inv ?r" "0 < ring_capacity ?r" "mwf (mt_open m)"
    using assms ring_log.cap_pos by (auto simp: metric_inv_def)
  show "(k, e) \<in> set (ring_content (mt_start_order (remember_start k e m)))"
    using r by (auto simp: remember_start_def Let_def ring_log.app_content)
  show "metric_inv (remember_start k e m)"
  proof (cases "ring_size ?r = ring_capacity ?r")
    case True
    obtain h t where c: "ring_content ?r = h # t"
      using ring_head [OF r(1) True] by (meson neq_Nil_conv)
    have h: "ring_entries ?r ! ring_start ?r = h" using ring_head [OF r(1) True] c by simp
    have c': "ring_content (ring_append (k, e) ?r) = t @ [(k, e)]"
      using ring_append_full [OF r(1)] True c by (simp add: ring_capacity_def)
    have keep: "(j, fst st) \<in> set t" if "(j, st) \<in> set (mt_open m)" "(j, fst st) \<noteq> h" for j st
      using assms that c by (auto simp: metric_inv_def)
    have "(j, fst st) \<in> set t" if "(j, st) \<in> set (mt_open (remember_start k e m))" for j st
    proof (cases "mget (mt_open m) (fst h)")
      case None
      then have "(j, st) \<in> set (mt_open m)"
        using that r True h by (auto simp: remember_start_def Let_def)
      moreover from this have "(j, fst st) \<noteq> h" using None by (auto simp: map_of_eq_None_iff image_iff)
      ultimately show ?thesis using keep by blast
    next
      case (Some q)
      show ?thesis
      proof (cases "fst q = snd h")
        case hit: True
        then have "(j, st) \<in> set (mt_open m) \<and> j \<noteq> fst h"
          using that r True h Some by (auto simp: remember_start_def Let_def dest: mdel_set)
        moreover from this have "(j, fst st) \<noteq> h" by auto
        ultimately show ?thesis using keep by blast
      next
        case miss: False
        then have "(j, st) \<in> set (mt_open m)"
          using that r True h Some by (auto simp: remember_start_def Let_def)
        moreover from this have "(j, fst st) \<noteq> h"
          using miss Some r(3) by (auto simp: mwf_def dest!: map_of_SomeD dest: eq_key_imp_eq_value)
        ultimately show ?thesis using keep by blast
      qed
    qed
    then show ?thesis
      using r True c' by (auto simp: metric_inv_def remember_start_def Let_def ring_log.app_inv split: option.splits)
  next
    case False
    then have "ring_content (ring_append (k, e) ?r) = ring_content ?r @ [(k, e)]"
      using r ring_log.content_bound [OF r(1)] by (simp add: ring_log.app_content)
    with False r assms show ?thesis
      by (auto simp: metric_inv_def remember_start_def Let_def ring_log.app_inv)
  qed
qed

lemma metric_inv_cong:
  "mt_open m' = mt_open m \<Longrightarrow> mt_start_order m' = mt_start_order m \<Longrightarrow> metric_inv m' = metric_inv m"
  by (simp add: metric_inv_def)

lemma metric_inv_put:
  "metric_inv m \<Longrightarrow> (k, fst st) \<in> set (ring_content (mt_start_order m)) \<Longrightarrow>
     metric_inv (m \<lparr>mt_open := mput k st (mt_open m)\<rparr>)"
  by (auto simp: metric_inv_def dest: mput_set)

lemma metric_inv_del: "metric_inv m \<Longrightarrow> metric_inv (m \<lparr>mt_open := mdel k (mt_open m)\<rparr>)"
  by (auto simp: metric_inv_def dest: mdel_set)

lemma add_duration_same [simp]:
  "mt_open (add_duration op d m) = mt_open m" "mt_start_order (add_duration op d m) = mt_start_order m"
  by (simp_all add: add_duration_def)

lemma observe_latency_same [simp]:
  "mt_open (observe_latency E e m) = mt_open m" "mt_start_order (observe_latency E e m) = mt_start_order m"
  by (simp_all add: observe_latency_def Let_def)

lemma add_duration_inv [simp]: "metric_inv (add_duration op d m) = metric_inv m"
  by (rule metric_inv_cong) simp_all

lemma observe_latency_inv [simp]: "metric_inv (observe_latency E e m) = metric_inv m"
  by (rule metric_inv_cong) simp_all

lemma metric_observe_inv: "metric_inv m \<Longrightarrow> metric_inv (metric_observe E e m)"
  using remember_start_inv [of "observe_latency E e m"] metric_inv_del [of "observe_latency E e m"]
  by (auto simp: metric_observe_def Let_def metric_inv_del intro!: metric_inv_put
    split: prod.splits metric_action.splits option.splits)

section \<open>The stream invariant\<close>

text \<open>
  Identifiers increase along the retained window and never pass the counter, every retained
  payload is masked, the counters are bounded, and the metric state is bounded.
\<close>

definition stream_inv :: "event_stream \<Rightarrow> bool" where
  "stream_inv s =
     (ring_inv (es_events s) \<and> es_next_id s \<le> u64_max
      \<and> sorted_wrt (<) (map ev_id (ring_content (es_events s)))
      \<and> (\<forall>e \<in> set (ring_content (es_events s)).
            0 < ev_id e \<and> ev_id e \<le> es_next_id s \<and> payload_masked (ev_payload e))
      \<and> mwf (es_kind_counts s) \<and> fst ` set (es_kind_counts s) \<subseteq> set lifetime_counter_kinds
      \<and> metric_inv (es_metrics s))"

lemma stream_inv_new:
  "0 < n \<Longrightarrow> i \<le> u64_max \<Longrightarrow> stream_inv (new_event_stream i n)"
  by (simp add: stream_inv_def new_event_stream_def metric_inv_new ring_log.empty_inv
    ring_log.empty_content)

lemma stream_record_inv:
  assumes "stream_inv s" "es_next_id s < ev_id e" "ev_id e \<le> u64_max" "payload_masked (ev_payload e)"
    "canonical_kind (ev_kind e) = ev_kind e"
  shows "stream_inv (stream_record E e s)"
proof -
  let ?b = "es_events s"
  have b: "ring_inv ?b" "\<forall>d \<in> set (ring_content ?b). ev_id d < ev_id e"
    using assms by (auto simp: stream_inv_def)
  have sub: "set (ring_content (ring_append e ?b)) \<subseteq> insert e (set (ring_content ?b))"
    using b by (simp add: ring_log.app_set)
  have sorted: "sorted_wrt (<) (map ev_id (ring_content (ring_append e ?b)))"
    using assms b by (intro ring_log.app_sorted) (auto simp: stream_inv_def)
  have "\<forall>d \<in> set (ring_content (ring_append e ?b)). 0 < ev_id d \<and> ev_id d \<le> ev_id e
      \<and> payload_masked (ev_payload d)"
    using assms sub by (fastforce simp: stream_inv_def)
  moreover have "mwf (es_kind_counts (stream_record E e s))
      \<and> fst ` set (es_kind_counts (stream_record E e s)) \<subseteq> set lifetime_counter_kinds"
    using assms
    by (auto simp: stream_inv_def stream_record_def is_lifetime_counter_kind_def dest!: mput_set)
  ultimately show ?thesis
    using assms b sorted by (simp add: stream_inv_def stream_record_def ring_log.app_inv metric_observe_inv)
qed


text \<open>
  An append either changes nothing in the stream and reports an error, or records one sanitised
  event under an identifier above the counter.
\<close>

definition append_stores :: "ambient \<Rightarrow> 'w persist option \<Rightarrow> event_stream \<Rightarrow> 'w \<Rightarrow> event \<Rightarrow> 'w \<Rightarrow> bool" where
  "append_stores E persist s w e w' =
     (payload_masked (ev_payload e) \<and> canonical_kind (ev_kind e) = ev_kind e
      \<and> (case persist of
           None \<Rightarrow> es_next_id s \<noteq> u64_max \<and> ev_id e = u64_succ (es_next_id s) \<and> w' = w
         | Some f \<Rightarrow> es_next_id s < ev_id e \<and> (\<exists>p e0. f e0 w = (Inr p, w') \<and> ev_id p = ev_id e)))"

lemma stream_append_cases:
  obtains (unchanged) w' err where "stream_append E ctx1 ctx2 now persist ev (s, w) = ((s, w'), Inl err, [])"
  | (stored) e w' where "append_stores E persist s w e w'"
      "stream_append E ctx1 ctx2 now persist ev (s, w) =
        ((stream_record E e s, w'), Inr (clone_event E e), stream_deliveries E (clone_event E e) (stream_record E e s))"
proof (cases "ctx1 \<noteq> None \<or> ctx2 \<noteq> None")
  case True
  then show thesis using unchanged by (cases ctx1; cases ctx2) (auto simp: stream_append_def)
next
  case False
  define e where "e = ev \<lparr>ev_kind := canonical_kind (ev_kind ev),
    ev_at := (if is_zero (ev_at ev) then now else ev_at ev), ev_payload := sanitize_payload E (ev_payload ev)\<rparr>"
  show thesis
  proof (cases persist)
    case None
    show thesis
    proof (cases "es_next_id s = u64_max")
      case True
      with False None show thesis using unchanged by (simp add: stream_append_def Let_def)
    next
      case room: False
      with False None show thesis
        using stored [of "e \<lparr>ev_id := u64_succ (es_next_id s)\<rparr>" w]
        by (simp add: stream_append_def Let_def append_stores_def e_def)
    qed
  next
    case (Some f)
    obtain r w' where f: "f e w = (r, w')" by (cases "f e w")
    show thesis
    proof (cases r)
      case (Inl err)
      with False Some f show thesis
        using unchanged by (simp add: stream_append_def Let_def e_def)
    next
      case (Inr p)
      then have eq: "stream_append E ctx1 ctx2 now persist ev (s, w) =
        (let d = sanitize_event E p in
         if ev_id d = 0 then ((s, w'), Inl (ErrText ''durable persistence returned an empty event ID''), [])
         else if ev_id d \<le> es_next_id s
         then ((s, w'), Inl (ErrText ''durable event ID did not advance the local stream''), [])
         else let s' = stream_record E d s; st = clone_event E d in ((s', w'), Inr st, stream_deliveries E st s'))"
        using False Some f by (simp add: stream_append_def Let_def e_def)
      have "append_stores E persist s w (sanitize_event E p) w'" if "es_next_id s < ev_id p"
        using that Some f Inr by (auto simp: append_stores_def)
      then show thesis
        using eq unchanged stored [of "sanitize_event E p" w'] by (simp add: Let_def not_le split: if_splits)
    qed
  qed
qed

text \<open>C38
  Appending to the stream, with or without a persistence callback (whose identifiers are
  \<open>uint64\<close>), keeps the stream invariant: the retained identifiers strictly increase and stay at or
  below the counter, every retained payload is masked, and counters and open operations are bounded.
\<close>

theorem stream_append_invariant:
  assumes "stream_inv s"
    "\<And>f e r w w'. persist = Some f \<Longrightarrow> f e w = (Inr r, w') \<Longrightarrow> ev_id r \<le> u64_max"
  shows "stream_inv (fst (fst (stream_append E ctx1 ctx2 now persist ev (s, w))))"
proof (cases rule: stream_append_cases [of E ctx1 ctx2 now persist ev s w])
  case (stored e w')
  have "es_next_id s < ev_id e \<and> ev_id e \<le> u64_max"
    using stored(1) assms u64_succ_small [of "es_next_id s"]
    by (fastforce simp: append_stores_def stream_inv_def split: option.splits)
  then show ?thesis using stored assms(1) by (auto simp: append_stores_def intro!: stream_record_inv)
qed (use assms in simp)

definition sample_event :: "string \<Rightarrow> event" where
  "sample_event kind = zero_event \<lparr>ev_kind := kind, ev_exec_id := ''x1'', ev_at := 1\<rparr>"

definition bare_ambient :: ambient where
  "bare_ambient = \<lparr>environ = [], json_decode = \<lambda>_. None, json_encode = \<lambda>_. None, parse_float = \<lambda>_. 0\<rparr>"

text \<open>A window of three entries after four appends: the events 2, 3 and 4 are retained.\<close>

definition sample_stream :: event_stream where
  "sample_stream = fold (\<lambda>e s. fst (fst (stream_append bare_ambient None None 5 None e (s, ()))))
     [sample_event ''before_tool'', sample_event ''after_tool'', sample_event ''pipe_started'', sample_event ''custom'']
     (new_event_stream 0 3)"

theorem stream_append_invariant_witness:
  "stream_inv (fst (fst (stream_append bare_ambient None None 5 None (sample_event ''before_tool'')
     (new_event_stream 0 3, ()))))"
  by (rule stream_append_invariant) (simp_all add: stream_inv_new u64_max_def)

lemma sample_stream_ids: "map ev_id (ring_content (es_events sample_stream)) = [2, 3, 4]"
  by code_simp

text \<open>
  An append that succeeds returns the sanitised event under an identifier above every retained one;
  it becomes the newest entry of the window, the counter moves to it, and every subscriber is
  handed exactly that event.
\<close>

theorem stream_append_result:
  assumes "stream_inv s" "stream_append E ctx1 ctx2 now persist ev (s, w) = ((s', w'), Inr r, ds)"
  shows "es_next_id s < ev_id r \<and> es_next_id s' = ev_id r \<and> payload_masked (ev_payload r)
    \<and> clone_event E (last (ring_content (es_events s'))) = r
    \<and> (\<forall>e \<in> set (ring_content (es_events s)). ev_id e < ev_id r)
    \<and> map fst ds = es_subscribers s \<and> (\<forall>(sub, d) \<in> set ds. d = clone_event E r)"
proof -
  have b: "ring_inv (es_events s)" "es_next_id s \<le> u64_max" using assms(1) by (auto simp: stream_inv_def)
  show ?thesis
  proof (cases rule: stream_append_cases [of E ctx1 ctx2 now persist ev s w])
    case (unchanged w'' err)
    with assms(2) show ?thesis by simp
  next
    case (stored e w'')
    then have eq: "r = clone_event E e" "s' = stream_record E e s" "ds = stream_deliveries E r s'"
      using assms(2) by auto
    have less: "es_next_id s < ev_id e"
      using stored(1) b(2) u64_succ_small [of "es_next_id s"] by (auto simp: append_stores_def split: option.splits)
    moreover have "\<forall>d \<in> set (ring_content (es_events s)). ev_id d < ev_id e"
      using assms(1) less by (auto simp: stream_inv_def)
    moreover have "last (ring_content (es_events s')) = e"
      using eq(2) ring_log.app_last [OF b(1)] by (simp add: stream_record_def)
    ultimately show ?thesis
      using eq by (auto simp: stream_record_def stream_deliveries_def comp_def)
  qed
qed


lemma sample_stream_inv: "stream_inv sample_stream"
proof -
  have step: "stream_inv (fst (fst (stream_append bare_ambient None None 5 None e (s, ()))))"
    if "stream_inv s" for s e
  proof (cases rule: stream_append_cases [of bare_ambient None None 5 None e s "()"])
    case (stored d w')
    then show ?thesis
      using that u64_succ_small [of "es_next_id s"]
      by (auto simp: append_stores_def stream_inv_def [of s] intro!: stream_record_inv)
  qed (use that in simp)
  show ?thesis unfolding sample_stream_def by (simp add: step stream_inv_new u64_max_def)
qed

theorem stream_append_result_witness:
  "ev_id (case fst (snd (stream_append bare_ambient None None 5 None (sample_event ''custom'') (sample_stream, ())))
     of Inr r \<Rightarrow> r | Inl _ \<Rightarrow> zero_event) > 4"
proof -
  obtain s' w' r ds where r: "stream_append bare_ambient None None 5 None (sample_event ''custom'') (sample_stream, ())
      = ((s', w'), r, ds)" by (metis surj_pair)
  have "\<not> isl (fst (snd (stream_append bare_ambient None None 5 None (sample_event ''custom'') (sample_stream, ()))))"
    by code_simp
  then obtain e where e: "r = Inr e" using r by (cases r) auto
  have "es_next_id sample_stream = 4" by code_simp
  then show ?thesis using stream_append_result [OF sample_stream_inv r [unfolded e]] r e by simp
qed

section \<open>Reading with loss detection\<close>

definition since_result ::
  "ambient \<Rightarrow> u64 \<Rightarrow> u64 \<Rightarrow> event list \<Rightarrow> event list \<Rightarrow> event list \<times> u64 \<times> history_gap option \<Rightarrow> bool" where
  "since_result E i x ys recorded r = (case r of
      (recorded', _, None) \<Rightarrow> recorded' = recorded @ map (clone_event E) (filter (\<lambda>e. i < ev_id e) ys)
        \<and> map ev_id (filter (\<lambda>e. i < ev_id e) ys) = [x..<x + length (filter (\<lambda>e. i < ev_id e) ys)]
    | (_, _, Some (c, m, n)) \<Rightarrow> c = i \<and> x \<le> m \<and> m < n \<and> n \<in> ev_id ` set ys
        \<and> m \<notin> ev_id ` set ys \<and> (\<forall>t. x \<le> t \<and> t < m \<longrightarrow> t \<in> ev_id ` set ys))"

lemma since_result_skip:
  assumes "ev_id e \<le> i" "i < x" "since_result E i x ys recorded r"
  shows "since_result E i x (e # ys) recorded r"
  using assms by (auto simp: since_result_def split: prod.splits option.splits)

lemma since_result_take:
  assumes "ev_id e = x" "i < x" "since_result E i (Suc x) ys (recorded @ [clone_event E e]) r"
  shows "since_result E i x (e # ys) recorded r"
proof -
  obtain rec y g where r: "r = (rec, y, g)" by (cases r)
  show ?thesis
  proof (cases g)
    case None
    have "x # [Suc x..<Suc x + n] = [x..<x + Suc n]" for n by (simp add: upt_conv_Cons del: upt_Suc)
    with None r assms show ?thesis by (simp add: since_result_def del: upt_Suc)
  next
    case (Some cmn)
    obtain c m n where "cmn = (c, m, n)" by (cases cmn)
    with r Some assms have spec: "c = i" "Suc x \<le> m" "m < n" "n \<in> ev_id ` set ys" "m \<notin> ev_id ` set ys"
      "\<And>t. Suc x \<le> t \<Longrightarrow> t < m \<Longrightarrow> t \<in> ev_id ` set ys"
      by (auto simp: since_result_def)
    have "t \<in> ev_id ` set (e # ys)" if "x \<le> t" "t < m" for t
      using that spec(6) [of t] assms(1) by (cases "t = x") auto
    with r Some \<open>cmn = (c, m, n)\<close> spec assms(1) show ?thesis by (auto simp: since_result_def)
  qed
qed

lemma since_visit_simp:
  "since_visit E i k e (recorded, expectedID, gap) =
     (if ev_id e \<le> i then ((recorded, expectedID, gap), True)
      else if ev_id e \<noteq> expectedID then ((recorded, expectedID, Some (i, expectedID, ev_id e)), False)
      else if ev_id e = u64_max then ((recorded @ [clone_event E e], expectedID, gap), False)
      else ((recorded @ [clone_event E e], u64_succ (ev_id e), gap), True))"
  by (simp add: since_visit_def)

lemma since_walk:
  assumes "sorted_wrt (<) (map ev_id ys)" "\<forall>e \<in> set ys. ev_id e \<le> u64_max" "i < x"
    "\<forall>e \<in> set ys. i < ev_id e \<longrightarrow> x \<le> ev_id e"
  shows "since_result E i x ys recorded (walk (since_visit E i) k ys (recorded, x, None))"
  using assms
proof (induction ys arbitrary: k x recorded)
  case Nil
  then show ?case by (simp add: since_result_def)
next
  case (Cons e ys)
  consider (old) "ev_id e \<le> i" | (last) "i < ev_id e" "ev_id e = x" "x = u64_max"
    | (next_id) "i < ev_id e" "ev_id e = x" "x \<noteq> u64_max" | (gap) "i < ev_id e" "ev_id e \<noteq> x"
    by linarith
  then show ?case
  proof cases
    case old
    have "since_result E i x ys recorded (walk (since_visit E i) (Suc k) ys (recorded, x, None))"
      using Cons.prems by (intro Cons.IH) simp_all
    with old Cons.prems(3) show ?thesis by (simp add: since_visit_simp since_result_skip)
  next
    case last
    then have "ys = []" using Cons.prems(1,2) by (cases ys) auto
    with last show ?thesis by (simp add: since_visit_simp since_result_def)
  next
    case next_id
    then have x: "u64_succ x = Suc x" using Cons.prems(2) by (simp add: u64_succ_small)
    have "since_result E i (Suc x) ys (recorded @ [clone_event E e])
      (walk (since_visit E i) (Suc k) ys (recorded @ [clone_event E e], Suc x, None))"
      using Cons.prems next_id by (intro Cons.IH) auto
    with next_id x show ?thesis by (simp add: since_visit_simp since_result_take)
  next
    case gap
    then have "x < ev_id e" using Cons.prems(4) by (simp add: le_neq_implies_less)
    moreover from this have "x \<notin> ev_id ` set (e # ys)" using Cons.prems(1) by fastforce
    ultimately show ?thesis using gap by (auto simp: since_visit_simp since_result_def)
  qed
qed

text \<open>
  \<open>SinceChecked\<close> never loses an event silently: it returns the retained events after the cursor
  only when their identifiers follow the cursor without a hole, and otherwise reports the first
  missing identifier and the next retained one.
\<close>

theorem since_checked_exact:
  assumes "stream_inv s" "i < u64_max"
  shows "case since_checked E i s of
      Inr xs \<Rightarrow> xs = map (clone_event E) (filter (\<lambda>e. i < ev_id e) (ring_content (es_events s)))
        \<and> map ev_id xs = [Suc i..<Suc i + length xs]
    | Inl (c, m, n) \<Rightarrow> c = i \<and> i < m \<and> m < n
        \<and> n \<in> ev_id ` set (ring_content (es_events s)) \<and> m \<notin> ev_id ` set (ring_content (es_events s))
        \<and> {i<..<m} \<subseteq> ev_id ` set (ring_content (es_events s))"
proof -
  have "sorted_wrt (<) (map ev_id (ring_content (es_events s)))"
    "\<forall>e \<in> set (ring_content (es_events s)). ev_id e \<le> u64_max"
    using assms(1) by (auto simp: stream_inv_def)
  then show ?thesis
    using since_walk [of "ring_content (es_events s)" i "Suc i" E "[]" 0] assms(2)
    by (auto simp: since_checked_def ring_each_walk u64_succ_small comp_def since_result_def
      split: prod.splits option.splits)
qed

theorem since_checked_exact_witness:
  "since_checked bare_ambient 0 sample_stream = Inl (0, 1, 2)
   \<and> map ev_id (case since_checked bare_ambient 1 sample_stream of Inr xs \<Rightarrow> xs | Inl _ \<Rightarrow> []) = [2, 3, 4]"
proof -
  have "since_checked bare_ambient 0 sample_stream = Inl (0, 1, 2)" by code_simp
  moreover obtain xs where xs: "since_checked bare_ambient 1 sample_stream = Inr xs" and l: "length xs = 3"
  proof -
    have "length (case since_checked bare_ambient 1 sample_stream of Inr xs \<Rightarrow> xs | Inl _ \<Rightarrow> []) = 3" by code_simp
    then show thesis using that by (cases "since_checked bare_ambient 1 sample_stream") auto
  qed
  moreover have "map ev_id xs = [Suc 1..<Suc 1 + 3]"
  proof -
    have "(1 :: u64) < u64_max" by (simp add: u64_max_def)
    from since_checked_exact [OF sample_stream_inv this, of bare_ambient]
    show ?thesis unfolding xs sum.case l by (rule conjunct2)
  qed
  ultimately show ?thesis by (simp add: upt_conv_Cons)
qed

section \<open>Hooks\<close>

lemma run_hooks_append:
  "run_hooks E kind (hs @ ks) e w =
     (case run_hooks E kind hs e w of
        (Inl err, w') \<Rightarrow> (Inl err, w')
      | (Inr r, w') \<Rightarrow> run_hooks E kind ks r w')"
  by (induction hs arbitrary: e w) (auto split: prod.splits sum.splits)

text \<open>
  A hook registered for a kind, under its current or its legacy name, runs on the events of that
  kind after the hooks registered before it, on what they returned; the first hook that fails blocks
  the event and the later ones do not run. What a hook returns is sanitised.
\<close>

theorem hook_emit_after_register:
  assumes "kind \<noteq> []" "canonical_kind (ev_kind ev) = canonical_kind kind"
  shows "hook_emit E None (Some (fst (hook_register kind (Some h) b))) ev w =
    (case hook_emit E None (Some b) ev w of
       (Inl err, w') \<Rightarrow> (Inl err, w')
     | (Inr r, w') \<Rightarrow>
         (case h (clone_event E r) w' of
            (Inl err, w'') \<Rightarrow> (Inl (ErrWrap (''hook '' @ canonical_kind kind @ '' blocked event: '') err []), w'')
          | (Inr r', w'') \<Rightarrow> (Inr (clone_event E r'), w'')))"
  using assms by (simp add: hook_emit_def hook_register_def Let_def run_hooks_append
    split: prod.splits sum.splits)

theorem hook_emit_after_register_witness:
  "hook_emit bare_ambient None (Some (fst (hook_register ''before_tool'' (Some (\<lambda>e w. (Inl (ErrText ''no''), w + 1))) [])))
     (sample_event ''tool_call_started'') (0 :: nat)
   = (Inl (ErrWrap ''hook tool_call_started blocked event: '' (ErrText ''no'') []), 1)"
proof -
  have k: "canonical_kind ''before_tool'' = ''tool_call_started''"
    "canonical_kind ''tool_call_started'' = ''tool_call_started''" by code_simp+
  show ?thesis
    by (subst hook_emit_after_register)
      (simp_all add: k sample_event_def hook_emit_def bucket_def Let_def)
qed

end
