(* ===== verification/Sessions.thy ===== *)
theory Sessions
  imports Go_Strings
begin

text \<open>
  \<open>internal/runtime/session.go\<close>: the sessions of an execution and their budgets. The identifiers
  that \<open>ensureID\<close> draws at random for a prefix are the argument \<open>fresh\<close>; a cost in USD is a
  rational.
\<close>

record budget =
  max_iterations :: int
  max_tokens :: int
  max_cost_usd :: rat
  max_wall_clock :: duration

definition zero_budget :: budget where
  "zero_budget = \<lparr>max_iterations = 0, max_tokens = 0, max_cost_usd = 0, max_wall_clock = 0\<rparr>"

record session =
  ss_exec_id :: string
  ss_session_id :: string
  ss_parent_session_id :: string
  ss_trace_id :: string
  ss_model :: string
  ss_started_at :: go_time
  ss_budget :: budget

record session_config =
  sc_exec_id :: string
  sc_session_id :: string
  sc_parent_session_id :: string
  sc_trace_id :: string
  sc_budget :: budget
  sc_now :: go_time

text \<open>The functional options; a nil option and a nil clock are errors.\<close>

datatype session_option =
    NilSessionOption
  | WithSessionIDs string string string
  | WithSessionBudget budget
  | WithSessionClock "go_time option"

definition default_session_config :: "go_time \<Rightarrow> session_config" where
  "default_session_config now = \<lparr>sc_exec_id = [], sc_session_id = [], sc_parent_session_id = [],
     sc_trace_id = [], sc_budget = zero_budget, sc_now = now\<rparr>"

fun apply_session_option :: "session_option \<Rightarrow> session_config \<Rightarrow> go_error + session_config" where
  "apply_session_option NilSessionOption cfg = Inl (ErrText ''nil session option'')"
| "apply_session_option (WithSessionIDs execID sessionID traceID) cfg =
     (let execID = trim_space execID; sessionID = trim_space sessionID; traceID = trim_space traceID;
          cfg = (if execID \<noteq> [] then cfg \<lparr>sc_exec_id := execID\<rparr> else cfg);
          cfg = (if sessionID \<noteq> [] then cfg \<lparr>sc_session_id := sessionID\<rparr> else cfg)
      in Inr (if traceID \<noteq> [] then cfg \<lparr>sc_trace_id := traceID\<rparr> else cfg))"
| "apply_session_option (WithSessionBudget b) cfg = Inr (cfg \<lparr>sc_budget := b\<rparr>)"
| "apply_session_option (WithSessionClock None) cfg = Inl (ErrText ''session clock is required'')"
| "apply_session_option (WithSessionClock (Some now)) cfg = Inr (cfg \<lparr>sc_now := now\<rparr>)"

fun apply_session_options :: "session_option list \<Rightarrow> session_config \<Rightarrow> go_error + session_config" where
  "apply_session_options [] cfg = Inr cfg"
| "apply_session_options (opt # opts) cfg =
     (case apply_session_option opt cfg of
        Inl err \<Rightarrow> Inl err
      | Inr cfg' \<Rightarrow> apply_session_options opts cfg')"

definition ensure_id :: "(string \<Rightarrow> string) \<Rightarrow> string \<Rightarrow> string \<Rightarrow> string" where
  "ensure_id fresh pre current = (if current \<noteq> [] then current else fresh pre)"

definition build_session :: "(string \<Rightarrow> string) \<Rightarrow> string \<Rightarrow> session_config \<Rightarrow> go_error + session" where
  "build_session fresh model cfg =
     (if model = [] then Inl (ErrText ''session model is required'')
      else Inr \<lparr>ss_exec_id = ensure_id fresh ''exec'' (sc_exec_id cfg),
                ss_session_id = ensure_id fresh ''sess'' (sc_session_id cfg),
                ss_parent_session_id = sc_parent_session_id cfg,
                ss_trace_id = ensure_id fresh ''trace'' (sc_trace_id cfg),
                ss_model = model, ss_started_at = sc_now cfg, ss_budget = sc_budget cfg\<rparr>)"

definition new_session ::
  "(string \<Rightarrow> string) \<Rightarrow> go_time \<Rightarrow> string \<Rightarrow> session_option list \<Rightarrow> go_error + session" where
  "new_session fresh now model opts =
     (case apply_session_options opts (default_session_config now) of
        Inl err \<Rightarrow> Inl err
      | Inr cfg \<Rightarrow> build_session fresh (trim_space model) cfg)"

definition new_child_session ::
  "(string \<Rightarrow> string) \<Rightarrow> go_time \<Rightarrow> session \<Rightarrow> string \<Rightarrow> session_option list \<Rightarrow> go_error + session" where
  "new_child_session fresh now parent model opts =
     (if ss_exec_id parent = [] \<or> ss_session_id parent = [] \<or> ss_trace_id parent = []
      then Inl (ErrText ''parent session must include exec, session, and trace IDs'')
      else case apply_session_options opts
             ((default_session_config now) \<lparr>sc_exec_id := ss_exec_id parent, sc_parent_session_id := ss_session_id parent,
                sc_trace_id := ss_trace_id parent, sc_budget := ss_budget parent\<rparr>) of
        Inl err \<Rightarrow> Inl err
      | Inr cfg \<Rightarrow> build_session fresh (trim_space model) cfg)"

lemma apply_session_options_keep_parent:
  "apply_session_options opts cfg = Inr cfg' \<Longrightarrow> sc_parent_session_id cfg' = sc_parent_session_id cfg"
proof (induction opts arbitrary: cfg)
  case (Cons opt opts)
  then obtain d where d: "apply_session_option opt cfg = Inr d" "apply_session_options opts d = Inr cfg'"
    by (auto split: sum.splits)
  then have "sc_parent_session_id d = sc_parent_session_id cfg"
    by (cases "(opt, cfg)" rule: apply_session_option.cases) (auto simp: Let_def)
  with Cons.IH d show ?case by simp
qed simp

text \<open>
  A child session is linked to its parent, and with no overriding option it shares the execution,
  the trace and the budget of the parent.
\<close>

lemma new_child_session_links:
  assumes "new_child_session fresh now parent model opts = Inr s"
  shows "ss_parent_session_id s = ss_session_id parent \<and> ss_model s = trim_space model"
  using assms
  by (auto simp: new_child_session_def build_session_def split: if_splits sum.splits
    dest!: apply_session_options_keep_parent)

lemma new_child_session_inherits:
  assumes "new_child_session fresh now parent model [] = Inr s"
  shows "ss_exec_id s = ss_exec_id parent \<and> ss_trace_id s = ss_trace_id parent
    \<and> ss_budget s = ss_budget parent \<and> ss_parent_session_id s = ss_session_id parent"
  using assms
  by (auto simp: new_child_session_def build_session_def ensure_id_def split: if_splits)

end
