(* ===== verification/State_Store.thy ===== *)
theory State_Store
  imports Event_Stream Sessions
begin

text \<open>
  \<open>internal/state\<close>: the in-memory implementation of the state store (\<open>memory_store.go\<close>) with the
  normalisations every backend shares (\<open>approval.go\<close>, \<open>idempotency.go\<close>, \<open>memory.go\<close>).

  \<open>memory_store\<close> is the struct \<open>MemoryStore\<close>; its mutex makes every method atomic, so a method is a
  function on the record. \<open>ctx\<close> is the error of the context at the method's first check, \<open>now\<close> the
  reading of the clock. The leases and the durable-run journal are in \<open>Lease_Store\<close> and
  \<open>Run_Journal\<close>.
\<close>

section \<open>Records\<close>

datatype execution_status =
    ExecutionRunning
  | ExecutionCompleted
  | ExecutionFailed
  | ExecutionTruncated
  | ExecutionStatusText string

record execution =
  ex_exec_id :: string
  ex_trace_id :: string
  ex_status :: execution_status
  ex_started_at :: go_time
  ex_completed_at :: go_time

datatype idempotency_outcome =
    IdempotencyPending
  | IdempotencySucceeded
  | IdempotencyFailed
  | IdempotencyText string

record idempotency_record =
  ir_key :: string
  ir_exec_id :: string
  ir_outcome :: idempotency_outcome
  ir_created_at :: go_time
  ir_updated_at :: go_time

record schema_violation =
  sv_id :: u64
  sv_at :: go_time
  sv_exec_id :: string
  sv_session_id :: string
  sv_schema_name :: string
  sv_error :: string

record memory_record =
  mr_scope :: string
  mr_key :: string
  mr_value :: string
  mr_updated_at :: go_time

text \<open>The empty status of a zero approval is \<open>ApprovalStatusText []\<close>.\<close>

datatype approval_status =
    ApprovalPending
  | ApprovalApproved
  | ApprovalDenied
  | ApprovalStatusText string

record pending_approval =
  pa_id :: string
  pa_exec_id :: string
  pa_session_id :: string
  pa_trace_id :: string
  pa_tool_name :: string
  pa_tool_call_id :: string
  pa_tool_kind :: string
  pa_effect :: string
  pa_reason :: string
  pa_args_hash :: string
  pa_status :: approval_status
  pa_created_at :: go_time
  pa_decided_at :: go_time
  pa_decided_by :: string

record lease =
  le_name :: string
  le_holder :: string
  le_fence :: u64
  le_acquired_at :: go_time
  le_renewed_at :: go_time
  le_expires_at :: go_time

record run_journal =
  rj_exec_id :: string
  rj_plan_key :: string
  rj_plan_hash :: string
  rj_trigger_kind :: string
  rj_input :: string
  rj_replay_unsafe :: bool
  rj_created_at :: go_time

record run_checkpoint =
  rc_exec_id :: string
  rc_step_index :: int
  rc_output :: string
  rc_replay_unsafe :: bool
  rc_completed_at :: go_time

record tool_intent =
  ti_exec_id :: string
  ti_tool_call_id :: string
  ti_step_index :: int
  ti_tool_name :: string
  ti_effect :: string
  ti_idem_key :: string
  ti_started_at :: go_time
  ti_completed_at :: go_time

record memory_store =
  db_executions :: "(string, execution) gomap"
  db_sessions :: "(string, session) gomap"
  db_idempotency :: "(string, idempotency_record) gomap"
  db_events :: "event list"
  db_event_ids :: "u64 list"
  db_next_event_id :: u64
  db_violations :: "schema_violation list"
  db_next_violation_id :: u64
  db_memory :: "(string, (string, memory_record) gomap) gomap"
  db_approvals :: "(string, pending_approval) gomap"
  db_approval_seq :: u64
  db_approval_order :: "(string, u64) gomap"
  db_leases :: "(string, lease) gomap"
  db_run_journals :: "(string, run_journal) gomap"
  db_run_checkpoints :: "(string, (int, run_checkpoint) gomap) gomap"
  db_tool_intents :: "(string, (string, tool_intent) gomap) gomap"

definition new_memory_store :: memory_store where
  "new_memory_store = \<lparr>db_executions = [], db_sessions = [], db_idempotency = [], db_events = [],
     db_event_ids = [], db_next_event_id = 0, db_violations = [], db_next_violation_id = 0, db_memory = [],
     db_approvals = [], db_approval_seq = 0, db_approval_order = [], db_leases = [], db_run_journals = [],
     db_run_checkpoints = [], db_tool_intents = []\<rparr>"

text \<open>A method that returns only an error, and one that returns a value or an error.\<close>

type_synonym 'a query = "go_error + 'a"
type_synonym update = "memory_store \<times> go_error option"

section \<open>Executions and sessions\<close>

definition save_execution :: "go_error option \<Rightarrow> execution \<Rightarrow> memory_store \<Rightarrow> update" where
  "save_execution ctx x s =
     (case ctx of Some err \<Rightarrow> (s, Some err)
      | None \<Rightarrow>
        if ex_exec_id x = [] then (s, Some (ErrText ''execution ID is required''))
        else (s \<lparr>db_executions := mput (ex_exec_id x) x (db_executions s)\<rparr>, None))"

definition get_execution :: "go_error option \<Rightarrow> string \<Rightarrow> memory_store \<Rightarrow> execution option query" where
  "get_execution ctx execID s =
     (case ctx of Some err \<Rightarrow> Inl err | None \<Rightarrow> Inr (mget (db_executions s) execID))"

definition list_executions :: "go_error option \<Rightarrow> memory_store \<Rightarrow> execution list query" where
  "list_executions ctx s =
     (case ctx of Some err \<Rightarrow> Inl err
      | None \<Rightarrow> Inr (sort_key (\<lambda>x. (ex_started_at x, ex_exec_id x)) (mvals (db_executions s))))"

definition save_session :: "go_error option \<Rightarrow> session \<Rightarrow> memory_store \<Rightarrow> update" where
  "save_session ctx x s =
     (case ctx of Some err \<Rightarrow> (s, Some err)
      | None \<Rightarrow>
        if ss_session_id x = [] then (s, Some (ErrText ''session ID is required''))
        else (s \<lparr>db_sessions := mput (ss_session_id x) x (db_sessions s)\<rparr>, None))"

definition get_session :: "go_error option \<Rightarrow> string \<Rightarrow> memory_store \<Rightarrow> session option query" where
  "get_session ctx sessionID s =
     (case ctx of Some err \<Rightarrow> Inl err | None \<Rightarrow> Inr (mget (db_sessions s) sessionID))"

definition list_sessions :: "go_error option \<Rightarrow> memory_store \<Rightarrow> session list query" where
  "list_sessions ctx s = (case ctx of Some err \<Rightarrow> Inl err | None \<Rightarrow> Inr (mvals (db_sessions s)))"

section \<open>Idempotency\<close>

definition validate_resolved_idempotency_outcome :: "idempotency_outcome \<Rightarrow> go_error option" where
  "validate_resolved_idempotency_outcome outcome =
     (case outcome of IdempotencySucceeded \<Rightarrow> None | IdempotencyFailed \<Rightarrow> None
      | _ \<Rightarrow> Some (ErrText ''invalid resolved idempotency outcome''))"

definition validate_idempotency_resolution ::
  "string \<Rightarrow> string \<Rightarrow> idempotency_outcome \<Rightarrow> go_error option" where
  "validate_idempotency_resolution key execID outcome =
     (if trim_space key = [] then Some (ErrText ''idempotency key is required'')
      else if trim_space execID = [] then Some (ErrText ''execution ID is required'')
      else validate_resolved_idempotency_outcome outcome)"

text \<open>The result is the holder of the key when it is taken, and whether the caller got it.\<close>

definition reserve_idempotency ::
  "go_error option \<Rightarrow> go_time \<Rightarrow> string \<Rightarrow> string \<Rightarrow> memory_store \<Rightarrow> memory_store \<times> (string \<times> bool) query" where
  "reserve_idempotency ctx now key execID s =
     (case ctx of Some err \<Rightarrow> (s, Inl err)
      | None \<Rightarrow>
        if key = [] then (s, Inl (ErrText ''idempotency key is required''))
        else if execID = [] then (s, Inl (ErrText ''execution ID is required''))
        else let fresh = s \<lparr>db_idempotency := mput key \<lparr>ir_key = key, ir_exec_id = execID,
                     ir_outcome = IdempotencyPending, ir_created_at = now, ir_updated_at = now\<rparr> (db_idempotency s)\<rparr>
          in case mget (db_idempotency s) key of
            Some existing \<Rightarrow> if ir_outcome existing \<noteq> IdempotencyFailed then (s, Inr (ir_exec_id existing, False))
                             else (fresh, Inr ([], True))
          | None \<Rightarrow> (fresh, Inr ([], True)))"

definition get_idempotency ::
  "go_error option \<Rightarrow> string \<Rightarrow> memory_store \<Rightarrow> idempotency_record option query" where
  "get_idempotency ctx key s =
     (case ctx of Some err \<Rightarrow> Inl err
      | None \<Rightarrow> if trim_space key = [] then Inl (ErrText ''idempotency key is required'')
               else Inr (mget (db_idempotency s) key))"

definition resolve_idempotency ::
  "go_error option \<Rightarrow> go_time \<Rightarrow> string \<Rightarrow> string \<Rightarrow> idempotency_outcome \<Rightarrow> memory_store \<Rightarrow> update" where
  "resolve_idempotency ctx now key execID outcome s =
     (case ctx of Some err \<Rightarrow> (s, Some err)
      | None \<Rightarrow>
     (case validate_idempotency_resolution key execID outcome of Some err \<Rightarrow> (s, Some err)
      | None \<Rightarrow>
     (case mget (db_idempotency s) key of
        None \<Rightarrow> (s, Some (ErrText ''idempotency reservation not found''))
      | Some r \<Rightarrow>
          if ir_exec_id r \<noteq> execID then (s, Some (ErrText ''idempotency reservation owner mismatch''))
          else if ir_outcome r \<noteq> IdempotencyPending
          then (if ir_outcome r = outcome then (s, None)
                else (s, Some (ErrText ''idempotency reservation already resolved'')))
          else (s \<lparr>db_idempotency := mput key (r \<lparr>ir_outcome := outcome, ir_updated_at := now\<rparr>)
                     (db_idempotency s)\<rparr>, None))))"

definition resolve_idempotency_by_execution ::
  "go_error option \<Rightarrow> go_time \<Rightarrow> string \<Rightarrow> string \<Rightarrow> idempotency_outcome \<Rightarrow> memory_store \<Rightarrow> update" where
  "resolve_idempotency_by_execution ctx now execID keyPrefix outcome s =
     (case ctx of Some err \<Rightarrow> (s, Some err)
      | None \<Rightarrow>
        if trim_space execID = [] then (s, Some (ErrText ''execution ID is required''))
        else case validate_resolved_idempotency_outcome outcome of Some err \<Rightarrow> (s, Some err)
      | None \<Rightarrow>
          (s \<lparr>db_idempotency := mupd_all (\<lambda>key r.
                if ir_exec_id r \<noteq> execID \<or> ir_outcome r \<noteq> IdempotencyPending \<or> \<not> has_prefix key keyPrefix then r
                else r \<lparr>ir_outcome := outcome, ir_updated_at := now\<rparr>) (db_idempotency s)\<rparr>, None))"

section \<open>Events\<close>

definition add_event ::
  "ambient \<Rightarrow> go_error option \<Rightarrow> go_time \<Rightarrow> event \<Rightarrow> memory_store \<Rightarrow> memory_store \<times> event query" where
  "add_event E ctx now ev s =
     (case ctx of Some err \<Rightarrow> (s, Inl err)
      | None \<Rightarrow>
        let e = sanitize_event E ev;
            stamp = (\<lambda>d. d \<lparr>ev_at := (if is_zero (ev_at d) then now else ev_at d)\<rparr>);
            store = (\<lambda>d t. t \<lparr>db_event_ids := ev_id d # db_event_ids t, db_events := db_events t @ [d]\<rparr>)
        in if ev_id e = 0
           then if db_next_event_id s = u64_max then (s, Inl err_event_id_exhausted)
                else let i = u64_succ (db_next_event_id s); d = stamp (e \<lparr>ev_id := i\<rparr>)
                     in (store d (s \<lparr>db_next_event_id := i\<rparr>), Inr (sanitize_event E d))
           else if ev_id e \<in> set (db_event_ids s) then (s, Inl (ErrText ''event ID already exists''))
           else let d = stamp e
                in (store d (if db_next_event_id s < ev_id e then s \<lparr>db_next_event_id := ev_id e\<rparr> else s),
                    Inr (sanitize_event E d)))"

definition events_since_locked :: "ambient \<Rightarrow> string \<Rightarrow> u64 \<Rightarrow> memory_store \<Rightarrow> event list" where
  "events_since_locked E execID afterID s =
     sort_key ev_id (map (sanitize_event E)
       (filter (\<lambda>e. (execID = [] \<or> ev_exec_id e = execID) \<and> afterID < ev_id e) (db_events s)))"

definition list_events :: "ambient \<Rightarrow> go_error option \<Rightarrow> string \<Rightarrow> memory_store \<Rightarrow> event list query" where
  "list_events E ctx execID s =
     (case ctx of Some err \<Rightarrow> Inl err | None \<Rightarrow> Inr (events_since_locked E execID 0 s))"

definition events_since :: "ambient \<Rightarrow> go_error option \<Rightarrow> string \<Rightarrow> u64 \<Rightarrow> memory_store \<Rightarrow> event list query" where
  "events_since E ctx execID afterID s =
     (case ctx of Some err \<Rightarrow> Inl err | None \<Rightarrow> Inr (events_since_locked E execID afterID s))"

section \<open>Schema violations\<close>

definition add_schema_violation ::
  "ambient \<Rightarrow> go_error option \<Rightarrow> go_time \<Rightarrow> schema_violation \<Rightarrow> memory_store
     \<Rightarrow> memory_store \<times> schema_violation query" where
  "add_schema_violation E ctx now v s =
     (case ctx of Some err \<Rightarrow> (s, Inl err)
      | None \<Rightarrow>
        let i = u64_succ (db_next_violation_id s);
            v = v \<lparr>sv_id := i, sv_at := (if is_zero (sv_at v) then now else sv_at v),
                   sv_error := redact_text E (sv_error v)\<rparr>
        in (s \<lparr>db_next_violation_id := i, db_violations := db_violations s @ [v]\<rparr>, Inr v))"

definition schema_violations :: "go_error option \<Rightarrow> string \<Rightarrow> memory_store \<Rightarrow> schema_violation list query" where
  "schema_violations ctx execID s =
     (case ctx of Some err \<Rightarrow> Inl err
      | None \<Rightarrow> Inr (filter (\<lambda>v. execID = [] \<or> sv_exec_id v = execID) (db_violations s)))"

section \<open>Agent memory\<close>

definition max_memory_value_bytes :: nat where "max_memory_value_bytes = 64 * 1024"

definition normalize_memory ::
  "ambient \<Rightarrow> string \<Rightarrow> string \<Rightarrow> string \<Rightarrow> (string \<times> string \<times> string) query" where
  "normalize_memory E scope key val =
     (let scope = trim_space scope; key = trim_space key in
      if scope = [] then Inl (ErrText ''memory scope is required'')
      else if key = [] then Inl (ErrText ''memory key is required'')
      else if max_memory_value_bytes < length val then Inl (ErrText ''memory value exceeds 65536 bytes'')
      else Inr (scope, key, redact_json_text E val))"

definition save_memory ::
  "ambient \<Rightarrow> go_error option \<Rightarrow> go_time \<Rightarrow> string \<Rightarrow> string \<Rightarrow> string \<Rightarrow> memory_store \<Rightarrow> update" where
  "save_memory E ctx now scope key val s =
     (case ctx of Some err \<Rightarrow> (s, Some err)
      | None \<Rightarrow>
     (case normalize_memory E scope key val of
        Inl err \<Rightarrow> (s, Some err)
      | Inr (scope, key, val) \<Rightarrow>
          (s \<lparr>db_memory := mput scope
                (mput key \<lparr>mr_scope = scope, mr_key = key, mr_value = val, mr_updated_at = now\<rparr>
                  (bucket (db_memory s) scope)) (db_memory s)\<rparr>, None)))"

definition get_memory :: "go_error option \<Rightarrow> string \<Rightarrow> string \<Rightarrow> memory_store \<Rightarrow> (string \<times> bool) query" where
  "get_memory ctx scope key s =
     (case ctx of Some err \<Rightarrow> Inl err
      | None \<Rightarrow>
        (case mget (bucket (db_memory s) (trim_space scope)) (trim_space key) of
           None \<Rightarrow> Inr ([], False)
         | Some r \<Rightarrow> Inr (mr_value r, True)))"

definition list_memory :: "go_error option \<Rightarrow> string \<Rightarrow> memory_store \<Rightarrow> memory_record list query" where
  "list_memory ctx scope s =
     (case ctx of Some err \<Rightarrow> Inl err
      | None \<Rightarrow> Inr (sort_key mr_key (mvals (bucket (db_memory s) (trim_space scope)))))"

section \<open>Approvals\<close>

definition normalize_approval :: "ambient \<Rightarrow> pending_approval \<Rightarrow> pending_approval query" where
  "normalize_approval E a =
     (if trim_space (pa_id a) = [] then Inl (ErrText ''approval id is required'')
      else if trim_space (pa_exec_id a) = [] then Inl (ErrText ''approval execution id is required'')
      else if trim_space (pa_tool_name a) = [] then Inl (ErrText ''approval tool name is required'')
      else Inr (a \<lparr>pa_id := trim_space (pa_id a), pa_exec_id := trim_space (pa_exec_id a),
             pa_tool_name := trim_space (pa_tool_name a),
             pa_status := (if pa_status a = ApprovalStatusText [] then ApprovalPending else pa_status a),
             pa_session_id := trim_space (pa_session_id a), pa_trace_id := trim_space (pa_trace_id a),
             pa_tool_call_id := trim_space (pa_tool_call_id a), pa_tool_kind := trim_space (pa_tool_kind a),
             pa_effect := trim_space (pa_effect a), pa_decided_by := trim_space (pa_decided_by a),
             pa_reason := redact_text E (trim_space (pa_reason a)),
             pa_args_hash := redact_text E (trim_space (pa_args_hash a))\<rparr>))"

definition terminal_approval_status :: "approval_status \<Rightarrow> bool" where
  "terminal_approval_status status = (status = ApprovalApproved \<or> status = ApprovalDenied)"

definition save_approval ::
  "ambient \<Rightarrow> go_error option \<Rightarrow> go_time \<Rightarrow> pending_approval \<Rightarrow> memory_store \<Rightarrow> update" where
  "save_approval E ctx now a s =
     (case ctx of Some err \<Rightarrow> (s, Some err)
      | None \<Rightarrow>
     (case normalize_approval E a of
        Inl err \<Rightarrow> (s, Some err)
      | Inr a \<Rightarrow>
          let a = a \<lparr>pa_created_at := (if is_zero (pa_created_at a) then now else pa_created_at a)\<rparr>;
              s = (if mget (db_approval_order s) (pa_id a) = None
                   then let n = u64_succ (db_approval_seq s)
                        in s \<lparr>db_approval_seq := n, db_approval_order := mput (pa_id a) n (db_approval_order s)\<rparr>
                   else s)
          in (s \<lparr>db_approvals := mput (pa_id a) a (db_approvals s)\<rparr>, None)))"

definition get_approval :: "go_error option \<Rightarrow> string \<Rightarrow> memory_store \<Rightarrow> pending_approval option query" where
  "get_approval ctx i s =
     (case ctx of Some err \<Rightarrow> Inl err | None \<Rightarrow> Inr (mget (db_approvals s) (trim_space i)))"

definition approval_rank :: "memory_store \<Rightarrow> pending_approval \<Rightarrow> u64" where
  "approval_rank s a = (case mget (db_approval_order s) (pa_id a) of Some n \<Rightarrow> n | None \<Rightarrow> 0)"

definition pending_approvals :: "go_error option \<Rightarrow> memory_store \<Rightarrow> pending_approval list query" where
  "pending_approvals ctx s =
     (case ctx of Some err \<Rightarrow> Inl err
      | None \<Rightarrow> Inr (sort_key (approval_rank s)
          (filter (\<lambda>a. pa_status a = ApprovalPending) (mvals (db_approvals s)))))"

definition approvals_for_execution ::
  "go_error option \<Rightarrow> string \<Rightarrow> memory_store \<Rightarrow> pending_approval list query" where
  "approvals_for_execution ctx execID s =
     (case ctx of Some err \<Rightarrow> Inl err
      | None \<Rightarrow> Inr (sort_key (approval_rank s)
          (filter (\<lambda>a. pa_exec_id a = trim_space execID) (mvals (db_approvals s)))))"

definition resolve_approval ::
  "go_error option \<Rightarrow> go_time \<Rightarrow> string \<Rightarrow> approval_status \<Rightarrow> string \<Rightarrow> memory_store
     \<Rightarrow> memory_store \<times> pending_approval query" where
  "resolve_approval ctx now i status decidedBy s =
     (case ctx of Some err \<Rightarrow> (s, Inl err)
      | None \<Rightarrow>
        if \<not> terminal_approval_status status
        then (s, Inl (ErrText ''approval resolution must be approved or denied''))
        else case mget (db_approvals s) (trim_space i) of
          None \<Rightarrow> (s, Inl (ErrText ''approval not found''))
        | Some a \<Rightarrow>
            if pa_status a \<noteq> ApprovalPending then (s, Inl (ErrText ''approval already decided''))
            else let a = a \<lparr>pa_status := status, pa_decided_by := trim_space decidedBy, pa_decided_at := now\<rparr>
                 in (s \<lparr>db_approvals := mput (trim_space i) a (db_approvals s)\<rparr>, Inr a))"


section \<open>The contract of an idempotency store\<close>

text \<open>
  What the executors and the triggers rely on: a key is handed out when it is free or its last
  holder failed, it stays with its holder until the holder fails it, and only the holder resolves
  it. \<open>'t\<close> is what a call carries besides its arguments (its context and clock), \<open>live\<close> that its
  context is not done.
\<close>

datatype 't idem_op =
    IdemReserve 't string string
  | IdemResolve 't string string idempotency_outcome
  | IdemResolveAll 't string string idempotency_outcome

text \<open>The operation by which the holder \<open>y\<close> fails the key \<open>k\<close>.\<close>

fun fails_key :: "string \<Rightarrow> string \<Rightarrow> 't idem_op \<Rightarrow> bool" where
  "fails_key k y (IdemReserve t key x) = False"
| "fails_key k y (IdemResolve t key x out) = (k = key \<and> y = x \<and> out = IdempotencyFailed)"
| "fails_key k y (IdemResolveAll t x pre out) = (y = x \<and> has_prefix k pre \<and> out = IdempotencyFailed)"

locale idempotency_contract =
  fixes live :: "'t \<Rightarrow> bool"
    and reserve :: "'t \<Rightarrow> string \<Rightarrow> string \<Rightarrow> 's \<Rightarrow> 's \<times> (string \<times> bool) query"
    and resolve :: "'t \<Rightarrow> string \<Rightarrow> string \<Rightarrow> idempotency_outcome \<Rightarrow> 's \<Rightarrow> 's \<times> go_error option"
    and resolve_all :: "'t \<Rightarrow> string \<Rightarrow> string \<Rightarrow> idempotency_outcome \<Rightarrow> 's \<Rightarrow> 's \<times> go_error option"
    and holder :: "'s \<Rightarrow> string \<Rightarrow> (string \<times> idempotency_outcome) option"
  assumes reserve_taken: "live t \<Longrightarrow> key \<noteq> [] \<Longrightarrow> x \<noteq> [] \<Longrightarrow> holder s key = Some (y, out) \<Longrightarrow> out \<noteq> IdempotencyFailed
      \<Longrightarrow> reserve t key x s = (s, Inr (y, False))"
    and reserve_free: "live t \<Longrightarrow> key \<noteq> [] \<Longrightarrow> x \<noteq> [] \<Longrightarrow> (\<forall>y out. holder s key = Some (y, out) \<longrightarrow> out = IdempotencyFailed)
      \<Longrightarrow> snd (reserve t key x s) = Inr ([], True)
        \<and> holder (fst (reserve t key x s)) key = Some (x, IdempotencyPending)"
    and reserve_keeps: "holder s k = Some (y, out) \<Longrightarrow> k \<noteq> key \<or> out \<noteq> IdempotencyFailed
      \<Longrightarrow> holder (fst (reserve t key x s)) k = Some (y, out)"
    and resolve_keeps: "holder s k = Some (y, out) \<Longrightarrow> k \<noteq> key \<or> y \<noteq> x \<or> out \<noteq> IdempotencyPending
      \<Longrightarrow> holder (fst (resolve t key x outcome s)) k = Some (y, out)"
    and resolve_holder: "holder s k = Some (y, IdempotencyPending)
      \<Longrightarrow> holder (fst (resolve t k y outcome s)) k \<in> {Some (y, IdempotencyPending), Some (y, outcome)}"
    and resolve_all_keeps: "holder s k = Some (y, out) \<Longrightarrow> y \<noteq> x \<or> out \<noteq> IdempotencyPending \<or> \<not> has_prefix k pre
      \<Longrightarrow> holder (fst (resolve_all t x pre outcome s)) k = Some (y, out)"
    and resolve_all_holder: "holder s k = Some (y, IdempotencyPending)
      \<Longrightarrow> holder (fst (resolve_all t y pre outcome s)) k \<in> {Some (y, IdempotencyPending), Some (y, outcome)}"
begin

fun run_op :: "'t idem_op \<Rightarrow> 's \<Rightarrow> 's" where
  "run_op (IdemReserve t key x) s = fst (reserve t key x s)"
| "run_op (IdemResolve t key x out) s = fst (resolve t key x out s)"
| "run_op (IdemResolveAll t x pre out) s = fst (resolve_all t x pre out s)"

lemma run_op_settled:
  assumes "holder s k = Some (y, out)" "out \<noteq> IdempotencyPending" "out \<noteq> IdempotencyFailed"
  shows "holder (run_op p s) k = Some (y, out)"
  using assms by (cases p) (simp_all add: reserve_keeps resolve_keeps resolve_all_keeps)

lemma run_op_held:
  assumes "holder s k = Some (y, out)" "out \<noteq> IdempotencyFailed" "\<not> fails_key k y p"
  shows "\<exists>out'. out' \<noteq> IdempotencyFailed \<and> holder (run_op p s) k = Some (y, out')"
proof (cases "out = IdempotencyPending")
  case False
  with assms run_op_settled show ?thesis by blast
next
  case True
  show ?thesis
  proof (cases p)
    case (IdemReserve t key x)
    with assms reserve_keeps show ?thesis by fastforce
  next
    case (IdemResolve t key x o')
    show ?thesis
    proof (cases "k = key \<and> y = x")
      case hit: True
      then have "o' \<noteq> IdempotencyFailed" using assms(3) IdemResolve by simp
      with hit IdemResolve assms(1) True resolve_holder [of s k y t o'] show ?thesis by auto
    next
      case False
      with IdemResolve assms resolve_keeps show ?thesis by fastforce
    qed
  next
    case (IdemResolveAll t x pre o')
    show ?thesis
    proof (cases "y = x \<and> has_prefix k pre")
      case hit: True
      then have "o' \<noteq> IdempotencyFailed" using assms(3) IdemResolveAll by simp
      with hit IdemResolveAll assms(1) True resolve_all_holder [of s k y t pre o'] show ?thesis by auto
    next
      case False
      with IdemResolveAll assms resolve_all_keeps show ?thesis by fastforce
    qed
  qed
qed

lemma run_held:
  "holder s k = Some (y, out) \<Longrightarrow> out \<noteq> IdempotencyFailed \<Longrightarrow> \<forall>p \<in> set ps. \<not> fails_key k y p \<Longrightarrow>
     \<exists>out'. out' \<noteq> IdempotencyFailed \<and> holder (fold run_op ps s) k = Some (y, out')"
proof (induction ps arbitrary: s out)
  case (Cons p ps)
  then obtain out' where "out' \<noteq> IdempotencyFailed" "holder (run_op p s) k = Some (y, out')"
    using run_op_held [of s k y out p] by auto
  with Cons.IH Cons.prems(3) show ?case by simp
qed auto

lemma run_settled:
  "holder s k = Some (y, out) \<Longrightarrow> out \<noteq> IdempotencyPending \<Longrightarrow> out \<noteq> IdempotencyFailed \<Longrightarrow>
     holder (fold run_op ps s) k = Some (y, out)"
  by (induction ps arbitrary: s) (simp_all add: run_op_settled)

lemma held_not_reserved:
  assumes "holder s k = Some (y, out)" "out \<noteq> IdempotencyFailed" "\<forall>p \<in> set ps. \<not> fails_key k y p"
    "live t" "k \<noteq> []" "x \<noteq> []"
  shows "reserve t k x (fold run_op ps s) = (fold run_op ps s, Inr (y, False))"
  using run_held [OF assms(1-3)] reserve_taken [OF assms(4-6)] by blast

end

section \<open>The memory store implements it\<close>

definition idem_holder :: "memory_store \<Rightarrow> string \<Rightarrow> (string \<times> idempotency_outcome) option" where
  "idem_holder s key = map_option (\<lambda>r. (ir_exec_id r, ir_outcome r)) (mget (db_idempotency s) key)"

type_synonym call = "go_error option \<times> go_time"

definition idem_live :: "call \<Rightarrow> bool" where "idem_live t = (fst t = None)"
definition idem_reserve where "idem_reserve t = reserve_idempotency (fst t) (snd t)" for t :: call
definition idem_resolve where "idem_resolve t = resolve_idempotency (fst t) (snd t)" for t :: call
definition idem_resolve_all where "idem_resolve_all t = resolve_idempotency_by_execution (fst t) (snd t)" for t :: call

lemmas idem_defs = idem_holder_def idem_live_def idem_reserve_def idem_resolve_def idem_resolve_all_def
  reserve_idempotency_def resolve_idempotency_def resolve_idempotency_by_execution_def

interpretation idem: idempotency_contract idem_live idem_reserve idem_resolve idem_resolve_all idem_holder
proof
  fix t key x s y out
  show "idem_live t \<Longrightarrow> key \<noteq> [] \<Longrightarrow> x \<noteq> [] \<Longrightarrow> idem_holder s key = Some (y, out) \<Longrightarrow> out \<noteq> IdempotencyFailed
      \<Longrightarrow> idem_reserve t key x s = (s, Inr (y, False))"
    by (auto simp: idem_defs)
  show "idem_live t \<Longrightarrow> key \<noteq> [] \<Longrightarrow> x \<noteq> [] \<Longrightarrow> \<forall>y out. idem_holder s key = Some (y, out) \<longrightarrow> out = IdempotencyFailed
      \<Longrightarrow> snd (idem_reserve t key x s) = Inr ([], True)
        \<and> idem_holder (fst (idem_reserve t key x s)) key = Some (x, IdempotencyPending)"
    by (auto simp: idem_defs Let_def split: option.splits)
next
  fix s k y out key t x
  show "idem_holder s k = Some (y, out) \<Longrightarrow> k \<noteq> key \<or> out \<noteq> IdempotencyFailed
      \<Longrightarrow> idem_holder (fst (idem_reserve t key x s)) k = Some (y, out)"
    by (auto simp: idem_defs Let_def split: option.splits)
  fix outcome
  show "idem_holder s k = Some (y, out) \<Longrightarrow> k \<noteq> key \<or> y \<noteq> x \<or> out \<noteq> IdempotencyPending
      \<Longrightarrow> idem_holder (fst (idem_resolve t key x outcome s)) k = Some (y, out)"
    by (auto simp: idem_defs split: option.splits)
  show "idem_holder s k = Some (y, IdempotencyPending)
      \<Longrightarrow> idem_holder (fst (idem_resolve t k y outcome s)) k \<in> {Some (y, IdempotencyPending), Some (y, outcome)}"
    by (auto simp: idem_defs split: option.splits)
  fix pre
  show "idem_holder s k = Some (y, out) \<Longrightarrow> y \<noteq> x \<or> out \<noteq> IdempotencyPending \<or> \<not> has_prefix k pre
      \<Longrightarrow> idem_holder (fst (idem_resolve_all t x pre outcome s)) k = Some (y, out)"
    by (auto simp: idem_defs split: option.splits)
  show "idem_holder s k = Some (y, IdempotencyPending)
      \<Longrightarrow> idem_holder (fst (idem_resolve_all t y pre outcome s)) k \<in> {Some (y, IdempotencyPending), Some (y, outcome)}"
    by (cases "mget (db_idempotency s) k"; cases "prefix pre k") (simp_all add: idem_defs split: option.split)
qed

fun idem_run :: "call idem_op \<Rightarrow> memory_store \<Rightarrow> memory_store" where
  "idem_run (IdemReserve t key x) s = fst (reserve_idempotency (fst t) (snd t) key x s)"
| "idem_run (IdemResolve t key x out) s = fst (resolve_idempotency (fst t) (snd t) key x out s)"
| "idem_run (IdemResolveAll t x pre out) s = fst (resolve_idempotency_by_execution (fst t) (snd t) x pre out s)"

lemma idem_run_op: "idem_run = idem.run_op"
proof (intro ext)
  fix p s show "idem_run p s = idem.run_op p s"
    by (cases p) (simp_all add: idem_reserve_def idem_resolve_def idem_resolve_all_def)
qed

text \<open>C35
  An idempotency key has one holder at a time: once an execution holds it, whatever reservations
  and resolutions by anyone follow, no other execution is handed the key unless the holder itself
  failed it; the caller is told who holds it and the store does not change.
\<close>

theorem idempotency_exclusive:
  assumes "idem_holder s k = Some (y, out)" "out \<noteq> IdempotencyFailed"
    "\<forall>p \<in> set ps. \<not> fails_key k y p" "k \<noteq> []" "x \<noteq> []"
  shows "reserve_idempotency None now k x (fold idem_run ps s) = (fold idem_run ps s, Inr (y, False))"
  using idem.held_not_reserved [OF assms(1-3) _ assms(4,5), of "(None, now)"]
  by (simp add: idem_live_def idem_reserve_def idem_run_op)

text \<open>
  A key that succeeded is settled for good: no sequence of operations frees it or changes its
  outcome or its holder.
\<close>

theorem idempotency_settled:
  assumes "idem_holder s k = Some (y, IdempotencySucceeded)"
  shows "idem_holder (fold idem_run ps s) k = Some (y, IdempotencySucceeded)"
  using idem.run_settled [OF assms] by (simp add: idem_run_op)

text \<open>
  A key that nobody holds, or whose last holder failed it, is handed to the first caller, who then
  holds it as pending.
\<close>

theorem idempotency_retry_after_failure:
  assumes "\<forall>y out. idem_holder s k = Some (y, out) \<longrightarrow> out = IdempotencyFailed" "k \<noteq> []" "x \<noteq> []"
  shows "snd (reserve_idempotency None now k x s) = Inr ([], True)
    \<and> idem_holder (fst (reserve_idempotency None now k x s)) k = Some (x, IdempotencyPending)"
  using idem.reserve_free [OF _ assms(2,3,1), of "(None, now)"] by (simp add: idem_live_def idem_reserve_def)

definition sample_store :: memory_store where
  "sample_store = fst (reserve_idempotency None 1 ''k'' ''x1'' new_memory_store)"

lemma sample_store_holder: "idem_holder sample_store ''k'' = Some (''x1'', IdempotencyPending)"
  by (simp add: sample_store_def idem_defs new_memory_store_def Let_def)

theorem idempotency_exclusive_witness:
  "snd (reserve_idempotency None 9 ''k'' ''x2'' (fold idem_run
     [IdemResolve (None, 2) ''k'' ''x2'' IdempotencyFailed, IdemResolve (None, 3) ''k'' ''x1'' IdempotencySucceeded]
     sample_store)) = Inr (''x1'', False)"
  by (subst idempotency_exclusive [OF sample_store_holder]) simp_all

theorem idempotency_settled_witness:
  "idem_holder (fold idem_run [IdemReserve (None, 4) ''k'' ''x3'', IdemResolve (None, 5) ''k'' ''x1'' IdempotencyFailed]
     (idem_run (IdemResolve (None, 3) ''k'' ''x1'' IdempotencySucceeded) sample_store)) ''k''
   = Some (''x1'', IdempotencySucceeded)"
  by (rule idempotency_settled) code_simp

theorem idempotency_retry_after_failure_witness:
  "snd (reserve_idempotency None 7 ''k'' ''x2''
     (idem_run (IdemResolve (None, 3) ''k'' ''x1'' IdempotencyFailed) sample_store)) = Inr ([], True)"
proof -
  have "idem_holder (idem_run (IdemResolve (None, 3) ''k'' ''x1'' IdempotencyFailed) sample_store) ''k''
    = Some (''x1'', IdempotencyFailed)" by code_simp
  then show ?thesis by (intro conjunct1 [OF idempotency_retry_after_failure]) simp_all
qed

section \<open>Invariants of the store\<close>

definition keyed :: "('v \<Rightarrow> 'k) \<Rightarrow> ('k, 'v) gomap \<Rightarrow> bool" where
  "keyed key m = (mwf m \<and> (\<forall>(k, v) \<in> set m. key v = k))"

lemma keyed_mput [intro]: "keyed key m \<Longrightarrow> key v = k \<Longrightarrow> keyed key (mput k v m)"
  by (auto simp: keyed_def dest: mput_set)

lemma keyed_mdel [intro]: "keyed key m \<Longrightarrow> keyed key (mdel k m)"
  by (auto simp: keyed_def dest: mdel_set)

lemma keyed_mget: "keyed key m \<Longrightarrow> mget m k = Some v \<Longrightarrow> key v = k"
  by (auto simp: keyed_def dest: map_of_SomeD)

lemma keyed_mupd_all:
  assumes "keyed key m" "\<And>k v. key (f k v) = key v"
  shows "keyed key (mupd_all f m)"
proof -
  have "\<forall>(k, v) \<in> set (mupd_all f m). key v = k"
    using assms by (auto simp: keyed_def mupd_all_def)
  with assms(1) show ?thesis by (simp add: keyed_def)
qed

lemma keyed_Nil [simp]: "keyed key []"
  by (simp add: keyed_def)

lemma keyed_distinct:
  assumes "keyed key m"
  shows "map key (mvals m) = map fst m" "distinct (map key (mvals m))"
proof -
  show "map key (mvals m) = map fst m"
    using assms by (auto simp: keyed_def mvals_def intro!: map_cong)
  then show "distinct (map key (mvals m))" using assms by (simp add: keyed_def mwf_def)
qed

text \<open>
  The event log: identifiers are distinct, positive and at most the counter, and every stored
  payload is masked.
\<close>

definition events_inv :: "memory_store \<Rightarrow> bool" where
  "events_inv s = (distinct (map ev_id (db_events s)) \<and> set (db_event_ids s) = ev_id ` set (db_events s)
     \<and> (\<forall>e \<in> set (db_events s). 0 < ev_id e \<and> ev_id e \<le> db_next_event_id s \<and> payload_masked (ev_payload e))
     \<and> db_next_event_id s \<le> u64_max)"

lemma add_event_inv:
  assumes "events_inv s" "ev_id ev \<le> u64_max"
  shows "events_inv (fst (add_event E ctx now ev s))"
proof (cases "ctx = None \<and> (if ev_id ev = 0 then db_next_event_id s \<noteq> u64_max else ev_id ev \<notin> set (db_event_ids s))")
  case False
  then show ?thesis using assms(1) by (auto simp: add_event_def Let_def split: option.splits)
next
  case True
  then show ?thesis
    using assms u64_succ_small [of "db_next_event_id s"]
    by (auto simp: add_event_def Let_def events_inv_def u64_max_def image_iff split: option.splits if_splits)
qed

lemma add_event_allocates:
  assumes "ev_id ev = 0" "db_next_event_id s < u64_max"
  shows "\<exists>d. add_event E None now ev s =
      (s \<lparr>db_next_event_id := Suc (db_next_event_id s), db_event_ids := Suc (db_next_event_id s) # db_event_ids s,
          db_events := db_events s @ [d]\<rparr>, Inr (sanitize_event E d))
    \<and> ev_id d = Suc (db_next_event_id s) \<and> payload_masked (ev_payload d)"
  using assms by (auto simp: add_event_def Let_def u64_succ_small)

text \<open>
  A stream backed by the store, attached at or below the store's counter, appends every event under
  the next identifier of the store: the stream accepts it, the two counters are equal afterwards,
  and the event is the last of the durable log. No append of another replica can make the stream
  reject an identifier or hand one out twice.
\<close>

theorem append_persisted_follows_store:
  assumes "es_next_id st \<le> db_next_event_id s" "db_next_event_id s < u64_max" "ev_id ev = 0"
  shows "\<exists>st' s' r ds. append_persisted E None None now (Some (\<lambda>e w. prod.swap (add_event E None now e w))) ev (st, s) = ((st', s'), Inr r, ds)
    \<and> ev_id r = Suc (db_next_event_id s) \<and> es_next_id st' = ev_id r \<and> db_next_event_id s' = ev_id r
    \<and> (\<exists>d. db_events s' = db_events s @ [d] \<and> ev_id d = ev_id r)"
proof -
  define e where "e = ev \<lparr>ev_kind := canonical_kind (ev_kind ev),
    ev_at := (if is_zero (ev_at ev) then now else ev_at ev), ev_payload := sanitize_payload E (ev_payload ev)\<rparr>"
  have "ev_id e = 0" using assms(3) by (simp add: e_def)
  from add_event_allocates [OF this assms(2), of E now] obtain d where
    d: "add_event E None now e s =
      (s \<lparr>db_next_event_id := Suc (db_next_event_id s), db_event_ids := Suc (db_next_event_id s) # db_event_ids s,
          db_events := db_events s @ [d]\<rparr>, Inr (sanitize_event E d))" "ev_id d = Suc (db_next_event_id s)"
    by blast
  have "\<not> ev_id (sanitize_event E (sanitize_event E d)) \<le> es_next_id st" using d(2) assms(1) by simp
  then show ?thesis
    using d assms
    by (simp add: append_persisted_def stream_append_def Let_def e_def [symmetric] stream_record_def)
qed

theorem append_persisted_follows_store_witness:
  "\<exists>st' s' r ds. append_persisted bare_ambient None None 5 (Some (\<lambda>e w. prod.swap (add_event bare_ambient None 5 e w)))
      (sample_event ''pipe_started'') (new_event_stream 0 3, new_memory_store) = ((st', s'), Inr r, ds) \<and> ev_id r = 1"
  using append_persisted_follows_store [of "new_event_stream 0 3" new_memory_store "sample_event ''pipe_started''" bare_ambient 5]
  by (force simp: new_event_stream_def new_memory_store_def u64_max_def sample_event_def zero_event_def)

text \<open>
  The durable history is complete and ordered: \<open>EventsSince\<close> lists exactly the events of the
  execution after the cursor, sanitised, by strictly increasing identifier.
\<close>

theorem events_since_exact:
  assumes "events_inv s" "events_since E None execID afterID s = Inr es"
  shows "sorted_wrt (<) (map ev_id es)
    \<and> set es = sanitize_event E ` {e \<in> set (db_events s). (execID = [] \<or> ev_exec_id e = execID) \<and> afterID < ev_id e}"
proof -
  let ?xs = "filter (\<lambda>e. (execID = [] \<or> ev_exec_id e = execID) \<and> afterID < ev_id e) (db_events s)"
  have "distinct (map ev_id ?xs)" using assms(1) by (simp add: events_inv_def distinct_map_filter)
  then have "distinct (map ev_id (map (sanitize_event E) ?xs))" by (simp add: comp_def)
  then have "sorted_wrt (<) (map ev_id (sort_key ev_id (map (sanitize_event E) ?xs)))"
    by (rule sorted_sort_key_strict)
  with assms(2) show ?thesis by (auto simp: events_since_def events_since_locked_def)
qed

definition sample_log :: memory_store where
  "sample_log = fst (add_event bare_ambient None 2 (sample_event ''pipe_completed'')
     (fst (add_event bare_ambient None 1 (sample_event ''pipe_started'' \<lparr>ev_id := 7\<rparr>) new_memory_store)))"

theorem events_since_exact_witness:
  "\<exists>es. events_since bare_ambient None ''x1'' 6 sample_log = Inr es \<and> sorted_wrt (<) (map ev_id es)"
proof -
  have new: "events_inv new_memory_store" by (simp add: events_inv_def new_memory_store_def)
  have "events_inv sample_log" unfolding sample_log_def
    by (intro add_event_inv new) (simp_all add: sample_event_def zero_event_def u64_max_def)
  then show ?thesis using events_since_exact [of sample_log bare_ambient "''x1''" 6]
    by (simp add: events_since_def)
qed

section \<open>Memory round trip\<close>

text \<open>
  What an agent stores is what it reads back, redacted: a successful save makes the pair of trimmed
  scope and key read as the redacted value, and leaves every other pair as it was.
\<close>

theorem memory_save_then_read:
  assumes "save_memory E None now scope key val s = (s', None)"
  shows "get_memory None scope2 key2 s' =
    (if trim_space scope2 = trim_space scope \<and> trim_space key2 = trim_space key
     then Inr (redact_json_text E val, True) else get_memory None scope2 key2 s)"
  using assms
  by (auto simp: save_memory_def normalize_memory_def get_memory_def Let_def split: if_splits)

theorem memory_save_then_read_witness:
  "get_memory None ''s'' ''k'' (fst (save_memory bare_ambient None 1 '' s'' ''k '' ''42'' new_memory_store))
   = Inr (redact_json_text bare_ambient ''42'', True)"
proof -
  have "snd (save_memory bare_ambient None 1 '' s'' ''k '' ''42'' new_memory_store) = None" by code_simp
  then obtain s' where s': "save_memory bare_ambient None 1 '' s'' ''k '' ''42'' new_memory_store = (s', None)"
    by (metis prod.collapse)
  have "trim_space ''s'' = trim_space '' s''" "trim_space ''k'' = trim_space ''k ''" by code_simp+
  then show ?thesis using memory_save_then_read [OF s', of "''s''" "''k''"] s' by simp
qed

section \<open>Approvals\<close>

text \<open>Every approval has a rank, the ranks are distinct and at most the sequence counter.\<close>

definition approvals_inv :: "memory_store \<Rightarrow> bool" where
  "approvals_inv s = (keyed pa_id (db_approvals s) \<and> mwf (db_approval_order s)
     \<and> dom (mget (db_approval_order s)) = dom (mget (db_approvals s))
     \<and> inj_on (\<lambda>i. the (mget (db_approval_order s) i)) (dom (mget (db_approval_order s)))
     \<and> (\<forall>i n. mget (db_approval_order s) i = Some n \<longrightarrow> n \<le> db_approval_seq s))"

lemma approvals_inv_new: "approvals_inv new_memory_store"
  by (simp add: approvals_inv_def new_memory_store_def)

lemma sort_key_snoc_greatest:
  "\<forall>x \<in> set xs. f x \<le> f a \<Longrightarrow> sort_key f (xs @ [a]) = sort_key f xs @ [a]"
proof (induction xs)
  case (Cons x xs)
  have "insort_key f x (ys @ [a]) = insort_key f x ys @ [a]" if "f x \<le> f a" for ys
    using that by (induction ys) auto
  with Cons show ?case by simp
qed simp

lemma mput_fresh: "k \<notin> fst ` set m \<Longrightarrow> mput k v m = m @ [(k, v)]"
  by (induction m) auto

lemma mvals_append: "mvals (m @ m') = mvals m @ mvals m'"
  by (simp add: mvals_def)

lemma sort_key_cong_on: "(\<And>x. x \<in> set xs \<Longrightarrow> f x = g x) \<Longrightarrow> sort_key f xs = sort_key g xs"
proof (induction xs)
  case (Cons x xs)
  have "insort_key f x ys = insort_key g x ys" if "set ys \<subseteq> set xs" for ys
    using that Cons.prems by (induction ys) auto
  with Cons show ?case by simp
qed simp

lemma rank_inj_insert:
  fixes m :: "(string, nat) gomap"
  assumes "mget m i = None" "inj_on (\<lambda>j. the (mget m j)) (dom (mget m))" "\<forall>j r. mget m j = Some r \<longrightarrow> r \<le> n"
  shows "inj_on (\<lambda>j. the (mget (mput i (Suc n) m) j)) (dom (mget (mput i (Suc n) m)))"
proof (rule inj_onI)
  fix x y
  assume x: "x \<in> dom (mget (mput i (Suc n) m))" and y: "y \<in> dom (mget (mput i (Suc n) m))"
    and eq: "the (mget (mput i (Suc n) m) x) = the (mget (mput i (Suc n) m) y)"
  have small: "the (mget m j) < Suc n" if "j \<in> dom (mget m)" for j
    using that assms(3) by (auto simp: le_imp_less_Suc)
  consider "x = i" "y = i" | "x = i" "y \<in> dom (mget m)" "y \<noteq> i" | "y = i" "x \<in> dom (mget m)" "x \<noteq> i"
    | "x \<in> dom (mget m)" "y \<in> dom (mget m)" "x \<noteq> i" "y \<noteq> i"
    using x y unfolding dom_mput by blast
  then show "x = y"
  proof cases
    case 2 with eq small [of y] show ?thesis by simp
  next
    case 3 with eq small [of x] show ?thesis by simp
  next
    case 4 with eq assms(2) show ?thesis by (simp add: inj_on_def)
  qed simp
qed

lemma save_approval_inv:
  assumes "approvals_inv s" "db_approval_seq s < u64_max"
  shows "approvals_inv (fst (save_approval E ctx now a s))"
proof (cases "ctx \<noteq> None \<or> isl (normalize_approval E a)")
  case True
  with assms(1) show ?thesis by (cases ctx) (auto simp: save_approval_def split: sum.splits)
next
  case False
  then obtain b where b: "ctx = None" "normalize_approval E a = Inr b"
    by (cases "normalize_approval E a") auto
  define c where "c = b \<lparr>pa_created_at := (if is_zero (pa_created_at b) then now else pa_created_at b)\<rparr>"
  have c: "pa_id c = pa_id b" by (simp add: c_def)
  show ?thesis
  proof (cases "mget (db_approval_order s) (pa_id b)")
    case (Some n)
    then have "fst (save_approval E ctx now a s) = s \<lparr>db_approvals := mput (pa_id b) c (db_approvals s)\<rparr>"
      by (simp add: save_approval_def b c_def Let_def)
    moreover have "pa_id b \<in> dom (mget (db_approvals s))" using assms(1) Some by (auto simp: approvals_inv_def)
    ultimately show ?thesis using assms(1) c by (auto simp: approvals_inv_def insert_absorb)
  next
    case None
    have "fst (save_approval E ctx now a s) = s \<lparr>db_approval_seq := Suc (db_approval_seq s),
        db_approval_order := mput (pa_id b) (Suc (db_approval_seq s)) (db_approval_order s),
        db_approvals := mput (pa_id b) c (db_approvals s)\<rparr>"
      using None u64_succ_small [OF assms(2)] by (simp add: save_approval_def b c_def Let_def)
    moreover have "inj_on (\<lambda>i. the (mget (mput (pa_id b) (Suc (db_approval_seq s)) (db_approval_order s)) i))
        (dom (mget (mput (pa_id b) (Suc (db_approval_seq s)) (db_approval_order s))))"
      using assms(1) None by (intro rank_inj_insert) (auto simp: approvals_inv_def)
    moreover have "dom (mget (mput (pa_id b) (Suc (db_approval_seq s)) (db_approval_order s)))
        = dom (mget (mput (pa_id b) c (db_approvals s)))"
      using assms(1) by (simp add: approvals_inv_def dom_mput)
    ultimately show ?thesis using assms(1) c by (auto simp: approvals_inv_def le_SucI)
  qed
qed

lemma resolve_approval_inv:
  assumes "approvals_inv s"
  shows "approvals_inv (fst (resolve_approval ctx now i status by s))"
proof (cases "fst (resolve_approval ctx now i status by s) = s")
  case False
  then obtain a where a: "mget (db_approvals s) (trim_space i) = Some a"
    "fst (resolve_approval ctx now i status by s) = s \<lparr>db_approvals := mput (trim_space i)
       (a \<lparr>pa_status := status, pa_decided_by := trim_space by, pa_decided_at := now\<rparr>) (db_approvals s)\<rparr>"
    by (auto simp: resolve_approval_def Let_def split: option.splits if_splits)
  moreover have "pa_id a = trim_space i" using assms a(1) by (auto simp: approvals_inv_def dest: keyed_mget)
  moreover have "trim_space i \<in> dom (mget (db_approvals s))" using a(1) by blast
  ultimately show ?thesis using assms by (auto simp: approvals_inv_def insert_absorb)
qed (use assms in simp)

text \<open>
  A new approval request queues behind the pending ones: saving an approval under a fresh identifier,
  with a pending or empty status, appends it to the list of pending approvals.
\<close>

theorem pending_approvals_in_order:
  assumes "approvals_inv s" "db_approval_seq s < u64_max" "save_approval E None now a s = (s', None)"
    "get_approval None (pa_id a) s = Inr None" "pa_status a \<in> {ApprovalPending, ApprovalStatusText []}"
    "pending_approvals None s = Inr ps"
  shows "\<exists>b. pending_approvals None s' = Inr (ps @ [b]) \<and> pa_id b = trim_space (pa_id a)
    \<and> pa_exec_id b = trim_space (pa_exec_id a) \<and> pa_status b = ApprovalPending"
proof -
  obtain b where norm: "normalize_approval E a = Inr b"
    using assms(3) by (auto simp: save_approval_def split: sum.splits)
  define c where "c = b \<lparr>pa_created_at := (if is_zero (pa_created_at b) then now else pa_created_at b)\<rparr>"
  have b: "pa_id b = trim_space (pa_id a)" "pa_exec_id b = trim_space (pa_exec_id a)" "pa_status b = ApprovalPending"
    using norm assms(5) by (auto simp: normalize_approval_def split: if_splits)
  have fresh: "mget (db_approvals s) (pa_id b) = None" using assms(4) b by (simp add: get_approval_def)
  then have "mget (db_approval_order s) (pa_id b) = None"
    using assms(1) unfolding approvals_inv_def by (metis domIff)
  then have s': "db_approvals s' = db_approvals s @ [(pa_id b, c)]"
    "db_approval_order s' = mput (pa_id b) (Suc (db_approval_seq s)) (db_approval_order s)"
    using assms(3) norm fresh u64_succ_small [OF assms(2)] mput_fresh [of "pa_id b" "db_approvals s"]
    by (auto simp: save_approval_def c_def Let_def map_of_eq_None_iff)
  have same: "approval_rank s' x = approval_rank s x \<and> approval_rank s x \<le> approval_rank s' c"
    if "x \<in> set (mvals (db_approvals s))" for x
  proof -
    have k: "keyed pa_id (db_approvals s)" using assms(1) by (simp add: approvals_inv_def)
    then have "mwf (db_approvals s)" by (simp add: keyed_def)
    from mvals_iff [OF this, of x] that obtain j where j: "mget (db_approvals s) j = Some x" by blast
    have x: "pa_id x = j" by (rule keyed_mget [OF k j])
    then have "j \<in> dom (mget (db_approval_order s))" using j assms(1) by (auto simp: approvals_inv_def)
    then obtain n where n: "mget (db_approval_order s) j = Some n" by blast
    then have "n \<le> db_approval_seq s" using assms(1) by (auto simp: approvals_inv_def)
    moreover have "j \<noteq> pa_id b" using j fresh by auto
    ultimately show ?thesis using s'(2) n x by (simp add: approval_rank_def c_def)
  qed
  let ?xs = "filter (\<lambda>a. pa_status a = ApprovalPending) (mvals (db_approvals s))"
  have "filter (\<lambda>a. pa_status a = ApprovalPending) (mvals (db_approvals s')) = ?xs @ [c]"
    using s'(1) b by (simp add: mvals_append mvals_def c_def)
  moreover have "sort_key (approval_rank s') (?xs @ [c]) = sort_key (approval_rank s') ?xs @ [c]"
    using same by (intro sort_key_snoc_greatest) auto
  moreover have "sort_key (approval_rank s') ?xs = sort_key (approval_rank s) ?xs"
    using same by (intro sort_key_cong_on) auto
  ultimately have "pending_approvals None s' = Inr (ps @ [c])"
    using assms(6) by (simp add: pending_approvals_def)
  then show ?thesis using b by (auto simp: c_def)
qed

definition sample_approval :: "string \<Rightarrow> pending_approval" where
  "sample_approval i = \<lparr>pa_id = i, pa_exec_id = ''x1'', pa_session_id = ''s1'', pa_trace_id = ''t1'',
     pa_tool_name = ''pay'', pa_tool_call_id = ''c1'', pa_tool_kind = ''go'', pa_effect = ''irreversible'',
     pa_reason = [], pa_args_hash = [], pa_status = ApprovalPending, pa_created_at = 0, pa_decided_at = 0,
     pa_decided_by = []\<rparr>"

definition approval_store :: memory_store where
  "approval_store = fst (save_approval bare_ambient None 3 (sample_approval ''a1'') new_memory_store)"

lemma approval_store_inv: "approvals_inv approval_store"
  unfolding approval_store_def
  by (intro save_approval_inv approvals_inv_new) (simp add: new_memory_store_def u64_max_def)

theorem pending_approvals_in_order_witness:
  "\<exists>b. pending_approvals None (fst (save_approval bare_ambient None 4 (sample_approval ''a2'') approval_store))
     = Inr (mvals (db_approvals approval_store) @ [b]) \<and> pa_id b = ''a2''"
proof -
  have "snd (save_approval bare_ambient None 4 (sample_approval ''a2'') approval_store) = None" by code_simp
  then obtain s' where s': "save_approval bare_ambient None 4 (sample_approval ''a2'') approval_store = (s', None)"
    by (metis prod.collapse)
  have "db_approval_seq approval_store < u64_max" by code_simp
  moreover have "get_approval None (pa_id (sample_approval ''a2'')) approval_store = Inr None" by code_simp
  moreover have "pending_approvals None approval_store = Inr (mvals (db_approvals approval_store))" by code_simp
  moreover have "trim_space ''a2'' = ''a2''" by code_simp
  ultimately show ?thesis
    using pending_approvals_in_order [OF approval_store_inv _ s'] s' by (auto simp: sample_approval_def)
qed

text \<open>
  An approval is decided once: a resolution that succeeds found it pending and stores the decision,
  and any later resolution of the same approval is refused and changes nothing.
\<close>

theorem approval_decided_once:
  assumes "resolve_approval None now i status by s = (s', Inr a)"
  shows "(\<exists>p. get_approval None i s = Inr (Some p) \<and> pa_status p = ApprovalPending
        \<and> a = p \<lparr>pa_status := status, pa_decided_by := trim_space by, pa_decided_at := now\<rparr>)
    \<and> terminal_approval_status status \<and> get_approval None i s' = Inr (Some a)
    \<and> fst (resolve_approval None now2 i status2 by2 s') = s'
    \<and> isl (snd (resolve_approval None now2 i status2 by2 s'))"
proof -
  obtain p where p: "terminal_approval_status status" "mget (db_approvals s) (trim_space i) = Some p"
    "pa_status p = ApprovalPending"
    "a = p \<lparr>pa_status := status, pa_decided_by := trim_space by, pa_decided_at := now\<rparr>"
    "s' = s \<lparr>db_approvals := mput (trim_space i) a (db_approvals s)\<rparr>"
    using assms by (auto simp: resolve_approval_def Let_def split: option.splits if_splits)
  then have "pa_status a \<noteq> ApprovalPending" by (auto simp: terminal_approval_status_def)
  with p show ?thesis by (simp add: resolve_approval_def get_approval_def)
qed

theorem approval_decided_once_witness:
  "isl (snd (resolve_approval None 9 ''a1'' ApprovalDenied ''bob''
     (fst (resolve_approval None 8 ''a1'' ApprovalApproved ''alice'' approval_store))))"
proof -
  have "\<not> isl (snd (resolve_approval None 8 ''a1'' ApprovalApproved ''alice'' approval_store))" by code_simp
  then obtain s' a where r: "resolve_approval None 8 ''a1'' ApprovalApproved ''alice'' approval_store = (s', Inr a)"
    by (metis prod.collapse sum.collapse(2))
  show ?thesis using approval_decided_once [OF r, of 9 ApprovalDenied "''bob''"] r by simp
qed

end
