(* ===== verification/Lease_Store.thy ===== *)
theory Lease_Store
  imports State_Store
begin

text \<open>
  \<open>internal/state/lease.go\<close> and \<open>memory_lease.go\<close>: fenced leases. The contract of the interface
  \<open>LeaseStore\<close> is the locale \<open>fenced_lease\<close>; its lemmas are about any sequence of operations by
  any callers, and the interpretation shows that the in-memory store satisfies it.
\<close>

section \<open>Operations\<close>

definition zero_lease :: lease where
  "zero_lease = \<lparr>le_name = [], le_holder = [], le_fence = 0, le_acquired_at = zero_time,
     le_renewed_at = zero_time, le_expires_at = zero_time\<rparr>"

definition normalize_lease_key :: "string \<Rightarrow> string \<Rightarrow> (string \<times> string) query" where
  "normalize_lease_key name holder =
     (if trim_space name = [] then Inl (ErrText ''lease name is required'')
      else if trim_space holder = [] then Inl (ErrText ''lease holder is required'')
      else Inr (trim_space name, trim_space holder))"

definition validate_lease_ttl :: "duration \<Rightarrow> go_error option" where
  "validate_lease_ttl ttl = (if ttl \<le> 0 then Some (ErrText ''lease ttl must be positive'') else None)"

definition acquire_lease ::
  "go_error option \<Rightarrow> go_time \<Rightarrow> string \<Rightarrow> string \<Rightarrow> duration \<Rightarrow> memory_store
     \<Rightarrow> memory_store \<times> (lease \<times> bool) query" where
  "acquire_lease ctx now name holder ttl s =
     (case ctx of Some err \<Rightarrow> (s, Inl err)
      | None \<Rightarrow>
     (case normalize_lease_key name holder of Inl err \<Rightarrow> (s, Inl err)
      | Inr (name, holder) \<Rightarrow>
     (case validate_lease_ttl ttl of Some err \<Rightarrow> (s, Inl err)
      | None \<Rightarrow>
        let take = (\<lambda>fence. let l = \<lparr>le_name = name, le_holder = holder, le_fence = fence,
                              le_acquired_at = now, le_renewed_at = now, le_expires_at = now + ttl\<rparr>
                        in (s \<lparr>db_leases := mput name l (db_leases s)\<rparr>, Inr (l, True)))
        in case mget (db_leases s) name of
             Some current \<Rightarrow>
               if \<not> le_expires_at current < now then (s, Inr (current, False))
               else take (u64_succ (le_fence current))
           | None \<Rightarrow> take 1)))"

definition renew_lease ::
  "go_error option \<Rightarrow> go_time \<Rightarrow> string \<Rightarrow> string \<Rightarrow> u64 \<Rightarrow> duration \<Rightarrow> memory_store
     \<Rightarrow> memory_store \<times> (lease \<times> bool) query" where
  "renew_lease ctx now name holder fence ttl s =
     (case ctx of Some err \<Rightarrow> (s, Inl err)
      | None \<Rightarrow>
     (case normalize_lease_key name holder of Inl err \<Rightarrow> (s, Inl err)
      | Inr (name, holder) \<Rightarrow>
     (case validate_lease_ttl ttl of Some err \<Rightarrow> (s, Inl err)
      | None \<Rightarrow>
     (case mget (db_leases s) name of
        None \<Rightarrow> (s, Inr (zero_lease, False))
      | Some current \<Rightarrow>
          if le_holder current \<noteq> holder \<or> le_fence current \<noteq> fence then (s, Inr (current, False))
          else let l = current \<lparr>le_renewed_at := now, le_expires_at := now + ttl\<rparr>
               in (s \<lparr>db_leases := mput name l (db_leases s)\<rparr>, Inr (l, True))))))"

definition release_lease ::
  "go_error option \<Rightarrow> go_time \<Rightarrow> string \<Rightarrow> string \<Rightarrow> u64 \<Rightarrow> memory_store \<Rightarrow> update" where
  "release_lease ctx now name holder fence s =
     (case ctx of Some err \<Rightarrow> (s, Some err)
      | None \<Rightarrow>
     (case normalize_lease_key name holder of Inl err \<Rightarrow> (s, Some err)
      | Inr (name, holder) \<Rightarrow>
     (case mget (db_leases s) name of
        None \<Rightarrow> (s, None)
      | Some current \<Rightarrow>
          if le_holder current = holder \<and> le_fence current = fence
          then (s \<lparr>db_leases := mput name (current \<lparr>le_expires_at := now - time_second\<rparr>) (db_leases s)\<rparr>, None)
          else (s, None))))"

definition list_leases :: "go_error option \<Rightarrow> memory_store \<Rightarrow> lease list query" where
  "list_leases ctx s =
     (case ctx of Some err \<Rightarrow> Inl err | None \<Rightarrow> Inr (sort_key le_name (mvals (db_leases s))))"

section \<open>The contract\<close>

datatype 't lease_op =
    LeaseAcquire 't string string duration
  | LeaseRenew 't string string u64 duration
  | LeaseRelease 't string string u64

definition next_fence :: "lease option \<Rightarrow> u64" where
  "next_fence r = (case r of None \<Rightarrow> 1 | Some l \<Rightarrow> u64_succ (le_fence l))"

text \<open>The fence a name has reached: 0 when it never had a lease.\<close>

definition reached_fence :: "lease option \<Rightarrow> u64" where
  "reached_fence r = (case r of None \<Rightarrow> 0 | Some l \<Rightarrow> le_fence l)"

text \<open>The operations that name a given lease of a given holder under its fence.\<close>

fun names_session :: "(string \<Rightarrow> string) \<Rightarrow> string \<Rightarrow> string \<Rightarrow> u64 \<Rightarrow> 't lease_op \<Rightarrow> bool" where
  "names_session key_of k h f (LeaseAcquire t name holder ttl) = False"
| "names_session key_of k h f (LeaseRenew t name holder fence ttl) = (key_of name = k \<and> key_of holder = h \<and> fence = f)"
| "names_session key_of k h f (LeaseRelease t name holder fence) = (key_of name = k \<and> key_of holder = h \<and> fence = f)"

fun op_call :: "'t lease_op \<Rightarrow> 't" where
  "op_call (LeaseAcquire t name holder ttl) = t"
| "op_call (LeaseRenew t name holder fence ttl) = t"
| "op_call (LeaseRelease t name holder fence) = t"

locale fenced_lease =
  fixes row :: "'s \<Rightarrow> string \<Rightarrow> lease option"
    and key_of :: "string \<Rightarrow> string"
    and time :: "'t \<Rightarrow> go_time"
    and acquire :: "'t \<Rightarrow> string \<Rightarrow> string \<Rightarrow> duration \<Rightarrow> 's \<Rightarrow> 's \<times> (lease \<times> bool) query"
    and renew :: "'t \<Rightarrow> string \<Rightarrow> string \<Rightarrow> u64 \<Rightarrow> duration \<Rightarrow> 's \<Rightarrow> 's \<times> (lease \<times> bool) query"
    and release :: "'t \<Rightarrow> string \<Rightarrow> string \<Rightarrow> u64 \<Rightarrow> 's \<Rightarrow> 's \<times> go_error option"
  assumes acquire_got: "acquire t name holder ttl s = (s', Inr (l, True)) \<Longrightarrow>
      row s' (key_of name) = Some l \<and> le_fence l = next_fence (row s (key_of name)) \<and> le_holder l = key_of holder
      \<and> le_expires_at l = time t + ttl \<and> (\<forall>l0. row s (key_of name) = Some l0 \<longrightarrow> le_expires_at l0 < time t)
      \<and> (\<forall>k. k \<noteq> key_of name \<longrightarrow> row s' k = row s k)"
    and acquire_not: "acquire t name holder ttl s = (s', r) \<Longrightarrow> (\<And>l. r \<noteq> Inr (l, True)) \<Longrightarrow> s' = s"
    and renew_got: "renew t name holder fence ttl s = (s', Inr (l, True)) \<Longrightarrow>
      (\<exists>l0. row s (key_of name) = Some l0 \<and> le_holder l0 = key_of holder \<and> le_fence l0 = fence
        \<and> row s' (key_of name) = Some l \<and> le_holder l = le_holder l0 \<and> le_fence l = le_fence l0
        \<and> le_expires_at l = time t + ttl)
      \<and> (\<forall>k. k \<noteq> key_of name \<longrightarrow> row s' k = row s k)"
    and renew_not: "renew t name holder fence ttl s = (s', r) \<Longrightarrow> (\<And>l. r \<noteq> Inr (l, True)) \<Longrightarrow> s' = s"
    and release_match: "row s (key_of name) = Some l \<Longrightarrow> le_holder l = key_of holder \<Longrightarrow> le_fence l = fence \<Longrightarrow>
      (\<exists>l'. row (fst (release t name holder fence s)) (key_of name) = Some l' \<and> le_fence l' = le_fence l)
      \<and> (\<forall>k. k \<noteq> key_of name \<longrightarrow> row (fst (release t name holder fence s)) k = row s k)"
    and release_other: "(\<And>l. row s (key_of name) = Some l \<Longrightarrow> le_holder l \<noteq> key_of holder \<or> le_fence l \<noteq> fence) \<Longrightarrow>
      fst (release t name holder fence s) = s"
begin

fun run_lease :: "'t lease_op \<Rightarrow> 's \<Rightarrow> 's" where
  "run_lease (LeaseAcquire t name holder ttl) s = fst (acquire t name holder ttl s)"
| "run_lease (LeaseRenew t name holder fence ttl) s = fst (renew t name holder fence ttl s)"
| "run_lease (LeaseRelease t name holder fence) s = fst (release t name holder fence s)"

lemma acquire_cases:
  obtains (got) l where "acquire t name holder ttl s = (fst (acquire t name holder ttl s), Inr (l, True))"
  | (not) "fst (acquire t name holder ttl s) = s"
proof (cases "\<exists>l. snd (acquire t name holder ttl s) = Inr (l, True)")
  case True then show thesis using got by (metis prod.collapse)
next
  case False then show thesis using not acquire_not by (metis prod.collapse)
qed

lemma renew_cases:
  obtains (got) l where "renew t name holder fence ttl s = (fst (renew t name holder fence ttl s), Inr (l, True))"
  | (not) "fst (renew t name holder fence ttl s) = s"
proof (cases "\<exists>l. snd (renew t name holder fence ttl s) = Inr (l, True)")
  case True then show thesis using got by (metis prod.collapse)
next
  case False then show thesis using not renew_not by (metis prod.collapse)
qed

lemma release_cases:
  obtains (match) l l' where "row s (key_of name) = Some l" "le_holder l = key_of holder" "le_fence l = fence"
    "row (fst (release t name holder fence s)) (key_of name) = Some l'" "le_fence l' = le_fence l"
    "\<forall>k. k \<noteq> key_of name \<longrightarrow> row (fst (release t name holder fence s)) k = row s k"
  | (other) "fst (release t name holder fence s) = s"
  using release_match release_other by metis

text \<open>No operation lowers the fence of a name, and each raises it by at most one.\<close>

lemma run_lease_fence:
  assumes "reached_fence (row s k) < u64_max"
  shows "reached_fence (row s k) \<le> reached_fence (row (run_lease p s) k)
    \<and> reached_fence (row (run_lease p s) k) \<le> Suc (reached_fence (row s k))"
proof (cases p)
  case (LeaseAcquire t name holder ttl)
  show ?thesis
  proof (cases rule: acquire_cases [of t name holder ttl s])
    case (got l)
    show ?thesis
    proof (cases "k = key_of name")
      case True
      with got LeaseAcquire acquire_got [OF got] assms show ?thesis
        by (auto simp: reached_fence_def next_fence_def u64_succ_small split: option.splits)
    qed (use got LeaseAcquire acquire_got [OF got] in simp)
  qed (use LeaseAcquire in simp)
next
  case (LeaseRenew t name holder fence ttl)
  show ?thesis
  proof (cases rule: renew_cases [of t name holder fence ttl s])
    case (got l)
    from renew_got [OF got] LeaseRenew show ?thesis
      by (cases "k = key_of name") (auto simp: reached_fence_def)
  qed (use LeaseRenew in simp)
next
  case (LeaseRelease t name holder fence)
  show ?thesis
  proof (cases rule: release_cases [of s name holder fence t])
    case (match l l')
    with LeaseRelease show ?thesis by (cases "k = key_of name") (auto simp: reached_fence_def)
  qed (use LeaseRelease in simp)
qed

lemma fold_lease_fence:
  "reached_fence (row s k) + length ps \<le> u64_max \<Longrightarrow>
     reached_fence (row s k) \<le> reached_fence (row (fold run_lease ps s) k)
     \<and> reached_fence (row (fold run_lease ps s) k) \<le> reached_fence (row s k) + length ps"
proof (induction ps arbitrary: s)
  case (Cons p ps)
  then have "reached_fence (row s k) \<le> reached_fence (row (run_lease p s) k)
    \<and> reached_fence (row (run_lease p s) k) \<le> Suc (reached_fence (row s k))"
    by (intro run_lease_fence) simp
  moreover have "reached_fence (row (run_lease p s) k) \<le> reached_fence (row (fold run_lease ps (run_lease p s)) k)
     \<and> reached_fence (row (fold run_lease ps (run_lease p s)) k) \<le> reached_fence (row (run_lease p s) k) + length ps"
    using Cons.prems calculation by (intro Cons.IH) simp
  ultimately show ?case by auto
qed simp

text \<open>A taken-over session is powerless: its fence renews and releases nothing ever again.\<close>

lemma stale_session:
  assumes "reached_fence (row s (key_of name)) + length ps \<le> u64_max" "fence < reached_fence (row s (key_of name))"
  shows "snd (renew t name holder fence ttl (fold run_lease ps s)) \<noteq> Inr (l, True)
    \<and> fst (renew t name holder fence ttl (fold run_lease ps s)) = fold run_lease ps s
    \<and> fst (release t name holder fence (fold run_lease ps s)) = fold run_lease ps s"
proof -
  let ?s = "fold run_lease ps s"
  have f: "fence < reached_fence (row ?s (key_of name))"
    using fold_lease_fence [OF assms(1)] assms(2) by simp
  then have no: "le_fence l0 \<noteq> fence" if "row ?s (key_of name) = Some l0" for l0
    using that by (auto simp: reached_fence_def)
  have "snd (renew t name holder fence ttl ?s) \<noteq> Inr (l', True)" for l'
    using renew_got [of t name holder fence ttl ?s "fst (renew t name holder fence ttl ?s)" l'] no
    by (metis prod.collapse)
  moreover from this have "fst (renew t name holder fence ttl ?s) = ?s"
    using renew_not by (metis prod.collapse)
  moreover have "fst (release t name holder fence ?s) = ?s" using no by (intro release_other) auto
  ultimately show ?thesis by blast
qed

lemma takeover_raises_fence:
  assumes "acquire t name holder ttl s = (s', Inr (l, True))" "reached_fence (row s (key_of name)) < u64_max"
  shows "le_fence l = Suc (reached_fence (row s (key_of name))) \<and> row s' (key_of name) = Some l"
  using acquire_got [OF assms(1)] assms(2)
  by (auto simp: next_fence_def reached_fence_def u64_succ_small split: option.splits)

text \<open>Until it expires, a lease stays as it is unless its own session renews or releases it.\<close>

lemma run_lease_held:
  assumes "row s k = Some l" "time (op_call p) \<le> le_expires_at l"
    "\<not> names_session key_of k (le_holder l) (le_fence l) p"
  shows "row (run_lease p s) k = Some l"
proof (cases p)
  case (LeaseAcquire t name holder ttl)
  show ?thesis
  proof (cases rule: acquire_cases [of t name holder ttl s])
    case (got l1)
    with acquire_got [OF got] LeaseAcquire assms show ?thesis by (cases "k = key_of name") auto
  qed (use LeaseAcquire assms in simp)
next
  case (LeaseRenew t name holder fence ttl)
  show ?thesis
  proof (cases rule: renew_cases [of t name holder fence ttl s])
    case (got l1)
    with renew_got [OF got] LeaseRenew assms show ?thesis by (cases "k = key_of name") auto
  qed (use LeaseRenew assms in simp)
next
  case (LeaseRelease t name holder fence)
  show ?thesis
  proof (cases rule: release_cases [of s name holder fence t])
    case (match l1 l2)
    with LeaseRelease assms show ?thesis by (cases "k = key_of name") auto
  qed (use LeaseRelease assms in simp)
qed

lemma fold_lease_held:
  "row s k = Some l \<Longrightarrow> \<forall>p \<in> set ps. time (op_call p) \<le> le_expires_at l
       \<and> \<not> names_session key_of k (le_holder l) (le_fence l) p \<Longrightarrow>
     row (fold run_lease ps s) k = Some l"
  by (induction ps arbitrary: s) (simp_all add: run_lease_held)

end

section \<open>The memory store implements it\<close>

definition lease_row :: "memory_store \<Rightarrow> string \<Rightarrow> lease option" where
  "lease_row s name = mget (db_leases s) name"

definition lease_time :: "call \<Rightarrow> go_time" where "lease_time t = snd t"
definition lease_acquire where "lease_acquire t = acquire_lease (fst t) (snd t)" for t :: call
definition lease_renew where "lease_renew t = renew_lease (fst t) (snd t)" for t :: call
definition lease_release where "lease_release t = release_lease (fst t) (snd t)" for t :: call

lemmas lease_defs = lease_row_def lease_time_def lease_acquire_def lease_renew_def lease_release_def
  acquire_lease_def renew_lease_def release_lease_def normalize_lease_key_def validate_lease_ttl_def

interpretation leases: fenced_lease lease_row trim_space lease_time lease_acquire lease_renew lease_release
proof
  fix t name holder ttl s s' l
  assume "lease_acquire t name holder ttl s = (s', Inr (l, True))"
  then show "lease_row s' (trim_space name) = Some l \<and> le_fence l = next_fence (lease_row s (trim_space name))
      \<and> le_holder l = trim_space holder \<and> le_expires_at l = lease_time t + ttl
      \<and> (\<forall>l0. lease_row s (trim_space name) = Some l0 \<longrightarrow> le_expires_at l0 < lease_time t)
      \<and> (\<forall>k. k \<noteq> trim_space name \<longrightarrow> lease_row s' k = lease_row s k)"
    by (auto simp: lease_defs next_fence_def Let_def split: option.splits if_splits)
next
  fix t name holder ttl s s' r
  assume "lease_acquire t name holder ttl s = (s', r)" "\<And>l. r \<noteq> Inr (l, True)"
  then show "s' = s" by (auto simp: lease_defs Let_def split: option.splits if_splits)
next
  fix t name holder fence ttl s s' l
  assume "lease_renew t name holder fence ttl s = (s', Inr (l, True))"
  then show "(\<exists>l0. lease_row s (trim_space name) = Some l0 \<and> le_holder l0 = trim_space holder \<and> le_fence l0 = fence
        \<and> lease_row s' (trim_space name) = Some l \<and> le_holder l = le_holder l0 \<and> le_fence l = le_fence l0
        \<and> le_expires_at l = lease_time t + ttl)
      \<and> (\<forall>k. k \<noteq> trim_space name \<longrightarrow> lease_row s' k = lease_row s k)"
    by (auto simp: lease_defs Let_def split: option.splits if_splits)
next
  fix t name holder fence ttl s s' r
  assume "lease_renew t name holder fence ttl s = (s', r)" "\<And>l. r \<noteq> Inr (l, True)"
  then show "s' = s" by (auto simp: lease_defs Let_def split: option.splits if_splits)
next
  fix s name l holder fence t
  assume "lease_row s (trim_space name) = Some l" "le_holder l = trim_space holder" "le_fence l = fence"
  then show "(\<exists>l'. lease_row (fst (lease_release t name holder fence s)) (trim_space name) = Some l' \<and> le_fence l' = le_fence l)
      \<and> (\<forall>k. k \<noteq> trim_space name \<longrightarrow> lease_row (fst (lease_release t name holder fence s)) k = lease_row s k)"
    by (auto simp: lease_defs split: option.splits)
next
  fix s name holder fence t
  assume "\<And>l. lease_row s (trim_space name) = Some l \<Longrightarrow> le_holder l \<noteq> trim_space holder \<or> le_fence l \<noteq> fence"
  then show "fst (lease_release t name holder fence s) = s"
    by (auto simp: lease_defs split: option.splits)
qed

fun lease_run :: "call lease_op \<Rightarrow> memory_store \<Rightarrow> memory_store" where
  "lease_run (LeaseAcquire t name holder ttl) s = fst (acquire_lease (fst t) (snd t) name holder ttl s)"
| "lease_run (LeaseRenew t name holder fence ttl) s = fst (renew_lease (fst t) (snd t) name holder fence ttl s)"
| "lease_run (LeaseRelease t name holder fence) s = fst (release_lease (fst t) (snd t) name holder fence s)"

lemma lease_run_op: "lease_run = leases.run_lease"
proof (intro ext)
  fix p s show "lease_run p s = leases.run_lease p s"
    by (cases p) (simp_all add: lease_acquire_def lease_renew_def lease_release_def)
qed

text \<open>C1
  Fencing: a takeover gets a fence one above every fence the name has had, and from then on, after
  any further operations by anyone, a session that presents an older fence can neither renew nor
  release the lease; the store stays as it is.
\<close>

theorem stale_fence_powerless:
  assumes "acquire_lease None now name holder ttl s = (s', Inr (l, True))"
    "reached_fence (lease_row s (trim_space name)) + length ps < u64_max"
    "fence \<le> reached_fence (lease_row s (trim_space name))"
  shows "le_fence l = Suc (reached_fence (lease_row s (trim_space name)))
    \<and> (\<forall>old. snd (renew_lease ctx t name zombie fence ttl2 (fold lease_run ps s')) \<noteq> Inr (old, True))
    \<and> fst (renew_lease ctx t name zombie fence ttl2 (fold lease_run ps s')) = fold lease_run ps s'
    \<and> fst (release_lease ctx t name zombie fence (fold lease_run ps s')) = fold lease_run ps s'"
proof -
  have "lease_acquire (None, now) name holder ttl s = (s', Inr (l, True))"
    using assms(1) by (simp add: lease_acquire_def)
  from leases.takeover_raises_fence [OF this] assms(2)
  have l: "le_fence l = Suc (reached_fence (lease_row s (trim_space name)))" "lease_row s' (trim_space name) = Some l"
    by auto
  then have "reached_fence (lease_row s' (trim_space name)) + length ps \<le> u64_max"
    "fence < reached_fence (lease_row s' (trim_space name))"
    using assms(2,3) by (auto simp: reached_fence_def [of "Some l"])
  from leases.stale_session [OF this, of "(ctx, t)" zombie ttl2] l(1)
  show ?thesis by (simp add: lease_run_op lease_renew_def lease_release_def)
qed

text \<open>C26
  Mutual exclusion until expiry: while a lease has not expired, whatever other callers do, no acquire
  succeeds; every caller is shown the holder's lease, and the store does not change. Only the session
  of the lease itself, holder and fence, can renew or release it.
\<close>

theorem lease_exclusive_until_expiry:
  assumes "lease_row s (trim_space name) = Some l" "now \<le> le_expires_at l"
    "\<forall>p \<in> set ps. lease_time (op_call p) \<le> le_expires_at l
       \<and> \<not> names_session trim_space (trim_space name) (le_holder l) (le_fence l) p"
    "trim_space name \<noteq> []" "trim_space holder \<noteq> []" "0 < ttl"
  shows "acquire_lease None now name holder ttl (fold lease_run ps s) = (fold lease_run ps s, Inr (l, False))"
proof -
  have "lease_row (fold lease_run ps s) (trim_space name) = Some l"
    using leases.fold_lease_held [OF assms(1,3)] by (simp add: lease_run_op)
  then show ?thesis
    using assms(2,4-6) by (simp add: acquire_lease_def normalize_lease_key_def validate_lease_ttl_def lease_row_def)
qed

text \<open>
  A release is a tombstone: the next acquire, even at once, is a takeover under the next fence, so
  the released fence is never issued again.
\<close>

theorem release_then_takeover:
  assumes "lease_row s (trim_space name) = Some l" "le_holder l = trim_space holder" "le_fence l < u64_max"
    "trim_space name \<noteq> []" "trim_space holder \<noteq> []" "trim_space other \<noteq> []" "0 < ttl" "now \<le> later"
  shows "\<exists>s' l'. acquire_lease None later name other ttl
      (fst (release_lease None now name holder (le_fence l) s)) = (s', Inr (l', True))
    \<and> le_fence l' = Suc (le_fence l) \<and> le_holder l' = trim_space other"
proof -
  have "now - time_second < later" using assms(8) by (simp add: time_second_def)
  then show ?thesis
    using assms by (simp add: lease_defs u64_succ_small Let_def)
qed

definition leader_store :: memory_store where
  "leader_store = fst (acquire_lease None 100 ''cron'' ''a'' 50 new_memory_store)"

theorem stale_fence_powerless_witness:
  "fst (renew_lease None 300 ''cron'' ''a'' 1 50
     (fold lease_run [LeaseRelease (None, 220) ''cron'' ''b'' 2] (fst (acquire_lease None 200 ''cron'' ''b'' 50 leader_store))))
   = fold lease_run [LeaseRelease (None, 220) ''cron'' ''b'' 2] (fst (acquire_lease None 200 ''cron'' ''b'' 50 leader_store))"
proof -
  have "map_option snd (case snd (acquire_lease None 200 ''cron'' ''b'' 50 leader_store) of Inr r \<Rightarrow> Some r | _ \<Rightarrow> None) = Some True"
    by code_simp
  then obtain s' l where a: "acquire_lease None 200 ''cron'' ''b'' 50 leader_store = (s', Inr (l, True))"
    by (cases "acquire_lease None 200 ''cron'' ''b'' 50 leader_store") (auto split: sum.splits)
  have "reached_fence (lease_row leader_store (trim_space ''cron'')) = 1" by code_simp
  then show ?thesis
    using stale_fence_powerless [OF a, of "[LeaseRelease (None, 220) ''cron'' ''b'' 2]" 1 None 300 "''a''" 50] a
    by (simp add: u64_max_def)
qed

theorem lease_exclusive_until_expiry_witness:
  "snd (acquire_lease None 140 ''cron'' ''b'' 50 (fold lease_run
     [LeaseRenew (None, 120) ''cron'' ''b'' 1 500, LeaseAcquire (None, 130) ''cron'' ''c'' 10] leader_store))
   = Inr (the (lease_row leader_store ''cron''), False)"
proof -
  have t: "trim_space ''cron'' = ''cron''" "trim_space ''a'' = ''a''" "trim_space ''b'' = ''b''" "trim_space ''c'' = ''c''"
    by code_simp+
  have r: "lease_row leader_store ''cron'' = Some \<lparr>le_name = ''cron'', le_holder = ''a'', le_fence = 1,
      le_acquired_at = 100, le_renewed_at = 100, le_expires_at = 150\<rparr>"
    by (simp add: leader_store_def lease_defs new_memory_store_def t Let_def)
  show ?thesis
    by (subst lease_exclusive_until_expiry [where l = "the (lease_row leader_store ''cron'')"])
      (simp_all add: t r lease_time_def)
qed

theorem release_then_takeover_witness:
  "\<exists>s' l'. acquire_lease None 120 ''cron'' ''b'' 50 (fst (release_lease None 120 ''cron'' ''a'' 1 leader_store))
     = (s', Inr (l', True)) \<and> le_fence l' = 2"
proof -
  have t: "trim_space ''cron'' = ''cron''" "trim_space ''a'' = ''a''" "trim_space ''b'' = ''b''" by code_simp+
  have r: "lease_row leader_store ''cron'' = Some \<lparr>le_name = ''cron'', le_holder = ''a'', le_fence = 1,
      le_acquired_at = 100, le_renewed_at = 100, le_expires_at = 150\<rparr>"
    by (simp add: leader_store_def lease_defs new_memory_store_def t Let_def)
  show ?thesis
    using release_then_takeover [of leader_store "''cron''" _ "''a''" "''b''" 50 120 120] t r
    by (fastforce simp: u64_max_def)
qed

end
