(* ===== verification/Run_Journal.thy ===== *)
theory Run_Journal
  imports Lease_Store
begin

text \<open>
  \<open>internal/state/journal.go\<close> and \<open>memory_journal.go\<close>: the durable-run journal, its checkpoints, the
  tool intents and the pruning of finished runs; and, at the end, the invariant of the whole memory
  store over every operation that changes it.
\<close>

section \<open>Normalisation\<close>

definition terminal_execution_status :: "execution_status \<Rightarrow> bool" where
  "terminal_execution_status status =
     (case status of ExecutionCompleted \<Rightarrow> True | ExecutionFailed \<Rightarrow> True | ExecutionTruncated \<Rightarrow> True | _ \<Rightarrow> False)"

definition normalize_run_journal :: "ambient \<Rightarrow> go_time \<Rightarrow> run_journal \<Rightarrow> run_journal query" where
  "normalize_run_journal E now j =
     (if trim_space (rj_exec_id j) = [] then Inl (ErrText ''run journal execution id is required'')
      else let original = rj_input j; input = redact_json_text E original in
        Inr (j \<lparr>rj_exec_id := trim_space (rj_exec_id j), rj_plan_key := trim_space (rj_plan_key j),
               rj_plan_hash := trim_space (rj_plan_hash j), rj_trigger_kind := trim_space (rj_trigger_kind j),
               rj_input := input, rj_replay_unsafe := (rj_replay_unsafe j \<or> input \<noteq> original),
               rj_created_at := (if is_zero (rj_created_at j) then now else rj_created_at j)\<rparr>))"

definition normalize_run_checkpoint :: "ambient \<Rightarrow> go_time \<Rightarrow> run_checkpoint \<Rightarrow> run_checkpoint query" where
  "normalize_run_checkpoint E now c =
     (if trim_space (rc_exec_id c) = [] then Inl (ErrText ''run checkpoint execution id is required'')
      else if rc_step_index c < 0 then Inl (ErrText ''run checkpoint step index must not be negative'')
      else let original = rc_output c; out = redact_json_text E original in
        Inr (c \<lparr>rc_exec_id := trim_space (rc_exec_id c), rc_output := out,
               rc_replay_unsafe := (rc_replay_unsafe c \<or> out \<noteq> original),
               rc_completed_at := (if is_zero (rc_completed_at c) then now else rc_completed_at c)\<rparr>))"

definition normalize_tool_intent :: "ambient \<Rightarrow> go_time \<Rightarrow> tool_intent \<Rightarrow> tool_intent query" where
  "normalize_tool_intent E now i =
     (if trim_space (ti_exec_id i) = [] then Inl (ErrText ''tool intent execution id is required'')
      else if trim_space (ti_tool_call_id i) = [] then Inl (ErrText ''tool intent tool call id is required'')
      else if trim_space (ti_tool_name i) = [] then Inl (ErrText ''tool intent tool name is required'')
      else if ti_step_index i < 0 then Inl (ErrText ''tool intent step index must not be negative'')
      else Inr (i \<lparr>ti_exec_id := trim_space (ti_exec_id i), ti_tool_call_id := trim_space (ti_tool_call_id i),
             ti_tool_name := trim_space (ti_tool_name i), ti_effect := trim_space (ti_effect i),
             ti_idem_key := redact_text E (trim_space (ti_idem_key i)),
             ti_started_at := (if is_zero (ti_started_at i) then now else ti_started_at i)\<rparr>))"

definition normalize_journal_key :: "string \<Rightarrow> string \<Rightarrow> (string \<times> string) query" where
  "normalize_journal_key execID toolCallID =
     (if trim_space execID = [] then Inl (ErrText ''tool intent execution id is required'')
      else if trim_space toolCallID = [] then Inl (ErrText ''tool intent tool call id is required'')
      else Inr (trim_space execID, trim_space toolCallID))"

section \<open>Operations\<close>

definition save_run_journal :: "ambient \<Rightarrow> go_error option \<Rightarrow> go_time \<Rightarrow> run_journal \<Rightarrow> memory_store \<Rightarrow> update" where
  "save_run_journal E ctx now j s =
     (case ctx of Some err \<Rightarrow> (s, Some err)
      | None \<Rightarrow>
     (case normalize_run_journal E now j of Inl err \<Rightarrow> (s, Some err)
      | Inr j \<Rightarrow> (s \<lparr>db_run_journals := mput (rj_exec_id j) j (db_run_journals s)\<rparr>, None)))"

definition get_run_journal :: "go_error option \<Rightarrow> string \<Rightarrow> memory_store \<Rightarrow> run_journal option query" where
  "get_run_journal ctx execID s =
     (case ctx of Some err \<Rightarrow> Inl err | None \<Rightarrow> Inr (mget (db_run_journals s) (trim_space execID)))"

definition list_run_journals :: "go_error option \<Rightarrow> memory_store \<Rightarrow> run_journal list query" where
  "list_run_journals ctx s =
     (case ctx of Some err \<Rightarrow> Inl err
      | None \<Rightarrow> Inr (sort_key (\<lambda>j. (rj_created_at j, rj_exec_id j)) (mvals (db_run_journals s))))"

definition save_run_checkpoint ::
  "ambient \<Rightarrow> go_error option \<Rightarrow> go_time \<Rightarrow> run_checkpoint \<Rightarrow> memory_store \<Rightarrow> update" where
  "save_run_checkpoint E ctx now c s =
     (case ctx of Some err \<Rightarrow> (s, Some err)
      | None \<Rightarrow>
     (case normalize_run_checkpoint E now c of Inl err \<Rightarrow> (s, Some err)
      | Inr c \<Rightarrow> (s \<lparr>db_run_checkpoints := mput (rc_exec_id c)
            (mput (rc_step_index c) c (bucket (db_run_checkpoints s) (rc_exec_id c))) (db_run_checkpoints s)\<rparr>, None)))"

definition run_checkpoints :: "go_error option \<Rightarrow> string \<Rightarrow> memory_store \<Rightarrow> run_checkpoint list query" where
  "run_checkpoints ctx execID s =
     (case ctx of Some err \<Rightarrow> Inl err
      | None \<Rightarrow> Inr (sort_key rc_step_index (mvals (bucket (db_run_checkpoints s) (trim_space execID)))))"

definition begin_tool_intent :: "ambient \<Rightarrow> go_error option \<Rightarrow> go_time \<Rightarrow> tool_intent \<Rightarrow> memory_store \<Rightarrow> update" where
  "begin_tool_intent E ctx now i s =
     (case ctx of Some err \<Rightarrow> (s, Some err)
      | None \<Rightarrow>
     (case normalize_tool_intent E now i of Inl err \<Rightarrow> (s, Some err)
      | Inr i \<Rightarrow>
          let i = i \<lparr>ti_completed_at := zero_time\<rparr>
          in (s \<lparr>db_tool_intents := mput (ti_exec_id i)
                (mput (ti_tool_call_id i) i (bucket (db_tool_intents s) (ti_exec_id i))) (db_tool_intents s)\<rparr>, None)))"

definition complete_tool_intent ::
  "go_error option \<Rightarrow> go_time \<Rightarrow> string \<Rightarrow> string \<Rightarrow> memory_store \<Rightarrow> update" where
  "complete_tool_intent ctx now execID toolCallID s =
     (case ctx of Some err \<Rightarrow> (s, Some err)
      | None \<Rightarrow>
     (case normalize_journal_key execID toolCallID of Inl err \<Rightarrow> (s, Some err)
      | Inr (execID, toolCallID) \<Rightarrow>
     (case mget (bucket (db_tool_intents s) execID) toolCallID of
        None \<Rightarrow> (s, Some (ErrText ''tool intent not found''))
      | Some i \<Rightarrow>
          (s \<lparr>db_tool_intents := mput execID
                (mput toolCallID (i \<lparr>ti_completed_at := now\<rparr>) (bucket (db_tool_intents s) execID))
                (db_tool_intents s)\<rparr>, None))))"

definition tool_intents :: "go_error option \<Rightarrow> string \<Rightarrow> memory_store \<Rightarrow> tool_intent list query" where
  "tool_intents ctx execID s =
     (case ctx of Some err \<Rightarrow> Inl err
      | None \<Rightarrow> Inr (sort_key (\<lambda>i. (ti_started_at i, ti_tool_call_id i))
          (mvals (bucket (db_tool_intents s) (trim_space execID)))))"

definition prune_run_journal_locked :: "string \<Rightarrow> memory_store \<Rightarrow> memory_store \<times> bool" where
  "prune_run_journal_locked execID s =
     (if mget (db_run_journals s) execID = None then (s, False)
      else case mget (db_executions s) execID of
        None \<Rightarrow> (s, False)
      | Some x \<Rightarrow>
          if \<not> terminal_execution_status (ex_status x) then (s, False)
          else if list_ex (\<lambda>a. pa_exec_id a = execID \<and> pa_status a = ApprovalPending) (mvals (db_approvals s))
          then (s, False)
          else (s \<lparr>db_run_journals := mdel execID (db_run_journals s),
                   db_run_checkpoints := mdel execID (db_run_checkpoints s),
                   db_tool_intents := mdel execID (db_tool_intents s)\<rparr>, True))"

definition prune_run_journal :: "go_error option \<Rightarrow> string \<Rightarrow> memory_store \<Rightarrow> update" where
  "prune_run_journal ctx execID s =
     (case ctx of Some err \<Rightarrow> (s, Some err)
      | None \<Rightarrow>
        if trim_space execID = [] then (s, Some (ErrText ''run journal execution id is required''))
        else (fst (prune_run_journal_locked (trim_space execID) s), None))"

fun prune_all :: "string list \<Rightarrow> memory_store \<Rightarrow> memory_store \<times> string list" where
  "prune_all [] s = (s, [])"
| "prune_all (execID # ids) s =
     (case prune_run_journal_locked execID s of
        (s', ok) \<Rightarrow> (case prune_all ids s' of (s'', pruned) \<Rightarrow> (s'', if ok then execID # pruned else pruned)))"

definition prune_run_journals_before ::
  "go_error option \<Rightarrow> go_time \<Rightarrow> memory_store \<Rightarrow> memory_store \<times> string list query" where
  "prune_run_journals_before ctx cutoff s =
     (case ctx of Some err \<Rightarrow> (s, Inl err)
      | None \<Rightarrow>
        (case prune_all (sort (map fst (filter (\<lambda>(_, j). rj_created_at j < cutoff) (db_run_journals s)))) s of
           (s', pruned) \<Rightarrow> (s', Inr pruned)))"

section \<open>Pruning\<close>

text \<open>The runs that may be pruned: terminal, with no approval pending.\<close>

definition prunable :: "memory_store \<Rightarrow> string \<Rightarrow> bool" where
  "prunable s execID = (mget (db_run_journals s) execID \<noteq> None
     \<and> (\<exists>x. mget (db_executions s) execID = Some x \<and> terminal_execution_status (ex_status x))
     \<and> (\<forall>a \<in> set (mvals (db_approvals s)). pa_exec_id a = execID \<longrightarrow> pa_status a \<noteq> ApprovalPending))"

lemma prune_locked_eq:
  "prune_run_journal_locked execID s =
     (if prunable s execID
      then (s \<lparr>db_run_journals := mdel execID (db_run_journals s),
               db_run_checkpoints := mdel execID (db_run_checkpoints s),
               db_tool_intents := mdel execID (db_tool_intents s)\<rparr>, True)
      else (s, False))"
  by (auto simp: prune_run_journal_locked_def prunable_def list_ex_iff split: option.splits)

lemma prunable_other:
  "i \<noteq> j \<Longrightarrow> prunable (fst (prune_run_journal_locked i s)) j = prunable s j"
  by (auto simp: prune_locked_eq prunable_def)

lemma prune_all_spec:
  assumes "distinct ids" "prune_all ids s = (s', pruned)"
  shows "pruned = filter (prunable s) ids
    \<and> db_executions s' = db_executions s \<and> db_approvals s' = db_approvals s
    \<and> (\<forall>i. mget (db_run_journals s') i = (if i \<in> set pruned then None else mget (db_run_journals s) i))
    \<and> (\<forall>i. mget (db_run_checkpoints s') i = (if i \<in> set pruned then None else mget (db_run_checkpoints s) i))
    \<and> (\<forall>i. mget (db_tool_intents s') i = (if i \<in> set pruned then None else mget (db_tool_intents s) i))"
  using assms
proof (induction ids arbitrary: s pruned)
  case (Cons i ids)
  obtain t ok where t: "prune_run_journal_locked i s = (t, ok)" by fastforce
  obtain ps where ps: "prune_all ids t = (s', ps)" "pruned = (if ok then i # ps else ps)"
    using Cons.prems(2) t by (auto split: prod.splits)
  have "prunable t j = prunable s j" if "j \<in> set ids" for j
  proof -
    have "i \<noteq> j" using that Cons.prems(1) by auto
    then show ?thesis using prunable_other [of i j s] t by simp
  qed
  then have same: "filter (prunable t) ids = filter (prunable s) ids" by (intro filter_cong) auto
  have IH: "ps = filter (prunable t) ids
    \<and> db_executions s' = db_executions t \<and> db_approvals s' = db_approvals t
    \<and> (\<forall>i. mget (db_run_journals s') i = (if i \<in> set ps then None else mget (db_run_journals t) i))
    \<and> (\<forall>i. mget (db_run_checkpoints s') i = (if i \<in> set ps then None else mget (db_run_checkpoints t) i))
    \<and> (\<forall>i. mget (db_tool_intents s') i = (if i \<in> set ps then None else mget (db_tool_intents t) i))"
    using Cons.prems(1) by (intro Cons.IH [OF _ ps(1)]) simp
  show ?case
  proof (cases "prunable s i")
    case True
    with t have "ok" "t = s \<lparr>db_run_journals := mdel i (db_run_journals s),
        db_run_checkpoints := mdel i (db_run_checkpoints s), db_tool_intents := mdel i (db_tool_intents s)\<rparr>"
      by (auto simp: prune_locked_eq)
    with IH ps(2) same True show ?thesis by simp
  next
    case False
    with t have "\<not> ok" "t = s" by (auto simp: prune_locked_eq)
    with IH ps(2) False show ?thesis by simp
  qed
qed simp

text \<open>C37
  Retention never deletes a run that can still be needed: pruning before a cutoff removes the
  journal, checkpoints and intents of exactly the runs created before it that are terminal and have
  no pending approval, returns their identifiers in order, and leaves every other run untouched.
\<close>

theorem prune_before_exact:
  assumes "mwf (db_run_journals s)" "prune_run_journals_before None cutoff s = (s', Inr pruned)"
  shows "set pruned = {i. prunable s i \<and> (\<exists>j. mget (db_run_journals s) i = Some j \<and> rj_created_at j < cutoff)}
    \<and> sorted_wrt (<) pruned
    \<and> (\<forall>i. mget (db_run_journals s') i = (if i \<in> set pruned then None else mget (db_run_journals s) i))
    \<and> (\<forall>i. mget (db_run_checkpoints s') i = (if i \<in> set pruned then None else mget (db_run_checkpoints s) i))
    \<and> (\<forall>i. mget (db_tool_intents s') i = (if i \<in> set pruned then None else mget (db_tool_intents s) i))"
proof -
  let ?old = "filter (\<lambda>(_, j). rj_created_at j < cutoff) (db_run_journals s)"
  let ?ids = "sort (map fst ?old)"
  have d: "distinct (map fst (db_run_journals s))" using assms(1) by (simp add: mwf_def)
  then have ids: "distinct ?ids" by (simp add: distinct_map_filter)
  have mem: "i \<in> set ?ids \<longleftrightarrow> (\<exists>j. mget (db_run_journals s) i = Some j \<and> rj_created_at j < cutoff)" for i
    using d by (force simp: image_iff)
  have "prune_all ?ids s = (s', pruned)"
    using assms(2) by (auto simp: prune_run_journals_before_def split: prod.splits)
  from prune_all_spec [OF ids this] have p: "pruned = filter (prunable s) ?ids"
    "\<forall>i. mget (db_run_journals s') i = (if i \<in> set pruned then None else mget (db_run_journals s) i)"
    "\<forall>i. mget (db_run_checkpoints s') i = (if i \<in> set pruned then None else mget (db_run_checkpoints s) i)"
    "\<forall>i. mget (db_tool_intents s') i = (if i \<in> set pruned then None else mget (db_tool_intents s) i)"
    by simp_all
  have "sorted_wrt (<) ?ids" using ids by (simp add: strict_sorted_iff)
  then have "sorted_wrt (<) pruned" by (simp add: p(1) sorted_wrt_filter)
  moreover have "set pruned = {i. prunable s i \<and> (\<exists>j. mget (db_run_journals s) i = Some j \<and> rj_created_at j < cutoff)}"
    using mem by (auto simp: p(1))
  ultimately show ?thesis using p(2-4) by blast
qed

definition old_run :: "string \<Rightarrow> execution_status \<Rightarrow> memory_store \<Rightarrow> memory_store" where
  "old_run i st s = s \<lparr>db_executions := mput i \<lparr>ex_exec_id = i, ex_trace_id = [], ex_status = st, ex_started_at = 1,
       ex_completed_at = 2\<rparr> (db_executions s),
     db_run_journals := mput i \<lparr>rj_exec_id = i, rj_plan_key = [], rj_plan_hash = [], rj_trigger_kind = [],
       rj_input = [], rj_replay_unsafe = False, rj_created_at = 1\<rparr> (db_run_journals s)\<rparr>"

definition two_runs :: memory_store where
  "two_runs = old_run ''b'' ExecutionRunning (old_run ''a'' ExecutionCompleted new_memory_store)"

theorem prune_before_exact_witness:
  "snd (prune_run_journals_before None 5 two_runs) = Inr [''a''] \<and>
   mget (db_run_journals (fst (prune_run_journals_before None 5 two_runs))) ''b'' = mget (db_run_journals two_runs) ''b''"
proof -
  have "snd (prune_run_journals_before None 5 two_runs) = Inr [''a'']" by code_simp
  then obtain s' where r: "prune_run_journals_before None 5 two_runs = (s', Inr [''a''])" by (metis prod.collapse)
  have "mwf (db_run_journals two_runs)" by code_simp
  from prune_before_exact [OF this r] r show ?thesis by simp
qed

section \<open>Intents and replay safety\<close>

text \<open>The intents of an execution that a crash left without a completion stamp.\<close>

definition open_intents :: "memory_store \<Rightarrow> string \<Rightarrow> string set" where
  "open_intents s execID = {c. \<exists>i. mget (bucket (db_tool_intents s) execID) c = Some i \<and> is_zero (ti_completed_at i)}"

text \<open>
  Beginning a tool intent opens it, also when it was completed before, and completing it closes it
  and no other: at any time the open intents of a run are the calls begun and not completed since.
\<close>

theorem intents_open_and_close:
  assumes "begin_tool_intent E None now i s = (s1, None)"
    "complete_tool_intent None later (ti_exec_id i) (ti_tool_call_id i) s1 = (s2, r)" "\<not> is_zero later"
  shows "open_intents s1 (trim_space (ti_exec_id i))
      = insert (trim_space (ti_tool_call_id i)) (open_intents s (trim_space (ti_exec_id i)))
    \<and> r = None
    \<and> open_intents s2 (trim_space (ti_exec_id i))
      = open_intents s1 (trim_space (ti_exec_id i)) - {trim_space (ti_tool_call_id i)}"
  using assms
  by (auto simp: begin_tool_intent_def complete_tool_intent_def normalize_tool_intent_def
    normalize_journal_key_def open_intents_def is_zero_def Let_def split: if_splits)

definition sample_intent :: tool_intent where
  "sample_intent = \<lparr>ti_exec_id = ''x1'', ti_tool_call_id = ''c1'', ti_step_index = 0, ti_tool_name = ''pay'',
     ti_effect = ''irreversible'', ti_idem_key = [], ti_started_at = 0, ti_completed_at = 0\<rparr>"

theorem intents_open_and_close_witness:
  "open_intents (fst (begin_tool_intent bare_ambient None 3 sample_intent new_memory_store)) (trim_space ''x1'')
   = {trim_space ''c1''}"
proof -
  have "snd (begin_tool_intent bare_ambient None 3 sample_intent new_memory_store) = None" by code_simp
  then obtain s1 where s1: "begin_tool_intent bare_ambient None 3 sample_intent new_memory_store = (s1, None)"
    by (metis prod.collapse)
  obtain s2 r where s2: "complete_tool_intent None 4 (ti_exec_id sample_intent) (ti_tool_call_id sample_intent) s1 = (s2, r)"
    by fastforce
  have "open_intents new_memory_store (trim_space ''x1'') = {}"
    by (simp add: open_intents_def new_memory_store_def bucket_def)
  with intents_open_and_close [OF s1 s2] s1 show ?thesis
    by (simp add: sample_intent_def is_zero_def zero_time_def)
qed

text \<open>
  A run is never replayed on data that redaction destroyed: the input a journal stores is the redacted
  input, and the journal is marked unsafe exactly when the caller marked it or redaction changed it.
\<close>

theorem journal_replay_safety:
  assumes "save_run_journal E None now j s = (s', None)"
  shows "\<exists>j'. get_run_journal None (rj_exec_id j) s' = Inr (Some j')
    \<and> rj_input j' = redact_json_text E (rj_input j)
    \<and> (rj_replay_unsafe j' \<longleftrightarrow> rj_replay_unsafe j \<or> rj_input j' \<noteq> rj_input j)"
  using assms
  by (auto simp: save_run_journal_def normalize_run_journal_def get_run_journal_def Let_def split: if_splits)

theorem journal_replay_safety_witness:
  "\<exists>j'. get_run_journal None ''x1'' (fst (save_run_journal bare_ambient None 3
      \<lparr>rj_exec_id = ''x1'', rj_plan_key = [], rj_plan_hash = [], rj_trigger_kind = [], rj_input = [],
       rj_replay_unsafe = False, rj_created_at = 1\<rparr> new_memory_store)) = Inr (Some j') \<and> \<not> rj_replay_unsafe j'"
proof -
  let ?j = "\<lparr>rj_exec_id = ''x1'', rj_plan_key = [], rj_plan_hash = [], rj_trigger_kind = [], rj_input = [],
       rj_replay_unsafe = False, rj_created_at = 1\<rparr>"
  have "snd (save_run_journal bare_ambient None 3 ?j new_memory_store) = None" by code_simp
  then obtain s' where s': "save_run_journal bare_ambient None 3 ?j new_memory_store = (s', None)"
    by (metis prod.collapse)
  have "redact_json_text bare_ambient [] = []" by code_simp
  with journal_replay_safety [OF s'] s' show ?thesis by auto
qed

section \<open>The invariant of the whole store\<close>

definition nested_keyed :: "('v \<Rightarrow> 'a) \<Rightarrow> ('v \<Rightarrow> 'k) \<Rightarrow> ('a, ('k \<times> 'v) list) gomap \<Rightarrow> bool" where
  "nested_keyed outer inner m =
     (mwf m \<and> (\<forall>(a, b) \<in> set m. keyed inner b \<and> (\<forall>(k, v) \<in> set b. outer v = a)))"

lemma nested_keyed_Nil [simp]: "nested_keyed outer inner []"
  by (simp add: nested_keyed_def)

lemma nested_keyed_mdel [intro]: "nested_keyed outer inner m \<Longrightarrow> nested_keyed outer inner (mdel a m)"
  by (auto simp: nested_keyed_def dest!: mdel_set)

lemma nested_keyed_bucket:
  assumes "nested_keyed outer inner m"
  shows "keyed inner (bucket m a)" "(k, v) \<in> set (bucket m a) \<Longrightarrow> outer v = a"
proof -
  have "keyed inner (bucket m a) \<and> (\<forall>(k, v) \<in> set (bucket m a). outer v = a)"
  proof (cases "mget m a")
    case (Some b)
    then have "(a, b) \<in> set m" by (rule map_of_SomeD)
    with Some assms show ?thesis by (auto simp: nested_keyed_def bucket_def)
  qed (simp add: bucket_def)
  then show "keyed inner (bucket m a)" "(k, v) \<in> set (bucket m a) \<Longrightarrow> outer v = a" by auto
qed

lemma nested_keyed_mput:
  assumes m: "nested_keyed outer inner m" and v: "outer v = a" "inner v = k"
  shows "nested_keyed outer inner (mput a (mput k v (bucket m a)) m)"
proof -
  have b: "keyed inner (mput k v (bucket m a))"
    using nested_keyed_bucket(1) [OF m] v(2) by (rule keyed_mput)
  have "outer w = a" if "(j, w) \<in> set (mput k v (bucket m a))" for j w
    using that mput_set [of "bucket m a" j w k v] nested_keyed_bucket [OF m] v(1)
    by (auto simp: keyed_def)
  with b m show ?thesis by (auto simp: nested_keyed_def dest!: mput_set)
qed

definition store_inv :: "memory_store \<Rightarrow> bool" where
  "store_inv s = (keyed ex_exec_id (db_executions s) \<and> keyed ss_session_id (db_sessions s)
     \<and> keyed ir_key (db_idempotency s) \<and> events_inv s \<and> approvals_inv s
     \<and> nested_keyed mr_scope mr_key (db_memory s) \<and> keyed le_name (db_leases s)
     \<and> keyed rj_exec_id (db_run_journals s) \<and> nested_keyed rc_exec_id rc_step_index (db_run_checkpoints s)
     \<and> nested_keyed ti_exec_id ti_tool_call_id (db_tool_intents s))"

text \<open>The operations leave the part of the invariant that they do not touch alone.\<close>

lemma events_inv_frame [store_simps]:
  "db_events t = db_events s \<Longrightarrow> db_event_ids t = db_event_ids s \<Longrightarrow> db_next_event_id t = db_next_event_id s \<Longrightarrow>
     events_inv t = events_inv s"
  by (simp add: events_inv_def)

lemma approvals_inv_frame [store_simps]:
  "db_approvals t = db_approvals s \<Longrightarrow> db_approval_order t = db_approval_order s \<Longrightarrow>
     db_approval_seq t = db_approval_seq s \<Longrightarrow> approvals_inv t = approvals_inv s"
  by (simp add: approvals_inv_def)

lemma store_inv_parts [dest]:
  assumes "store_inv s"
  shows "keyed ex_exec_id (db_executions s)" "keyed ss_session_id (db_sessions s)"
    "keyed ir_key (db_idempotency s)" "events_inv s" "approvals_inv s"
    "nested_keyed mr_scope mr_key (db_memory s)" "keyed le_name (db_leases s)"
    "keyed rj_exec_id (db_run_journals s)" "nested_keyed rc_exec_id rc_step_index (db_run_checkpoints s)"
    "nested_keyed ti_exec_id ti_tool_call_id (db_tool_intents s)"
  using assms by (simp_all add: store_inv_def)

lemma events_inv_upd [simp]:
    "events_inv (s \<lparr>db_executions := m1\<rparr>) = events_inv s"
    "events_inv (s \<lparr>db_sessions := m2\<rparr>) = events_inv s"
    "events_inv (s \<lparr>db_idempotency := m3\<rparr>) = events_inv s"
    "events_inv (s \<lparr>db_memory := m4\<rparr>) = events_inv s"
    "events_inv (s \<lparr>db_leases := m5\<rparr>) = events_inv s"
    "events_inv (s \<lparr>db_run_journals := m6\<rparr>) = events_inv s"
    "events_inv (s \<lparr>db_run_checkpoints := m7\<rparr>) = events_inv s"
    "events_inv (s \<lparr>db_tool_intents := m8\<rparr>) = events_inv s"
    "events_inv (s \<lparr>db_next_violation_id := n, db_violations := vs\<rparr>) = events_inv s"
  by (simp_all add: events_inv_def)

lemma approvals_inv_upd [simp]:
    "approvals_inv (s \<lparr>db_executions := m1\<rparr>) = approvals_inv s"
    "approvals_inv (s \<lparr>db_sessions := m2\<rparr>) = approvals_inv s"
    "approvals_inv (s \<lparr>db_idempotency := m3\<rparr>) = approvals_inv s"
    "approvals_inv (s \<lparr>db_memory := m4\<rparr>) = approvals_inv s"
    "approvals_inv (s \<lparr>db_leases := m5\<rparr>) = approvals_inv s"
    "approvals_inv (s \<lparr>db_run_journals := m6\<rparr>) = approvals_inv s"
    "approvals_inv (s \<lparr>db_run_checkpoints := m7\<rparr>) = approvals_inv s"
    "approvals_inv (s \<lparr>db_tool_intents := m8\<rparr>) = approvals_inv s"
    "approvals_inv (s \<lparr>db_next_violation_id := n, db_violations := vs\<rparr>) = approvals_inv s"
  by (simp_all add: approvals_inv_def)

text \<open>Replacing one map by one that is keyed keeps the invariant.\<close>

lemma store_inv_upd [intro]:
  assumes "store_inv s"
  shows "keyed ex_exec_id m1 \<Longrightarrow> store_inv (s \<lparr>db_executions := m1\<rparr>)"
    "keyed ss_session_id m2 \<Longrightarrow> store_inv (s \<lparr>db_sessions := m2\<rparr>)"
    "keyed ir_key m3 \<Longrightarrow> store_inv (s \<lparr>db_idempotency := m3\<rparr>)"
    "nested_keyed mr_scope mr_key m4 \<Longrightarrow> store_inv (s \<lparr>db_memory := m4\<rparr>)"
    "keyed le_name m5 \<Longrightarrow> store_inv (s \<lparr>db_leases := m5\<rparr>)"
    "keyed rj_exec_id m6 \<Longrightarrow> store_inv (s \<lparr>db_run_journals := m6\<rparr>)"
    "nested_keyed rc_exec_id rc_step_index m7 \<Longrightarrow> store_inv (s \<lparr>db_run_checkpoints := m7\<rparr>)"
    "nested_keyed ti_exec_id ti_tool_call_id m8 \<Longrightarrow> store_inv (s \<lparr>db_tool_intents := m8\<rparr>)"
    "store_inv (s \<lparr>db_next_violation_id := n, db_violations := vs\<rparr>)"
  using assms by (simp_all add: store_inv_def)

lemma keyed_replace [intro]:
  "keyed key m \<Longrightarrow> mget m k = Some v \<Longrightarrow> key v' = key v \<Longrightarrow> keyed key (mput k v' m)"
  by (metis keyed_mget keyed_mput)

lemma save_execution_inv [inv_intros]: "store_inv s \<Longrightarrow> store_inv (fst (save_execution ctx x s))"
  by (auto simp: save_execution_def intro!: store_inv_upd(1) keyed_mput split: option.splits)

lemma save_session_inv [inv_intros]: "store_inv s \<Longrightarrow> store_inv (fst (save_session ctx x s))"
  by (auto simp: save_session_def intro!: store_inv_upd(2) keyed_mput split: option.splits)

lemma reserve_idempotency_inv [inv_intros]: "store_inv s \<Longrightarrow> store_inv (fst (reserve_idempotency ctx now k x s))"
  by (auto simp: reserve_idempotency_def Let_def intro!: store_inv_upd(3) keyed_mput split: option.splits)

lemma resolve_idempotency_inv [inv_intros]:
  "store_inv s \<Longrightarrow> store_inv (fst (resolve_idempotency ctx now k x out s))"
  by (auto simp: resolve_idempotency_def intro!: store_inv_upd(3) keyed_replace [of ir_key] split: option.splits)

lemma resolve_idempotency_by_execution_inv [inv_intros]:
  "store_inv s \<Longrightarrow> store_inv (fst (resolve_idempotency_by_execution ctx now x pre out s))"
  by (auto simp: resolve_idempotency_by_execution_def intro!: store_inv_upd(3) keyed_mupd_all split: option.splits)

lemma add_event_store_inv [inv_intros]:
  assumes "store_inv s" "ev_id ev \<le> u64_max"
  shows "store_inv (fst (add_event E ctx now ev s))"
proof -
  have "events_inv (fst (add_event E ctx now ev s))" using assms by (intro add_event_inv) (simp_all add: store_inv_def)
  moreover have "approvals_inv (fst (add_event E ctx now ev s)) = approvals_inv s"
    by (intro approvals_inv_frame) (auto simp: add_event_def Let_def split: option.splits)
  ultimately show ?thesis
    using assms(1) by (auto simp: store_inv_def add_event_def Let_def split: option.splits)
qed

lemma add_schema_violation_inv [inv_intros]: "store_inv s \<Longrightarrow> store_inv (fst (add_schema_violation E ctx now v s))"
  by (auto simp: add_schema_violation_def Let_def split: option.splits)

lemma save_memory_inv [inv_intros]: "store_inv s \<Longrightarrow> store_inv (fst (save_memory E ctx now scope key val s))"
  by (auto simp: save_memory_def intro!: store_inv_upd(4) nested_keyed_mput split: option.splits sum.splits)

lemma save_approval_store_inv [inv_intros]:
  assumes "store_inv s" "db_approval_seq s < u64_max"
  shows "store_inv (fst (save_approval E ctx now a s))"
proof -
  have "approvals_inv (fst (save_approval E ctx now a s))"
    using assms by (intro save_approval_inv) (simp_all add: store_inv_def)
  moreover have "events_inv (fst (save_approval E ctx now a s)) = events_inv s"
    by (intro events_inv_frame) (auto simp: save_approval_def Let_def split: option.splits sum.splits)
  ultimately show ?thesis
    using assms(1) by (auto simp: store_inv_def save_approval_def Let_def split: option.splits sum.splits)
qed

lemma resolve_approval_store_inv [inv_intros]:
  assumes "store_inv s"
  shows "store_inv (fst (resolve_approval ctx now i status by s))"
proof -
  have "approvals_inv (fst (resolve_approval ctx now i status by s))"
    using assms by (intro resolve_approval_inv) (simp add: store_inv_def)
  moreover have "events_inv (fst (resolve_approval ctx now i status by s)) = events_inv s"
    by (intro events_inv_frame) (auto simp: resolve_approval_def Let_def split: option.splits)
  ultimately show ?thesis
    using assms by (auto simp: store_inv_def resolve_approval_def Let_def split: option.splits)
qed

lemma acquire_lease_inv [inv_intros]: "store_inv s \<Longrightarrow> store_inv (fst (acquire_lease ctx now name holder ttl s))"
  by (auto simp: acquire_lease_def Let_def intro!: store_inv_upd(5) keyed_mput
    split: option.splits sum.splits)

lemma renew_lease_inv [inv_intros]: "store_inv s \<Longrightarrow> store_inv (fst (renew_lease ctx now name holder fence ttl s))"
  by (auto simp: renew_lease_def Let_def intro!: store_inv_upd(5) keyed_replace [of le_name]
    split: option.splits sum.splits)

lemma release_lease_inv [inv_intros]: "store_inv s \<Longrightarrow> store_inv (fst (release_lease ctx now name holder fence s))"
  by (auto simp: release_lease_def intro!: store_inv_upd(5) keyed_replace [of le_name] split: option.splits sum.splits)

lemma save_run_journal_inv [inv_intros]: "store_inv s \<Longrightarrow> store_inv (fst (save_run_journal E ctx now j s))"
  by (auto simp: save_run_journal_def intro!: store_inv_upd(6) keyed_mput split: option.splits sum.splits)

lemma save_run_checkpoint_inv [inv_intros]: "store_inv s \<Longrightarrow> store_inv (fst (save_run_checkpoint E ctx now c s))"
  by (auto simp: save_run_checkpoint_def intro!: store_inv_upd(7) nested_keyed_mput split: option.splits sum.splits)

lemma begin_tool_intent_inv [inv_intros]: "store_inv s \<Longrightarrow> store_inv (fst (begin_tool_intent E ctx now i s))"
  by (auto simp: begin_tool_intent_def Let_def intro!: store_inv_upd(8) nested_keyed_mput
    split: option.splits sum.splits)

lemma complete_tool_intent_inv [inv_intros]:
  assumes "store_inv s"
  shows "store_inv (fst (complete_tool_intent ctx now x c s))"
proof -
  have n: "nested_keyed ti_exec_id ti_tool_call_id (db_tool_intents s)" using assms by (simp add: store_inv_def)
  have "ti_exec_id i = e \<and> ti_tool_call_id i = c'" if "mget (bucket (db_tool_intents s) e) c' = Some i" for e c' i
    using nested_keyed_bucket(2) [OF n map_of_SomeD [OF that]] keyed_mget [OF nested_keyed_bucket(1) [OF n] that]
    by simp
  with assms show ?thesis
    by (auto simp: complete_tool_intent_def intro!: store_inv_upd(8) nested_keyed_mput split: option.splits sum.splits)
qed

lemma prune_locked_inv: "store_inv s \<Longrightarrow> store_inv (fst (prune_run_journal_locked i s))"
  by (auto simp: prune_locked_eq store_inv_def events_inv_def approvals_inv_def)

lemma prune_all_inv: "store_inv s \<Longrightarrow> store_inv (fst (prune_all ids s))"
proof (induction ids arbitrary: s)
  case (Cons i ids)
  from Cons.IH [OF prune_locked_inv [OF Cons.prems, of i]] show ?case by (auto split: prod.splits)
qed simp

lemma prune_run_journal_inv [inv_intros]: "store_inv s \<Longrightarrow> store_inv (fst (prune_run_journal ctx i s))"
  by (auto simp: prune_run_journal_def prune_locked_inv split: option.splits)

lemma prune_before_inv [inv_intros]: "store_inv s \<Longrightarrow> store_inv (fst (prune_run_journals_before ctx cutoff s))"
  using prune_all_inv
  by (auto simp: prune_run_journals_before_def split: option.splits prod.splits) (metis fst_conv)

text \<open>
  Every method that changes the store, as a step: explicit event identifiers are \<open>uint64\<close>, and an
  approval is saved while the sequence has room.
\<close>

inductive store_step :: "memory_store \<Rightarrow> memory_store \<Rightarrow> bool" where
  step_execution: "store_step s (fst (save_execution ctx x s))"
| step_session: "store_step s (fst (save_session ctx ss s))"
| step_reserve: "store_step s (fst (reserve_idempotency ctx now k e s))"
| step_resolve: "store_step s (fst (resolve_idempotency ctx now k e out s))"
| step_resolve_all: "store_step s (fst (resolve_idempotency_by_execution ctx now e pre out s))"
| step_event: "ev_id ev \<le> u64_max \<Longrightarrow> store_step s (fst (add_event E ctx now ev s))"
| step_violation: "store_step s (fst (add_schema_violation E ctx now v s))"
| step_memory: "store_step s (fst (save_memory E ctx now scope key val s))"
| step_approval: "db_approval_seq s < u64_max \<Longrightarrow> store_step s (fst (save_approval E ctx now a s))"
| step_decision: "store_step s (fst (resolve_approval ctx now i status who s))"
| step_acquire: "store_step s (fst (acquire_lease ctx now name holder ttl s))"
| step_renew: "store_step s (fst (renew_lease ctx now name holder fence ttl s))"
| step_release: "store_step s (fst (release_lease ctx now name holder fence s))"
| step_journal: "store_step s (fst (save_run_journal E ctx now j s))"
| step_checkpoint: "store_step s (fst (save_run_checkpoint E ctx now c s))"
| step_begin: "store_step s (fst (begin_tool_intent E ctx now ti s))"
| step_complete: "store_step s (fst (complete_tool_intent ctx now e call s))"
| step_prune: "store_step s (fst (prune_run_journal ctx e s))"
| step_prune_before: "store_step s (fst (prune_run_journals_before ctx cutoff s))"

lemma store_step_inv: "store_step s t \<Longrightarrow> store_inv s \<Longrightarrow> store_inv t"
  by (induction rule: store_step.induct) (simp_all add: inv_intros)

text \<open>C36
  Every state the store can reach from its initial one, through any interleaving of its methods by
  any callers, is well formed: each map holds records under their own keys, event identifiers are
  unique and below the counter with masked payloads, and approvals are ranked without ties.
\<close>

theorem store_reachable_inv: "store_step\<^sup>*\<^sup>* new_memory_store s \<Longrightarrow> store_inv s"
proof (induction rule: rtranclp_induct)
  case base
  show ?case by (simp add: store_inv_def events_inv_def approvals_inv_new) (simp add: new_memory_store_def)
next
  case (step t u)
  then show ?case by (blast intro: store_step_inv)
qed

theorem store_reachable_inv_witness:
  "store_inv (fst (begin_tool_intent bare_ambient None 3 sample_intent
     (fst (save_approval bare_ambient None 3 (sample_approval ''a1'') new_memory_store))))"
proof (rule store_reachable_inv)
  show "store_step\<^sup>*\<^sup>* new_memory_store (fst (begin_tool_intent bare_ambient None 3 sample_intent
     (fst (save_approval bare_ambient None 3 (sample_approval ''a1'') new_memory_store))))"
  proof (rule rtranclp.rtrancl_into_rtrancl [OF r_into_rtranclp])
    show "store_step new_memory_store (fst (save_approval bare_ambient None 3 (sample_approval ''a1'') new_memory_store))"
      by (rule step_approval) (simp add: new_memory_store_def u64_max_def)
    show "store_step (fst (save_approval bare_ambient None 3 (sample_approval ''a1'') new_memory_store))
      (fst (begin_tool_intent bare_ambient None 3 sample_intent
        (fst (save_approval bare_ambient None 3 (sample_approval ''a1'') new_memory_store))))"
      by (rule step_begin)
  qed
qed

end
