(* ===== verification/Tool_Executor.thy ===== *)
theory Tool_Executor
  imports Policy Run_Journal
begin

text \<open>
  \<open>internal/tools\<close>: the executor of tool calls (\<open>executor.go\<close>), its permission and approval gate
  (\<open>permission.go\<close>, \<open>approval.go\<close>), the idempotency reservations (\<open>idempotency.go\<close>), the retries
  (\<open>retry.go\<close>) and the durable intents (\<open>intent.go\<close>).

  The world \<open>'w\<close> is everything the tools, the stores and the observers act on. What the code puts
  into the \<open>context.Context\<close> is the record \<open>tool_env\<close>: its functions read or change the world, and
  the errors of the contexts are functions of the world too. The body of a tool is a Go function
  called by reflection or a handler; a panic in it is an outcome. \<open>jsonschema\<close> validation and the
  reflective decoding of arguments are functions of the tool, sha256 and the JSON codec of the
  environment. Panics outside the tool body are not modelled.
\<close>

section \<open>Calls, results and tools\<close>

text \<open>The content of a result is the JSON value it encodes, or nothing.\<close>

record tool_call =
  tc_id :: string
  tc_name :: string
  tc_args :: string

record tool_result =
  tr_call_id :: string
  tr_name :: string
  tr_content :: "json option"
  tr_is_error :: bool

definition zero_result :: tool_result where
  "zero_result = \<lparr>tr_call_id = [], tr_name = [], tr_content = None, tr_is_error = False\<rparr>"

definition validate_tool_call :: "tool_call \<Rightarrow> go_error option" where
  "validate_tool_call c =
     (if trim_space (tc_id c) = [] then Some (ErrText ''tool call ID is required'')
      else if trim_space (tc_name c) = [] then Some (ErrText ''tool call name is required'')
      else None)"

definition error_result :: "tool_call \<Rightarrow> go_error \<Rightarrow> tool_result" where
  "error_result c err = \<lparr>tr_call_id = tc_id c, tr_name = tc_name c, tr_content = Some (JStr (err_text err)), tr_is_error = True\<rparr>"

definition success_result :: "tool_call \<Rightarrow> json \<Rightarrow> tool_result" where
  "success_result c val = \<lparr>tr_call_id = tc_id c, tr_name = tc_name c, tr_content = Some val, tr_is_error = False\<rparr>"

definition duplicate_idempotent_result :: "tool_call \<Rightarrow> tool_result" where
  "duplicate_idempotent_result c =
     success_result c (JStr ''duplicate idempotent call skipped: already performed by this execution'')"

datatype tool_kind = ToolKindSubAgent | ToolKindBash | ToolKindMCP | ToolKindOutput | ToolKindText string

fun tool_kind_text :: "tool_kind \<Rightarrow> string" where
  "tool_kind_text ToolKindSubAgent = ''subagent''"
| "tool_kind_text ToolKindBash = ''bash''"
| "tool_kind_text ToolKindMCP = ''mcp''"
| "tool_kind_text ToolKindOutput = ''output''"
| "tool_kind_text (ToolKindText s) = s"

fun effect_text :: "effect \<Rightarrow> string" where
  "effect_text EffectReadOnly = ''read_only''"
| "effect_text EffectIdempotent = ''idempotent''"
| "effect_text EffectSideEffecting = ''side_effecting''"
| "effect_text (EffectText s) = s"

record tool_metadata =
  md_action_kind :: action_kind
  md_effect :: effect
  md_idempotency_key :: string
  md_side_effects :: "string list"
  md_requires_approval :: bool
  md_kind :: tool_kind
  md_partial_ok :: bool
  md_target :: string
  md_argument_name :: string
  md_input_schema :: string
  md_timeout :: duration

text \<open>What calling the Go function of a tool gives: its error, its value as JSON, or a panic.\<close>

datatype func_outcome =
    FuncPanic string
  | FuncError go_error
  | FuncOk
  | FuncValue json
  | FuncUnmarshalable go_error

datatype handler_outcome = HandlerPanic string | HandlerError go_error | HandlerResult tool_result

section \<open>What the context carries\<close>

record permission_audit =
  au_action :: action
  au_decision :: decision
  au_err :: "go_error option"

record approval_context =
  ap_exec_id :: string
  ap_session_id :: string
  ap_trace_id :: string

record approval_request =
  ar_exec_id :: string
  ar_session_id :: string
  ar_trace_id :: string
  ar_tool_name :: string
  ar_tool_call_id :: string
  ar_tool_kind :: string
  ar_effect :: effect
  ar_reason :: string
  ar_args_hash :: string

text \<open>An outcome-aware store is optional: a custom store may only reserve.\<close>

record 'w outcome_store =
  os_lookup :: "string \<Rightarrow> 'w \<Rightarrow> go_error + idempotency_record option"
  os_resolve :: "string \<Rightarrow> string \<Rightarrow> idempotency_outcome \<Rightarrow> 'w \<Rightarrow> go_error option \<times> 'w"

record 'w idem_env =
  ie_exec_id :: string
  ie_namespace :: string
  ie_reserve :: "string \<Rightarrow> string \<Rightarrow> 'w \<Rightarrow> (go_error + string \<times> bool) \<times> 'w"
  ie_outcomes :: "'w outcome_store option"

record 'w intent_env =
  in_exec_id :: string
  in_step_index :: int
  in_begin :: "tool_intent \<Rightarrow> 'w \<Rightarrow> go_error option \<times> 'w"
  in_complete :: "string \<Rightarrow> string \<Rightarrow> 'w \<Rightarrow> go_error option \<times> 'w"

record tool_retry_audit =
  ta_tool_name :: string
  ta_tool_call_id :: string
  ta_attempt :: int
  ta_max_retries :: int
  ta_effect :: effect
  ta_err :: go_error

record 'w tool_env =
  te_ctx_err :: "'w \<Rightarrow> go_error option"
  te_tool_ctx_err :: "'w \<Rightarrow> go_error option"
  te_observe :: "permission_audit \<Rightarrow> 'w \<Rightarrow> go_error option \<times> 'w"
  te_approved :: "(string \<times> string) option"
  te_resolver :: "(string \<Rightarrow> string \<Rightarrow> 'w \<Rightarrow> string option) option"
  te_gate :: "((approval_request \<Rightarrow> 'w \<Rightarrow> (go_error + string) \<times> 'w) \<times> approval_context) option"
  te_idem :: "'w idem_env option"
  te_replay :: bool
  te_intents :: "'w intent_env option"
  te_max_retries :: int
  te_backoff :: duration
  te_observe_retry :: "tool_retry_audit \<Rightarrow> 'w \<Rightarrow> go_error option \<times> 'w"
  te_wait :: "duration \<Rightarrow> 'w \<Rightarrow> go_error option \<times> 'w"
  te_sha256 :: "string \<Rightarrow> string"
  te_ambient :: ambient
  te_session :: "session option"
  te_ledger :: "nat option"
  te_depth :: int

section \<open>Tools and their registration\<close>

text \<open>A Go function comes with the decoding of its arguments.\<close>

datatype 'w tool_body =
    GoFunc "string \<Rightarrow> go_error option" "tool_call \<Rightarrow> 'w \<Rightarrow> func_outcome \<times> 'w"
  | Handler "'w tool_env \<Rightarrow> tool_call \<Rightarrow> 'w \<Rightarrow> handler_outcome \<times> 'w"

record 'w registered_tool =
  rt_name :: string
  rt_body :: "'w tool_body"
  rt_validate :: "string \<Rightarrow> go_error option"
  rt_metadata :: tool_metadata

type_synonym policy_fn = "go_error option \<Rightarrow> action \<Rightarrow> decision \<times> go_error option"

record 'w executor =
  xr_tools :: "(string, 'w registered_tool) gomap"
  xr_policy :: "policy_fn option"

definition zero_metadata :: tool_metadata where
  "zero_metadata = \<lparr>md_action_kind = ActionKindText [], md_effect = EffectSideEffecting, md_idempotency_key = [],
     md_side_effects = [], md_requires_approval = False, md_kind = ToolKindText [], md_partial_ok = False,
     md_target = [], md_argument_name = [], md_input_schema = [], md_timeout = 0\<rparr>"

definition with_metadata :: "tool_metadata \<Rightarrow> 'w registered_tool \<Rightarrow> 'w registered_tool" where
  "with_metadata m t = t \<lparr>rt_metadata := m \<lparr>md_effect := normalize_effect (md_effect m),
     md_idempotency_key := trim_space (md_idempotency_key m), md_side_effects := clean_labels (md_side_effects m),
     md_target := trim_space (md_target m), md_argument_name := trim_space (md_argument_name m),
     md_timeout := (if md_timeout m < 0 then 0 else md_timeout m)\<rparr>\<rparr>"

definition err_invalid_tool :: go_error where "err_invalid_tool = ErrVar ''invalid tool''"
definition err_tool_not_found :: go_error where "err_tool_not_found = ErrVar ''tool not found''"

fun apply_register_options ::
  "('w registered_tool \<Rightarrow> 'w registered_tool) option list \<Rightarrow> 'w registered_tool \<Rightarrow> go_error + 'w registered_tool" where
  "apply_register_options [] t = Inr t"
| "apply_register_options (None # opts) t = Inl (ErrWrap [] err_invalid_tool '': nil register option'')"
| "apply_register_options (Some f # opts) t = apply_register_options opts (f t)"

text \<open>
  \<open>Register\<close> and \<open>RegisterHandler\<close>: \<open>made\<close> is the tool that \<open>newRegisteredTool\<close> builds, or its error
  for a function of the wrong signature (or the missing handler).
\<close>

definition register_tool ::
  "string \<Rightarrow> go_error + ('w tool_body \<times> (string \<Rightarrow> go_error option))
     \<Rightarrow> ('w registered_tool \<Rightarrow> 'w registered_tool) option list \<Rightarrow> 'w executor \<Rightarrow> 'w executor \<times> go_error option" where
  "register_tool name made opts ex =
     (let name = trim_space name in
      if name = [] then (ex, Some (ErrWrap [] err_invalid_tool '': name is required''))
      else case made of
        Inl err \<Rightarrow> (ex, Some err)
      | Inr (body, validate) \<Rightarrow>
          (case apply_register_options opts
             \<lparr>rt_name = name, rt_body = body, rt_validate = validate, rt_metadata = zero_metadata\<rparr> of
             Inl err \<Rightarrow> (ex, Some err)
           | Inr t \<Rightarrow> (ex \<lparr>xr_tools := mput name t (xr_tools ex)\<rparr>, None)))"

section \<open>Idempotency keys\<close>

text \<open>\<open>%q\<close>, for text that needs no escape.\<close>

definition quoted :: "string \<Rightarrow> string" where "quoted s = [CHR 0x22] @ s @ [CHR 0x22]"

definition key_error :: "string \<Rightarrow> string \<Rightarrow> go_error" where
  "key_error expression msg = ErrText (''resolve idempotency key '' @ quoted expression @ '': '' @ msg)"

fun walk_path :: "string \<Rightarrow> string list \<Rightarrow> json \<Rightarrow> go_error + json" where
  "walk_path expression [] current = Inr current"
| "walk_path expression (part # parts) current =
     (let part = trim_space part in
      if part = [] then Inl (key_error expression ''empty path segment'')
      else case current of
        JObj m \<Rightarrow>
          (case mget m part of
             None \<Rightarrow> Inl (key_error expression (''missing field '' @ quoted part))
           | Some JNull \<Rightarrow> Inl (key_error expression (''field '' @ quoted part @ '' is null''))
           | Some nxt \<Rightarrow> walk_path expression parts nxt)
      | _ \<Rightarrow> Inl (key_error expression (quoted part @ '' is not an object'')))"

definition resolve_idempotency_value :: "ambient \<Rightarrow> string \<Rightarrow> string \<Rightarrow> go_error + string" where
  "resolve_idempotency_value E raw expression =
     (let expression = trim_space expression in
      if expression = [] then Inl (ErrText ''resolve idempotency key: expression is required'')
      else let raw = (if trim_space raw = [] then ''{}'' else raw) in
        case json_decode E raw of
          None \<Rightarrow> Inl (key_error expression ''decode arguments'')
        | Some val \<Rightarrow>
            (case walk_path expression (split_on (CHR ''.'') expression) val of
               Inl err \<Rightarrow> Inl err
             | Inr current \<Rightarrow>
                 (case json_encode E current of
                    None \<Rightarrow> Inl (key_error expression ''encode value'')
                  | Some encoded \<Rightarrow> Inr encoded)))"

definition nul :: string where "nul = [CHR 0x00]"

definition idempotency_reservation_key ::
  "'w tool_env \<Rightarrow> string \<Rightarrow> string \<Rightarrow> string \<Rightarrow> string \<Rightarrow> go_error + string" where
  "idempotency_reservation_key env namespace toolName expression raw =
     (case resolve_idempotency_value (te_ambient env) raw expression of
        Inl err \<Rightarrow> Inl err
      | Inr val \<Rightarrow>
          Inr (''tool:'' @ trim_space toolName @ '':'' @ trim_space expression @ '':'' @
            te_sha256 env (trim_space namespace @ nul @ trim_space toolName @ nul @ trim_space expression @ nul @ val)))"

definition idempotency_namespace :: "'w tool_env \<Rightarrow> string" where
  "idempotency_namespace env = (case te_idem env of None \<Rightarrow> [] | Some ie \<Rightarrow> ie_namespace ie)"

definition tool_intent_idem_key :: "'w tool_env \<Rightarrow> 'w registered_tool \<Rightarrow> tool_call \<Rightarrow> string" where
  "tool_intent_idem_key env t call =
     (let hashed = ''args:'' @ te_sha256 env (rt_name t @ nul @ tc_args call);
          expression = trim_space (md_idempotency_key (rt_metadata t))
      in if normalize_effect (md_effect (rt_metadata t)) = EffectIdempotent \<and> expression \<noteq> []
         then case idempotency_reservation_key env (idempotency_namespace env) (rt_name t) expression (tc_args call) of
                Inr key \<Rightarrow> key
              | Inl _ \<Rightarrow> hashed
         else hashed)"

section \<open>Permission and approval\<close>

definition approved_from_context :: "'w tool_env \<Rightarrow> string \<Rightarrow> string option" where
  "approved_from_context env toolCallID =
     (if toolCallID = [] then None
      else case te_approved env of
        None \<Rightarrow> None
      | Some (approvalID, callID) \<Rightarrow> if callID \<noteq> toolCallID \<or> approvalID = [] then None else Some approvalID)"

definition action_of_call :: "'w registered_tool \<Rightarrow> tool_call \<Rightarrow> action" where
  "action_of_call t call =
     (let m = rt_metadata t in
      \<lparr>ac_kind = (if md_action_kind m = ActionKindText [] then ActionToolCall else md_action_kind m),
       ac_tool_name = rt_name t, ac_tool_call_id = tc_id call, ac_tool_kind = tool_kind_text (md_kind m),
       ac_target = md_target m, ac_effect = normalize_effect (md_effect m),
       ac_idempotency_key = md_idempotency_key m, ac_side_effects = md_side_effects m,
       ac_requires_approval = md_requires_approval m\<rparr>)"

text \<open>The triple is the result, whether the call may go on, and the error.\<close>

type_synonym authorization = "tool_result \<times> bool \<times> go_error option"

definition observe_allowed :: "'w tool_env \<Rightarrow> action \<Rightarrow> string \<Rightarrow> string \<Rightarrow> 'w \<Rightarrow> authorization \<times> 'w" where
  "observe_allowed env a approvalID reason w =
     (case te_observe env \<lparr>au_action = a, au_decision = \<lparr>de_allowed = True, de_reason = reason,
             de_suspended = False, de_approval_id = approvalID\<rparr>, au_err = None\<rparr> w of
        (err, w') \<Rightarrow> ((zero_result, err = None, err), w'))"

definition suspend_for_approval ::
  "'w tool_env \<Rightarrow> 'w registered_tool \<Rightarrow> action \<Rightarrow> tool_call
     \<Rightarrow> (approval_request \<Rightarrow> 'w \<Rightarrow> (go_error + string) \<times> 'w) \<Rightarrow> approval_context \<Rightarrow> 'w \<Rightarrow> authorization \<times> 'w" where
  "suspend_for_approval env t a call gate ap w =
     (let reason = ''tool requires explicit approval'' in
      case gate \<lparr>ar_exec_id = ap_exec_id ap, ar_session_id = ap_session_id ap, ar_trace_id = ap_trace_id ap,
                 ar_tool_name = ac_tool_name a, ar_tool_call_id = ac_tool_call_id a, ar_tool_kind = ac_tool_kind a,
                 ar_effect = ac_effect a, ar_reason = reason, ar_args_hash = tool_intent_idem_key env t call\<rparr> w of
        (Inl recordErr, w1) \<Rightarrow>
          (case te_observe env \<lparr>au_action = a, au_decision = \<lparr>de_allowed = False, de_reason = reason,
                 de_suspended = False, de_approval_id = []\<rparr>, au_err = Some recordErr\<rparr> w1 of
             (observeErr, w2) \<Rightarrow> ((zero_result, False, errors_join [Some recordErr, observeErr]), w2))
      | (Inr approvalID, w1) \<Rightarrow>
          (case te_observe env \<lparr>au_action = a, au_decision = \<lparr>de_allowed = False, de_reason = reason,
                 de_suspended = True, de_approval_id = approvalID\<rparr>, au_err = None\<rparr> w1 of
             (Some observeErr, w2) \<Rightarrow> ((zero_result, False, Some observeErr), w2)
           | (None, w2) \<Rightarrow>
               ((zero_result, False,
                 Some (ErrSuspended approvalID (ap_exec_id ap) (ac_tool_name a) (ac_tool_call_id a))), w2)))"

definition zero_approval_context :: approval_context where
  "zero_approval_context = \<lparr>ap_exec_id = [], ap_session_id = [], ap_trace_id = []\<rparr>"

definition denied_result :: "tool_call \<Rightarrow> string \<Rightarrow> tool_result" where
  "denied_result call reason = error_result call (ErrWrap [] err_denied ('': '' @ reason))"

definition decide_by_policy ::
  "'w tool_env \<Rightarrow> policy_fn \<Rightarrow> action \<Rightarrow> tool_call \<Rightarrow> 'w \<Rightarrow> authorization \<times> 'w" where
  "decide_by_policy env pol a call w =
     (case pol (te_ctx_err env w) a of (d, err) \<Rightarrow>
      case te_observe env \<lparr>au_action = a, au_decision = d, au_err = err\<rparr> w of (observeErr, w') \<Rightarrow>
        if err \<noteq> None then ((zero_result, False, errors_join [err, observeErr]), w')
        else if observeErr \<noteq> None then ((zero_result, False, observeErr), w')
        else if de_allowed d then ((zero_result, True, None), w')
        else if de_suspended d
        then let approvalID = trim_space (de_approval_id d) in
          if approvalID = []
          then ((denied_result call (if trim_space (de_reason d) = []
                   then ''suspended permission decision requires an approval id'' else de_reason d), False, None), w')
          else let ap = (case te_gate env of Some (_, ap) \<Rightarrow> ap | None \<Rightarrow> zero_approval_context)
               in ((zero_result, False,
                    Some (ErrSuspended approvalID (ap_exec_id ap) (ac_tool_name a) (ac_tool_call_id a))), w')
        else ((denied_result call (if trim_space (de_reason d) = [] then err_text err_denied else de_reason d),
               False, None), w'))"

definition executor_policy :: "'w executor \<Rightarrow> policy_fn" where
  "executor_policy ex = (case xr_policy ex of None \<Rightarrow> default_authorize (new_default_policy []) | Some p \<Rightarrow> p)"

definition authorize_tool_call ::
  "'w tool_env \<Rightarrow> 'w executor \<Rightarrow> 'w registered_tool \<Rightarrow> tool_call \<Rightarrow> 'w \<Rightarrow> authorization \<times> 'w" where
  "authorize_tool_call env ex t call w =
     (let a = action_of_call t call in
      if ac_requires_approval a
      then case approved_from_context env (ac_tool_call_id a) of
        Some approvalID \<Rightarrow> observe_allowed env a approvalID ''approval approved'' w
      | None \<Rightarrow>
          (case (case te_resolver env of None \<Rightarrow> None
                 | Some resolve \<Rightarrow> resolve (ac_tool_name a) (tool_intent_idem_key env t call) w) of
             Some approvalID \<Rightarrow> observe_allowed env a approvalID ''approval approved before recovery'' w
           | None \<Rightarrow>
               (case te_gate env of
                  Some (gate, ap) \<Rightarrow> suspend_for_approval env t a call gate ap w
                | None \<Rightarrow> decide_by_policy env (executor_policy ex) a call w))
      else decide_by_policy env (executor_policy ex) a call w)"

section \<open>Reservation\<close>

text \<open>A claim is the key and the execution that holds it, with the store to resolve it in.\<close>

record 'w idem_claim =
  cl_store :: "'w outcome_store"
  cl_key :: string
  cl_exec_id :: string

type_synonym 'w reservation = "bool \<times> 'w idem_claim option \<times> go_error option"

definition outcome_decision ::
  "'w tool_env \<Rightarrow> 'w idem_env \<Rightarrow> 'w outcome_store \<Rightarrow> string \<Rightarrow> idempotency_record option \<Rightarrow> 'w reservation" where
  "outcome_decision env ie os key found =
     (case found of
        None \<Rightarrow> (False, None, Some (ErrText ''idempotency reservation disappeared after conflict''))
      | Some r \<Rightarrow>
          (case ir_outcome r of
             IdempotencySucceeded \<Rightarrow>
               if ir_exec_id r = ie_exec_id ie then (True, None, None)
               else (False, None, Some (ErrText (''idempotency key already succeeded for execution '' @ ir_exec_id r)))
           | IdempotencyPending \<Rightarrow>
               if ir_exec_id r = ie_exec_id ie \<and> te_replay env
               then (False, Some \<lparr>cl_store = os, cl_key = key, cl_exec_id = ie_exec_id ie\<rparr>, None)
               else (False, None, Some (ErrText (''idempotency key is pending for execution '' @ ir_exec_id r)))
           | IdempotencyFailed \<Rightarrow>
               (False, None, Some (ErrText ''failed idempotency reservation was not made available for retry''))
           | IdempotencyText s \<Rightarrow> (False, None, Some (ErrText (''unknown idempotency outcome '' @ quoted s)))))"

definition reserve_tool_key ::
  "'w tool_env \<Rightarrow> 'w registered_tool \<Rightarrow> string \<Rightarrow> 'w \<Rightarrow> 'w reservation \<times> 'w" where
  "reserve_tool_key env t raw w =
     (if normalize_effect (md_effect (rt_metadata t)) \<noteq> EffectIdempotent then ((False, None, None), w)
      else let expression = trim_space (md_idempotency_key (rt_metadata t)) in
        if expression = [] then ((False, None, Some (ErrText ''idempotent tool requires an idempotency key'')), w)
        else case te_idem env of
          None \<Rightarrow> ((False, None, Some (ErrText ''idempotent tool requires an idempotency StateStore'')), w)
        | Some ie \<Rightarrow>
            (case idempotency_reservation_key env (ie_namespace ie) (rt_name t) expression raw of
               Inl err \<Rightarrow> ((False, None, Some err), w)
             | Inr key \<Rightarrow>
                 (case ie_reserve ie key (ie_exec_id ie) w of
                    (Inl err, w1) \<Rightarrow> ((False, None, Some (ErrWrap ''reserve idempotency key: '' err [])), w1)
                  | (Inr (existing, reserved), w1) \<Rightarrow>
                      (case ie_outcomes ie of
                         None \<Rightarrow>
                           if reserved then ((False, None, None), w1)
                           else if existing = ie_exec_id ie then ((True, None, None), w1)
                           else ((False, None, Some (ErrText (''idempotency key already reserved for execution '' @ existing))), w1)
                       | Some os \<Rightarrow>
                           if reserved
                           then ((False, Some \<lparr>cl_store = os, cl_key = key, cl_exec_id = ie_exec_id ie\<rparr>, None), w1)
                           else (case os_lookup os key w1 of
                                   Inl err \<Rightarrow> ((False, None, Some (ErrWrap ''read idempotency outcome: '' err [])), w1)
                                 | Inr found \<Rightarrow> (outcome_decision env ie os key found, w1))))))"

section \<open>Invocation, retries and intents\<close>

type_synonym 'w invocation = "'w \<Rightarrow> (tool_result \<times> go_error option) \<times> 'w"

text \<open>A panic of the body and an error it returns are definite tool failures.\<close>

definition tool_panic :: "string \<Rightarrow> go_error" where
  "tool_panic s = ErrToolFailure (ErrText (''tool panic: '' @ s))"

definition invoke_tool :: "'w tool_env \<Rightarrow> 'w registered_tool \<Rightarrow> tool_call \<Rightarrow> 'w invocation" where
  "invoke_tool env t call w =
     (case rt_body t of
        GoFunc decode fn \<Rightarrow>
          (case fn call w of
             (FuncPanic s, w') \<Rightarrow> ((zero_result, Some (tool_panic s)), w')
           | (FuncError err, w') \<Rightarrow> ((zero_result, Some (ErrToolFailure err)), w')
           | (FuncOk, w') \<Rightarrow> ((success_result call (JStr ''ok''), None), w')
           | (FuncValue v, w') \<Rightarrow> ((success_result call v, None), w')
           | (FuncUnmarshalable err, w') \<Rightarrow> ((zero_result, Some (ErrWrap ''marshal tool result: '' err [])), w'))
      | Handler h \<Rightarrow>
          (case h env call w of
             (HandlerPanic s, w') \<Rightarrow> ((zero_result, Some (tool_panic s)), w')
           | (HandlerError err, w') \<Rightarrow>
               ((zero_result, Some (if as_tool_failure err \<noteq> None then err else ErrToolFailure err)), w')
           | (HandlerResult r, w') \<Rightarrow> ((r, None), w')))"

definition is_transient_error :: "go_error \<Rightarrow> bool" where
  "is_transient_error err = (case as_classified err of Some KTransient \<Rightarrow> True | Some KRateLimit \<Rightarrow> True | _ \<Rightarrow> False)"

definition should_retry_tool_call ::
  "'w tool_env \<Rightarrow> 'w registered_tool \<Rightarrow> go_error option \<Rightarrow> int \<Rightarrow> bool" where
  "should_retry_tool_call env t err attempt =
     (case err of None \<Rightarrow> False
      | Some e \<Rightarrow>
        if te_max_retries env \<le> 0 \<or> te_max_retries env \<le> attempt then False
        else if \<not> is_transient_error e then False
        else normalize_effect (md_effect (rt_metadata t)) \<in> {EffectReadOnly, EffectIdempotent})"

definition wait_tool_retry_backoff :: "'w tool_env \<Rightarrow> int \<Rightarrow> 'w \<Rightarrow> go_error option \<times> 'w" where
  "wait_tool_retry_backoff env attempt w =
     (case te_tool_ctx_err env w of
        Some err \<Rightarrow> (Some err, w)
      | None \<Rightarrow>
          if te_backoff env \<le> 0 then (None, w)
          else te_wait env (i64 (te_backoff env * i64 (2 ^ nat attempt))) w)"

text \<open>The loop of \<open>executeWithRetry\<close>; \<open>Inl\<close> is the error of an observer or of the wait.\<close>

function retry_loop ::
  "'w tool_env \<Rightarrow> 'w registered_tool \<Rightarrow> tool_call \<Rightarrow> 'w invocation \<Rightarrow> int \<Rightarrow> tool_result \<times> go_error option \<Rightarrow> 'w
     \<Rightarrow> (go_error + tool_result \<times> go_error option) \<times> 'w" where
  "retry_loop env t call invoke attempt r w =
     (if \<not> should_retry_tool_call env t (snd r) attempt then (Inr r, w)
      else case te_observe_retry env \<lparr>ta_tool_name = tc_name call, ta_tool_call_id = tc_id call,
          ta_attempt = attempt + 1, ta_max_retries = te_max_retries env,
          ta_effect = normalize_effect (md_effect (rt_metadata t)), ta_err = the (snd r)\<rparr> w of
        (Some err, w1) \<Rightarrow> (Inl err, w1)
      | (None, w1) \<Rightarrow>
          (case wait_tool_retry_backoff env attempt w1 of
             (Some err, w2) \<Rightarrow> (Inl err, w2)
           | (None, w2) \<Rightarrow> (case invoke w2 of (r', w3) \<Rightarrow> retry_loop env t call invoke (attempt + 1) r' w3)))"
  by pat_completeness auto
termination
  by (relation "measure (\<lambda>(env, t, c, inv, a, r, w). nat (te_max_retries env - a))")
    (auto simp: should_retry_tool_call_def split: option.splits if_splits)

declare retry_loop.simps [simp del]

definition execute_with_retry ::
  "'w tool_env \<Rightarrow> 'w registered_tool \<Rightarrow> tool_call \<Rightarrow> 'w invocation \<Rightarrow> 'w invocation" where
  "execute_with_retry env t call invoke w =
     (case invoke w of (r, w1) \<Rightarrow>
      (case retry_loop env t call invoke 0 r w1 of
         (Inl err, w2) \<Rightarrow> ((zero_result, Some err), w2)
       | (Inr (res, None), w2) \<Rightarrow> ((res, None), w2)
       | (Inr (res, Some err), w2) \<Rightarrow>
           (case as_tool_failure err of
              Some inner \<Rightarrow> ((error_result call inner, None), w2)
            | None \<Rightarrow> ((zero_result, Some err), w2))))"

text \<open>The completion to run after a call with an intent, if it has one, or the error of beginning it.\<close>

definition begin_tool_call_intent ::
  "'w tool_env \<Rightarrow> 'w registered_tool \<Rightarrow> tool_call \<Rightarrow> 'w
     \<Rightarrow> (go_error + ('w \<Rightarrow> go_error option \<times> 'w) option) \<times> 'w" where
  "begin_tool_call_intent env t call w =
     (case te_intents env of
        None \<Rightarrow> (Inr None, w)
      | Some ie \<Rightarrow>
          (let eff = normalize_effect (md_effect (rt_metadata t)) in
           if eff = EffectReadOnly then (Inr None, w)
           else case in_begin ie \<lparr>ti_exec_id = in_exec_id ie, ti_tool_call_id = tc_id call,
                  ti_step_index = in_step_index ie, ti_tool_name = rt_name t,
                  ti_effect = (case eff of EffectIdempotent \<Rightarrow> ''idempotent'' | EffectSideEffecting \<Rightarrow> ''side_effecting''
                               | EffectReadOnly \<Rightarrow> ''read_only'' | EffectText s \<Rightarrow> s),
                  ti_idem_key = tool_intent_idem_key env t call, ti_started_at = zero_time, ti_completed_at = zero_time\<rparr> w of
             (Some err, w1) \<Rightarrow> (Inl (ErrWrap ''record tool intent: '' err []), w1)
           | (None, w1) \<Rightarrow>
               (Inr (Some (\<lambda>w2. case in_complete ie (in_exec_id ie) (tc_id call) w2 of
                   (None, w3) \<Rightarrow> (None, w3)
                 | (Some err, w3) \<Rightarrow> (Some (ErrWrap ''complete tool intent: '' err []), w3))), w1)))"

definition execute_with_intent ::
  "'w tool_env \<Rightarrow> 'w registered_tool \<Rightarrow> tool_call \<Rightarrow> 'w invocation \<Rightarrow> 'w invocation" where
  "execute_with_intent env t call invoke w =
     (case begin_tool_call_intent env t call w of
        (Inl err, w1) \<Rightarrow> ((error_result call err, None), w1)
      | (Inr completeIntent, w1) \<Rightarrow>
          (case execute_with_retry env t call invoke w1 of
             ((res, err), w2) \<Rightarrow>
               (case (err, completeIntent) of
                  (None, Some finish) \<Rightarrow>
                    (case finish w2 of
                       (Some completeErr, w3) \<Rightarrow> ((zero_result, Some completeErr), w3)
                     | (None, w3) \<Rightarrow> ((res, None), w3))
                | _ \<Rightarrow> ((res, err), w2))))"

definition settle_idempotency ::
  "'w idem_claim option \<Rightarrow> tool_result \<Rightarrow> go_error option \<Rightarrow> 'w invocation" where
  "settle_idempotency claim res executeErr w =
     (case claim of
        None \<Rightarrow> ((res, executeErr), w)
      | Some c \<Rightarrow>
          (let outcome = (case executeErr of
               None \<Rightarrow> Some (if tr_is_error res then IdempotencyFailed else IdempotencySucceeded)
             | Some err \<Rightarrow>
                 if errors_is err CtxCanceled \<or> errors_is err CtxDeadline then None
                 else if as_tool_failure err = None then None
                 else Some IdempotencyFailed)
           in case outcome of
                None \<Rightarrow> ((res, executeErr), w)
              | Some out \<Rightarrow>
                  (case os_resolve (cl_store c) (cl_key c) (cl_exec_id c) out w of
                     (Some err, w1) \<Rightarrow>
                       ((res, errors_join [executeErr, Some (ErrWrap ''resolve idempotency key: '' err [])]), w1)
                   | (None, w1) \<Rightarrow> ((res, executeErr), w1))))"

section \<open>Execute\<close>

definition run_tool :: "'w tool_env \<Rightarrow> 'w registered_tool \<Rightarrow> tool_call \<Rightarrow> 'w invocation" where
  "run_tool env t call w =
     (case rt_validate t (tc_args call) of
        Some err \<Rightarrow> ((error_result call err, None), w)
      | None \<Rightarrow>
     (case (case rt_body t of GoFunc decode fn \<Rightarrow> decode (tc_args call) | Handler h \<Rightarrow> None) of
        Some err \<Rightarrow> ((error_result call err, None), w)
      | None \<Rightarrow>
     (case reserve_tool_key env t (tc_args call) w of
        ((skip, claim, Some err), w1) \<Rightarrow> ((error_result call err, None), w1)
      | ((skip, claim, None), w1) \<Rightarrow>
          if skip then ((duplicate_idempotent_result call, None), w1)
          else case execute_with_intent env t call (invoke_tool env t call) w1 of
            ((res, executeErr), w2) \<Rightarrow> settle_idempotency claim res executeErr w2)))"

definition execute_tool_call :: "'w tool_env \<Rightarrow> 'w executor \<Rightarrow> tool_call \<Rightarrow> 'w invocation" where
  "execute_tool_call env ex call w =
     (case te_ctx_err env w of
        Some err \<Rightarrow> ((zero_result, Some err), w)
      | None \<Rightarrow>
     (case validate_tool_call call of
        Some err \<Rightarrow> ((zero_result, Some err), w)
      | None \<Rightarrow>
     (case mget (xr_tools ex) (tc_name call) of
        None \<Rightarrow> ((zero_result, Some (ErrWrap [] err_tool_not_found ('': '' @ tc_name call))), w)
      | Some t \<Rightarrow>
          (case authorize_tool_call env ex t call w of
             ((res, allowed, err), w1) \<Rightarrow>
               if err \<noteq> None \<or> \<not> allowed then ((res, err), w1) else run_tool env t call w1))))"

definition can_run_parallel_sub_agent :: "'w executor \<Rightarrow> string \<Rightarrow> bool" where
  "can_run_parallel_sub_agent ex name =
     (case mget (xr_tools ex) name of None \<Rightarrow> False | Some t \<Rightarrow> md_kind (rt_metadata t) = ToolKindSubAgent)"

definition sub_agent_partial_ok :: "'w executor \<Rightarrow> string \<Rightarrow> bool" where
  "sub_agent_partial_ok ex name =
     (case mget (xr_tools ex) name of None \<Rightarrow> False
      | Some t \<Rightarrow> md_kind (rt_metadata t) = ToolKindSubAgent \<and> md_partial_ok (rt_metadata t))"

definition allows_provider_retry_after_tool_call :: "'w executor \<Rightarrow> string \<Rightarrow> bool" where
  "allows_provider_retry_after_tool_call ex name =
     (case mget (xr_tools ex) name of None \<Rightarrow> False
      | Some t \<Rightarrow> normalize_effect (md_effect (rt_metadata t)) \<in> {EffectReadOnly, EffectIdempotent})"

end
