(* ===== verification/Plans.thy ===== *)
theory Plans
  imports Tool_Executor
begin

text \<open>
  \<open>internal/runtime/plan.go\<close>, the compiled plans that the runtime executes, and the identity of a plan
  in \<open>durable_runs.go\<close>: its key, the stream of length-prefixed fields that is hashed, and the
  idempotency namespaces derived from it. A recursive field of \<open>Step\<close> is an argument of its
  constructor, the others are the record \<open>step_config\<close>. sha256 (as hex), the shortest text of a float
  and the display form of a URI are parameters. A Go type is the pair of its package path and its name.
\<close>

section \<open>Plans\<close>

record trigger =
  tg_kind :: string
  tg_method :: string
  tg_path :: string
  tg_expr :: string
  tg_value :: string
  tg_uri :: string
  tg_worker_pool :: int
  tg_idempotency_header :: string
  tg_signature_env :: string
  tg_signature_header :: string
  tg_dlq_target :: string
  tg_max_attempts :: int
  tg_max_in_flight :: int
  tg_ack_policy :: string

abbreviation "trigger_http \<equiv> ''http''"
abbreviation "trigger_cron \<equiv> ''cron''"
abbreviation "trigger_webhook \<equiv> ''webhook''"
abbreviation "trigger_stream \<equiv> ''stream''"

abbreviation "step_pipe \<equiv> ''pipe''"
abbreviation "step_parallel \<equiv> ''parallel''"
abbreviation "step_map \<equiv> ''map''"

record plan_schema =
  ps_name :: string
  ps_type :: "(string \<times> string) option"
  ps_json :: string

record step_retry =
  sy_provider_retries :: int
  sy_backoff :: duration

text \<open>The function of a tool is what reflection makes of it, or the error for a wrong signature.\<close>

record 'w runtime_tool =
  tl_name :: string
  tl_description :: string
  tl_input_schema :: string
  tl_argument_name :: string
  tl_go_func :: "(go_error + ('w tool_body \<times> (string \<Rightarrow> go_error option))) option"
  tl_effect :: effect
  tl_idempotency_key :: string
  tl_side_effects :: "string list"
  tl_requires_approval :: bool
  tl_timeout :: duration

record bash_tool =
  bt_name :: string
  bt_sandbox_root :: string
  bt_allowed_env :: "string list"
  bt_timeout :: duration
  bt_max_output_bytes :: int
  bt_unsafe_host :: bool

record 'w step_config =
  sp_kind :: string
  sp_goal :: string
  sp_model :: string
  sp_fallback :: "string list"
  sp_tools :: "'w runtime_tool list"
  sp_bash :: "bash_tool list"
  sp_skills :: "string list"
  sp_mcp_servers :: "string list"
  sp_concurrency :: int
  sp_partial_ok :: bool
  sp_result_schema :: "plan_schema option"
  sp_retry :: "step_retry option"
  sp_budget :: budget
  sp_no_cache :: bool
  sp_sequential_tools :: bool

datatype 'w step =
    Step (st_config: "'w step_config") (st_sub_agents: "'w sub_agent list")
      (st_branches: "'w pipeline list") (st_map_pipeline: "'w pipeline")
and 'w sub_agent =
    SubAgent (sa_name: string) (sa_pipeline: "'w pipeline") (sa_max_parallel: int) (sa_partial_ok: bool)
and 'w pipeline = Pipeline (pl_steps: "'w step list")

abbreviation "terminal_reply \<equiv> ''reply''"
abbreviation "terminal_push \<equiv> ''push''"
abbreviation "terminal_sink \<equiv> ''sink''"

record terminal =
  tm_kind :: string
  tm_async :: bool
  tm_sse :: bool
  tm_result_schema :: "plan_schema option"
  tm_sink_log :: bool
  tm_sink_file_path :: string
  tm_push_webhook_url :: string
  tm_push_queue_uri :: string

record 'w plan =
  pn_trigger :: trigger
  pn_steps :: "'w step list"
  pn_terminal :: terminal

section \<open>The identity of a plan\<close>

definition durable_plan_key :: "(string \<Rightarrow> string) \<Rightarrow> 'w plan \<Rightarrow> string" where
  "durable_plan_key displayURI p =
     (let t = pn_trigger p; k = tg_kind t in
      if k = trigger_http \<or> k = trigger_webhook then k @ '':'' @ tg_method t @ '' '' @ tg_path t
      else if k = trigger_cron then k @ '':'' @ tg_expr t
      else if k = trigger_stream then k @ '':'' @ displayURI (tg_uri t)
      else k)"

subsection \<open>The fields that are hashed\<close>

definition bool_text :: "bool \<Rightarrow> string" where
  "bool_text b = (if b then ''true'' else ''false'')"

definition count_text :: "'a list \<Rightarrow> string" where
  "count_text xs = nat_text (length xs)"

text \<open>A label, the length of a list and the fields of its elements.\<close>

definition counted_fields :: "string \<Rightarrow> ('a \<Rightarrow> string list) \<Rightarrow> 'a list \<Rightarrow> string list" where
  "counted_fields label enc xs = [label, count_text xs] @ concat (map enc xs)"

definition string_fields :: "string \<Rightarrow> string list \<Rightarrow> string list" where
  "string_fields label xs = counted_fields label (\<lambda>x. [x]) xs"

definition schema_type_names :: "plan_schema \<Rightarrow> string \<times> string" where
  "schema_type_names s = (case ps_type s of None \<Rightarrow> ([], []) | Some t \<Rightarrow> t)"

definition schema_fields :: "plan_schema option \<Rightarrow> string list" where
  "schema_fields s = (case s of
       None \<Rightarrow> [''schema'', ''absent'']
     | Some s \<Rightarrow> [''schema'', ''present'', ps_name s, fst (schema_type_names s), snd (schema_type_names s), ps_json s])"

definition tool_fields :: "'w runtime_tool \<Rightarrow> string list" where
  "tool_fields t = [''tool'', tl_name t, tl_description t, tl_input_schema t, tl_argument_name t,
     effect_text (tl_effect t), tl_idempotency_key t, bool_text (tl_requires_approval t), int_text (tl_timeout t)]
     @ string_fields ''side-effects'' (tl_side_effects t)"

definition bash_fields :: "bash_tool \<Rightarrow> string list" where
  "bash_fields b = [''bash'', bt_name b, bt_sandbox_root b, int_text (bt_timeout b), int_text (bt_max_output_bytes b),
     bool_text (bt_unsafe_host b)] @ string_fields ''allowed-env'' (bt_allowed_env b)"

text \<open>The head of a step, up to its sub-agents, and what stands between these and its branches.\<close>

definition step_head_fields :: "nat \<Rightarrow> nat \<Rightarrow> 'w step_config \<Rightarrow> string list" where
  "step_head_fields depth index c =
     [''step'', nat_text depth, nat_text index, sp_kind c, sp_goal c, sp_model c, int_text (sp_concurrency c),
      bool_text (sp_partial_ok c), bool_text (sp_no_cache c), bool_text (sp_sequential_tools c)]
     @ string_fields ''fallback'' (sp_fallback c)
     @ counted_fields ''tools'' tool_fields (sp_tools c)
     @ counted_fields ''bash-tools'' bash_fields (sp_bash c)
     @ counted_fields ''skills'' (\<lambda>n. [''skill'', n]) (sp_skills c)
     @ counted_fields ''mcp-servers'' (\<lambda>n. [''mcp'', n]) (sp_mcp_servers c)"

definition step_limit_fields :: "(rat \<Rightarrow> string) \<Rightarrow> 'w step_config \<Rightarrow> string list" where
  "step_limit_fields ft c =
     schema_fields (sp_result_schema c)
     @ (case sp_retry c of
          None \<Rightarrow> [''retry'', ''absent'']
        | Some r \<Rightarrow> [''retry'', ''present'', int_text (sy_provider_retries r), int_text (sy_backoff r)])
     @ [''budget'', int_text (max_iterations (sp_budget c)), int_text (max_tokens (sp_budget c)),
        ft (max_cost_usd (sp_budget c)), int_text (max_wall_clock (sp_budget c))]"

definition steps_count_fields :: "nat \<Rightarrow> 'w step list \<Rightarrow> string list" where
  "steps_count_fields depth steps = [''steps'', nat_text depth, count_text steps]"

text \<open>The loops of \<open>writePlanHashSteps\<close> over the steps, the sub-agents and the branches.\<close>

fun step_fields :: "(rat \<Rightarrow> string) \<Rightarrow> nat \<Rightarrow> nat \<Rightarrow> 'w step list \<Rightarrow> string list"
  and sub_agent_fields :: "(rat \<Rightarrow> string) \<Rightarrow> nat \<Rightarrow> 'w sub_agent list \<Rightarrow> string list"
  and branch_fields :: "(rat \<Rightarrow> string) \<Rightarrow> nat \<Rightarrow> 'w pipeline list \<Rightarrow> string list" where
  "step_fields ft d i [] = []"
| "step_fields ft d i (Step c sas bs (Pipeline m) # ss) =
     step_head_fields d i c
     @ [''subagents'', count_text sas] @ sub_agent_fields ft d sas
     @ step_limit_fields ft c
     @ [''branches'', count_text bs] @ branch_fields ft d bs
     @ [''map''] @ steps_count_fields (d + 1) m @ step_fields ft (d + 1) 0 m
     @ step_fields ft d (i + 1) ss"
| "sub_agent_fields ft d [] = []"
| "sub_agent_fields ft d (SubAgent n (Pipeline p) mp po # sas) =
     [''subagent'', n, int_text mp, bool_text po] @ steps_count_fields (d + 1) p @ step_fields ft (d + 1) 0 p
     @ sub_agent_fields ft d sas"
| "branch_fields ft d [] = []"
| "branch_fields ft d (Pipeline p # bs) =
     [''branch''] @ steps_count_fields (d + 1) p @ step_fields ft (d + 1) 0 p @ branch_fields ft d bs"

definition steps_fields :: "(rat \<Rightarrow> string) \<Rightarrow> nat \<Rightarrow> 'w step list \<Rightarrow> string list" where
  "steps_fields ft d steps = steps_count_fields d steps @ step_fields ft d 0 steps"

definition trigger_fields :: "trigger \<Rightarrow> string list" where
  "trigger_fields t = [''trigger'', tg_kind t, tg_method t, tg_path t, tg_expr t, tg_value t, tg_uri t,
     int_text (tg_worker_pool t), tg_idempotency_header t, tg_signature_env t, tg_signature_header t, tg_dlq_target t,
     int_text (tg_max_attempts t), int_text (tg_max_in_flight t), tg_ack_policy t]"

definition terminal_fields :: "terminal \<Rightarrow> string list" where
  "terminal_fields t = [''terminal'', tm_kind t, bool_text (tm_async t), bool_text (tm_sse t), bool_text (tm_sink_log t),
     tm_sink_file_path t, tm_push_webhook_url t, tm_push_queue_uri t] @ schema_fields (tm_result_schema t)"

definition plan_fields :: "(rat \<Rightarrow> string) \<Rightarrow> string \<Rightarrow> 'w plan \<Rightarrow> string list" where
  "plan_fields ft build p = [''ouvrier-durable-plan'', ''v3'', ''worker-build'', build]
     @ trigger_fields (pn_trigger p) @ steps_fields ft 0 (pn_steps p) @ terminal_fields (pn_terminal p)"

subsection \<open>The bytes\<close>

text \<open>\<open>binary.BigEndian.PutUint64\<close> of the length, and the field.\<close>

definition big_endian64 :: "nat \<Rightarrow> string" where
  "big_endian64 n = map (\<lambda>i. char_of (n div 256 ^ (7 - i) mod 256)) [0..<8]"

definition field_bytes :: "string list \<Rightarrow> string" where
  "field_bytes fs = concat (map (\<lambda>f. big_endian64 (length f mod 2 ^ 64) @ f) fs)"

definition durable_plan_hash :: "(string \<Rightarrow> string) \<Rightarrow> (rat \<Rightarrow> string) \<Rightarrow> string \<Rightarrow> 'w plan \<Rightarrow> string" where
  "durable_plan_hash sha ft build p = sha (field_bytes (plan_fields ft build p))"

definition plan_namespace :: "(string \<Rightarrow> string) \<Rightarrow> (string \<Rightarrow> string) \<Rightarrow> 'w plan \<Rightarrow> string" where
  "plan_namespace sha displayURI p =
     ''pipe:'' @ sha (field_bytes [''ouvrier-tool-idempotency'', ''v1'', durable_plan_key displayURI p])"

definition step_namespace_fields :: "(rat \<Rightarrow> string) \<Rightarrow> string \<Rightarrow> int \<Rightarrow> 'w step \<Rightarrow> string list" where
  "step_namespace_fields ft parent index s =
     [''ouvrier-tool-idempotency-step'', ''v1'', parent, int_text index] @ steps_fields ft 0 [s]"

definition step_namespace :: "(string \<Rightarrow> string) \<Rightarrow> (rat \<Rightarrow> string) \<Rightarrow> string \<Rightarrow> int \<Rightarrow> 'w step \<Rightarrow> string" where
  "step_namespace sha ft parent index s = ''pipe:'' @ sha (field_bytes (step_namespace_fields ft parent index s))"

definition child_namespace :: "(string \<Rightarrow> string) \<Rightarrow> string \<Rightarrow> string \<Rightarrow> nat \<Rightarrow> string" where
  "child_namespace sha parent kind index =
     ''pipe:'' @ sha (field_bytes [''ouvrier-tool-idempotency-child'', ''v1'', parent, kind, nat_text index])"

end
