(* ===== verification/Cron_Schedule.thy ===== *)
theory Cron_Schedule
  imports Go_Strings Go_Time
begin

text \<open>
  \<open>runtime_cron.go\<close>: the parser of cron expressions and the computation of the next fire.

  The parser's errors are the constructors of \<open>cron_error\<close>, one per message of the source.
  The loop of \<open>addCronFieldPart\<close> adds the step to a 64-bit \<open>int\<close>, which can wrap, so it
  is a \<open>partial_function\<close> over \<open>i64\<close> and the parser returns an option: \<open>None\<close> would be
  a parser that does not return, and \<open>parse_cron_schedule_returns\<close> shows that this never
  happens. \<open>time.ParseDuration\<close>, which reads the interval of \<open>@every\<close>, is the parameter
  \<open>parse_duration\<close>.
\<close>

section \<open>Schedules\<close>

record cron_field =
  cf_values :: "int set"
  cf_all :: bool

record field_schedule =
  fs_minute :: cron_field
  fs_hour :: cron_field
  fs_day :: cron_field
  fs_month :: cron_field
  fs_dow :: cron_field

text \<open>The implementations of the interface \<open>cronSchedule\<close>.\<close>

datatype cron_schedule =
    IntervalSchedule duration
  | FieldSchedule field_schedule
  | EpochAligned duration

definition cron_field_matches :: "cron_field \<Rightarrow> int \<Rightarrow> bool" where
  "cron_field_matches f v = (if cf_all f then True else v \<in> cf_values f)"

definition cron_field_restricted :: "cron_field \<Rightarrow> bool" where
  "cron_field_restricted f = (\<not> cf_all f)"

definition sched_matches :: "field_schedule \<Rightarrow> go_time \<Rightarrow> bool" where
  "sched_matches s t =
     (if \<not> cron_field_matches (fs_minute s) (time_minute t)
        \<or> \<not> cron_field_matches (fs_hour s) (time_hour t)
        \<or> \<not> cron_field_matches (fs_month s) (time_month t) then False
      else let dayMatches = cron_field_matches (fs_day s) (time_day t);
               dowMatches = cron_field_matches (fs_dow s) (time_weekday t)
           in if cron_field_restricted (fs_day s) \<and> cron_field_restricted (fs_dow s)
              then dayMatches \<or> dowMatches else dayMatches \<and> dowMatches)"

function cron_scan :: "field_schedule \<Rightarrow> go_time \<Rightarrow> go_time \<Rightarrow> go_time" where
  "cron_scan s candidate deadline =
     (if candidate \<le> deadline
      then if sched_matches s candidate then candidate
           else cron_scan s (candidate + minute_ns) deadline
      else zero_time)"
  by pat_completeness auto
termination
  by (relation "measure (\<lambda>(s, c, d). nat (d + 1 - c))") (auto simp: minute_ns_def)

declare cron_scan.simps [simp del]

definition field_next :: "field_schedule \<Rightarrow> go_time \<Rightarrow> go_time" where
  "field_next s after =
     (let candidate = truncate_minute after + minute_ns
      in cron_scan s candidate (add_years candidate 5))"

definition interval_next :: "duration \<Rightarrow> go_time \<Rightarrow> go_time" where
  "interval_next interval after = after + interval"

text \<open>
  \<open>epochAlignedCronSchedule.Next\<close>: floor division of the Unix nanoseconds by the period,
  computed as Go does, by the truncated quotient and a correction, on wrapping 64-bit integers.
\<close>

definition epoch_next :: "duration \<Rightarrow> go_time \<Rightarrow> go_time" where
  "epoch_next period after =
     (let elapsed = i64 (after - unix_epoch);
          slot = go_quot elapsed period;
          slot = (if elapsed < 0 \<and> go_rem elapsed period \<noteq> 0 then slot - 1 else slot)
      in unix_epoch + i64 (i64 (slot + 1) * period))"

fun schedule_next :: "cron_schedule \<Rightarrow> go_time \<Rightarrow> go_time" where
  "schedule_next (IntervalSchedule d) t = interval_next d t"
| "schedule_next (FieldSchedule s) t = field_next s t"
| "schedule_next (EpochAligned d) t = epoch_next d t"

fun lease_aligned_schedule :: "cron_schedule \<Rightarrow> cron_schedule" where
  "lease_aligned_schedule (IntervalSchedule d) = EpochAligned d"
| "lease_aligned_schedule s = s"

section \<open>The parser\<close>

datatype cron_error =
    ExpressionRequired
  | EveryNotPositive
  | NotFiveFields
  | InField string cron_error
  | FieldIsRequired
  | FieldHasNoValues
  | EmptyListItem
  | InvalidStep string
  | InvalidValue string
  | ValueOutside int int int
  | RangeInverted int int

definition parse_cron_field_value :: "string \<Rightarrow> int \<Rightarrow> int \<Rightarrow> cron_error + int" where
  "parse_cron_field_value raw lo hi =
     (case go_atoi (trim_space raw) of
        None \<Rightarrow> Inl (InvalidValue raw)
      | Some value \<Rightarrow> if value < lo \<or> hi < value then Inl (ValueOutside value lo hi) else Inr value)"

definition cron_field_range :: "string \<Rightarrow> int \<Rightarrow> int \<Rightarrow> cron_error + (int \<times> int)" where
  "cron_field_range raw lo hi =
     (if raw = ''*'' then Inr (lo, hi)
      else case go_cut raw ''-'' of (left, right, hasRange) \<Rightarrow>
        if \<not> hasRange
        then (case parse_cron_field_value left lo hi of Inl e \<Rightarrow> Inl e | Inr value \<Rightarrow> Inr (value, value))
        else (case parse_cron_field_value left lo hi of Inl e \<Rightarrow> Inl e | Inr start \<Rightarrow>
             (case parse_cron_field_value right lo hi of Inl e \<Rightarrow> Inl e | Inr end' \<Rightarrow>
                if end' < start then Inl (RangeInverted start end') else Inr (start, end'))))"

definition apply_normalize :: "(int \<Rightarrow> int) option \<Rightarrow> int \<Rightarrow> int" where
  "apply_normalize nz v = (case nz of None \<Rightarrow> v | Some f \<Rightarrow> f v)"

partial_function (option) step_loop ::
  "(int \<Rightarrow> int) option \<Rightarrow> int \<Rightarrow> int \<Rightarrow> int \<Rightarrow> int set \<Rightarrow> int set option" where
  "step_loop nz end' step v values =
     (if v \<le> end'
      then step_loop nz end' step (i64 (v + step)) (insert (apply_normalize nz v) values)
      else Some values)"

definition add_cron_field_part ::
  "int set \<Rightarrow> string \<Rightarrow> int \<Rightarrow> int \<Rightarrow> (int \<Rightarrow> int) option \<Rightarrow> (cron_error + int set) option" where
  "add_cron_field_part values part lo hi nz =
     (if part = [] then Some (Inl EmptyListItem)
      else case go_cut part ''/'' of (rangePart, stepPart, hasStep) \<Rightarrow>
        (case (if hasStep
               then (case go_atoi stepPart of
                       None \<Rightarrow> Inl (InvalidStep stepPart)
                     | Some parsed \<Rightarrow> if parsed \<le> 0 then Inl (InvalidStep stepPart) else Inr parsed)
               else Inr 1) of
           Inl e \<Rightarrow> Some (Inl e)
         | Inr step \<Rightarrow>
             (case cron_field_range rangePart lo hi of
                Inl e \<Rightarrow> Some (Inl e)
              | Inr (start, end') \<Rightarrow> map_option Inr (step_loop nz end' step start values))))"

fun add_cron_field_parts ::
  "int set \<Rightarrow> string list \<Rightarrow> int \<Rightarrow> int \<Rightarrow> (int \<Rightarrow> int) option \<Rightarrow> (cron_error + int set) option" where
  "add_cron_field_parts values [] lo hi nz = Some (Inr values)"
| "add_cron_field_parts values (part # parts) lo hi nz =
     (case add_cron_field_part values (trim_space part) lo hi nz of
        None \<Rightarrow> None
      | Some (Inl e) \<Rightarrow> Some (Inl e)
      | Some (Inr values') \<Rightarrow> add_cron_field_parts values' parts lo hi nz)"

definition parse_cron_field ::
  "string \<Rightarrow> int \<Rightarrow> int \<Rightarrow> (int \<Rightarrow> int) option \<Rightarrow> (cron_error + cron_field) option" where
  "parse_cron_field raw lo hi nz =
     (let raw = trim_space raw in
      if raw = [] then Some (Inl FieldIsRequired)
      else if raw = ''*'' then Some (Inr \<lparr>cf_values = {}, cf_all = True\<rparr>)
      else case add_cron_field_parts {} (split_on (CHR '','') raw) lo hi nz of
             None \<Rightarrow> None
           | Some (Inl e) \<Rightarrow> Some (Inl e)
           | Some (Inr values) \<Rightarrow>
               if values = {} then Some (Inl FieldHasNoValues)
               else Some (Inr \<lparr>cf_values = values, cf_all = False\<rparr>))"

definition sunday_seven :: "int \<Rightarrow> int" where
  "sunday_seven value = (if value = 7 then 0 else value)"

text \<open>A field that fails names itself in the error; a field that parses hands on.\<close>

definition with_field ::
  "string \<Rightarrow> (cron_error + cron_field) option \<Rightarrow> (cron_field \<Rightarrow> (cron_error + 'a) option)
     \<Rightarrow> (cron_error + 'a) option" where
  "with_field name r k = (case r of None \<Rightarrow> None | Some (Inl e) \<Rightarrow> Some (Inl (InField name e)) | Some (Inr f) \<Rightarrow> k f)"

definition parse_cron_schedule ::
  "(string \<Rightarrow> duration option) \<Rightarrow> string \<Rightarrow> (cron_error + cron_schedule) option" where
  "parse_cron_schedule parse_duration expr =
     (let expr = trim_space expr in
      if expr = [] then Some (Inl ExpressionRequired)
      else if has_prefix expr ''@every ''
      then (case parse_duration (trim_space (drop (length ''@every '') expr)) of
              None \<Rightarrow> Some (Inl EveryNotPositive)
            | Some interval \<Rightarrow> if interval \<le> 0 then Some (Inl EveryNotPositive)
                              else Some (Inr (IntervalSchedule interval)))
      else let fields = go_fields expr in
        if length fields \<noteq> 5 then Some (Inl NotFiveFields)
        else with_field ''minute'' (parse_cron_field (fields ! 0) 0 59 None) (\<lambda>minute.
             with_field ''hour'' (parse_cron_field (fields ! 1) 0 23 None) (\<lambda>hour.
             with_field ''day-of-month'' (parse_cron_field (fields ! 2) 1 31 None) (\<lambda>day.
             with_field ''month'' (parse_cron_field (fields ! 3) 1 12 None) (\<lambda>month.
             with_field ''day-of-week'' (parse_cron_field (fields ! 4) 0 7 (Some sunday_seven)) (\<lambda>dow.
               Some (Inr (FieldSchedule
                 \<lparr>fs_minute = minute, fs_hour = hour, fs_day = day, fs_month = month, fs_dow = dow\<rparr>))))))))"

section \<open>The step loop\<close>

lemma step_loop_done: "\<not> v \<le> e \<Longrightarrow> step_loop nz e s v vs = Some vs"
  by (simp add: step_loop.simps)

lemma step_loop_step:
  "v \<le> e \<Longrightarrow> step_loop nz e s v vs = step_loop nz e s (i64 (v + s)) (insert (apply_normalize nz v) vs)"
  by (subst step_loop.simps) simp

text \<open>Without wrap-around the loop adds exactly the arithmetic progression up to the end.\<close>

lemma step_loop_exact:
  assumes "0 < s" "- (2 ^ 63) \<le> v" "e + s < 2 ^ 63"
  shows "step_loop nz e s v vs =
    Some (vs \<union> apply_normalize nz ` {x. \<exists>k::nat. x = v + int k * s \<and> x \<le> e})"
  using assms(2)
proof (induction "nat (e + 1 - v)" arbitrary: v vs rule: less_induct)
  case less
  show ?case
  proof (cases "v \<le> e")
    case False
    have "\<not> v + int k * s \<le> e" for k
      using False assms(1) by (smt (verit) mult_nonneg_nonneg of_nat_0_le_iff)
    with False show ?thesis by (auto simp: step_loop_done)
  next
    case True
    have small: "i64 (v + s) = v + s" using less.prems True assms by (intro i64_small) auto
    have "{x. \<exists>k::nat. x = v + int k * s \<and> x \<le> e} =
      insert v {x. \<exists>k::nat. x = v + s + int k * s \<and> x \<le> e}" (is "?L = insert v ?R")
    proof
      show "?L \<subseteq> insert v ?R"
      proof
        fix x assume "x \<in> ?L"
        then obtain k :: nat where k: "x = v + int k * s" "x \<le> e" by blast
        then show "x \<in> insert v ?R"
          by (cases k) (auto simp: algebra_simps)
      qed
      show "insert v ?R \<subseteq> ?L"
      proof
        fix x assume "x \<in> insert v ?R"
        then consider "x = v" | k :: nat where "x = v + s + int k * s" "x \<le> e" by blast
        then show "x \<in> ?L"
        proof cases
          case 1
          with True show ?thesis by (auto intro: exI [of _ 0])
        next
          case (2 k)
          then have "x = v + int (Suc k) * s" by (simp add: algebra_simps)
          with 2 show ?thesis by blast
        qed
      qed
    qed
    moreover have "step_loop nz e s (v + s) (insert (apply_normalize nz v) vs) =
      Some (insert (apply_normalize nz v) vs \<union> apply_normalize nz ` ?R)"
      using less.prems True assms(1) by (intro less.hyps) auto
    ultimately show ?thesis
      using True by (simp add: step_loop_step small)
  qed
qed

text \<open>
  With wrap-around it still returns: adding a step near \<open>2 ^ 63\<close> twice moves the value down, so
  the loop ends once no further addition wraps.
\<close>

lemma step_loop_wraps_returns:
  assumes "e \<le> 59" "2 ^ 63 - 60 \<le> s" "s < 2 ^ 63" "-200 \<le> v" "v \<le> 59"
  shows "\<exists>r. step_loop nz e s v vs = Some r"
  using assms(4,5)
proof (induction "nat (v + 200)" arbitrary: v vs rule: less_induct)
  case less
  show ?case
  proof (cases "v \<le> e")
    case False
    then show ?thesis by (simp add: step_loop_done)
  next
    case le: True
    show ?thesis
    proof (cases "v + s < 2 ^ 63")
      case True
      then have "i64 (v + s) = v + s" using less.prems assms by (intro i64_small) auto
      moreover have "\<not> v + s \<le> e" using less.prems assms by simp
      ultimately show ?thesis using le by (simp add: step_loop_step step_loop_done)
    next
      case False
      define w where "w = v + s - 2 ^ 64"
      have w: "i64 (v + s) = w"
        unfolding w_def using False less.prems assms by (intro i64_wrap) simp_all
      have "w \<le> e" using False less.prems le assms by (simp add: w_def)
      moreover define u where "u = w + s"
      have u: "i64 (w + s) = u"
        unfolding u_def using False less.prems assms by (intro i64_small) (simp_all add: w_def)
      ultimately have "step_loop nz e s v vs =
        step_loop nz e s u (insert (apply_normalize nz w) (insert (apply_normalize nz v) vs))"
        using le by (simp add: step_loop_step w u)
      moreover have "u < v" "-200 \<le> u" "u \<le> 59"
        using False less.prems assms by (simp_all add: u_def w_def)
      ultimately show ?thesis
        using less.prems(1) by (auto intro!: less.hyps)
    qed
  qed
qed

lemma step_loop_returns:
  assumes "0 \<le> v" "v \<le> 59" "e \<le> 59" "0 < s" "s < 2 ^ 63"
  shows "\<exists>r. step_loop nz e s v vs = Some r"
proof (cases "2 ^ 63 - 60 \<le> s")
  case True
  with assms show ?thesis by (intro step_loop_wraps_returns) auto
next
  case False
  with assms show ?thesis by (subst step_loop_exact) auto
qed

section \<open>What the parser returns\<close>

lemma parse_cron_field_value_range:
  "parse_cron_field_value raw lo hi = Inr v \<Longrightarrow> lo \<le> v \<and> v \<le> hi"
  by (auto simp: parse_cron_field_value_def split: option.splits if_splits)

lemma cron_field_range_bounds:
  assumes "cron_field_range raw lo hi = Inr (start, e)" "lo \<le> hi"
  shows "lo \<le> start \<and> start \<le> e \<and> e \<le> hi"
  using assms unfolding cron_field_range_def
  by (auto split: prod.splits sum.splits if_splits dest!: parse_cron_field_value_range)

lemma go_atoi_range: "go_atoi s = Some v \<Longrightarrow> - (2 ^ 63) \<le> v \<and> v < 2 ^ 63"
  by (auto simp: go_atoi_def Let_def split: option.splits if_splits prod.splits)

lemma add_cron_field_part_returns:
  assumes "0 \<le> lo" "lo \<le> hi" "hi \<le> 59"
  shows "\<exists>r. add_cron_field_part vs part lo hi nz = Some r"
proof -
  have "\<exists>r. step_loop nz e s v vs = Some r"
    if "cron_field_range raw lo hi = Inr (v, e)" "0 < s" "s < 2 ^ 63" for raw e s v
    using cron_field_range_bounds [OF that(1) assms(2)] that assms by (intro step_loop_returns) auto
  then show ?thesis
    by (force simp: add_cron_field_part_def split: prod.splits option.splits sum.splits
      dest: go_atoi_range)
qed

lemma add_cron_field_parts_returns:
  assumes "0 \<le> lo" "lo \<le> hi" "hi \<le> 59"
  shows "\<exists>r. add_cron_field_parts vs parts lo hi nz = Some r"
proof (induction parts arbitrary: vs)
  case (Cons part parts)
  obtain r where "add_cron_field_part vs (trim_space part) lo hi nz = Some r"
    using add_cron_field_part_returns [OF assms] by blast
  with Cons show ?case by (cases r) auto
qed simp

lemma parse_cron_field_returns:
  assumes "0 \<le> lo" "lo \<le> hi" "hi \<le> 59"
  shows "\<exists>r. parse_cron_field raw lo hi nz = Some r"
proof -
  obtain r where "add_cron_field_parts {} (split_on (CHR '','') (trim_space raw)) lo hi nz = Some r"
    using add_cron_field_parts_returns [OF assms] by blast
  then show ?thesis by (auto simp: parse_cron_field_def Let_def split: sum.splits)
qed

lemma with_field_returns:
  assumes "\<exists>r. p = Some r" "\<And>f. \<exists>r. k f = Some r"
  shows "\<exists>r. with_field name p k = Some r"
  using assms by (force simp: with_field_def split: sum.splits)

text \<open>
  The parser of cron expressions returns, a schedule or an error, on every expression: although
  the step of a field may be as large as the machine allows and the loop that adds it wraps
  around, no expression makes the loop run forever.
\<close>

theorem parse_cron_schedule_returns:
  "\<exists>r. parse_cron_schedule parse_duration expr = Some r"
proof -
  have "\<exists>r. with_field ''minute'' (parse_cron_field m 0 59 None) (\<lambda>minute.
     with_field ''hour'' (parse_cron_field h 0 23 None) (\<lambda>hour.
     with_field ''day-of-month'' (parse_cron_field d 1 31 None) (\<lambda>day.
     with_field ''month'' (parse_cron_field mo 1 12 None) (\<lambda>month.
     with_field ''day-of-week'' (parse_cron_field w 0 7 (Some sunday_seven)) (\<lambda>dow.
       Some (k minute hour day month dow)))))) = Some r" for m h d mo w
       and k :: "cron_field \<Rightarrow> cron_field \<Rightarrow> cron_field \<Rightarrow> cron_field \<Rightarrow> cron_field \<Rightarrow> cron_error + cron_schedule"
    by (intro with_field_returns parse_cron_field_returns) simp_all
  then show ?thesis
    unfolding parse_cron_schedule_def Let_def by (simp split: option.splits)
qed

text \<open>
  The step a part of a field asks for, and what the part adds to the field when the step cannot
  wrap: the arithmetic progression between the bounds of its range, normalised.
\<close>

definition part_step :: "string \<Rightarrow> int option" where
  "part_step part = (case go_cut part ''/'' of (r, st, hasStep) \<Rightarrow>
     if hasStep then (case go_atoi st of None \<Rightarrow> None | Some n \<Rightarrow> if n \<le> 0 then None else Some n)
     else Some 1)"

lemma add_cron_field_part_exact:
  assumes "add_cron_field_part vs part lo hi nz = Some (Inr vs')" "0 \<le> lo" "lo \<le> hi"
    "part_step part = Some step" "hi + step < 2 ^ 63"
  shows "\<exists>start e. cron_field_range (fst (go_cut part ''/'')) lo hi = Inr (start, e)
    \<and> lo \<le> start \<and> start \<le> e \<and> e \<le> hi
    \<and> vs' = vs \<union> apply_normalize nz ` {x. \<exists>k::nat. x = start + int k * step \<and> x \<le> e}"
proof -
  obtain r st b where cut: "go_cut part ''/'' = (r, st, b)" by (cases "go_cut part ''/''") auto
  have part: "part \<noteq> []" and pos: "0 < step"
    using assms by (auto simp: add_cron_field_part_def part_step_def split: prod.splits option.splits if_splits)
  obtain start e where range: "cron_field_range r lo hi = Inr (start, e)"
    and loop: "step_loop nz e step start vs = Some vs'"
    using assms(1,4) part cut
    by (auto simp: add_cron_field_part_def part_step_def
      split: prod.splits option.splits sum.splits if_splits)
  have b: "lo \<le> start \<and> start \<le> e \<and> e \<le> hi" by (rule cron_field_range_bounds [OF range assms(3)])
  have "vs' = vs \<union> apply_normalize nz ` {x. \<exists>k::nat. x = start + int k * step \<and> x \<le> e}"
    using loop step_loop_exact [of step start e nz vs] pos b assms(2,5) by simp
  with range cut b show ?thesis by auto
qed

lemma add_cron_field_parts_bounded:
  assumes "add_cron_field_parts vs parts lo hi nz = Some (Inr vs')" "0 \<le> lo" "lo \<le> hi"
    "\<forall>p \<in> set parts. \<forall>n. part_step (trim_space p) = Some n \<longrightarrow> hi + n < 2 ^ 63"
  shows "vs' \<subseteq> vs \<union> apply_normalize nz ` {lo..hi}"
  using assms(1,4)
proof (induction parts arbitrary: vs)
  case (Cons part parts)
  from Cons.prems(1) obtain ws where ws: "add_cron_field_part vs (trim_space part) lo hi nz = Some (Inr ws)"
    and rest: "add_cron_field_parts ws parts lo hi nz = Some (Inr vs')"
    by (auto split: option.splits sum.splits)
  obtain step where step: "part_step (trim_space part) = Some step"
    using ws by (auto simp: add_cron_field_part_def part_step_def
      split: prod.splits option.splits sum.splits if_splits)
  have "0 < step" using step by (auto simp: part_step_def split: prod.splits option.splits if_splits)
  moreover obtain start e where "lo \<le> start" "e \<le> hi"
    "ws = vs \<union> apply_normalize nz ` {x. \<exists>k::nat. x = start + int k * step \<and> x \<le> e}"
    using add_cron_field_part_exact [OF ws assms(2,3) step] Cons.prems(2) step by auto
  ultimately have "ws \<subseteq> vs \<union> apply_normalize nz ` {lo..hi}"
    by (fastforce intro!: add_increasing2 mult_nonneg_nonneg)
  moreover have "vs' \<subseteq> ws \<union> apply_normalize nz ` {lo..hi}"
    using Cons.IH [OF rest] Cons.prems(2) by simp
  ultimately show ?case by blast
qed simp

text \<open>
  A field whose steps leave room for one addition below the largest \<open>int\<close> matches only values
  of its range, after normalisation (7 is Sunday, 0): no minute outside 0-59 is ever stored.
\<close>

theorem parse_cron_field_bounded:
  assumes "parse_cron_field raw lo hi nz = Some (Inr f)" "0 \<le> lo" "lo \<le> hi"
    "\<forall>p \<in> set (split_on (CHR '','') (trim_space raw)). \<forall>n.
       part_step (trim_space p) = Some n \<longrightarrow> hi + n < 2 ^ 63"
  shows "cf_all f \<or> (cf_values f \<noteq> {} \<and> cf_values f \<subseteq> apply_normalize nz ` {lo..hi})"
proof (cases "trim_space raw = ''*''")
  case True
  with assms(1) show ?thesis by (auto simp: parse_cron_field_def)
next
  case False
  with assms(1) obtain vs where
    "add_cron_field_parts {} (split_on (CHR '','') (trim_space raw)) lo hi nz = Some (Inr vs)"
    "vs \<noteq> {}" "f = \<lparr>cf_values = vs, cf_all = False\<rparr>"
    by (auto simp: parse_cron_field_def Let_def split: option.splits sum.splits if_splits)
  then show ?thesis using add_cron_field_parts_bounded [of "{}"] assms(2-4) by fastforce
qed

section \<open>The next fire\<close>

lemma cron_scan_least:
  assumes "minute_ns dvd u" "minute_ns dvd c" "c \<le> u" "u \<le> d" "sched_matches s u"
    "\<forall>w. minute_ns dvd w \<and> c \<le> w \<and> w < u \<longrightarrow> \<not> sched_matches s w"
  shows "cron_scan s c d = u"
  using assms
proof (induction s c d rule: cron_scan.induct)
  case (1 s c d)
  show ?case
  proof (cases "sched_matches s c")
    case True
    with 1 have "c = u" by (metis antisym_conv2 order_refl)
    with True 1 show ?thesis by (simp add: cron_scan.simps)
  next
    case False
    with 1 have "c < u" by (metis order_le_imp_less_or_eq)
    then have "c + minute_ns \<le> u"
      using 1 next_minute_least [of u c] by (simp add: truncate_minute_def)
    then have "cron_scan s (c + minute_ns) d = u"
      using 1 False minute_ns_pos by (smt (verit) dvd_add dvd_refl)
    then show ?thesis using False \<open>c < u\<close> 1 by (subst cron_scan.simps) simp
  qed
qed

lemma cron_scan_none:
  assumes "minute_ns dvd c" "\<forall>w. minute_ns dvd w \<and> c \<le> w \<and> w \<le> d \<longrightarrow> \<not> sched_matches s w"
  shows "cron_scan s c d = zero_time"
  using assms
proof (induction s c d rule: cron_scan.induct)
  case (1 s c d)
  show ?case
  proof (cases "c \<le> d")
    case True
    then have "\<not> sched_matches s c" using 1 by blast
    moreover from this have "cron_scan s (c + minute_ns) d = zero_time"
      using 1 True minute_ns_pos by (smt (verit) dvd_add dvd_refl)
    ultimately show ?thesis by (subst cron_scan.simps) simp
  qed (simp add: cron_scan.simps)
qed

lemma first_candidate_dvd: "minute_ns dvd truncate_minute t + minute_ns"
  by (simp add: truncate_minute_dvd)

text \<open>C40
  The next fire of a five-field schedule is the first whole minute strictly after the given
  instant at which the schedule matches, among the minutes up to five years on.
\<close>

theorem field_next_least:
  assumes "minute_ns dvd u" "after < u" "sched_matches s u"
    "u \<le> add_years (truncate_minute after + minute_ns) 5"
    "\<forall>w. minute_ns dvd w \<and> after < w \<and> w < u \<longrightarrow> \<not> sched_matches s w"
  shows "schedule_next (FieldSchedule s) after = u"
proof -
  have "after < truncate_minute after + minute_ns" by (rule truncate_minute_gt)
  then show ?thesis
    using assms next_minute_least [of u after] first_candidate_dvd
    by (auto simp: field_next_def Let_def intro!: cron_scan_least)
qed

text \<open>
  A five-field schedule that matches no whole minute of the next five years (30 February, say)
  has no next fire: the answer is the zero instant.
\<close>

theorem field_next_none:
  assumes "\<forall>w. minute_ns dvd w \<and> after < w \<and> w \<le> add_years (truncate_minute after + minute_ns) 5
    \<longrightarrow> \<not> sched_matches s w"
  shows "schedule_next (FieldSchedule s) after = zero_time"
proof -
  have "after < truncate_minute after + minute_ns" by (rule truncate_minute_gt)
  then show ?thesis
    using assms first_candidate_dvd by (auto simp: field_next_def Let_def intro!: cron_scan_none)
qed

lemma div_floor:
  fixes e p :: int
  assumes "0 < p"
  shows "e div p * p \<le> e \<and> e < e div p * p + p"
  using div_mult_mod_eq [of e p] pos_mod_bound [OF assms, of e] pos_mod_sign [OF assms, of e]
  by linarith

lemma div_minus_dvd: "(p::int) dvd e \<Longrightarrow> (- e) div p = - (e div p)"
  by (rule dvd_neg_div)

lemma floor_quot:
  assumes "0 < p"
  shows "(if e < 0 \<and> go_rem e p \<noteq> 0 then go_quot e p - 1 else go_quot e p) = e div p"
proof (cases "e < 0")
  case True
  have q: "go_quot e p = - ((- e) div p)" using True assms by (rule go_quot_neg)
  show ?thesis
  proof (cases "p dvd e")
    case d: True
    then have "p * (e div p) = e" by simp
    moreover have "(- e) div p = - (e div p)" using d by (rule div_minus_dvd)
    ultimately show ?thesis using q by (simp add: go_rem_def)
  next
    case d: False
    then have "(- e) div p = - (e div p) - 1"
      using assms by (simp add: zdiv_zminus1_eq_if dvd_eq_mod_eq_0)
    moreover have "go_rem e p \<noteq> 0"
      using d by (auto simp: go_rem_def) (metis dvd_triv_left)
    ultimately show ?thesis using True q by simp
  qed
next
  case False
  with assms show ?thesis by (simp add: go_quot_nonneg)
qed

lemma epoch_next_eq:
  assumes "0 < p" "- (2 ^ 63) \<le> after - unix_epoch" "after - unix_epoch + p < 2 ^ 63"
  shows "epoch_next p after = unix_epoch + ((after - unix_epoch) div p + 1) * p"
proof -
  define e where "e = after - unix_epoch"
  have e: "i64 e = e" using assms by (intro i64_small) (auto simp: e_def)
  have up: "(e div p + 1) * p \<le> e + p" "e < (e div p + 1) * p"
    using div_floor [OF assms(1), of e] by (auto simp: distrib_right)
  have "- (2 ^ 63) * p \<le> - (2 ^ 63) * 1" using assms(1) by (intro mult_left_mono_neg) simp_all
  then have "- (2 ^ 63) * p \<le> e" using assms(2) by (simp add: e_def)
  then have "(- (2 ^ 63) * p) div p \<le> e div p" using assms(1) by (rule zdiv_mono1)
  moreover have "(- (2 ^ 63) * p) div p = - (2 ^ 63)"
    using assms(1) by (intro nonzero_mult_div_cancel_right) simp
  ultimately have "- (2 ^ 63) \<le> e div p" by simp
  moreover have "e div p + 1 \<le> 2 ^ 63 - 1"
  proof (cases "0 \<le> e div p")
    case True
    then have "(e div p + 1) * 1 \<le> (e div p + 1) * p" using assms(1) by (intro mult_left_mono) simp_all
    also have "\<dots> < 2 ^ 63" using up(1) assms(3) by (simp add: e_def)
    finally show ?thesis by simp
  qed simp
  ultimately have s: "i64 (e div p + 1) = e div p + 1" by (intro i64_small) auto
  have m: "i64 ((e div p + 1) * p) = (e div p + 1) * p"
    using up assms by (intro i64_small) (auto simp: e_def)
  show ?thesis
    unfolding epoch_next_def Let_def e_def [symmetric] e floor_quot [OF assms(1)] s m ..
qed

text \<open>
  The lease-aligned next fire of an \<open>@every\<close> schedule is the first multiple of the interval,
  counted from the Unix epoch, strictly after the given instant, also before the epoch.
\<close>

theorem epoch_next_first_multiple:
  assumes "0 < d" "- (2 ^ 63) \<le> after - unix_epoch" "after - unix_epoch + d < 2 ^ 63"
  shows "d dvd schedule_next (lease_aligned_schedule (IntervalSchedule d)) after - unix_epoch
    \<and> after < schedule_next (lease_aligned_schedule (IntervalSchedule d)) after
    \<and> schedule_next (lease_aligned_schedule (IntervalSchedule d)) after \<le> after + d"
proof -
  define e where "e = after - unix_epoch"
  have "(e div d + 1) * d \<le> e + d" "e < (e div d + 1) * d"
    using div_floor [OF assms(1), of e] by (auto simp: distrib_right)
  moreover have "schedule_next (lease_aligned_schedule (IntervalSchedule d)) after
    = unix_epoch + (e div d + 1) * d"
    using epoch_next_eq [OF assms] by (simp add: e_def)
  ultimately show ?thesis by (simp add: e_def)
qed

text \<open>
  Two replicas whose clocks read instants of the same slot compute the same next fire, which is
  what lets them share one fire key per tick.
\<close>

lemma epoch_next_agree:
  assumes "0 < d" "after1 \<le> after2"
    "- (2 ^ 63) \<le> after1 - unix_epoch" "after2 - unix_epoch + d < 2 ^ 63"
    "after2 < epoch_next d after1"
  shows "epoch_next d after2 = epoch_next d after1"
proof -
  have e1: "epoch_next d after1 = unix_epoch + ((after1 - unix_epoch) div d + 1) * d"
    using assms by (intro epoch_next_eq) auto
  have e2: "epoch_next d after2 = unix_epoch + ((after2 - unix_epoch) div d + 1) * d"
    using assms by (intro epoch_next_eq) auto
  have "(after1 - unix_epoch) div d \<le> (after2 - unix_epoch) div d"
    using assms by (intro zdiv_mono1) auto
  moreover have "(after2 - unix_epoch) div d < (after1 - unix_epoch) div d + 1"
  proof -
    have "(after2 - unix_epoch) div d * d < ((after1 - unix_epoch) div d + 1) * d"
      using div_floor [OF assms(1), of "after2 - unix_epoch"] assms(5) e1 by linarith
    then show ?thesis using assms(1) by (simp add: mult_less_cancel_right)
  qed
  ultimately show ?thesis using e1 e2 by simp
qed

section \<open>Concrete schedules\<close>

lemma parse_quarter_hours:
  "parse_cron_field ''*/15'' 0 59 None = Some (Inr \<lparr>cf_values = {45, 30, 15, 0}, cf_all = False\<rparr>)"
  by code_simp (simp add: step_loop_step step_loop_done i64_def apply_normalize_def)

lemma parse_wrapping_step:
  "parse_cron_field ''5-10/9223372036854775807'' 0 59 None = Some (Inr \<lparr>cf_values =
     {-1, -9223372036854775808, 1, -9223372036854775806, 3, -9223372036854775804, 5}, cf_all = False\<rparr>)"
proof -
  have "trim_space ''5-10/9223372036854775807'' = ''5-10/9223372036854775807''" by code_simp
  moreover have "split_on (CHR '','') ''5-10/9223372036854775807'' = [''5-10/9223372036854775807'']"
    by code_simp
  moreover have "go_cut ''5-10/9223372036854775807'' ''/'' = (''5-10'', ''9223372036854775807'', True)"
    by code_simp
  moreover have "cron_field_range ''5-10'' 0 59 = Inr (5, 10)" by code_simp
  moreover have "go_atoi ''9223372036854775807'' = Some 9223372036854775807"
    by (simp add: go_atoi_def digit_of_def)
  ultimately show ?thesis
    by (simp add: parse_cron_field_def add_cron_field_part_def step_loop_step step_loop_done
      i64_def apply_normalize_def)
qed

theorem parse_cron_field_bounded_witness:
  "{45, 30, 15, 0} \<subseteq> apply_normalize None ` {0..59::int}"
proof -
  have "split_on (CHR '','') (trim_space ''*/15'') = [''*/15'']" by code_simp
  moreover have "part_step (trim_space ''*/15'') = Some 15" by code_simp
  ultimately show ?thesis using parse_cron_field_bounded [OF parse_quarter_hours] by simp
qed

text \<open>
  A step close to the largest \<open>int\<close> wraps the loop's variable: the field \<open>5-10\<close> with the
  step 9223372036854775807, which can only mean minute 5, also fires at the minutes 3 and 1.
\<close>

theorem cron_step_wraps:
  "\<exists>f. parse_cron_field ''5-10/9223372036854775807'' 0 59 None = Some (Inr f)
     \<and> cron_field_matches f 5 \<and> cron_field_matches f 3 \<and> cron_field_matches f 1"
  by (simp add: parse_wrapping_step cron_field_matches_def)

lemma month_day_ge: "m \<le> fst (month_day ls m d)"
  by (induction ls m d rule: month_day.induct) auto

lemma february_days: "time_month t = 2 \<Longrightarrow> time_day t \<le> 29"
  using month_day_ge [of 3]
  by (force simp: time_month_def time_day_def civil_date_def month_lengths_def
    split: prod.splits if_splits)

definition half_hours :: field_schedule where
  "half_hours = \<lparr>fs_minute = \<lparr>cf_values = {30}, cf_all = False\<rparr>, fs_hour = \<lparr>cf_values = {}, cf_all = True\<rparr>,
     fs_day = \<lparr>cf_values = {}, cf_all = True\<rparr>, fs_month = \<lparr>cf_values = {}, cf_all = True\<rparr>,
     fs_dow = \<lparr>cf_values = {}, cf_all = True\<rparr>\<rparr>"

definition february_30 :: field_schedule where
  "february_30 = half_hours \<lparr>fs_day := \<lparr>cf_values = {30}, cf_all = False\<rparr>,
     fs_month := \<lparr>cf_values = {2}, cf_all = False\<rparr>\<rparr>"

lemma half_hours_matches: "sched_matches half_hours t \<longleftrightarrow> time_minute t = 30"
  by (simp add: half_hours_def sched_matches_def cron_field_matches_def cron_field_restricted_def)

theorem field_next_least_witness:
  "schedule_next (FieldSchedule half_hours) 7 = 30 * minute_ns"
proof (rule field_next_least)
  show "\<forall>w. minute_ns dvd w \<and> 7 < w \<and> w < 30 * minute_ns \<longrightarrow> \<not> sched_matches half_hours w"
  proof (intro allI impI)
    fix w assume w: "minute_ns dvd w \<and> 7 < w \<and> w < 30 * minute_ns"
    then obtain k where k: "w = minute_ns * k" by blast
    with w have "0 < k" "k < 30" by (simp_all add: minute_ns_def)
    with k show "\<not> sched_matches half_hours w"
      by (simp add: half_hours_matches time_minute_def)
  qed
qed (code_simp | simp add: half_hours_matches time_minute_def minute_ns_def)+

theorem field_next_none_witness:
  "schedule_next (FieldSchedule february_30) 7 = zero_time"
proof (rule field_next_none, intro allI impI)
  fix w show "\<not> sched_matches february_30 w"
    using february_days [of w]
    by (auto simp: february_30_def half_hours_def sched_matches_def cron_field_matches_def
      cron_field_restricted_def)
qed

theorem epoch_next_first_multiple_witness:
  "7 < schedule_next (lease_aligned_schedule (IntervalSchedule 300)) (unix_epoch + 1000) - unix_epoch - 1100
   \<and> (300 :: int) dvd schedule_next (lease_aligned_schedule (IntervalSchedule 300)) (unix_epoch + 1000) - unix_epoch"
  using epoch_next_first_multiple [of 300 "unix_epoch + 1000"] by (simp add: epoch_next_eq)

end
