(* ===== verification/Declarations.thy ===== *)
theory Declarations
  imports Plans Cron_Schedule
begin

text \<open>
  The declarations a program passes to \<open>Run\<close>: \<open>node.go\<close>, \<open>validation.go\<close>, \<open>tool.go\<close>, \<open>bash.go\<close>,
  \<open>skill.go\<close>, \<open>mcp.go\<close>, \<open>output.go\<close>, \<open>pipeline.go\<close>, \<open>composition.go\<close>, \<open>trigger.go\<close> and \<open>options.go\<close>.
  An option is the struct its constructor returns, \<open>None\<close> where the program passes nil; applying the options
  folds them over a configuration that keeps its first error. A declared value is an interface: a value, a
  pointer (perhaps nil) to it, or a struct of another package that embeds it. \<open>Stuck\<close> is a call that panics
  or does not return. \<open>time.ParseDuration\<close>, \<open>url.Parse\<close> (scheme, host and path), \<open>strconv.Quote\<close>,
  \<open>runtime.NumCPU\<close>, \<open>json.Marshal\<close> and the schema of a Go type are the record \<open>decl_env\<close>.
\<close>

section \<open>Checks\<close>

datatype 'a checked = Stuck | Failed go_error | Done 'a

primrec and_then :: "'a checked \<Rightarrow> ('a \<Rightarrow> 'b checked) \<Rightarrow> 'b checked" where
  "and_then Stuck k = Stuck"
| "and_then (Failed e) k = Failed e"
| "and_then (Done x) k = k x"

definition before :: "string \<Rightarrow> 'a checked \<Rightarrow> 'a checked" where
  "before pre r = (case r of Failed e \<Rightarrow> Failed (ErrWrap pre e []) | _ \<Rightarrow> r)"

definition require :: "bool \<Rightarrow> go_error \<Rightarrow> unit checked" where
  "require b e = (if b then Done () else Failed e)"

definition no_error :: "go_error option \<Rightarrow> unit checked" where
  "no_error e = (case e of None \<Rightarrow> Done () | Some e \<Rightarrow> Failed e)"

text \<open>The loops that return the first error, without and with the index, and those that build a list.\<close>

fun check_all :: "('a \<Rightarrow> unit checked) \<Rightarrow> 'a list \<Rightarrow> unit checked" where
  "check_all f [] = Done ()"
| "check_all f (x # xs) = and_then (f x) (\<lambda>_. check_all f xs)"

fun check_indexed :: "(nat \<Rightarrow> 'a \<Rightarrow> unit checked) \<Rightarrow> nat \<Rightarrow> 'a list \<Rightarrow> unit checked" where
  "check_indexed f i [] = Done ()"
| "check_indexed f i (x # xs) = and_then (f i x) (\<lambda>_. check_indexed f (Suc i) xs)"

fun collect :: "(nat \<Rightarrow> 'a \<Rightarrow> 'b checked) \<Rightarrow> nat \<Rightarrow> 'a list \<Rightarrow> 'b list checked" where
  "collect f i [] = Done []"
| "collect f i (x # xs) = and_then (f i x) (\<lambda>y. and_then (collect f (Suc i) xs) (\<lambda>ys. Done (y # ys)))"

lemma and_then_cong [fundef_cong]:
  "r = r' \<Longrightarrow> (\<And>x. r' = Done x \<Longrightarrow> k x = k' x) \<Longrightarrow> and_then r k = and_then r' k'"
  by (cases r) auto

lemma and_then_Done [elim]:
  assumes "and_then r k = Done y"
  obtains x where "r = Done x" "k x = Done y"
  using assms by (cases r) auto

lemma check_all_cong [fundef_cong]:
  "xs = ys \<Longrightarrow> (\<And>x. x \<in> set ys \<Longrightarrow> f x = g x) \<Longrightarrow> check_all f xs = check_all g ys"
  by (induction xs arbitrary: ys) (auto intro!: and_then_cong)

lemma check_indexed_cong [fundef_cong]:
  "xs = ys \<Longrightarrow> i = j \<Longrightarrow> (\<And>n x. x \<in> set ys \<Longrightarrow> f n x = g n x) \<Longrightarrow> check_indexed f i xs = check_indexed g j ys"
  by (induction xs arbitrary: ys i j) (auto intro!: and_then_cong)

lemma collect_cong [fundef_cong]:
  "xs = ys \<Longrightarrow> i = j \<Longrightarrow> (\<And>n x. x \<in> set ys \<Longrightarrow> f n x = g n x) \<Longrightarrow> collect f i xs = collect g j ys"
  by (induction xs arbitrary: ys i j) (auto intro!: and_then_cong)

section \<open>Errors\<close>

definition err_pipeline_empty :: go_error where "err_pipeline_empty = ErrVar ''pipeline is empty''"
definition err_first_node_not_from :: go_error where "err_first_node_not_from = ErrVar ''first node must be From''"
definition err_terminal_missing :: go_error where
  "err_terminal_missing = ErrVar ''pipeline must include Reply, Push, or Sink''"
definition err_terminal_not_last :: go_error where
  "err_terminal_not_last = ErrVar ''terminal node must be last in its pipeline''"
definition err_multiple_terminals :: go_error where
  "err_multiple_terminals = ErrVar ''pipeline must include exactly one terminal''"
definition err_incompatible_terminal :: go_error where
  "err_incompatible_terminal = ErrVar ''terminal is incompatible with trigger''"
definition err_pipe_missing_model :: go_error where "err_pipe_missing_model = ErrVar ''pipe must include Model''"
definition err_invalid_model_form :: go_error where
  "err_invalid_model_form = ErrVar ''model must use provider/model form''"
definition err_invalid_node :: go_error where "err_invalid_node = ErrVar ''invalid node''"
definition err_incompatible_option :: go_error where
  "err_incompatible_option = ErrVar ''From option is incompatible with trigger''"

text \<open>\<open>fmt.Errorf("%w: ...", ErrInvalidNode)\<close>.\<close>

definition invalid :: "string \<Rightarrow> go_error" where
  "invalid msg = ErrWrap [] err_invalid_node ('': '' @ msg)"

text \<open>\<open>setErr\<close>: the first error stays.\<close>

definition first_err :: "go_error option \<Rightarrow> go_error \<Rightarrow> go_error option" where
  "first_err old e = (if old = None then Some e else old)"

section \<open>Go types and functions\<close>

text \<open>
  What the compiler reads of \<open>reflect\<close>: the kind, the element types, the fields of a struct (with the package
  path that marks an unexported field and the value of its \<open>json\<close> tag, absent when empty) and the identity of
  a type, its package path and text.
\<close>

datatype go_kind = KindBool | KindInteger | KindFloat | KindString | KindInterface | KindFunc | KindOther
  | KindArray | KindSlice | KindMap | KindStruct | KindPointer

datatype go_type =
    TyBasic go_kind "string \<times> string"
  | TyPointer go_type
  | TySeq bool "string \<times> string" go_type
  | TyMap "string \<times> string" go_type go_type
  | TyStruct "string \<times> string" "go_field list"
and go_field = GoField (gf_name: string) (gf_pkg_path: string) (gf_json_tag: string) (gf_type: go_type)

fun type_kind :: "go_type \<Rightarrow> go_kind" where
  "type_kind (TyBasic k n) = k"
| "type_kind (TyPointer t) = KindPointer"
| "type_kind (TySeq is_array n t) = (if is_array then KindArray else KindSlice)"
| "type_kind (TyMap n k t) = KindMap"
| "type_kind (TyStruct n fs) = KindStruct"

definition context_type :: go_type where "context_type = TyBasic KindInterface (''context'', ''context.Context'')"
definition error_type :: go_type where "error_type = TyBasic KindInterface ([], ''error'')"

text \<open>The \<open>any\<close> passed as a tool function: nil, a function (perhaps nil), or another value. A handler is what the
  run time makes of it by reflection.\<close>

record 'w go_func =
  fn_ins :: "go_type list"
  fn_outs :: "go_type list"
  fn_nil :: bool
  fn_handler :: "go_error + ('w tool_body \<times> (string \<Rightarrow> go_error option))"

datatype 'w go_value =
    NilValue
  | FuncValue "'w go_func"
  | OtherValue "go_error + ('w tool_body \<times> (string \<Rightarrow> go_error option))"

record decl_env =
  de_duration :: "string \<Rightarrow> duration option"
  de_url :: "string \<Rightarrow> (string \<times> string \<times> string) option"
  de_quote :: "string \<Rightarrow> string"
  de_num_cpu :: int
  de_marshal :: "go_any \<Rightarrow> string option"
  de_schema :: "go_type \<Rightarrow> go_error + plan_schema"

text \<open>A duration option: the text must parse and be positive.\<close>

definition positive_duration :: "decl_env \<Rightarrow> string \<Rightarrow> string \<Rightarrow> go_error + duration" where
  "positive_duration E what value =
     (case de_duration E (trim_space value) of
        None \<Rightarrow> Inl (invalid (what @ '' must be a valid duration''))
      | Some d \<Rightarrow> if d \<le> 0 then Inl (invalid (what @ '' must be greater than zero'')) else Inr d)"

section \<open>Tools\<close>

record 'w declared_tool =
  ts_name :: string
  ts_fn :: "'w go_value"
  ts_description :: string
  ts_params :: "(string, string) gomap"
  ts_effect :: effect
  ts_idempotency_key :: string
  ts_side_effects :: "string list"
  ts_requires_approval :: bool
  ts_timeout :: duration
  ts_err :: "go_error option"

definition tool_set_err :: "go_error \<Rightarrow> 'w declared_tool \<Rightarrow> 'w declared_tool" where
  "tool_set_err e s = s \<lparr>ts_err := first_err (ts_err s) e\<rparr>"

datatype tool_option =
    ReadOnlyOption
  | SideEffectingOption "string list"
  | IdempotentOption string
  | RequiresApprovalOption
  | ToolTimeoutOption "go_error + duration"
  | DescribeOption string
  | ParamOption string string

definition clean_tool_labels :: "string list \<Rightarrow> string list" where
  "clean_tool_labels labels = filter (\<lambda>l. l \<noteq> []) (map trim_space labels)"

definition side_effecting :: "string list \<Rightarrow> tool_option" where
  "side_effecting labels = SideEffectingOption (clean_tool_labels labels)"

definition idempotent :: "string \<Rightarrow> tool_option" where
  "idempotent key = IdempotentOption (trim_space key)"

definition tool_timeout :: "decl_env \<Rightarrow> string \<Rightarrow> tool_option" where
  "tool_timeout E value = ToolTimeoutOption (positive_duration E ''Tool timeout'' value)"

definition describe :: "string \<Rightarrow> tool_option" where
  "describe txt = DescribeOption (trim_space txt)"

definition param :: "string \<Rightarrow> string \<Rightarrow> tool_option" where
  "param name description = ParamOption (trim_space name) (trim_space description)"

fun apply_tool :: "decl_env \<Rightarrow> tool_option \<Rightarrow> 'w declared_tool \<Rightarrow> 'w declared_tool" where
  "apply_tool E ReadOnlyOption s = s \<lparr>ts_effect := EffectReadOnly, ts_idempotency_key := [], ts_side_effects := []\<rparr>"
| "apply_tool E (SideEffectingOption labels) s =
     (let s = s \<lparr>ts_effect := EffectSideEffecting, ts_idempotency_key := [], ts_side_effects := labels\<rparr> in
      if labels = [] then tool_set_err (invalid ''Tool side effect label is required'') s else s)"
| "apply_tool E (IdempotentOption key) s =
     (if key = [] then tool_set_err (invalid ''Tool idempotency key is required'') s
      else s \<lparr>ts_effect := EffectIdempotent, ts_idempotency_key := key\<rparr>)"
| "apply_tool E RequiresApprovalOption s = s \<lparr>ts_requires_approval := True\<rparr>"
| "apply_tool E (ToolTimeoutOption (Inl e)) s = tool_set_err e s"
| "apply_tool E (ToolTimeoutOption (Inr d)) s = s \<lparr>ts_timeout := d\<rparr>"
| "apply_tool E (DescribeOption txt) s =
     (if txt = [] then tool_set_err (invalid ''Tool description is required'') s else s \<lparr>ts_description := txt\<rparr>)"
| "apply_tool E (ParamOption name description) s =
     (if name = [] then tool_set_err (invalid ''Tool parameter name is required'') s
      else if description = []
      then tool_set_err (invalid (''Tool parameter '' @ de_quote E name @ '' description is required'')) s
      else if mget (ts_params s) name \<noteq> None
      then tool_set_err (invalid (''Tool parameter '' @ de_quote E name @ '' described more than once'')) s
      else s \<lparr>ts_params := mput name description (ts_params s)\<rparr>)"

text \<open>The loop over the options: a nil option is an error, the others are applied in order.\<close>

definition apply_options :: "('s \<Rightarrow> 's) \<Rightarrow> ('o \<Rightarrow> 's \<Rightarrow> 's) \<Rightarrow> 'o option list \<Rightarrow> 's \<Rightarrow> 's" where
  "apply_options nilOption app options s =
     fold (\<lambda>option s. case option of None \<Rightarrow> nilOption s | Some opt \<Rightarrow> app opt s) options s"

definition tool :: "decl_env \<Rightarrow> string \<Rightarrow> 'w go_value \<Rightarrow> tool_option option list \<Rightarrow> 'w declared_tool" where
  "tool E name goFunc options =
     apply_options (tool_set_err (invalid ''nil Tool option'')) (apply_tool E) options
       \<lparr>ts_name = trim_space name, ts_fn = goFunc, ts_description = [], ts_params = [], ts_effect = EffectSideEffecting,
        ts_idempotency_key = [], ts_side_effects = [], ts_requires_approval = False, ts_timeout = 0, ts_err = None\<rparr>"

definition validate_tool :: "decl_env \<Rightarrow> 'w declared_tool \<Rightarrow> unit checked" where
  "validate_tool E s =
     (let named = (\<lambda>msg. invalid (''Tool '' @ de_quote E (ts_name s) @ msg)) in
      and_then (no_error (ts_err s)) (\<lambda>_.
      if ts_name s = [] then Failed (invalid ''Tool name is required'')
      else case ts_fn s of
        FuncValue f \<Rightarrow>
          if fn_nil f then Failed (named '' function is nil'')
          else if fn_ins f = [] \<or> hd (fn_ins f) \<noteq> context_type
          then Failed (named '' first parameter must be context.Context'')
          else (case fn_outs f of
             [e] \<Rightarrow> require (e = error_type) (named '' must return error'')
           | [_, e] \<Rightarrow> require (e = error_type) (named '' second return value must be error'')
           | _ \<Rightarrow> Failed (named '' must return error or (value, error)''))
      | _ \<Rightarrow> Failed (named '' must be a function'')))"

section \<open>Bash, skills and MCP servers\<close>

record sandbox_config =
  sc_root :: string
  sc_allowed_env :: "string list"

definition sandbox :: "string \<Rightarrow> string list list \<Rightarrow> sandbox_config" where
  "sandbox dir allowEnv =
     \<lparr>sc_root = trim_space dir, sc_allowed_env = filter (\<lambda>k. k \<noteq> []) (map trim_space (concat allowEnv))\<rparr>"

record bash_spec =
  bs_name :: string
  bs_sandbox :: sandbox_config
  bs_timeout :: duration
  bs_max_output_bytes :: int
  bs_unsafe_host :: bool
  bs_err :: "go_error option"

definition bash_set_err :: "go_error \<Rightarrow> bash_spec \<Rightarrow> bash_spec" where
  "bash_set_err e s = s \<lparr>bs_err := first_err (bs_err s) e\<rparr>"

datatype bash_option = BashTimeoutOption "go_error + duration" | BashMaxOutputBytesOption int | BashUnsafeHostOption

definition bash_timeout :: "decl_env \<Rightarrow> string \<Rightarrow> bash_option" where
  "bash_timeout E value = BashTimeoutOption (positive_duration E ''Bash timeout'' value)"

fun apply_bash :: "bash_option \<Rightarrow> bash_spec \<Rightarrow> bash_spec" where
  "apply_bash (BashTimeoutOption (Inl e)) s = bash_set_err e s"
| "apply_bash (BashTimeoutOption (Inr d)) s = s \<lparr>bs_timeout := d\<rparr>"
| "apply_bash (BashMaxOutputBytesOption n) s =
     (if n \<le> 0 then bash_set_err (invalid ''Bash max output bytes must be greater than zero'') s
      else s \<lparr>bs_max_output_bytes := n\<rparr>)"
| "apply_bash BashUnsafeHostOption s = s \<lparr>bs_unsafe_host := True\<rparr>"

definition default_bash_tool_name :: string where "default_bash_tool_name = ''bash''"

definition bash :: "sandbox_config \<Rightarrow> bash_option option list \<Rightarrow> bash_spec" where
  "bash sb options =
     apply_options (bash_set_err (invalid ''nil Bash option'')) apply_bash options
       \<lparr>bs_name = default_bash_tool_name, bs_sandbox = sb, bs_timeout = 30 * time_second,
        bs_max_output_bytes = 64 * 1024, bs_unsafe_host = False, bs_err = None\<rparr>"

definition validate_bash :: "bash_spec \<Rightarrow> unit checked" where
  "validate_bash s =
     and_then (no_error (bs_err s)) (\<lambda>_.
     if trim_space (bs_name s) = [] then Failed (invalid ''Bash tool name is required'')
     else if trim_space (sc_root (bs_sandbox s)) = [] then Failed (invalid ''Bash sandbox root is required'')
     else if bs_timeout s \<le> 0 then Failed (invalid ''Bash timeout must be greater than zero'')
     else require (0 < bs_max_output_bytes s) (invalid ''Bash max output bytes must be greater than zero''))"

definition has_separator :: "string \<Rightarrow> bool" where
  "has_separator s = (CHR ''/'' \<in> set s \<or> CHR 0x5C \<in> set s)"

definition validate_skill :: "string \<Rightarrow> unit checked" where
  "validate_skill dirName =
     (if dirName = [] then Failed (invalid ''Skill directory name is required'')
      else if dirName = ''.'' \<or> dirName = ''..''
      then Failed (invalid ''Skill directory name must be a direct child of skills'')
      else require (\<not> has_separator dirName) (invalid ''Skill directory name must not contain path separators''))"

definition validate_mcp :: "string \<Rightarrow> unit checked" where
  "validate_mcp name =
     (if name = [] then Failed (invalid ''MCP server name is required'')
      else if name = ''.'' \<or> name = ''..'' then Failed (invalid ''MCP server name must not be a relative path'')
      else require (\<not> has_separator name) (invalid ''MCP server name must not contain path separators''))"

section \<open>Pipes\<close>

text \<open>\<open>sa\<close> fields of a pipe that are sub-agents hold nodes: they are arguments of the constructors below, as in the
  plan. The other fields of \<open>pipeConfig\<close> are the record.\<close>

record 'w pipe_config =
  pc_model :: string
  pc_fallback :: "string list"
  pc_output :: "go_type option option"
  pc_tools :: "'w declared_tool list"
  pc_bash :: "bash_spec list"
  pc_skills :: "string list"
  pc_mcp_servers :: "string list"
  pc_retry :: "step_retry option"
  pc_budget :: budget
  pc_no_cache :: bool
  pc_sequential :: bool
  pc_err :: "go_error option"

record from_config =
  fc_worker_pool :: int
  fc_idempotency_header :: string
  fc_signature_env :: string
  fc_signature_header :: string
  fc_dlq_target :: string
  fc_max_attempts :: int
  fc_max_in_flight :: int
  fc_ack_policy :: string
  fc_err :: "go_error option"

record parallel_config =
  pl_partial_ok :: bool
  pl_err :: "go_error option"

record map_config =
  mc_concurrency :: int
  mc_partial_ok :: bool
  mc_err :: "go_error option"

text \<open>A value passed as an interface: the value itself, or a pointer to it that may be nil.\<close>

datatype 'a by_ref = ByValue 'a | ByPointer "'a option"

fun pointee :: "'a by_ref \<Rightarrow> 'a option" where
  "pointee (ByValue x) = Some x"
| "pointee (ByPointer p) = p"

text \<open>The sources of \<open>From\<close>; a struct of another package that embeds one forwards its validation.\<close>

datatype trigger_source =
    HttpSource string string
  | CronSource "string by_ref"
  | WebhookSource "string by_ref"
  | StreamSource "string by_ref"
  | EmbeddedSource trigger_source

datatype reply_format = JsonReply "go_type option by_ref" | SSEReply "unit by_ref" | AcceptedReply "unit by_ref"
datatype push_target = PushWebhook "string by_ref" | PushQueue "string by_ref"
datatype sink_target = SinkLog "unit by_ref" | SinkFile "string by_ref"

datatype declared_kind = KindFrom | KindPipe | KindParallel | KindMapNode | KindReply | KindPush | KindSink

text \<open>A node of another package embeds a node and forwards its kind and its validation.\<close>

datatype 'w node =
    NilNode
  | FromNode "trigger_source option" "go_error option" from_config
  | PipeNode string "'w pipe_config" "'w sub_agent_spec list" "go_error option"
  | ParallelNode "'w node list" parallel_config "go_error option"
  | MapNode "'w node list" map_config "go_error option"
  | ReplyNode "reply_format option"
  | PushNode "push_target option"
  | SinkNode "sink_target option"
  | EmbeddedNode declared_kind "unit checked"
and 'w sub_agent_spec =
    SubAgentSpec (ss_name: string) (ss_nodes: "'w node list") (ss_max_parallel: int) (ss_partial_ok: bool)
      (ss_err: "go_error option")

fun node_kind :: "'w node \<Rightarrow> declared_kind option" where
  "node_kind NilNode = None"
| "node_kind (FromNode s e c) = Some KindFrom"
| "node_kind (PipeNode g c subs e) = Some KindPipe"
| "node_kind (ParallelNode ns c e) = Some KindParallel"
| "node_kind (MapNode ns c e) = Some KindMapNode"
| "node_kind (ReplyNode f) = Some KindReply"
| "node_kind (PushNode t) = Some KindPush"
| "node_kind (SinkNode t) = Some KindSink"
| "node_kind (EmbeddedNode k r) = Some k"

subsection \<open>Options of a pipe\<close>

datatype 'w pipe_option =
    ModelOption string
  | FallbackOption "go_error + string list"
  | TimeoutOption "go_error + duration"
  | MaxTokensOption int
  | MaxCostUSDOption rat
  | NoCacheOption
  | SequentialToolsOption
  | RetryOption "go_error + step_retry"
  | SubAgentPipeOption "'w sub_agent_spec"
  | ToolPipeOption "'w declared_tool"
  | BashPipeOption bash_spec
  | SkillPipeOption string
  | MCPPipeOption string
  | OutputOption "go_type option"

definition model :: "string \<Rightarrow> 'w pipe_option" where
  "model name = ModelOption (trim_space name)"

definition provider_model_form :: "string \<Rightarrow> bool" where
  "provider_model_form m =
     (case go_cut m ''/'' of (prov, name, ok) \<Rightarrow> ok \<and> trim_space prov \<noteq> [] \<and> trim_space name \<noteq> [])"

definition validate_model_form :: "decl_env \<Rightarrow> string \<Rightarrow> unit checked" where
  "validate_model_form E m =
     (let m = trim_space m in
      require (provider_model_form m)
        (ErrWrap [] err_invalid_model_form ('': Model '' @ de_quote E m @ '' must use provider/model form, e.g. '' @
           quoted ''anthropic/claude-sonnet-4-6'')))"

fun fallback_models :: "decl_env \<Rightarrow> string list \<Rightarrow> string list \<Rightarrow> go_error + string list" where
  "fallback_models E acc [] = Inr acc"
| "fallback_models E acc (m # ms) =
     (let m = trim_space m in
      if m = [] then Inl (invalid ''Fallback model is required'')
      else if \<not> provider_model_form m
      then Inl (invalid (''Fallback model '' @ de_quote E m @ '' must use provider/model form''))
      else fallback_models E (acc @ [m]) ms)"

definition fallback :: "decl_env \<Rightarrow> string list \<Rightarrow> 'w pipe_option" where
  "fallback E models = FallbackOption
     (case fallback_models E [] models of
        Inl e \<Rightarrow> Inl e
      | Inr ms \<Rightarrow> if ms = [] then Inl (invalid ''Fallback requires at least one model'') else Inr ms)"

definition timeout :: "decl_env \<Rightarrow> string \<Rightarrow> 'w pipe_option" where
  "timeout E value = TimeoutOption (positive_duration E ''Pipe timeout'' value)"

text \<open>\<open>ExponentialBackoff\<close> is the only backoff policy; a nil policy is \<open>None\<close>.\<close>

definition exponential_backoff :: duration where "exponential_backoff = 100000000"

definition retry :: "int \<Rightarrow> duration option list \<Rightarrow> 'w pipe_option" where
  "retry limit policies = RetryOption
     (if limit < 0 then Inl (invalid ''Retry count must be greater than or equal to zero'')
      else if 1 < length policies then Inl (invalid ''Retry accepts at most one backoff policy'')
      else case policies of
        [] \<Rightarrow> Inr \<lparr>sy_provider_retries = limit, sy_backoff = 0\<rparr>
      | None # _ \<Rightarrow> Inl (invalid ''Retry backoff policy is required'')
      | Some b # _ \<Rightarrow> Inr \<lparr>sy_provider_retries = limit, sy_backoff = b\<rparr>)"

definition typed_output :: "go_type \<Rightarrow> 'w pipe_option" where "typed_output t = OutputOption (Some t)"
definition skill :: "string \<Rightarrow> 'w pipe_option" where "skill dirName = SkillPipeOption (trim_space dirName)"
definition mcp :: "string \<Rightarrow> 'w pipe_option" where "mcp name = MCPPipeOption (trim_space name)"

definition pipe_set_err :: "go_error \<Rightarrow> 'w pipe_config \<Rightarrow> 'w pipe_config" where
  "pipe_set_err e c = c \<lparr>pc_err := first_err (pc_err c) e\<rparr>"

fun apply_pipe :: "'w pipe_option \<Rightarrow> 'w pipe_config \<Rightarrow> 'w pipe_config" where
  "apply_pipe (ModelOption m) c = c \<lparr>pc_model := m\<rparr>"
| "apply_pipe (FallbackOption (Inl e)) c = pipe_set_err e c"
| "apply_pipe (FallbackOption (Inr ms)) c =
     (if pc_fallback c \<noteq> [] then pipe_set_err (invalid ''Pipe Fallback declared more than once'') c
      else c \<lparr>pc_fallback := ms\<rparr>)"
| "apply_pipe (TimeoutOption (Inl e)) c = pipe_set_err e c"
| "apply_pipe (TimeoutOption (Inr d)) c = c \<lparr>pc_budget := (pc_budget c) \<lparr>max_wall_clock := d\<rparr>\<rparr>"
| "apply_pipe (MaxTokensOption n) c =
     (if n \<le> 0 then pipe_set_err (invalid ''Pipe MaxTokens must be greater than zero'') c
      else c \<lparr>pc_budget := (pc_budget c) \<lparr>max_tokens := n\<rparr>\<rparr>)"
| "apply_pipe (MaxCostUSDOption m) c =
     (if m \<le> 0 then pipe_set_err (invalid ''Pipe MaxCostUSD must be greater than zero'') c
      else c \<lparr>pc_budget := (pc_budget c) \<lparr>max_cost_usd := m\<rparr>\<rparr>)"
| "apply_pipe NoCacheOption c = c \<lparr>pc_no_cache := True\<rparr>"
| "apply_pipe SequentialToolsOption c = c \<lparr>pc_sequential := True\<rparr>"
| "apply_pipe (RetryOption (Inl e)) c = pipe_set_err e c"
| "apply_pipe (RetryOption (Inr r)) c =
     (if pc_retry c \<noteq> None then pipe_set_err (invalid ''Pipe retry declared more than once'') c
      else c \<lparr>pc_retry := Some r\<rparr>)"
| "apply_pipe (SubAgentPipeOption s) c = c"
| "apply_pipe (ToolPipeOption t) c = c \<lparr>pc_tools := pc_tools c @ [t]\<rparr>"
| "apply_pipe (BashPipeOption b) c =
     (if pc_bash c \<noteq> [] then pipe_set_err (invalid ''Bash declared more than once'') c
      else c \<lparr>pc_bash := pc_bash c @ [b]\<rparr>)"
| "apply_pipe (SkillPipeOption n) c = c \<lparr>pc_skills := pc_skills c @ [n]\<rparr>"
| "apply_pipe (MCPPipeOption n) c = c \<lparr>pc_mcp_servers := pc_mcp_servers c @ [n]\<rparr>"
| "apply_pipe (OutputOption t) c =
     (if t = None then pipe_set_err (invalid ''Pipe output schema is required'') c
      else if pc_output c \<noteq> None then pipe_set_err (invalid ''Pipe output declared more than once'') c
      else c \<lparr>pc_output := Some t\<rparr>)"

text \<open>\<open>subAgentPipeOption.applyPipe\<close> appends to the sub-agents of the configuration.\<close>

definition added_sub_agents :: "'w pipe_option \<Rightarrow> 'w sub_agent_spec list" where
  "added_sub_agents opt = (case opt of SubAgentPipeOption s \<Rightarrow> [s] | _ \<Rightarrow> [])"

definition empty_pipe_config :: "'w pipe_config" where
  "empty_pipe_config = \<lparr>pc_model = [], pc_fallback = [], pc_output = None, pc_tools = [], pc_bash = [], pc_skills = [],
     pc_mcp_servers = [], pc_retry = None, pc_budget = zero_budget, pc_no_cache = False, pc_sequential = False, pc_err = None\<rparr>"

definition pipe :: "string \<Rightarrow> 'w pipe_option option list \<Rightarrow> 'w node" where
  "pipe goal options =
     (case apply_options (\<lambda>(c, subs, e). (c, subs, Some (invalid ''nil Pipe option'')))
        (\<lambda>opt (c, subs, e). (apply_pipe opt c, subs @ added_sub_agents opt, e)) options (empty_pipe_config, [], None) of
      (c, subs, e) \<Rightarrow> PipeNode (trim_space goal) c subs e)"

subsection \<open>Sub-agents\<close>

datatype sub_agent_option = MaxParallelOption int | PartialOKOption

definition default_sub_agent_max_parallel :: int where "default_sub_agent_max_parallel = 5"
definition default_sub_agent_max_depth :: int where "default_sub_agent_max_depth = 8"

fun sub_set_err :: "go_error \<Rightarrow> 'w sub_agent_spec \<Rightarrow> 'w sub_agent_spec" where
  "sub_set_err e (SubAgentSpec n p mp po err) = SubAgentSpec n p mp po (first_err err e)"

fun apply_sub_agent :: "sub_agent_option \<Rightarrow> 'w sub_agent_spec \<Rightarrow> 'w sub_agent_spec" where
  "apply_sub_agent (MaxParallelOption limit) (SubAgentSpec n p mp po err) =
     (if limit \<le> 0
      then sub_set_err (invalid ''SubAgent MaxParallel must be greater than zero'') (SubAgentSpec n p mp po err)
      else if default_sub_agent_max_parallel < limit
      then sub_set_err (invalid (''SubAgent MaxParallel cannot exceed '' @ int_text default_sub_agent_max_parallel))
             (SubAgentSpec n p mp po err)
      else SubAgentSpec n p limit po err)"
| "apply_sub_agent PartialOKOption (SubAgentSpec n p mp po err) = SubAgentSpec n p mp True err"

definition sub_agent :: "string \<Rightarrow> 'w node list \<Rightarrow> sub_agent_option option list \<Rightarrow> 'w pipe_option" where
  "sub_agent name pipeline options = SubAgentPipeOption
     (apply_options (sub_set_err (invalid ''nil SubAgent option'')) apply_sub_agent options
        (SubAgentSpec (trim_space name) pipeline default_sub_agent_max_parallel False None))"

subsection \<open>Validation\<close>

text \<open>
  \<open>validatePipeNodeWithSubAgentContext\<close>, \<open>validateSubAgentWithContext\<close> and
  \<open>validateSubAgentPipelineWithContext\<close>; the first is about a \<open>pipeNode\<close>, which the two others look for.
\<close>

definition validate_pipe_config :: "decl_env \<Rightarrow> string \<Rightarrow> 'w pipe_config \<Rightarrow> go_error option \<Rightarrow> unit checked" where
  "validate_pipe_config E goal c err =
     and_then (no_error err) (\<lambda>_.
     and_then (no_error (pc_err c)) (\<lambda>_.
     if goal = [] then Failed (invalid ''Pipe goal is required'')
     else if trim_space (pc_model c) = [] then Failed err_pipe_missing_model
     else and_then (validate_model_form E (pc_model c)) (\<lambda>_.
     and_then (check_all (validate_tool E) (pc_tools c)) (\<lambda>_.
     and_then (check_all validate_bash (pc_bash c)) (\<lambda>_.
     and_then (check_all validate_skill (pc_skills c)) (\<lambda>_.
     check_all validate_mcp (pc_mcp_servers c)))))))"

definition sub_node_text :: "nat \<Rightarrow> string \<Rightarrow> string" where
  "sub_node_text i msg = ''SubAgent pipeline node '' @ nat_text i @ msg"

definition validate_sub_pipeline :: "('w node \<Rightarrow> unit checked) \<Rightarrow> 'w node list \<Rightarrow> unit checked" where
  "validate_sub_pipeline validate nodes =
     (if nodes = [] then Failed (invalid ''SubAgent pipeline must include at least one Pipe'')
      else check_indexed (\<lambda>i n. case n of
             NilNode \<Rightarrow> Failed (invalid (sub_node_text i '' is nil''))
           | PipeNode _ _ _ _ \<Rightarrow> before (sub_node_text i '': '') (validate n)
           | _ \<Rightarrow> Failed (invalid (sub_node_text i '' must be Pipe''))) 0 nodes)"

lemma validate_sub_pipeline_cong [fundef_cong]:
  "ns = ms \<Longrightarrow> (\<And>n. n \<in> set ms \<Longrightarrow> f n = g n) \<Longrightarrow> validate_sub_pipeline f ns = validate_sub_pipeline g ms"
  unfolding validate_sub_pipeline_def by (auto intro!: check_indexed_cong split: node.split)

fun validate_pipe :: "decl_env \<Rightarrow> int \<Rightarrow> string list \<Rightarrow> 'w node \<Rightarrow> unit checked"
  and validate_sub_agent :: "decl_env \<Rightarrow> int \<Rightarrow> string list \<Rightarrow> 'w sub_agent_spec \<Rightarrow> unit checked" where
  "validate_pipe E depth stack (PipeNode goal c subs err) =
     and_then (validate_pipe_config E goal c err) (\<lambda>_. check_all (validate_sub_agent E (depth + 1) stack) subs)"
| "validate_pipe E depth stack _ = Done ()"
| "validate_sub_agent E depth stack (SubAgentSpec name nodes mp po err) =
     and_then (no_error err) (\<lambda>_.
     if name = [] then Failed (invalid ''SubAgent name is required'')
     else if default_sub_agent_max_depth < depth
     then Failed (invalid (''SubAgent depth cannot exceed '' @ int_text default_sub_agent_max_depth))
     else if name \<in> set stack then Failed (invalid (''SubAgent cycle detected for '' @ de_quote E name))
     else if mp \<le> 0 then Failed (invalid ''SubAgent MaxParallel must be greater than zero'')
     else if default_sub_agent_max_parallel < mp
     then Failed (invalid (''SubAgent MaxParallel cannot exceed '' @ int_text default_sub_agent_max_parallel))
     else validate_sub_pipeline (validate_pipe E depth (stack @ [name])) nodes)"

end
