(* ===== verification/Go_Format.thy ===== *)
theory Go_Format
  imports Go_Time Go_Strings
begin

text \<open>
  \<open>time.Time.Format(time.RFC3339Nano)\<close> of an instant in UTC: the date and the time of day in fixed
  widths, the fraction of the second without trailing zeros and only when there is one, and \<open>Z\<close>. Two
  instants with the same text are the same.
\<close>

section \<open>The text\<close>

definition pad_int :: "nat \<Rightarrow> int \<Rightarrow> string" where
  "pad_int width n =
     (let digits = nat_text (nat \<bar>n\<bar>)
      in (if n < 0 then ''-'' else []) @ replicate (width - length digits) CHR ''0'' @ digits)"

definition strip_zeros :: "string \<Rightarrow> string" where
  "strip_zeros s = rev (dropWhile (\<lambda>c. c = CHR ''0'') (rev s))"

definition fraction_of_second :: "go_time \<Rightarrow> string" where
  "fraction_of_second t =
     (let n = t mod time_second in if n = 0 then [] else CHR ''.'' # strip_zeros (pad_int 9 n))"

definition rfc3339_nano :: "go_time \<Rightarrow> string" where
  "rfc3339_nano t =
     (case civil_date t of (y, m, d) \<Rightarrow>
        pad_int 4 y @ ''-'' @ pad_int 2 m @ ''-'' @ pad_int 2 d @ ''T'' @ pad_int 2 (time_hour t) @ '':'' @
        pad_int 2 (time_minute t) @ '':'' @ pad_int 2 (t div time_second mod 60) @ fraction_of_second t @ ''Z'')"

section \<open>It is injective\<close>

abbreviation decimal_digit :: "char \<Rightarrow> bool" where
  "decimal_digit c \<equiv> digit_of c \<noteq> None"

lemma nat_text_decimal: "c \<in> set (nat_text n) \<Longrightarrow> decimal_digit c"
proof (induction n rule: nat_text.induct)
  case (1 n)
  show ?case
  proof (cases "n < 10")
    case True
    with 1 show ?thesis by (simp add: nat_text.simps [of n] digit_of_char)
  next
    case False
    with 1 show ?thesis by (auto simp: nat_text.simps [of n] digit_of_char)
  qed
qed

lemma zero_digit: "decimal_digit CHR ''0''" "\<not> decimal_digit CHR ''-''" "\<not> decimal_digit CHR '':''" "\<not> decimal_digit CHR ''T''" "\<not> decimal_digit CHR ''.''"
    "\<not> decimal_digit CHR ''Z''"
  by code_simp+

lemma digits_value_zeros: "digits_value 0 (replicate k CHR ''0'' @ s) = digits_value 0 s"
  by (induction k) (simp_all add: digit_of_def)

lemma pad_int_value: "0 \<le> n \<Longrightarrow> digits_value 0 (pad_int k n) = Some (nat n)"
  by (simp add: pad_int_def Let_def digits_value_zeros digits_value_nat_text)

lemma pad_int_inject: "0 \<le> m \<Longrightarrow> 0 \<le> n \<Longrightarrow> pad_int k m = pad_int k n \<Longrightarrow> m = n"
  using pad_int_value [of m k] pad_int_value [of n k] by simp

lemma pad_int_digits: "0 \<le> n \<Longrightarrow> c \<in> set (pad_int k n) \<Longrightarrow> decimal_digit c"
  using nat_text_decimal [of c "nat n"] zero_digit by (auto simp: pad_int_def Let_def split: if_splits)

lemma nat_text_length: "n < 10 ^ k \<Longrightarrow> 0 < k \<Longrightarrow> length (nat_text n) \<le> k"
proof (induction n arbitrary: k rule: nat_text.induct)
  case (1 n)
  show ?case
  proof (cases "n < 10")
    case True
    with 1 show ?thesis by (simp add: nat_text.simps [of n])
  next
    case False
    then obtain j where k: "k = Suc j" "0 < j" using 1(2,3) by (cases k; cases "k - 1") auto
    then have "n div 10 < 10 ^ j" using 1(2) by (simp add: less_mult_imp_div_less mult.commute)
    with 1 False k show ?thesis by (simp add: nat_text.simps [of n])
  qed
qed

lemma pad_int_length: "0 \<le> n \<Longrightarrow> n < 10 ^ k \<Longrightarrow> 0 < k \<Longrightarrow> length (pad_int k n) = k"
  using nat_text_length [of "nat n" k] by (simp add: pad_int_def Let_def nat_less_iff)

lemma strip_zeros_pad: "\<exists>k. s = strip_zeros s @ replicate k CHR ''0''"
proof -
  let ?z = "takeWhile (\<lambda>c. c = CHR ''0'') (rev s)"
  have "s = rev (?z @ dropWhile (\<lambda>c. c = CHR ''0'') (rev s))" by simp
  also have "\<dots> = strip_zeros s @ rev ?z" by (simp only: rev_append strip_zeros_def)
  also have "?z = replicate (length ?z) CHR ''0''"
    by (rule replicate_length_same [symmetric]) (auto dest: set_takeWhileD)
  finally show ?thesis unfolding rev_replicate by (intro exI)
qed

lemma strip_zeros_inject:
  assumes "length s = length t" "strip_zeros s = strip_zeros t"
  shows "s = t"
proof -
  obtain j k where "s = strip_zeros s @ replicate j CHR ''0''" "t = strip_zeros t @ replicate k CHR ''0''"
    using strip_zeros_pad by metis
  then show ?thesis using assms by (metis length_append length_replicate add_left_cancel)
qed

lemma strip_zeros_digits: "c \<in> set (strip_zeros s) \<Longrightarrow> c \<in> set s"
  by (auto simp: strip_zeros_def dest: set_dropWhileD)

lemma second_fraction_pos: "0 \<le> t mod time_second" "t mod time_second < 10 ^ 9"
  by (simp_all add: time_second_def)

lemma fraction_inject:
  assumes "fraction_of_second s = fraction_of_second t"
  shows "s mod time_second = t mod time_second"
proof (cases "s mod time_second = 0 \<or> t mod time_second = 0")
  case True
  with assms show ?thesis by (auto simp: fraction_of_second_def Let_def split: if_splits)
next
  case False
  then have z: "strip_zeros (pad_int 9 (s mod time_second)) = strip_zeros (pad_int 9 (t mod time_second))"
    using assms by (simp add: fraction_of_second_def Let_def)
  have len: "length (pad_int 9 (u mod time_second)) = 9" for u
    by (rule pad_int_length [OF second_fraction_pos]) simp
  have "pad_int 9 (s mod time_second) = pad_int 9 (t mod time_second)"
    by (rule strip_zeros_inject [OF trans [OF len len [symmetric]] z])
  then show ?thesis using second_fraction_pos by (intro pad_int_inject)
qed

text \<open>Two texts whose heads hold no separator agree on the heads and on the tails.\<close>

lemma head_tail:
  assumes "a @ x # b = c @ x # d" "x \<notin> set a" "x \<notin> set c"
  shows "a = c \<and> b = d"
  using assms
proof (induction a arbitrary: c)
  case Nil
  then show ?case by (cases c) auto
next
  case (Cons y a)
  then show ?case by (cases c) auto
qed

lemma month_day_low: "m \<le> fst (month_day xs m d)"
  by (induction xs m d rule: month_day.induct) force+

lemma month_day_inject: "month_day ls m a = month_day ls m b \<Longrightarrow> a = b"
proof (induction ls m a arbitrary: b rule: month_day.induct)
  case (2 l ls m a)
  show ?case
  proof (cases "a < l \<longleftrightarrow> b < l")
    case True
    with "2.prems" "2.IH" [of "b - l"] show ?thesis by (cases "a < l") simp_all
  next
    case False
    with arg_cong [OF "2.prems", of fst] month_day_low [of "m + 1" ls "a - l"] month_day_low [of "m + 1" ls "b - l"] show ?thesis
      by (auto split: if_splits)
  qed
qed simp

lemma civil_date_inject:
  assumes "civil_date s = civil_date t"
  shows "day_number s = day_number t"
proof -
  obtain y a z b where ya: "year_day (day_number s) = (y, a)" and zb: "year_day (day_number t) = (z, b)" by (metis prod.collapse)
  with assms have "z = y" "month_day (month_lengths y) 1 a = month_day (month_lengths y) 1 b"
    by (auto simp: civil_date_def split: prod.splits)
  then show ?thesis using year_day_number [OF ya] year_day_number [OF zb] by (simp add: month_day_inject)
qed


lemma nested_units:
  fixes x :: int
  assumes "x = a * 1000000000 + n" "a = b * 60 + s" "b = c * 60 + m" "c = e * 24 + h"
  shows "x = ((e * 24 + h) * 60 + m) * 60000000000 + s * 1000000000 + n"
  using assms by simp

lemma instant_parts:
  fixes t :: go_time
  assumes "t div day_ns = u div day_ns" "time_hour t = time_hour u" "time_minute t = time_minute u"
    "t div time_second mod 60 = u div time_second mod 60" "t mod time_second = u mod time_second"
  shows "t = u"
proof -
  have split: "x = ((x div day_ns * 24 + time_hour x) * 60 + time_minute x) * minute_ns
      + x div time_second mod 60 * time_second + x mod time_second" for x
  proof -
    define a where "a = x div 1000000000"
    have units: "x div minute_ns = a div 60" "x div hour_ns = a div 60 div 60" "x div day_ns = a div 60 div 60 div 24"
      "x div time_second = a" "x mod time_second = x mod 1000000000" "minute_ns = 60000000000" "time_second = 1000000000"
      by (simp_all add: a_def time_second_def minute_ns_def hour_ns_def day_ns_def flip: zdiv_zmult2_eq)
    show ?thesis unfolding time_hour_def time_minute_def units(1-5) unfolding units(6,7)
      by (rule nested_units [of x a _ "a div 60" _ "a div 60 div 60"]) (simp_all add: a_def)
  qed
  show ?thesis using split [of t] split [of u] assms by metis
qed

text \<open>The date of an instant at or after the year 1 has no negative part.\<close>

lemma month_day_pos: "0 \<le> d \<Longrightarrow> 1 \<le> snd (month_day ls m d)"
  by (induction ls m d rule: month_day.induct) simp_all

lemma year_day_pos:
  assumes "0 \<le> d"
  shows "0 \<le> fst (year_day d) \<and> 0 \<le> snd (year_day d)"
proof -
  define r where "r = d mod 146097 - 36524 * min (d mod 146097 div 36524) 3"
  define q where "q = r mod 1461"
  have "36524 * min (d mod 146097 div 36524) 3 \<le> d mod 146097" by linarith
  then have "0 \<le> r div 1461" by (simp add: r_def pos_imp_zdiv_nonneg_iff)
  moreover have "365 * min (q div 365) 3 \<le> q" by linarith
  moreover have "0 \<le> q div 365" by (simp add: q_def pos_imp_zdiv_nonneg_iff)
  moreover have "year_day d = (400 * (d div 146097) + 100 * min (d mod 146097 div 36524) 3 + 4 * (r div 1461) + min (q div 365) 3 + 1,
      q - 365 * min (q div 365) 3)"
    by (simp only: year_day_def Let_def r_def q_def)
  ultimately show ?thesis using assms by (simp add: pos_imp_zdiv_nonneg_iff)
qed

lemma civil_date_pos:
  assumes "0 \<le> t" "civil_date t = (y, m, d)"
  shows "0 \<le> y \<and> 0 \<le> m \<and> 0 \<le> d"
proof -
  have "0 \<le> day_number t" using assms(1) by (simp add: day_number_def pos_imp_zdiv_nonneg_iff)
  from year_day_pos [OF this] month_day_pos [of "snd (year_day (day_number t))" "month_lengths y" 1]
    month_day_low [of 1 "month_lengths y" "snd (year_day (day_number t))"] assms(2)
  show ?thesis by (auto simp: civil_date_def split: prod.splits)
qed

lemma pad_int_sep: "0 \<le> n \<Longrightarrow> CHR ''-'' \<notin> set (pad_int k n) \<and> CHR ''T'' \<notin> set (pad_int k n) \<and> CHR '':'' \<notin> set (pad_int k n)"
  using pad_int_digits [of n _ k] zero_digit by blast

lemma rfc3339_nano_inject:
  assumes "0 \<le> s" "0 \<le> t" "rfc3339_nano s = rfc3339_nano t"
  shows "s = t"
proof -
  obtain y m d where s: "civil_date s = (y, m, d)" by (metis prod.collapse)
  obtain z n e where t: "civil_date t = (z, n, e)" by (metis prod.collapse)
  note pos = civil_date_pos [OF assms(1) s] civil_date_pos [OF assms(2) t] time_hour_range [of s] time_hour_range [of t]
    time_minute_range [of s] time_minute_range [of t]
  let ?tail = "\<lambda>u. pad_int 2 (u div time_second mod 60) @ fraction_of_second u @ ''Z''"
  let ?clock = "\<lambda>u. pad_int 2 (time_hour u) @ CHR '':'' # pad_int 2 (time_minute u) @ CHR '':'' # ?tail u"
  have "pad_int 4 y @ CHR ''-'' # pad_int 2 m @ CHR ''-'' # pad_int 2 d @ CHR ''T'' # ?clock s
      = pad_int 4 z @ CHR ''-'' # pad_int 2 n @ CHR ''-'' # pad_int 2 e @ CHR ''T'' # ?clock t"
    using assms(3) by (simp add: rfc3339_nano_def s t)
  from head_tail [OF this] pos have 1: "pad_int 4 y = pad_int 4 z"
    "pad_int 2 m @ CHR ''-'' # pad_int 2 d @ CHR ''T'' # ?clock s = pad_int 2 n @ CHR ''-'' # pad_int 2 e @ CHR ''T'' # ?clock t"
    by (simp_all add: pad_int_sep)
  from head_tail [OF 1(2)] pos have 2: "pad_int 2 m = pad_int 2 n"
    "pad_int 2 d @ CHR ''T'' # ?clock s = pad_int 2 e @ CHR ''T'' # ?clock t"
    by (simp_all add: pad_int_sep)
  from head_tail [OF 2(2)] pos have 3: "pad_int 2 d = pad_int 2 e" "?clock s = ?clock t" by (simp_all add: pad_int_sep)
  from head_tail [OF 3(2)] pos have 4: "pad_int 2 (time_hour s) = pad_int 2 (time_hour t)"
    "pad_int 2 (time_minute s) @ CHR '':'' # ?tail s = pad_int 2 (time_minute t) @ CHR '':'' # ?tail t"
    by (simp_all add: pad_int_sep)
  from head_tail [OF 4(2)] pos have 5: "pad_int 2 (time_minute s) = pad_int 2 (time_minute t)" "?tail s = ?tail t"
    by (simp_all add: pad_int_sep)
  have len: "length (pad_int 2 (u div time_second mod 60)) = 2" for u
  proof (rule pad_int_length)
    have "u div time_second mod 60 < 60" by simp
    then show "u div time_second mod 60 < 10 ^ 2" by (rule order.strict_trans) simp
  qed simp_all
  from 5(2) len have 6: "pad_int 2 (s div time_second mod 60) = pad_int 2 (t div time_second mod 60)"
    "fraction_of_second s = fraction_of_second t" by simp_all
  have "civil_date s = civil_date t"
    using 1(1) 2(1) 3(1) pos by (auto simp: s t dest: pad_int_inject)
  then have "s div day_ns = t div day_ns" unfolding day_number_def [symmetric] by (rule civil_date_inject)
  moreover have "time_hour s = time_hour t" "time_minute s = time_minute t"
    using pad_int_inject [OF _ _ 4(1)] pad_int_inject [OF _ _ 5(1)] pos by simp_all
  moreover have "s div time_second mod 60 = t div time_second mod 60"
    by (rule pad_int_inject [OF _ _ 6(1)]) simp_all
  ultimately show ?thesis using fraction_inject [OF 6(2)] by (rule instant_parts)
qed

end
