(* ===== verification/Provider.thy ===== *)
theory Provider
  imports Tool_Executor Sessions
begin

text \<open>
  \<open>internal/provider\<close>: the messages exchanged with a model (\<open>messages.go\<close>), the requests, responses
  and usage (\<open>provider.go\<close>), model identifiers (\<open>model.go\<close>), the classified errors (\<open>errors.go\<close>)
  and the pricing table (\<open>pricing.go\<close>). Token counts are Go \<open>int\<close>s and wrap at 64 bits; costs,
  \<open>float64\<close> in the code, are exact rationals.
\<close>

section \<open>Messages\<close>

datatype message_role = RoleUser | RoleAssistant | RoleTool | RoleText string

text \<open>A block with the pointers the code gives it, which may be nil.\<close>

datatype block =
    BlockText string
  | BlockToolCall "tool_call option"
  | BlockToolResult "tool_result option"
  | BlockUnknown string

record message =
  mg_role :: message_role
  mg_blocks :: "block list"

definition user_text :: "string \<Rightarrow> message" where
  "user_text text = \<lparr>mg_role = RoleUser, mg_blocks = [BlockText text]\<rparr>"

definition assistant_text :: "string \<Rightarrow> message" where
  "assistant_text text = \<lparr>mg_role = RoleAssistant, mg_blocks = [BlockText text]\<rparr>"

definition assistant_tool_calls :: "string \<Rightarrow> tool_call list \<Rightarrow> message" where
  "assistant_tool_calls text calls = \<lparr>mg_role = RoleAssistant,
     mg_blocks = (if text \<noteq> [] then [BlockText text] else []) @ map (BlockToolCall \<circ> Some) calls\<rparr>"

definition tool_result_message :: "tool_result \<Rightarrow> message" where
  "tool_result_message r = \<lparr>mg_role = RoleTool, mg_blocks = [BlockToolResult (Some r)]\<rparr>"

definition tool_result_text :: "tool_call \<Rightarrow> string \<Rightarrow> bool \<Rightarrow> message" where
  "tool_result_text call text isError = tool_result_message
     \<lparr>tr_call_id = tc_id call, tr_name = tc_name call, tr_content = Some (JStr text), tr_is_error = isError\<rparr>"

fun block_text :: "block \<Rightarrow> string list" where
  "block_text (BlockText text) = (if text \<noteq> [] then [text] else [])"
| "block_text _ = []"

definition message_text :: "message \<Rightarrow> string" where
  "message_text m = join_with [CHR 0x0A] (concat (map block_text (mg_blocks m)))"

definition validate_tool_result :: "tool_result \<Rightarrow> go_error option" where
  "validate_tool_result r =
     (if trim_space (tr_call_id r) = [] then Some (ErrText ''tool result call ID is required'')
      else if trim_space (tr_name r) = [] then Some (ErrText ''tool result name is required'')
      else None)"

fun validate_block :: "block \<Rightarrow> go_error option" where
  "validate_block (BlockText text) = (if text = [] then Some (ErrText ''text block must not be empty'') else None)"
| "validate_block (BlockToolCall None) = Some (ErrText ''tool call block requires a tool call'')"
| "validate_block (BlockToolCall (Some c)) = validate_tool_call c"
| "validate_block (BlockToolResult None) = Some (ErrText ''tool result block requires a tool result'')"
| "validate_block (BlockToolResult (Some r)) = validate_tool_result r"
| "validate_block (BlockUnknown t) = Some (ErrText (''unknown block type '' @ quoted t))"

fun first_error :: "('a \<Rightarrow> go_error option) \<Rightarrow> 'a list \<Rightarrow> go_error option" where
  "first_error check [] = None"
| "first_error check (x # xs) = (case check x of Some err \<Rightarrow> Some err | None \<Rightarrow> first_error check xs)"

definition validate_message :: "message \<Rightarrow> go_error option" where
  "validate_message m =
     (case mg_role m of
        RoleText r \<Rightarrow> Some (ErrText (''unknown message role '' @ quoted r))
      | _ \<Rightarrow> if mg_blocks m = [] then Some (ErrText ''message must contain at least one block'')
             else first_error validate_block (mg_blocks m))"

section \<open>Requests, responses, usage\<close>

record model_ref =
  mf_provider :: string
  mf_name :: string

definition parse_model_id :: "string \<Rightarrow> go_error + model_ref" where
  "parse_model_id raw =
     (case go_cut raw ''/'' of (pr, name, ok) \<Rightarrow>
        if \<not> ok \<or> trim_space pr = [] \<or> trim_space name = []
        then Inl (ErrText (''model ID '' @ quoted raw @ '' must use provider/model form''))
        else Inr \<lparr>mf_provider = trim_space pr, mf_name = trim_space name\<rparr>)"

record tool_spec =
  tp_name :: string
  tp_description :: string
  tp_input_schema :: string

record request =
  rq_model :: string
  rq_system :: string
  rq_messages :: "message list"
  rq_tools :: "tool_spec list"
  rq_cache_key :: string

definition validate_request :: "request \<Rightarrow> go_error option" where
  "validate_request r =
     (case parse_model_id (rq_model r) of Inl err \<Rightarrow> Some err | Inr _ \<Rightarrow> first_error validate_message (rq_messages r))"

datatype stop_reason = StopEndTurn | StopToolUse | StopMaxTokens | StopText string

fun stop_reason_text :: "stop_reason \<Rightarrow> string" where
  "stop_reason_text StopEndTurn = ''end_turn''"
| "stop_reason_text StopToolUse = ''tool_use''"
| "stop_reason_text StopMaxTokens = ''max_tokens''"
| "stop_reason_text (StopText s) = s"

record usage =
  us_input :: int
  us_output :: int
  us_cost :: rat

definition zero_usage :: usage where "zero_usage = \<lparr>us_input = 0, us_output = 0, us_cost = 0\<rparr>"

definition usage_add :: "usage \<Rightarrow> usage \<Rightarrow> usage" where
  "usage_add u nxt = \<lparr>us_input = i64 (us_input u + us_input nxt), us_output = i64 (us_output u + us_output nxt),
     us_cost = us_cost u + us_cost nxt\<rparr>"

record prompt_cache_metadata =
  pc_requested :: bool
  pc_supported :: bool
  pc_applied :: bool
  pc_cache_key :: string
  pc_read_tokens :: int
  pc_write_tokens :: int
  pc_reason :: string

record response_metadata =
  rm_provider :: string
  rm_model :: string
  rm_latency :: duration
  rm_prompt_cache :: prompt_cache_metadata

record response =
  rp_text :: string
  rp_tool_calls :: "tool_call list"
  rp_stop :: stop_reason
  rp_usage :: usage
  rp_metadata :: response_metadata

definition zero_response :: response where
  "zero_response = \<lparr>rp_text = [], rp_tool_calls = [], rp_stop = StopText [], rp_usage = zero_usage,
     rp_metadata = \<lparr>rm_provider = [], rm_model = [], rm_latency = 0, rm_prompt_cache =
       \<lparr>pc_requested = False, pc_supported = False, pc_applied = False, pc_cache_key = [], pc_read_tokens = 0,
        pc_write_tokens = 0, pc_reason = []\<rparr>\<rparr>\<rparr>"

text \<open>A provider answers a request under the error of its context.\<close>

record 'w provider_impl =
  pv_name :: string
  pv_complete :: "('w \<Rightarrow> go_error option) \<Rightarrow> request \<Rightarrow> 'w \<Rightarrow> (response \<times> go_error option) \<times> 'w"

section \<open>Classified errors\<close>

definition transport_error :: "string \<Rightarrow> go_error \<Rightarrow> go_error" where
  "transport_error providerName err =
     (if errors_is err CtxCanceled \<or> errors_is err CtxDeadline then err
      else ErrClassified KTransient (ErrWrap (providerName @ '' request: '') err []))"

definition status_error :: "string \<Rightarrow> string \<Rightarrow> int \<Rightarrow> string \<Rightarrow> go_error" where
  "status_error providerName status code detail =
     (let message = trim_space (providerName @ '' '' @ status);
          detail = trim_space detail;
          err = ErrText (if detail \<noteq> [] then message @ '': '' @ detail else message)
      in if code = 429 then ErrClassified KRateLimit err
         else if code = 401 \<or> code = 403 then ErrClassified KAuth err
         else if code = 400 \<or> code = 422 then ErrClassified KValidation err
         else if 500 \<le> code then ErrClassified KTransient err
         else ErrClassified KPermanent err)"

section \<open>Pricing\<close>

record model_rate =
  rate_input :: rat
  rate_output :: rat
  rate_cache_read :: rat
  rate_cache_write :: rat

definition per_million :: "rat \<Rightarrow> rat \<Rightarrow> rat \<Rightarrow> rat \<Rightarrow> model_rate" where
  "per_million inp out cacheRead cacheWrite =
     \<lparr>rate_input = inp / 1000000, rate_output = out / 1000000, rate_cache_read = cacheRead / 1000000,
      rate_cache_write = cacheWrite / 1000000\<rparr>"

definition pricing_cost :: "(string, model_rate) gomap \<Rightarrow> string \<Rightarrow> usage \<Rightarrow> prompt_cache_metadata \<Rightarrow> rat option" where
  "pricing_cost t model u c =
     (case mget t model of
        None \<Rightarrow> None
      | Some r \<Rightarrow> Some (of_int (us_input u) * rate_input r + of_int (us_output u) * rate_output r
          + of_int (pc_read_tokens c) * rate_cache_read r + of_int (pc_write_tokens c) * rate_cache_write r))"

end
