(* ===== verification/Budget_Gate.thy ===== *)
theory Budget_Gate
  imports Provider
begin

text \<open>
  Two resources that the runs of an agent share: the budget ledger (\<open>budget_ledger.go\<close>), with the
  usage of a run and of its sub-agents, and the provider gate (\<open>provider_gate.go\<close>), a semaphore per
  provider. The gate is a step relation: an acquisition that would block is not enabled, and the
  release functions it handed out, which work once, are the tickets of the state.
\<close>

section \<open>Budget ledger\<close>

record budget_ledger =
  bl_budget :: budget
  bl_usage :: usage

definition new_budget_ledger :: "budget \<Rightarrow> budget_ledger" where
  "new_budget_ledger b = \<lparr>bl_budget = b, bl_usage = zero_usage\<rparr>"

definition budget_fields :: "string \<Rightarrow> budget \<Rightarrow> usage \<Rightarrow> payload" where
  "budget_fields what b u =
     [(''budget'', AnyStr what), (''max_tokens'', AnyNum (of_int (max_tokens b))),
      (''used_tokens'', AnyNum (of_int (i64 (us_input u + us_output u)))),
      (''input_tokens'', AnyNum (of_int (us_input u))), (''output_tokens'', AnyNum (of_int (us_output u))),
      (''max_cost_usd'', AnyNum (max_cost_usd b)), (''used_cost_usd'', AnyNum (us_cost u))]"

definition budget_payload :: "budget \<Rightarrow> usage \<Rightarrow> payload option" where
  "budget_payload b u =
     (let usedTokens = i64 (us_input u + us_output u) in
      if 0 < max_tokens b \<and> max_tokens b < usedTokens then Some (budget_fields ''tokens'' b u)
      else if 0 < max_cost_usd b \<and> max_cost_usd b < us_cost u then Some (budget_fields ''cost_usd'' b u)
      else None)"

text \<open>The payload is there when the budget is exceeded.\<close>

definition ledger_add :: "usage \<Rightarrow> budget_ledger \<Rightarrow> payload option \<times> budget_ledger" where
  "ledger_add u l =
     (let l' = l \<lparr>bl_usage := usage_add (bl_usage l) u\<rparr> in (budget_payload (bl_budget l') (bl_usage l'), l'))"

definition ledger_exceeded :: "budget_ledger \<Rightarrow> payload option" where
  "ledger_exceeded l = budget_payload (bl_budget l) (bl_usage l)"

definition ledger_snapshot :: "budget_ledger \<Rightarrow> usage" where
  "ledger_snapshot l = bl_usage l"

section \<open>Provider gate\<close>

record provider_gate =
  pg_limits :: "(string, int) gomap"
  pg_semaphore :: "(string, nat) gomap"

fun gate_limits :: "(string \<times> int) list \<Rightarrow> (string, int) gomap \<Rightarrow> (string, int) gomap" where
  "gate_limits [] copied = copied"
| "gate_limits ((name, limit) # rest) copied =
     (let name = trim_space name in
      gate_limits rest (if name = [] \<or> limit \<le> 0 then copied else mput name limit copied))"

definition new_provider_gate :: "(string \<times> int) list \<Rightarrow> provider_gate option" where
  "new_provider_gate limits =
     (let copied = gate_limits limits [] in
      if length copied = 0 then None else Some \<lparr>pg_limits = copied, pg_semaphore = []\<rparr>)"

text \<open>The channel of a provider: its capacity and how many slots are taken, or none.\<close>

definition gate_channel :: "string \<Rightarrow> provider_gate \<Rightarrow> (int \<times> nat) option \<times> provider_gate" where
  "gate_channel name g =
     (case mget (pg_limits g) name of
        None \<Rightarrow> (None, g)
      | Some limit \<Rightarrow>
          if limit \<le> 0 then (None, g)
          else case mget (pg_semaphore g) name of
            Some n \<Rightarrow> (Some (limit, n), g)
          | None \<Rightarrow> (Some (limit, 0), g \<lparr>pg_semaphore := mput name 0 (pg_semaphore g)\<rparr>))"

text \<open>A release function: of no slot, or of a slot of a provider, with whether it has been used.\<close>

datatype ticket = NoSlot | Slot string bool

definition gate_acquire :: "string \<Rightarrow> provider_gate \<Rightarrow> (ticket \<times> provider_gate) option" where
  "gate_acquire name g =
     (let name = trim_space name in
      case gate_channel name g of
        (None, g') \<Rightarrow> Some (NoSlot, g')
      | (Some (limit, n), g') \<Rightarrow>
          if int n < limit then Some (Slot name False, g' \<lparr>pg_semaphore := mput name (n + 1) (pg_semaphore g')\<rparr>)
          else None)"

definition slots_taken :: "provider_gate \<Rightarrow> string \<Rightarrow> nat" where
  "slots_taken g name = (case mget (pg_semaphore g) name of Some n \<Rightarrow> n | None \<Rightarrow> 0)"

definition gate_release :: "ticket \<Rightarrow> provider_gate \<Rightarrow> ticket \<times> provider_gate" where
  "gate_release tk g =
     (case tk of
        NoSlot \<Rightarrow> (NoSlot, g)
      | Slot name used \<Rightarrow>
          if used then (tk, g)
          else (Slot name True, g \<lparr>pg_semaphore := mput name (slots_taken g name - 1) (pg_semaphore g)\<rparr>))"

record gate_state =
  gs_gate :: provider_gate
  gs_tickets :: "ticket list"

inductive gate_step :: "gate_state \<Rightarrow> gate_state \<Rightarrow> bool" where
  acquire: "gate_acquire name (gs_gate s) = Some (tk, g) \<Longrightarrow>
     gate_step s \<lparr>gs_gate = g, gs_tickets = gs_tickets s @ [tk]\<rparr>"
| release: "i < length (gs_tickets s) \<Longrightarrow> gate_release (gs_tickets s ! i) (gs_gate s) = (tk, g) \<Longrightarrow>
     gate_step s \<lparr>gs_gate = g, gs_tickets = (gs_tickets s)[i := tk]\<rparr>"

code_pred gate_step .

inductive_cases gate_stepE: "gate_step s s'"

definition holds_slot :: "string \<Rightarrow> ticket \<Rightarrow> bool" where
  "holds_slot name tk = (tk = Slot name False)"

text \<open>The calls in flight for a provider: the slots handed out and not yet released.\<close>

definition in_flight :: "gate_state \<Rightarrow> string \<Rightarrow> nat" where
  "in_flight s name = length (filter (holds_slot name) (gs_tickets s))"

text \<open>The semaphores count the calls in flight, and no provider with a limit is above it.\<close>

definition gate_inv :: "gate_state \<Rightarrow> bool" where
  "gate_inv s = (\<forall>name. slots_taken (gs_gate s) name = in_flight s name
     \<and> (in_flight s name > 0 \<longrightarrow> (\<exists>limit. mget (pg_limits (gs_gate s)) name = Some limit \<and> int (in_flight s name) \<le> limit)))"

definition fresh_gate :: "provider_gate \<Rightarrow> gate_state" where
  "fresh_gate g = \<lparr>gs_gate = g, gs_tickets = []\<rparr>"

lemma count_update:
  "i < length xs \<Longrightarrow> length (filter P (xs[i := x])) + (if P (xs ! i) then 1 else 0)
    = length (filter P xs) + (if P x then 1 else 0)"
proof (induction xs arbitrary: i)
  case (Cons y ys)
  then show ?case by (cases i) auto
qed simp

lemma gate_acquire_effect:
  assumes "gate_acquire name g = Some (tk, g')"
  shows "pg_limits g' = pg_limits g"
    "slots_taken g' n = slots_taken g n + (if holds_slot n tk then 1 else 0)"
    "holds_slot n tk \<Longrightarrow> \<exists>limit. mget (pg_limits g) n = Some limit \<and> int (slots_taken g n) < limit"
  using assms
  by (auto simp: gate_acquire_def gate_channel_def slots_taken_def holds_slot_def Let_def
    split: option.splits if_splits)

lemma gate_release_effect:
  assumes "gate_release tk g = (tk', g')"
  shows "pg_limits g' = pg_limits g" "\<not> holds_slot n tk'"
    "slots_taken g' n = slots_taken g n - (if holds_slot n tk then 1 else 0)"
  using assms
  by (auto simp: gate_release_def holds_slot_def slots_taken_def split: ticket.splits if_splits)

lemma gate_step_inv:
  assumes "gate_step s s'" "gate_inv s"
  shows "gate_inv s'"
  using assms(1)
proof (cases rule: gate_step.cases)
  case (acquire name tk g)
  note eff = gate_acquire_effect [OF acquire(2)]
  show ?thesis
    unfolding gate_inv_def
  proof
    fix n
    have "in_flight s' n = in_flight s n + (if holds_slot n tk then 1 else 0)"
      by (simp add: acquire(1) in_flight_def)
    with assms(2) eff(1) eff(2,3) [of n] acquire(1)
    show "slots_taken (gs_gate s') n = in_flight s' n \<and> (in_flight s' n > 0 \<longrightarrow>
        (\<exists>limit. mget (pg_limits (gs_gate s')) n = Some limit \<and> int (in_flight s' n) \<le> limit))"
      by (auto simp: gate_inv_def)
  qed
next
  case (release i tk g)
  note eff = gate_release_effect [OF release(3)]
  show ?thesis
    unfolding gate_inv_def
  proof
    fix n
    have "in_flight s' n + (if holds_slot n (gs_tickets s ! i) then 1 else 0) = in_flight s n"
      using count_update [OF release(2), of "holds_slot n" tk] eff(2) [of n] by (simp add: release(1) in_flight_def)
    with assms(2) eff(1) eff(3) [of n] release(1)
    show "slots_taken (gs_gate s') n = in_flight s' n \<and> (in_flight s' n > 0 \<longrightarrow>
        (\<exists>limit. mget (pg_limits (gs_gate s')) n = Some limit \<and> int (in_flight s' n) \<le> limit))"
      by (cases "holds_slot n (gs_tickets s ! i)") (force simp: gate_inv_def)+
  qed
qed

lemma gate_step_limits: "gate_step s s' \<Longrightarrow> pg_limits (gs_gate s') = pg_limits (gs_gate s)"
  by (elim gate_stepE) (simp_all add: gate_acquire_effect(1) gate_release_effect(1))

lemma gate_reachable:
  assumes "gate_step\<^sup>*\<^sup>* (fresh_gate g) s" "new_provider_gate limits = Some g"
  shows "gate_inv s \<and> pg_limits (gs_gate s) = pg_limits g"
  using assms(1)
proof (induction rule: rtranclp_induct)
  case base
  have "pg_semaphore g = []" using assms(2) by (auto simp: new_provider_gate_def Let_def split: if_splits)
  then show ?case by (simp add: gate_inv_def fresh_gate_def in_flight_def slots_taken_def)
next
  case (step s s')
  then show ?case using gate_step_inv gate_step_limits by metis
qed

lemma gate_limits_positive:
  "\<forall>n l. mget acc n = Some l \<longrightarrow> 0 < l \<Longrightarrow> mget (gate_limits ls acc) n = Some l \<Longrightarrow> 0 < l"
  by (induction ls acc rule: gate_limits.induct) (auto simp: Let_def split: if_splits)

lemma new_gate_positive: "new_provider_gate limits = Some g \<Longrightarrow> mget (pg_limits g) n = Some l \<Longrightarrow> 0 < l"
  using gate_limits_positive [of "[]" limits n l] by (auto simp: new_provider_gate_def Let_def split: if_splits)

lemma gate_never_over:
  assumes "new_provider_gate limits = Some g" "gate_step\<^sup>*\<^sup>* (fresh_gate g) s" "mget (pg_limits g) name = Some limit"
  shows "int (in_flight s name) \<le> limit"
proof (cases "in_flight s name = 0")
  case False
  with gate_reachable [OF assms(2,1)] obtain l
    where "mget (pg_limits g) name = Some l" "int (in_flight s name) \<le> l"
    unfolding gate_inv_def by (metis gr0I)
  with assms(3) show ?thesis by simp
qed (use new_gate_positive [OF assms(1,3)] in simp)

lemma gate_acquire_blocks:
  "gate_acquire name g = None \<longleftrightarrow>
    (\<exists>l. mget (pg_limits g) (trim_space name) = Some l \<and> 0 < l \<and> l \<le> int (slots_taken g (trim_space name)))"
  by (auto simp: gate_acquire_def gate_channel_def slots_taken_def Let_def split: option.splits if_splits)

text \<open>C32
  In every state that acquisitions and releases can reach, in whatever order and however often each
  release function is called, no provider has more calls in flight than its limit.
\<close>

theorem gate_never_over_limit:
  assumes "new_provider_gate limits = Some g" "gate_step\<^sup>*\<^sup>* (fresh_gate g) s" "mget (pg_limits g) name = Some limit"
  shows "int (in_flight s name) \<le> limit"
  using assms by (rule gate_never_over)

text \<open>
  The gate never blocks for nothing and never deadlocks: in a reachable state an acquisition blocks
  exactly when its own provider is at its limit, and then some release function is outstanding for
  that provider, after which the acquisition goes through.
\<close>

theorem gate_progress:
  assumes "new_provider_gate limits = Some g" "gate_step\<^sup>*\<^sup>* (fresh_gate g) s"
  shows "(gate_acquire name (gs_gate s) = None \<longleftrightarrow>
      mget (pg_limits g) (trim_space name) = Some (int (in_flight s (trim_space name))))
    \<and> (gate_acquire name (gs_gate s) = None \<longrightarrow>
      (\<exists>i < length (gs_tickets s). gs_tickets s ! i = Slot (trim_space name) False
        \<and> gate_acquire name (snd (gate_release (gs_tickets s ! i) (gs_gate s))) \<noteq> None))"
proof -
  let ?n = "trim_space name"
  have inv: "gate_inv s" and lim: "pg_limits (gs_gate s) = pg_limits g"
    using gate_reachable [OF assms(2,1)] by auto
  have taken: "slots_taken (gs_gate s) ?n = in_flight s ?n" using inv by (simp add: gate_inv_def)
  have pos: "mget (pg_limits g) ?n = Some l \<Longrightarrow> 0 < l \<and> int (in_flight s ?n) \<le> l" for l
    using new_gate_positive [OF assms(1)] gate_never_over [OF assms] by blast
  have blocks: "gate_acquire name (gs_gate s) = None \<longleftrightarrow> mget (pg_limits g) ?n = Some (int (in_flight s ?n))"
    unfolding gate_acquire_blocks lim taken using pos by force
  moreover have "\<exists>i < length (gs_tickets s). gs_tickets s ! i = Slot ?n False
      \<and> gate_acquire name (snd (gate_release (gs_tickets s ! i) (gs_gate s))) \<noteq> None"
    if full: "mget (pg_limits g) ?n = Some (int (in_flight s ?n))"
  proof -
    from pos [OF full] have "filter (holds_slot ?n) (gs_tickets s) \<noteq> []" by (auto simp: in_flight_def)
    then obtain i where i: "i < length (gs_tickets s)" "gs_tickets s ! i = Slot ?n False"
      by (auto simp: filter_empty_conv holds_slot_def in_set_conv_nth)
    obtain tk g' where rel: "gate_release (gs_tickets s ! i) (gs_gate s) = (tk, g')" by fastforce
    have "slots_taken g' ?n = in_flight s ?n - 1" "pg_limits g' = pg_limits g"
      using gate_release_effect(1) [OF rel] gate_release_effect(3) [OF rel, of ?n] i taken lim by (simp_all add: holds_slot_def)
    with full pos [OF full] have "gate_acquire name g' \<noteq> None" by (auto simp: gate_acquire_blocks)
    with i rel show ?thesis by auto
  qed
  ultimately show ?thesis by blast
qed

definition sample_gate :: provider_gate where
  "sample_gate = the (new_provider_gate [(''openai'', 1), ('' '', 3), (''groq'', -2)])"

definition busy_gate :: gate_state where
  "busy_gate = (case gate_acquire ''openai'' sample_gate of Some (tk, g) \<Rightarrow> \<lparr>gs_gate = g, gs_tickets = [tk]\<rparr>)"

lemma sample_gate_new: "new_provider_gate [(''openai'', 1), ('' '', 3), (''groq'', -2)] = Some sample_gate"
  by code_simp

lemma busy_gate_reachable: "gate_step\<^sup>*\<^sup>* (fresh_gate sample_gate) busy_gate"
proof -
  have "gate_acquire ''openai'' sample_gate \<noteq> None" by code_simp
  then obtain tk g where a: "gate_acquire ''openai'' sample_gate = Some (tk, g)" by auto
  have "gate_step (fresh_gate sample_gate) busy_gate"
    using gate_step.acquire [of "''openai''" "fresh_gate sample_gate"] a by (simp add: fresh_gate_def busy_gate_def)
  then show ?thesis by simp
qed

theorem gate_never_over_limit_witness: "int (in_flight busy_gate ''openai'') \<le> 1"
proof -
  have "mget (pg_limits sample_gate) ''openai'' = Some 1" by code_simp
  from gate_never_over_limit [OF sample_gate_new busy_gate_reachable this] show ?thesis .
qed

theorem gate_progress_witness:
  "gate_acquire '' openai'' (gs_gate busy_gate) = None \<and> gate_acquire ''groq'' (gs_gate busy_gate) \<noteq> None"
proof -
  have t: "trim_space '' openai'' = ''openai''" "trim_space ''groq'' = ''groq''"
    "mget (pg_limits sample_gate) ''openai'' = Some 1" "mget (pg_limits sample_gate) ''groq'' = None"
    "in_flight busy_gate ''openai'' = 1"
    by code_simp+
  show ?thesis
    using gate_progress [OF sample_gate_new busy_gate_reachable, of "'' openai''"]
      gate_progress [OF sample_gate_new busy_gate_reachable, of "''groq''"] by (simp add: t)
qed

section \<open>The ledger\<close>

text \<open>
  A budget is exceeded strictly: by the tokens first, else by the cost, and a limit that is not
  positive is no limit.
\<close>

lemma ledger_exceeded_iff:
  "ledger_exceeded l \<noteq> None \<longleftrightarrow>
     (0 < max_tokens (bl_budget l) \<and> max_tokens (bl_budget l) < i64 (us_input (bl_usage l) + us_output (bl_usage l)))
     \<or> (0 < max_cost_usd (bl_budget l) \<and> max_cost_usd (bl_budget l) < us_cost (bl_usage l))"
  by (simp add: ledger_exceeded_def budget_payload_def Let_def)

lemma ledger_add_exceeded: "ledger_add u l = (p, l') \<Longrightarrow> p = ledger_exceeded l' \<and> bl_budget l' = bl_budget l"
  by (auto simp: ledger_add_def ledger_exceeded_def Let_def)

end
