(* ===== verification/Harness.thy ===== *)
theory Harness
  imports Budget_Gate
begin

text \<open>
  \<open>internal/harness\<close>, the loop that runs one agent: calls of the model with retries and fallback
  models (\<open>harness.go\<close>), execution of the tool calls it asks for, alone or as a parallel group of
  sub-agents (\<open>tool_calls.go\<close>), validation and repair of the result, budgets, and suspension for an
  approval (\<open>suspension.go\<close>, \<open>approval.go\<close>).

  A \<open>context.Context\<close> is a \<open>tool_env\<close>: the functions that give its error, and the values it carries.
  The dependencies of the harness (provider, store, event stream, clock, gate, random identifiers)
  are the fields of the record \<open>harness\<close> and act on the world \<open>'w\<close>; the ledger is part of the world, and
  \<open>hn_ledger_ref\<close> the pointer under which a context hands it to the sub-agents.
  The continuation of a suspended run, a closure in the code, is the record \<open>suspended_run\<close>.
  Streaming of token deltas is not modelled: \<open>pv_complete\<close> is the whole call of the provider.
\<close>

section \<open>The harness and its outcome\<close>

datatype status = StatusCompleted | StatusTruncated | StatusSuspended | StatusFailed

fun status_text :: "status \<Rightarrow> string" where
  "status_text StatusCompleted = ''completed''"
| "status_text StatusTruncated = ''truncated''"
| "status_text StatusSuspended = ''suspended''"
| "status_text StatusFailed = ''failed''"

record outcome =
  oc_status :: status
  oc_text :: string
  oc_iterations :: int
  oc_session :: session
  oc_tool_calls :: "tool_call list"
  oc_usage :: usage
  oc_budget_exceeded :: string

record result_schema =
  rs_name :: string
  rs_json :: string
  rs_normalize :: "string \<Rightarrow> go_error + string"

type_synonym 'w io = "'w \<Rightarrow> go_error option \<times> 'w"

text \<open>The operations of the state store that the harness calls, under the error of a context.\<close>

record 'w harness_store =
  hs_save_execution :: "go_error option \<Rightarrow> execution \<Rightarrow> 'w io"
  hs_save_session :: "go_error option \<Rightarrow> session \<Rightarrow> 'w io"
  hs_add_violation :: "go_error option \<Rightarrow> schema_violation \<Rightarrow> 'w io"
  hs_save_approval :: "go_error option \<Rightarrow> pending_approval \<Rightarrow> 'w io"
  hs_idem :: "('w \<Rightarrow> go_error option) \<Rightarrow> ('w \<Rightarrow> go_error option) \<Rightarrow> string \<Rightarrow> string \<Rightarrow> 'w idem_env"

record 'w harness =
  hn_provider :: "'w provider_impl"
  hn_model :: string
  hn_system_prompt :: string
  hn_budget :: budget
  hn_parent :: "session option"
  hn_executor :: "'w executor"
  hn_tools :: "tool_spec list"
  hn_store :: "'w harness_store option"
  hn_append :: "go_error option \<Rightarrow> event \<Rightarrow> 'w io"
  hn_result_schema :: "result_schema option"
  hn_schema_repairs :: int
  hn_provider_retries :: int
  hn_retry_backoff :: duration
  hn_sequential :: bool
  hn_pricing :: "(string, model_rate) gomap"
  hn_fallbacks :: "string list"
  hn_resolver :: "(string \<Rightarrow> go_error + 'w provider_impl) option"
  hn_acquire :: "string \<Rightarrow> ('w \<Rightarrow> go_error option) \<Rightarrow> 'w io"
  hn_release :: "string \<Rightarrow> 'w \<Rightarrow> 'w"
  hn_idem_scope :: string
  hn_ledger_ref :: nat
  hn_ledger :: "'w \<Rightarrow> budget_ledger"
  hn_set_ledger :: "budget_ledger \<Rightarrow> 'w \<Rightarrow> 'w"
  hn_now :: "'w \<Rightarrow> go_time"
  hn_fresh :: "'w \<Rightarrow> string \<Rightarrow> string"
  hn_sleep :: "('w \<Rightarrow> go_error option) \<Rightarrow> duration \<Rightarrow> 'w io"
  hn_approval_id :: "'w \<Rightarrow> string \<times> 'w"
  hn_schedule :: "'w \<Rightarrow> nat \<Rightarrow> nat list"
  hn_cache_key :: "string \<Rightarrow> tool_spec list \<Rightarrow> string"

section \<open>Contexts\<close>

definition map_ctx_err :: "(('w \<Rightarrow> go_error option) \<Rightarrow> 'w \<Rightarrow> go_error option) \<Rightarrow> 'w tool_env \<Rightarrow> 'w tool_env" where
  "map_ctx_err f ctx = ctx \<lparr>te_ctx_err := f (te_ctx_err ctx), te_tool_ctx_err := f (te_tool_ctx_err ctx)\<rparr>"

definition without_cancel :: "'w tool_env \<Rightarrow> 'w tool_env" where
  "without_cancel ctx = map_ctx_err (\<lambda>_ _. None) ctx"

text \<open>\<open>context.WithTimeout\<close>, from the instant of the world \<open>w0\<close>, and a group that has been cancelled.\<close>

definition with_timeout :: "('w \<Rightarrow> go_time) \<Rightarrow> duration \<Rightarrow> 'w \<Rightarrow> 'w tool_env \<Rightarrow> 'w tool_env" where
  "with_timeout clock d w0 ctx = map_ctx_err (\<lambda>err w. case err w of
       Some e \<Rightarrow> Some e
     | None \<Rightarrow> if clock w0 + d \<le> clock w then Some CtxDeadline else None) ctx"

definition with_cancelled :: "bool \<Rightarrow> 'w tool_env \<Rightarrow> 'w tool_env" where
  "with_cancelled c ctx = map_ctx_err (\<lambda>err w. case err w of
       Some e \<Rightarrow> Some e
     | None \<Rightarrow> if c then Some CtxCanceled else None) ctx"

definition run_ctx :: "'w harness \<Rightarrow> 'w tool_env \<Rightarrow> 'w \<Rightarrow> 'w tool_env" where
  "run_ctx h ctx w = (if 0 < max_wall_clock (hn_budget h) then with_timeout (hn_now h) (max_wall_clock (hn_budget h)) w ctx else ctx)"

definition wall_clock_budget_payload :: "'w harness \<Rightarrow> 'w tool_env \<Rightarrow> 'w \<Rightarrow> payload option" where
  "wall_clock_budget_payload h ctx w =
     (if max_wall_clock (hn_budget h) \<le> 0 then None
      else case te_ctx_err ctx w of
        None \<Rightarrow> None
      | Some err \<Rightarrow>
          if errors_is err CtxDeadline
          then Some [(''budget'', AnyStr ''wallclock''),
                     (''max_wallclock_ms'', AnyNum (of_int (max_wall_clock (hn_budget h) div 1000000)))]
          else None)"

section \<open>Events\<close>

text \<open>\<open>New\<close> always installs an event stream, so that an event is never dropped for want of one.\<close>

definition emit :: "'w harness \<Rightarrow> 'w tool_env \<Rightarrow> session \<Rightarrow> string \<Rightarrow> payload \<Rightarrow> 'w io" where
  "emit h ctx s kind p w = hn_append h (te_ctx_err ctx w)
     (zero_event \<lparr>ev_kind := kind, ev_exec_id := ss_exec_id s, ev_session_id := ss_session_id s,
        ev_trace_id := ss_trace_id s, ev_payload := p\<rparr>) w"

definition any_int :: "int \<Rightarrow> go_any" where "any_int n = AnyNum (of_int n)"

definition any_err :: "go_error \<Rightarrow> go_any" where "any_err err = AnyStr (err_text err)"

definition provider_error_kind :: "go_error \<Rightarrow> string" where
  "provider_error_kind err = (case as_classified err of Some k \<Rightarrow> error_kind_text k | None \<Rightarrow> [])"

definition emit_provider_failure ::
  "'w harness \<Rightarrow> 'w tool_env \<Rightarrow> session \<Rightarrow> int \<Rightarrow> int \<Rightarrow> 'w provider_impl \<Rightarrow> string \<Rightarrow> go_error \<Rightarrow> bool \<Rightarrow> 'w io" where
  "emit_provider_failure h ctx s iteration attempt p model err retrying =
     emit h ctx s ''llm_call_failed''
       ([(''iteration'', any_int iteration), (''attempt'', any_int attempt), (''model'', AnyStr model), (''error'', any_err err),
         (''transient'', AnyBool (is_transient_error err)), (''retrying'', AnyBool retrying)]
        @ (if trim_space (pv_name p) \<noteq> [] then [(''provider'', AnyStr (trim_space (pv_name p)))] else [])
        @ (if provider_error_kind err \<noteq> [] then [(''error_kind'', AnyStr (provider_error_kind err))] else []))"

definition emit_model_fallback ::
  "'w harness \<Rightarrow> 'w tool_env \<Rightarrow> session \<Rightarrow> int \<Rightarrow> string \<Rightarrow> string \<Rightarrow> go_error \<Rightarrow> 'w io" where
  "emit_model_fallback h ctx s iteration fromModel toModel err =
     emit h ctx s ''model_fallback''
       ([(''iteration'', any_int iteration), (''from_model'', AnyStr fromModel), (''to_model'', AnyStr toModel), (''error'', any_err err)]
        @ (if provider_error_kind err \<noteq> [] then [(''error_kind'', AnyStr (provider_error_kind err))] else []))"

definition prompt_cache_fields :: "prompt_cache_metadata \<Rightarrow> payload" where
  "prompt_cache_fields m =
     (if \<not> pc_requested m then []
      else [(''prompt_cache_requested'', AnyBool True), (''prompt_cache_supported'', AnyBool (pc_supported m)),
            (''prompt_cache_applied'', AnyBool (pc_applied m))]
        @ (if 0 < pc_read_tokens m then [(''prompt_cache_read_tokens'', any_int (pc_read_tokens m))] else [])
        @ (if 0 < pc_write_tokens m then [(''prompt_cache_write_tokens'', any_int (pc_write_tokens m))] else [])
        @ (if pc_reason m \<noteq> [] then [(''prompt_cache_reason'', AnyStr (pc_reason m))] else []))"

definition llm_metadata_fields :: "response_metadata \<Rightarrow> payload" where
  "llm_metadata_fields m =
     (if rm_provider m \<noteq> [] then [(''provider'', AnyStr (rm_provider m))] else [])
     @ (if rm_model m \<noteq> [] then [(''provider_model'', AnyStr (rm_model m))] else [])
     @ (if 0 < rm_latency m then [(''latency_ms'', any_int (rm_latency m div 1000000))] else [])
     @ prompt_cache_fields (rm_prompt_cache m)"

definition after_llm_fields :: "'w harness \<Rightarrow> int \<Rightarrow> response \<Rightarrow> payload" where
  "after_llm_fields h iteration resp =
     [(''iteration'', any_int iteration), (''model'', AnyStr (hn_model h)), (''stop_reason'', AnyStr (stop_reason_text (rp_stop resp))),
      (''tool_calls'', any_int (int (length (rp_tool_calls resp)))), (''input_tokens'', any_int (us_input (rp_usage resp))),
      (''output_tokens'', any_int (us_output (rp_usage resp))), (''cost_usd'', AnyNum (us_cost (rp_usage resp)))]"

section \<open>Calls of the model\<close>

type_synonym 'w completion = "'w \<Rightarrow> (response \<times> go_error option) \<times> 'w"

text \<open>\<open>complete\<close>: a slot of the gate, the call, and the release of the slot.\<close>

definition complete_once :: "'w harness \<Rightarrow> 'w tool_env \<Rightarrow> 'w provider_impl \<Rightarrow> request \<Rightarrow> 'w completion" where
  "complete_once h ctx p req w =
     (case hn_acquire h (pv_name p) (te_ctx_err ctx) w of
        (Some err, w1) \<Rightarrow> ((zero_response, Some err), w1)
      | (None, w1) \<Rightarrow>
          (case pv_complete p (te_ctx_err ctx) req w1 of (r, w2) \<Rightarrow> (r, hn_release h (pv_name p) w2)))"

definition wait_retry_backoff :: "'w harness \<Rightarrow> 'w tool_env \<Rightarrow> int \<Rightarrow> 'w io" where
  "wait_retry_backoff h ctx attempt w =
     (if hn_retry_backoff h \<le> 0 then (None, w)
      else hn_sleep h (te_ctx_err ctx) (i64 (hn_retry_backoff h * i64 (2 ^ nat attempt))) w)"

definition provider_attempt_number :: "go_error \<Rightarrow> bool \<Rightarrow> int \<Rightarrow> int" where
  "provider_attempt_number err retryAllowed maxRetries =
     (if retryAllowed \<and> is_transient_error err then maxRetries + 1 else 1)"

definition apply_pricing :: "'w harness \<Rightarrow> string \<Rightarrow> response \<Rightarrow> response" where
  "apply_pricing h model resp =
     (case pricing_cost (hn_pricing h) model (rp_usage resp) (rm_prompt_cache (rp_metadata resp)) of
        None \<Rightarrow> resp
      | Some cost \<Rightarrow> resp \<lparr>rp_usage := rp_usage resp \<lparr>us_cost := cost\<rparr>\<rparr>)"

definition should_retry_provider :: "'w harness \<Rightarrow> bool \<Rightarrow> go_error option \<Rightarrow> int \<Rightarrow> bool" where
  "should_retry_provider h retryAllowed err attempt =
     (case err of None \<Rightarrow> False
      | Some e \<Rightarrow> retryAllowed \<and> is_transient_error e \<and> attempt < hn_provider_retries h)"

text \<open>The loop of \<open>completeWithRetry\<close>; \<open>Inl\<close> is the error of an event or of the wait.\<close>

function provider_retry_loop ::
  "'w harness \<Rightarrow> 'w tool_env \<Rightarrow> session \<Rightarrow> int \<Rightarrow> 'w provider_impl \<Rightarrow> request \<Rightarrow> bool \<Rightarrow> int
     \<Rightarrow> response \<times> go_error option \<Rightarrow> 'w \<Rightarrow> (go_error option + response \<times> go_error option) \<times> 'w" where
  "provider_retry_loop h ctx s iteration p req retryAllowed attempt r w =
     (if \<not> should_retry_provider h retryAllowed (snd r) attempt then (Inr r, w)
      else case emit_provider_failure h ctx s iteration (attempt + 1) p (rq_model req) (the (snd r)) True w of
        (Some err, w1) \<Rightarrow> (Inl (errors_join [snd r, Some err]), w1)
      | (None, w1) \<Rightarrow>
          (case wait_retry_backoff h ctx attempt w1 of
             (Some err, w2) \<Rightarrow> (Inl (Some err), w2)
           | (None, w2) \<Rightarrow>
               (case complete_once h ctx p req w2 of (r', w3) \<Rightarrow>
                  provider_retry_loop h ctx s iteration p req retryAllowed (attempt + 1) r' w3)))"
  by pat_completeness auto
termination
  by (relation "measure (\<lambda>(h, ctx, s, i, p, req, b, a, r, w). nat (hn_provider_retries h - a))")
    (auto simp: should_retry_provider_def split: option.splits)

declare provider_retry_loop.simps [simp del]

definition complete_with_retry ::
  "'w harness \<Rightarrow> 'w tool_env \<Rightarrow> session \<Rightarrow> int \<Rightarrow> 'w provider_impl \<Rightarrow> request \<Rightarrow> bool \<Rightarrow> 'w completion" where
  "complete_with_retry h ctx s iteration p req retryAllowed w =
     (case complete_once h ctx p req w of (r, w1) \<Rightarrow>
      (case provider_retry_loop h ctx s iteration p req retryAllowed 0 r w1 of
         (Inl err, w2) \<Rightarrow> ((zero_response, err), w2)
       | (Inr (resp, None), w2) \<Rightarrow> ((apply_pricing h (rq_model req) resp, None), w2)
       | (Inr (resp, Some err), w2) \<Rightarrow>
           (case emit_provider_failure h ctx s iteration (provider_attempt_number err retryAllowed (hn_provider_retries h))
                   p (rq_model req) err False w2 of
              (Some emitErr, w3) \<Rightarrow> ((zero_response, errors_join [Some err, Some emitErr]), w3)
            | (None, w3) \<Rightarrow> ((resp, Some err), w3))))"

definition provider_for_model :: "'w harness \<Rightarrow> string \<Rightarrow> go_error + 'w provider_impl" where
  "provider_for_model h model = (case hn_resolver h of Some resolve \<Rightarrow> resolve model | None \<Rightarrow> Inr (hn_provider h))"

definition should_fallback :: "go_error \<Rightarrow> bool" where
  "should_fallback err = (case as_classified err of Some k \<Rightarrow> k \<in> {KTransient, KRateLimit, KAuth} | None \<Rightarrow> False)"

text \<open>The loop over the models; there is always a first one.\<close>

fun try_models ::
  "'w harness \<Rightarrow> 'w tool_env \<Rightarrow> session \<Rightarrow> int \<Rightarrow> request \<Rightarrow> bool \<Rightarrow> string list \<Rightarrow> 'w completion" where
  "try_models h ctx s iteration req retryAllowed [] w = ((zero_response, None), w)"
| "try_models h ctx s iteration req retryAllowed (model # models) w =
     (case provider_for_model h model of
        Inl resolveErr \<Rightarrow> ((zero_response, Some resolveErr), w)
      | Inr p \<Rightarrow>
          (case complete_with_retry h ctx s iteration p (req \<lparr>rq_model := model\<rparr>) retryAllowed w of
             ((resp, None), w1) \<Rightarrow> ((resp, None), w1)
           | ((resp, Some err), w1) \<Rightarrow>
               (case models of
                  [] \<Rightarrow> ((resp, Some err), w1)
                | nxt # _ \<Rightarrow>
                    if \<not> should_fallback err then ((resp, Some err), w1)
                    else case emit_model_fallback h ctx s iteration model nxt err w1 of
                      (Some emitErr, w2) \<Rightarrow> ((zero_response, errors_join [Some err, Some emitErr]), w2)
                    | (None, w2) \<Rightarrow> try_models h ctx s iteration req retryAllowed models w2)))"

definition complete_with_fallback ::
  "'w harness \<Rightarrow> 'w tool_env \<Rightarrow> session \<Rightarrow> int \<Rightarrow> request \<Rightarrow> bool \<Rightarrow> 'w completion" where
  "complete_with_fallback h ctx s iteration req retryAllowed =
     try_models h ctx s iteration req retryAllowed (hn_model h # hn_fallbacks h)"

section \<open>Tool calls\<close>

datatype tool_call_outcome =
    OutcomeBudget payload
  | OutcomeError go_error
  | OutcomeResult tool_result

text \<open>Why a sequence of tool calls stops early: a budget, or an error.\<close>

datatype tool_stop = StopBudget payload | StopError go_error

definition normalize_permission_effect :: "effect \<Rightarrow> effect" where
  "normalize_permission_effect e = (if e = EffectText [] then EffectSideEffecting else e)"

fun action_kind_text :: "action_kind \<Rightarrow> string" where
  "action_kind_text ActionToolCall = ''tool_call''"
| "action_kind_text ActionPushWebhook = ''push_webhook''"
| "action_kind_text ActionPushQueue = ''push_queue''"
| "action_kind_text ActionSinkFile = ''sink_file''"
| "action_kind_text ActionSinkLog = ''sink_log''"
| "action_kind_text (ActionKindText s) = s"

definition permission_fields :: "permission_audit \<Rightarrow> payload" where
  "permission_fields audit =
     (let a = au_action audit; d = au_decision audit in
      [(''action'', AnyStr (action_kind_text (ac_kind a))), (''tool'', AnyStr (ac_tool_name a)),
       (''tool_call_id'', AnyStr (ac_tool_call_id a)), (''allowed'', AnyBool (de_allowed d \<and> au_err audit = None)),
       (''effect'', AnyStr (effect_text (normalize_permission_effect (ac_effect a)))),
       (''requires_approval'', AnyBool (ac_requires_approval a))]
      @ (if ac_idempotency_key a \<noteq> [] then [(''idempotency_key_declared'', AnyBool True)] else [])
      @ (if ac_tool_kind a \<noteq> [] then [(''tool_kind'', AnyStr (ac_tool_kind a))] else [])
      @ (if ac_target a \<noteq> [] then [(''target'', AnyStr (ac_target a))] else [])
      @ (if ac_side_effects a \<noteq> [] then [(''side_effects'', AnyStrs (ac_side_effects a))] else [])
      @ (case au_err audit of
           Some err \<Rightarrow> [(''error'', any_err err)]
         | None \<Rightarrow> if \<not> de_allowed d \<and> de_reason d \<noteq> [] then [(''reason'', AnyStr (de_reason d))] else []))"

text \<open>The adapter of the store to the approval gate.\<close>

definition record_pending_approval ::
  "'w harness \<Rightarrow> 'w harness_store \<Rightarrow> ('w \<Rightarrow> go_error option) \<Rightarrow> approval_request \<Rightarrow> 'w \<Rightarrow> (go_error + string) \<times> 'w" where
  "record_pending_approval h st err req w =
     (case hn_approval_id h w of (i, w1) \<Rightarrow>
      (case hs_save_approval st (err w1)
         \<lparr>pa_id = i, pa_exec_id = ar_exec_id req, pa_session_id = ar_session_id req, pa_trace_id = ar_trace_id req,
          pa_tool_name = ar_tool_name req, pa_tool_call_id = ar_tool_call_id req, pa_tool_kind = ar_tool_kind req,
          pa_effect = effect_text (ar_effect req), pa_reason = ar_reason req, pa_args_hash = ar_args_hash req,
          pa_status = ApprovalPending, pa_created_at = zero_time, pa_decided_at = zero_time, pa_decided_by = []\<rparr> w1 of
         (Some e, w2) \<Rightarrow> (Inl e, w2)
       | (None, w2) \<Rightarrow> (Inr i, w2)))"

text \<open>The context in which a tool is executed.\<close>

definition store_ctx :: "'w harness \<Rightarrow> session \<Rightarrow> 'w tool_env \<Rightarrow> 'w tool_env" where
  "store_ctx h s ctx =
     (case hn_store h of None \<Rightarrow> ctx
      | Some st \<Rightarrow> ctx
          \<lparr>te_idem := (if trim_space (ss_exec_id s) = [] then te_idem ctx
             else Some (hs_idem st (te_tool_ctx_err ctx) (te_ctx_err ctx) (trim_space (ss_exec_id s)) (trim_space (hn_idem_scope h)))),
           te_gate := Some (record_pending_approval h st (te_ctx_err ctx),
             \<lparr>ap_exec_id = ss_exec_id s, ap_session_id = ss_session_id s, ap_trace_id = ss_trace_id s\<rparr>)\<rparr>)"

definition execution_ctx :: "'w harness \<Rightarrow> session \<Rightarrow> 'w tool_env \<Rightarrow> 'w tool_env" where
  "execution_ctx h s ctx = ctx \<lparr>te_session := Some s, te_ledger := Some (hn_ledger_ref h)\<rparr>"

definition tool_ctx :: "'w harness \<Rightarrow> session \<Rightarrow> 'w tool_env \<Rightarrow> 'w tool_env" where
  "tool_ctx h s ctx =
     (let c = store_ctx h s (execution_ctx h s ctx);
          c = (if hn_provider_retries h \<le> 0 then c
               else c \<lparr>te_max_retries := hn_provider_retries h, te_backoff := max 0 (hn_retry_backoff h)\<rparr>)
      in c \<lparr>te_observe_retry := (\<lambda>audit w. emit h (ctx \<lparr>te_ctx_err := te_tool_ctx_err ctx\<rparr>) s ''tool_call_failed''
             [(''tool'', AnyStr (ta_tool_name audit)), (''tool_call_id'', AnyStr (ta_tool_call_id audit)),
              (''attempt'', any_int (ta_attempt audit)), (''max_retries'', any_int (ta_max_retries audit)),
              (''effect'', AnyStr (effect_text (ta_effect audit))), (''error'', any_err (ta_err audit)),
              (''transient'', AnyBool (is_transient_error (ta_err audit))), (''retrying'', AnyBool True)] w),
            te_observe := (\<lambda>audit w. emit h ctx s ''permission_decision'' (permission_fields audit) w)\<rparr>)"

definition call_tool :: "'w harness \<Rightarrow> 'w tool_env \<Rightarrow> session \<Rightarrow> tool_call \<Rightarrow> 'w \<Rightarrow> tool_call_outcome \<times> 'w" where
  "call_tool h ctx s call w =
     (case execute_tool_call (tool_ctx h s ctx) (hn_executor h) call w of
        ((res, None), w1) \<Rightarrow> (OutcomeResult res, w1)
      | ((res, Some err), w1) \<Rightarrow>
          (case wall_clock_budget_payload h ctx w1 of
             Some p \<Rightarrow> (OutcomeBudget p, w1)
           | None \<Rightarrow> (OutcomeError err, w1)))"

definition sub_agent_failure_is_fatal :: "'w harness \<Rightarrow> string \<Rightarrow> bool" where
  "sub_agent_failure_is_fatal h name =
     (can_run_parallel_sub_agent (hn_executor h) name \<and> \<not> sub_agent_partial_ok (hn_executor h) name)"

definition exceeded_budget_payload :: "'w harness \<Rightarrow> 'w \<Rightarrow> payload option" where
  "exceeded_budget_payload h w = ledger_exceeded (hn_ledger h w)"

definition tool_result_error_text :: "ambient \<Rightarrow> json option \<Rightarrow> string" where
  "tool_result_error_text E content =
     (case content of
        None \<Rightarrow> ''tool returned error result''
      | Some j \<Rightarrow>
          let raw = (case json_encode E j of Some t \<Rightarrow> t | None \<Rightarrow> ''tool returned error result'')
          in case j of JStr text \<Rightarrow> if text \<noteq> [] then text else raw | _ \<Rightarrow> raw)"

definition bounded_tool_result_error_text :: "ambient \<Rightarrow> json option \<Rightarrow> string" where
  "bounded_tool_result_error_text E content =
     (let text = tool_result_error_text E content
      in if length text \<le> 2048 then text else take 2048 text @ ''...(truncated)'')"

definition true_field :: "(string \<times> json) list \<Rightarrow> string \<Rightarrow> string \<Rightarrow> payload" where
  "true_field obj name target =
     (case mget obj name of Some (JBool True) \<Rightarrow> [(target, AnyBool True)] | _ \<Rightarrow> [])"

definition tool_result_observability :: "json option \<Rightarrow> payload" where
  "tool_result_observability content =
     (case content of
        Some (JObj obj) \<Rightarrow> true_field obj ''truncated'' ''output_truncated''
          @ true_field obj ''stdout_truncated'' ''stdout_truncated'' @ true_field obj ''stderr_truncated'' ''stderr_truncated''
      | _ \<Rightarrow> [])"

definition call_fields :: "tool_call \<Rightarrow> payload" where
  "call_fields call = [(''tool'', AnyStr (tc_name call)), (''tool_call_id'', AnyStr (tc_id call))]"

definition emit_before_tool_call :: "'w harness \<Rightarrow> 'w tool_env \<Rightarrow> session \<Rightarrow> tool_call \<Rightarrow> 'w io" where
  "emit_before_tool_call h ctx s call = emit h ctx s ''tool_call_started'' (call_fields call)"

definition fatal_failure :: "'w harness \<Rightarrow> tool_call \<Rightarrow> string \<Rightarrow> 'w \<Rightarrow> (tool_stop + message) \<times> 'w" where
  "fatal_failure h call msg w =
     (case exceeded_budget_payload h w of
        Some p \<Rightarrow> (Inl (StopBudget p), w)
      | None \<Rightarrow> (Inl (StopError (ErrText (''subagent '' @ quoted (tc_name call) @ '' failed: '' @ msg))), w))"

definition finish_tool_call ::
  "'w harness \<Rightarrow> 'w tool_env \<Rightarrow> session \<Rightarrow> tool_call \<Rightarrow> tool_call_outcome \<Rightarrow> 'w \<Rightarrow> (tool_stop + message) \<times> 'w" where
  "finish_tool_call h ctx s call outcome w =
     (case outcome of
        OutcomeBudget p \<Rightarrow> (Inl (StopBudget p), w)
      | OutcomeError err \<Rightarrow>
          (case as_suspended err of
             Some (approvalID, _, _, _) \<Rightarrow>
               (case emit h ctx s ''approval_requested'' (call_fields call @ [(''approval_id'', AnyStr approvalID)]) w of
                  (Some e, w1) \<Rightarrow> (Inl (StopError (ErrJoin [err, e])), w1)
                | (None, w1) \<Rightarrow> (Inl (StopError err), w1))
           | None \<Rightarrow>
               (case emit h ctx s ''tool_call_failed'' (call_fields call @ [(''error'', any_err err)]) w of
                  (Some e, w1) \<Rightarrow> (Inl (StopError (ErrJoin [err, e])), w1)
                | (None, w1) \<Rightarrow>
                    if sub_agent_failure_is_fatal h (tc_name call) then fatal_failure h call (err_text err) w1
                    else (Inr (tool_result_text call (err_text err) True), w1)))
      | OutcomeResult res \<Rightarrow>
          (let E = te_ambient ctx;
               kind = (if tr_is_error res then ''tool_call_failed'' else ''tool_call_completed'');
               p = call_fields call
                 @ (if tr_is_error res then [(''error'', AnyStr (bounded_tool_result_error_text E (tr_content res)))] else [])
                 @ tool_result_observability (tr_content res)
           in case emit h ctx s kind p w of
                (Some e, w1) \<Rightarrow> (Inl (StopError e), w1)
              | (None, w1) \<Rightarrow>
                  if tr_is_error res \<and> sub_agent_failure_is_fatal h (tc_name call)
                  then fatal_failure h call (tool_result_error_text E (tr_content res)) w1
                  else (Inr (tool_result_message res), w1)))"

definition execute_single_tool_call ::
  "'w harness \<Rightarrow> 'w tool_env \<Rightarrow> session \<Rightarrow> tool_call \<Rightarrow> 'w \<Rightarrow> (tool_stop + message) \<times> 'w" where
  "execute_single_tool_call h ctx s call w =
     (case emit_before_tool_call h ctx s call w of
        (Some err, w1) \<Rightarrow> (Inl (StopError err), w1)
      | (None, w1) \<Rightarrow> (case call_tool h ctx s call w1 of (out, w2) \<Rightarrow> finish_tool_call h ctx s call out w2))"

definition should_cancel_parallel_tool_calls :: "'w harness \<Rightarrow> tool_call \<Rightarrow> tool_call_outcome \<Rightarrow> bool" where
  "should_cancel_parallel_tool_calls h call out =
     (case out of OutcomeResult res \<Rightarrow> tr_is_error res \<and> sub_agent_failure_is_fatal h (tc_name call) | _ \<Rightarrow> True)"

fun emit_before_tool_calls :: "'w harness \<Rightarrow> 'w tool_env \<Rightarrow> session \<Rightarrow> tool_call list \<Rightarrow> 'w io" where
  "emit_before_tool_calls h ctx s [] w = (None, w)"
| "emit_before_tool_calls h ctx s (c # cs) w =
     (case emit_before_tool_call h ctx s c w of
        (Some err, w1) \<Rightarrow> (Some err, w1)
      | (None, w1) \<Rightarrow> emit_before_tool_calls h ctx s cs w1)"

text \<open>
  The goroutines of a group, in the order in which they run. Each call is atomic; a fatal outcome
  cancels the context of those that come later.
\<close>

fun run_group ::
  "'w harness \<Rightarrow> 'w tool_env \<Rightarrow> session \<Rightarrow> tool_call list \<Rightarrow> nat list \<Rightarrow> bool \<Rightarrow> (nat \<times> tool_call_outcome) list \<Rightarrow> 'w
     \<Rightarrow> (nat \<times> tool_call_outcome) list \<times> 'w" where
  "run_group h ctx s calls [] cancelled outs w = (outs, w)"
| "run_group h ctx s calls (i # is) cancelled outs w =
     (case call_tool h (with_cancelled cancelled ctx) s (calls ! i) w of (out, w1) \<Rightarrow>
        run_group h ctx s calls is (cancelled \<or> should_cancel_parallel_tool_calls h (calls ! i) out) (mput i out outs) w1)"

definition outcome_at :: "(nat \<times> tool_call_outcome) list \<Rightarrow> nat \<Rightarrow> tool_call_outcome" where
  "outcome_at outs i = (case mget outs i of Some out \<Rightarrow> out | None \<Rightarrow> OutcomeResult zero_result)"

type_synonym 'w batch = "'w \<Rightarrow> (message list \<times> tool_stop option) \<times> 'w"

fun finish_group :: "'w harness \<Rightarrow> 'w tool_env \<Rightarrow> session \<Rightarrow> (tool_call \<times> tool_call_outcome) list \<Rightarrow> message list \<Rightarrow> 'w batch" where
  "finish_group h ctx s [] messages w = ((messages, None), w)"
| "finish_group h ctx s ((call, out) # rest) messages w =
     (case finish_tool_call h ctx s call out w of
        (Inl stp, w1) \<Rightarrow> ((messages, Some stp), w1)
      | (Inr m, w1) \<Rightarrow> finish_group h ctx s rest (messages @ [m]) w1)"

definition execute_parallel_tool_calls :: "'w harness \<Rightarrow> 'w tool_env \<Rightarrow> session \<Rightarrow> tool_call list \<Rightarrow> 'w batch" where
  "execute_parallel_tool_calls h ctx s calls w =
     (case emit_before_tool_calls h ctx s calls w of
        (Some err, w1) \<Rightarrow> (([], Some (StopError err)), w1)
      | (None, w1) \<Rightarrow>
          (case run_group h ctx s calls (hn_schedule h w1 (length calls)) False [] w1 of (outs, w2) \<Rightarrow>
             finish_group h ctx s (zip calls (map (outcome_at outs) [0..<length calls])) [] w2))"

definition runs_in_group :: "'w harness \<Rightarrow> tool_call \<Rightarrow> bool" where
  "runs_in_group h call = can_run_parallel_sub_agent (hn_executor h) (tc_name call)"

function execute_tool_calls ::
  "'w harness \<Rightarrow> 'w tool_env \<Rightarrow> session \<Rightarrow> tool_call list \<Rightarrow> message list \<Rightarrow> 'w batch" where
  "execute_tool_calls h ctx s [] messages w = ((messages, None), w)"
| "execute_tool_calls h ctx s (c # cs) messages w =
     (if \<not> hn_sequential h \<and> runs_in_group h c
      then case execute_parallel_tool_calls h ctx s (takeWhile (runs_in_group h) (c # cs)) w of
             ((ms, Some stp), w1) \<Rightarrow> ((messages @ ms, Some stp), w1)
           | ((ms, None), w1) \<Rightarrow> execute_tool_calls h ctx s (dropWhile (runs_in_group h) cs) (messages @ ms) w1
      else case execute_single_tool_call h ctx s c w of
             (Inl stp, w1) \<Rightarrow> ((messages, Some stp), w1)
           | (Inr m, w1) \<Rightarrow> execute_tool_calls h ctx s cs (messages @ [m]) w1)"
  by pat_completeness auto
termination
  by (relation "measure (\<lambda>(h, ctx, s, cs, ms, w). length cs)") (auto simp: le_imp_less_Suc length_dropWhile_le)

definition allows_provider_retry_after_tool_calls :: "'w harness \<Rightarrow> tool_call list \<Rightarrow> bool" where
  "allows_provider_retry_after_tool_calls h calls =
     list_all (\<lambda>c. allows_provider_retry_after_tool_call (hn_executor h) (tc_name c)) calls"

end
