(* ===== verification/Harness_Loop.thy ===== *)
theory Harness_Loop
  imports Harness
begin

text \<open>
  The rest of \<open>harness.go\<close>: starting and finishing an execution, truncation by a budget, validation and
  repair of the result against its schema, the loop itself, and the suspension and resumption of a run.
\<close>

section \<open>Start and end of an execution\<close>

definition new_run_session :: "'w harness \<Rightarrow> 'w \<Rightarrow> go_error + session" where
  "new_run_session h w =
     (let opts = [WithSessionBudget (hn_budget h)] in
      case hn_parent h of
        Some parent \<Rightarrow> new_child_session (hn_fresh h w) (hn_now h w) parent (hn_model h) opts
      | None \<Rightarrow> new_session (hn_fresh h w) (hn_now h w) (hn_model h) opts)"

definition execution_status :: "status \<Rightarrow> execution_status" where
  "execution_status st = (case st of StatusCompleted \<Rightarrow> ExecutionCompleted | StatusTruncated \<Rightarrow> ExecutionTruncated | _ \<Rightarrow> ExecutionFailed)"

definition is_cancellation :: "go_error option \<Rightarrow> bool" where
  "is_cancellation err = (case err of None \<Rightarrow> False | Some e \<Rightarrow> errors_is e CtxCanceled)"

definition finish_execution :: "'w harness \<Rightarrow> 'w tool_env \<Rightarrow> session \<Rightarrow> status \<Rightarrow> go_error option \<Rightarrow> 'w io" where
  "finish_execution h ctx s st eventErr w =
     (let fctx = (if is_cancellation eventErr then without_cancel ctx else ctx);
          kind = (if st = StatusCompleted then ''pipe_completed'' else ''pipe_failed'');
          stat = (''status'', AnyStr (status_text st));
          p = [(''model'', AnyStr (hn_model h)), stat] @ (case eventErr of Some e \<Rightarrow> [(''error'', any_err e)] | None \<Rightarrow> [])
      in case (if is_cancellation eventErr
               then emit h fctx s ''session_cancelled'' [stat, (''error'', any_err (the eventErr))] w
               else (None, w)) of (e1, w1) \<Rightarrow>
         case emit h fctx s kind p w1 of (e2, w2) \<Rightarrow>
         case emit h fctx s ''session_saved'' [stat] w2 of (e3, w3) \<Rightarrow>
           (let emitErr = errors_join [errors_join [e1, e2], e3] in
            case hn_store h of
              None \<Rightarrow> (emitErr, w3)
            | Some db \<Rightarrow>
                if hn_parent h \<noteq> None then (emitErr, w3)
                else case hs_save_execution db (te_ctx_err fctx w3)
                  \<lparr>ex_exec_id = ss_exec_id s, ex_trace_id = ss_trace_id s, ex_status = execution_status st,
                   ex_started_at = ss_started_at s, ex_completed_at = hn_now h w3\<rparr> w3 of
                  (saveErr, w4) \<Rightarrow> (errors_join [emitErr, saveErr], w4)))"

definition emit_started :: "'w harness \<Rightarrow> 'w tool_env \<Rightarrow> session \<Rightarrow> 'w io" where
  "emit_started h ctx s w =
     (case emit h ctx s ''session_started'' [(''model'', AnyStr (hn_model h))] w of
        (Some err, w1) \<Rightarrow> (Some err, w1)
      | (None, w1) \<Rightarrow> emit h ctx s ''pipe_started'' [(''model'', AnyStr (hn_model h))] w1)"

definition start_execution :: "'w harness \<Rightarrow> 'w tool_env \<Rightarrow> session \<Rightarrow> 'w io" where
  "start_execution h ctx s w =
     (case hn_store h of
        None \<Rightarrow> emit_started h ctx s w
      | Some db \<Rightarrow>
          if hn_parent h \<noteq> None
          then case hs_save_session db (te_ctx_err ctx w) s w of
                 (Some err, w1) \<Rightarrow> (Some err, w1)
               | (None, w1) \<Rightarrow> emit_started h ctx s w1
          else case hs_save_execution db (te_ctx_err ctx w)
                 \<lparr>ex_exec_id = ss_exec_id s, ex_trace_id = ss_trace_id s, ex_status = ExecutionRunning,
                  ex_started_at = ss_started_at s, ex_completed_at = zero_time\<rparr> w of
                 (Some err, w1) \<Rightarrow> (Some err, w1)
               | (None, w1) \<Rightarrow>
                   (case hs_save_session db (te_ctx_err ctx w1) s w1 of
                      (Some err, w2) \<Rightarrow>
                        (case finish_execution h ctx s StatusFailed None w2 of (markErr, w3) \<Rightarrow> (errors_join [Some err, markErr], w3))
                    | (None, w2) \<Rightarrow> emit_started h ctx s w2))"

section \<open>Result and repair\<close>

text \<open>The error of a validation; the stop of the provider at its token limit is an error type of its own.\<close>

datatype result_error = ResultError go_error | ResultMaxTokens int

definition max_tokens_payload :: "int \<Rightarrow> payload" where
  "max_tokens_payload outputTokens =
     [(''budget'', AnyStr ''provider_max_tokens''), (''stop_reason'', AnyStr ''max_tokens''), (''output_tokens'', any_int outputTokens)]"

definition nl :: string where "nl = [CHR 0x0A]"

definition request_system_prompt :: "'w harness \<Rightarrow> string" where
  "request_system_prompt h =
     (let prompt = trim_space (hn_system_prompt h) in
      case hn_result_schema h of
        None \<Rightarrow> prompt
      | Some rs \<Rightarrow>
          let schemaPrompt = ''Return only valid JSON that conforms to the required result schema.'' @ nl @ nl
            @ ''Schema name: '' @ rs_name rs @ nl @ ''JSON Schema:'' @ nl @ rs_json rs @ nl @ nl
            @ ''Do not include markdown, prose, or tool calls in the final answer.''
          in if prompt = [] then schemaPrompt else prompt @ nl @ nl @ schemaPrompt)"

definition schema_repair_prompt :: "result_schema \<Rightarrow> string \<Rightarrow> go_error \<Rightarrow> string" where
  "schema_repair_prompt rs output err =
     ''The previous assistant output did not match the required result schema.'' @ nl @ nl
     @ ''Schema name: '' @ rs_name rs @ nl @ ''Validation error: '' @ err_text err @ nl
     @ ''JSON Schema:'' @ nl @ rs_json rs @ nl @ nl @ ''Invalid output:'' @ nl @ output @ nl @ nl
     @ ''Return only valid JSON that conforms to the schema. Do not include markdown, prose, or tool calls.''"

definition record_schema_violation :: "'w harness \<Rightarrow> 'w tool_env \<Rightarrow> session \<Rightarrow> result_schema \<Rightarrow> go_error \<Rightarrow> 'w io" where
  "record_schema_violation h ctx s rs err w =
     (case (case hn_store h of
              None \<Rightarrow> (None, w)
            | Some db \<Rightarrow> hs_add_violation db (te_ctx_err ctx w)
                \<lparr>sv_id = 0, sv_at = zero_time, sv_exec_id = ss_exec_id s, sv_session_id = ss_session_id s,
                 sv_schema_name = rs_name rs, sv_error = err_text err\<rparr> w) of
        (e1, w1) \<Rightarrow>
          (case emit h ctx s ''schema_validation_failed'' [(''schema'', AnyStr (rs_name rs)), (''error'', any_err err)] w1 of
             (e2, w2) \<Rightarrow> (errors_join [e1, e2], w2)))"

definition repair_fields :: "'w harness \<Rightarrow> result_schema \<Rightarrow> int \<Rightarrow> payload" where
  "repair_fields h rs attempt =
     [(''schema'', AnyStr (rs_name rs)), (''attempt'', any_int attempt), (''max_attempts'', any_int (hn_schema_repairs h))]"

type_synonym 'w validation = "'w \<Rightarrow> (string \<times> usage \<times> result_error option) \<times> 'w"

definition result_err :: "go_error option \<Rightarrow> result_error option" where "result_err err = map_option ResultError err"

definition repair_request :: "'w harness \<Rightarrow> result_schema \<Rightarrow> string \<Rightarrow> go_error \<Rightarrow> request" where
  "repair_request h rs text err =
     \<lparr>rq_model = [], rq_system = hn_system_prompt h, rq_messages = [user_text (schema_repair_prompt rs text err)],
      rq_tools = [], rq_cache_key = hn_cache_key h (hn_system_prompt h) []\<rparr>"

text \<open>One attempt: \<open>Inl\<close> is what \<open>repairResult\<close> returns, \<open>Inr\<close> the next text, usage and error.\<close>

definition repair_attempt ::
  "'w harness \<Rightarrow> 'w tool_env \<Rightarrow> session \<Rightarrow> int \<Rightarrow> result_schema \<Rightarrow> int \<Rightarrow> string \<Rightarrow> usage \<Rightarrow> go_error \<Rightarrow> 'w
     \<Rightarrow> ((string \<times> usage \<times> result_error option) + string \<times> usage \<times> go_error) \<times> 'w" where
  "repair_attempt h ctx s iteration rs attempt text usg err w =
     (let base = repair_fields h rs attempt; llm = [(''repair'', AnyBool True), (''attempt'', any_int attempt)] in
      case emit h ctx s ''schema_repair_started'' (base @ [(''error'', any_err err)]) w of
        (Some e, w1) \<Rightarrow> (Inl (text, usg, Some (ResultError e)), w1)
      | (None, w1) \<Rightarrow>
     (case emit h ctx s ''llm_call_started'' ([(''iteration'', any_int iteration), (''model'', AnyStr (hn_model h))] @ llm) w1 of
        (Some e, w2) \<Rightarrow> (Inl (text, usg, Some (ResultError e)), w2)
      | (None, w2) \<Rightarrow>
     (case complete_with_fallback h ctx s iteration (repair_request h rs text err) True w2 of
        ((_, Some e), w3) \<Rightarrow>
          (case emit h ctx s ''schema_repair_failed'' (base @ [(''error'', any_err e)]) w3 of
             (e', w4) \<Rightarrow> (Inl (text, usg, result_err (errors_join [Some e, e'])), w4))
      | ((resp, None), w3) \<Rightarrow>
          let usg = usage_add usg (rp_usage resp) in
     (case emit h ctx s ''llm_call_completed'' (after_llm_fields h iteration resp @ llm @ llm_metadata_fields (rp_metadata resp)) w3 of
        (Some e, w4) \<Rightarrow> (Inl (text, usg, Some (ResultError e)), w4)
      | (None, w4) \<Rightarrow>
          let text = rp_text resp in
          if rp_stop resp = StopMaxTokens
          then (case emit h ctx s ''schema_repair_failed''
                  (base @ [(''reason'', AnyStr ''provider_max_tokens''), (''stop_reason'', AnyStr ''max_tokens''),
                           (''output_tokens'', any_int (us_output (rp_usage resp)))]) w4 of
                  (Some e, w5) \<Rightarrow> (Inl (text, usg, Some (ResultError e)), w5)
                | (None, w5) \<Rightarrow> (Inl (text, usg, Some (ResultMaxTokens (us_output (rp_usage resp)))), w5))
          else if rp_tool_calls resp \<noteq> []
          then (let e = ErrText ''schema repair returned tool calls'' in
                case emit h ctx s ''schema_repair_failed'' (base @ [(''error'', any_err e)]) w4 of
                  (e', w5) \<Rightarrow> (Inl (text, usg, result_err (errors_join [Some e, e'])), w5))
          else case rs_normalize rs text of
            Inl e \<Rightarrow>
              (case record_schema_violation h ctx s rs e w4 of (recordErr, w5) \<Rightarrow>
               case emit h ctx s ''schema_repair_failed'' (base @ [(''error'', any_err e)]) w5 of (emitErr, w6) \<Rightarrow>
                 if recordErr \<noteq> None \<or> emitErr \<noteq> None
                 then (Inl (text, usg, result_err (errors_join [Some e, recordErr, emitErr])), w6)
                 else (Inr (text, usg, e), w6))
          | Inr normalized \<Rightarrow>
              (case emit h ctx s ''schema_repair_completed'' base w4 of
                 (Some e, w5) \<Rightarrow> (Inl (normalized, usg, Some (ResultError e)), w5)
               | (None, w5) \<Rightarrow>
                   (case emit h ctx s ''schema_validation_passed''
                      [(''schema'', AnyStr (rs_name rs)), (''repaired'', AnyBool True), (''repair_attempts'', any_int attempt)] w5 of
                      (e', w6) \<Rightarrow> (Inl (normalized, usg, result_err e'), w6)))))))"

function repair_result ::
  "'w harness \<Rightarrow> 'w tool_env \<Rightarrow> session \<Rightarrow> int \<Rightarrow> result_schema \<Rightarrow> int \<Rightarrow> string \<Rightarrow> usage \<Rightarrow> go_error \<Rightarrow> 'w validation" where
  "repair_result h ctx s iteration rs attempt text usg err w =
     (if hn_schema_repairs h < attempt then ((text, usg, Some (ResultError err)), w)
      else case repair_attempt h ctx s iteration rs attempt text usg err w of
        (Inl r, w1) \<Rightarrow> (r, w1)
      | (Inr (text', usg', err'), w1) \<Rightarrow> repair_result h ctx s iteration rs (attempt + 1) text' usg' err' w1)"
  by pat_completeness auto
termination
  by (relation "measure (\<lambda>(h, ctx, s, i, rs, a, t, u, e, w). nat (hn_schema_repairs h + 1 - a))") auto

declare repair_result.simps [simp del]

definition validate_result :: "'w harness \<Rightarrow> 'w tool_env \<Rightarrow> session \<Rightarrow> int \<Rightarrow> string \<Rightarrow> 'w validation" where
  "validate_result h ctx s iteration text w =
     (case hn_result_schema h of
        None \<Rightarrow> ((text, zero_usage, None), w)
      | Some rs \<Rightarrow>
          (case rs_normalize rs text of
             Inr normalized \<Rightarrow>
               (case emit h ctx s ''schema_validation_passed'' [(''schema'', AnyStr (rs_name rs))] w of
                  (e, w1) \<Rightarrow> ((normalized, zero_usage, result_err e), w1))
           | Inl err \<Rightarrow>
               (case record_schema_violation h ctx s rs err w of
                  (Some recordErr, w1) \<Rightarrow> ((text, zero_usage, result_err (errors_join [Some err, Some recordErr])), w1)
                | (None, w1) \<Rightarrow>
                    if hn_schema_repairs h \<le> 0
                    then case emit h ctx s ''schema_repair_failed''
                           [(''schema'', AnyStr (rs_name rs)), (''attempt'', any_int 0), (''max_attempts'', any_int 0),
                            (''reason'', AnyStr ''disabled''), (''error'', any_err err)] w1 of
                           (e, w2) \<Rightarrow> ((text, zero_usage, result_err (errors_join [Some err, e])), w2)
                    else repair_result h ctx s iteration rs 1 text zero_usage err w1)))"

section \<open>The loop\<close>

text \<open>What a run parked behind an approval keeps in memory.\<close>

record suspended_run =
  sr_approval_id :: string
  sr_tool_call_id :: string
  sr_session :: session
  sr_messages :: "message list"
  sr_outcome :: outcome
  sr_retry_allowed :: bool
  sr_calls :: "tool_call list"

type_synonym run_result = "outcome \<times> go_error option \<times> suspended_run option"
type_synonym 'w run = "'w \<Rightarrow> run_result \<times> 'w"

definition truncate_for_budget :: "'w harness \<Rightarrow> 'w tool_env \<Rightarrow> session \<Rightarrow> outcome \<Rightarrow> payload \<Rightarrow> 'w run" where
  "truncate_for_budget h ctx0 s out p w =
     (let ctx = without_cancel ctx0;
          out = out \<lparr>oc_status := StatusTruncated,
                     oc_budget_exceeded := (case mget p ''budget'' of Some (AnyStr b) \<Rightarrow> b | _ \<Rightarrow> oc_budget_exceeded out)\<rparr>
      in case emit h ctx s ''budget_exceeded'' p w of
           (Some err, w1) \<Rightarrow>
             (case finish_execution h ctx s StatusFailed None w1 of
                (e, w2) \<Rightarrow> ((out \<lparr>oc_status := StatusFailed\<rparr>, errors_join [Some err, e], None), w2))
         | (None, w1) \<Rightarrow> (case finish_execution h ctx s StatusTruncated None w1 of (e, w2) \<Rightarrow> ((out, e, None), w2)))"

definition fail_run :: "'w harness \<Rightarrow> 'w tool_env \<Rightarrow> session \<Rightarrow> outcome \<Rightarrow> go_error \<Rightarrow> 'w run" where
  "fail_run h ctx s out err w =
     (case finish_execution h ctx s StatusFailed (Some err) w of
        (e, w1) \<Rightarrow> ((out \<lparr>oc_status := StatusFailed\<rparr>, errors_join [Some err, e], None), w1))"

definition calls_from_suspended :: "tool_call list \<Rightarrow> string \<Rightarrow> tool_call list" where
  "calls_from_suspended calls callID =
     (if callID = [] then calls
      else case dropWhile (\<lambda>c. tc_id c \<noteq> callID) calls of [] \<Rightarrow> calls | rest \<Rightarrow> rest)"

text \<open>\<open>suspendRun\<close>, on the suspension found in the error of the tool calls.\<close>

definition suspend_run ::
  "'w harness \<Rightarrow> 'w tool_env \<Rightarrow> session \<Rightarrow> message list \<Rightarrow> outcome \<Rightarrow> bool \<Rightarrow> tool_call list
     \<Rightarrow> string \<times> string \<times> string \<times> string \<Rightarrow> 'w run" where
  "suspend_run h ctx s messages out retryAllowed calls susp w =
     (case susp of (approvalID, execID, tool, callID) \<Rightarrow>
      (let out = out \<lparr>oc_status := StatusSuspended\<rparr> in
       case emit h ctx s ''execution_suspended''
         [(''approval_id'', AnyStr approvalID), (''tool'', AnyStr tool), (''tool_call_id'', AnyStr callID)] w of
         (emitErr, w1) \<Rightarrow>
           ((out, errors_join [Some (ErrSuspended approvalID execID tool callID), emitErr],
             Some \<lparr>sr_approval_id = approvalID, sr_tool_call_id = callID, sr_session = s, sr_messages = messages,
                   sr_outcome = out, sr_retry_allowed = retryAllowed, sr_calls = calls\<rparr>), w1)))"

text \<open>What follows the execution of tool calls: the end of the run, or the messages to go on with.\<close>

definition after_tool_calls ::
  "'w harness \<Rightarrow> 'w tool_env \<Rightarrow> session \<Rightarrow> message list \<Rightarrow> outcome \<Rightarrow> bool \<Rightarrow> tool_call list
     \<Rightarrow> message list \<times> tool_stop option \<Rightarrow> 'w \<Rightarrow> (run_result + message list) \<times> 'w" where
  "after_tool_calls h ctx s messages out retryAllowed calls batch w =
     (case batch of
        (ms, Some (StopBudget p)) \<Rightarrow> (case truncate_for_budget h ctx s out p w of (r, w1) \<Rightarrow> (Inl r, w1))
      | (ms, Some (StopError err)) \<Rightarrow>
          (case as_suspended err of
             Some susp \<Rightarrow>
               (case suspend_run h ctx s (messages @ ms) out retryAllowed
                  (calls_from_suspended calls (snd (snd (snd susp)))) susp w of (r, w1) \<Rightarrow> (Inl r, w1))
           | None \<Rightarrow> (case fail_run h ctx s out err w of (r, w1) \<Rightarrow> (Inl r, w1)))
      | (ms, None) \<Rightarrow>
          (case ledger_exceeded (hn_ledger h w) of
             Some p \<Rightarrow> (case truncate_for_budget h ctx s out p w of (r, w1) \<Rightarrow> (Inl r, w1))
           | None \<Rightarrow> (Inr (messages @ ms), w)))"

definition charge :: "'w harness \<Rightarrow> usage \<Rightarrow> 'w \<Rightarrow> payload option \<times> 'w" where
  "charge h u w = (case ledger_add u (hn_ledger h w) of (p, l) \<Rightarrow> (p, hn_set_ledger h l w))"

text \<open>The end of a run whose model asked for no tool.\<close>

definition finish_with_result :: "'w harness \<Rightarrow> 'w tool_env \<Rightarrow> session \<Rightarrow> outcome \<Rightarrow> 'w run" where
  "finish_with_result h ctx s out w =
     (case validate_result h ctx s (oc_iterations out) (oc_text out) w of
        ((validated, usg, err), w1) \<Rightarrow>
          (case (if usg \<noteq> zero_usage
                 then (case charge h usg w1 of (p, w2) \<Rightarrow> (out \<lparr>oc_usage := usage_add (oc_usage out) usg\<rparr>, p, w2))
                 else (out, None, w1)) of
             (out, Some p, w2) \<Rightarrow> truncate_for_budget h ctx s (out \<lparr>oc_text := validated\<rparr>) p w2
           | (out, None, w2) \<Rightarrow>
               (let out = out \<lparr>oc_text := validated\<rparr> in
                case err of
                  Some (ResultMaxTokens n) \<Rightarrow> truncate_for_budget h ctx s out (max_tokens_payload n) w2
                | Some (ResultError e) \<Rightarrow> fail_run h ctx s out e w2
                | None \<Rightarrow>
                    (case finish_execution h ctx s StatusCompleted None w2 of
                       (e, w3) \<Rightarrow> ((out \<lparr>oc_status := StatusCompleted\<rparr>, e, None), w3)))))"

definition turn_request :: "'w harness \<Rightarrow> message list \<Rightarrow> request" where
  "turn_request h messages = \<lparr>rq_model = [], rq_system = request_system_prompt h, rq_messages = messages,
     rq_tools = hn_tools h, rq_cache_key = hn_cache_key h (request_system_prompt h) (hn_tools h)\<rparr>"

text \<open>What the loop does with the answer of the model.\<close>

definition after_response ::
  "'w harness \<Rightarrow> 'w tool_env \<Rightarrow> session \<Rightarrow> message list \<Rightarrow> outcome \<Rightarrow> bool \<Rightarrow> response \<Rightarrow> 'w
     \<Rightarrow> (run_result + message list \<times> outcome \<times> bool) \<times> 'w" where
  "after_response h ctx s messages out retryAllowed resp w =
     (let out = out \<lparr>oc_usage := usage_add (oc_usage out) (rp_usage resp)\<rparr> in
      case emit h ctx s ''llm_call_completed''
        (after_llm_fields h (oc_iterations out) resp @ llm_metadata_fields (rp_metadata resp)) w of
        (Some err, w1) \<Rightarrow> (case fail_run h ctx s out err w1 of (r, w2) \<Rightarrow> (Inl r, w2))
      | (None, w1) \<Rightarrow>
          (let out = out \<lparr>oc_text := rp_text resp\<rparr> in
           case charge h (rp_usage resp) w1 of
             (Some p, w2) \<Rightarrow> (case truncate_for_budget h ctx s out p w2 of (r, w3) \<Rightarrow> (Inl r, w3))
           | (None, w2) \<Rightarrow>
               if rp_stop resp = StopMaxTokens
               then (case truncate_for_budget h ctx s out (max_tokens_payload (us_output (rp_usage resp))) w2 of
                       (r, w3) \<Rightarrow> (Inl r, w3))
               else if rp_tool_calls resp = []
               then (case finish_with_result h ctx s out w2 of (r, w3) \<Rightarrow> (Inl r, w3))
               else
                 (let calls = rp_tool_calls resp;
                      out = out \<lparr>oc_tool_calls := oc_tool_calls out @ calls\<rparr>;
                      messages = messages @ [assistant_tool_calls (rp_text resp) calls];
                      retryAllowed = (retryAllowed \<and> allows_provider_retry_after_tool_calls h calls)
                  in case execute_tool_calls h ctx s calls [] w2 of
                       (batch, w3) \<Rightarrow>
                         (case after_tool_calls h ctx s messages out retryAllowed calls batch w3 of
                            (Inl r, w4) \<Rightarrow> (Inl r, w4)
                          | (Inr messages, w4) \<Rightarrow> (Inr (messages, out, retryAllowed), w4)))))"

definition loop_turn ::
  "'w harness \<Rightarrow> 'w tool_env \<Rightarrow> session \<Rightarrow> message list \<Rightarrow> outcome \<Rightarrow> bool \<Rightarrow> 'w
     \<Rightarrow> (run_result + message list \<times> outcome \<times> bool) \<times> 'w" where
  "loop_turn h ctx s messages out retryAllowed w =
     (case ledger_exceeded (hn_ledger h w) of
        Some p \<Rightarrow> (case truncate_for_budget h ctx s out p w of (r, w1) \<Rightarrow> (Inl r, w1))
      | None \<Rightarrow>
          (let out = out \<lparr>oc_iterations := oc_iterations out + 1\<rparr> in
           case emit h ctx s ''llm_call_started'' [(''iteration'', any_int (oc_iterations out)), (''model'', AnyStr (hn_model h))] w of
             (Some err, w1) \<Rightarrow> (case fail_run h ctx s out err w1 of (r, w2) \<Rightarrow> (Inl r, w2))
           | (None, w1) \<Rightarrow>
               (case complete_with_fallback h ctx s (oc_iterations out) (turn_request h messages) retryAllowed w1 of
                  ((_, Some err), w2) \<Rightarrow>
                    (case (case wall_clock_budget_payload h ctx w2 of
                             Some p \<Rightarrow> truncate_for_budget h ctx s out p w2
                           | None \<Rightarrow> fail_run h ctx s out err w2) of (r, w3) \<Rightarrow> (Inl r, w3))
                | ((resp, None), w2) \<Rightarrow> after_response h ctx s messages out retryAllowed resp w2)))"

lemma after_response_iterations:
  "after_response h ctx s messages out ra resp w = (Inr (messages', out', ra'), w') \<Longrightarrow> oc_iterations out' = oc_iterations out"
  by (auto simp: after_response_def Let_def split: prod.splits option.splits if_splits sum.splits)

lemma loop_turn_iterations:
  assumes "loop_turn h ctx s messages out ra w = (Inr (messages', out', ra'), w')"
  shows "oc_iterations out' = oc_iterations out + 1"
  using assms
  by (auto simp: loop_turn_def Let_def split: prod.splits option.splits dest: after_response_iterations)

function run_loop ::
  "'w harness \<Rightarrow> 'w tool_env \<Rightarrow> session \<Rightarrow> message list \<Rightarrow> outcome \<Rightarrow> bool \<Rightarrow> 'w run" where
  "run_loop h ctx s messages out retryAllowed w =
     (if max_iterations (hn_budget h) \<le> oc_iterations out
      then truncate_for_budget h ctx s out
             [(''budget'', AnyStr ''iterations''), (''max_iterations'', any_int (max_iterations (hn_budget h))),
              (''iterations'', any_int (oc_iterations out))] w
      else case loop_turn h ctx s messages out retryAllowed w of
        (Inl r, w1) \<Rightarrow> (r, w1)
      | (Inr (messages', out', retryAllowed'), w1) \<Rightarrow> run_loop h ctx s messages' out' retryAllowed' w1)"
  by pat_completeness auto
termination
  by (relation "measure (\<lambda>(h, ctx, s, ms, out, ra, w). nat (max_iterations (hn_budget h) - oc_iterations out))")
    (auto dest!: loop_turn_iterations [OF sym])

declare run_loop.simps [simp del]

definition zero_outcome :: "session \<Rightarrow> outcome" where
  "zero_outcome s = \<lparr>oc_status = StatusFailed, oc_text = [], oc_iterations = 0, oc_session = s, oc_tool_calls = [],
     oc_usage = zero_usage, oc_budget_exceeded = []\<rparr>"

definition zero_session :: session where
  "zero_session = \<lparr>ss_exec_id = [], ss_session_id = [], ss_parent_session_id = [], ss_trace_id = [], ss_model = [],
     ss_started_at = zero_time, ss_budget = zero_budget\<rparr>"

definition run_harness :: "'w harness \<Rightarrow> 'w tool_env \<Rightarrow> string \<Rightarrow> 'w run" where
  "run_harness h ctx0 input w =
     (let ctx = run_ctx h ctx0 w in
      case new_run_session h w of
        Inl err \<Rightarrow> ((zero_outcome zero_session, Some err, None), w)
      | Inr s \<Rightarrow>
          (case start_execution h ctx s w of
             (Some err, w1) \<Rightarrow> ((zero_outcome s, Some err, None), w1)
           | (None, w1) \<Rightarrow> run_loop h ctx s [user_text input] (zero_outcome s) True w1))"

definition with_approved :: "string \<Rightarrow> string \<Rightarrow> 'w tool_env \<Rightarrow> 'w tool_env" where
  "with_approved approvalID callID ctx =
     (if approvalID = [] \<or> callID = [] then ctx else ctx \<lparr>te_approved := Some (approvalID, callID)\<rparr>)"

definition resume_after_approval :: "'w harness \<Rightarrow> 'w tool_env \<Rightarrow> suspended_run \<Rightarrow> 'w run" where
  "resume_after_approval h ctx0 sr w =
     (let ctx = run_ctx h ctx0 w; s = sr_session sr; calls = sr_calls sr;
          approved = with_approved (sr_approval_id sr) (sr_tool_call_id sr) ctx
      in case execute_tool_calls h approved s calls [] w of (batch, w1) \<Rightarrow>
         (case after_tool_calls h ctx s (sr_messages sr) (sr_outcome sr) (sr_retry_allowed sr) calls batch w1 of
            (Inl r, w2) \<Rightarrow> (r, w2)
          | (Inr messages, w2) \<Rightarrow> run_loop h ctx s messages (sr_outcome sr) (sr_retry_allowed sr) w2))"

end
