(* ===== verification/Harness_Options.thy ===== *)
theory Harness_Options
  imports Harness_Loop
begin

text \<open>
  \<open>internal/harness/options.go\<close> and \<open>New\<close> of \<open>harness.go\<close>: the functional options, the configuration
  they fill, and the harness built from it; the cache key of \<open>cache.go\<close>. The pointers of the code
  (ledgers, event streams, hook buses, gates) are numbers, and \<open>harness_world\<close> is what they point to:
  its functions read and change the world. The encoding of the cache payload and sha256 are parameters.
\<close>

record 'w harness_world =
  xe_alloc_ledger :: "budget_ledger \<Rightarrow> 'w \<Rightarrow> nat \<times> 'w"
  xe_ledger :: "nat \<Rightarrow> 'w \<Rightarrow> budget_ledger"
  xe_set_ledger :: "nat \<Rightarrow> budget_ledger \<Rightarrow> 'w \<Rightarrow> 'w"
  xe_alloc_stream :: "'w \<Rightarrow> nat \<times> 'w"
  xe_append :: "'w harness_store option \<Rightarrow> nat option \<Rightarrow> nat option \<Rightarrow> go_error option \<Rightarrow> event \<Rightarrow> 'w io"
  xe_acquire :: "nat option \<Rightarrow> string \<Rightarrow> ('w \<Rightarrow> go_error option) \<Rightarrow> 'w io"
  xe_release :: "nat option \<Rightarrow> string \<Rightarrow> 'w \<Rightarrow> 'w"
  xe_now :: "'w \<Rightarrow> go_time"
  xe_fresh :: "'w \<Rightarrow> string \<Rightarrow> string"
  xe_sleep :: "('w \<Rightarrow> go_error option) \<Rightarrow> duration \<Rightarrow> 'w io"
  xe_approval_id :: "'w \<Rightarrow> string \<times> 'w"
  xe_schedule :: "'w \<Rightarrow> nat \<Rightarrow> nat list"
  xe_sha256 :: "string \<Rightarrow> string"
  xe_encode_cache :: "string \<Rightarrow> string \<Rightarrow> tool_spec list \<Rightarrow> string option"

section \<open>The configuration\<close>

record 'w harness_config =
  cf_model :: string
  cf_system_prompt :: string
  cf_budget :: budget
  cf_budget_set :: bool
  cf_ledger :: "nat option"
  cf_parent :: "session option"
  cf_executor :: "'w executor"
  cf_tools :: "tool_spec list"
  cf_store :: "'w harness_store option"
  cf_stream :: "nat option"
  cf_hook_bus :: "nat option"
  cf_result_schema :: "result_schema option"
  cf_schema_repairs :: int
  cf_provider_retries :: int
  cf_retry_backoff :: duration
  cf_prompt_cache :: bool
  cf_sequential :: bool
  cf_pricing :: "(string, model_rate) gomap"
  cf_stream_deltas :: bool
  cf_fallbacks :: "string list"
  cf_resolver :: "(string \<Rightarrow> go_error + 'w provider_impl) option"
  cf_gate :: "nat option"
  cf_memory_scope :: string
  cf_idem_scope :: string

definition default_budget :: budget where
  "default_budget = \<lparr>max_iterations = 25, max_tokens = 500000, max_cost_usd = 5, max_wall_clock = 600 * time_second\<rparr>"

definition empty_executor :: "'w executor" where
  "empty_executor = \<lparr>xr_tools = [], xr_policy = None\<rparr>"

definition default_harness_config :: "'w harness_config" where
  "default_harness_config = \<lparr>cf_model = [], cf_system_prompt = [], cf_budget = default_budget, cf_budget_set = False,
     cf_ledger = None, cf_parent = None, cf_executor = empty_executor, cf_tools = [], cf_store = None, cf_stream = None,
     cf_hook_bus = None, cf_result_schema = None, cf_schema_repairs = 0, cf_provider_retries = 3, cf_retry_backoff = 0,
     cf_prompt_cache = True, cf_sequential = False, cf_pricing = [], cf_stream_deltas = False, cf_fallbacks = [],
     cf_resolver = None, cf_gate = None, cf_memory_scope = [], cf_idem_scope = []\<rparr>"

section \<open>The options\<close>

datatype 'w harness_option =
    WithModel string
  | WithSystemPrompt string
  | WithMaxIterations int
  | WithBudget budget
  | WithParentSession session
  | WithBudgetLedger "nat option"
  | WithProviderRetries int
  | WithRetryBackoff duration
  | WithPromptCache bool
  | WithToolExecutor "'w executor option"
  | WithTools "tool_spec list"
  | WithStateStore "'w harness_store option"
  | WithMemoryScope string
  | WithIdempotencyNamespace string
  | WithEventStream "nat option"
  | WithHookBus "nat option"
  | WithResultSchema "result_schema option"
  | WithSchemaRepairAttempts int
  | WithStreaming bool
  | WithSequentialTools
  | WithPricing "(string, model_rate) gomap"
  | WithFallback "string list"
  | WithProviderResolver "(string \<Rightarrow> go_error + 'w provider_impl) option"
  | WithProviderGate "nat option"

definition or_else :: "'a::zero \<Rightarrow> 'a \<Rightarrow> 'a" where
  "or_else x d = (if x = 0 then d else x)"

definition apply_budget :: "budget \<Rightarrow> 'w harness_config \<Rightarrow> go_error + 'w harness_config" where
  "apply_budget b cfg =
     (if max_iterations b < 0 then Inl (ErrText ''max iterations must be greater than zero'')
      else if max_tokens b < 0 then Inl (ErrText ''max tokens must be greater than or equal to zero'')
      else if max_cost_usd b < 0 then Inl (ErrText ''max cost USD must be greater than or equal to zero'')
      else if max_wall_clock b < 0 then Inl (ErrText ''max wallclock must be greater than or equal to zero'')
      else Inr (cfg \<lparr>cf_budget :=
             \<lparr>max_iterations = or_else (max_iterations b) (max_iterations (cf_budget cfg)),
              max_tokens = or_else (max_tokens b) (max_tokens (cf_budget cfg)),
              max_cost_usd = or_else (max_cost_usd b) (max_cost_usd (cf_budget cfg)),
              max_wall_clock = or_else (max_wall_clock b) (max_wall_clock (cf_budget cfg))\<rparr>, cf_budget_set := True\<rparr>))"

definition apply_parent :: "session \<Rightarrow> 'w harness_config \<Rightarrow> go_error + 'w harness_config" where
  "apply_parent p cfg =
     (if ss_exec_id p = [] \<or> ss_session_id p = [] \<or> ss_trace_id p = []
      then Inl (ErrText ''parent session must include exec, session, and trace IDs'')
      else Inr (cfg \<lparr>cf_parent := Some p, cf_budget := (if cf_budget_set cfg then cf_budget cfg else ss_budget p)\<rparr>))"

text \<open>The loop of \<open>WithFallback\<close>: blank models are skipped, the first invalid one is an error.\<close>

fun fallback_models :: "string list \<Rightarrow> go_error + string list" where
  "fallback_models [] = Inr []"
| "fallback_models (m # ms) =
     (let model = trim_space m in
      if model = [] then fallback_models ms
      else case parse_model_id model of
        Inl err \<Rightarrow> Inl err
      | Inr _ \<Rightarrow> map_sum id ((#) model) (fallback_models ms))"

definition required :: "string \<Rightarrow> 'a option \<Rightarrow> ('a \<Rightarrow> 'c) \<Rightarrow> go_error + 'c" where
  "required what x f = (case x of None \<Rightarrow> Inl (ErrText (what @ '' is required'')) | Some a \<Rightarrow> Inr (f a))"

definition non_negative :: "string \<Rightarrow> int \<Rightarrow> 'c \<Rightarrow> go_error + 'c" where
  "non_negative what n c = (if n < 0 then Inl (ErrText (what @ '' must be greater than or equal to zero'')) else Inr c)"

fun apply_harness_option :: "'w harness_option \<Rightarrow> 'w harness_config \<Rightarrow> go_error + 'w harness_config" where
  "apply_harness_option (WithModel m) cfg = Inr (cfg \<lparr>cf_model := trim_space m\<rparr>)"
| "apply_harness_option (WithSystemPrompt p) cfg = Inr (cfg \<lparr>cf_system_prompt := p\<rparr>)"
| "apply_harness_option (WithMaxIterations n) cfg =
     (if n \<le> 0 then Inl (ErrText ''max iterations must be greater than zero'')
      else Inr (cfg \<lparr>cf_budget := cf_budget cfg \<lparr>max_iterations := n\<rparr>, cf_budget_set := True\<rparr>))"
| "apply_harness_option (WithBudget b) cfg = apply_budget b cfg"
| "apply_harness_option (WithParentSession p) cfg = apply_parent p cfg"
| "apply_harness_option (WithBudgetLedger l) cfg = required ''budget ledger'' l (\<lambda>a. cfg \<lparr>cf_ledger := Some a\<rparr>)"
| "apply_harness_option (WithProviderRetries n) cfg = non_negative ''provider retries'' n (cfg \<lparr>cf_provider_retries := n\<rparr>)"
| "apply_harness_option (WithRetryBackoff d) cfg = non_negative ''retry backoff'' d (cfg \<lparr>cf_retry_backoff := d\<rparr>)"
| "apply_harness_option (WithPromptCache b) cfg = Inr (cfg \<lparr>cf_prompt_cache := b\<rparr>)"
| "apply_harness_option (WithToolExecutor x) cfg = required ''tool executor'' x (\<lambda>a. cfg \<lparr>cf_executor := a\<rparr>)"
| "apply_harness_option (WithTools ts) cfg = Inr (cfg \<lparr>cf_tools := ts\<rparr>)"
| "apply_harness_option (WithStateStore s) cfg = required ''state store'' s (\<lambda>a. cfg \<lparr>cf_store := Some a\<rparr>)"
| "apply_harness_option (WithMemoryScope s) cfg = Inr (cfg \<lparr>cf_memory_scope := trim_space s\<rparr>)"
| "apply_harness_option (WithIdempotencyNamespace s) cfg = Inr (cfg \<lparr>cf_idem_scope := trim_space s\<rparr>)"
| "apply_harness_option (WithEventStream s) cfg = required ''event stream'' s (\<lambda>a. cfg \<lparr>cf_stream := Some a\<rparr>)"
| "apply_harness_option (WithHookBus b) cfg = required ''hook bus'' b (\<lambda>a. cfg \<lparr>cf_hook_bus := Some a\<rparr>)"
| "apply_harness_option (WithResultSchema rs) cfg = required ''result schema'' rs (\<lambda>a. cfg \<lparr>cf_result_schema := Some a\<rparr>)"
| "apply_harness_option (WithSchemaRepairAttempts n) cfg =
     non_negative ''schema repair attempts'' n (cfg \<lparr>cf_schema_repairs := n\<rparr>)"
| "apply_harness_option (WithStreaming b) cfg = Inr (cfg \<lparr>cf_stream_deltas := b\<rparr>)"
| "apply_harness_option WithSequentialTools cfg = Inr (cfg \<lparr>cf_sequential := True\<rparr>)"
| "apply_harness_option (WithPricing t) cfg = Inr (cfg \<lparr>cf_pricing := t\<rparr>)"
| "apply_harness_option (WithFallback ms) cfg = map_sum id (\<lambda>t. cfg \<lparr>cf_fallbacks := t\<rparr>) (fallback_models ms)"
| "apply_harness_option (WithProviderResolver r) cfg = required ''provider resolver'' r (\<lambda>a. cfg \<lparr>cf_resolver := Some a\<rparr>)"
| "apply_harness_option (WithProviderGate g) cfg = Inr (cfg \<lparr>cf_gate := g\<rparr>)"

fun apply_harness_options :: "'w harness_option list \<Rightarrow> 'w harness_config \<Rightarrow> go_error + 'w harness_config" where
  "apply_harness_options [] cfg = Inr cfg"
| "apply_harness_options (opt # opts) cfg =
     (case apply_harness_option opt cfg of Inl err \<Rightarrow> Inl err | Inr cfg' \<Rightarrow> apply_harness_options opts cfg')"

section \<open>New\<close>

definition request_cache_key :: "'w harness_world \<Rightarrow> 'w harness_config \<Rightarrow> string \<Rightarrow> tool_spec list \<Rightarrow> string" where
  "request_cache_key X cfg system tools =
     (if \<not> cf_prompt_cache cfg then []
      else case xe_encode_cache X (cf_model cfg) system tools of
        None \<Rightarrow> []
      | Some encoded \<Rightarrow> ''prompt:'' @ xe_sha256 X encoded)"

definition build_harness :: "'w harness_world \<Rightarrow> 'w provider_impl \<Rightarrow> 'w harness_config \<Rightarrow> nat \<Rightarrow> nat \<Rightarrow> 'w harness" where
  "build_harness X p cfg stream ledger =
     \<lparr>hn_provider = p, hn_model = cf_model cfg, hn_system_prompt = cf_system_prompt cfg, hn_budget = cf_budget cfg,
      hn_parent = cf_parent cfg, hn_executor = cf_executor cfg, hn_tools = cf_tools cfg, hn_store = cf_store cfg,
      hn_append = xe_append X (cf_store cfg) (Some stream) (cf_hook_bus cfg), hn_result_schema = cf_result_schema cfg,
      hn_schema_repairs = cf_schema_repairs cfg, hn_provider_retries = cf_provider_retries cfg,
      hn_retry_backoff = cf_retry_backoff cfg, hn_sequential = cf_sequential cfg, hn_pricing = cf_pricing cfg,
      hn_fallbacks = cf_fallbacks cfg, hn_resolver = cf_resolver cfg, hn_acquire = xe_acquire X (cf_gate cfg),
      hn_release = xe_release X (cf_gate cfg), hn_idem_scope = cf_idem_scope cfg, hn_ledger_ref = ledger,
      hn_ledger = xe_ledger X ledger, hn_set_ledger = xe_set_ledger X ledger, hn_now = xe_now X, hn_fresh = xe_fresh X,
      hn_sleep = xe_sleep X, hn_approval_id = xe_approval_id X, hn_schedule = xe_schedule X,
      hn_cache_key = request_cache_key X cfg\<rparr>"

definition new_harness ::
  "'w harness_world \<Rightarrow> 'w provider_impl option \<Rightarrow> 'w harness_option list \<Rightarrow> 'w \<Rightarrow> (go_error + 'w harness) \<times> 'w" where
  "new_harness X p opts w =
     (case p of None \<Rightarrow> (Inl (ErrText ''provider is required''), w)
      | Some p \<Rightarrow>
     (case apply_harness_options opts default_harness_config of
        Inl err \<Rightarrow> (Inl err, w)
      | Inr cfg \<Rightarrow>
     (case parse_model_id (cf_model cfg) of
        Inl err \<Rightarrow> (Inl err, w)
      | Inr _ \<Rightarrow>
          (case (case cf_stream cfg of Some s \<Rightarrow> (s, w) | None \<Rightarrow> xe_alloc_stream X w) of (stream, w1) \<Rightarrow>
          (case (case cf_ledger cfg of Some l \<Rightarrow> (l, w1) | None \<Rightarrow> xe_alloc_ledger X (new_budget_ledger (cf_budget cfg)) w1) of
             (ledger, w2) \<Rightarrow> (Inr (build_harness X p cfg stream ledger), w2))))))"

section \<open>Every harness is well formed\<close>

definition valid_budget :: "budget \<Rightarrow> bool" where
  "valid_budget b \<longleftrightarrow> 0 < max_iterations b \<and> 0 \<le> max_tokens b \<and> 0 \<le> max_cost_usd b \<and> 0 \<le> max_wall_clock b"

definition parses :: "string \<Rightarrow> bool" where
  "parses m \<longleftrightarrow> (case parse_model_id m of Inl _ \<Rightarrow> False | Inr _ \<Rightarrow> True)"

definition config_ok :: "'w harness_config \<Rightarrow> bool" where
  "config_ok cfg \<longleftrightarrow> valid_budget (cf_budget cfg) \<and> 0 \<le> cf_schema_repairs cfg \<and> 0 \<le> cf_provider_retries cfg
     \<and> 0 \<le> cf_retry_backoff cfg \<and> list_all parses (cf_fallbacks cfg)"

lemma default_config_ok: "config_ok default_harness_config"
  by (simp add: config_ok_def default_harness_config_def valid_budget_def default_budget_def time_second_def)

lemma map_sum_Inr [simp]: "map_sum f g x = Inr y \<longleftrightarrow> (\<exists>z. x = Inr z \<and> y = g z)"
  by (cases x) auto

lemma fallback_models_parse: "fallback_models ms = Inr ts \<Longrightarrow> list_all parses ts"
  by (induction ms arbitrary: ts rule: fallback_models.induct)
    (auto simp: Let_def parses_def split: if_splits sum.splits)

lemma apply_option_ok:
  assumes "apply_harness_option opt cfg = Inr cfg'" "config_ok cfg" "\<And>p. opt = WithParentSession p \<Longrightarrow> valid_budget (ss_budget p)"
  shows "config_ok cfg'"
  using assms
  by (cases opt) (auto simp: config_ok_def required_def non_negative_def apply_budget_def apply_parent_def valid_budget_def
    or_else_def fallback_models_parse split: option.splits if_splits sum.splits)

lemma apply_options_ok:
  "apply_harness_options opts cfg = Inr cfg' \<Longrightarrow> config_ok cfg \<Longrightarrow> \<forall>p. WithParentSession p \<in> set opts \<longrightarrow> valid_budget (ss_budget p)
     \<Longrightarrow> config_ok cfg'"
  by (induction opts arbitrary: cfg) (auto split: sum.splits dest: apply_option_ok)


end
