(* ===== verification/Runtime.thy ===== *)
theory Runtime
  imports Harness_Options Plans
begin

text \<open>
  \<open>http_runtime.go\<close> and the parts of \<open>runtime_http.go\<close> and \<open>runtime_idempotency.go\<close> on which the
  execution of a plan rests: the runtime with its dependencies, its events, the sessions of a pipeline,
  and the start and the end of an execution with the outcome of the trigger's idempotency keys and the
  pruning of its journal. The dependencies are the fields of the record \<open>http_runtime\<close>, functions of
  the world; the state store is the record \<open>run_store\<close>, whose optional fields are the extensions of
  the interface (outcomes of idempotency keys, leases) that a custom store may lack.
\<close>

section \<open>The runtime\<close>

record 'w lease_ops =
  lo_acquire :: "go_error option \<Rightarrow> string \<Rightarrow> string \<Rightarrow> duration \<Rightarrow> 'w \<Rightarrow> (go_error + lease \<times> bool) \<times> 'w"
  lo_renew :: "go_error option \<Rightarrow> string \<Rightarrow> string \<Rightarrow> u64 \<Rightarrow> duration \<Rightarrow> 'w \<Rightarrow> (go_error + lease \<times> bool) \<times> 'w"
  lo_release :: "go_error option \<Rightarrow> string \<Rightarrow> string \<Rightarrow> u64 \<Rightarrow> 'w io"

record 'w outcome_ops =
  oo_idempotency :: "go_error option \<Rightarrow> string \<Rightarrow> 'w \<Rightarrow> go_error + idempotency_record option"
  oo_resolve :: "go_error option \<Rightarrow> string \<Rightarrow> string \<Rightarrow> idempotency_outcome \<Rightarrow> 'w io"
  oo_resolve_by_execution :: "go_error option \<Rightarrow> string \<Rightarrow> string \<Rightarrow> idempotency_outcome \<Rightarrow> 'w io"

record 'w run_store =
  us_harness :: "'w harness_store"
  us_execution :: "go_error option \<Rightarrow> string \<Rightarrow> 'w \<Rightarrow> go_error + execution option"
  us_sessions :: "go_error option \<Rightarrow> 'w \<Rightarrow> go_error + session list"
  us_reserve :: "go_error option \<Rightarrow> string \<Rightarrow> string \<Rightarrow> 'w \<Rightarrow> (go_error + string \<times> bool) \<times> 'w"
  us_outcomes :: "'w outcome_ops option"
  us_leases :: "'w lease_ops option"
  us_save_journal :: "go_error option \<Rightarrow> run_journal \<Rightarrow> 'w io"
  us_journals :: "go_error option \<Rightarrow> 'w \<Rightarrow> go_error + run_journal list"
  us_save_checkpoint :: "go_error option \<Rightarrow> run_checkpoint \<Rightarrow> 'w io"
  us_checkpoints :: "go_error option \<Rightarrow> string \<Rightarrow> 'w \<Rightarrow> go_error + run_checkpoint list"
  us_begin_intent :: "go_error option \<Rightarrow> tool_intent \<Rightarrow> 'w io"
  us_complete_intent :: "go_error option \<Rightarrow> string \<Rightarrow> string \<Rightarrow> 'w io"
  us_intents :: "go_error option \<Rightarrow> string \<Rightarrow> 'w \<Rightarrow> go_error + tool_intent list"
  us_prune :: "go_error option \<Rightarrow> string \<Rightarrow> 'w io"
  us_prune_before :: "go_error option \<Rightarrow> go_time \<Rightarrow> 'w io"
  us_approvals :: "go_error option \<Rightarrow> string \<Rightarrow> 'w \<Rightarrow> go_error + pending_approval list"

record durable_config =
  du_retention :: duration
  du_lease_ttl :: duration

record loaded_skill =
  lk_name :: string
  lk_description :: string
  lk_body :: string

text \<open>A session of an MCP server: it registers its tools in an executor.\<close>

record 'w mcp_session =
  mc_register :: "'w executor \<Rightarrow> 'w \<Rightarrow> ('w executor \<times> (go_error + tool_spec list)) \<times> 'w"
  mc_close :: "'w io"

record 'w http_runtime =
  rx_world :: "'w harness_world"
  rx_registry :: "(string, 'w provider_impl) gomap option"
  rx_provider :: "'w provider_impl option"
  rx_executor :: "'w executor option"
  rx_store :: "'w run_store option"
  rx_stream :: "nat option"
  rx_hook_bus :: "nat option"
  rx_schema_repairs :: int
  rx_pricing :: "(string, model_rate) gomap"
  rx_stream_deltas :: bool
  rx_gate :: "nat option"
  rx_cron_lease :: "(string \<times> string \<times> u64) option"
  rx_durable :: "durable_config option"
  rx_replica_id :: string
  rx_normalize :: "plan_schema \<Rightarrow> string \<Rightarrow> go_error + string"
  rx_load_skill :: "go_error option \<Rightarrow> string \<Rightarrow> 'w \<Rightarrow> (go_error + loaded_skill) \<times> 'w"
  rx_bash :: "bash_tool \<Rightarrow> go_error + string \<times> 'w tool_body"
  rx_mcp_connect :: "go_error option \<Rightarrow> string \<Rightarrow> 'w \<Rightarrow> (go_error + 'w mcp_session) \<times> 'w"
  rx_num_cpu :: int
  rx_raw_items :: "string \<Rightarrow> go_error + string list option"
  rx_schedule :: "'w \<Rightarrow> nat \<Rightarrow> nat list"
  rx_pick_done :: "'w \<Rightarrow> bool"
  rx_prune_failed :: "go_error \<Rightarrow> 'w \<Rightarrow> 'w"
  rx_new_heartbeat :: "'w \<Rightarrow> nat \<times> 'w"
  rx_lost :: "nat \<Rightarrow> 'w \<Rightarrow> go_error option"
  rx_mark_lost :: "nat \<Rightarrow> go_error \<Rightarrow> 'w \<Rightarrow> 'w"
  rx_display_uri :: "string \<Rightarrow> string"
  rx_float_text :: "rat \<Rightarrow> string"
  rx_build :: string
  rx_ambient :: ambient

definition rx_now :: "'w http_runtime \<Rightarrow> 'w \<Rightarrow> go_time" where
  "rx_now rt = xe_now (rx_world rt)"

definition rx_sha :: "'w http_runtime \<Rightarrow> string \<Rightarrow> string" where
  "rx_sha rt = xe_sha256 (rx_world rt)"

definition harness_store_of :: "'w http_runtime \<Rightarrow> 'w harness_store option" where
  "harness_store_of rt = map_option us_harness (rx_store rt)"

section \<open>Events\<close>

definition append_runtime_event :: "'w http_runtime \<Rightarrow> 'w tool_env \<Rightarrow> event \<Rightarrow> 'w io" where
  "append_runtime_event rt ctx ev w =
     xe_append (rx_world rt) (harness_store_of rt) (rx_stream rt) None (te_ctx_err ctx w) ev w"

definition emit_through_hooks :: "'w http_runtime \<Rightarrow> 'w tool_env \<Rightarrow> event \<Rightarrow> 'w io" where
  "emit_through_hooks rt ctx ev w =
     (if rx_stream rt = None \<and> rx_hook_bus rt = None then (None, w)
      else xe_append (rx_world rt) (harness_store_of rt) (rx_stream rt) (rx_hook_bus rt) (te_ctx_err ctx w) ev w)"

definition session_event :: "session \<Rightarrow> string \<Rightarrow> payload \<Rightarrow> event" where
  "session_event s kind p = zero_event \<lparr>ev_kind := kind, ev_exec_id := ss_exec_id s, ev_session_id := ss_session_id s,
     ev_trace_id := ss_trace_id s, ev_payload := p\<rparr>"

definition emit_session_event :: "'w http_runtime \<Rightarrow> 'w tool_env \<Rightarrow> session \<Rightarrow> string \<Rightarrow> payload \<Rightarrow> 'w io" where
  "emit_session_event rt ctx s kind p = emit_through_hooks rt ctx (session_event s kind p)"

text \<open>\<open>planRunResult\<close>; its session is present when \<open>HasSession\<close> is set.\<close>

record plan_run_result =
  pr_output :: string
  pr_session :: "session option"

definition emit_runtime_event :: "'w http_runtime \<Rightarrow> 'w tool_env \<Rightarrow> plan_run_result \<Rightarrow> string \<Rightarrow> payload \<Rightarrow> 'w io" where
  "emit_runtime_event rt ctx r kind p =
     (case pr_session r of
        Some s \<Rightarrow> emit_session_event rt ctx s kind p
      | None \<Rightarrow> emit_through_hooks rt ctx (zero_event \<lparr>ev_kind := kind, ev_payload := p\<rparr>))"

definition emit_pipeline_event ::
  "'w http_runtime \<Rightarrow> 'w tool_env \<Rightarrow> plan_run_result \<Rightarrow> 'w plan \<Rightarrow> string \<Rightarrow> string \<Rightarrow> go_error option \<Rightarrow> 'w io" where
  "emit_pipeline_event rt ctx r plan kind status err =
     emit_runtime_event rt ctx r kind
       ([(''method'', AnyStr (tg_method (pn_trigger plan))), (''path'', AnyStr (tg_path (pn_trigger plan))),
         (''steps'', any_int (int (length (pn_steps plan)))), (''terminal'', AnyStr (tm_kind (pn_terminal plan))),
         (''status'', AnyStr status)]
        @ (case rx_cron_lease rt of None \<Rightarrow> []
           | Some (name, holder, fence) \<Rightarrow> [(''lease'', AnyStr name), (''holder'', AnyStr holder), (''fence'', any_int (int fence))])
        @ (case err of None \<Rightarrow> [] | Some e \<Rightarrow> [(''error'', any_err e)]))"

section \<open>Sessions and providers\<close>

definition pipeline_session_model :: "'w plan \<Rightarrow> string" where
  "pipeline_session_model plan =
     (case filter (\<lambda>m. m \<noteq> []) (map (sp_model \<circ> st_config) (pn_steps plan)) of [] \<Rightarrow> ''runtime/http'' | m # _ \<Rightarrow> m)"

definition new_pipeline_session :: "'w http_runtime \<Rightarrow> 'w plan \<Rightarrow> 'w \<Rightarrow> go_error + session" where
  "new_pipeline_session rt plan w =
     new_session (xe_fresh (rx_world rt) w) (rx_now rt w) (pipeline_session_model plan) [WithSessionBudget default_budget]"

definition pipeline_session_for_plan :: "'w http_runtime \<Rightarrow> 'w plan \<Rightarrow> session option \<Rightarrow> 'w \<Rightarrow> go_error + session" where
  "pipeline_session_for_plan rt plan s w = (case s of Some s \<Rightarrow> Inr s | None \<Rightarrow> new_pipeline_session rt plan w)"

definition err_provider_missing :: go_error where "err_provider_missing = ErrVar ''provider not configured''"
definition err_http_provider_missing :: go_error where
  "err_http_provider_missing = ErrVar ''http runtime provider not configured''"

definition registry_for_model :: "(string, 'w provider_impl) gomap \<Rightarrow> string \<Rightarrow> go_error + 'w provider_impl" where
  "registry_for_model reg model =
     (case parse_model_id model of
        Inl err \<Rightarrow> Inl err
      | Inr ref \<Rightarrow>
          (case mget reg (mf_provider ref) of
             None \<Rightarrow> Inl (ErrWrap [] err_provider_missing ('': '' @ mf_provider ref))
           | Some p \<Rightarrow> Inr p))"

definition runtime_provider_for_model :: "'w http_runtime \<Rightarrow> string \<Rightarrow> go_error + 'w provider_impl" where
  "runtime_provider_for_model rt model =
     (case rx_registry rt of
        Some reg \<Rightarrow>
          (case registry_for_model reg model of
             Inl err \<Rightarrow> Inl (ErrWrap [] err_http_provider_missing ('': '' @ err_text err))
           | Inr p \<Rightarrow> Inr p)
      | None \<Rightarrow> (case rx_provider rt of Some p \<Rightarrow> Inr p | None \<Rightarrow> Inl err_http_provider_missing))"

section \<open>The outcome of the trigger's keys\<close>

definition resolve_trigger_idempotency :: "'w http_runtime \<Rightarrow> 'w tool_env \<Rightarrow> string \<Rightarrow> string \<Rightarrow> 'w io" where
  "resolve_trigger_idempotency rt ctx execID status w =
     (case rx_store rt of None \<Rightarrow> (None, w)
      | Some db \<Rightarrow>
     (case us_outcomes db of None \<Rightarrow> (None, w)
      | Some os \<Rightarrow>
          (let out = (if status = ''completed'' then IdempotencySucceeded else IdempotencyFailed) in
           case oo_resolve_by_execution os (te_ctx_err ctx w) execID ''trigger:'' out w of (e1, w1) \<Rightarrow>
           case oo_resolve_by_execution os (te_ctx_err ctx w1) execID ''cron_fire:'' out w1 of (e2, w2) \<Rightarrow>
             (errors_join [e1, e2], w2))))"

text \<open>The finalization context keeps the values of its parent and drops its cancellation; the five seconds it has are not modelled.\<close>

definition finalization_ctx :: "'w tool_env \<Rightarrow> 'w tool_env" where
  "finalization_ctx ctx = without_cancel ctx"

definition resolve_reserved_failure :: "'w http_runtime \<Rightarrow> 'w tool_env \<Rightarrow> session option \<Rightarrow> 'w io" where
  "resolve_reserved_failure rt ctx s w =
     (case s of None \<Rightarrow> (None, w)
      | Some s \<Rightarrow> resolve_trigger_idempotency rt (finalization_ctx ctx) (ss_exec_id s) ''failed'' w)"

section \<open>The start and the end of an execution\<close>

definition record_prune_failure :: "'w http_runtime \<Rightarrow> 'w tool_env \<Rightarrow> session \<Rightarrow> string \<Rightarrow> go_error \<Rightarrow> 'w \<Rightarrow> 'w" where
  "record_prune_failure rt ctx s scope err w =
     snd (emit_session_event rt ctx s ''durable_run_prune_failed'' [(''scope'', AnyStr scope), (''error'', any_err err)]
       (rx_prune_failed rt err w))"

definition note_prune_failure :: "'w http_runtime \<Rightarrow> 'w tool_env \<Rightarrow> session \<Rightarrow> string \<Rightarrow> go_error option \<times> 'w \<Rightarrow> 'w" where
  "note_prune_failure rt ctx s scope r =
     (case r of (None, w) \<Rightarrow> w | (Some err, w) \<Rightarrow> record_prune_failure rt ctx s scope err w)"

definition prune_durable_run_journal :: "'w http_runtime \<Rightarrow> 'w tool_env \<Rightarrow> session \<Rightarrow> string \<Rightarrow> 'w \<Rightarrow> 'w" where
  "prune_durable_run_journal rt ctx s status w =
     (case (rx_durable rt, rx_store rt) of
        (Some du, Some db) \<Rightarrow>
          (let w1 = (if status = ''completed''
                     then note_prune_failure rt ctx s ''completed_run'' (us_prune db (te_ctx_err ctx w) (ss_exec_id s) w)
                     else w)
           in note_prune_failure rt ctx s ''retention''
                (us_prune_before db (te_ctx_err ctx w1) (rx_now rt w1 - du_retention du) w1))
      | _ \<Rightarrow> w)"

definition execution_of :: "session \<Rightarrow> execution_status \<Rightarrow> go_time \<Rightarrow> execution" where
  "execution_of s st completed = \<lparr>ex_exec_id = ss_exec_id s, ex_trace_id = ss_trace_id s, ex_status = st,
     ex_started_at = ss_started_at s, ex_completed_at = completed\<rparr>"

definition save_final_execution :: "'w http_runtime \<Rightarrow> 'w tool_env \<Rightarrow> session \<Rightarrow> string \<Rightarrow> 'w io" where
  "save_final_execution rt ctx s status w =
     (case rx_store rt of None \<Rightarrow> (None, w)
      | Some db \<Rightarrow> hs_save_execution (us_harness db) (te_ctx_err ctx w)
          (execution_of s (if status = ''completed'' then ExecutionCompleted else ExecutionFailed) (rx_now rt w)) w)"

definition finish_pipeline_with_outcome ::
  "'w http_runtime \<Rightarrow> 'w tool_env \<Rightarrow> session \<Rightarrow> 'w plan \<Rightarrow> string \<Rightarrow> string \<Rightarrow> go_error option \<Rightarrow> 'w io" where
  "finish_pipeline_with_outcome rt ctx0 s plan status outcome eventErr w =
     (let ctx = finalization_ctx ctx0;
          kind = (if status = ''completed'' then ''pipeline_completed'' else ''pipeline_failed'')
      in
      case resolve_trigger_idempotency rt ctx (ss_exec_id s) outcome w of (idemErr, w1) \<Rightarrow>
      case (if is_cancellation eventErr
            then emit_session_event rt ctx s ''session_cancelled''
                   [(''status'', AnyStr status), (''error'', any_err (the eventErr))] w1
            else (None, w1)) of (e1, w2) \<Rightarrow>
      case emit_pipeline_event rt ctx \<lparr>pr_output = [], pr_session = Some s\<rparr> plan kind status eventErr w2 of (e2, w3) \<Rightarrow>
      case emit_session_event rt ctx s ''session_saved'' [(''status'', AnyStr status)] w3 of (e3, w4) \<Rightarrow>
      case save_final_execution rt ctx s status w4 of (saveErr, w5) \<Rightarrow>
        (let emitErr = errors_join [errors_join [e1, e2], e3];
             w6 = (if rx_store rt \<noteq> None \<and> emitErr = None \<and> saveErr = None \<and> idemErr = None
                   then prune_durable_run_journal rt ctx s status w5 else w5)
         in (errors_join [emitErr, saveErr, idemErr], w6)))"

definition finish_pipeline_execution ::
  "'w http_runtime \<Rightarrow> 'w tool_env \<Rightarrow> session \<Rightarrow> 'w plan \<Rightarrow> string \<Rightarrow> go_error option \<Rightarrow> 'w io" where
  "finish_pipeline_execution rt ctx s plan status err = finish_pipeline_with_outcome rt ctx s plan status status err"

definition finish_after :: "'w http_runtime \<Rightarrow> 'w tool_env \<Rightarrow> session \<Rightarrow> 'w plan \<Rightarrow> go_error \<Rightarrow> 'w io" where
  "finish_after rt ctx s plan err w =
     (case finish_pipeline_execution rt ctx s plan ''failed'' (Some err) w of (e, w1) \<Rightarrow> (errors_join [Some err, e], w1))"

definition emit_pipeline_started :: "'w http_runtime \<Rightarrow> 'w tool_env \<Rightarrow> session \<Rightarrow> 'w plan \<Rightarrow> 'w io" where
  "emit_pipeline_started rt ctx s plan w =
     (case emit_session_event rt ctx s ''session_started'' [(''model'', AnyStr (ss_model s))] w of
        (Some err, w1) \<Rightarrow> finish_after rt ctx s plan err w1
      | (None, w1) \<Rightarrow>
          (case emit_pipeline_event rt ctx \<lparr>pr_output = [], pr_session = Some s\<rparr> plan ''pipeline_started'' ''started'' None w1 of
             (Some err, w2) \<Rightarrow> finish_after rt ctx s plan err w2
           | (None, w2) \<Rightarrow> (None, w2)))"

definition start_pipeline_execution :: "'w http_runtime \<Rightarrow> 'w tool_env \<Rightarrow> session \<Rightarrow> 'w plan \<Rightarrow> 'w io" where
  "start_pipeline_execution rt ctx s plan w =
     (case rx_store rt of
        None \<Rightarrow> emit_pipeline_started rt ctx s plan w
      | Some db \<Rightarrow>
          (case hs_save_execution (us_harness db) (te_ctx_err ctx w) (execution_of s ExecutionRunning zero_time) w of
             (Some err, w1) \<Rightarrow> (Some err, w1)
           | (None, w1) \<Rightarrow>
               (case hs_save_session (us_harness db) (te_ctx_err ctx w1) s w1 of
                  (Some err, w2) \<Rightarrow> (Some err, w2)
                | (None, w2) \<Rightarrow> emit_pipeline_started rt ctx s plan w2)))"

end
