(* ===== verification/Pipelines.thy ===== *)
theory Pipelines
  imports Runtime
begin

text \<open>
  The execution of the steps of a plan: \<open>runStepsResult\<close> of \<open>http_runtime.go\<close> with the tools it registers,
  the prompt of a step (\<open>http_runtime_skills.go\<close>), the sub-agents (\<open>subagent_runtime.go\<close>), the checkpoints
  and intents of a durable run (\<open>durableStepJournal\<close>), and the composition of pipelines by \<open>Parallel\<close> and
  \<open>Map\<close> (\<open>http_runtime_composition.go\<close>).

  The pipelines of a composition run one after the other in the order of a schedule; a failure cancels
  the context of the later ones, and where \<open>select\<close> finds both a slot and a cancelled context the world
  picks. The continuation of a suspended step, a closure in the code, is the record \<open>suspended_plan\<close>.
  What is read from the outside (a skill, a bash sandbox, an MCP server) is a field of the runtime.
\<close>

section \<open>The journal of the steps\<close>

record step_journal =
  sj_exec_id :: string
  sj_base :: int

definition checkpoint_step :: "'w http_runtime \<Rightarrow> 'w tool_env \<Rightarrow> step_journal option \<Rightarrow> nat \<Rightarrow> string \<Rightarrow> 'w io" where
  "checkpoint_step rt ctx j i output w =
     (case (j, rx_store rt) of
        (Some j, Some db) \<Rightarrow>
          (case us_save_checkpoint db (te_ctx_err ctx w)
             \<lparr>rc_exec_id = sj_exec_id j, rc_step_index = sj_base j + int i, rc_output = output, rc_replay_unsafe = False,
              rc_completed_at = zero_time\<rparr> w of
             (Some err, w1) \<Rightarrow> (Some (ErrWrap (''durable run checkpoint (step '' @ int_text (sj_base j + int i) @ ''): '') err []), w1)
           | (None, w1) \<Rightarrow> (None, w1))
      | _ \<Rightarrow> (None, w))"

definition journal_with_base :: "step_journal option \<Rightarrow> nat \<Rightarrow> step_journal option" where
  "journal_with_base j n = map_option (\<lambda>j. j \<lparr>sj_base := sj_base j + int n\<rparr>) j"

definition intent_ctx :: "'w http_runtime \<Rightarrow> step_journal option \<Rightarrow> nat \<Rightarrow> 'w tool_env \<Rightarrow> 'w tool_env" where
  "intent_ctx rt j i ctx =
     (case (j, rx_store rt) of
        (Some j, Some db) \<Rightarrow> ctx \<lparr>te_intents := Some
          \<lparr>in_exec_id = sj_exec_id j, in_step_index = sj_base j + int i,
           in_begin = (\<lambda>ti w. us_begin_intent db (te_tool_ctx_err ctx w) ti w),
           in_complete = (\<lambda>x c w. us_complete_intent db (te_tool_ctx_err ctx w) x c w)\<rparr>\<rparr>
      | _ \<Rightarrow> ctx)"

section \<open>Scopes and results\<close>

record plan_scope =
  px_parent :: "session option"
  px_ledger :: "nat option"
  px_durable :: "step_journal option"
  px_namespace :: string
  px_base :: int

record 'w suspended_plan =
  up_harness :: "'w harness"
  up_run :: suspended_run
  up_index :: nat
  up_remaining :: "'w step list"
  up_scope :: plan_scope

type_synonym 'w plan_outcome = "plan_run_result \<times> go_error option \<times> 'w suspended_plan option"
type_synonym 'w plan_run = "'w \<Rightarrow> 'w plan_outcome \<times> 'w"

definition session_of_outcome :: "outcome \<Rightarrow> session option" where
  "session_of_outcome out = (if ss_session_id (oc_session out) = [] then None else Some (oc_session out))"

definition pipeline_incomplete :: "outcome \<Rightarrow> go_error" where
  "pipeline_incomplete out = ErrIncomplete (status_text (oc_status out)) (oc_budget_exceeded out)"

section \<open>The tools of a step\<close>

definition tool_metadata_of :: "'w runtime_tool \<Rightarrow> tool_metadata" where
  "tool_metadata_of t = zero_metadata \<lparr>md_effect := tl_effect t, md_idempotency_key := tl_idempotency_key t,
     md_side_effects := tl_side_effects t, md_requires_approval := tl_requires_approval t,
     md_argument_name := tl_argument_name t, md_input_schema := tl_input_schema t, md_timeout := tl_timeout t\<rparr>"

type_synonym 'w registering = "'w executor \<times> (go_error + tool_spec list)"

fun register_runtime_tools :: "'w runtime_tool list \<Rightarrow> tool_spec list \<Rightarrow> 'w executor \<Rightarrow> 'w registering" where
  "register_runtime_tools [] specs ex = (ex, Inr specs)"
| "register_runtime_tools (t # ts) specs ex =
     (let spec = \<lparr>tp_name = tl_name t, tp_description = tl_description t, tp_input_schema = tl_input_schema t\<rparr> in
      case tl_go_func t of
        None \<Rightarrow> register_runtime_tools ts (specs @ [spec]) ex
      | Some f \<Rightarrow>
          (case register_tool (tl_name t) f [Some (with_metadata (tool_metadata_of t))] ex of
             (ex1, Some err) \<Rightarrow> (ex1, Inl err)
           | (ex1, None) \<Rightarrow> register_runtime_tools ts (specs @ [spec]) ex1))"

definition bash_input_schema :: string where
  "bash_input_schema =
     ''{\"additionalProperties\":false,\"properties\":{''
     @ ''\"command\":{\"description\":\"Bash command to run in the sandbox workspace.\",\"type\":\"string\"},''
     @ ''\"workdir\":{\"description\":\"Optional working directory relative to the sandbox workspace.\",\"type\":\"string\"}},''
     @ ''\"required\":[\"command\"],\"type\":\"object\"}''"

fun register_runtime_bash :: "'w http_runtime \<Rightarrow> bash_tool list \<Rightarrow> tool_spec list \<Rightarrow> 'w executor \<Rightarrow> 'w registering" where
  "register_runtime_bash rt [] specs ex = (ex, Inr specs)"
| "register_runtime_bash rt (b # bs) specs ex =
     (let name = (if trim_space (bt_name b) = [] then ''bash'' else trim_space (bt_name b)) in
      case rx_bash rt b of
        Inl err \<Rightarrow> (ex, Inl err)
      | Inr (dir, body) \<Rightarrow>
          (case register_tool name (Inr (body, \<lambda>_. None))
             [Some (with_metadata (zero_metadata \<lparr>md_kind := ToolKindBash, md_target := dir, md_effect := EffectSideEffecting,
                md_side_effects := [''process'', ''filesystem''], md_input_schema := bash_input_schema, md_timeout := bt_timeout b\<rparr>))] ex of
             (ex1, Some err) \<Rightarrow> (ex1, Inl err)
           | (ex1, None) \<Rightarrow> register_runtime_bash rt bs
               (specs @ [\<lparr>tp_name = name, tp_description = ''Run a bash command inside the configured sandbox workspace.'',
                         tp_input_schema = bash_input_schema\<rparr>]) ex1))"

text \<open>A sub-agent, with the handler that runs its pipeline.\<close>

fun register_sub_agents :: "(string \<times> bool \<times> 'w tool_body) list \<Rightarrow> tool_spec list \<Rightarrow> 'w executor \<Rightarrow> 'w registering" where
  "register_sub_agents [] specs ex = (ex, Inr specs)"
| "register_sub_agents ((name, partialOK, body) # sas) specs ex =
     (case register_tool name (Inr (body, \<lambda>_. None))
        [Some (with_metadata (zero_metadata \<lparr>md_effect := EffectSideEffecting, md_kind := ToolKindSubAgent, md_partial_ok := partialOK\<rparr>))] ex of
        (ex1, Some err) \<Rightarrow> (ex1, Inl err)
      | (ex1, None) \<Rightarrow> register_sub_agents sas
          (specs @ [\<lparr>tp_name = name, tp_description = ''Run the '' @ quoted name @ '' subagent pipeline.'',
                    tp_input_schema = ''{\"type\":\"object\",\"properties\":{\"input\":{\"type\":\"string\"}},\"additionalProperties\":true}''\<rparr>]) ex1)"

text \<open>Closing the MCP sessions of a step closes all of them, and joins the errors as it goes.\<close>

fun close_sessions :: "'w mcp_session list \<Rightarrow> go_error option \<Rightarrow> 'w io" where
  "close_sessions [] err w = (err, w)"
| "close_sessions (m # ms) err w = (case mc_close m w of (e, w1) \<Rightarrow> close_sessions ms (errors_join [err, e]) w1)"

fun connect_mcp_servers ::
  "'w http_runtime \<Rightarrow> 'w tool_env \<Rightarrow> string list \<Rightarrow> 'w mcp_session list \<Rightarrow> tool_spec list \<Rightarrow> 'w executor \<Rightarrow> 'w
     \<Rightarrow> (go_error + 'w executor \<times> tool_spec list \<times> 'w mcp_session list) \<times> 'w" where
  "connect_mcp_servers rt ctx [] sessions specs ex w = (Inr (ex, specs, sessions), w)"
| "connect_mcp_servers rt ctx (n # ns) sessions specs ex w =
     (case rx_mcp_connect rt (te_ctx_err ctx w) n w of
        (Inl err, w1) \<Rightarrow> (Inl err, snd (close_sessions sessions None w1))
      | (Inr m, w1) \<Rightarrow>
          (case mc_register m ex w1 of
             ((ex1, Inl err), w2) \<Rightarrow> (Inl err, snd (close_sessions (sessions @ [m]) None w2))
           | ((ex1, Inr found), w2) \<Rightarrow> connect_mcp_servers rt ctx ns (sessions @ [m]) (specs @ found) ex1 w2))"

definition register_step_tools ::
  "'w http_runtime \<Rightarrow> 'w tool_env \<Rightarrow> 'w step_config \<Rightarrow> (string \<times> bool \<times> 'w tool_body) list \<Rightarrow> 'w executor \<Rightarrow> 'w
     \<Rightarrow> (go_error + 'w executor \<times> tool_spec list \<times> 'w mcp_session list) \<times> 'w" where
  "register_step_tools rt ctx c sas ex w =
     (case register_runtime_tools (sp_tools c) [] ex of
        (_, Inl err) \<Rightarrow> (Inl err, w)
      | (ex1, Inr specs1) \<Rightarrow>
     (case register_runtime_bash rt (sp_bash c) [] ex1 of
        (_, Inl err) \<Rightarrow> (Inl err, w)
      | (ex2, Inr specs2) \<Rightarrow>
     (case register_sub_agents sas [] ex2 of
        (_, Inl err) \<Rightarrow> (Inl err, w)
      | (ex3, Inr specs3) \<Rightarrow> connect_mcp_servers rt ctx (sp_mcp_servers c) [] (specs1 @ specs2 @ specs3) ex3 w)))"

section \<open>The prompt of a step\<close>

definition emit_skill_loaded :: "'w http_runtime \<Rightarrow> 'w tool_env \<Rightarrow> plan_scope \<Rightarrow> loaded_skill \<Rightarrow> 'w io" where
  "emit_skill_loaded rt ctx scope k =
     emit_runtime_event rt ctx \<lparr>pr_output = [], pr_session = px_parent scope\<rparr> ''skill_loaded''
       [(''name'', AnyStr (lk_name k)), (''description'', AnyStr (lk_description k)),
        (''path'', AnyStr (''skills/'' @ lk_name k @ ''/SKILL.md''))]"

fun skill_prompts :: "'w http_runtime \<Rightarrow> 'w tool_env \<Rightarrow> plan_scope \<Rightarrow> string list \<Rightarrow> string \<Rightarrow> 'w \<Rightarrow> (go_error + string) \<times> 'w" where
  "skill_prompts rt ctx scope [] acc w = (Inr acc, w)"
| "skill_prompts rt ctx scope (n # ns) acc w =
     (case rx_load_skill rt (te_ctx_err ctx w) n w of
        (Inl err, w1) \<Rightarrow> (Inl err, w1)
      | (Inr k, w1) \<Rightarrow>
          (case emit_skill_loaded rt ctx scope k w1 of
             (Some err, w2) \<Rightarrow> (Inl err, w2)
           | (None, w2) \<Rightarrow> skill_prompts rt ctx scope ns
               (acc @ nl @ ''### '' @ lk_name k @ nl @ nl @ ''Description: '' @ lk_description k @ nl @ nl @ lk_body k @ nl) w2))"

definition system_prompt_for_step :: "'w http_runtime \<Rightarrow> 'w tool_env \<Rightarrow> plan_scope \<Rightarrow> 'w step_config \<Rightarrow> 'w \<Rightarrow> (go_error + string) \<times> 'w" where
  "system_prompt_for_step rt ctx scope c w =
     (if sp_skills c = [] then (Inr (sp_goal c), w)
      else skill_prompts rt ctx scope (sp_skills c) (sp_goal c @ nl @ nl @ ''## Skills'' @ nl) w)"

section \<open>Sub-agents\<close>

definition struct_string :: "string \<Rightarrow> (string \<times> json) list \<Rightarrow> go_error + string" where
  "struct_string name kvs =
     fold (\<lambda>(k, v) acc. if map lower_char k \<noteq> name then acc
        else case (acc, v) of
          (Inl err, _) \<Rightarrow> Inl err
        | (Inr _, JStr s) \<Rightarrow> Inr s
        | (Inr s, JNull) \<Rightarrow> Inr s
        | _ \<Rightarrow> Inl (ErrText ''json: cannot unmarshal into Go struct field of type string'')) kvs (Inr [])"

definition decode_error :: "string \<Rightarrow> go_error" where
  "decode_error msg = ErrWrap ''decode subagent input: '' (ErrText msg) []"

definition sub_agent_input :: "ambient \<Rightarrow> string \<Rightarrow> go_error + string" where
  "sub_agent_input E raw0 =
     (let raw = trim_space raw0 in
      if raw = [] then Inr []
      else case json_decode E raw of
        None \<Rightarrow> Inl (decode_error ''invalid JSON'')
      | Some (JStr s) \<Rightarrow> Inr s
      | Some JNull \<Rightarrow> Inr raw
      | Some (JObj kvs) \<Rightarrow>
          (case struct_string ''input'' kvs of
             Inl err \<Rightarrow> Inl (ErrWrap ''decode subagent input: '' err [])
           | Inr s \<Rightarrow> Inr (if s = [] then raw else s))
      | Some _ \<Rightarrow> Inl (decode_error ''json: cannot unmarshal value into Go value of type struct''))"

definition task_session_payload :: "plan_run_result \<Rightarrow> payload" where
  "task_session_payload r =
     (case pr_session r of None \<Rightarrow> []
      | Some s \<Rightarrow> [(''child_exec_id'', AnyStr (ss_exec_id s)), (''child_session_id'', AnyStr (ss_session_id s)),
                  (''child_trace_id'', AnyStr (ss_trace_id s))])"

definition emit_task :: "'w http_runtime \<Rightarrow> 'w tool_env \<Rightarrow> session \<Rightarrow> string \<Rightarrow> int \<Rightarrow> string \<Rightarrow> tool_call \<Rightarrow> payload \<Rightarrow> 'w io" where
  "emit_task rt ctx parent name maxParallel kind call extra =
     emit_session_event rt (if kind = ''task_failed'' then without_cancel ctx else ctx) parent kind
       ([(''subagent'', AnyStr name), (''tool_call_id'', AnyStr (tc_id call)), (''max_parallel'', any_int maxParallel)] @ extra)"

definition join_err :: "go_error \<Rightarrow> go_error option \<Rightarrow> go_error" where
  "join_err err e2 = (case errors_join [Some err, e2] of Some e \<Rightarrow> e | None \<Rightarrow> err)"

text \<open>
  \<open>subAgentHandler.Execute\<close>: \<open>run\<close> runs the pipeline of the sub-agent. The slot of the handler is free
  when a handler runs, so that the choice is between it and a context that has ended.
\<close>

definition sub_agent_max_depth :: int where "sub_agent_max_depth = 8"

definition run_sub_agent ::
  "'w http_runtime \<Rightarrow> string \<Rightarrow> int \<Rightarrow> ('w tool_env \<Rightarrow> string \<Rightarrow> plan_scope \<Rightarrow> 'w plan_run)
     \<Rightarrow> 'w tool_env \<Rightarrow> session \<Rightarrow> tool_call \<Rightarrow> string \<Rightarrow> int \<Rightarrow> 'w \<Rightarrow> handler_outcome \<times> 'w" where
  "run_sub_agent rt name maxParallel run ctx parent call input depth w =
     (case emit_task rt ctx parent name maxParallel ''task_started'' call [] w of
        (Some err, w1) \<Rightarrow> (HandlerError err, w1)
      | (None, w1) \<Rightarrow>
          (case run (ctx \<lparr>te_depth := depth\<rparr>) input
             \<lparr>px_parent = Some parent, px_ledger = te_ledger ctx, px_durable = None,
              px_namespace = child_namespace (rx_sha rt) (idempotency_namespace ctx) (''subagent:'' @ name) 0, px_base = 0\<rparr> w1 of
             ((r, Some err, _), w2) \<Rightarrow>
               (case emit_task rt ctx parent name maxParallel ''task_failed'' call
                  (task_session_payload r @ [(''error'', any_err err)]) w2 of (e, w3) \<Rightarrow> (HandlerError (join_err err e), w3))
           | ((r, None, _), w2) \<Rightarrow>
               (case emit_task rt ctx parent name maxParallel ''task_completed'' call (task_session_payload r) w2 of
                  (Some err, w3) \<Rightarrow> (HandlerError err, w3)
                | (None, w3) \<Rightarrow> (HandlerResult (success_result call
                    (case json_decode (rx_ambient rt) (pr_output r) of Some j \<Rightarrow> j | None \<Rightarrow> JStr (pr_output r))), w3))))"

definition sub_agent_handler ::
  "'w http_runtime \<Rightarrow> string \<Rightarrow> int \<Rightarrow> ('w tool_env \<Rightarrow> string \<Rightarrow> plan_scope \<Rightarrow> 'w plan_run)
     \<Rightarrow> 'w tool_env \<Rightarrow> tool_call \<Rightarrow> 'w \<Rightarrow> handler_outcome \<times> 'w" where
  "sub_agent_handler rt name maxParallel run ctx0 call w =
     (let ctx = ctx0 \<lparr>te_ctx_err := te_tool_ctx_err ctx0\<rparr> in
      case te_session ctx of
        None \<Rightarrow> (HandlerError (ErrText ''subagent requires parent session context''), w)
      | Some parent \<Rightarrow>
     (case sub_agent_input (rx_ambient rt) (tc_args call) of
        Inl err \<Rightarrow> (HandlerError err, w)
      | Inr input \<Rightarrow>
          (let depth = max 0 (te_depth ctx) + 1 in
           if sub_agent_max_depth < depth
           then (let err = ErrText (''SubAgent depth cannot exceed '' @ int_text sub_agent_max_depth) in
                 case emit_task rt ctx parent name maxParallel ''task_failed'' call
                   [(''error'', any_err err), (''depth'', any_int depth)] w of (e, w1) \<Rightarrow> (HandlerError (join_err err e), w1))
           else case te_ctx_err ctx w of
             Some err \<Rightarrow>
               if rx_pick_done rt w then (HandlerError err, w)
               else run_sub_agent rt name maxParallel run ctx parent call input depth w
           | None \<Rightarrow> run_sub_agent rt name maxParallel run ctx parent call input depth w)))"

section \<open>Composition\<close>

text \<open>One pipeline of a composition: how to run it, its input and its idempotency namespace.\<close>

type_synonym 'w composition_run = "('w tool_env \<Rightarrow> string \<Rightarrow> plan_scope \<Rightarrow> 'w plan_run) \<times> string \<times> string"

definition zero_plan_result :: plan_run_result where
  "zero_plan_result = \<lparr>pr_output = [], pr_session = None\<rparr>"

definition zero_plan_outcome :: "'w plan_outcome" where
  "zero_plan_outcome = (zero_plan_result, None, None)"

definition run_branch ::
  "'w http_runtime \<Rightarrow> 'w tool_env \<Rightarrow> plan_scope \<Rightarrow> 'w composition_run \<Rightarrow> 'w plan_run" where
  "run_branch rt ctx scope r w =
     (case r of (run, input, ns) \<Rightarrow>
      (case te_ctx_err ctx w of
         Some err \<Rightarrow>
           if rx_pick_done rt w then ((zero_plan_result, Some err, None), w)
           else run ctx input (scope \<lparr>px_namespace := ns, px_base := 0\<rparr>) w
       | None \<Rightarrow> run ctx input (scope \<lparr>px_namespace := ns, px_base := 0\<rparr>) w))"

fun run_branches ::
  "'w http_runtime \<Rightarrow> 'w tool_env \<Rightarrow> plan_scope \<Rightarrow> bool \<Rightarrow> 'w composition_run list \<Rightarrow> nat list \<Rightarrow> bool
     \<Rightarrow> 'w plan_outcome list \<Rightarrow> 'w \<Rightarrow> 'w plan_outcome list \<times> 'w" where
  "run_branches rt ctx scope partialOK runs [] cancelled outs w = (outs, w)"
| "run_branches rt ctx scope partialOK runs (i # is) cancelled outs w =
     (case run_branch rt (with_cancelled cancelled ctx) scope (runs ! i) w of
        (out, w1) \<Rightarrow> run_branches rt ctx scope partialOK runs is
          (cancelled \<or> \<not> partialOK \<and> fst (snd out) \<noteq> None) (outs[i := out]) w1)"

definition run_composition ::
  "'w http_runtime \<Rightarrow> 'w tool_env \<Rightarrow> plan_scope \<Rightarrow> bool \<Rightarrow> 'w composition_run list \<Rightarrow> 'w \<Rightarrow> 'w plan_outcome list \<times> 'w" where
  "run_composition rt ctx scope partialOK runs w =
     run_branches rt ctx scope partialOK runs (rx_schedule rt w (length runs)) False
       (replicate (length runs) zero_plan_outcome) w"

text \<open>The slots of a composition: its concurrency, at least one and at most one per pipeline.\<close>

definition composition_slots :: "int \<Rightarrow> nat \<Rightarrow> int" where
  "composition_slots concurrency runs =
     (let c = (if concurrency \<le> 0 then 1 else concurrency) in
      if int runs < c \<and> 0 < runs then int runs else c)"

definition default_composition_concurrency :: "'w http_runtime \<Rightarrow> nat \<Rightarrow> int" where
  "default_composition_concurrency rt items =
     (if items = 0 then 1
      else let c = (if rx_num_cpu rt \<le> 0 then 1 else rx_num_cpu rt) in if int items < c then int items else c)"

definition output_json_value :: "ambient \<Rightarrow> string \<Rightarrow> json" where
  "output_json_value E output = (case json_decode E output of Some j \<Rightarrow> j | None \<Rightarrow> JStr output)"

definition partial_outcome_value :: "ambient \<Rightarrow> 'w plan_outcome \<Rightarrow> json" where
  "partial_outcome_value E out =
     (case out of
        (_, Some err, _) \<Rightarrow> JObj [(''error'', JStr (err_text err)), (''ok'', JBool False)]
      | (r, None, _) \<Rightarrow> JObj [(''ok'', JBool True), (''output'', output_json_value E (pr_output r))])"

definition composition_items :: "ambient \<Rightarrow> bool \<Rightarrow> 'w plan_outcome list \<Rightarrow> json list" where
  "composition_items E partialOK outs =
     map (\<lambda>out. if partialOK then partial_outcome_value E out else output_json_value E (pr_output (fst out))) outs"

definition encode_composition_output :: "ambient \<Rightarrow> bool \<Rightarrow> 'w plan_outcome list \<Rightarrow> go_error + string" where
  "encode_composition_output E partialOK outs =
     (case json_encode E (JArr (composition_items E partialOK outs)) of
        None \<Rightarrow> Inl (ErrText ''json: unsupported value'')
      | Some s \<Rightarrow> Inr s)"

definition composition_result :: "'w plan_outcome list \<Rightarrow> string \<Rightarrow> plan_run_result" where
  "composition_result outs output =
     \<lparr>pr_output = output, pr_session = fold (\<lambda>out acc. case pr_session (fst out) of None \<Rightarrow> acc | Some s \<Rightarrow> Some s) outs None\<rparr>"

fun first_composition_error :: "'w plan_outcome list \<Rightarrow> (go_error \<times> 'w suspended_plan option) option" where
  "first_composition_error [] = None"
| "first_composition_error ((_, Some err, sp) # outs) = Some (err, sp)"
| "first_composition_error ((_, None, _) # outs) = first_composition_error outs"

definition composition_outcome :: "ambient \<Rightarrow> bool \<Rightarrow> 'w plan_outcome list \<Rightarrow> 'w plan_outcome" where
  "composition_outcome E partialOK outs =
     (case encode_composition_output E partialOK outs of
        Inl err \<Rightarrow> (composition_result outs [], Some err, None)
      | Inr output \<Rightarrow>
          (case (if partialOK then None else first_composition_error outs) of
             Some (err, sp) \<Rightarrow> (composition_result outs output, Some err, sp)
           | None \<Rightarrow> (composition_result outs output, None, None)))"

definition without_journal :: "plan_scope \<Rightarrow> plan_scope" where
  "without_journal scope = scope \<lparr>px_durable := None\<rparr>"

definition run_parallel_step ::
  "'w http_runtime \<Rightarrow> 'w tool_env \<Rightarrow> plan_scope \<Rightarrow> 'w step_config
     \<Rightarrow> ('w tool_env \<Rightarrow> string \<Rightarrow> plan_scope \<Rightarrow> 'w plan_run) list \<Rightarrow> string \<Rightarrow> 'w plan_run" where
  "run_parallel_step rt ctx scope c branches input w =
     (let runs = map (\<lambda>(i, run). (run, input, child_namespace (rx_sha rt) (px_namespace scope) ''parallel'' i))
                   (enumerate 0 branches)
      in case run_composition rt ctx (without_journal scope) (sp_partial_ok c) runs w of
           (outs, w1) \<Rightarrow> (composition_outcome (rx_ambient rt) (sp_partial_ok c) outs, w1))"

definition map_input_items :: "'w http_runtime \<Rightarrow> string \<Rightarrow> go_error + string list" where
  "map_input_items rt input =
     (case rx_raw_items rt input of
        Inl err \<Rightarrow> Inl (ErrWrap ''Map input must be a JSON array: '' err [])
      | Inr None \<Rightarrow> Inl (ErrText ''Map input must be a JSON array'')
      | Inr (Some items) \<Rightarrow> Inr items)"

definition run_map_step ::
  "'w http_runtime \<Rightarrow> 'w tool_env \<Rightarrow> plan_scope \<Rightarrow> 'w step_config
     \<Rightarrow> ('w tool_env \<Rightarrow> string \<Rightarrow> plan_scope \<Rightarrow> 'w plan_run) \<Rightarrow> string \<Rightarrow> 'w plan_run" where
  "run_map_step rt ctx scope c run input w =
     (case map_input_items rt input of
        Inl err \<Rightarrow> ((\<lparr>pr_output = input, pr_session = None\<rparr>, Some err, None), w)
      | Inr items \<Rightarrow>
          (let runs = map (\<lambda>item. (run, item, child_namespace (rx_sha rt) (px_namespace scope) ''map'' 0)) items
           in case run_composition rt ctx (without_journal scope) (sp_partial_ok c) runs w of
                (outs, w1) \<Rightarrow> (composition_outcome (rx_ambient rt) (sp_partial_ok c) outs, w1)))"

section \<open>The steps\<close>

definition result_schema_of :: "'w http_runtime \<Rightarrow> plan_schema \<Rightarrow> result_schema" where
  "result_schema_of rt s = \<lparr>rs_name = ps_name s, rs_json = ps_json s, rs_normalize = rx_normalize rt s\<rparr>"

definition runtime_budget_configured :: "budget \<Rightarrow> bool" where
  "runtime_budget_configured b \<longleftrightarrow> 0 < max_iterations b \<or> 0 < max_tokens b \<or> 0 < max_cost_usd b \<or> 0 < max_wall_clock b"

definition step_harness_options ::
  "'w http_runtime \<Rightarrow> plan_scope \<Rightarrow> 'w step_config \<Rightarrow> string \<Rightarrow> string \<Rightarrow> 'w executor \<Rightarrow> tool_spec list \<Rightarrow> 'w harness_option list" where
  "step_harness_options rt scope c ns prompt ex specs =
     [WithModel (sp_model c), WithSystemPrompt prompt, WithToolExecutor (Some ex), WithTools specs, WithIdempotencyNamespace ns]
     @ (case harness_store_of rt of None \<Rightarrow> [] | Some db \<Rightarrow> [WithStateStore (Some db)])
     @ (case rx_stream rt of None \<Rightarrow> [] | Some s \<Rightarrow> [WithEventStream (Some s)])
     @ (case rx_hook_bus rt of None \<Rightarrow> [] | Some b \<Rightarrow> [WithHookBus (Some b)])
     @ (case sp_result_schema c of None \<Rightarrow> [] | Some s \<Rightarrow> [WithResultSchema (Some (result_schema_of rt s))])
     @ (if runtime_budget_configured (sp_budget c) then [WithBudget (sp_budget c)] else [])
     @ (if sp_sequential_tools c then [WithSequentialTools] else [])
     @ (if 0 < rx_schema_repairs rt then [WithSchemaRepairAttempts (rx_schema_repairs rt)] else [])
     @ (case sp_retry c of None \<Rightarrow> [] | Some r \<Rightarrow> [WithProviderRetries (sy_provider_retries r), WithRetryBackoff (sy_backoff r)])
     @ (if sp_no_cache c then [WithPromptCache False] else [])
     @ (if rx_pricing rt \<noteq> [] then [WithPricing (rx_pricing rt)] else [])
     @ (case px_parent scope of None \<Rightarrow> [] | Some s \<Rightarrow> [WithParentSession s])
     @ (case px_ledger scope of None \<Rightarrow> [] | Some l \<Rightarrow> [WithBudgetLedger (Some l)])
     @ (if rx_stream_deltas rt then [WithStreaming True] else [])
     @ (if sp_fallback c \<noteq> [] then [WithFallback (sp_fallback c), WithProviderResolver (Some (runtime_provider_for_model rt))] else [])
     @ (case rx_gate rt of None \<Rightarrow> [] | Some g \<Rightarrow> [WithProviderGate (Some g)])"

definition executor_scope :: "'w executor option \<Rightarrow> 'w executor" where
  "executor_scope ex = (case ex of None \<Rightarrow> empty_executor | Some ex \<Rightarrow> ex \<lparr>xr_tools := []\<rparr>)"

text \<open>The harness of a step and the MCP sessions to close after it; those are closed when it cannot be built.\<close>

definition step_harness ::
  "'w http_runtime \<Rightarrow> 'w tool_env \<Rightarrow> plan_scope \<Rightarrow> 'w step_config \<Rightarrow> string \<Rightarrow> (string \<times> bool \<times> 'w tool_body) list \<Rightarrow> 'w
     \<Rightarrow> (go_error + 'w harness \<times> 'w mcp_session list) \<times> 'w" where
  "step_harness rt ctx scope c ns sas w =
     (case register_step_tools rt ctx c sas (executor_scope (rx_executor rt)) w of
        (Inl err, w1) \<Rightarrow> (Inl err, w1)
      | (Inr (ex, specs, mcp), w1) \<Rightarrow>
     (case runtime_provider_for_model rt (sp_model c) of
        Inl err \<Rightarrow> (Inl err, snd (close_sessions mcp None w1))
      | Inr p \<Rightarrow>
     (case system_prompt_for_step rt ctx scope c w1 of
        (Inl err, w2) \<Rightarrow> (Inl err, snd (close_sessions mcp None w2))
      | (Inr prompt, w2) \<Rightarrow>
     (case new_harness (rx_world rt) (Some p) (step_harness_options rt scope c ns prompt ex specs) w2 of
        (Inl err, w3) \<Rightarrow> (Inl err, snd (close_sessions mcp None w3))
      | (Inr h, w3) \<Rightarrow> (Inr (h, mcp), w3)))))"

text \<open>A step of kind \<open>pipe\<close>: \<open>Inl\<close> is what the loop returns, \<open>Inr\<close> the result to go on with.\<close>

definition run_pipe_step ::
  "'w http_runtime \<Rightarrow> 'w tool_env \<Rightarrow> plan_scope \<Rightarrow> nat \<Rightarrow> 'w step_config \<Rightarrow> string \<Rightarrow> (string \<times> bool \<times> 'w tool_body) list
     \<Rightarrow> 'w step list \<Rightarrow> string \<Rightarrow> plan_run_result \<Rightarrow> 'w \<Rightarrow> ('w plan_outcome + plan_run_result) \<times> 'w" where
  "run_pipe_step rt ctx scope i c ns sas remaining current result w =
     (let stepCtx = intent_ctx rt (px_durable scope) i ctx in
      case step_harness rt ctx scope c ns sas w of
        (Inl err, w1) \<Rightarrow> (Inl (result, Some err, None), w1)
      | (Inr (h, mcp), w1) \<Rightarrow>
     (case run_harness h stepCtx current w1 of
        ((out, runErr, sr), w2) \<Rightarrow>
          (let result = result \<lparr>pr_session := session_of_outcome out\<rparr> in
           case close_sessions mcp None w2 of (closeErr, w3) \<Rightarrow>
           case runErr of
             Some err \<Rightarrow>
               (Inl (result \<lparr>pr_output := oc_text out\<rparr>, Some err,
                  map_option (\<lambda>s. \<lparr>up_harness = h, up_run = s, up_index = i, up_remaining = remaining, up_scope = scope\<rparr>) sr), w3)
           | None \<Rightarrow>
               (case closeErr of
                  Some err \<Rightarrow> (Inl (result, Some err, None), w3)
                | None \<Rightarrow>
                    if oc_status out \<noteq> StatusCompleted
                    then (Inl (result \<lparr>pr_output := oc_text out\<rparr>, Some (pipeline_incomplete out), None), w3)
                    else case checkpoint_step rt ctx (px_durable scope) i (oc_text out) w3 of
                      (Some err, w4) \<Rightarrow> (Inl (result \<lparr>pr_output := oc_text out\<rparr>, Some err, None), w4)
                    | (None, w4) \<Rightarrow> (Inr (result \<lparr>pr_output := oc_text out\<rparr>), w4)))))"

text \<open>A composed step, checkpointed as one unit.\<close>

definition after_composed_step ::
  "'w http_runtime \<Rightarrow> 'w tool_env \<Rightarrow> plan_scope \<Rightarrow> nat \<Rightarrow> 'w plan_outcome \<times> 'w \<Rightarrow> ('w plan_outcome + plan_run_result) \<times> 'w" where
  "after_composed_step rt ctx scope i r =
     (case r of
        ((res, Some err, sp), w) \<Rightarrow> (Inl (res, Some err, sp), w)
      | ((res, None, _), w) \<Rightarrow>
          (case checkpoint_step rt ctx (px_durable scope) i (pr_output res) w of
             (Some err, w1) \<Rightarrow> (Inl (res, Some err, None), w1)
           | (None, w1) \<Rightarrow> (Inr res, w1)))"

definition step_scope :: "'w http_runtime \<Rightarrow> plan_scope \<Rightarrow> nat \<Rightarrow> 'w step \<Rightarrow> plan_scope" where
  "step_scope rt scope i s = scope \<lparr>px_namespace := step_namespace (rx_sha rt) (rx_float_text rt) (px_namespace scope)
     (px_base scope + int i) s, px_base := 0\<rparr>"

lemma size_pipeline: "size_list size (pl_steps p) < size p"
  by (cases p) simp

lemma size_sub_agent: "size_list size (pl_steps (sa_pipeline a)) < size a"
proof (cases a)
  case (SubAgent n p mp po)
  then show ?thesis using size_pipeline [of p] by simp
qed

lemma branch_smaller: "b \<in> set bs \<Longrightarrow> size_list size (pl_steps b) < size_list size bs"
  by (erule size_list_estimation) (rule size_pipeline)

lemma sub_agent_smaller: "a \<in> set sas \<Longrightarrow> size_list size (pl_steps (sa_pipeline a)) < size_list size sas"
  by (erule size_list_estimation) (rule size_sub_agent)

text \<open>
  The loop of \<open>runStepsResult\<close> from the step \<open>i\<close> on; the pipelines of branches, mapped items and
  sub-agents are smaller than the step they are in.
\<close>

function step_loop ::
  "'w http_runtime \<Rightarrow> 'w tool_env \<Rightarrow> plan_scope \<Rightarrow> 'w step list \<Rightarrow> nat \<Rightarrow> string \<Rightarrow> plan_run_result \<Rightarrow> 'w plan_run" where
  "step_loop rt ctx scope [] i current result w = ((result, None, None), w)"
| "step_loop rt ctx scope (Step c sas bs m # ss) i current result w =
     (let inner = step_scope rt scope i (Step c sas bs m);
          stepCtx = intent_ctx rt (px_durable scope) i ctx in
      case (if sp_kind c = step_parallel
            then after_composed_step rt ctx scope i (run_parallel_step rt stepCtx inner c
                   (map (\<lambda>b ctx input sc v. step_loop rt ctx sc (pl_steps b) 0 input \<lparr>pr_output = input, pr_session = None\<rparr> v) bs)
                   current w)
            else if sp_kind c = step_map
            then after_composed_step rt ctx scope i (run_map_step rt stepCtx inner c
                   (\<lambda>ctx input sc v. step_loop rt ctx sc (pl_steps m) 0 input \<lparr>pr_output = input, pr_session = None\<rparr> v)
                   current w)
            else run_pipe_step rt ctx scope i c (px_namespace inner)
                   (map (\<lambda>a. (sa_name a, sa_partial_ok a, Handler (sub_agent_handler rt (sa_name a) (sa_max_parallel a)
                      (\<lambda>ctx input sc v. step_loop rt ctx sc (pl_steps (sa_pipeline a)) 0 input
                         \<lparr>pr_output = input, pr_session = None\<rparr> v)))) sas)
                   ss current result w) of
        (Inl out, w1) \<Rightarrow> (out, w1)
      | (Inr res, w1) \<Rightarrow> step_loop rt ctx scope ss (i + 1) (pr_output res) res w1)"
  by pat_completeness auto
termination
  by (relation "measure (\<lambda>(rt, ctx, scope, ss, i, cur, r, w). size_list size ss)")
    (auto dest: branch_smaller sub_agent_smaller intro: less_le_trans [OF size_pipeline])

declare step_loop.simps [simp del]

definition run_steps :: "'w http_runtime \<Rightarrow> 'w tool_env \<Rightarrow> plan_scope \<Rightarrow> 'w step list \<Rightarrow> string \<Rightarrow> 'w plan_run" where
  "run_steps rt ctx scope steps input = step_loop rt ctx scope steps 0 input \<lparr>pr_output = input, pr_session = None\<rparr>"

section \<open>Resuming a suspended step\<close>

definition resume_plan :: "'w http_runtime \<Rightarrow> 'w tool_env \<Rightarrow> 'w suspended_plan \<Rightarrow> 'w plan_run" where
  "resume_plan rt ctx sp w =
     (let scope = up_scope sp; i = up_index sp in
      case resume_after_approval (up_harness sp) (intent_ctx rt (px_durable scope) i ctx) (up_run sp) w of
        ((out, err, _), w1) \<Rightarrow>
          (let r = \<lparr>pr_output = oc_text out, pr_session = session_of_outcome out\<rparr> in
           case err of
             Some e \<Rightarrow> ((r, Some e, None), w1)
           | None \<Rightarrow>
               if oc_status out \<noteq> StatusCompleted then ((r, Some (pipeline_incomplete out), None), w1)
               else case checkpoint_step rt ctx (px_durable scope) i (oc_text out) w1 of
                 (Some e, w2) \<Rightarrow> ((r, Some e, None), w2)
               | (None, w2) \<Rightarrow>
                   if up_remaining sp = [] then ((r, None, None), w2)
                   else case run_steps rt ctx
                       (scope \<lparr>px_durable := journal_with_base (px_durable scope) (i + 1), px_base := px_base scope + int i + 1\<rparr>)
                       (up_remaining sp) (oc_text out) w2 of
                     ((rest, e, sp'), w3) \<Rightarrow>
                       ((if pr_session rest = None then rest \<lparr>pr_session := pr_session r\<rparr> else rest, e, sp'), w3)))"

end
