(* ===== verification/Terminals.thy ===== *)
theory Terminals
  imports Pipelines
begin

text \<open>
  The terminals of a plan (\<open>runtime_http.go\<close>, \<open>runtime_http_resume.go\<close>): the reply, whose output is
  validated against the schema of the terminal, and the push and the sink, whose effect is an output
  tool executed under the permission policy and the intent journal like the tools of a model.

  The record \<open>egress\<close> holds what they call outside the process: the webhook, the queue, the file of
  the sandbox, and the validation of a JSON text against a schema.
\<close>

record 'w egress =
  eg_post_webhook :: "go_error option \<Rightarrow> string \<Rightarrow> string \<Rightarrow> 'w io"
  eg_publish_queue :: "go_error option \<Rightarrow> string \<Rightarrow> string \<Rightarrow> 'w io"
  eg_write_file :: "(string \<Rightarrow> string \<Rightarrow> 'w io) option"
  eg_validate_json :: "plan_schema \<Rightarrow> string \<Rightarrow> go_error option"

section \<open>Output tools\<close>

definition output_tool_input_schema :: string where
  "output_tool_input_schema =
     ''{\"type\":\"object\",\"properties\":{\"output\":{\"type\":\"string\"}},\"required\":[\"output\"],\"additionalProperties\":false}''"

definition output_tool_handler :: "ambient \<Rightarrow> ('w tool_env \<Rightarrow> string \<Rightarrow> 'w io) \<Rightarrow> 'w tool_env \<Rightarrow> tool_call \<Rightarrow> 'w \<Rightarrow> handler_outcome \<times> 'w" where
  "output_tool_handler E f ctx0 call w =
     (let ctx = ctx0 \<lparr>te_ctx_err := te_tool_ctx_err ctx0\<rparr> in
      case json_decode E (tc_args call) of
        Some (JObj kvs) \<Rightarrow>
          (case struct_string ''output'' kvs of
             Inl err \<Rightarrow> (HandlerError err, w)
           | Inr output \<Rightarrow>
               (case f ctx output w of
                  (Some err, w1) \<Rightarrow> (HandlerError err, w1)
                | (None, w1) \<Rightarrow> (HandlerResult (success_result call (JStr ''ok'')), w1)))
      | _ \<Rightarrow> (HandlerError (ErrText ''json: cannot unmarshal output tool arguments''), w))"

definition output_call_fields :: "tool_call \<Rightarrow> tool_metadata \<Rightarrow> go_error option \<Rightarrow> payload" where
  "output_call_fields call md err =
     [(''tool'', AnyStr (tc_name call)), (''tool_call_id'', AnyStr (tc_id call)), (''output_action'', AnyBool True),
      (''action'', AnyStr (action_kind_text (md_action_kind md))), (''tool_kind'', AnyStr (tool_kind_text (md_kind md))),
      (''effect'', AnyStr (effect_text (md_effect md)))]
     @ (case err of None \<Rightarrow> [] | Some e \<Rightarrow> [(''error'', any_err e)])"

definition output_permission_fields :: "(string \<Rightarrow> string) \<Rightarrow> permission_audit \<Rightarrow> payload" where
  "output_permission_fields sha audit =
     (let a = au_action audit; d = au_decision audit; target = trim_space (ac_target a) in
      [(''action'', AnyStr (action_kind_text (ac_kind a))), (''tool'', AnyStr (ac_tool_name a)),
       (''tool_kind'', AnyStr (ac_tool_kind a)), (''allowed'', AnyBool (de_allowed d \<and> au_err audit = None)),
       (''effect'', AnyStr (effect_text (ac_effect a))), (''output_action'', AnyBool True)]
      @ (if ac_side_effects a \<noteq> [] then [(''side_effects'', AnyStrs (ac_side_effects a))] else [])
      @ (if target \<noteq> [] then [(''target_hash'', AnyStr (sha target))] else [])
      @ (case au_err audit of
           Some err \<Rightarrow> [(''error'', any_err err)]
         | None \<Rightarrow> if \<not> de_allowed d \<and> de_reason d \<noteq> [] then [(''reason'', AnyStr (de_reason d))] else []))"

definition output_tool_error_text :: "ambient \<Rightarrow> json option \<Rightarrow> string" where
  "output_tool_error_text E content =
     (case content of
        None \<Rightarrow> ''tool returned error result''
      | Some j \<Rightarrow>
          let raw = (case json_encode E j of Some t \<Rightarrow> t | None \<Rightarrow> ''tool returned error result'')
          in case j of JStr text \<Rightarrow> if trim_space text \<noteq> [] then text else raw | _ \<Rightarrow> raw)"

definition execute_output_tool ::
  "'w http_runtime \<Rightarrow> 'w tool_env \<Rightarrow> plan_run_result \<Rightarrow> string \<Rightarrow> tool_metadata \<Rightarrow> ('w tool_env \<Rightarrow> string \<Rightarrow> 'w io) \<Rightarrow> string \<Rightarrow> 'w io" where
  "execute_output_tool rt ctx r name md f output w =
     (let E = rx_ambient rt in
      case register_tool name (Inr (Handler (output_tool_handler E f), \<lambda>_. None)) [Some (with_metadata md)]
             (executor_scope (rx_executor rt)) of
        (_, Some err) \<Rightarrow> (Some err, w)
      | (ex, None) \<Rightarrow>
     (case json_encode E (JObj [(''output'', JStr output)]) of
        None \<Rightarrow> (Some (ErrText ''json: unsupported value''), w)
      | Some args \<Rightarrow>
          (let call = \<lparr>tc_id = name, tc_name = name, tc_args = args\<rparr>;
               event = (\<lambda>kind err. emit_runtime_event rt ctx r kind (output_call_fields call md err));
               failed = (\<lambda>err w. case event ''tool_call_failed'' (Some err) w of (e, w1) \<Rightarrow> (errors_join [Some err, e], w1))
           in
           case event ''tool_call_started'' None w of
             (Some err, w1) \<Rightarrow> (Some err, w1)
           | (None, w1) \<Rightarrow>
               (case execute_tool_call (ctx \<lparr>te_observe := \<lambda>audit. emit_runtime_event rt ctx r ''permission_decision''
                        (output_permission_fields (rx_sha rt) audit)\<rparr>) ex call w1 of
                  ((_, Some err), w2) \<Rightarrow> failed err w2
                | ((res, None), w2) \<Rightarrow>
                    if tr_is_error res
                    then failed (ErrText (''output tool '' @ name @ '' failed: '' @ output_tool_error_text E (tr_content res))) w2
                    else event ''tool_call_completed'' None w2))))"

section \<open>Push and sink\<close>

definition output_metadata :: "action_kind \<Rightarrow> string \<Rightarrow> effect \<Rightarrow> string list \<Rightarrow> tool_metadata" where
  "output_metadata kind target eff sideEffects = zero_metadata \<lparr>md_action_kind := kind, md_kind := ToolKindOutput,
     md_target := target, md_effect := eff, md_side_effects := sideEffects, md_input_schema := output_tool_input_schema\<rparr>"

definition apply_push_terminal :: "'w http_runtime \<Rightarrow> 'w egress \<Rightarrow> 'w tool_env \<Rightarrow> terminal \<Rightarrow> plan_run_result \<Rightarrow> string \<Rightarrow> 'w io" where
  "apply_push_terminal rt eg ctx t r output w =
     (if tm_push_webhook_url t \<noteq> [] then
        execute_output_tool rt ctx r ''ouvrier_push_webhook''
          (output_metadata ActionPushWebhook (tm_push_webhook_url t) EffectSideEffecting [''webhook''])
          (\<lambda>ctx out w. eg_post_webhook eg (te_ctx_err ctx w) (tm_push_webhook_url t) out w) output w
      else if tm_push_queue_uri t \<noteq> [] then
        execute_output_tool rt ctx r ''ouvrier_push_queue''
          (output_metadata ActionPushQueue (tm_push_queue_uri t) EffectSideEffecting [''queue''])
          (\<lambda>ctx out w. eg_publish_queue eg (te_ctx_err ctx w) (tm_push_queue_uri t) out w) output w
      else (None, w))"

definition append_log_sink_event :: "'w http_runtime \<Rightarrow> 'w tool_env \<Rightarrow> plan_run_result \<Rightarrow> string \<Rightarrow> string \<Rightarrow> 'w io" where
  "append_log_sink_event rt ctx r key output =
     emit_runtime_event rt ctx r ''sink_logged'' [(''target'', AnyStr ''log''), (key, AnyStr (redact_json_text (rx_ambient rt) output))]"

definition apply_sink_terminal :: "'w http_runtime \<Rightarrow> 'w egress \<Rightarrow> 'w tool_env \<Rightarrow> terminal \<Rightarrow> plan_run_result \<Rightarrow> string \<Rightarrow> 'w io" where
  "apply_sink_terminal rt eg ctx t r key w =
     (if tm_sink_file_path t = [] then
        if tm_sink_log t then
          execute_output_tool rt ctx r ''ouvrier_sink_log'' (output_metadata ActionSinkLog [] EffectReadOnly [])
            (\<lambda>ctx out. append_log_sink_event rt ctx r key out) (pr_output r) w
        else (None, w)
      else
        execute_output_tool rt ctx r ''ouvrier_sink_file''
          (output_metadata ActionSinkFile (tm_sink_file_path t) EffectSideEffecting [''file''])
          (\<lambda>ctx out w. case eg_write_file eg of
               None \<Rightarrow> (Some (ErrText ''file sink requires sandbox''), w)
             | Some write \<Rightarrow> write (tm_sink_file_path t) out w) (pr_output r) w)"

section \<open>Reply\<close>

text \<open>The type of a schema is identified by its package path and its name.\<close>

definition compatible_result_schemas :: "plan_schema option \<Rightarrow> plan_schema option \<Rightarrow> bool" where
  "compatible_result_schemas l r =
     (case (l, r) of
        (Some a, Some b) \<Rightarrow>
          if ps_type a \<noteq> None \<or> ps_type b \<noteq> None then ps_type a = ps_type b
          else if ps_json a \<noteq> [] \<or> ps_json b \<noteq> [] then ps_json a = ps_json b
          else ps_name a = ps_name b
      | (None, None) \<Rightarrow> True
      | _ \<Rightarrow> False)"

definition reply_already_validated :: "'w plan \<Rightarrow> bool" where
  "reply_already_validated plan =
     (if tm_kind (pn_terminal plan) \<noteq> terminal_reply \<or> tm_result_schema (pn_terminal plan) = None \<or> pn_steps plan = [] then False
      else let c = st_config (last (pn_steps plan)) in
        if sp_kind c \<noteq> step_pipe then False
        else if sp_result_schema c = None then False
        else compatible_result_schemas (sp_result_schema c) (tm_result_schema (pn_terminal plan)))"

definition record_terminal_schema_violation ::
  "'w http_runtime \<Rightarrow> 'w tool_env \<Rightarrow> plan_schema \<Rightarrow> plan_run_result \<Rightarrow> go_error \<Rightarrow> 'w io" where
  "record_terminal_schema_violation rt ctx s r err w =
     (let v = \<lparr>sv_id = 0, sv_at = zero_time,
                sv_exec_id = (case pr_session r of None \<Rightarrow> [] | Some x \<Rightarrow> ss_exec_id x),
                sv_session_id = (case pr_session r of None \<Rightarrow> [] | Some x \<Rightarrow> ss_session_id x),
                sv_schema_name = ps_name s, sv_error = err_text err\<rparr>
      in
      case (case harness_store_of rt of None \<Rightarrow> (None, w) | Some db \<Rightarrow> hs_add_violation db (te_ctx_err ctx w) v w) of (e1, w1) \<Rightarrow>
      case emit_runtime_event rt ctx r ''schema_violation'' [(''schema'', AnyStr (ps_name s)), (''error'', any_err err)] w1 of
        (e2, w2) \<Rightarrow> (errors_join [e1, e2], w2))"

definition validate_observed_reply :: "'w http_runtime \<Rightarrow> 'w egress \<Rightarrow> 'w tool_env \<Rightarrow> 'w plan \<Rightarrow> plan_run_result \<Rightarrow> 'w io" where
  "validate_observed_reply rt eg ctx plan r w =
     (if reply_already_validated plan then (None, w)
      else if tm_kind (pn_terminal plan) \<noteq> terminal_reply then (None, w)
      else case tm_result_schema (pn_terminal plan) of
        None \<Rightarrow> (None, w)
      | Some s \<Rightarrow>
          (case eg_validate_json eg s (pr_output r) of
             Some err \<Rightarrow> (case record_terminal_schema_violation rt ctx s r err w of (e, w1) \<Rightarrow> (errors_join [Some err, e], w1))
           | None \<Rightarrow> emit_runtime_event rt ctx r ''schema_validation_passed'' [(''schema'', AnyStr (ps_name s))] w))"

text \<open>The terminal of a run, as a resumed, a replayed and a synchronous HTTP run apply it.\<close>

definition apply_resumed_terminal :: "'w http_runtime \<Rightarrow> 'w egress \<Rightarrow> 'w tool_env \<Rightarrow> 'w plan \<Rightarrow> plan_run_result \<Rightarrow> 'w io" where
  "apply_resumed_terminal rt eg ctx plan r w =
     (let t = pn_terminal plan in
      if tm_kind t = terminal_reply then validate_observed_reply rt eg ctx plan r w
      else if tm_kind t = terminal_push then apply_push_terminal rt eg ctx t r (pr_output r) w
      else if tm_kind t = terminal_sink then apply_sink_terminal rt eg ctx t r ''output'' w
      else (Some (ErrWrap [] err_pipeline_incomplete '': terminal missing''), w))"

end
