(* ===== verification/Run_Lease.thy ===== *)
theory Run_Lease
  imports Terminals
begin

text \<open>
  The lease of a durable run (\<open>durable_recovery.go\<close>): \<open>durableRunLeaseHeartbeat\<close>, which renews the lease
  while a run executes and whose execution context ends when a renewal cannot prove the ownership.

  A heartbeat is the record \<open>heartbeat\<close>; \<open>hb_id\<close> names the part of it that its goroutine changes in the
  world: the loss that it recorded (\<open>rx_lost\<close>, \<open>rx_mark_lost\<close>). The renewals of the goroutine are steps
  of the environment; those that the run waits for are here. A renewal that waits has a context of five
  seconds that keeps no cancellation; that this time passes is the choice of the store.
\<close>

record 'w heartbeat =
  hb_id :: nat
  hb_leases :: "'w lease_ops"
  hb_name :: string
  hb_holder :: string
  hb_ttl :: duration
  hb_lease :: lease

definition durable_run_lease_name :: "string \<Rightarrow> string" where
  "durable_run_lease_name execID = ''run:'' @ execID"

definition err_lease_lost :: go_error where
  "err_lease_lost = ErrVar ''durable run lease lost''"

definition heartbeat_loss :: "'w http_runtime \<Rightarrow> 'w heartbeat option \<Rightarrow> 'w \<Rightarrow> go_error option" where
  "heartbeat_loss rt hb w = (case hb of None \<Rightarrow> None | Some h \<Rightarrow> rx_lost rt (hb_id h) w)"

text \<open>\<open>context.Background()\<close>: it never ends and carries no value.\<close>

definition background :: "'w tool_env \<Rightarrow> 'w tool_env" where
  "background ctx = without_cancel (ctx \<lparr>te_approved := None, te_resolver := None, te_gate := None, te_idem := None,
     te_replay := False, te_intents := None, te_session := None, te_ledger := None, te_depth := 0\<rparr>)"

text \<open>
  The execution context of a heartbeat: that of its parent, cancelled by the loss of the lease. Without
  a heartbeat (a store that holds no leases) it is the background context, not that of the parent.
\<close>

definition execution_context :: "'w http_runtime \<Rightarrow> 'w heartbeat option \<Rightarrow> 'w tool_env \<Rightarrow> 'w tool_env" where
  "execution_context rt hb ctx =
     (case hb of None \<Rightarrow> background ctx
      | Some h \<Rightarrow> map_ctx_err (\<lambda>err w. case err w of
            Some e \<Rightarrow> Some e
          | None \<Rightarrow> if rx_lost rt (hb_id h) w = None then None else Some CtxCanceled) ctx)"

definition heartbeat_renew :: "'w heartbeat \<Rightarrow> 'w tool_env \<Rightarrow> 'w io" where
  "heartbeat_renew h ctx w =
     (let fence = le_fence (hb_lease h);
          what = hb_name h @ '' fence '' @ nat_text fence in
      case lo_renew (hb_leases h) (te_ctx_err ctx w) (hb_name h) (hb_holder h) fence (hb_ttl h) w of
        (Inl err, w1) \<Rightarrow>
          (case te_ctx_err ctx w1 of
             Some e \<Rightarrow> (Some e, w1)
           | None \<Rightarrow> (Some (ErrBoth err_lease_lost ('': renew '' @ what @ '': '') err), w1))
      | (Inr (current, True), w1) \<Rightarrow> (None, w1)
      | (Inr (current, False), w1) \<Rightarrow>
          (Some (ErrWrap [] err_lease_lost ('': '' @ what @
             (if le_name current = [] then '' is no longer owned''
              else '' is now held by '' @ le_holder current @ '' at fence '' @ nat_text (le_fence current)))), w1))"

definition heartbeat_error :: "'w http_runtime \<Rightarrow> 'w heartbeat option \<Rightarrow> 'w \<Rightarrow> go_error option \<Rightarrow> go_error option" where
  "heartbeat_error rt hb w err =
     (case heartbeat_loss rt hb w of
        None \<Rightarrow> err
      | Some loss \<Rightarrow> errors_join [err, Some CtxCanceled, Some loss])"

definition heartbeat_confirm :: "'w http_runtime \<Rightarrow> 'w heartbeat option \<Rightarrow> 'w tool_env \<Rightarrow> 'w io" where
  "heartbeat_confirm rt hb ctx w =
     (case hb of None \<Rightarrow> (None, w)
      | Some h \<Rightarrow>
     (case heartbeat_error rt hb w None of
        Some err \<Rightarrow> (Some err, w)
      | None \<Rightarrow>
          (case heartbeat_renew h ctx w of
             (None, w1) \<Rightarrow> (None, w1)
           | (Some err, w1) \<Rightarrow>
               if errors_is err err_lease_lost
               then let w2 = rx_mark_lost rt (hb_id h) err w1 in (heartbeat_error rt hb w2 None, w2)
               else (Some err, w1))))"

text \<open>The renewer is stopped first: no renewal of the goroutine follows.\<close>

definition heartbeat_stop_and_confirm :: "'w http_runtime \<Rightarrow> 'w heartbeat option \<Rightarrow> 'w tool_env \<Rightarrow> 'w io" where
  "heartbeat_stop_and_confirm rt hb ctx w = heartbeat_confirm rt hb (without_cancel ctx) w"

definition heartbeat_release :: "'w heartbeat option \<Rightarrow> 'w \<Rightarrow> 'w" where
  "heartbeat_release hb w =
     (case hb of None \<Rightarrow> w
      | Some h \<Rightarrow> snd (lo_release (hb_leases h) None (hb_name h) (hb_holder h) (le_fence (hb_lease h)) w))"

definition start_heartbeat ::
  "'w http_runtime \<Rightarrow> 'w lease_ops \<Rightarrow> string \<Rightarrow> string \<Rightarrow> duration \<Rightarrow> lease \<Rightarrow> 'w \<Rightarrow> 'w heartbeat \<times> 'w" where
  "start_heartbeat rt ls name holder ttl l w =
     (case rx_new_heartbeat rt w of (i, w1) \<Rightarrow>
       (\<lparr>hb_id = i, hb_leases = ls, hb_name = name, hb_holder = holder, hb_ttl = ttl, hb_lease = l\<rparr>, w1))"

definition default_run_lease_ttl :: duration where
  "default_run_lease_ttl = 30 * time_second"

definition run_lease_ttl :: "'w http_runtime \<Rightarrow> duration" where
  "run_lease_ttl rt = (case rx_durable rt of
     Some du \<Rightarrow> if 0 < du_lease_ttl du then du_lease_ttl du else default_run_lease_ttl
   | None \<Rightarrow> default_run_lease_ttl)"

text \<open>The instant of the message is rendered by the runtime; the model keeps the holder.\<close>

definition acquire_run_lease ::
  "'w http_runtime \<Rightarrow> 'w tool_env \<Rightarrow> string \<Rightarrow> 'w \<Rightarrow> (go_error + 'w heartbeat option) \<times> 'w" where
  "acquire_run_lease rt ctx execID w =
     (case (rx_durable rt, rx_store rt) of
        (Some du, Some db) \<Rightarrow>
          (case us_leases db of None \<Rightarrow> (Inr None, w)
           | Some ls \<Rightarrow>
               (let name = durable_run_lease_name execID in
                case lo_acquire ls (te_ctx_err ctx w) name (rx_replica_id rt) (run_lease_ttl rt) w of
                  (Inl err, w1) \<Rightarrow> (Inl (ErrWrap (''acquire durable run lease '' @ name @ '': '') err []), w1)
                | (Inr (l, False), w1) \<Rightarrow> (Inl (ErrText (''durable run lease '' @ name @ '' is held by '' @ le_holder l)), w1)
                | (Inr (l, True), w1) \<Rightarrow>
                    (case start_heartbeat rt ls name (rx_replica_id rt) (run_lease_ttl rt) l w1 of
                       (h, w2) \<Rightarrow> (Inr (Some h), w2))))
      | _ \<Rightarrow> (Inr None, w))"

text \<open>
  The forty attempts of a resumed run; \<open>sleep\<close> waits for the pause of fifty milliseconds or for the end
  of the context.
\<close>

fun acquire_attempts ::
  "'w http_runtime \<Rightarrow> ('w \<Rightarrow> go_error option \<times> 'w) \<Rightarrow> 'w tool_env \<Rightarrow> string \<Rightarrow> go_error option \<Rightarrow> nat \<Rightarrow> 'w
     \<Rightarrow> (go_error option + 'w heartbeat option) \<times> 'w" where
  "acquire_attempts rt sleep ctx execID lastErr 0 w = (Inl lastErr, w)"
| "acquire_attempts rt sleep ctx execID lastErr (Suc n) w =
     (case acquire_run_lease rt ctx execID w of
        (Inr hb, w1) \<Rightarrow> (Inr hb, w1)
      | (Inl err, w1) \<Rightarrow>
          (case sleep w1 of
             (Some e, w2) \<Rightarrow> (Inl (Some e), w2)
           | (None, w2) \<Rightarrow> acquire_attempts rt sleep ctx execID (Some err) n w2))"

definition acquire_with_retry ::
  "'w http_runtime \<Rightarrow> 'w tool_env \<Rightarrow> string \<Rightarrow> 'w \<Rightarrow> (go_error option + 'w heartbeat option) \<times> 'w" where
  "acquire_with_retry rt ctx execID w =
     acquire_attempts rt (xe_sleep (rx_world rt) (te_ctx_err ctx) (time_second div 20)) ctx execID None 40 w"

section \<open>What a confirmation proves\<close>

text \<open>What the runtime relies on: a loss that is recorded is read back (\<open>markLost\<close> and \<open>loss\<close> under one mutex).\<close>

definition marks_losses :: "'w http_runtime \<Rightarrow> bool" where
  "marks_losses rt \<longleftrightarrow> (\<forall>i err w. rx_lost rt i (rx_mark_lost rt i err w) \<noteq> None)"

lemma heartbeat_error_None: "heartbeat_error rt (Some h) w None = None \<longleftrightarrow> rx_lost rt (hb_id h) w = None"
  by (auto simp: heartbeat_error_def heartbeat_loss_def errors_join_None split: option.splits)

lemma heartbeat_renew_None:
  "heartbeat_renew h ctx w = (None, w') \<Longrightarrow>
   \<exists>current. lo_renew (hb_leases h) (te_ctx_err ctx w) (hb_name h) (hb_holder h) (le_fence (hb_lease h)) (hb_ttl h) w
      = (Inr (current, True), w')"
  by (auto simp: heartbeat_renew_def Let_def split: option.splits prod.splits sum.splits bool.splits if_splits)

lemma heartbeat_confirm_None:
  assumes "marks_losses rt" "heartbeat_confirm rt (Some h) ctx w = (None, w')"
  shows "rx_lost rt (hb_id h) w = None"
    "\<exists>current. lo_renew (hb_leases h) (te_ctx_err ctx w) (hb_name h) (hb_holder h) (le_fence (hb_lease h)) (hb_ttl h) w
      = (Inr (current, True), w')"
proof -
  have lost: "rx_lost rt i (rx_mark_lost rt i err v) \<noteq> None" for i err v
    using assms(1) by (simp add: marks_losses_def)
  from assms(2) have "heartbeat_error rt (Some h) w None = None \<and> heartbeat_renew h ctx w = (None, w')"
    by (auto simp: heartbeat_confirm_def Let_def heartbeat_error_None lost split: option.splits prod.splits if_splits)
  then show "rx_lost rt (hb_id h) w = None"
    "\<exists>current. lo_renew (hb_leases h) (te_ctx_err ctx w) (hb_name h) (hb_holder h) (le_fence (hb_lease h)) (hb_ttl h) w
      = (Inr (current, True), w')"
    by (auto simp: heartbeat_error_None dest: heartbeat_renew_None)
qed

end
