(* ===== verification/Plan_Run.thy ===== *)
theory Plan_Run
  imports Run_Lease
begin

text \<open>
  The run of a plan (\<open>runPlanResultWithSessionAndTerminal\<close> of \<open>http_runtime.go\<close>): the start of its
  execution, the lease and the journal of a durable run, its steps, its terminal and its end; and the
  registry in which a suspended run waits for its approval (\<open>runtime_http_resume.go\<close>).
\<close>

section \<open>The registry of suspended runs\<close>

record 'w approval_resume =
  rm_plan :: "'w plan"
  rm_session :: session
  rm_suspended :: "'w suspended_plan"

type_synonym 'w resume_registry = "(string, 'w approval_resume) gomap"

definition registry_store :: "string \<Rightarrow> 'w approval_resume \<Rightarrow> 'w resume_registry \<Rightarrow> 'w resume_registry" where
  "registry_store approvalID r reg = (if approvalID = [] then reg else mput approvalID r reg)"

definition registry_take :: "string \<Rightarrow> 'w resume_registry \<Rightarrow> 'w approval_resume option \<times> 'w resume_registry" where
  "registry_take approvalID reg =
     (if approvalID = [] then (None, reg)
      else case mget reg approvalID of None \<Rightarrow> (None, reg) | Some r \<Rightarrow> (Some r, mdel approvalID reg))"

text \<open>
  The worker: its runtime, what its terminals call, the registry in its world (a runtime may have none)
  and whether its group of background runs still accepts one.
\<close>

record 'w worker =
  wk_rt :: "'w http_runtime"
  wk_egress :: "'w egress"
  wk_has_registry :: bool
  wk_registry :: "'w \<Rightarrow> 'w resume_registry"
  wk_set_registry :: "'w resume_registry \<Rightarrow> 'w \<Rightarrow> 'w"
  wk_accepts_async :: "'w \<Rightarrow> bool"

definition remember_suspended_plan ::
  "'w worker \<Rightarrow> go_error \<Rightarrow> 'w suspended_plan option \<Rightarrow> 'w plan \<Rightarrow> session \<Rightarrow> 'w \<Rightarrow> bool \<times> 'w" where
  "remember_suspended_plan wk err sp plan s w =
     (case sp of None \<Rightarrow> (False, w)
      | Some p \<Rightarrow>
     (case as_suspended err of None \<Rightarrow> (False, w)
      | Some (approvalID, _) \<Rightarrow>
          if \<not> wk_has_registry wk then (False, w)
          else (True, wk_set_registry wk (registry_store approvalID
                  \<lparr>rm_plan = plan, rm_session = s, rm_suspended = p\<rparr> (wk_registry wk w)) w)))"

section \<open>The run\<close>

text \<open>The terminal, a function of its context and of the result of the steps; a run may have none.\<close>

type_synonym 'w plan_terminal = "'w tool_env \<Rightarrow> plan_run_result \<Rightarrow> 'w io"
type_synonym 'w run_result = "'w \<Rightarrow> (plan_run_result \<times> go_error option) \<times> 'w"

definition finish_failed ::
  "'w http_runtime \<Rightarrow> 'w tool_env \<Rightarrow> session \<Rightarrow> 'w plan \<Rightarrow> plan_run_result \<Rightarrow> go_error \<Rightarrow> 'w run_result" where
  "finish_failed rt ctx s plan result err w =
     (case finish_pipeline_execution rt ctx s plan ''failed'' (Some err) w of
        (e, w1) \<Rightarrow> ((result, errors_join [Some err, e]), w1))"

text \<open>The error of a step or a terminal, with the loss of the lease when there is one.\<close>

definition run_error :: "'w http_runtime \<Rightarrow> 'w heartbeat option \<Rightarrow> 'w \<Rightarrow> go_error \<Rightarrow> go_error" where
  "run_error rt hb w err = (case heartbeat_error rt hb w (Some err) of Some e \<Rightarrow> e | None \<Rightarrow> err)"

text \<open>After the terminal: the last proof of the lease, and the end of the execution.\<close>

definition settle_terminal :: "'w http_runtime \<Rightarrow> 'w tool_env \<Rightarrow> session \<Rightarrow> 'w \<Rightarrow> 'w" where
  "settle_terminal rt ctx s w = snd (resolve_trigger_idempotency rt (finalization_ctx ctx) (ss_exec_id s) ''completed'' w)"

definition complete_run ::
  "'w http_runtime \<Rightarrow> 'w heartbeat option \<Rightarrow> 'w tool_env \<Rightarrow> session \<Rightarrow> 'w plan \<Rightarrow> plan_run_result \<Rightarrow> bool \<Rightarrow> 'w run_result" where
  "complete_run rt hb ctx s plan result terminalSucceeded w =
     (case heartbeat_stop_and_confirm rt hb ctx w of
        (Some err0, w1) \<Rightarrow>
          (let err = run_error rt hb w1 err0 in
           case finish_pipeline_with_outcome rt ctx s plan ''failed'' (if terminalSucceeded then ''completed'' else ''failed'') (Some err) w1 of
             (e, w2) \<Rightarrow> ((result, errors_join [Some err, e]), w2))
      | (None, w1) \<Rightarrow>
          (case finish_pipeline_execution rt ctx s plan ''completed'' None w1 of (e, w2) \<Rightarrow> ((result, e), w2)))"

definition run_terminal ::
  "'w http_runtime \<Rightarrow> 'w heartbeat option \<Rightarrow> 'w tool_env \<Rightarrow> plan_scope \<Rightarrow> session \<Rightarrow> 'w plan \<Rightarrow> 'w plan_terminal option
     \<Rightarrow> plan_run_result \<Rightarrow> 'w run_result" where
  "run_terminal rt hb ctx scope s plan terminal result w =
     (case heartbeat_confirm rt hb ctx w of
        (Some err, w1) \<Rightarrow> finish_failed rt ctx s plan result (run_error rt hb w1 err) w1
      | (None, w1) \<Rightarrow>
     (case terminal of
        None \<Rightarrow> complete_run rt hb ctx s plan result False w1
      | Some t \<Rightarrow>
          (case t (intent_ctx rt (px_durable scope) (length (pn_steps plan)) ctx) result w1 of
             (Some err, w2) \<Rightarrow> finish_failed rt ctx s plan result (run_error rt hb w2 err) w2
           | (None, w2) \<Rightarrow> complete_run rt hb ctx s plan result True (settle_terminal rt ctx s w2))))"

definition with_session :: "session \<Rightarrow> plan_run_result \<Rightarrow> plan_run_result" where
  "with_session s r = (if pr_session r = None then r \<lparr>pr_session := Some s\<rparr> else r)"

definition run_plan_steps ::
  "'w worker \<Rightarrow> 'w heartbeat option \<Rightarrow> 'w tool_env \<Rightarrow> plan_scope \<Rightarrow> session \<Rightarrow> 'w plan \<Rightarrow> 'w plan_terminal option \<Rightarrow> string \<Rightarrow> 'w run_result" where
  "run_plan_steps wk hb ctx scope s plan terminal input w =
     (let rt = wk_rt wk in
      case run_steps rt ctx scope (pn_steps plan) input w of
        ((r0, None, _), w1) \<Rightarrow> run_terminal rt hb ctx scope s plan terminal (with_session s r0) w1
      | ((r0, Some err0, sp), w1) \<Rightarrow>
          (let r = with_session s r0; err = run_error rt hb w1 err0 in
           case (if errors_is err err_lease_lost then (False, w1) else remember_suspended_plan wk err sp plan s w1) of
             (True, w2) \<Rightarrow> ((r, Some err), w2)
           | (False, w2) \<Rightarrow> finish_failed rt ctx s plan r err w2))"

definition new_run_journal :: "'w http_runtime \<Rightarrow> 'w plan \<Rightarrow> string \<Rightarrow> session \<Rightarrow> run_journal" where
  "new_run_journal rt plan input s = \<lparr>rj_exec_id = ss_exec_id s, rj_plan_key = durable_plan_key (rx_display_uri rt) plan,
     rj_plan_hash = durable_plan_hash (rx_sha rt) (rx_float_text rt) (rx_build rt) plan,
     rj_trigger_kind = tg_kind (pn_trigger plan), rj_input = input, rj_replay_unsafe = False, rj_created_at = zero_time\<rparr>"

definition run_scope :: "'w http_runtime \<Rightarrow> 'w plan \<Rightarrow> session \<Rightarrow> plan_scope" where
  "run_scope rt plan s = \<lparr>px_parent = Some s, px_ledger = None, px_durable = None,
     px_namespace = plan_namespace (rx_sha rt) (rx_display_uri rt) plan, px_base = 0\<rparr>"

definition run_started_plan ::
  "'w worker \<Rightarrow> 'w tool_env \<Rightarrow> session \<Rightarrow> 'w plan \<Rightarrow> 'w plan_terminal option \<Rightarrow> string \<Rightarrow> 'w run_result" where
  "run_started_plan wk ctx s plan terminal input w =
     (let rt = wk_rt wk; scope = run_scope rt plan s; result = \<lparr>pr_output = input, pr_session = Some s\<rparr> in
      case (rx_durable rt, rx_store rt) of
        (Some du, Some db) \<Rightarrow>
          (case acquire_run_lease rt ctx (ss_exec_id s) w of
             (Inl err, w1) \<Rightarrow> finish_failed rt ctx s plan result (ErrWrap ''durable run lease: '' err []) w1
           | (Inr hb, w1) \<Rightarrow>
               (let ex = execution_context rt hb ctx in
                case (case us_save_journal db (te_ctx_err ex w1) (new_run_journal rt plan input s) w1 of
                        (Some err, w2) \<Rightarrow> finish_failed rt ex s plan result (run_error rt hb w2 (ErrWrap ''durable run journal: '' err [])) w2
                      | (None, w2) \<Rightarrow>
                          run_plan_steps wk hb ex (scope \<lparr>px_durable := Some \<lparr>sj_exec_id = ss_exec_id s, sj_base = 0\<rparr>\<rparr>) s plan terminal input w2) of
                  (out, w3) \<Rightarrow> (out, heartbeat_release hb w3)))
      | _ \<Rightarrow> run_plan_steps wk None ctx scope s plan terminal input w)"

definition run_plan ::
  "'w worker \<Rightarrow> 'w tool_env \<Rightarrow> 'w plan \<Rightarrow> string \<Rightarrow> session option \<Rightarrow> 'w plan_terminal option \<Rightarrow> 'w run_result" where
  "run_plan wk ctx plan input s0 terminal w =
     (let rt = wk_rt wk in
      case pipeline_session_for_plan rt plan s0 w of
        Inl err \<Rightarrow> ((\<lparr>pr_output = input, pr_session = None\<rparr>, Some err), w)
      | Inr s \<Rightarrow>
          (case start_pipeline_execution rt ctx s plan w of
             (Some err, w1) \<Rightarrow>
               (case resolve_reserved_failure rt ctx (Some s) w1 of
                  (e, w2) \<Rightarrow> ((\<lparr>pr_output = input, pr_session = Some s\<rparr>, errors_join [Some err, e]), w2))
           | (None, w1) \<Rightarrow> run_started_plan wk ctx s plan terminal input w1))"

end
