(* ===== verification/Cron_Leases.thy ===== *)
theory Cron_Leases
  imports Cron_Schedule Go_Format Lease_Store Plan_Run
begin

text \<open>
  The cron trigger (\<open>runtime_cron.go\<close>, \<open>runtime_cron_lease.go\<close>): the run of a tick, the names of the
  leases and the key of a tick, and the loop of a replica - the follower that polls the lease and the
  leader that renews it and fires - as a step relation over any number of replicas of one plan that
  share the state store.

  A step is one access to the store or one choice of a \<open>select\<close>, so that the steps of the replicas and of
  their fires interleave in every way. The clock of the store only has to be the one it reads; the
  clocks of the replicas are arbitrary. The waits of the follower and of the timer take any time.
\<close>

section \<open>The run of a tick\<close>

definition err_run_not_implemented :: go_error where "err_run_not_implemented = ErrVar ''run runtime not implemented''"
definition err_incompatible_terminal :: go_error where "err_incompatible_terminal = ErrVar ''terminal is incompatible with trigger''"

definition cron_input :: "ambient \<Rightarrow> trigger \<Rightarrow> go_time \<Rightarrow> string option" where
  "cron_input E t scheduledAt =
     json_encode E (JObj [(''expr'', JStr (tg_expr t)), (''scheduled_at'', JStr (rfc3339_nano scheduledAt)), (''trigger'', JStr ''cron'')])"

definition cron_terminal :: "'w worker \<Rightarrow> 'w plan \<Rightarrow> 'w plan_terminal" where
  "cron_terminal wk plan ctx result w =
     (let t = pn_terminal plan in
      if tm_kind t = terminal_push then apply_push_terminal (wk_rt wk) (wk_egress wk) ctx t result (pr_output result) w
      else if tm_kind t = terminal_sink then
        apply_sink_terminal (wk_rt wk) (wk_egress wk) ctx t result (if pn_steps plan = [] then ''input'' else ''output'') w
      else if tm_kind t = terminal_reply then (Some (ErrWrap [] err_incompatible_terminal '': Reply requires an HTTP trigger''), w)
      else (Some (ErrWrap [] err_incompatible_terminal '': terminal missing''), w))"

definition run_cron_plan_once :: "'w worker \<Rightarrow> 'w tool_env \<Rightarrow> 'w plan \<Rightarrow> go_time \<Rightarrow> session option \<Rightarrow> 'w run_result" where
  "run_cron_plan_once wk ctx plan scheduledAt s w =
     (let none = \<lparr>pr_output = [], pr_session = None\<rparr> in
      if tg_kind (pn_trigger plan) \<noteq> trigger_cron
      then ((none, Some (ErrWrap [] err_run_not_implemented '': expected cron trigger'')), w)
      else case cron_input (rx_ambient (wk_rt wk)) (pn_trigger plan) scheduledAt of
        None \<Rightarrow> ((none, Some (ErrText ''json: unsupported value'')), w)
      | Some input \<Rightarrow> run_plan wk ctx plan input s (Some (cron_terminal wk plan)) w)"

section \<open>Leases and keys\<close>

record cron_lease_config =
  cc_holder :: string
  cc_ttl :: duration
  cc_poll :: duration

text \<open>\<open>escape\<close> is the variable \<open>OUVRIER_CRON_LEASE\<close>, \<open>replica\<close> the identity of the process.\<close>

definition cron_lease_config_for_runtime :: "string \<Rightarrow> string \<Rightarrow> 'w http_runtime \<Rightarrow> cron_lease_config option" where
  "cron_lease_config_for_runtime escape replica rt =
     (case rx_store rt of None \<Rightarrow> None
      | Some db \<Rightarrow>
          if us_leases db = None then None
          else if ascii_equal_fold (trim_space escape) ''off'' then None
          else Some \<lparr>cc_holder = replica, cc_ttl = 30 * time_second, cc_poll = 15 * time_second\<rparr>)"

definition cron_replica_id :: "string \<Rightarrow> string option \<Rightarrow> string \<Rightarrow> string" where
  "cron_replica_id env hostname rand8 =
     (if trim_space env \<noteq> [] then trim_space env
      else (case hostname of None \<Rightarrow> ''replica'' | Some h \<Rightarrow> if trim_space h = [] then ''replica'' else h) @ ''-'' @ rand8)"

text \<open>Eight digits of the hash, two for each of its first four bytes.\<close>

definition cron_lease_name :: "(string \<Rightarrow> string) \<Rightarrow> string \<Rightarrow> nat \<Rightarrow> string" where
  "cron_lease_name sha expr occurrence = ''cron:'' @ take 8 (sha expr) @ '':'' @ nat_text occurrence"

fun cron_names_from :: "(string \<Rightarrow> string) \<Rightarrow> string list \<Rightarrow> string list \<Rightarrow> string list" where
  "cron_names_from sha seen [] = []"
| "cron_names_from sha seen (expr # exprs) =
     cron_lease_name sha expr (count_list seen expr) # cron_names_from sha (expr # seen) exprs"

definition cron_lease_names_for_plans :: "(string \<Rightarrow> string) \<Rightarrow> 'w plan list \<Rightarrow> string list" where
  "cron_lease_names_for_plans sha plans = cron_names_from sha [] (map (\<lambda>p. tg_expr (pn_trigger p)) plans)"

definition cron_fire_key :: "string \<Rightarrow> go_time \<Rightarrow> string" where
  "cron_fire_key leaseName scheduledAt = ''cron_fire:'' @ leaseName @ '':'' @ rfc3339_nano scheduledAt"

definition cron_lease_payload :: "string \<Rightarrow> string \<Rightarrow> lease \<Rightarrow> payload" where
  "cron_lease_payload leaseName holder l =
     [(''lease'', AnyStr leaseName), (''holder'', AnyStr holder), (''fence'', any_int (int (le_fence l))),
      (''expires_at'', AnyStr (rfc3339_nano (le_expires_at l)))]"

section \<open>The state of a replica\<close>

datatype cron_phase =
    CronFollower
  | CronWaiting lease
  | CronDue lease go_time
  | CronRenewed lease go_time
  | CronMinted lease go_time string
  | CronReserved lease go_time string
  | CronTeardown lease
  | CronReturned

text \<open>A fire: the goroutine that runs the plan for one tick, under the stamp of the lease.\<close>

record cron_fire =
  cf_exec :: string
  cf_at :: go_time
  cf_fence :: u64

record cron_replica =
  cr_phase :: cron_phase
  cr_ctx :: "go_error option"
  cr_renewing :: bool
  cr_lost :: bool
  cr_fires :: "cron_fire list"

type_synonym cron_event = "string \<times> payload"

section \<open>The steps of a replica\<close>

text \<open>
  Each function is one stretch of the code between two accesses; it returns the replica, the store and
  the events it emits. \<open>now\<close> is the clock of the store.
\<close>

text \<open>\<open>runLeasedCronLoop\<close>: one iteration of the follower.\<close>

definition cron_follow ::
  "cron_lease_config \<Rightarrow> string \<Rightarrow> go_time \<Rightarrow> cron_replica \<Rightarrow> memory_store \<Rightarrow> cron_replica \<times> memory_store \<times> cron_event list" where
  "cron_follow cfg name now r s =
     (if cr_ctx r \<noteq> None then (r \<lparr>cr_phase := CronReturned\<rparr>, s, [])
      else case acquire_lease (cr_ctx r) now name (cc_holder cfg) (cc_ttl cfg) s of
        (s1, Inr (l, True)) \<Rightarrow>
          (r \<lparr>cr_phase := CronWaiting l, cr_renewing := True, cr_lost := False\<rparr>, s1,
           [(''cron_lease_acquired'', cron_lease_payload name (cc_holder cfg) l)])
      | (s1, _) \<Rightarrow> (r, s1, []))"

text \<open>The head of the leader loop: the next tick after the reading \<open>t\<close> of the replica's clock.\<close>

definition cron_timer :: "cron_schedule \<Rightarrow> go_time \<Rightarrow> cron_replica \<Rightarrow> cron_replica" where
  "cron_timer schedule t r =
     (case cr_phase r of
        CronWaiting l \<Rightarrow>
          let due = schedule_next schedule t in
          if is_zero due then r else r \<lparr>cr_phase := CronDue l due\<rparr>
      | _ \<Rightarrow> r)"

text \<open>The other cases of the \<open>select\<close>: the context has ended, or the renewer lost the lease.\<close>

definition cron_interrupt :: "cron_lease_config \<Rightarrow> string \<Rightarrow> bool \<Rightarrow> cron_replica \<Rightarrow> cron_replica \<times> cron_event list" where
  "cron_interrupt cfg name seeLost r =
     (case cr_phase r of
        CronWaiting l \<Rightarrow>
          if seeLost \<and> cr_lost r
          then (r \<lparr>cr_phase := CronTeardown l\<rparr>, [(''cron_lease_lost'', cron_lease_payload name (cc_holder cfg) l)])
          else if cr_ctx r \<noteq> None then (r \<lparr>cr_phase := CronTeardown l\<rparr>, [])
          else (r, [])
      | _ \<Rightarrow> (r, []))"

text \<open>The renewal right before a fire.\<close>

definition cron_tick ::
  "cron_lease_config \<Rightarrow> string \<Rightarrow> go_time \<Rightarrow> cron_replica \<Rightarrow> memory_store \<Rightarrow> cron_replica \<times> memory_store \<times> cron_event list" where
  "cron_tick cfg name now r s =
     (case cr_phase r of
        CronDue l due \<Rightarrow>
          (case renew_lease (cr_ctx r) now name (cc_holder cfg) (le_fence l) (cc_ttl cfg) s of
             (s1, Inr (renewed, True)) \<Rightarrow> (r \<lparr>cr_phase := CronRenewed renewed due\<rparr>, s1, [])
           | (s1, _) \<Rightarrow>
               (r \<lparr>cr_phase := CronTeardown l\<rparr>, s1,
                if cr_ctx r \<noteq> None then [] else [(''cron_lease_lost'', cron_lease_payload name (cc_holder cfg) l)]))
      | _ \<Rightarrow> (r, s, []))"

text \<open>The session of the fire, which may not be mintable; \<open>mint\<close> is its execution identifier.\<close>

definition cron_session :: "string option \<Rightarrow> cron_replica \<Rightarrow> cron_replica" where
  "cron_session mint r =
     (case cr_phase r of
        CronRenewed l due \<Rightarrow> r \<lparr>cr_phase := (case mint of None \<Rightarrow> CronWaiting l | Some x \<Rightarrow> CronMinted l due x)\<rparr>
      | _ \<Rightarrow> r)"

definition cron_reserve ::
  "cron_lease_config \<Rightarrow> string \<Rightarrow> go_time \<Rightarrow> cron_replica \<Rightarrow> memory_store \<Rightarrow> cron_replica \<times> memory_store \<times> cron_event list" where
  "cron_reserve cfg name now r s =
     (case cr_phase r of
        CronMinted l due x \<Rightarrow>
          (let skipped = (\<lambda>reason. (''cron_tick_skipped'',
                 cron_lease_payload name (cc_holder cfg) l @ (''scheduled_at'', AnyStr (rfc3339_nano due)) # reason)) in
           case reserve_idempotency (cr_ctx r) now (cron_fire_key name due) x s of
             (s1, Inr (_, True)) \<Rightarrow> (r \<lparr>cr_phase := CronReserved l due x\<rparr>, s1, [])
           | (s1, Inr (_, False)) \<Rightarrow>
               (r \<lparr>cr_phase := CronWaiting l\<rparr>, s1, [skipped [(''reason'', AnyStr ''duplicate_fire'')]])
           | (s1, Inl err) \<Rightarrow>
               if cr_ctx r \<noteq> None then (r \<lparr>cr_phase := CronTeardown l\<rparr>, s1, [])
               else (r \<lparr>cr_phase := CronWaiting l\<rparr>, s1,
                     [skipped [(''reason'', AnyStr ''reserve_error''), (''error'', any_err err)]]))
      | _ \<Rightarrow> (r, s, []))"

text \<open>A slot of the worker pool, or the end of the context; with both, the \<open>select\<close> chooses.\<close>

definition cron_pool_limit :: "int \<Rightarrow> nat" where
  "cron_pool_limit limit = (if limit \<le> 0 then 1 else nat limit)"

definition cron_dispatch :: "int \<Rightarrow> bool \<Rightarrow> cron_replica \<Rightarrow> cron_replica" where
  "cron_dispatch limit preferDone r =
     (case cr_phase r of
        CronReserved l due x \<Rightarrow>
          if length (cr_fires r) < cron_pool_limit limit \<and> \<not> (preferDone \<and> cr_ctx r \<noteq> None)
          then r \<lparr>cr_phase := CronWaiting l, cr_fires := \<lparr>cf_exec = x, cf_at = due, cf_fence = le_fence l\<rparr> # cr_fires r\<rparr>
          else if cr_ctx r \<noteq> None then r \<lparr>cr_phase := CronTeardown l\<rparr>
          else r
      | _ \<Rightarrow> r)"

text \<open>A tick of the renewer in the background; it ends with the teardown.\<close>

definition cron_leading :: "cron_phase \<Rightarrow> lease option" where
  "cron_leading p = (case p of CronFollower \<Rightarrow> None | CronReturned \<Rightarrow> None
     | CronWaiting l \<Rightarrow> Some l | CronDue l _ \<Rightarrow> Some l | CronRenewed l _ \<Rightarrow> Some l | CronMinted l _ _ \<Rightarrow> Some l
     | CronReserved l _ _ \<Rightarrow> Some l | CronTeardown l \<Rightarrow> Some l)"

definition cron_renewer :: "cron_lease_config \<Rightarrow> string \<Rightarrow> go_time \<Rightarrow> cron_replica \<Rightarrow> memory_store \<Rightarrow> cron_replica \<times> memory_store" where
  "cron_renewer cfg name now r s =
     (case cron_leading (cr_phase r) of
        None \<Rightarrow> (r, s)
      | Some l \<Rightarrow>
          if \<not> cr_renewing r then (r, s)
          else case renew_lease (cr_ctx r) now name (cc_holder cfg) (le_fence l) (cc_ttl cfg) s of
            (s1, Inr (_, True)) \<Rightarrow> (r, s1)
          | (s1, _) \<Rightarrow> (r \<lparr>cr_renewing := False, cr_lost := (cr_lost r \<or> cr_ctx r = None)\<rparr>, s1))"

text \<open>
  The deferred functions: the renewer is stopped, the fires are awaited, then the lease is released
  under a fresh context and the follower takes over.
\<close>

definition cron_stop_renewer :: "cron_replica \<Rightarrow> cron_replica" where
  "cron_stop_renewer r = (case cr_phase r of CronTeardown _ \<Rightarrow> r \<lparr>cr_renewing := False\<rparr> | _ \<Rightarrow> r)"

definition cron_release :: "cron_lease_config \<Rightarrow> string \<Rightarrow> go_time \<Rightarrow> cron_replica \<Rightarrow> memory_store \<Rightarrow> cron_replica \<times> memory_store" where
  "cron_release cfg name now r s =
     (case cr_phase r of
        CronTeardown l \<Rightarrow>
          if cr_renewing r \<or> cr_fires r \<noteq> [] then (r, s)
          else (r \<lparr>cr_phase := CronFollower\<rparr>, fst (release_lease None now name (cc_holder cfg) (le_fence l) s))
      | _ \<Rightarrow> (r, s))"

text \<open>
  What the run of a fire does to the keys when it settles (\<open>resolveTriggerIdempotency\<close>, after its terminal
  and at its end); a suspended run settles nothing. Then its goroutine returns.
\<close>

definition cron_settle :: "go_time \<Rightarrow> bool \<Rightarrow> cron_fire \<Rightarrow> memory_store \<Rightarrow> memory_store" where
  "cron_settle now completed f s =
     fst (resolve_idempotency_by_execution None now (cf_exec f) ''cron_fire:''
       (if completed then IdempotencySucceeded else IdempotencyFailed) s)"

definition cron_fire_returns :: "cron_fire \<Rightarrow> cron_replica \<Rightarrow> cron_replica" where
  "cron_fire_returns f r = r \<lparr>cr_fires := remove1 f (cr_fires r)\<rparr>"

end
