(* ===== verification/Http_Trigger.thy ===== *)
theory Http_Trigger
  imports Cron_Leases
begin

text \<open>
  The HTTP and webhook triggers (\<open>runtime_http.go\<close>, \<open>runtime_http_sse.go\<close>): the preparation of a request -
  its size, its signature, its input and the reservation of its idempotency key - and the handlers that
  run the plan and answer.

  A request is the record \<open>http_request\<close>; its headers map canonical keys to values. A handler returns
  the response it writes. A background run is executed when it is started.
\<close>

section \<open>Requests and responses\<close>

record http_request =
  rq_body :: string
  rq_body_error :: "go_error option"
  rq_headers :: "(string, string list) gomap"
  rq_path_value :: "string \<Rightarrow> string"

text \<open>
  A JSON answer with its status, output and budget, the answer of a suspended run, a stream of
  server-sent events, or nothing because the client is gone.
\<close>

datatype http_response =
    HttpJson int string string string
  | HttpSuspended string string string
  | HttpEvents string

abbreviation HttpStatus :: "int \<Rightarrow> string \<Rightarrow> http_response" where
  "HttpStatus code status \<equiv> HttpJson code status [] []"

fun response_code :: "http_response \<Rightarrow> int" where
  "response_code (HttpJson c _ _ _) = c"
| "response_code (HttpSuspended _ _ _) = 202"
| "response_code (HttpEvents _) = 200"

definition status_json :: "string \<Rightarrow> string \<Rightarrow> string \<Rightarrow> json" where
  "status_json status output budget = JObj ([(''status'', JStr status)]
     @ (if output = [] then [] else [(''output'', JStr output)])
     @ (if budget = [] then [] else [(''budget'', JStr budget)]))"

definition suspended_json :: "string \<Rightarrow> string \<Rightarrow> string \<Rightarrow> json" where
  "suspended_json approvalID execID tool = JObj [(''approval_id'', JStr approvalID), (''exec_id'', JStr execID),
     (''status'', JStr ''pending_approval''), (''tool'', JStr tool)]"

text \<open>The body; \<open>json.Encoder\<close> ends it with a newline and an answer that does not encode is empty.\<close>

fun response_body :: "ambient \<Rightarrow> http_response \<Rightarrow> string" where
  "response_body E (HttpJson _ s out b) =
     (case json_encode E (status_json s out b) of None \<Rightarrow> [] | Some t \<Rightarrow> t @ [CHR 0x0A])"
| "response_body E (HttpSuspended a x t) =
     (case json_encode E (suspended_json a x t) of None \<Rightarrow> [] | Some t \<Rightarrow> t @ [CHR 0x0A])"
| "response_body E (HttpEvents t) = t"

text \<open>\<open>textproto.CanonicalMIMEHeaderKey\<close> and \<open>Header.Get\<close>.\<close>

definition upper_char :: "char \<Rightarrow> char" where
  "upper_char c = (if CHR ''a'' \<le> c \<and> c \<le> CHR ''z'' then char_of (of_char c - 32 :: nat) else c)"

definition header_token_char :: "char \<Rightarrow> bool" where
  "header_token_char c \<longleftrightarrow>
     (let n = of_char c :: nat in n \<in> {48..57} \<or> n \<in> {97..122} \<or> n \<in> {65..90})
     \<or> c \<in> set ''!#$%&*+-.^_|~'' \<or> c = CHR 0x27 \<or> c = CHR 0x60"

fun canonical_from :: "bool \<Rightarrow> string \<Rightarrow> string" where
  "canonical_from up [] = []"
| "canonical_from up (c # cs) = (if up then upper_char c else lower_char c) # canonical_from (c = CHR ''-'') cs"

definition canonical_header_key :: "string \<Rightarrow> string" where
  "canonical_header_key k = (if list_all header_token_char k then canonical_from True k else k)"

definition header_get :: "http_request \<Rightarrow> string \<Rightarrow> string" where
  "header_get req k = (case mget (rq_headers req) (canonical_header_key k) of Some (v # _) \<Rightarrow> v | _ \<Rightarrow> [])"

text \<open>\<open>os.Getenv\<close>: the first entry of the name.\<close>

definition getenv :: "ambient \<Rightarrow> string \<Rightarrow> string" where
  "getenv E name = (if name = [] then [] else
     case filter (\<lambda>(k, v, found). found \<and> k = name) (map (\<lambda>e. go_cut e ''='') (environ E)) of
       [] \<Rightarrow> [] | (_, v, _) # _ \<Rightarrow> v)"

text \<open>
  A route: its plan, the pool of its workers (none is unlimited) whose use the world counts, the HMAC
  function, and what it reads of the event stream and of the stored events.
\<close>

record 'w http_route =
  ht_worker :: "'w worker"
  ht_plan :: "'w plan"
  ht_pool :: "nat option"
  ht_in_use :: "'w \<Rightarrow> nat"
  ht_set_in_use :: "nat \<Rightarrow> 'w \<Rightarrow> 'w"
  ht_hmac :: "string \<Rightarrow> string \<Rightarrow> string"
  ht_new_stream :: "'w \<Rightarrow> nat \<times> 'w"
  ht_stream :: "nat \<Rightarrow> 'w \<Rightarrow> event_stream"
  ht_events_since :: "go_error option \<Rightarrow> string \<Rightarrow> u64 \<Rightarrow> 'w \<Rightarrow> go_error + event list"
  ht_event_json :: "event \<Rightarrow> go_error + string"

abbreviation ht_rt :: "'w http_route \<Rightarrow> 'w http_runtime" where
  "ht_rt r \<equiv> wk_rt (ht_worker r)"

definition try_acquire_worker :: "'w http_route \<Rightarrow> 'w \<Rightarrow> bool \<times> 'w" where
  "try_acquire_worker r w =
     (case ht_pool r of None \<Rightarrow> (True, w)
      | Some limit \<Rightarrow> if ht_in_use r w < limit then (True, ht_set_in_use r (ht_in_use r w + 1) w) else (False, w))"

definition release_worker :: "'w http_route \<Rightarrow> 'w \<Rightarrow> 'w" where
  "release_worker r w = (case ht_pool r of None \<Rightarrow> w | Some limit \<Rightarrow> ht_set_in_use r (ht_in_use r w - 1) w)"

definition http_security_error :: "'w http_runtime \<Rightarrow> 'w plan \<Rightarrow> go_error option" where
  "http_security_error rt plan =
     (let t = pn_trigger plan; env = trim_space (tg_signature_env t) in
      if trim_space (tg_idempotency_header t) \<noteq> [] \<and> rx_store rt = None
      then Some (ErrText ''invalid node: IdempotencyKey requires a StateStore'')
      else if env = [] then None
      else if trim_space (getenv (rx_ambient rt) env) = []
      then Some (ErrText (''invalid node: VerifySignature secret env var '' @ env @ '' is not set''))
      else None)"

definition validate_http_security :: "'w plan list \<Rightarrow> 'w http_runtime \<Rightarrow> go_error option" where
  "validate_http_security plans rt =
     (case List.map_filter (http_security_error rt) plans of [] \<Rightarrow> None | e # _ \<Rightarrow> Some e)"

section \<open>The signature\<close>

definition hex_value :: "char \<Rightarrow> nat option" where
  "hex_value c =
     (if CHR ''0'' \<le> c \<and> c \<le> CHR ''9'' then Some (of_char c - 48)
      else if CHR ''a'' \<le> c \<and> c \<le> CHR ''f'' then Some (of_char c - 87)
      else if CHR ''A'' \<le> c \<and> c \<le> CHR ''F'' then Some (of_char c - 55) else None)"

fun hex_decode :: "string \<Rightarrow> string option" where
  "hex_decode [] = Some []"
| "hex_decode [c] = None"
| "hex_decode (c # d # cs) =
     (case (hex_value c, hex_value d, hex_decode cs) of
        (Some a, Some b, Some bs) \<Rightarrow> Some (char_of (16 * a + b) # bs) | _ \<Rightarrow> None)"

definition signature_digits :: "string \<Rightarrow> string" where
  "signature_digits raw =
     (let s = trim_space raw in if map lower_char (take 7 s) = ''sha256='' then drop 7 s else s)"

definition decode_signature :: "string \<Rightarrow> string option" where
  "decode_signature raw =
     (case hex_decode (signature_digits raw) of None \<Rightarrow> None | Some bs \<Rightarrow> if length bs = 32 then Some bs else None)"

definition valid_signature :: "(string \<Rightarrow> string \<Rightarrow> string) \<Rightarrow> string \<Rightarrow> string \<Rightarrow> string \<Rightarrow> bool" where
  "valid_signature hmac secret payload raw =
     (case decode_signature raw of None \<Rightarrow> False | Some provided \<Rightarrow> provided = hmac secret payload)"

definition emit_signature_decision :: "'w http_route \<Rightarrow> 'w tool_env \<Rightarrow> string \<Rightarrow> 'w io" where
  "emit_signature_decision r ctx decision =
     (let t = pn_trigger (ht_plan r) in
      emit_runtime_event (ht_rt r) ctx \<lparr>pr_output = [], pr_session = None\<rparr> ''signature_decision''
        [(''scope'', AnyStr ''trigger''), (''method'', AnyStr (tg_method t)), (''path'', AnyStr (tg_path t)),
         (''header'', AnyStr (canonical_header_key (tg_signature_header t))), (''decision'', AnyStr decision)])"

text \<open>\<open>None\<close> when the request may go on.\<close>

definition verify_request_signature ::
  "'w http_route \<Rightarrow> 'w tool_env \<Rightarrow> http_request \<Rightarrow> string \<Rightarrow> 'w \<Rightarrow> http_response option \<times> 'w" where
  "verify_request_signature r ctx req body w =
     (let t = pn_trigger (ht_plan r); env = trim_space (tg_signature_env t); name = trim_space (tg_signature_header t);
          decide = (\<lambda>decision resp. case emit_signature_decision r ctx decision w of
             (Some _, w1) \<Rightarrow> (Some (HttpStatus 500 ''event_stream_error''), w1) | (None, w1) \<Rightarrow> (resp, w1));
          value = trim_space (header_get req name); secret = getenv (rx_ambient (ht_rt r)) env in
      if env = [] \<and> name = [] then (None, w)
      else if value = [] then decide ''missing'' (Some (HttpStatus 401 ''signature_missing''))
      else if secret = [] then decide ''secret_missing'' (Some (HttpStatus 500 ''signature_secret_missing''))
      else if \<not> valid_signature (ht_hmac r) secret body value then decide ''invalid'' (Some (HttpStatus 403 ''signature_invalid''))
      else decide ''valid'' None)"

section \<open>The input\<close>

definition max_request_body :: nat where "max_request_body = 2 ^ 20"

text \<open>The reader of the body yields its text and then an error, or its end; one byte over the limit is read.\<close>

definition read_http_request_input :: "http_request \<Rightarrow> go_error + string" where
  "read_http_request_input req =
     (if max_request_body < length (rq_body req) then Inl (ErrText ''request body too large'')
      else case rq_body_error req of Some err \<Rightarrow> Inl err | None \<Rightarrow> Inr (rq_body req))"

definition path_param_name :: "string \<Rightarrow> string option" where
  "path_param_name segment =
     (if length segment < 3 \<or> hd segment \<noteq> CHR ''{'' \<or> last segment \<noteq> CHR ''}'' then None
      else let name = butlast (tl segment) in if contains_str name ''...'' then None else Some name)"

definition http_path_param_names :: "string \<Rightarrow> string list" where
  "http_path_param_names route = List.map_filter path_param_name (split_on CHR ''/'' route)"

definition http_path_params :: "http_request \<Rightarrow> string \<Rightarrow> (string \<times> string) list" where
  "http_path_params req route =
     sort_key fst (fold (\<lambda>n m. mput n (rq_path_value req n) m) (http_path_param_names route) [])"

definition body_field :: "ambient \<Rightarrow> string \<Rightarrow> (string \<times> json) list" where
  "body_field E body =
     (if trim_space body = [] then []
      else [(''body'', case json_decode E body of Some j \<Rightarrow> j | None \<Rightarrow> JStr body)])"

definition http_pipeline_input :: "ambient \<Rightarrow> string \<Rightarrow> (string \<times> string) list \<Rightarrow> string option" where
  "http_pipeline_input E body params =
     (if params = [] then Some body
      else json_encode E (JObj (body_field E body @ [(''path_params'', JObj (map (\<lambda>(k, v). (k, JStr v)) params))])))"

definition webhook_pipeline_input :: "ambient \<Rightarrow> string \<Rightarrow> string \<Rightarrow> string option" where
  "webhook_pipeline_input E body provider =
     json_encode E (JObj (body_field E body @ [(''provider'', JStr (trim_space provider)), (''trigger'', JStr ''webhook'')]))"

definition build_pipeline_input :: "ambient \<Rightarrow> trigger \<Rightarrow> string \<Rightarrow> (string \<times> string) list \<Rightarrow> string option" where
  "build_pipeline_input E t body params =
     (if tg_kind t = trigger_webhook then webhook_pipeline_input E body (tg_value t) else http_pipeline_input E body params)"

section \<open>The key of a request\<close>

definition trigger_reservation_key :: "'w http_runtime \<Rightarrow> 'w plan \<Rightarrow> string \<Rightarrow> string \<Rightarrow> string" where
  "trigger_reservation_key rt plan header v =
     join_with '':'' [''trigger'', tg_method (pn_trigger plan), tg_path (pn_trigger plan), canonical_header_key header, rx_sha rt v]"

definition trigger_payload :: "'w plan \<Rightarrow> string \<Rightarrow> string \<Rightarrow> payload" where
  "trigger_payload plan header decision =
     [(''scope'', AnyStr ''trigger''), (''method'', AnyStr (tg_method (pn_trigger plan))),
      (''path'', AnyStr (tg_path (pn_trigger plan))), (''header'', AnyStr (canonical_header_key header)),
      (''decision'', AnyStr decision)]"

text \<open>The answer when the request must not run, or the session that holds the reservation.\<close>

definition reserve_trigger_idempotency ::
  "'w http_route \<Rightarrow> 'w tool_env \<Rightarrow> http_request \<Rightarrow> 'w \<Rightarrow> (http_response + session option) \<times> 'w" where
  "reserve_trigger_idempotency r ctx req w =
     (let rt = ht_rt r; plan = ht_plan r;
          header = trim_space (tg_idempotency_header (pn_trigger plan)); v = trim_space (header_get req header) in
      if header = [] then (Inr None, w)
      else if v = [] then (Inl (HttpStatus 400 ''idempotency_key_missing''), w)
      else case rx_store rt of
        None \<Rightarrow> (Inl (HttpStatus 500 ''state_store_missing''), w)
      | Some db \<Rightarrow>
     (case new_pipeline_session rt plan w of
        Inl _ \<Rightarrow> (Inl (HttpStatus 500 ''idempotency_error''), w)
      | Inr s \<Rightarrow>
     (let key = trigger_reservation_key rt plan header v in
      case (case us_outcomes db of None \<Rightarrow> Inr False
            | Some os \<Rightarrow> map_sum id (\<lambda>x. case x of None \<Rightarrow> False | Some x \<Rightarrow> ir_outcome x = IdempotencyFailed)
                (oo_idempotency os (te_ctx_err ctx w) key w)) of
        Inl _ \<Rightarrow> (Inl (HttpStatus 500 ''state_store_error''), w)
      | Inr retrying \<Rightarrow>
     (case us_reserve db (te_ctx_err ctx w) key (ss_exec_id s) w of
        (Inl _, w1) \<Rightarrow> (Inl (HttpStatus 500 ''state_store_error''), w1)
      | (Inr (_, True), w1) \<Rightarrow>
          (case emit_session_event rt ctx s ''idempotency_decision''
                  (trigger_payload plan header (if retrying then ''retry'' else ''reserved'')) w1 of
             (Some _, w2) \<Rightarrow> (Inl (HttpStatus 500 ''event_stream_error''), snd (resolve_reserved_failure rt ctx (Some s) w2))
           | (None, w2) \<Rightarrow> (Inr (Some s), w2))
      | (Inr (existing, False), w1) \<Rightarrow>
          (case emit_runtime_event rt ctx \<lparr>pr_output = [], pr_session = None\<rparr> ''idempotency_decision''
                  (trigger_payload plan header ''duplicate'' @ [(''existing_exec_id'', AnyStr existing)]) w1 of
             (Some _, w2) \<Rightarrow> (Inl (HttpStatus 500 ''event_stream_error''), w2)
           | (None, w2) \<Rightarrow> (Inl (HttpStatus 202 ''duplicate_idempotency_key''), w2))))))"

definition prepare_request_input ::
  "'w http_route \<Rightarrow> 'w tool_env \<Rightarrow> http_request \<Rightarrow> 'w \<Rightarrow> (http_response + string \<times> session option) \<times> 'w" where
  "prepare_request_input r ctx req w =
     (case read_http_request_input req of
        Inl _ \<Rightarrow> (Inl (HttpStatus 413 ''request_body_too_large''), w)
      | Inr body \<Rightarrow>
     (case verify_request_signature r ctx req body w of
        (Some resp, w1) \<Rightarrow> (Inl resp, w1)
      | (None, w1) \<Rightarrow>
     (let t = pn_trigger (ht_plan r) in
      case build_pipeline_input (rx_ambient (ht_rt r)) t body (http_path_params req (tg_path t)) of
        None \<Rightarrow> (Inl (HttpStatus 400 ''invalid_request''), w1)
      | Some input \<Rightarrow>
     (case reserve_trigger_idempotency r ctx req w1 of
        (Inl resp, w2) \<Rightarrow> (Inl resp, w2)
      | (Inr s, w2) \<Rightarrow> (Inr (input, s), w2)))))"

end
