(* ===== verification/Declared_Plans.thy ===== *)
theory Declared_Plans
  imports Declarations Http_Trigger
begin

text \<open>
  The declarations of triggers (\<open>trigger.go\<close>), compositions (\<open>composition.go\<close>) and terminals (\<open>options.go\<close>), and
  the compiler of declarations: \<open>compile.go\<close>, \<open>compile_step.go\<close>, \<open>compile_trigger.go\<close>, \<open>compile_schema.go\<close> and
  \<open>tool_schema.go\<close>. \<open>nodes[i:]\<close> is the list of the nodes that are left, with its index.
\<close>

section \<open>Triggers\<close>

definition deref :: "'a by_ref \<Rightarrow> ('a \<Rightarrow> 'b checked) \<Rightarrow> 'b checked" where
  "deref r f = (case pointee r of None \<Rightarrow> Stuck | Some x \<Rightarrow> f x)"

fun cron_error_text :: "decl_env \<Rightarrow> cron_error \<Rightarrow> string" where
  "cron_error_text E ExpressionRequired = ''cron expression is required''"
| "cron_error_text E EveryNotPositive = ''@every interval must be a positive duration''"
| "cron_error_text E NotFiveFields = ''cron expression must have 5 fields''"
| "cron_error_text E (InField name e) = name @ '': '' @ cron_error_text E e"
| "cron_error_text E FieldIsRequired = ''field is required''"
| "cron_error_text E FieldHasNoValues = ''field has no values''"
| "cron_error_text E EmptyListItem = ''empty list item''"
| "cron_error_text E (InvalidStep s) = ''invalid step '' @ de_quote E s"
| "cron_error_text E (InvalidValue s) = ''invalid value '' @ de_quote E s"
| "cron_error_text E (ValueOutside v lo hi) =
     ''value '' @ int_text v @ '' outside '' @ int_text lo @ ''-'' @ int_text hi"
| "cron_error_text E (RangeInverted a b) = ''range '' @ int_text a @ ''-'' @ int_text b @ '' is inverted''"

definition valid_webhook_provider_name :: "string \<Rightarrow> bool" where
  "valid_webhook_provider_name value =
     (let value = trim_space value in
      value \<noteq> [] \<and> list_all (\<lambda>r. is_lower r \<or> is_upper r \<or> is_digit r \<or> r \<in> set ''.-_'') value)"

definition trim_slashes :: "string \<Rightarrow> string" where
  "trim_slashes s = rev (dropWhile (\<lambda>c. c = CHR ''/'') (rev (dropWhile (\<lambda>c. c = CHR ''/'') s)))"

text \<open>The text of the error, if any: the callers quote it.\<close>

definition validate_stream_uri :: "decl_env \<Rightarrow> string \<Rightarrow> string option" where
  "validate_stream_uri E raw =
     (if CHR 0x00 \<in> set raw then Some ''stream URI is invalid''
      else case de_url E raw of
        None \<Rightarrow> Some ''stream URI must include a supported scheme''
      | Some (scheme, host, path) \<Rightarrow>
          let kind = map lower_char scheme in
          if scheme = [] then Some ''stream URI must include a supported scheme''
          else if kind = ''kafka'' \<or> kind = ''nats''
          then (if trim_slashes (trim_space (host @ path)) = []
                then Some (scheme @ '' stream URI must include a topic or subject'') else None)
          else if kind = ''redis''
          then (if host = [] then Some ''redis stream URI must include a host''
                else if trim_slashes (trim_space path) = [] then Some ''redis stream URI must include a stream name''
                else None)
          else Some (''unsupported stream scheme '' @ de_quote E scheme))"

fun validate_trigger :: "decl_env \<Rightarrow> trigger_source \<Rightarrow> unit checked" where
  "validate_trigger E (HttpSource m p) =
     require (m \<noteq> [] \<and> p \<noteq> []) (invalid ''HTTP trigger requires method and path'')"
| "validate_trigger E (CronSource t) = deref t (\<lambda>expr.
     if expr = [] then Failed (invalid ''cron expression is required'')
     else case parse_cron_schedule (de_duration E) expr of
       None \<Rightarrow> Stuck
     | Some (Inl e) \<Rightarrow> Failed (invalid (cron_error_text E e))
     | Some (Inr _) \<Rightarrow> Done ())"
| "validate_trigger E (WebhookSource t) = deref t (\<lambda>value.
     if value = [] then Failed (invalid ''webhook provider is required'')
     else require (valid_webhook_provider_name value)
       (invalid ''webhook provider must contain only letters, digits, dot, dash, or underscore''))"
| "validate_trigger E (StreamSource t) = deref t (\<lambda>uri.
     if uri = [] then Failed (invalid ''stream URI is required'')
     else no_error (map_option invalid (validate_stream_uri E uri)))"
| "validate_trigger E (EmbeddedSource s) = validate_trigger E s"

definition cron :: "string \<Rightarrow> trigger_source" where "cron expr = CronSource (ByValue (trim_space expr))"
definition webhook :: "string \<Rightarrow> trigger_source" where "webhook value = WebhookSource (ByValue (trim_space value))"
definition stream_source :: "string \<Rightarrow> trigger_source" where "stream_source uri = StreamSource (ByValue (trim_space uri))"

subsection \<open>Options of \<open>From\<close>\<close>

datatype from_option =
    WorkerPoolOption int
  | StreamDLQOption string int
  | StreamAckPolicyOption string
  | StreamMaxInFlightOption int
  | IdempotencyKeyOption string
  | VerifySignatureOption string string

definition stream_dlq :: "string \<Rightarrow> int \<Rightarrow> from_option" where
  "stream_dlq target maxAttempts = StreamDLQOption (trim_space target) maxAttempts"

definition idempotency_header_key :: "string \<Rightarrow> from_option" where
  "idempotency_header_key header = IdempotencyKeyOption (trim_space header)"

definition verify_signature :: "string \<Rightarrow> string \<Rightarrow> from_option" where
  "verify_signature envVar header = VerifySignatureOption (trim_space envVar) (trim_space header)"

abbreviation "stream_ack_auto \<equiv> ''auto''"
abbreviation "stream_ack_manual \<equiv> ''manual''"

definition from_set_err :: "go_error \<Rightarrow> from_config \<Rightarrow> from_config" where
  "from_set_err e c = c \<lparr>fc_err := first_err (fc_err c) e\<rparr>"

fun apply_from :: "decl_env \<Rightarrow> from_option \<Rightarrow> from_config \<Rightarrow> from_config" where
  "apply_from E (WorkerPoolOption limit) c =
     (if limit \<le> 0 then from_set_err (invalid ''WorkerPool must be greater than zero'') c
      else c \<lparr>fc_worker_pool := limit\<rparr>)"
| "apply_from E (StreamDLQOption target maxAttempts) c =
     (if target = [] then from_set_err (invalid ''StreamDLQ target is required'') c
      else case validate_stream_uri E target of
        Some err \<Rightarrow> from_set_err (invalid (''StreamDLQ target '' @ err)) c
      | None \<Rightarrow>
          if maxAttempts \<le> 0 then from_set_err (invalid ''StreamDLQ maxAttempts must be greater than zero'') c
          else c \<lparr>fc_dlq_target := target, fc_max_attempts := maxAttempts\<rparr>)"
| "apply_from E (StreamAckPolicyOption mode) c =
     (if mode = stream_ack_auto then c \<lparr>fc_ack_policy := mode\<rparr>
      else if mode = stream_ack_manual
      then from_set_err (invalid (''StreamAckManual is unsupported because worker handlers cannot acknowledge '' @
             ''stream deliveries; use StreamAckAuto'')) c
      else from_set_err (invalid (''StreamAckPolicy must be '' @ de_quote E stream_ack_auto @
             ''; StreamAckManual is currently unsupported'')) c)"
| "apply_from E (StreamMaxInFlightOption limit) c =
     (if limit \<le> 0 then from_set_err (invalid ''StreamMaxInFlight must be greater than zero'') c
      else c \<lparr>fc_max_in_flight := limit\<rparr>)"
| "apply_from E (IdempotencyKeyOption header) c =
     (if header = [] then from_set_err (invalid ''IdempotencyKey header is required'') c
      else c \<lparr>fc_idempotency_header := header\<rparr>)"
| "apply_from E (VerifySignatureOption envVar header) c =
     (if envVar = [] then from_set_err (invalid ''VerifySignature env var is required'') c
      else if header = [] then from_set_err (invalid ''VerifySignature header is required'') c
      else c \<lparr>fc_signature_env := envVar, fc_signature_header := header\<rparr>)"

subsection \<open>\<open>From\<close>\<close>

text \<open>\<open>strings.ToUpper\<close>, as far as a method can be read from it: besides the ASCII letters it is the long s (two
  bytes) that has an ASCII capital among the letters of GET and POST.\<close>

definition upper_method :: "string \<Rightarrow> string" where
  "upper_method s = map upper_char (replace_all s [CHR 0xC5, CHR 0xBF] ''s'')"

definition parse_http_trigger :: "decl_env \<Rightarrow> string \<Rightarrow> go_error + (string \<times> string)" where
  "parse_http_trigger E route =
     (case go_fields route of
        [verb, path] \<Rightarrow>
          let meth = upper_method verb in
          if meth \<noteq> ''GET'' \<and> meth \<noteq> ''POST''
          then Inl (invalid (''unsupported HTTP method '' @ de_quote E verb))
          else if \<not> has_prefix path ''/'' then Inl (invalid ''HTTP trigger path must start with /'')
          else Inr (meth, path)
      | _ \<Rightarrow> Inl (invalid ''HTTP trigger must be METHOD /path''))"

text \<open>The \<open>any\<close> passed to \<open>From\<close>: a route, a trigger source, or another value with the name of its type.\<close>

datatype from_source = SourceText string | SourceTrigger trigger_source | SourceOther string

definition empty_from_config :: from_config where
  "empty_from_config = \<lparr>fc_worker_pool = 0, fc_idempotency_header = [], fc_signature_env = [], fc_signature_header = [],
     fc_dlq_target = [], fc_max_attempts = 0, fc_max_in_flight = 0, fc_ack_policy = [], fc_err = None\<rparr>"

definition from_declared :: "decl_env \<Rightarrow> from_source \<Rightarrow> trigger_source option \<times> go_error option" where
  "from_declared E source = (case source of
       SourceText route \<Rightarrow>
         (case parse_http_trigger E route of
            Inl e \<Rightarrow> (Some (HttpSource [] []), Some e)
          | Inr (m, p) \<Rightarrow> (Some (HttpSource m p), None))
     | SourceTrigger s \<Rightarrow> (Some s, None)
     | SourceOther typ \<Rightarrow> (None, Some (invalid (''unsupported From source '' @ typ))))"

definition from_node :: "decl_env \<Rightarrow> from_source \<Rightarrow> from_option option list \<Rightarrow> 'w node" where
  "from_node E source options =
     (case from_declared E source of (src, err) \<Rightarrow>
      (case apply_options (\<lambda>(c, e). (c, Some (invalid ''nil From option''))) (\<lambda>opt (c, e). (apply_from E opt c, e))
         options (empty_from_config, err) of
        (c, e) \<Rightarrow> FromNode src e c))"

definition validate_from :: "decl_env \<Rightarrow> trigger_source option \<Rightarrow> go_error option \<Rightarrow> from_config \<Rightarrow> unit checked" where
  "validate_from E source err c =
     and_then (no_error err) (\<lambda>_.
     and_then (no_error (fc_err c)) (\<lambda>_.
     case source of
       None \<Rightarrow> Failed (invalid ''From source is required'')
     | Some s \<Rightarrow> validate_trigger E s))"

section \<open>Compositions\<close>

text \<open>An item of \<open>Parallel\<close> or \<open>Map\<close>: nil, a node, an option, or another value with the name of its type. An option of
  the other composition is such a value.\<close>

datatype 'w item = NilItem | NodeItem "'w node" | PartialOKItem | ConcurrencyItem int | OtherItem string

definition composition_text :: "string \<Rightarrow> nat \<Rightarrow> string \<Rightarrow> string" where
  "composition_text scope i msg = scope @ '' item '' @ nat_text i @ msg"

fun parallel_item :: "'w item \<Rightarrow> 'w node list \<times> parallel_config \<times> go_error option
    \<Rightarrow> 'w node list \<times> parallel_config \<times> go_error option" where
  "parallel_item NilItem (ns, c, e) = (ns, c, first_err e (invalid ''nil Parallel item''))"
| "parallel_item (NodeItem n) (ns, c, e) = (ns @ [n], c, e)"
| "parallel_item PartialOKItem (ns, c, e) = (ns, c \<lparr>pl_partial_ok := True\<rparr>, e)"
| "parallel_item (ConcurrencyItem limit) (ns, c, e) =
     (ns, c, first_err e (invalid ''unsupported Parallel item ovr.concurrencyOption''))"
| "parallel_item (OtherItem typ) (ns, c, e) = (ns, c, first_err e (invalid (''unsupported Parallel item '' @ typ)))"

definition parallel :: "'w item list \<Rightarrow> 'w node" where
  "parallel items =
     (case fold parallel_item items ([], \<lparr>pl_partial_ok = False, pl_err = None\<rparr>, None) of (ns, c, e) \<Rightarrow> ParallelNode ns c e)"

fun map_item :: "'w item \<Rightarrow> 'w node list \<times> map_config \<times> go_error option
    \<Rightarrow> 'w node list \<times> map_config \<times> go_error option" where
  "map_item NilItem (ns, c, e) = (ns, c, first_err e (invalid ''nil Map item''))"
| "map_item (NodeItem n) (ns, c, e) = (ns @ [n], c, e)"
| "map_item PartialOKItem (ns, c, e) = (ns, c \<lparr>mc_partial_ok := True\<rparr>, e)"
| "map_item (ConcurrencyItem limit) (ns, c, e) =
     (ns, if limit \<le> 0 then c \<lparr>mc_err := first_err (mc_err c) (invalid ''Map Concurrency must be greater than zero'')\<rparr>
          else c \<lparr>mc_concurrency := limit\<rparr>, e)"
| "map_item (OtherItem typ) (ns, c, e) = (ns, c, first_err e (invalid (''unsupported Map item '' @ typ)))"

definition map_node :: "decl_env \<Rightarrow> 'w item list \<Rightarrow> 'w node" where
  "map_node E items =
     (case fold map_item items ([], \<lparr>mc_concurrency = de_num_cpu E, mc_partial_ok = False, mc_err = None\<rparr>, None) of
        (ns, c, e) \<Rightarrow> MapNode ns (if mc_concurrency c \<le> 0 then c \<lparr>mc_concurrency := 1\<rparr> else c) e)"

definition validate_composition_pipe :: "decl_env \<Rightarrow> string \<Rightarrow> nat \<Rightarrow> 'w node \<Rightarrow> unit checked" where
  "validate_composition_pipe E scope i n = (case n of
       NilNode \<Rightarrow> Failed (invalid (composition_text scope i '' is nil''))
     | PipeNode _ _ _ _ \<Rightarrow> before (composition_text scope i '': '') (validate_pipe E 0 [] n)
     | _ \<Rightarrow> Failed (invalid (composition_text scope i '' must be Pipe'')))"

definition validate_composition ::
  "decl_env \<Rightarrow> string \<Rightarrow> 'w node list \<Rightarrow> go_error option \<Rightarrow> go_error option \<Rightarrow> unit checked" where
  "validate_composition E scope ns configErr err =
     and_then (no_error err) (\<lambda>_.
     and_then (no_error configErr) (\<lambda>_.
     if ns = [] then Failed (invalid (scope @ '' requires at least one Pipe''))
     else check_indexed (validate_composition_pipe E scope) 0 ns))"

section \<open>Terminals\<close>

fun validate_reply_format :: "reply_format \<Rightarrow> unit checked" where
  "validate_reply_format (JsonReply f) = deref f (\<lambda>schema.
     require (schema \<noteq> None) (invalid ''JSON reply schema is required''))"
| "validate_reply_format (SSEReply f) = deref f (\<lambda>_. Done ())"
| "validate_reply_format (AcceptedReply f) = deref f (\<lambda>_. Done ())"

fun validate_push_target :: "decl_env \<Rightarrow> push_target \<Rightarrow> unit checked" where
  "validate_push_target E (PushWebhook t) = deref t (\<lambda>value. require (value \<noteq> []) (invalid ''webhook URL is required''))"
| "validate_push_target E (PushQueue t) = deref t (\<lambda>uri.
     if uri = [] then Failed (invalid ''queue URI is required'')
     else if CHR 0x00 \<in> set uri then Failed (invalid ''queue URI is invalid'')
     else case de_url E uri of
       None \<Rightarrow> Failed (invalid ''queue URI must include scheme and host'')
     | Some (scheme, host, _) \<Rightarrow>
         require (scheme \<noteq> [] \<and> host \<noteq> []) (invalid ''queue URI must include scheme and host''))"

fun validate_sink_target :: "sink_target \<Rightarrow> unit checked" where
  "validate_sink_target (SinkLog t) = deref t (\<lambda>_. Done ())"
| "validate_sink_target (SinkFile t) = deref t (\<lambda>path.
     if path = [] then Failed (invalid ''file sink path is required'')
     else require (CHR 0x00 \<notin> set path) (invalid ''file sink path is invalid''))"

text \<open>\<open>validateNode\<close> of every kind of node; the compiler does not call it on nil.\<close>

fun validate_node :: "decl_env \<Rightarrow> 'w node \<Rightarrow> unit checked" where
  "validate_node E NilNode = Stuck"
| "validate_node E (FromNode s e c) = validate_from E s e c"
| "validate_node E (PipeNode g c subs e) = validate_pipe E 0 [] (PipeNode g c subs e)"
| "validate_node E (ParallelNode ns c e) = validate_composition E ''Parallel'' ns (pl_err c) e"
| "validate_node E (MapNode ns c e) = validate_composition E ''Map'' ns (mc_err c) e"
| "validate_node E (ReplyNode f) = (case f of None \<Rightarrow> Failed (invalid ''Reply format is required'')
     | Some f \<Rightarrow> validate_reply_format f)"
| "validate_node E (PushNode t) = (case t of None \<Rightarrow> Failed (invalid ''Push target is required'')
     | Some t \<Rightarrow> validate_push_target E t)"
| "validate_node E (SinkNode t) = (case t of None \<Rightarrow> Failed (invalid ''Sink target is required'')
     | Some t \<Rightarrow> validate_sink_target t)"
| "validate_node E (EmbeddedNode k r) = r"

end
