(* ===== verification/Compile.thy ===== *)
theory Compile
  imports Declared_Plans
begin

text \<open>
  The compiler of declarations: \<open>compile.go\<close>, \<open>compile_step.go\<close>, \<open>compile_trigger.go\<close>, \<open>compile_schema.go\<close>
  and \<open>tool_schema.go\<close>. The loops over the nodes take the index of the first node that is left and the nodes that
  are left. A sub-agent is validated again when it is compiled, without the names around it, as the code does.
\<close>

section \<open>The input schema of a tool\<close>

fun json_schema_kind :: "go_kind \<Rightarrow> string" where
  "json_schema_kind KindBool = ''boolean''"
| "json_schema_kind KindInteger = ''integer''"
| "json_schema_kind KindFloat = ''number''"
| "json_schema_kind KindArray = ''array''"
| "json_schema_kind KindSlice = ''array''"
| "json_schema_kind KindMap = ''object''"
| "json_schema_kind KindStruct = ''object''"
| "json_schema_kind _ = ''string''"

text \<open>\<open>typ.Elem()\<close> of a pointer, once.\<close>

definition elem_of_pointer :: "go_type \<Rightarrow> go_type" where
  "elem_of_pointer t = (case t of TyPointer u \<Rightarrow> u | _ \<Rightarrow> t)"

definition json_schema_type :: "go_type \<Rightarrow> string" where
  "json_schema_type t = json_schema_kind (type_kind (elem_of_pointer t))"

text \<open>The name of a field and whether it may be left out; an absent tag is an empty one.\<close>

definition tool_field_name :: "go_field \<Rightarrow> string \<times> bool" where
  "tool_field_name f =
     (if gf_json_tag f = [] then (gf_name f, False)
      else let parts = split_on (CHR '','') (gf_json_tag f) in
        (if hd parts \<noteq> [] then hd parts else gf_name f, ''omitempty'' \<in> set (tl parts)))"

definition described :: "(string, string) gomap \<Rightarrow> string \<Rightarrow> go_type \<Rightarrow> go_any" where
  "described params name t =
     AnyMap ([(''type'', AnyStr (json_schema_type t))]
       @ (case mget params name of None \<Rightarrow> []
          | Some d \<Rightarrow> if d = [] then [] else [(''description'', AnyStr d)]))"

fun struct_fields ::
  "(string, string) gomap \<Rightarrow> go_field list \<Rightarrow> (string, go_any) gomap \<Rightarrow> string list
     \<Rightarrow> (string, go_any) gomap \<times> string list" where
  "struct_fields params [] properties needed = (properties, needed)"
| "struct_fields params (f # fs) properties needed =
     (case tool_field_name f of (name, omitEmpty) \<Rightarrow>
        if gf_pkg_path f \<noteq> [] \<or> name = ''-'' then struct_fields params fs properties needed
        else struct_fields params fs (mput name (described params name (gf_type f)) properties)
               (if omitEmpty then needed else needed @ [name]))"

definition marshal_schema :: "decl_env \<Rightarrow> go_any \<Rightarrow> string" where
  "marshal_schema E schema = (case de_marshal E schema of
       Some raw \<Rightarrow> raw
     | None \<Rightarrow> ''{'' @ quoted ''type'' @ '':'' @ quoted ''object'' @ '','' @ quoted ''properties'' @ '':{}}'')"

definition object_tool_schema :: "decl_env \<Rightarrow> (string, go_any) gomap \<Rightarrow> string list \<Rightarrow> string" where
  "object_tool_schema E properties needed =
     marshal_schema E (AnyMap
       ([(''type'', AnyStr ''object''), (''properties'', AnyMap properties), (''additionalProperties'', AnyBool False)]
        @ (if needed = [] then [] else [(''required'', AnyStrs needed)])))"

definition single_value_name :: "(string, string) gomap \<Rightarrow> string" where
  "single_value_name params = (case params of [(name, _)] \<Rightarrow> name | _ \<Rightarrow> ''value'')"

text \<open>The type of the argument of the function, if it takes one besides the context.\<close>

definition tool_arg_type :: "'w declared_tool \<Rightarrow> go_type option" where
  "tool_arg_type t = (case ts_fn t of
       FuncValue f \<Rightarrow> (case fn_ins f of _ # a # _ \<Rightarrow> Some (elem_of_pointer a) | _ \<Rightarrow> None)
     | _ \<Rightarrow> None)"

definition tool_input_schema :: "decl_env \<Rightarrow> 'w declared_tool \<Rightarrow> string" where
  "tool_input_schema E t = (case tool_arg_type t of
       None \<Rightarrow> marshal_schema E (AnyMap [(''type'', AnyStr ''object''), (''properties'', AnyMap [])])
     | Some (TyStruct _ fs) \<Rightarrow>
         (case struct_fields (ts_params t) fs [] [] of
            (properties, needed) \<Rightarrow> object_tool_schema E properties (sort_key id needed))
     | Some a \<Rightarrow>
         (let name = single_value_name (ts_params t) in
          object_tool_schema E [(name, described (ts_params t) name a)] [name]))"

definition tool_argument_name :: "'w declared_tool \<Rightarrow> string" where
  "tool_argument_name t = (case tool_arg_type t of
       None \<Rightarrow> []
     | Some (TyStruct _ _) \<Rightarrow> []
     | Some _ \<Rightarrow> single_value_name (ts_params t))"

section \<open>The parts of a step\<close>

fun runtime_go_func :: "'w go_value \<Rightarrow> (go_error + ('w tool_body \<times> (string \<Rightarrow> go_error option))) option" where
  "runtime_go_func NilValue = None"
| "runtime_go_func (FuncValue f) = Some (fn_handler f)"
| "runtime_go_func (OtherValue h) = Some h"

definition runtime_tool :: "decl_env \<Rightarrow> 'w declared_tool \<Rightarrow> 'w runtime_tool" where
  "runtime_tool E t =
     \<lparr>tl_name = ts_name t, tl_description = ts_description t, tl_input_schema = tool_input_schema E t,
      tl_argument_name = tool_argument_name t, tl_go_func = runtime_go_func (ts_fn t), tl_effect = ts_effect t,
      tl_idempotency_key = ts_idempotency_key t, tl_side_effects = ts_side_effects t,
      tl_requires_approval = ts_requires_approval t, tl_timeout = ts_timeout t\<rparr>"

definition runtime_bash_tool :: "bash_spec \<Rightarrow> bash_tool" where
  "runtime_bash_tool b =
     \<lparr>bt_name = bs_name b, bt_sandbox_root = sc_root (bs_sandbox b), bt_allowed_env = sc_allowed_env (bs_sandbox b),
      bt_timeout = bs_timeout b, bt_max_output_bytes = bs_max_output_bytes b, bt_unsafe_host = bs_unsafe_host b\<rparr>"

definition result_schema_from_type :: "decl_env \<Rightarrow> go_type option \<Rightarrow> plan_schema option checked" where
  "result_schema_from_type E typ = (case typ of
       None \<Rightarrow> Done None
     | Some t \<Rightarrow> (case de_schema E t of Inl e \<Rightarrow> Failed (invalid (err_text e)) | Inr s \<Rightarrow> Done (Some s)))"

definition pipe_output_schema :: "decl_env \<Rightarrow> 'w pipe_config \<Rightarrow> plan_schema option checked" where
  "pipe_output_schema E c = (case pc_output c of None \<Rightarrow> Done None | Some typ \<Rightarrow> result_schema_from_type E typ)"

definition pipe_step_config :: "decl_env \<Rightarrow> string \<Rightarrow> 'w pipe_config \<Rightarrow> plan_schema option \<Rightarrow> 'w step_config" where
  "pipe_step_config E goal c schema =
     \<lparr>sp_kind = step_pipe, sp_goal = goal, sp_model = pc_model c, sp_fallback = pc_fallback c,
      sp_tools = map (runtime_tool E) (pc_tools c), sp_bash = map runtime_bash_tool (pc_bash c),
      sp_skills = pc_skills c, sp_mcp_servers = pc_mcp_servers c, sp_concurrency = 0, sp_partial_ok = False,
      sp_result_schema = schema, sp_retry = pc_retry c,
      sp_budget = \<lparr>max_iterations = 0, max_tokens = max_tokens (pc_budget c), max_cost_usd = max_cost_usd (pc_budget c),
                   max_wall_clock = max_wall_clock (pc_budget c)\<rparr>,
      sp_no_cache = pc_no_cache c, sp_sequential_tools = pc_sequential c\<rparr>"

definition composed_step_config :: "string \<Rightarrow> int \<Rightarrow> bool \<Rightarrow> 'w step_config" where
  "composed_step_config kind concurrency partialOK =
     \<lparr>sp_kind = kind, sp_goal = [], sp_model = [], sp_fallback = [], sp_tools = [], sp_bash = [], sp_skills = [],
      sp_mcp_servers = [], sp_concurrency = concurrency, sp_partial_ok = partialOK, sp_result_schema = None,
      sp_retry = None, sp_budget = zero_budget, sp_no_cache = False, sp_sequential_tools = False\<rparr>"

section \<open>Steps\<close>

fun compile_step :: "decl_env \<Rightarrow> 'w node \<Rightarrow> 'w step checked"
  and compile_sub_agent :: "decl_env \<Rightarrow> 'w sub_agent_spec \<Rightarrow> 'w sub_agent checked" where
  "compile_step E (PipeNode goal c subs err) =
     and_then (collect (\<lambda>_. compile_sub_agent E) 0 subs) (\<lambda>subAgents.
     and_then (pipe_output_schema E c) (\<lambda>schema.
     Done (Step (pipe_step_config E goal c schema) subAgents [] (Pipeline []))))"
| "compile_step E _ = Failed err_invalid_node"
| "compile_sub_agent E (SubAgentSpec name nodes mp po err) =
     and_then (validate_sub_agent E 1 [] (SubAgentSpec name nodes mp po err)) (\<lambda>_.
     and_then (validate_sub_pipeline (validate_pipe E 0 []) nodes) (\<lambda>_.
     and_then (collect (\<lambda>i n. before (sub_node_text i '': '') (compile_step E n)) 0 nodes) (\<lambda>steps.
     Done (SubAgent name (Pipeline steps) mp po))))"

definition compile_items :: "decl_env \<Rightarrow> string \<Rightarrow> 'w node list \<Rightarrow> 'w step list checked" where
  "compile_items E scope nodes =
     collect (\<lambda>i n. before (composition_text scope i '': '') (compile_step E n)) 0 nodes"

fun compile_runtime_step :: "decl_env \<Rightarrow> 'w node \<Rightarrow> 'w step checked" where
  "compile_runtime_step E (PipeNode goal c subs err) = compile_step E (PipeNode goal c subs err)"
| "compile_runtime_step E (ParallelNode nodes c err) =
     and_then (compile_items E ''Parallel'' nodes) (\<lambda>steps.
     Done (Step (composed_step_config step_parallel 0 (pl_partial_ok c)) [] (map (\<lambda>s. Pipeline [s]) steps) (Pipeline [])))"
| "compile_runtime_step E (MapNode nodes c err) =
     and_then (compile_items E ''Map'' nodes) (\<lambda>steps.
     Done (Step (composed_step_config step_map (mc_concurrency c) (mc_partial_ok c)) [] [] (Pipeline steps)))"
| "compile_runtime_step E _ = Failed err_invalid_node"

section \<open>Triggers and terminals\<close>

definition empty_trigger :: "string \<Rightarrow> trigger" where
  "empty_trigger kind = \<lparr>tg_kind = kind, tg_method = [], tg_path = [], tg_expr = [], tg_value = [], tg_uri = [],
     tg_worker_pool = 0, tg_idempotency_header = [], tg_signature_env = [], tg_signature_header = [],
     tg_dlq_target = [], tg_max_attempts = 0, tg_max_in_flight = 0, tg_ack_policy = []\<rparr>"

definition pointed :: "'a by_ref \<Rightarrow> ('a \<Rightarrow> trigger) \<Rightarrow> trigger checked" where
  "pointed r f = (case pointee r of None \<Rightarrow> Failed err_invalid_node | Some x \<Rightarrow> Done (f x))"

fun compile_trigger :: "trigger_source option \<Rightarrow> trigger checked" where
  "compile_trigger (Some (HttpSource m p)) = Done ((empty_trigger trigger_http) \<lparr>tg_method := m, tg_path := p\<rparr>)"
| "compile_trigger (Some (CronSource t)) = pointed t (\<lambda>x. (empty_trigger trigger_cron) \<lparr>tg_expr := x\<rparr>)"
| "compile_trigger (Some (WebhookSource t)) = pointed t (\<lambda>x. (empty_trigger trigger_webhook) \<lparr>tg_value := x\<rparr>)"
| "compile_trigger (Some (StreamSource t)) = pointed t (\<lambda>x. (empty_trigger trigger_stream) \<lparr>tg_uri := x\<rparr>)"
| "compile_trigger _ = Failed err_invalid_node"

definition incompatible :: "string \<Rightarrow> string \<Rightarrow> string \<Rightarrow> go_error" where
  "incompatible what needs kind =
     ErrWrap [] err_incompatible_option ('': '' @ what @ '' requires '' @ needs @ '' trigger (got '' @ kind @ '')'')"

definition validate_option_compatibility :: "string \<Rightarrow> from_config \<Rightarrow> unit checked" where
  "validate_option_compatibility kind c =
     (let httpLike = (kind = trigger_http \<or> kind = trigger_webhook); streamLike = (kind = trigger_stream) in
      if \<not> httpLike \<and> (fc_signature_env c \<noteq> [] \<or> fc_signature_header c \<noteq> [])
      then Failed (incompatible ''VerifySignature'' ''an HTTP or Webhook'' kind)
      else if \<not> httpLike \<and> fc_idempotency_header c \<noteq> []
      then Failed (incompatible ''Idempotency header'' ''an HTTP or Webhook'' kind)
      else if \<not> streamLike \<and> (fc_dlq_target c \<noteq> [] \<or> 0 < fc_max_attempts c)
      then Failed (incompatible ''StreamDLQ'' ''a Stream'' kind)
      else if \<not> streamLike \<and> 0 < fc_max_in_flight c
      then Failed (incompatible ''StreamMaxInFlight'' ''a Stream'' kind)
      else if \<not> streamLike \<and> fc_ack_policy c \<noteq> []
      then Failed (incompatible ''StreamAck'' ''a Stream'' kind)
      else Done ())"

definition with_from_config :: "from_config \<Rightarrow> trigger \<Rightarrow> trigger" where
  "with_from_config c t = t \<lparr>tg_worker_pool := fc_worker_pool c, tg_idempotency_header := fc_idempotency_header c,
     tg_signature_env := fc_signature_env c, tg_signature_header := fc_signature_header c,
     tg_dlq_target := fc_dlq_target c, tg_max_attempts := fc_max_attempts c, tg_max_in_flight := fc_max_in_flight c,
     tg_ack_policy := fc_ack_policy c\<rparr>"

definition empty_terminal :: "string \<Rightarrow> terminal" where
  "empty_terminal kind = \<lparr>tm_kind = kind, tm_async = False, tm_sse = False, tm_result_schema = None, tm_sink_log = False,
     tm_sink_file_path = [], tm_push_webhook_url = [], tm_push_queue_uri = []\<rparr>"

text \<open>The methods that the terminal calls on its target have value receivers, so that a nil pointer panics.\<close>

fun compile_terminal :: "decl_env \<Rightarrow> 'w node \<Rightarrow> terminal checked" where
  "compile_terminal E (ReplyNode f) = (case f of
       Some (AcceptedReply r) \<Rightarrow> deref r (\<lambda>_. Done ((empty_terminal terminal_reply) \<lparr>tm_async := True\<rparr>))
     | Some (SSEReply r) \<Rightarrow> deref r (\<lambda>_. Done ((empty_terminal terminal_reply) \<lparr>tm_sse := True\<rparr>))
     | Some (JsonReply r) \<Rightarrow> deref r (\<lambda>typ. and_then (result_schema_from_type E typ) (\<lambda>schema.
         Done ((empty_terminal terminal_reply) \<lparr>tm_result_schema := schema\<rparr>)))
     | None \<Rightarrow> Done (empty_terminal terminal_reply))"
| "compile_terminal E (PushNode t) = (case t of
       Some (PushWebhook r) \<Rightarrow> deref r (\<lambda>url. Done ((empty_terminal terminal_push) \<lparr>tm_push_webhook_url := url\<rparr>))
     | Some (PushQueue r) \<Rightarrow> deref r (\<lambda>uri. Done ((empty_terminal terminal_push) \<lparr>tm_push_queue_uri := uri\<rparr>))
     | None \<Rightarrow> Done (empty_terminal terminal_push))"
| "compile_terminal E (SinkNode t) = (case t of
       Some (SinkFile r) \<Rightarrow> deref r (\<lambda>path. Done ((empty_terminal terminal_sink) \<lparr>tm_sink_file_path := path\<rparr>))
     | Some (SinkLog r) \<Rightarrow> deref r (\<lambda>_. Done ((empty_terminal terminal_sink) \<lparr>tm_sink_log := True\<rparr>))
     | None \<Rightarrow> Done (empty_terminal terminal_sink))"
| "compile_terminal E _ = Failed err_invalid_node"

definition validate_terminal_compatibility :: "string \<Rightarrow> string \<Rightarrow> unit checked" where
  "validate_terminal_compatibility kind terminalKind =
     require (\<not> (terminalKind = terminal_reply \<and> kind \<noteq> trigger_http))
       (ErrWrap [] err_incompatible_terminal '': Reply requires an HTTP trigger'')"

definition result_schema_label :: "plan_schema option \<Rightarrow> string" where
  "result_schema_label s = (case s of
       None \<Rightarrow> ''<nil>''
     | Some s \<Rightarrow> if ps_name s \<noteq> [] then ps_name s
                else case ps_type s of Some (_, txt) \<Rightarrow> txt | None \<Rightarrow> ''<unnamed>'')"

definition reconcile_result_schema :: "terminal \<Rightarrow> 'w step list \<Rightarrow> 'w step list checked" where
  "reconcile_result_schema t steps =
     (if tm_kind t \<noteq> terminal_reply \<or> tm_result_schema t = None \<or> steps = [] then Done steps
      else case last steps of Step c subs branches m \<Rightarrow>
        if sp_kind c \<noteq> step_pipe then Done steps
        else if sp_result_schema c = None
        then Done (butlast steps @ [Step (c \<lparr>sp_result_schema := tm_result_schema t\<rparr>) subs branches m])
        else if \<not> compatible_result_schemas (sp_result_schema c) (tm_result_schema t)
        then Failed (ErrWrap [] err_incompatible_terminal ('': Reply JSON schema '' @
               result_schema_label (tm_result_schema t) @ '' does not match Pipe Output schema '' @
               result_schema_label (sp_result_schema c)))
        else Done steps)"

section \<open>Plans\<close>

definition node_text :: "nat \<Rightarrow> string" where
  "node_text i = ''node '' @ nat_text i @ '': ''"

definition node_error :: "nat \<Rightarrow> go_error \<Rightarrow> 'a checked" where
  "node_error i e = Failed (ErrWrap (node_text i) e [])"

definition validate_next_start :: "'w node list \<Rightarrow> nat \<Rightarrow> unit checked" where
  "validate_next_start rest i = (case rest of
       [] \<Rightarrow> Done ()
     | n # _ \<Rightarrow> (case node_kind n of
         None \<Rightarrow> node_error i err_invalid_node
       | Some KindFrom \<Rightarrow> Done ()
       | Some k \<Rightarrow> if k = KindReply \<or> k = KindPush \<or> k = KindSink then node_error i err_multiple_terminals
                  else node_error i err_terminal_not_last))"

definition terminal_kind :: "declared_kind \<Rightarrow> bool" where
  "terminal_kind k = (k = KindReply \<or> k = KindPush \<or> k = KindSink)"

text \<open>A terminal ends the plan: it is compiled, must suit the trigger, and its schema goes to the last pipe.\<close>

definition finish_plan :: "decl_env \<Rightarrow> trigger \<Rightarrow> 'w step list \<Rightarrow> 'w node \<Rightarrow> 'w plan checked" where
  "finish_plan E trigger steps n =
     and_then (compile_terminal E n) (\<lambda>terminal.
     and_then (validate_terminal_compatibility (tg_kind trigger) (tm_kind terminal)) (\<lambda>_.
     and_then (reconcile_result_schema terminal steps) (\<lambda>steps'.
     Done \<lparr>pn_trigger = trigger, pn_steps = steps', pn_terminal = terminal\<rparr>)))"

fun compile_body ::
  "decl_env \<Rightarrow> trigger \<Rightarrow> 'w step list \<Rightarrow> nat \<Rightarrow> 'w node list \<Rightarrow> ('w plan \<times> nat \<times> 'w node list) checked" where
  "compile_body E trigger steps i [] = Failed err_terminal_missing"
| "compile_body E trigger steps i (n # rest) =
     (case node_kind n of
        None \<Rightarrow> node_error i err_invalid_node
      | Some kind \<Rightarrow>
          and_then (before (node_text i) (validate_node E n)) (\<lambda>_.
          if kind = KindFrom then node_error i err_terminal_missing
          else if terminal_kind kind
          then and_then (before (node_text i) (finish_plan E trigger steps n)) (\<lambda>plan.
               and_then (validate_next_start rest (Suc i)) (\<lambda>_. Done (plan, Suc i, rest)))
          else and_then (before (node_text i) (compile_runtime_step E n)) (\<lambda>step.
               compile_body E trigger (steps @ [step]) (Suc i) rest)))"

definition compile_from :: "decl_env \<Rightarrow> nat \<Rightarrow> 'w node \<Rightarrow> trigger checked" where
  "compile_from E i n = before (node_text i)
     (case n of
        FromNode source err c \<Rightarrow>
          and_then (validate_node E n) (\<lambda>_.
          and_then (compile_trigger source) (\<lambda>trigger.
          and_then (validate_option_compatibility (tg_kind trigger) c) (\<lambda>_.
          Done (with_from_config c trigger))))
      | _ \<Rightarrow> Failed err_invalid_node)"

definition compile_plan_at :: "decl_env \<Rightarrow> nat \<Rightarrow> 'w node \<Rightarrow> 'w node list \<Rightarrow> ('w plan \<times> nat \<times> 'w node list) checked" where
  "compile_plan_at E i n rest =
     and_then (compile_from E i n) (\<lambda>trigger. compile_body E trigger [] (Suc i) rest)"

lemma compile_body_rest: "compile_body E t steps i ns = Done (p, j, rest) \<Longrightarrow> length rest < length ns"
proof (induction ns arbitrary: steps i)
  case Nil
  then show ?case by simp
next
  case (Cons n ns)
  from Cons.prems show ?case
    by (auto simp: node_error_def split: option.splits if_splits elim!: and_then_Done dest: Cons.IH)
qed

function compile_loop :: "decl_env \<Rightarrow> nat \<Rightarrow> 'w node list \<Rightarrow> 'w plan list checked" where
  "compile_loop E i [] = Done []"
| "compile_loop E i (n # rest) =
     (case node_kind n of
        None \<Rightarrow> node_error i err_invalid_node
      | Some kind \<Rightarrow>
          if kind \<noteq> KindFrom then node_error i err_first_node_not_from
          else and_then (compile_plan_at E i n rest) (\<lambda>(plan, next, left).
               and_then (compile_loop E next left) (\<lambda>plans. Done (plan # plans))))"
  by pat_completeness auto
termination
  by (relation "measure (\<lambda>(E, i, ns). length ns)")
    (auto simp: compile_plan_at_def elim!: and_then_Done dest!: compile_body_rest)

definition compile_plans :: "decl_env \<Rightarrow> 'w node list \<Rightarrow> 'w plan list checked" where
  "compile_plans E nodes = (case nodes of
       [] \<Rightarrow> Failed err_pipeline_empty
     | n # _ \<Rightarrow> if node_kind n \<noteq> Some KindFrom then Failed err_first_node_not_from else compile_loop E 0 nodes)"

text \<open>\<open>Validate\<close>, for a program that only wants the error.\<close>

definition validate_pipeline :: "decl_env \<Rightarrow> 'w node list \<Rightarrow> unit checked" where
  "validate_pipeline E nodes = and_then (compile_plans E nodes) (\<lambda>_. Done ())"

end
