(* ===== verification/Compile_Facts.thy ===== *)
theory Compile_Facts
  imports Compile
begin

text \<open>
  Facts about the compiler of declarations: what a validation that passes has checked, that compiling a
  validated node only fails for want of a schema, that a compiled plan is well formed, and that a program
  compiles exactly when it is a sequence of pipelines that compile.
\<close>

section \<open>Checks that pass\<close>

lemma before_Done [simp]: "before pre r = Done x \<longleftrightarrow> r = Done x"
  by (cases r) (simp_all add: before_def)

lemma before_Stuck [simp]: "before pre r = Stuck \<longleftrightarrow> r = Stuck"
  by (cases r) (simp_all add: before_def)

lemma node_error_Done [simp]: "node_error i e \<noteq> Done x" "node_error i e \<noteq> Stuck"
  by (simp_all add: node_error_def)

lemma and_then_Done_iff: "and_then r k = Done y \<longleftrightarrow> (\<exists>x. r = Done x \<and> k x = Done y)"
  by (cases r) auto

lemma and_then_Stuck_iff: "and_then r k = Stuck \<longleftrightarrow> r = Stuck \<or> (\<exists>x. r = Done x \<and> k x = Stuck)"
  by (cases r) auto

lemma no_error_Done [simp]: "no_error e = Done x \<longleftrightarrow> e = None"
  by (cases e) (auto simp: no_error_def)

lemma no_error_Stuck [simp]: "no_error e \<noteq> Stuck"
  by (cases e) (auto simp: no_error_def)

lemma require_Done [simp]: "require b e = Done x \<longleftrightarrow> b"
  by (auto simp: require_def)

lemma require_Stuck [simp]: "require b e \<noteq> Stuck"
  by (auto simp: require_def)

lemma check_all_Done: "check_all f xs = Done u \<longleftrightarrow> (\<forall>x \<in> set xs. f x = Done ())"
  by (induction xs) (auto simp: and_then_Done_iff)

lemma check_all_Stuck: "check_all f xs = Stuck \<Longrightarrow> \<exists>x \<in> set xs. f x = Stuck"
  by (induction xs) (auto simp: and_then_Stuck_iff)

lemma check_indexed_Done:
  assumes "\<And>i j x. f i x = Done () \<longleftrightarrow> f j x = Done ()"
  shows "check_indexed f i xs = Done u \<longleftrightarrow> (\<forall>x \<in> set xs. f 0 x = Done ())"
  using assms by (induction xs arbitrary: i) (auto simp: and_then_Done_iff, blast+)

lemma check_indexed_Stuck: "check_indexed f i xs = Stuck \<Longrightarrow> \<exists>j. \<exists>x \<in> set xs. f j x = Stuck"
  by (induction xs arbitrary: i) (fastforce simp: and_then_Stuck_iff)+

lemma collect_Done: "collect f i xs = Done ys \<Longrightarrow> list_all2 (\<lambda>x y. \<exists>j. f j x = Done y) xs ys"
  by (induction xs arbitrary: i ys) (auto simp: and_then_Done_iff)

lemma collect_total: "(\<And>j x. x \<in> set xs \<Longrightarrow> \<exists>y. f j x = Done y) \<Longrightarrow> \<exists>ys. collect f i xs = Done ys"
proof (induction xs arbitrary: i)
  case Nil
  then show ?case by simp
next
  case (Cons x xs)
  then obtain y ys where "f i x = Done y" "collect f (Suc i) xs = Done ys" by (metis list.set_intros)
  then show ?case by simp
qed

lemma collect_Stuck: "collect f i xs = Stuck \<Longrightarrow> \<exists>j. \<exists>x \<in> set xs. f j x = Stuck"
  by (induction xs arbitrary: i) (fastforce simp: and_then_Stuck_iff)+

section \<open>Validated nodes\<close>

fun is_pipe :: "'w node \<Rightarrow> bool" where
  "is_pipe (PipeNode g c subs e) = True"
| "is_pipe _ = False"

lemma validate_sub_pipeline_Done:
  "validate_sub_pipeline f ns = Done u \<longleftrightarrow> ns \<noteq> [] \<and> (\<forall>n \<in> set ns. is_pipe n \<and> f n = Done ())"
proof -
  have "(case n of NilNode \<Rightarrow> Failed (invalid (sub_node_text i '' is nil''))
      | PipeNode _ _ _ _ \<Rightarrow> before (sub_node_text i '': '') (f n)
      | _ \<Rightarrow> Failed (invalid (sub_node_text i '' must be Pipe''))) = Done () \<longleftrightarrow> is_pipe n \<and> f n = Done ()" for i n
    by (cases n) auto
  then show ?thesis by (simp add: validate_sub_pipeline_def check_indexed_Done)
qed

lemma validate_composition_pipe_Done:
  "validate_composition_pipe E scope i n = Done u \<longleftrightarrow> is_pipe n \<and> validate_pipe E 0 [] n = Done ()"
  by (cases n) (auto simp: validate_composition_pipe_def)

lemma validate_composition_Done:
  "validate_composition E scope ns e1 e2 = Done u \<longleftrightarrow>
     e1 = None \<and> e2 = None \<and> ns \<noteq> [] \<and> (\<forall>n \<in> set ns. is_pipe n \<and> validate_pipe E 0 [] n = Done ())"
  by (auto simp: validate_composition_def and_then_Done_iff check_indexed_Done validate_composition_pipe_Done)

lemma validate_sub_agent_Done:
  "validate_sub_agent E d stack (SubAgentSpec name nodes mp po err) = Done u \<longleftrightarrow>
     err = None \<and> name \<noteq> [] \<and> d \<le> default_sub_agent_max_depth \<and> name \<notin> set stack \<and> 0 < mp
     \<and> mp \<le> default_sub_agent_max_parallel \<and> nodes \<noteq> []
     \<and> (\<forall>n \<in> set nodes. is_pipe n \<and> validate_pipe E d (stack @ [name]) n = Done ())"
  by (auto simp: and_then_Done_iff validate_sub_pipeline_Done)

declare validate_sub_agent.simps [simp del]

text \<open>A validation that passes also passes at a smaller depth and below fewer names.\<close>

lemma validation_monotone:
  fixes n :: "'w node" and s :: "'w sub_agent_spec"
  shows "validate_pipe E d stack n = Done u \<Longrightarrow> d' \<le> d \<Longrightarrow> set stack' \<subseteq> set stack \<Longrightarrow> validate_pipe E d' stack' n = Done ()"
    and "validate_sub_agent E d stack s = Done u \<Longrightarrow> d' \<le> d \<Longrightarrow> set stack' \<subseteq> set stack
     \<Longrightarrow> validate_sub_agent E d' stack' s = Done ()"
proof (induction E d stack n and E d stack s arbitrary: d' stack' u and d' stack' u
    rule: validate_pipe_validate_sub_agent.induct)
  case (1 E depth stack goal c subs err)
  have "validate_sub_agent E (d' + 1) stack' s = Done ()" if "s \<in> set subs" for s
    using 1 that by (auto simp: and_then_Done_iff check_all_Done)
  with 1 show ?case by (auto simp: and_then_Done_iff check_all_Done)
next
  case (3 E depth stack name nodes mp po err)
  note H = 3(2) [unfolded validate_sub_agent_Done]
  have "validate_pipe E d' (stack' @ [name]) n = Done ()" if "n \<in> set nodes" for n
    by (rule 3(1)) (use H 3 that in auto)
  with H 3 show ?case by (auto simp: validate_sub_agent_Done)
qed auto

section \<open>Compiled steps\<close>

text \<open>What the run time may rely on: a pipe has a goal, a model with its provider, and tools that are functions; a
  sub-agent has a name that is not on the path to it, at most the depth and the parallelism allowed, and steps.\<close>

definition pipe_config_ok :: "'w step_config \<Rightarrow> bool" where
  "pipe_config_ok c \<longleftrightarrow> sp_kind c = step_pipe \<and> sp_goal c \<noteq> [] \<and> provider_model_form (trim_space (sp_model c))
     \<and> (\<forall>t \<in> set (sp_tools c). tl_name t \<noteq> [] \<and> tl_go_func t \<noteq> None)
     \<and> (\<forall>b \<in> set (sp_bash c). trim_space (bt_sandbox_root b) \<noteq> [] \<and> 0 < bt_timeout b \<and> 0 < bt_max_output_bytes b)
     \<and> (\<forall>n \<in> set (sp_skills c) \<union> set (sp_mcp_servers c). n \<noteq> [] \<and> \<not> has_separator n)"

fun pipe_step_ok :: "int \<Rightarrow> string list \<Rightarrow> 'w step \<Rightarrow> bool"
  and sub_agent_ok :: "int \<Rightarrow> string list \<Rightarrow> 'w sub_agent \<Rightarrow> bool" where
  "pipe_step_ok d stack (Step c subs branches m) \<longleftrightarrow>
     pipe_config_ok c \<and> branches = [] \<and> m = Pipeline [] \<and> (\<forall>a \<in> set subs. sub_agent_ok (d + 1) stack a)"
| "sub_agent_ok d stack (SubAgent name (Pipeline steps) mp po) \<longleftrightarrow>
     name \<noteq> [] \<and> name \<notin> set stack \<and> d \<le> default_sub_agent_max_depth \<and> 0 < mp \<and> mp \<le> default_sub_agent_max_parallel
     \<and> steps \<noteq> [] \<and> (\<forall>s \<in> set steps. pipe_step_ok d (stack @ [name]) s)"

fun step_ok :: "'w step \<Rightarrow> bool" where
  "step_ok (Step c subs branches (Pipeline steps)) \<longleftrightarrow>
     (if sp_kind c = step_parallel
      then subs = [] \<and> steps = [] \<and> branches \<noteq> [] \<and> (\<forall>b \<in> set branches. \<exists>s. b = Pipeline [s] \<and> pipe_step_ok 0 [] s)
      else if sp_kind c = step_map
      then subs = [] \<and> branches = [] \<and> steps \<noteq> [] \<and> (\<forall>s \<in> set steps. pipe_step_ok 0 [] s)
      else pipe_step_ok 0 [] (Step c subs branches (Pipeline steps)))"

lemma validated_tool: "validate_tool E t = Done u \<Longrightarrow> ts_name t \<noteq> [] \<and> runtime_go_func (ts_fn t) \<noteq> None"
  by (auto simp: validate_tool_def Let_def and_then_Done_iff split: if_splits go_value.splits)

lemma validated_bash:
  "validate_bash b = Done u \<Longrightarrow> trim_space (sc_root (bs_sandbox b)) \<noteq> [] \<and> 0 < bs_timeout b \<and> 0 < bs_max_output_bytes b"
  by (auto simp: validate_bash_def and_then_Done_iff split: if_splits)

lemma validated_names:
  "validate_skill n = Done u \<Longrightarrow> n \<noteq> [] \<and> \<not> has_separator n"
  "validate_mcp n = Done u \<Longrightarrow> n \<noteq> [] \<and> \<not> has_separator n"
  by (auto simp: validate_skill_def validate_mcp_def split: if_splits)

lemma validated_pipe_config:
  assumes "validate_pipe_config E goal c err = Done u"
  shows "pipe_config_ok (pipe_step_config E goal c schema)"
  using assms validated_tool validated_bash validated_names
  by (fastforce simp: validate_pipe_config_def pipe_config_ok_def pipe_step_config_def and_then_Done_iff
      check_all_Done validate_model_form_def Let_def runtime_tool_def runtime_bash_tool_def split: if_splits)

lemma list_all2_set1: "list_all2 P xs ys \<Longrightarrow> y \<in> set ys \<Longrightarrow> \<exists>x \<in> set xs. P x y"
  by (induction rule: list_all2_induct) auto

lemma compiled_step_ok:
  fixes n :: "'w node" and a :: "'w sub_agent_spec"
  shows "compile_step E n = Done s \<Longrightarrow> validate_pipe E d stack n = Done () \<Longrightarrow> pipe_step_ok d stack s"
    and "compile_sub_agent E a = Done b \<Longrightarrow> validate_sub_agent E d stack a = Done () \<Longrightarrow> sub_agent_ok d stack b"
proof (induction E n and E a arbitrary: s d stack and b d stack rule: compile_step_compile_sub_agent.induct)
  case (1 E goal c subs err)
  from 1(2) obtain subAgents schema where
    subs: "collect (\<lambda>_. compile_sub_agent E) 0 subs = Done subAgents" and
    s: "s = Step (pipe_step_config E goal c schema) subAgents [] (Pipeline [])"
    by (auto simp: and_then_Done_iff)
  from 1(3) have v: "validate_pipe_config E goal c err = Done ()" "\<forall>a \<in> set subs. validate_sub_agent E (d + 1) stack a = Done ()"
    by (auto simp: and_then_Done_iff check_all_Done)
  have "sub_agent_ok (d + 1) stack b" if "b \<in> set subAgents" for b
    using list_all2_set1 [OF collect_Done [OF subs] that] 1(1) v(2) by blast
  with s validated_pipe_config [OF v(1)] show ?case by simp
next
  case (3 E name nodes mp po err)
  from 3(2) obtain steps where
    steps: "collect (\<lambda>i n. before (sub_node_text i '': '') (compile_step E n)) 0 nodes = Done steps"
    and b: "b = SubAgent name (Pipeline steps) mp po"
    and rev: "validate_sub_agent E 1 [] (SubAgentSpec name nodes mp po err) = Done ()"
      "validate_sub_pipeline (validate_pipe E 0 []) nodes = Done ()"
    by (auto simp: and_then_Done_iff)
  note v = 3(3) [unfolded validate_sub_agent_Done]
  have all: "list_all2 (\<lambda>n s. compile_step E n = Done s) nodes steps" using collect_Done [OF steps] by simp
  then have "steps \<noteq> []" using v by auto
  moreover have "pipe_step_ok d (stack @ [name]) s" if "s \<in> set steps" for s
    using list_all2_set1 [OF all that] 3(1) rev v by blast
  ultimately show ?case using v b by simp
qed auto

lemma compiled_items_ok:
  assumes "compile_items E scope ns = Done steps" "\<forall>n \<in> set ns. is_pipe n \<and> validate_pipe E 0 [] n = Done ()" "ns \<noteq> []"
  shows "steps \<noteq> [] \<and> (\<forall>s \<in> set steps. pipe_step_ok 0 [] s)"
proof -
  have all: "list_all2 (\<lambda>n s. compile_step E n = Done s) ns steps"
    using collect_Done [OF assms(1) [unfolded compile_items_def]] by simp
  then show ?thesis using assms(2,3) list_all2_set1 [OF all] compiled_step_ok(1) by fastforce
qed

lemma pipe_step_is_ok: "pipe_step_ok 0 [] s \<Longrightarrow> step_ok s"
  by (cases s rule: step_ok.cases) (auto simp: pipe_config_ok_def)

lemma compiled_runtime_step_ok:
  assumes "compile_runtime_step E n = Done s" "validate_node E n = Done ()"
  shows "step_ok s"
proof (cases n)
  case (PipeNode g c subs e)
  then show ?thesis
    using assms by (intro pipe_step_is_ok compiled_step_ok(1) [of E n]) (simp_all del: validate_pipe.simps compile_step.simps)
next
  case (ParallelNode ns c e)
  with assms show ?thesis
    by (auto simp: and_then_Done_iff validate_composition_Done composed_step_config_def dest!: compiled_items_ok)
next
  case (MapNode ns c e)
  with assms show ?thesis
    by (auto simp: and_then_Done_iff validate_composition_Done composed_step_config_def dest!: compiled_items_ok)
qed (use assms in auto)

section \<open>Compiled plans\<close>

definition trigger_ok :: "decl_env \<Rightarrow> trigger \<Rightarrow> bool" where
  "trigger_ok E t \<longleftrightarrow>
     (tg_kind t = trigger_http \<and> tg_method t \<noteq> [] \<and> tg_path t \<noteq> []
      \<or> tg_kind t = trigger_cron \<and> (\<exists>s. parse_cron_schedule (de_duration E) (tg_expr t) = Some (Inr s))
      \<or> tg_kind t = trigger_webhook \<and> valid_webhook_provider_name (tg_value t)
      \<or> tg_kind t = trigger_stream \<and> validate_stream_uri E (tg_uri t) = None)
     \<and> (tg_signature_env t \<noteq> [] \<or> tg_signature_header t \<noteq> [] \<or> tg_idempotency_header t \<noteq> []
         \<longrightarrow> tg_kind t \<in> {trigger_http, trigger_webhook})
     \<and> (tg_dlq_target t \<noteq> [] \<or> 0 < tg_max_attempts t \<or> 0 < tg_max_in_flight t \<or> tg_ack_policy t \<noteq> []
         \<longrightarrow> tg_kind t = trigger_stream)"

definition plan_ok :: "decl_env \<Rightarrow> 'w plan \<Rightarrow> bool" where
  "plan_ok E p \<longleftrightarrow> trigger_ok E (pn_trigger p) \<and> (\<forall>s \<in> set (pn_steps p). step_ok s)
     \<and> tm_kind (pn_terminal p) \<in> {terminal_reply, terminal_push, terminal_sink}
     \<and> (tm_kind (pn_terminal p) = terminal_reply \<longrightarrow> tg_kind (pn_trigger p) = trigger_http)
     \<and> (tm_result_schema (pn_terminal p) \<noteq> None \<longrightarrow> tm_kind (pn_terminal p) = terminal_reply)
     \<and> (tm_result_schema (pn_terminal p) \<noteq> None \<and> pn_steps p \<noteq> []
         \<and> sp_kind (st_config (last (pn_steps p))) = step_pipe
         \<longrightarrow> compatible_result_schemas (sp_result_schema (st_config (last (pn_steps p)))) (tm_result_schema (pn_terminal p)))"

lemma with_from_config_sel [simp]:
  "tg_kind (with_from_config c t) = tg_kind t" "tg_method (with_from_config c t) = tg_method t"
  "tg_path (with_from_config c t) = tg_path t" "tg_expr (with_from_config c t) = tg_expr t"
  "tg_value (with_from_config c t) = tg_value t" "tg_uri (with_from_config c t) = tg_uri t"
  by (simp_all add: with_from_config_def)

lemma empty_trigger_kind [simp]: "tg_kind (empty_trigger k) = k"
  by (simp add: empty_trigger_def)

lemma deref_Done: "deref r f = Done u \<longleftrightarrow> (\<exists>x. pointee r = Some x \<and> f x = Done u)"
  by (auto simp: deref_def split: option.splits)

lemma pointed_Done: "pointed r f = Done t \<longleftrightarrow> (\<exists>x. pointee r = Some x \<and> t = f x)"
  by (auto simp: pointed_def split: option.splits)

lemma option_compatibility_Done:
  "validate_option_compatibility kind c = Done u \<longleftrightarrow>
     (fc_signature_env c \<noteq> [] \<or> fc_signature_header c \<noteq> [] \<or> fc_idempotency_header c \<noteq> []
        \<longrightarrow> kind \<in> {trigger_http, trigger_webhook})
     \<and> (fc_dlq_target c \<noteq> [] \<or> 0 < fc_max_attempts c \<or> 0 < fc_max_in_flight c \<or> fc_ack_policy c \<noteq> []
        \<longrightarrow> kind = trigger_stream)"
  by (auto simp: validate_option_compatibility_def Let_def)

text \<open>A trigger that compiles names what its validation has read.\<close>

lemma compiled_source:
  assumes "compile_trigger (Some s) = Done t" "validate_trigger E s = Done ()"
  shows "(tg_kind t = trigger_http \<and> tg_method t \<noteq> [] \<and> tg_path t \<noteq> []
      \<or> tg_kind t = trigger_cron \<and> (\<exists>x. parse_cron_schedule (de_duration E) (tg_expr t) = Some (Inr x))
      \<or> tg_kind t = trigger_webhook \<and> valid_webhook_provider_name (tg_value t)
      \<or> tg_kind t = trigger_stream \<and> validate_stream_uri E (tg_uri t) = None)"
  using assms by (cases s)
    (auto simp: pointed_Done deref_Done empty_trigger_def split: if_splits option.splits sum.splits)

lemma compiled_from:
  assumes "compile_from E i n = Done t"
  obtains s err c t0 where "n = FromNode (Some s) err c" "validate_trigger E s = Done ()" "compile_trigger (Some s) = Done t0"
    "validate_option_compatibility (tg_kind t0) c = Done ()" "t = with_from_config c t0"
  using assms by (cases n)
    (auto simp: compile_from_def and_then_Done_iff validate_from_def split: option.splits)

lemma compiled_trigger_ok: "compile_from E i n = Done t \<Longrightarrow> trigger_ok E t"
proof (erule compiled_from)
  fix s err c t0
  assume H: "validate_trigger E s = Done ()" "compile_trigger (Some s) = Done t0"
    "validate_option_compatibility (tg_kind t0) c = Done ()" "t = with_from_config c t0"
  have "tg_signature_env t = fc_signature_env c" "tg_signature_header t = fc_signature_header c"
    "tg_idempotency_header t = fc_idempotency_header c" "tg_dlq_target t = fc_dlq_target c"
    "tg_max_attempts t = fc_max_attempts c" "tg_max_in_flight t = fc_max_in_flight c" "tg_ack_policy t = fc_ack_policy c"
    using H(4) by (simp_all add: with_from_config_def)
  with H(3,4) compiled_source [OF H(2,1)] show "trigger_ok E t"
    by (simp add: trigger_ok_def option_compatibility_Done)
qed

lemma compiled_terminal_kind:
  "compile_terminal E n = Done t \<Longrightarrow> tm_kind t \<in> {terminal_reply, terminal_push, terminal_sink}"
  by (cases n) (auto simp: deref_Done and_then_Done_iff empty_terminal_def split: option.splits reply_format.splits
      push_target.splits sink_target.splits)

lemma compatible_refl [simp]: "compatible_result_schemas s s"
  by (cases s) (auto simp: compatible_result_schemas_def)

lemma pipe_config_ok_schema [simp]: "pipe_config_ok (c \<lparr>sp_result_schema := r\<rparr>) = pipe_config_ok c"
  by (simp add: pipe_config_ok_def)

lemma step_ok_schema: "step_ok (Step (c \<lparr>sp_result_schema := r\<rparr>) subs branches m) = step_ok (Step c subs branches m)"
proof -
  have "sp_kind (c \<lparr>sp_result_schema := r\<rparr>) = sp_kind c" by simp
  then show ?thesis by (cases m) (simp only: step_ok.simps pipe_step_ok.simps pipe_config_ok_schema)
qed

lemma reconciled_steps:
  assumes "reconcile_result_schema t steps = Done steps'" "\<forall>s \<in> set steps. step_ok s"
  shows "(\<forall>s \<in> set steps'. step_ok s)
     \<and> (tm_kind t = terminal_reply \<and> tm_result_schema t \<noteq> None \<and> steps' \<noteq> [] \<and> sp_kind (st_config (last steps')) = step_pipe
         \<longrightarrow> compatible_result_schemas (sp_result_schema (st_config (last steps'))) (tm_result_schema t))"
proof (cases "tm_kind t \<noteq> terminal_reply \<or> tm_result_schema t = None \<or> steps = []")
  case True
  with assms show ?thesis by (auto simp: reconcile_result_schema_def)
next
  case False
  obtain c subs branches m where last: "last steps = Step c subs branches m" by (cases "last steps")
  then have ok: "step_ok (Step c subs branches m)" using False assms(2) by (metis last_in_set)
  have upd: "step_ok (Step (c \<lparr>sp_result_schema := tm_result_schema t\<rparr>) subs branches m)"
    using ok by (simp only: step_ok_schema)
  have butl: "\<forall>s \<in> set (butlast steps). step_ok s" using assms(2) by (meson in_set_butlastD)
  from assms(1) False last consider
    "steps' = steps" "sp_kind c = step_pipe \<longrightarrow> compatible_result_schemas (sp_result_schema c) (tm_result_schema t)"
  | "steps' = butlast steps @ [Step (c \<lparr>sp_result_schema := tm_result_schema t\<rparr>) subs branches m]"
    by (auto simp: reconcile_result_schema_def split: if_splits)
  then show ?thesis
  proof cases
    case 1
    with assms(2) last show ?thesis by simp
  next
    case 2
    with upd butl show ?thesis by (simp del: step_ok.simps)
  qed
qed

lemma terminal_schema_is_reply:
  "compile_terminal E n = Done t \<Longrightarrow> tm_result_schema t \<noteq> None \<Longrightarrow> tm_kind t = terminal_reply"
  by (cases n) (auto simp: deref_Done and_then_Done_iff empty_terminal_def split: option.splits reply_format.splits
      push_target.splits sink_target.splits)

lemma finished_plan_ok:
  assumes "finish_plan E t steps n = Done p" "trigger_ok E t" "\<forall>s \<in> set steps. step_ok s"
  shows "plan_ok E p"
proof -
  from assms(1) obtain tm steps' where H: "compile_terminal E n = Done tm"
    "validate_terminal_compatibility (tg_kind t) (tm_kind tm) = Done ()" "reconcile_result_schema tm steps = Done steps'"
    "p = \<lparr>pn_trigger = t, pn_steps = steps', pn_terminal = tm\<rparr>"
    by (auto simp: finish_plan_def and_then_Done_iff)
  show ?thesis
    using H reconciled_steps [OF H(3) assms(3)] compiled_terminal_kind [OF H(1)] terminal_schema_is_reply [OF H(1)] assms(2)
    by (auto simp: plan_ok_def validate_terminal_compatibility_def)
qed

text \<open>One turn of the loop of \<open>compilePlanAt\<close>: a terminal ends the plan, a step goes on.\<close>

lemma compile_body_Cons:
  "compile_body E t steps i (n # rest) = Done r \<longleftrightarrow>
     (\<exists>k. node_kind n = Some k \<and> k \<noteq> KindFrom \<and> validate_node E n = Done ()
       \<and> (if terminal_kind k
          then \<exists>p. finish_plan E t steps n = Done p \<and> validate_next_start rest (Suc i) = Done () \<and> r = (p, Suc i, rest)
          else \<exists>s. compile_runtime_step E n = Done s \<and> compile_body E t (steps @ [s]) (Suc i) rest = Done r))"
  by (auto simp: and_then_Done_iff split: option.splits)

declare compile_body.simps(2) [simp del]

lemma compiled_body_ok:
  "compile_body E t steps i ns = Done (p, j, rest) \<Longrightarrow> trigger_ok E t \<Longrightarrow> \<forall>s \<in> set steps. step_ok s \<Longrightarrow> plan_ok E p"
proof (induction ns arbitrary: steps i)
  case Nil
  then show ?case by simp
next
  case (Cons n ns)
  from Cons.prems(1) [unfolded compile_body_Cons] show ?case
    using Cons.prems(2,3) finished_plan_ok [of E t steps n p] compiled_runtime_step_ok [of E n] Cons.IH
    by (auto split: if_splits)
qed

lemma compile_loop_Cons:
  "compile_loop E i (n # rest) = Done ps \<longleftrightarrow>
     (\<exists>t p j left qs. node_kind n = Some KindFrom \<and> compile_from E i n = Done t
        \<and> compile_body E t [] (Suc i) rest = Done (p, j, left) \<and> compile_loop E j left = Done qs \<and> ps = p # qs)"
  by (auto simp: compile_plan_at_def and_then_Done_iff split: option.splits)

declare compile_loop.simps(2) [simp del]

lemma compiled_loop_ok: "compile_loop E i ns = Done ps \<Longrightarrow> p \<in> set ps \<Longrightarrow> plan_ok E p"
proof (induction "length ns" arbitrary: ns i ps rule: less_induct)
  case less
  show ?case
  proof (cases ns)
    case Nil
    with less.prems show ?thesis by simp
  next
    case (Cons n rest)
    from less.prems(1) [unfolded Cons compile_loop_Cons] obtain t p' j left qs where
      H: "compile_from E i n = Done t" "compile_body E t [] (Suc i) rest = Done (p', j, left)"
        "compile_loop E j left = Done qs" "ps = p' # qs" by blast
    have "plan_ok E p'" using compiled_body_ok [OF H(2) compiled_trigger_ok [OF H(1)]] by simp
    moreover have "p \<in> set qs \<Longrightarrow> plan_ok E p"
      using less.hyps [OF _ H(3)] compile_body_rest [OF H(2)] Cons by simp
    ultimately show ?thesis using less.prems(2) H(4) by auto
  qed
qed

lemma compiled_ok: "compile_plans E nodes = Done ps \<Longrightarrow> p \<in> set ps \<Longrightarrow> plan_ok E p"
  using compiled_loop_ok by (auto simp: compile_plans_def split: list.splits if_splits)

section \<open>Sequences of pipelines\<close>

definition starts_pipeline :: "'w node list \<Rightarrow> bool" where
  "starts_pipeline ns = (case ns of [] \<Rightarrow> True | n # _ \<Rightarrow> node_kind n = Some KindFrom)"

lemma starts_pipeline_append: "starts_pipeline a \<Longrightarrow> starts_pipeline b \<Longrightarrow> starts_pipeline (a @ b)"
  by (cases a) (simp_all add: starts_pipeline_def)

lemma validate_next_start_Done: "validate_next_start rest i = Done u \<longleftrightarrow> starts_pipeline rest"
  by (auto simp: validate_next_start_def starts_pipeline_def split: list.splits option.splits declared_kind.splits)

lemma compile_from_shift: "compile_from E i n = Done t \<longleftrightarrow> compile_from E j n = Done t"
  by (simp add: compile_from_def)

text \<open>The body of a plan is the nodes up to its terminal; what follows is only looked at for a From.\<close>

lemma compile_body_frame:
  "compile_body E t steps i ns = Done (p, j, rest) \<Longrightarrow>
     \<exists>mid. ns = mid @ rest \<and> j = i + length mid \<and> starts_pipeline rest
       \<and> (\<forall>k b. starts_pipeline b \<longrightarrow> compile_body E t steps k (mid @ b) = Done (p, k + length mid, b))"
proof (induction ns arbitrary: steps i)
  case Nil
  then show ?case by simp
next
  case (Cons n ns)
  from Cons.prems obtain k where k: "node_kind n = Some k" "k \<noteq> KindFrom" "validate_node E n = Done ()"
    by (auto simp: compile_body_Cons)
  show ?case
  proof (cases "terminal_kind k")
    case True
    with Cons.prems k have "finish_plan E t steps n = Done p" "starts_pipeline ns" "j = Suc i" "rest = ns"
      by (auto simp: compile_body_Cons validate_next_start_Done)
    with True k show ?thesis by (intro exI [of _ "[n]"]) (simp add: compile_body_Cons validate_next_start_Done)
  next
    case False
    with Cons.prems k obtain s where s: "compile_runtime_step E n = Done s"
      "compile_body E t (steps @ [s]) (Suc i) ns = Done (p, j, rest)"
      by (auto simp: compile_body_Cons)
    from Cons.IH [OF s(2)] obtain mid where mid: "ns = mid @ rest" "j = Suc i + length mid" "starts_pipeline rest"
      "\<And>k b. starts_pipeline b \<Longrightarrow> compile_body E t (steps @ [s]) k (mid @ b) = Done (p, k + length mid, b)" by blast
    with False k s(1) show ?thesis by (intro exI [of _ "n # mid"]) (simp add: compile_body_Cons)
  qed
qed

lemma compile_loop_append:
  "compile_loop E i a = Done ps \<Longrightarrow> starts_pipeline b \<Longrightarrow>
     compile_loop E k (a @ b) = and_then (compile_loop E (k + length a) b) (\<lambda>qs. Done (ps @ qs))"
proof (induction "length a" arbitrary: a i k ps rule: less_induct)
  case less
  show ?case
  proof (cases a)
    case Nil
    with less.prems show ?thesis by (cases "compile_loop E k b") auto
  next
    case (Cons n rest)
    from less.prems(1) [unfolded Cons compile_loop_Cons] obtain t p j left qs where
      H: "node_kind n = Some KindFrom" "compile_from E i n = Done t"
        "compile_body E t [] (Suc i) rest = Done (p, j, left)" "compile_loop E j left = Done qs" "ps = p # qs" by blast
    from compile_body_frame [OF H(3)] obtain mid where mid: "rest = mid @ left" "starts_pipeline left"
      "\<And>k b. starts_pipeline b \<Longrightarrow> compile_body E t [] k (mid @ b) = Done (p, k + length mid, b)" by blast
    have "compile_from E k n = Done t" using H(2) compile_from_shift by blast
    with mid(3) [OF starts_pipeline_append [OF mid(2) less.prems(2)], of "Suc k"]
    have "compile_plan_at E k n (rest @ b) = Done (p, Suc k + length mid, left @ b)"
      by (simp add: compile_plan_at_def mid(1))
    moreover have "compile_loop E (Suc k + length mid) (left @ b) =
        and_then (compile_loop E (Suc k + length mid + length left) b) (\<lambda>rs. Done (qs @ rs))"
      using less.hyps [OF _ H(4) less.prems(2)] Cons mid(1) by simp
    ultimately show ?thesis
      using H(1,5) Cons mid(1)
      by (cases "compile_loop E (k + length a) b") (simp_all add: compile_loop.simps(2) add.commute add.left_commute)
  qed
qed

lemma compile_plans_Done:
  "compile_plans E ns = Done ps \<longleftrightarrow> ns \<noteq> [] \<and> starts_pipeline ns \<and> compile_loop E 0 ns = Done ps"
  by (auto simp: compile_plans_def starts_pipeline_def split: list.splits)

lemma compile_loop_starts: "compile_loop E i ns = Done ps \<Longrightarrow> starts_pipeline ns"
  by (cases ns) (auto simp: starts_pipeline_def compile_loop_Cons)

lemma compile_loop_shift: "compile_loop E i ns = Done ps \<Longrightarrow> compile_loop E k ns = Done ps"
  using compile_loop_append [of E i ns ps "[]" k] by (simp add: starts_pipeline_def)

lemma compiled_segments:
  "compile_loop E i ns = Done ps \<Longrightarrow>
     \<exists>segs. ns = concat segs \<and> list_all2 (\<lambda>seg p. compile_plans E seg = Done [p]) segs ps"
proof (induction "length ns" arbitrary: ns i ps rule: less_induct)
  case less
  show ?case
  proof (cases ns)
    case Nil
    with less.prems show ?thesis by (intro exI [of _ "[]"]) simp
  next
    case (Cons n rest)
    from less.prems(1) [unfolded Cons compile_loop_Cons] obtain t p j left qs where
      H: "node_kind n = Some KindFrom" "compile_from E i n = Done t"
        "compile_body E t [] (Suc i) rest = Done (p, j, left)" "compile_loop E j left = Done qs" "ps = p # qs" by blast
    from compile_body_frame [OF H(3)] obtain mid where mid: "rest = mid @ left"
      "\<And>k b. starts_pipeline b \<Longrightarrow> compile_body E t [] k (mid @ b) = Done (p, k + length mid, b)" by blast
    have "compile_from E 0 n = Done t" using H(2) compile_from_shift by blast
    with mid(2) [of "[]" "Suc 0"] H(1) have "compile_plans E (n # mid) = Done [p]"
      by (simp add: compile_plans_Done starts_pipeline_def compile_loop_Cons)
    moreover obtain segs where "left = concat segs" "list_all2 (\<lambda>seg p. compile_plans E seg = Done [p]) segs qs"
      using less.hyps [OF _ H(4)] mid(1) Cons by auto
    ultimately show ?thesis using mid(1) Cons H(5) by (intro exI [of _ "(n # mid) # segs"]) simp
  qed
qed

lemma segments_compile:
  "list_all2 (\<lambda>seg p. compile_plans E seg = Done [p]) segs ps \<Longrightarrow> compile_loop E i (concat segs) = Done ps"
proof (induction arbitrary: i rule: list_all2_induct)
  case Nil
  show ?case by simp
next
  case (Cons seg segs p ps)
  then have "compile_loop E 0 seg = Done [p]" by (simp add: compile_plans_Done)
  moreover have "starts_pipeline (concat segs)" using Cons(3) compile_loop_starts by blast
  ultimately show ?case using compile_loop_append [of E 0 seg "[p]" "concat segs" i] Cons(3) by simp
qed

lemma program_is_sequence:
  "compile_plans E nodes = Done plans \<longleftrightarrow> plans \<noteq> [] \<and>
     (\<exists>segs. nodes = concat segs \<and> list_all2 (\<lambda>seg p. compile_plans E seg = Done [p]) segs plans)"
proof
  assume H: "compile_plans E nodes = Done plans"
  then have "plans \<noteq> []"
    by (cases nodes) (auto simp: compile_plans_Done compile_loop_Cons)
  with H show "plans \<noteq> [] \<and> (\<exists>segs. nodes = concat segs \<and> list_all2 (\<lambda>seg p. compile_plans E seg = Done [p]) segs plans)"
    using compiled_segments by (auto simp: compile_plans_Done)
next
  assume "plans \<noteq> [] \<and> (\<exists>segs. nodes = concat segs \<and> list_all2 (\<lambda>seg p. compile_plans E seg = Done [p]) segs plans)"
  then obtain segs where segs: "plans \<noteq> []" "nodes = concat segs"
    "list_all2 (\<lambda>seg p. compile_plans E seg = Done [p]) segs plans" by blast
  then obtain seg segs' p where "segs = seg # segs'" "compile_plans E seg = Done [p]" by (cases segs; cases plans) auto
  then have "nodes \<noteq> []" using segs(2) by (auto simp: compile_plans_Done)
  with segs segments_compile [OF segs(3), of 0] compile_loop_starts show "compile_plans E nodes = Done plans"
    by (auto simp: compile_plans_Done)
qed

text \<open>The nodes of one pipeline: a From, steps that become the steps of the plan, and a terminal.\<close>

lemma compile_body_shape:
  "compile_body E t steps i ns = Done (p, j, rest) \<Longrightarrow>
     \<exists>mid last k. ns = mid @ last # rest \<and> (\<forall>n \<in> set mid. node_kind n \<in> {Some KindPipe, Some KindParallel, Some KindMapNode})
       \<and> node_kind last = Some k \<and> terminal_kind k \<and> length (pn_steps p) = length steps + length mid"
proof (induction ns arbitrary: steps i)
  case Nil
  then show ?case by simp
next
  case (Cons n ns)
  from Cons.prems obtain k where k: "node_kind n = Some k" "k \<noteq> KindFrom" by (auto simp: compile_body_Cons)
  show ?case
  proof (cases "terminal_kind k")
    case True
    with Cons.prems k have "finish_plan E t steps n = Done p" "rest = ns" by (auto simp: compile_body_Cons)
    moreover from this have "length (pn_steps p) = length steps"
      by (auto simp: finish_plan_def and_then_Done_iff reconcile_result_schema_def split: if_splits step.splits)
    ultimately show ?thesis using True k by (intro exI [of _ "[]"]) auto
  next
    case False
    with Cons.prems k obtain s where "compile_body E t (steps @ [s]) (Suc i) ns = Done (p, j, rest)"
      by (auto simp: compile_body_Cons)
    from Cons.IH [OF this] obtain mid last l where
      "ns = mid @ last # rest" "\<forall>n \<in> set mid. node_kind n \<in> {Some KindPipe, Some KindParallel, Some KindMapNode}"
      "node_kind last = Some l" "terminal_kind l" "length (pn_steps p) = Suc (length steps) + length mid" by auto
    moreover have "k \<in> {KindPipe, KindParallel, KindMapNode}" using False k(2) by (cases k) (auto simp: terminal_kind_def)
    ultimately show ?thesis using k(1) by (intro exI [of _ "n # mid"] exI [of _ last] exI [of _ l]) auto
  qed
qed

end
