(* ===== verification/Compile_Claims.thy ===== *)
theory Compile_Claims
  imports Compile_Facts
begin

text \<open>
  The properties of the compiler of declarations: plans are well formed and within the limits of the run time,
  programs compose, compilation returns, and a validated pipe compiles.
\<close>

section \<open>Compilation returns\<close>

lemma validate_model_form_Stuck [simp]: "validate_model_form E m \<noteq> Stuck"
  by (simp add: validate_model_form_def Let_def)

lemma validate_leaf_Stuck [simp]: "validate_tool E t \<noteq> Stuck" "validate_bash b \<noteq> Stuck" "validate_skill s \<noteq> Stuck" "validate_mcp s \<noteq> Stuck"
  by (auto simp: validate_tool_def validate_bash_def validate_skill_def validate_mcp_def Let_def and_then_Stuck_iff
      split: if_splits go_value.splits list.splits)

lemma check_all_leaf_Stuck [simp]:
  "check_all (validate_tool E) ts \<noteq> Stuck" "check_all validate_bash bs \<noteq> Stuck" "check_all validate_skill ss \<noteq> Stuck"
  "check_all validate_mcp ms \<noteq> Stuck"
  using check_all_Stuck validate_leaf_Stuck by metis+

lemma validate_pipe_config_Stuck [simp]: "validate_pipe_config E goal c err \<noteq> Stuck"
  by (auto simp: validate_pipe_config_def and_then_Stuck_iff split: if_splits)

lemma sub_node_Stuck:
  "(case n of NilNode \<Rightarrow> Failed (invalid (sub_node_text i '' is nil''))
      | PipeNode _ _ _ _ \<Rightarrow> before (sub_node_text i '': '') (f n)
      | _ \<Rightarrow> Failed (invalid (sub_node_text i '' must be Pipe''))) = Stuck \<Longrightarrow> f n = Stuck"
  by (cases n) auto

lemma validate_sub_pipeline_Stuck: "validate_sub_pipeline f ns = Stuck \<Longrightarrow> \<exists>n \<in> set ns. f n = Stuck"
  unfolding validate_sub_pipeline_def by (auto split: if_splits dest!: check_indexed_Stuck sub_node_Stuck)

lemma validation_returns:
  fixes n :: "'w node" and s :: "'w sub_agent_spec"
  shows "validate_pipe E d stack n \<noteq> Stuck" and "validate_sub_agent E d stack s \<noteq> Stuck"
proof (induction E d stack n and E d stack s rule: validate_pipe_validate_sub_agent.induct)
  case (1 E depth stack goal c subs err)
  then show ?case by (auto simp: and_then_Stuck_iff dest!: check_all_Stuck)
next
  case (3 E depth stack name nodes mp po err)
  then show ?case
    by (auto simp: validate_sub_agent.simps and_then_Stuck_iff split: if_splits dest!: validate_sub_pipeline_Stuck)
qed auto

lemma result_schema_Stuck [simp]: "result_schema_from_type E t \<noteq> Stuck" "pipe_output_schema E c \<noteq> Stuck"
  by (auto simp: result_schema_from_type_def pipe_output_schema_def split: option.splits sum.splits)

lemma compile_step_returns:
  fixes n :: "'w node" and a :: "'w sub_agent_spec"
  shows "compile_step E n \<noteq> Stuck" and "compile_sub_agent E a \<noteq> Stuck"
proof (induction E n and E a rule: compile_step_compile_sub_agent.induct)
  case (1 E goal c subs err)
  then show ?case by (auto simp: and_then_Stuck_iff dest!: collect_Stuck)
next
  case (3 E name nodes mp po err)
  then show ?case
    by (auto simp: and_then_Stuck_iff validation_returns dest!: collect_Stuck validate_sub_pipeline_Stuck)
qed auto

lemma compile_runtime_step_returns: "compile_runtime_step E n \<noteq> Stuck"
  by (cases n) (auto simp: and_then_Stuck_iff compile_items_def compile_step_returns simp del: compile_step.simps
      dest!: collect_Stuck)

text \<open>A declaration that holds no nil pointer, and whose embedded nodes return from their validation.\<close>

fun source_points :: "trigger_source \<Rightarrow> bool" where
  "source_points (HttpSource m p) = True"
| "source_points (CronSource t) = (pointee t \<noteq> None)"
| "source_points (WebhookSource t) = (pointee t \<noteq> None)"
| "source_points (StreamSource t) = (pointee t \<noteq> None)"
| "source_points (EmbeddedSource s) = source_points s"

fun reply_points :: "reply_format \<Rightarrow> bool" where
  "reply_points (JsonReply f) = (pointee f \<noteq> None)"
| "reply_points (SSEReply f) = (pointee f \<noteq> None)"
| "reply_points (AcceptedReply f) = (pointee f \<noteq> None)"

fun push_points :: "push_target \<Rightarrow> bool" where
  "push_points (PushWebhook t) = (pointee t \<noteq> None)"
| "push_points (PushQueue t) = (pointee t \<noteq> None)"

fun sink_points :: "sink_target \<Rightarrow> bool" where
  "sink_points (SinkLog t) = (pointee t \<noteq> None)"
| "sink_points (SinkFile t) = (pointee t \<noteq> None)"

fun node_points :: "'w node \<Rightarrow> bool" where
  "node_points (FromNode s e c) = (case s of None \<Rightarrow> True | Some s \<Rightarrow> source_points s)"
| "node_points (ReplyNode f) = (case f of None \<Rightarrow> True | Some f \<Rightarrow> reply_points f)"
| "node_points (PushNode t) = (case t of None \<Rightarrow> True | Some t \<Rightarrow> push_points t)"
| "node_points (SinkNode t) = (case t of None \<Rightarrow> True | Some t \<Rightarrow> sink_points t)"
| "node_points (EmbeddedNode k r) = (r \<noteq> Stuck)"
| "node_points _ = True"

lemma deref_Stuck: "deref r f = Stuck \<longleftrightarrow> pointee r = None \<or> (\<exists>x. pointee r = Some x \<and> f x = Stuck)"
  by (auto simp: deref_def split: option.splits)

lemma validate_trigger_returns: "source_points s \<Longrightarrow> validate_trigger E s \<noteq> Stuck"
proof (induction s)
  case (CronSource t)
  then show ?case
    by (auto simp: deref_Stuck split: if_splits option.splits sum.splits) (metis option.distinct(1) parse_cron_schedule_returns)
qed (auto simp: deref_Stuck split: if_splits)

lemma validate_terminal_returns:
  "reply_points f \<Longrightarrow> validate_reply_format f \<noteq> Stuck"
  "push_points t \<Longrightarrow> validate_push_target E t \<noteq> Stuck"
  "sink_points u \<Longrightarrow> validate_sink_target u \<noteq> Stuck"
  by (cases f; cases t; cases u; auto simp: deref_Stuck split: if_splits option.splits)+

lemma validate_composition_returns: "validate_composition E scope ns e1 e2 \<noteq> Stuck"
proof -
  have "validate_composition_pipe E scope i n \<noteq> Stuck" for i n
    using validation_returns(1) by (cases n) (auto simp: validate_composition_pipe_def simp del: validate_pipe.simps)
  then show ?thesis
    by (auto simp: validate_composition_def and_then_Stuck_iff dest!: check_indexed_Stuck split: if_splits)
qed

lemma validate_node_returns: "node_points n \<Longrightarrow> n \<noteq> NilNode \<Longrightarrow> validate_node E n \<noteq> Stuck"
  using validation_returns(1) [of E 0 "[]" n]
  by (cases n) (auto simp: validate_from_def and_then_Stuck_iff validate_trigger_returns validate_terminal_returns
      validate_composition_returns simp del: validate_pipe.simps split: option.splits)

lemma compile_terminal_returns: "node_points n \<Longrightarrow> compile_terminal E n \<noteq> Stuck"
  by (cases n) (auto simp: deref_Stuck and_then_Stuck_iff split: option.splits reply_format.splits push_target.splits sink_target.splits)

lemma finish_plan_returns: "node_points n \<Longrightarrow> finish_plan E t steps n \<noteq> Stuck"
  by (auto simp: finish_plan_def and_then_Stuck_iff compile_terminal_returns validate_terminal_compatibility_def
      reconcile_result_schema_def split: step.splits if_splits)

lemma compile_trigger_returns: "compile_trigger s \<noteq> Stuck"
  by (cases s rule: compile_trigger.cases) (auto simp: pointed_def split: option.splits)

lemma compile_from_returns: "node_points n \<Longrightarrow> compile_from E i n \<noteq> Stuck"
  using validate_node_returns [of n E] by (cases n)
    (auto simp: compile_from_def and_then_Stuck_iff compile_trigger_returns validate_option_compatibility_def Let_def
      split: if_splits)

lemma compile_body_returns: "\<forall>n \<in> set ns. node_points n \<Longrightarrow> compile_body E t steps i ns \<noteq> Stuck"
proof (induction ns arbitrary: steps i)
  case Nil
  then show ?case by simp
next
  case (Cons n ns)
  then have "node_kind n \<noteq> None \<Longrightarrow> validate_node E n \<noteq> Stuck"
    using validate_node_returns [of n E] by (cases "n = NilNode") (auto simp del: validate_node.simps(2-9))
  moreover have "validate_next_start ns j \<noteq> Stuck" for j
    by (auto simp: validate_next_start_def split: list.splits option.splits declared_kind.splits)
  ultimately show ?case
    using Cons by (auto simp: compile_body.simps(2) and_then_Stuck_iff finish_plan_returns compile_runtime_step_returns
        split: option.splits if_splits)
qed

lemma compile_loop_returns: "\<forall>n \<in> set ns. node_points n \<Longrightarrow> compile_loop E i ns \<noteq> Stuck"
proof (induction E i ns rule: compile_loop.induct)
  case (1 E i)
  then show ?case by simp
next
  case (2 E i n rest)
  have "compile_loop E j left \<noteq> Stuck" if at: "compile_plan_at E i n rest = Done (p, j, left)" "node_kind n = Some KindFrom" for p j left
  proof -
    have "set left \<subseteq> set rest"
      using at(1) compile_body_frame by (fastforce simp: compile_plan_at_def and_then_Done_iff)
    then show ?thesis using 2 at by (auto simp: subset_iff)
  qed
  moreover have "compile_plan_at E i n rest \<noteq> Stuck"
    using 2(2) by (auto simp: compile_plan_at_def and_then_Stuck_iff compile_from_returns compile_body_returns)
  ultimately show ?case
    by (auto simp: compile_loop.simps(2) and_then_Stuck_iff split: option.splits if_splits)
qed

text \<open>C24: Compilation returns, with plans or with an error, for every program that holds no nil pointer.\<close>

theorem compilation_returns:
  assumes "\<forall>n \<in> set nodes. node_points n"
  shows "compile_plans E nodes \<noteq> Stuck"
  using compile_loop_returns [OF assms] by (auto simp: compile_plans_def split: list.splits)

section \<open>Plans and programs\<close>

text \<open>C8: Every plan of a program that compiles is well formed: its trigger is one of the four kinds with what its
  validation asked for, options are only set on the kinds that use them, Reply only answers HTTP, every pipe has a
  goal, a provider/model and usable tools, compositions are not empty, sub-agents are bounded in depth and
  parallelism and never nested in themselves, and the schema of a typed reply agrees with that of the last pipe.\<close>

theorem compiled_plans_well_formed:
  assumes "compile_plans E nodes = Done plans" "p \<in> set plans"
  shows "plan_ok E p"
  using assms by (rule compiled_ok)

text \<open>C9: A program compiles to some plans exactly when it is a sequence of pipelines, each of which compiles on its
  own to the plan at its place: pipelines do not influence each other.\<close>

theorem program_is_sequence_of_pipelines:
  "compile_plans E nodes = Done plans \<longleftrightarrow> plans \<noteq> [] \<and>
     (\<exists>segs. nodes = concat segs \<and> list_all2 (\<lambda>seg p. compile_plans E seg = Done [p]) segs plans)"
  by (rule program_is_sequence)

text \<open>
  : What follows a program that compiles is compiled as if it stood alone, except that its errors name the
  nodes by their index in the whole program.\<close>

theorem later_pipelines_keep_their_errors:
  assumes "compile_plans E a = Done ps" "b \<noteq> []" "node_kind (hd b) = Some KindFrom"
  shows "compile_plans E (a @ b) = and_then (compile_loop E (length a) b) (\<lambda>qs. Done (ps @ qs))"
proof -
  from assms(2,3) have "starts_pipeline b" by (cases b) (simp_all add: starts_pipeline_def)
  with assms(1) compile_loop_append [of E 0 a ps b 0] show ?thesis
    by (auto simp: compile_plans_Done compile_plans_def starts_pipeline_def split: list.splits)
qed

section \<open>Validated pipes compile\<close>

text \<open>The Go types named by the outputs of a pipe and of its sub-agents have a schema.\<close>

fun schemas_exist :: "decl_env \<Rightarrow> 'w node \<Rightarrow> bool"
  and sub_schemas_exist :: "decl_env \<Rightarrow> 'w sub_agent_spec \<Rightarrow> bool" where
  "schemas_exist E (PipeNode goal c subs err) =
     ((case pc_output c of Some (Some t) \<Rightarrow> \<not> isl (de_schema E t) | _ \<Rightarrow> True) \<and> (\<forall>s \<in> set subs. sub_schemas_exist E s))"
| "schemas_exist E _ = True"
| "sub_schemas_exist E (SubAgentSpec name nodes mp po err) = (\<forall>n \<in> set nodes. schemas_exist E n)"

lemma validated_compiles:
  fixes n :: "'w node" and a :: "'w sub_agent_spec"
  shows "validate_pipe E d stack n = Done () \<Longrightarrow> is_pipe n \<Longrightarrow> schemas_exist E n \<Longrightarrow> 1 \<le> d + 1 \<Longrightarrow> \<exists>s. compile_step E n = Done s"
    and "validate_sub_agent E d stack a = Done () \<Longrightarrow> sub_schemas_exist E a \<Longrightarrow> 1 \<le> d \<Longrightarrow> \<exists>b. compile_sub_agent E a = Done b"
proof (induction E n and E a arbitrary: d stack and d stack rule: compile_step_compile_sub_agent.induct)
  case (1 E goal c subs err)
  have "\<exists>b. compile_sub_agent E a = Done b" if "a \<in> set subs" for a
    using 1 that by (auto simp: and_then_Done_iff check_all_Done)
  then obtain subAgents where "collect (\<lambda>_. compile_sub_agent E) 0 subs = Done subAgents"
    using collect_total [of subs "\<lambda>_. compile_sub_agent E" 0] by blast
  moreover have "\<exists>schema. pipe_output_schema E c = Done schema"
    using 1(4) by (auto simp: pipe_output_schema_def result_schema_from_type_def split: option.splits sum.splits)
  ultimately show ?case by auto
next
  case (3 E name nodes mp po err)
  note v = 3(2) [unfolded validate_sub_agent_Done]
  have rev: "validate_sub_agent E 1 [] (SubAgentSpec name nodes mp po err) = Done ()"
    using validation_monotone(2) [OF 3(2)] 3(4) by simp
  have "validate_pipe E 0 [] n = Done ()" if "n \<in> set nodes" for n
    using validation_monotone(1) [of E d "stack @ [name]" n] v that 3(4) by simp
  with v have sub: "validate_sub_pipeline (validate_pipe E 0 []) nodes = Done ()" by (simp add: validate_sub_pipeline_Done)
  have "\<exists>s. compile_step E n = Done s" if "n \<in> set nodes" for n
    using 3(1) [OF rev sub that, of d "stack @ [name]"] v 3(3,4) that by auto
  then obtain steps where "collect (\<lambda>i n. before (sub_node_text i '': '') (compile_step E n)) 0 nodes = Done steps"
    using collect_total [of nodes "\<lambda>i n. before (sub_node_text i '': '') (compile_step E n)" 0] by auto
  with rev sub show ?case by simp
qed auto

text \<open>C16: A pipe that passes its validation compiles whenever the output types in it have a schema: the second
  validation of every sub-agent, without the names and at the depth the compiler passes, never fails after the first.\<close>

theorem validated_pipe_compiles:
  assumes "validate_node E n = Done ()" "is_pipe n" "schemas_exist E n"
  shows "\<exists>s. compile_runtime_step E n = Done s"
  using assms validated_compiles(1) [of E 0 "[]" n] by (cases n) (simp_all del: validate_pipe.simps compile_step.simps)

section \<open>The depth of a plan\<close>

text \<open>How deep the sub-agents of a step are nested.\<close>

fun nesting :: "'w step \<Rightarrow> nat" and sub_nesting :: "'w sub_agent \<Rightarrow> nat" and pipeline_nesting :: "'w pipeline \<Rightarrow> nat" where
  "nesting (Step c subs branches m) =
     max (foldr max (map sub_nesting subs) 0) (max (foldr max (map pipeline_nesting branches) 0) (pipeline_nesting m))"
| "sub_nesting (SubAgent name p mp po) = Suc (pipeline_nesting p)"
| "pipeline_nesting (Pipeline steps) = foldr max (map nesting steps) 0"

lemma foldr_max_le: "foldr max xs (0 :: nat) \<le> k \<longleftrightarrow> (\<forall>x \<in> set xs. x \<le> k)"
  by (induction xs) auto

lemma pipe_step_nesting:
  fixes s :: "'w step" and a :: "'w sub_agent" and p :: "'w pipeline"
  shows "pipe_step_ok d stack s \<Longrightarrow> 0 \<le> d \<Longrightarrow> d \<le> default_sub_agent_max_depth
      \<Longrightarrow> nesting s \<le> nat (default_sub_agent_max_depth - d)"
    and "sub_agent_ok d stack a \<Longrightarrow> 1 \<le> d \<Longrightarrow> sub_nesting a \<le> nat (default_sub_agent_max_depth - d + 1)"
    and "(\<forall>s \<in> set (pl_steps p). pipe_step_ok d stack s) \<Longrightarrow> 0 \<le> d \<Longrightarrow> d \<le> default_sub_agent_max_depth
      \<Longrightarrow> pipeline_nesting p \<le> nat (default_sub_agent_max_depth - d)"
proof (induction s and a and p arbitrary: d stack and d stack and d stack rule: nesting_sub_nesting_pipeline_nesting.induct)
  case (1 c subs branches m)
  have "sub_nesting a \<le> nat (default_sub_agent_max_depth - d)" if "a \<in> set subs" for a
    using 1(1) [OF that, of "d + 1" stack] 1(4,5) that by simp
  with 1(4) show ?case by (simp add: foldr_max_le)
next
  case (2 name p mp po)
  obtain steps where p: "p = Pipeline steps" by (cases p)
  with 2 have "pipeline_nesting p \<le> nat (default_sub_agent_max_depth - d)" "d \<le> default_sub_agent_max_depth" by auto
  then show ?case by simp
next
  case (3 steps)
  then show ?case by (auto simp: foldr_max_le)
qed

lemma step_nesting:
  assumes "step_ok s"
  shows "nesting s \<le> nat default_sub_agent_max_depth"
proof -
  obtain c subs branches steps where s: "s = Step c subs branches (Pipeline steps)" by (metis pipeline.exhaust step.exhaust)
  have one: "pipe_step_ok 0 [] s' \<Longrightarrow> nesting s' \<le> nat default_sub_agent_max_depth" for s' :: "'a step"
    using pipe_step_nesting(1) [of 0 "[]" s'] by (simp add: default_sub_agent_max_depth_def)
  show ?thesis
  proof (cases "sp_kind c = step_parallel \<or> sp_kind c = step_map")
    case True
    have "pipeline_nesting b \<le> nat default_sub_agent_max_depth" if "b \<in> set branches" for b
      using assms True s that one by (fastforce split: if_splits)
    with True assms s one show ?thesis by (fastforce simp: foldr_max_le split: if_splits)
  next
    case False
    with assms s have "pipe_step_ok 0 [] s" by auto
    then show ?thesis by (rule one)
  qed
qed

text \<open>C17: The sub-agents of a compiled plan are nested at most as deep as the run time lets a sub-agent call go, so
  that a plan that compiles is never refused for its depth.\<close>

theorem compiled_depth_within_run_limit:
  assumes "compile_plans E nodes = Done plans" "p \<in> set plans" "s \<in> set (pn_steps p)"
  shows "int (nesting s) \<le> sub_agent_max_depth"
proof -
  from compiled_ok [OF assms(1,2)] assms(3) have "step_ok s" by (simp add: plan_ok_def)
  from step_nesting [OF this] show ?thesis
    by (simp add: default_sub_agent_max_depth_def sub_agent_max_depth_def)
qed

text \<open>C15: Where a typed reply follows a pipe, the compiler gives the pipe the schema of the reply, or checks that the two
  agree: the run time then takes the reply for validated when the pipe has run.\<close>

theorem typed_reply_is_validated_by_last_pipe:
  assumes "compile_plans E nodes = Done plans" "p \<in> set plans" "tm_result_schema (pn_terminal p) \<noteq> None"
    "pn_steps p \<noteq> []" "sp_kind (st_config (last (pn_steps p))) = step_pipe"
  shows "reply_already_validated p"
proof -
  let ?last = "sp_result_schema (st_config (last (pn_steps p)))" and ?reply = "tm_result_schema (pn_terminal p)"
  from compiled_ok [OF assms(1,2)] assms(3-5) have "compatible_result_schemas ?last ?reply"
    by (simp add: plan_ok_def)
  moreover from this assms(3) have "?last \<noteq> None" by (cases ?last; cases ?reply) (simp_all add: compatible_result_schemas_def)
  moreover from compiled_ok [OF assms(1,2)] assms(3) have "tm_kind (pn_terminal p) = terminal_reply" by (simp add: plan_ok_def)
  ultimately show ?thesis using assms(3-5) by (simp add: reply_already_validated_def Let_def)
qed

section \<open>Nil pointers\<close>


section \<open>A program\<close>

definition sample_decl :: decl_env where
  "sample_decl = \<lparr>de_duration = (\<lambda>s. if s = ''1m'' then Some (60 * time_second) else None),
     de_url = (\<lambda>s. if s = ''https://hooks'' then Some (''https'', ''hooks'', []) else None),
     de_quote = quoted, de_num_cpu = 4, de_marshal = (\<lambda>_. Some ''{}''),
     de_schema = (\<lambda>t. Inr \<lparr>ps_name = ''main.Answer'', ps_type = Some (''main'', ''main.Answer''), ps_json = ''{}''\<rparr>)\<rparr>"

definition sample_answer :: go_type where
  "sample_answer = TyStruct (''main'', ''main.Answer'') [GoField ''Text'' [] ''text'' (TyBasic KindString ([], ''string''))]"

definition sample_tool :: "unit go_value" where
  "sample_tool = FuncValue \<lparr>fn_ins = [context_type, sample_answer], fn_outs = [error_type], fn_nil = False,
     fn_handler = Inl (ErrText ''unused'')\<rparr>"

definition sample_ask :: "unit node list" where
  "sample_ask = [from_node sample_decl (SourceText ''post /ask'') [Some (verify_signature ''KEY'' ''X-Sig'')],
     pipe ''answer'' [Some (model ''a/b''), Some (ToolPipeOption (tool sample_decl ''look'' sample_tool [Some ReadOnlyOption])),
       Some (sub_agent ''helper'' [pipe ''help'' [Some (model ''a/b'')]] [Some (MaxParallelOption 2)])],
     ReplyNode (Some (JsonReply (ByValue (Some sample_answer))))]"

definition sample_tick :: "unit node list" where
  "sample_tick = [from_node sample_decl (SourceTrigger (cron ''@every 1m'')) [],
     parallel [NodeItem (pipe ''scan'' [Some (model ''a/b'')]), PartialOKItem],
     PushNode (Some (PushWebhook (ByValue ''https://hooks'')))]"

text \<open>The program compiles to one plan, with a property that can be evaluated.\<close>

definition one_plan :: "('w plan \<Rightarrow> bool) \<Rightarrow> 'w plan list checked \<Rightarrow> bool" where
  "one_plan P r = (case r of Done [p] \<Rightarrow> P p | _ \<Rightarrow> False)"

lemma one_planE: "one_plan P r \<Longrightarrow> \<exists>p. r = Done [p] \<and> P p"
  by (auto simp: one_plan_def split: checked.splits list.splits)

definition failed_with :: "go_error \<Rightarrow> 'a checked \<Rightarrow> bool" where
  "failed_with e r = (case r of Failed e' \<Rightarrow> e' = e | _ \<Rightarrow> False)"

lemma sample_ask_compiles:
  "one_plan (\<lambda>p. tm_result_schema (pn_terminal p) \<noteq> None \<and> map (\<lambda>s. sp_kind (st_config s)) (pn_steps p) = [step_pipe]
     \<and> map nesting (pn_steps p) = [1]) (compile_plans sample_decl sample_ask)"
  by code_simp

lemma sample_tick_compiles:
  "one_plan (\<lambda>p. tg_kind (pn_trigger p) = trigger_cron \<and> map (\<lambda>s. sp_kind (st_config s)) (pn_steps p) = [step_parallel])
     (compile_plans sample_decl sample_tick)"
  by code_simp

lemma sample_ask_plan:
  obtains p s where "compile_plans sample_decl sample_ask = Done [p]" "tm_result_schema (pn_terminal p) \<noteq> None"
    "pn_steps p = [s]" "sp_kind (st_config s) = step_pipe" "nesting s = 1"
  using one_planE [OF sample_ask_compiles] by (auto simp: map_eq_Cons_conv)

lemma sample_tick_plan:
  obtains p where "compile_plans sample_decl sample_tick = Done [p]" "tg_kind (pn_trigger p) = trigger_cron"
  using one_planE [OF sample_tick_compiles] by blast

theorem compilation_returns_witness: "compile_plans sample_decl (sample_ask @ sample_tick) \<noteq> Stuck"
  by (rule compilation_returns) (simp add: sample_ask_def sample_tick_def from_node_def from_declared_def pipe_def parallel_def
      cron_def apply_options_def parse_http_trigger_def split: prod.split list.split sum.split)

theorem compiled_plans_well_formed_witness:
  "\<exists>p. compile_plans sample_decl sample_ask = Done [p] \<and> plan_ok sample_decl p"
  using compiled_plans_well_formed [of sample_decl sample_ask] by (metis list.set_intros(1) sample_ask_plan)

theorem later_pipelines_keep_their_errors_witness:
  "\<exists>p. compile_plans sample_decl (sample_ask @ [from_node sample_decl (SourceText ''GET /'') []])
     = and_then (Failed err_terminal_missing) (\<lambda>qs. Done (p # qs))"
proof -
  obtain p where "compile_plans sample_decl sample_ask = Done [p]" using sample_ask_plan by blast
  moreover have "failed_with err_terminal_missing (compile_loop sample_decl 3 [from_node sample_decl (SourceText ''GET /'') [] :: unit node])"
    by code_simp
  then have "compile_loop sample_decl 3 [from_node sample_decl (SourceText ''GET /'') [] :: unit node] = Failed err_terminal_missing"
    by (simp add: failed_with_def split: checked.splits)
  moreover have "node_kind (from_node sample_decl (SourceText ''GET /'') [] :: unit node) = Some KindFrom" by code_simp
  moreover have "length sample_ask = 3" by (simp add: sample_ask_def)
  ultimately show ?thesis
    using later_pipelines_keep_their_errors [of sample_decl sample_ask "[p]" "[from_node sample_decl (SourceText ''GET /'') []]"]
    by auto
qed

theorem validated_pipe_compiles_witness: "\<exists>s. compile_runtime_step sample_decl (sample_ask ! 1) = Done s"
proof (rule validated_pipe_compiles)
  show "validate_node sample_decl (sample_ask ! 1) = Done ()" by code_simp
  show "is_pipe (sample_ask ! 1)" by code_simp
  show "schemas_exist sample_decl (sample_ask ! 1)"
    by code_simp
qed

theorem compiled_depth_within_run_limit_witness:
  "\<exists>p s. compile_plans sample_decl sample_ask = Done [p] \<and> pn_steps p = [s] \<and> nesting s = 1 \<and> int (nesting s) \<le> sub_agent_max_depth"
proof -
  obtain p s where p: "compile_plans sample_decl sample_ask = Done [p]" "pn_steps p = [s]" "nesting s = 1"
    using sample_ask_plan by blast
  with compiled_depth_within_run_limit [OF p(1), of p s] show ?thesis by auto
qed

theorem typed_reply_is_validated_by_last_pipe_witness:
  "\<exists>p. compile_plans sample_decl sample_ask = Done [p] \<and> reply_already_validated p"
proof -
  obtain p s where p: "compile_plans sample_decl sample_ask = Done [p]" "tm_result_schema (pn_terminal p) \<noteq> None"
    "pn_steps p = [s]" "sp_kind (st_config s) = step_pipe" using sample_ask_plan by blast
  with typed_reply_is_validated_by_last_pipe [OF p(1), of p] show ?thesis by simp
qed


end
