(* ===== verification/Plan_Identity.thy ===== *)
theory Plan_Identity
  imports Plans
begin

text \<open>
  The fields that \<open>durable_runs.go\<close> hashes determine the plan: every encoder is self-delimiting, so that
  the stream of length-prefixed fields has only one reading, up to what a hash cannot see, the Go
  functions of the tools (the build identity stands for those) and the absence of a type name.
\<close>

section \<open>Texts\<close>

lemma nat_text_minus: "nat_text n \<noteq> CHR ''-'' # s"
proof -
  obtain c r where "nat_text n = c # r" "digit_of c \<noteq> None" using nat_text_head by blast
  then show ?thesis by (auto simp: digit_of_def)
qed

lemma nat_text_eq [simp]: "nat_text m = nat_text n \<longleftrightarrow> m = n"
  by (auto dest: nat_text_inject)

lemma int_text_eq [simp]: "int_text i = int_text j \<longleftrightarrow> i = j"
  using nat_text_minus nat_text_minus [THEN not_sym] by (auto simp: int_text_def)

lemma bool_text_eq [simp]: "bool_text a = bool_text b \<longleftrightarrow> a = b"
  by (simp add: bool_text_def)

lemma count_text_eq [simp]: "count_text xs = count_text ys \<longleftrightarrow> length xs = length ys"
  by (simp add: count_text_def)

section \<open>Self-delimiting encoders\<close>

definition delimits :: "('a \<Rightarrow> string list) \<Rightarrow> ('b \<Rightarrow> string list) \<Rightarrow> ('a \<Rightarrow> 'c) \<Rightarrow> ('b \<Rightarrow> 'c) \<Rightarrow> bool" where
  "delimits enc enc' nm nm' \<longleftrightarrow>
     (\<forall>x y r s. enc x @ r = enc' y @ s \<longrightarrow> nm x = nm' y \<and> r = s)"

lemma delimitsD: "delimits enc enc' nm nm' \<Longrightarrow> enc x @ r = enc' y @ s \<Longrightarrow> nm x = nm' y \<and> r = s"
  by (auto simp: delimits_def)

lemma delimits_list:
  assumes "delimits enc enc' nm nm'" "length xs = length ys"
    "concat (map enc xs) @ r = concat (map enc' ys) @ s"
  shows "map nm xs = map nm' ys \<and> r = s"
  using assms(2,3)
proof (induction xs ys rule: list_induct2)
  case (Cons x xs y ys)
  from Cons.prems have "enc x @ (concat (map enc xs) @ r) = enc' y @ (concat (map enc' ys) @ s)" by simp
  from delimitsD [OF assms(1) this] Cons.IH show ?case by simp
qed simp

lemma counted_delimit:
  assumes "delimits enc enc' nm nm'" "counted_fields l enc xs @ r = counted_fields l enc' ys @ s"
  shows "map nm xs = map nm' ys \<and> r = s"
  using assms(2) by (intro delimits_list [OF assms(1)]) (auto simp: counted_fields_def)

lemma delimits_field: "delimits (\<lambda>x. [x]) (\<lambda>x. [x]) id id" "delimits (\<lambda>x. [l, x]) (\<lambda>x. [l, x]) id id"
  by (auto simp: delimits_def)

lemma string_fields_delimit: "string_fields l xs @ r = string_fields l ys @ s \<longleftrightarrow> xs = ys \<and> r = s"
  using counted_delimit [OF delimits_field(1), of l xs r ys s] by (auto simp: string_fields_def)

section \<open>The replay contract\<close>

definition erase_schema :: "plan_schema \<Rightarrow> plan_schema" where
  "erase_schema s = s \<lparr>ps_type := Some (schema_type_names s)\<rparr>"

definition erase_tool :: "'w runtime_tool \<Rightarrow> unit runtime_tool" where
  "erase_tool t = \<lparr>tl_name = tl_name t, tl_description = tl_description t, tl_input_schema = tl_input_schema t,
     tl_argument_name = tl_argument_name t, tl_go_func = None, tl_effect = EffectText (effect_text (tl_effect t)),
     tl_idempotency_key = tl_idempotency_key t, tl_side_effects = tl_side_effects t,
     tl_requires_approval = tl_requires_approval t, tl_timeout = tl_timeout t\<rparr>"

definition erase_config :: "'w step_config \<Rightarrow> unit step_config" where
  "erase_config c = \<lparr>sp_kind = sp_kind c, sp_goal = sp_goal c, sp_model = sp_model c, sp_fallback = sp_fallback c,
     sp_tools = map erase_tool (sp_tools c), sp_bash = sp_bash c, sp_skills = sp_skills c,
     sp_mcp_servers = sp_mcp_servers c, sp_concurrency = sp_concurrency c, sp_partial_ok = sp_partial_ok c,
     sp_result_schema = map_option erase_schema (sp_result_schema c), sp_retry = sp_retry c, sp_budget = sp_budget c,
     sp_no_cache = sp_no_cache c, sp_sequential_tools = sp_sequential_tools c\<rparr>"

fun erase_steps :: "'w step list \<Rightarrow> unit step list"
  and erase_sub_agents :: "'w sub_agent list \<Rightarrow> unit sub_agent list"
  and erase_branches :: "'w pipeline list \<Rightarrow> unit pipeline list" where
  "erase_steps [] = []"
| "erase_steps (Step c sas bs (Pipeline m) # ss) =
     Step (erase_config c) (erase_sub_agents sas) (erase_branches bs) (Pipeline (erase_steps m)) # erase_steps ss"
| "erase_sub_agents [] = []"
| "erase_sub_agents (SubAgent n (Pipeline p) mp po # sas) =
     SubAgent n (Pipeline (erase_steps p)) mp po # erase_sub_agents sas"
| "erase_branches [] = []"
| "erase_branches (Pipeline p # bs) = Pipeline (erase_steps p) # erase_branches bs"

definition replay_contract :: "'w plan \<Rightarrow> unit plan" where
  "replay_contract p = \<lparr>pn_trigger = pn_trigger p, pn_steps = erase_steps (pn_steps p),
     pn_terminal = pn_terminal p \<lparr>tm_result_schema := map_option erase_schema (tm_result_schema (pn_terminal p))\<rparr>\<rparr>"

section \<open>The encoders delimit the contract\<close>

lemma schema_fields_delimit:
  "delimits schema_fields schema_fields (map_option erase_schema) (map_option erase_schema)"
  by (auto simp: delimits_def schema_fields_def erase_schema_def schema_type_names_def prod_eq_iff
    split: option.splits)

lemma tool_fields_delimit: "delimits tool_fields tool_fields erase_tool erase_tool"
  unfolding delimits_def tool_fields_def erase_tool_def by (auto simp: string_fields_delimit)

lemma bash_fields_delimit: "delimits bash_fields bash_fields id id"
  unfolding delimits_def bash_fields_def by (auto simp: string_fields_delimit)

text \<open>The two halves of the configuration of a step, as what each half fixes.\<close>

definition head_part :: "'w step_config \<Rightarrow> string \<times> string \<times> string \<times> int \<times> bool \<times> bool \<times> bool \<times> string list
    \<times> unit runtime_tool list \<times> bash_tool list \<times> string list \<times> string list" where
  "head_part c = (sp_kind c, sp_goal c, sp_model c, sp_concurrency c, sp_partial_ok c, sp_no_cache c, sp_sequential_tools c,
     sp_fallback c, map erase_tool (sp_tools c), sp_bash c, sp_skills c, sp_mcp_servers c)"

definition limit_part :: "'w step_config \<Rightarrow> plan_schema option \<times> step_retry option \<times> budget" where
  "limit_part c = (map_option erase_schema (sp_result_schema c), sp_retry c, sp_budget c)"

lemma erase_config_parts: "head_part c = head_part c' \<Longrightarrow> limit_part c = limit_part c' \<Longrightarrow> erase_config c = erase_config c'"
  by (simp add: head_part_def limit_part_def erase_config_def)

lemma step_head_delimit:
  assumes "step_head_fields d i c @ r = step_head_fields d i c' @ s"
  shows "head_part c = head_part c' \<and> r = s"
proof -
  let ?t = "counted_fields ''tools'' tool_fields"
  let ?b = "counted_fields ''bash-tools'' bash_fields"
  let ?s = "counted_fields ''skills'' (\<lambda>n. [''skill'', n])"
  let ?m = "counted_fields ''mcp-servers'' (\<lambda>n. [''mcp'', n])"
  from assms have flat: "sp_kind c = sp_kind c'" "sp_goal c = sp_goal c'" "sp_model c = sp_model c'"
    "sp_concurrency c = sp_concurrency c'" "sp_partial_ok c = sp_partial_ok c'" "sp_no_cache c = sp_no_cache c'"
    "sp_sequential_tools c = sp_sequential_tools c'"
    and "string_fields ''fallback'' (sp_fallback c) @ ?t (sp_tools c) @ ?b (sp_bash c) @ ?s (sp_skills c) @ ?m (sp_mcp_servers c) @ r =
      string_fields ''fallback'' (sp_fallback c') @ ?t (sp_tools c') @ ?b (sp_bash c') @ ?s (sp_skills c') @ ?m (sp_mcp_servers c') @ s"
    by (simp_all add: step_head_fields_def)
  then have f: "sp_fallback c = sp_fallback c'"
    and "?t (sp_tools c) @ (?b (sp_bash c) @ ?s (sp_skills c) @ ?m (sp_mcp_servers c) @ r) =
      ?t (sp_tools c') @ (?b (sp_bash c') @ ?s (sp_skills c') @ ?m (sp_mcp_servers c') @ s)"
    by (simp_all add: string_fields_delimit)
  from counted_delimit [OF tool_fields_delimit this(2)] have t: "map erase_tool (sp_tools c) = map erase_tool (sp_tools c')"
    and "?b (sp_bash c) @ (?s (sp_skills c) @ ?m (sp_mcp_servers c) @ r) =
      ?b (sp_bash c') @ (?s (sp_skills c') @ ?m (sp_mcp_servers c') @ s)" by simp_all
  from counted_delimit [OF bash_fields_delimit this(2)] have b: "sp_bash c = sp_bash c'"
    and "?s (sp_skills c) @ (?m (sp_mcp_servers c) @ r) = ?s (sp_skills c') @ (?m (sp_mcp_servers c') @ s)" by simp_all
  from counted_delimit [OF delimits_field(2) this(2)] have k: "sp_skills c = sp_skills c'"
    and "?m (sp_mcp_servers c) @ r = ?m (sp_mcp_servers c') @ s" by simp_all
  from counted_delimit [OF delimits_field(2) this(2)] have "sp_mcp_servers c = sp_mcp_servers c'" "r = s" by simp_all
  with flat f t b k show ?thesis by (simp add: head_part_def)
qed

lemma step_limit_delimit:
  assumes "inj ft" "step_limit_fields ft c @ r = step_limit_fields ft c' @ s"
  shows "limit_part c = limit_part c' \<and> r = s"
proof -
  from assms(2) have "map_option erase_schema (sp_result_schema c) = map_option erase_schema (sp_result_schema c')"
    by (auto simp: step_limit_fields_def dest!: delimitsD [OF schema_fields_delimit])
  with assms show ?thesis
    by (auto simp: step_limit_fields_def limit_part_def inj_eq dest!: delimitsD [OF schema_fields_delimit]
      split: option.splits intro!: step_retry.equality budget.equality)
qed

lemma fields_delimit:
  fixes xs :: "'w step list" and sas :: "'w sub_agent list" and bs :: "'w pipeline list"
    and ys :: "'v step list" and sas' :: "'v sub_agent list" and bs' :: "'v pipeline list"
  assumes "inj ft"
  shows "length xs = length ys \<Longrightarrow> step_fields ft d i xs @ r = step_fields ft d i ys @ s
      \<Longrightarrow> erase_steps xs = erase_steps ys \<and> r = s"
    and "length sas = length sas' \<Longrightarrow> sub_agent_fields ft d sas @ r = sub_agent_fields ft d sas' @ s
      \<Longrightarrow> erase_sub_agents sas = erase_sub_agents sas' \<and> r = s"
    and "length bs = length bs' \<Longrightarrow> branch_fields ft d bs @ r = branch_fields ft d bs' @ s
      \<Longrightarrow> erase_branches bs = erase_branches bs' \<and> r = s"
  using assms
proof (induction ft d i xs and ft d sas and ft d bs arbitrary: ys r s and sas' r s and bs' r s
    rule: step_fields_sub_agent_fields_branch_fields.induct)
  case (2 ft d i c sas bs m ss)
  obtain c' sas' bs' m' ss' where ys: "ys = Step c' sas' bs' (Pipeline m') # ss'"
    using 2(5) by (metis length_Suc_conv list.size(4) pipeline.exhaust step.exhaust Suc_eq_plus1)
  note D = 2(6) [unfolded ys step_fields.simps append_assoc]
  from step_head_delimit [OF D] have h: "head_part c = head_part c'"
    and e1: "[''subagents'', count_text sas] @ sub_agent_fields ft d sas @ step_limit_fields ft c @ [''branches'', count_text bs]
        @ branch_fields ft d bs @ [''map''] @ steps_count_fields (d + 1) m @ step_fields ft (d + 1) 0 m @ step_fields ft d (i + 1) ss @ r
      = [''subagents'', count_text sas'] @ sub_agent_fields ft d sas' @ step_limit_fields ft c' @ [''branches'', count_text bs']
        @ branch_fields ft d bs' @ [''map''] @ steps_count_fields (d + 1) m' @ step_fields ft (d + 1) 0 m' @ step_fields ft d (i + 1) ss' @ s"
    by simp_all
  from e1 have "length sas = length sas'" and "sub_agent_fields ft d sas @ (step_limit_fields ft c @ [''branches'', count_text bs]
        @ branch_fields ft d bs @ [''map''] @ steps_count_fields (d + 1) m @ step_fields ft (d + 1) 0 m @ step_fields ft d (i + 1) ss @ r)
      = sub_agent_fields ft d sas' @ (step_limit_fields ft c' @ [''branches'', count_text bs']
        @ branch_fields ft d bs' @ [''map''] @ steps_count_fields (d + 1) m' @ step_fields ft (d + 1) 0 m' @ step_fields ft d (i + 1) ss' @ s)"
    by simp_all
  from 2(1) [OF this 2(7)] have sa: "erase_sub_agents sas = erase_sub_agents sas'" and "step_limit_fields ft c @ ([''branches'', count_text bs]
        @ branch_fields ft d bs @ [''map''] @ steps_count_fields (d + 1) m @ step_fields ft (d + 1) 0 m @ step_fields ft d (i + 1) ss @ r)
      = step_limit_fields ft c' @ ([''branches'', count_text bs']
        @ branch_fields ft d bs' @ [''map''] @ steps_count_fields (d + 1) m' @ step_fields ft (d + 1) 0 m' @ step_fields ft d (i + 1) ss' @ s)"
    by simp_all
  from step_limit_delimit [OF 2(7) this(2)] have l: "limit_part c = limit_part c'" and lb: "length bs = length bs'"
    and "branch_fields ft d bs @ ([''map''] @ steps_count_fields (d + 1) m @ step_fields ft (d + 1) 0 m @ step_fields ft d (i + 1) ss @ r)
      = branch_fields ft d bs' @ ([''map''] @ steps_count_fields (d + 1) m' @ step_fields ft (d + 1) 0 m' @ step_fields ft d (i + 1) ss' @ s)"
    by simp_all
  from 2(2) [OF lb this(3) 2(7)] have b: "erase_branches bs = erase_branches bs'" and lm: "length m = length m'"
    and "step_fields ft (d + 1) 0 m @ (step_fields ft d (i + 1) ss @ r) = step_fields ft (d + 1) 0 m' @ (step_fields ft d (i + 1) ss' @ s)"
    by (simp_all add: steps_count_fields_def)
  from 2(3) [OF lm this(3) 2(7)] have m: "erase_steps m = erase_steps m'"
    and "step_fields ft d (i + 1) ss @ r = step_fields ft d (i + 1) ss' @ s" by simp_all
  from 2(4) [OF _ this(2) 2(7)] 2(5) ys have "erase_steps ss = erase_steps ss'" "r = s" by simp_all
  with ys sa b m erase_config_parts [OF h l] show ?case by simp
next
  case (4 ft d n p mp po sas)
  obtain n' p' mp' po' sas'' where ys: "sas' = SubAgent n' (Pipeline p') mp' po' # sas''"
    using 4(3) by (metis length_Suc_conv list.size(4) pipeline.exhaust sub_agent.exhaust Suc_eq_plus1)
  with 4(4) have h: "n = n'" "mp = mp'" "po = po'" "length p = length p'"
    and e: "step_fields ft (d + 1) 0 p @ (sub_agent_fields ft d sas @ r) = step_fields ft (d + 1) 0 p' @ (sub_agent_fields ft d sas'' @ s)"
    by (simp_all add: steps_count_fields_def)
  from 4(1) [OF h(4) e 4(5)] 4(2) [of sas'' r s] 4(3,5) ys h show ?case by simp
next
  case (6 ft d p bs)
  obtain p' bs'' where ys: "bs' = Pipeline p' # bs''"
    using 6(3) by (metis length_Suc_conv list.size(4) pipeline.exhaust Suc_eq_plus1)
  with 6(4) have h: "length p = length p'"
    and e: "step_fields ft (d + 1) 0 p @ (branch_fields ft d bs @ r) = step_fields ft (d + 1) 0 p' @ (branch_fields ft d bs'' @ s)"
    by (simp_all add: steps_count_fields_def)
  from 6(1) [OF h e 6(5)] 6(2) [of bs'' r s] 6(3,5) ys show ?case by simp
qed simp_all

text \<open>Conversely, the fields only depend on the contract.\<close>

lemma schema_type_names_erase [simp]: "schema_type_names (erase_schema s) = schema_type_names s"
  by (simp add: erase_schema_def schema_type_names_def)

lemma schema_fields_erase [simp]: "schema_fields (map_option erase_schema s) = schema_fields s"
  by (cases s) (simp_all add: schema_fields_def, simp add: erase_schema_def)

lemma step_head_erase [simp]: "step_head_fields d i (erase_config c) = step_head_fields d i c"
proof -
  have "tool_fields (erase_tool t) = tool_fields t" for t :: "'a runtime_tool"
    by (simp add: tool_fields_def erase_tool_def)
  then show ?thesis
    by (simp add: step_head_fields_def erase_config_def counted_fields_def count_text_def comp_def)
qed

lemma step_limit_erase [simp]: "step_limit_fields ft (erase_config c) = step_limit_fields ft c"
  by (simp add: step_limit_fields_def erase_config_def)

lemma erase_length:
  fixes xs :: "'w step list" and sas :: "'w sub_agent list" and bs :: "'w pipeline list"
  shows "length (erase_steps xs) = length xs" "length (erase_sub_agents sas) = length sas" "length (erase_branches bs) = length bs"
  by (induction xs and sas and bs rule: erase_steps_erase_sub_agents_erase_branches.induct) simp_all

lemma fields_erase:
  fixes xs :: "'w step list" and sas :: "'w sub_agent list" and bs :: "'w pipeline list"
  shows "step_fields ft d i (erase_steps xs) = step_fields ft d i xs"
  "sub_agent_fields ft d (erase_sub_agents sas) = sub_agent_fields ft d sas"
  "branch_fields ft d (erase_branches bs) = branch_fields ft d bs"
  by (induction xs and sas and bs arbitrary: d i and d and d rule: erase_steps_erase_sub_agents_erase_branches.induct)
    (simp_all add: steps_count_fields_def count_text_def erase_length)

lemma plan_fields_erase: "plan_fields ft b (replay_contract p) = plan_fields ft b p"
  by (simp add: plan_fields_def replay_contract_def steps_fields_def steps_count_fields_def count_text_def
    erase_length fields_erase terminal_fields_def)

lemma plan_fields_inject:
  assumes "inj ft" "plan_fields ft b p = plan_fields ft b' q"
  shows "b = b' \<and> replay_contract p = replay_contract q"
proof -
  from assms(2) have "b = b'" and t: "pn_trigger p = pn_trigger q" and n: "length (pn_steps p) = length (pn_steps q)"
    and "step_fields ft 0 0 (pn_steps p) @ terminal_fields (pn_terminal p) = step_fields ft 0 0 (pn_steps q) @ terminal_fields (pn_terminal q)"
    by (simp_all add: plan_fields_def trigger_fields_def steps_fields_def steps_count_fields_def)
  from fields_delimit(1) [OF assms(1) n this(4)] have "erase_steps (pn_steps p) = erase_steps (pn_steps q)"
    and e: "terminal_fields (pn_terminal p) @ [] = terminal_fields (pn_terminal q) @ []" by simp_all
  moreover from e have "map_option erase_schema (tm_result_schema (pn_terminal p)) = map_option erase_schema (tm_result_schema (pn_terminal q))"
    by (auto simp: terminal_fields_def dest!: delimitsD [OF schema_fields_delimit, of _ "[]" _ "[]", simplified])
  moreover note \<open>b = b'\<close> t
  ultimately show ?thesis
    by (auto simp: replay_contract_def terminal_fields_def intro!: terminal.equality)
qed

section \<open>The bytes\<close>

lemma digits_mod: "(\<And>i. i < k \<Longrightarrow> m div 256 ^ i mod 256 = (n :: nat) div 256 ^ i mod 256) \<Longrightarrow> m mod 256 ^ k = n mod 256 ^ k"
proof (induction k)
  case (Suc k)
  then have "m mod 256 ^ k = n mod 256 ^ k" "m div 256 ^ k mod 256 = n div 256 ^ k mod 256" by simp_all
  moreover have "256 ^ Suc k = 256 ^ k * (256 :: nat)" by simp
  ultimately show ?case by (simp only: mod_mult2_eq)
qed simp

lemma big_endian64_length [simp]: "length (big_endian64 n) = 8"
  by (simp add: big_endian64_def)

lemma big_endian64_inject:
  assumes "big_endian64 m = big_endian64 n" "m < 2 ^ 64" "n < 2 ^ 64"
  shows "m = n"
proof -
  have "m div 256 ^ i mod 256 = n div 256 ^ i mod 256" if "i < 8" for i
  proof -
    from assms(1) have "map of_char (big_endian64 m) ! (7 - i) = (map of_char (big_endian64 n) ! (7 - i) :: nat)" by simp
    with that show ?thesis by (simp add: big_endian64_def del: upt_rec_numeral)
  qed
  then have "m mod 256 ^ 8 = n mod 256 ^ 8" by (rule digits_mod)
  with assms(2,3) show ?thesis by simp
qed

lemma field_bytes_inject:
  "\<forall>f \<in> set fs \<union> set gs. length f < 2 ^ 64 \<Longrightarrow> field_bytes fs = field_bytes gs \<Longrightarrow> fs = gs"
proof (induction fs arbitrary: gs)
  case Nil
  then show ?case
    by (cases gs) (auto simp: field_bytes_def dest: arg_cong [where f = length])
next
  case (Cons f fs)
  show ?case
  proof (cases gs)
    case Nil
    with Cons.prems show ?thesis by (auto simp: field_bytes_def dest: arg_cong [where f = length])
  next
    case (Cons g gs')
    from Cons.prems Cons have e: "big_endian64 (length f) @ f @ field_bytes fs = big_endian64 (length g) @ g @ field_bytes gs'"
      by (simp add: field_bytes_def)
    then have "big_endian64 (length f) = big_endian64 (length g)" by simp
    with Cons.prems Cons have "length f = length g" using big_endian64_inject by auto
    with e have "f = g" "field_bytes fs = field_bytes gs'" by simp_all
    with Cons.IH [of gs'] Cons.prems Cons show ?thesis by simp
  qed
qed

text \<open>C14
  The fingerprint of a plan is its replay contract and nothing else: two plans feed the same bytes to
  the hash exactly when the worker builds, the triggers, all steps (branches, sub-agents and mapped
  pipelines included), their tools, schemas, retries and budgets, and the terminals are the same. The
  length prefixes leave no way to move a character from one field to another.
\<close>

theorem plan_bytes_bind_contract:
  assumes "inj ft" "\<forall>f \<in> set (plan_fields ft b p) \<union> set (plan_fields ft b' q). length f < 2 ^ 64"
  shows "field_bytes (plan_fields ft b p) = field_bytes (plan_fields ft b' q)
    \<longleftrightarrow> b = b' \<and> replay_contract p = replay_contract q"
proof
  assume "field_bytes (plan_fields ft b p) = field_bytes (plan_fields ft b' q)"
  from plan_fields_inject [OF assms(1) field_bytes_inject [OF assms(2) this]]
  show "b = b' \<and> replay_contract p = replay_contract q" .
next
  assume "b = b' \<and> replay_contract p = replay_contract q"
  then show "field_bytes (plan_fields ft b p) = field_bytes (plan_fields ft b' q)"
    using plan_fields_erase [of ft b p] plan_fields_erase [of ft b q] by simp
qed

text \<open>A concrete text of the costs, and two plans whose goals split the same characters differently.\<close>

definition fraction_text :: "rat \<Rightarrow> string" where
  "fraction_text q = int_text (fst (quotient_of q)) @ ''/'' @ int_text (snd (quotient_of q))"

lemma nat_text_digits: "c \<in> set (nat_text n) \<Longrightarrow> c \<noteq> CHR ''/''"
proof (induction n rule: nat_text.induct)
  case (1 n)
  have digit: "char_of (48 + m :: nat) \<noteq> CHR ''/''" if "m < 10" for m
  proof -
    have "digit_of (CHR ''/'') = None" by code_simp
    with digit_of_char [OF that] show ?thesis by (metis option.distinct(1))
  qed
  from 1 show ?case
    by (cases "n < 10") (auto simp: nat_text.simps [of n] digit [of n] digit [of "n mod 10"]
      digit [THEN not_sym, of "n mod 10"])
qed

lemma fraction_text_inj: "inj fraction_text"
proof (rule injI)
  fix x y
  assume e: "fraction_text x = fraction_text y"
  have s: "CHR ''/'' \<notin> set (int_text i)" for i by (auto simp: int_text_def dest: nat_text_digits)
  from e have "fst (quotient_of x) = fst (quotient_of y)" "snd (quotient_of x) = snd (quotient_of y)"
    using append_Cons_eq_iff [OF s s] by (auto simp: fraction_text_def)
  then show "x = y" by (metis prod.collapse quotient_of_inject)
qed

definition sample_trigger :: trigger where
  "sample_trigger = \<lparr>tg_kind = trigger_cron, tg_method = [], tg_path = [], tg_expr = ''@every 1m'', tg_value = [], tg_uri = [],
     tg_worker_pool = 0, tg_idempotency_header = [], tg_signature_env = [], tg_signature_header = [], tg_dlq_target = [],
     tg_max_attempts = 0, tg_max_in_flight = 0, tg_ack_policy = []\<rparr>"

definition sample_config :: "string \<Rightarrow> string \<Rightarrow> 'w step_config" where
  "sample_config goal model = \<lparr>sp_kind = step_pipe, sp_goal = goal, sp_model = model, sp_fallback = [], sp_tools = [],
     sp_bash = [], sp_skills = [], sp_mcp_servers = [], sp_concurrency = 0, sp_partial_ok = False, sp_result_schema = None,
     sp_retry = None, sp_budget = zero_budget, sp_no_cache = False, sp_sequential_tools = False\<rparr>"

definition sample_plan :: "string \<Rightarrow> string \<Rightarrow> 'w plan" where
  "sample_plan goal model = \<lparr>pn_trigger = sample_trigger, pn_steps = [Step (sample_config goal model) [] [] (Pipeline [])],
     pn_terminal = \<lparr>tm_kind = terminal_sink, tm_async = False, tm_sse = False, tm_result_schema = None, tm_sink_log = True,
       tm_sink_file_path = [], tm_push_webhook_url = [], tm_push_queue_uri = []\<rparr>\<rparr>"

theorem plan_bytes_bind_contract_witness:
  "field_bytes (plan_fields fraction_text ''b'' (sample_plan ''ab'' ''c'' :: unit plan))
    \<noteq> field_bytes (plan_fields fraction_text ''b'' (sample_plan ''a'' ''bc'' :: unit plan))"
proof -
  let ?p = "sample_plan ''ab'' ''c'' :: unit plan" and ?q = "sample_plan ''a'' ''bc'' :: unit plan"
  have l: "\<forall>f \<in> set (plan_fields fraction_text ''b'' ?p) \<union> set (plan_fields fraction_text ''b'' ?q). length f < 2 ^ 64"
    by code_simp
  have "replay_contract ?p \<noteq> replay_contract ?q"
    by (simp add: replay_contract_def sample_plan_def sample_config_def erase_config_def)
  with plan_bytes_bind_contract [OF fraction_text_inj l] show ?thesis by simp
qed

end
