(* ===== verification/Cron_Cluster.thy ===== *)
theory Cron_Cluster
  imports Cron_Leases Plan_Identity
begin

text \<open>
  The replicas of one leased cron plan as a step relation: every replica and every fire takes its
  steps on the shared store in any order. The invariants of the reachable states give what the leases
  and the reservation of each tick are for: no tick has two fires of which neither failed, no replica
  fires in a new term while a fire of an old one is running, and only one leader passes the renewal
  before a fire.
\<close>

section \<open>The step relation\<close>

record cron_setup =
  cp_name :: string
  cp_schedule :: cron_schedule
  cp_limit :: int
  cp_config :: "nat \<Rightarrow> cron_lease_config"

text \<open>
  The state of the cluster, with its history: the number of terms, the execution identifiers that were
  minted, the fires that were started, and the executions that gave a key back as failed.
\<close>

record cron_cluster =
  cw_store :: memory_store
  cw_replica :: "nat \<Rightarrow> cron_replica"
  cw_terms :: nat
  cw_minted :: "string list"
  cw_started :: "(go_time \<times> string) list"
  cw_failed :: "string list"
  cw_events :: "cron_event list"

datatype cron_action =
    ActFollow nat go_time
  | ActTimer nat go_time
  | ActInterrupt nat bool
  | ActTick nat go_time
  | ActSession nat "string option"
  | ActReserve nat go_time
  | ActDispatch nat bool
  | ActRenewer nat go_time
  | ActStop nat
  | ActRelease nat go_time
  | ActSettle nat cron_fire go_time bool
  | ActReturn nat cron_fire
  | ActCancel nat go_error

definition put_replica :: "nat \<Rightarrow> cron_replica \<Rightarrow> cron_cluster \<Rightarrow> cron_cluster" where
  "put_replica i r W = W \<lparr>cw_replica := (cw_replica W) (i := r)\<rparr>"

definition put_step :: "nat \<Rightarrow> cron_replica \<times> memory_store \<times> cron_event list \<Rightarrow> cron_cluster \<Rightarrow> cron_cluster" where
  "put_step i out W = (case out of (r, s, evs) \<Rightarrow> (put_replica i r W) \<lparr>cw_store := s, cw_events := cw_events W @ evs\<rparr>)"

fun cron_do :: "cron_setup \<Rightarrow> cron_action \<Rightarrow> cron_cluster \<Rightarrow> cron_cluster" where
  "cron_do P (ActFollow i now) W =
     (let out = cron_follow (cp_config P i) (cp_name P) now (cw_replica W i) (cw_store W) in
      if cron_leading (cr_phase (fst out)) = None then put_step i out W else (put_step i out W) \<lparr>cw_terms := cw_terms W + 1\<rparr>)"
| "cron_do P (ActTimer i t) W = put_replica i (cron_timer (cp_schedule P) t (cw_replica W i)) W"
| "cron_do P (ActInterrupt i seeLost) W =
     (case cron_interrupt (cp_config P i) (cp_name P) seeLost (cw_replica W i) of (r, evs) \<Rightarrow> put_step i (r, cw_store W, evs) W)"
| "cron_do P (ActTick i now) W = put_step i (cron_tick (cp_config P i) (cp_name P) now (cw_replica W i) (cw_store W)) W"
| "cron_do P (ActSession i mint) W =
     (let W1 = put_replica i (cron_session mint (cw_replica W i)) W in
      case mint of None \<Rightarrow> W1 | Some x \<Rightarrow> W1 \<lparr>cw_minted := x # cw_minted W\<rparr>)"
| "cron_do P (ActReserve i now) W = put_step i (cron_reserve (cp_config P i) (cp_name P) now (cw_replica W i) (cw_store W)) W"
| "cron_do P (ActDispatch i preferDone) W =
     (let r = cron_dispatch (cp_limit P) preferDone (cw_replica W i) in
      if length (cr_fires r) = length (cr_fires (cw_replica W i)) then put_replica i r W
      else (put_replica i r W) \<lparr>cw_started := (cf_at (hd (cr_fires r)), cf_exec (hd (cr_fires r))) # cw_started W\<rparr>)"
| "cron_do P (ActRenewer i now) W =
     (case cron_renewer (cp_config P i) (cp_name P) now (cw_replica W i) (cw_store W) of (r, s) \<Rightarrow> put_step i (r, s, []) W)"
| "cron_do P (ActStop i) W = put_replica i (cron_stop_renewer (cw_replica W i)) W"
| "cron_do P (ActRelease i now) W =
     (case cron_release (cp_config P i) (cp_name P) now (cw_replica W i) (cw_store W) of (r, s) \<Rightarrow> put_step i (r, s, []) W)"
| "cron_do P (ActSettle i f now completed) W =
     W \<lparr>cw_store := cron_settle now completed f (cw_store W),
        cw_failed := (if \<not> completed \<and> idem_holder (cw_store W) (cron_fire_key (cp_name P) (cf_at f)) = Some (cf_exec f, IdempotencyPending)
                      then cf_exec f # cw_failed W else cw_failed W)\<rparr>"
| "cron_do P (ActReturn i f) W = put_replica i (cron_fire_returns f (cw_replica W i)) W"
| "cron_do P (ActCancel i err) W = put_replica i ((cw_replica W i) \<lparr>cr_ctx := Some err\<rparr>) W"

text \<open>
  What is enabled: a follower polls, a fire of the replica settles or returns, and a minted execution
  identifier (a random UUID) is new.
\<close>

fun cron_enabled :: "cron_cluster \<Rightarrow> cron_action \<Rightarrow> bool" where
  "cron_enabled W (ActFollow i now) = (cr_phase (cw_replica W i) = CronFollower)"
| "cron_enabled W (ActSession i mint) = (case mint of None \<Rightarrow> True | Some x \<Rightarrow> x \<notin> set (cw_minted W))"
| "cron_enabled W (ActSettle i f now completed) = (f \<in> set (cr_fires (cw_replica W i)))"
| "cron_enabled W _ = True"

definition cron_replica_init :: cron_replica where
  "cron_replica_init = \<lparr>cr_phase = CronFollower, cr_ctx = None, cr_renewing = False, cr_lost = False, cr_fires = []\<rparr>"

definition cron_init :: cron_cluster where
  "cron_init = \<lparr>cw_store = new_memory_store, cw_replica = (\<lambda>_. cron_replica_init), cw_terms = 0, cw_minted = [], cw_started = [],
     cw_failed = [], cw_events = []\<rparr>"

inductive cron_reachable :: "cron_setup \<Rightarrow> cron_cluster \<Rightarrow> bool" for P where
  cron_start: "cron_reachable P cron_init"
| cron_step: "cron_reachable P W \<Longrightarrow> cron_enabled W a \<Longrightarrow> cron_reachable P (cron_do P a W)"

fun cron_schedule_ok :: "cron_setup \<Rightarrow> cron_action list \<Rightarrow> cron_cluster \<Rightarrow> bool" where
  "cron_schedule_ok P [] W = True"
| "cron_schedule_ok P (a # as) W = (cron_enabled W a \<and> cron_schedule_ok P as (cron_do P a W))"

lemma cron_reachable_fold: "cron_reachable P W \<Longrightarrow> cron_schedule_ok P as W \<Longrightarrow> cron_reachable P (fold (cron_do P) as W)"
  by (induction as arbitrary: W) (simp_all add: cron_step)

section \<open>The renewals keep the fence\<close>

lemma renew_lease_fence:
  assumes "renew_lease ctx now name holder fence ttl s = (s', Inr (l, True))"
  shows "le_fence l = fence" "reached_fence (lease_row s (trim_space name)) = fence"
    "reached_fence (lease_row s' (trim_space name)) = fence" "db_idempotency s' = db_idempotency s"
  using assms
  by (auto simp: renew_lease_def normalize_lease_key_def validate_lease_ttl_def lease_row_def reached_fence_def Let_def
    split: option.splits if_splits)

lemma renew_lease_failed:
  assumes "renew_lease ctx now name holder fence ttl s = (s', r)" "\<And>l. r \<noteq> Inr (l, True)"
  shows "s' = s"
  using leases.renew_not [of "(ctx, now)"] assms by (simp add: lease_renew_def)

lemma release_lease_fence:
  "reached_fence (lease_row (fst (release_lease ctx now name holder fence s)) k) = reached_fence (lease_row s k)"
  "db_idempotency (fst (release_lease ctx now name holder fence s)) = db_idempotency s"
  by (auto simp: release_lease_def lease_row_def reached_fence_def split: option.splits sum.splits)

section \<open>What a step changes of a replica\<close>

definition fence_of :: "cron_replica \<Rightarrow> u64 option" where
  "fence_of r = map_option le_fence (cron_leading (cr_phase r))"

definition minted_of :: "cron_replica \<Rightarrow> string option" where
  "minted_of r = (case cr_phase r of CronMinted _ _ x \<Rightarrow> Some x | CronReserved _ _ x \<Rightarrow> Some x | _ \<Rightarrow> None)"

definition reserved_of :: "cron_replica \<Rightarrow> (go_time \<times> string) option" where
  "reserved_of r = (case cr_phase r of CronReserved _ due x \<Rightarrow> Some (due, x) | _ \<Rightarrow> None)"

lemmas view_defs = fence_of_def minted_of_def reserved_of_def cron_leading_def

text \<open>The steps that start nothing: they keep the term, or end it with no fire left.\<close>

definition cron_shrinks :: "cron_replica \<Rightarrow> cron_replica \<Rightarrow> bool" where
  "cron_shrinks r r' \<longleftrightarrow> set (cr_fires r') \<subseteq> set (cr_fires r)
     \<and> (fence_of r' = fence_of r \<or> fence_of r' = None \<and> cr_fires r' = [])
     \<and> minted_of r' \<in> {minted_of r, None} \<and> reserved_of r' \<in> {reserved_of r, None}"

definition same_keys :: "cron_setup \<Rightarrow> memory_store \<Rightarrow> memory_store \<Rightarrow> bool" where
  "same_keys P s s' \<longleftrightarrow> db_idempotency s' = db_idempotency s
     \<and> reached_fence (lease_row s' (trim_space (cp_name P))) = reached_fence (lease_row s (trim_space (cp_name P)))"

lemma cron_shrinks_refl [simp]: "cron_shrinks r r" by (simp add: cron_shrinks_def)
lemma same_keys_refl [simp]: "same_keys P s s" by (simp add: same_keys_def)

lemma cron_timer_shrinks: "cron_shrinks r (cron_timer sched t r)"
  by (simp add: cron_timer_def cron_shrinks_def view_defs Let_def split: cron_phase.split)

lemma cron_interrupt_shrinks: "cron_interrupt cfg name b r = (r', evs) \<Longrightarrow> cron_shrinks r r'"
  by (auto simp: cron_interrupt_def cron_shrinks_def view_defs split: cron_phase.splits if_splits)

lemma cron_stop_shrinks: "cron_shrinks r (cron_stop_renewer r)"
  by (simp add: cron_stop_renewer_def cron_shrinks_def view_defs split: cron_phase.split)

lemma cron_returns_shrinks: "cron_shrinks r (cron_fire_returns f r)"
  using set_remove1_subset [of f "cr_fires r"] by (simp add: cron_fire_returns_def cron_shrinks_def view_defs)

lemma cron_cancel_shrinks: "cron_shrinks r (r \<lparr>cr_ctx := e\<rparr>)"
  by (simp add: cron_shrinks_def view_defs)

lemma cron_session_None_shrinks: "cron_shrinks r (cron_session None r)"
  by (simp add: cron_session_def cron_shrinks_def view_defs split: cron_phase.split)

lemma cron_release_shrinks:
  "cron_release cfg (cp_name P) now r s = (r', s') \<Longrightarrow> cron_shrinks r r' \<and> same_keys P s s'"
  by (auto simp: cron_release_def cron_shrinks_def same_keys_def view_defs release_lease_fence split: cron_phase.splits if_splits)

lemma cron_tick_shrinks:
  assumes "cron_tick cfg (cp_name P) now r s = (r', s', evs)"
  shows "cron_shrinks r r' \<and> same_keys P s s'"
proof (cases "cr_phase r")
  case (CronDue l due)
  obtain s1 res where ren: "renew_lease (cr_ctx r) now (cp_name P) (cc_holder cfg) (le_fence l) (cc_ttl cfg) s = (s1, res)"
    by (metis prod.collapse)
  show ?thesis
  proof (cases "\<exists>l'. res = Inr (l', True)")
    case True
    then obtain l' where "res = Inr (l', True)" by blast
    with ren have g: "renew_lease (cr_ctx r) now (cp_name P) (cc_holder cfg) (le_fence l) (cc_ttl cfg) s = (s1, Inr (l', True))" by simp
    with assms CronDue renew_lease_fence [OF g] show ?thesis
      by (auto simp: cron_tick_def cron_shrinks_def same_keys_def view_defs)
  next
    case False
    then have "s1 = s" using renew_lease_failed [OF ren] by blast
    with assms CronDue ren False show ?thesis
      by (auto simp: cron_tick_def cron_shrinks_def view_defs split: sum.splits bool.splits)
  qed
qed (use assms in \<open>simp_all add: cron_tick_def\<close>)

lemma cron_renewer_shrinks:
  assumes "cron_renewer cfg (cp_name P) now r s = (r', s')"
  shows "cron_shrinks r r' \<and> same_keys P s s'"
proof (cases "cron_leading (cr_phase r)")
  case (Some l)
  obtain s1 res where ren: "renew_lease (cr_ctx r) now (cp_name P) (cc_holder cfg) (le_fence l) (cc_ttl cfg) s = (s1, res)"
    by (metis prod.collapse)
  show ?thesis
  proof (cases "\<exists>l'. res = Inr (l', True)")
    case True
    then obtain l' where "res = Inr (l', True)" by blast
    with ren have g: "renew_lease (cr_ctx r) now (cp_name P) (cc_holder cfg) (le_fence l) (cc_ttl cfg) s = (s1, Inr (l', True))" by simp
    with assms Some renew_lease_fence [OF g] show ?thesis
      by (auto simp: cron_renewer_def same_keys_def split: if_splits)
  next
    case False
    then have "s1 = s" using renew_lease_failed [OF ren] by blast
    with assms Some ren False show ?thesis
      by (auto simp: cron_renewer_def cron_shrinks_def view_defs split: sum.splits bool.splits if_splits)
  qed
qed (use assms in \<open>simp add: cron_renewer_def\<close>)

text \<open>The steps that start something: a term, a fire's identifier, its reservation and its run.\<close>

lemma cron_follow_cases:
  assumes "cron_follow cfg (cp_name P) now r s = (r', s', evs)" "cr_phase r = CronFollower"
  obtains (quiet) "cron_shrinks r r'" "same_keys P s s'" "fence_of r' = None"
  | (gained) l where "r' = r \<lparr>cr_phase := CronWaiting l, cr_renewing := True, cr_lost := False\<rparr>"
      "le_fence l = next_fence (lease_row s (trim_space (cp_name P)))" "lease_row s' (trim_space (cp_name P)) = Some l"
      "db_idempotency s' = db_idempotency s"
proof (cases "cr_ctx r")
  case (Some e)
  with assms show thesis by (intro quiet) (auto simp: cron_follow_def cron_shrinks_def view_defs)
next
  case None
  obtain s1 res where acq: "acquire_lease None now (cp_name P) (cc_holder cfg) (cc_ttl cfg) s = (s1, res)" by (metis prod.collapse)
  show thesis
  proof (cases "\<exists>l. res = Inr (l, True)")
    case True
    then obtain l where l: "res = Inr (l, True)" by blast
    with acq have "acquire_lease None now (cp_name P) (cc_holder cfg) (cc_ttl cfg) s = (s1, Inr (l, True))" by simp
    then have "le_fence l = next_fence (lease_row s (trim_space (cp_name P)))" "lease_row s1 (trim_space (cp_name P)) = Some l"
      "db_idempotency s1 = db_idempotency s"
      by (auto simp: lease_defs next_fence_def Let_def split: option.splits if_splits)
    with assms None acq l show thesis by (intro gained) (auto simp: cron_follow_def)
  next
    case False
    then have "s1 = s" using leases.acquire_not [of "(None, now)"] acq by (simp add: lease_acquire_def)
    with assms None acq False show thesis
      by (intro quiet) (auto simp: cron_follow_def view_defs split: sum.splits bool.splits)
  qed
qed

lemma cron_session_cases:
  obtains (none) "cron_session (Some x) r = r"
  | (minted) l due where "cr_phase r = CronRenewed l due" "cron_session (Some x) r = r \<lparr>cr_phase := CronMinted l due x\<rparr>"
  by (cases "cr_phase r") (auto simp: cron_session_def)

lemma cron_reserve_cases:
  assumes "cron_reserve cfg (cp_name P) now r s = (r', s', evs)"
  obtains (quiet) "cron_shrinks r r'" "same_keys P s s'"
  | (reserved) l due x where "cr_phase r = CronMinted l due x" "r' = r \<lparr>cr_phase := CronReserved l due x\<rparr>"
      "\<forall>y out. idem_holder s (cron_fire_key (cp_name P) due) = Some (y, out) \<longrightarrow> out = IdempotencyFailed"
      "idem_holder s' = (idem_holder s) (cron_fire_key (cp_name P) due \<mapsto> (x, IdempotencyPending))"
      "db_leases s' = db_leases s"
proof (cases "cr_phase r")
  case (CronMinted l due x)
  obtain s1 res where res: "reserve_idempotency (cr_ctx r) now (cron_fire_key (cp_name P) due) x s = (s1, res)" by (metis prod.collapse)
  show thesis
  proof (cases "\<exists>y. res = Inr (y, True)")
    case True
    with res have "\<forall>y out. idem_holder s (cron_fire_key (cp_name P) due) = Some (y, out) \<longrightarrow> out = IdempotencyFailed"
      "idem_holder s1 = (idem_holder s) (cron_fire_key (cp_name P) due \<mapsto> (x, IdempotencyPending))" "db_leases s1 = db_leases s"
      by (auto simp: reserve_idempotency_def idem_holder_def Let_def fun_eq_iff split: option.splits if_splits)
    with assms CronMinted res True show thesis by (intro reserved) (auto simp: cron_reserve_def Let_def)
  next
    case False
    with res have "s1 = s" by (auto simp: reserve_idempotency_def Let_def split: option.splits if_splits)
    with assms CronMinted res False show thesis
      by (intro quiet) (auto simp: cron_reserve_def cron_shrinks_def view_defs Let_def split: sum.splits bool.splits if_splits)
  qed
qed (use assms quiet in \<open>simp_all add: cron_reserve_def\<close>)

lemma cron_dispatch_cases:
  obtains (quiet) "cron_shrinks r (cron_dispatch limit b r)" "cr_fires (cron_dispatch limit b r) = cr_fires r"
  | (fire) l due x where "cr_phase r = CronReserved l due x"
      "cron_dispatch limit b r = r \<lparr>cr_phase := CronWaiting l, cr_fires := \<lparr>cf_exec = x, cf_at = due, cf_fence = le_fence l\<rparr> # cr_fires r\<rparr>"
proof (cases "cr_phase r")
  case (CronReserved l due x)
  then show thesis
    by (cases "length (cr_fires r) < cron_pool_limit limit \<and> \<not> (b \<and> cr_ctx r \<noteq> None)")
      (rule fire, assumption, simp add: cron_dispatch_def, rule quiet, auto simp: cron_dispatch_def cron_shrinks_def view_defs)
qed (use quiet in \<open>simp_all add: cron_dispatch_def\<close>)

section \<open>The invariant\<close>

definition fires_in_term :: "cron_cluster \<Rightarrow> bool" where
  "fires_in_term W \<longleftrightarrow> (\<forall>i. \<forall>f \<in> set (cr_fires (cw_replica W i)). fence_of (cw_replica W i) = Some (cf_fence f))"

definition terms_fenced :: "cron_setup \<Rightarrow> cron_cluster \<Rightarrow> bool" where
  "terms_fenced P W \<longleftrightarrow> cw_terms W \<le> u64_max \<longrightarrow>
     reached_fence (lease_row (cw_store W) (trim_space (cp_name P))) = cw_terms W
     \<and> (\<forall>i n. fence_of (cw_replica W i) = Some n \<longrightarrow> n \<le> cw_terms W)
     \<and> (\<forall>i j n. fence_of (cw_replica W i) = Some n \<longrightarrow> fence_of (cw_replica W j) = Some n \<longrightarrow> i = j)"

definition ids_unique :: "cron_cluster \<Rightarrow> bool" where
  "ids_unique W \<longleftrightarrow>
     (\<forall>i x. minted_of (cw_replica W i) = Some x \<longrightarrow> x \<in> set (cw_minted W) \<and> x \<notin> snd ` set (cw_started W))
     \<and> (\<forall>i j x. minted_of (cw_replica W i) = Some x \<longrightarrow> minted_of (cw_replica W j) = Some x \<longrightarrow> i = j)
     \<and> snd ` set (cw_started W) \<subseteq> set (cw_minted W) \<and> distinct (map snd (cw_started W))
     \<and> (\<forall>i. \<forall>f \<in> set (cr_fires (cw_replica W i)). (cf_at f, cf_exec f) \<in> set (cw_started W))"

definition cron_claims :: "cron_cluster \<Rightarrow> (go_time \<times> string) set" where
  "cron_claims W = set (cw_started W) \<union> {c. \<exists>i. reserved_of (cw_replica W i) = Some c}"

definition claims_hold :: "cron_setup \<Rightarrow> cron_cluster \<Rightarrow> bool" where
  "claims_hold P W \<longleftrightarrow> (\<forall>(due, x) \<in> cron_claims W. x \<in> set (cw_failed W)
     \<or> (\<exists>out. out \<noteq> IdempotencyFailed \<and> idem_holder (cw_store W) (cron_fire_key (cp_name P) due) = Some (x, out)))"

definition cron_inv :: "cron_setup \<Rightarrow> cron_cluster \<Rightarrow> bool" where
  "cron_inv P W \<longleftrightarrow> fires_in_term W \<and> terms_fenced P W \<and> ids_unique W \<and> claims_hold P W"

lemmas inv_defs = fires_in_term_def terms_fenced_def ids_unique_def

lemma reserved_minted: "reserved_of r = Some (due, x) \<Longrightarrow> minted_of r = Some x"
  by (auto simp: view_defs split: cron_phase.splits)

text \<open>A step that starts nothing keeps it.\<close>

lemma put_simps [simp]:
  "cw_started (put_replica i r W) = cw_started W" "cw_minted (put_replica i r W) = cw_minted W"
  "cw_failed (put_replica i r W) = cw_failed W" "cw_terms (put_replica i r W) = cw_terms W"
  "cw_store (put_replica i r W) = cw_store W" "cw_replica (put_replica i r W) = (cw_replica W) (i := r)"
  by (simp_all add: put_replica_def)

lemma shrinking_step:
  assumes "cron_inv P W" "cron_shrinks (cw_replica W i) r" "same_keys P (cw_store W) s"
  shows "cron_inv P ((put_replica i r W) \<lparr>cw_store := s, cw_events := evs\<rparr>)"
proof -
  let ?W = "(put_replica i r W) \<lparr>cw_store := s, cw_events := evs\<rparr>" and ?R = "(cw_replica W) (i := r)"
  note sh = assms(2) [unfolded cron_shrinks_def]
  have fences: "fence_of (?R j) = Some n \<Longrightarrow> fence_of (cw_replica W j) = Some n"
    and minted: "minted_of (?R j) = Some x \<Longrightarrow> minted_of (cw_replica W j) = Some x"
    and reserved: "reserved_of (?R j) = Some c \<Longrightarrow> reserved_of (cw_replica W j) = Some c"
    and fires: "f \<in> set (cr_fires (?R j)) \<Longrightarrow> f \<in> set (cr_fires (cw_replica W j))" for j n x c f
    using sh by (auto split: if_splits)
  have W: "cw_started ?W = cw_started W" "cw_minted ?W = cw_minted W" "cw_failed ?W = cw_failed W" "cw_terms ?W = cw_terms W"
    "cw_store ?W = s" "cw_replica ?W = ?R" by simp_all
  have "fires_in_term ?W"
    using assms(1) sh unfolding cron_inv_def fires_in_term_def W by auto
  moreover have "terms_fenced P ?W"
    using assms(1,3) unfolding cron_inv_def terms_fenced_def same_keys_def W by (auto dest!: fences simp del: fun_upd_apply)
  moreover have "ids_unique ?W"
    using assms(1) unfolding cron_inv_def ids_unique_def W by (auto dest!: minted fires simp del: fun_upd_apply)
  moreover have "idem_holder s = idem_holder (cw_store W)" using assms(3) by (simp add: same_keys_def idem_holder_def fun_eq_iff)
  moreover have "cron_claims ?W \<subseteq> cron_claims W"
    unfolding cron_claims_def W by (auto dest: reserved simp del: fun_upd_apply)
  ultimately show ?thesis using assms(1) unfolding cron_inv_def claims_hold_def W by auto
qed

lemma quiet_step:
  assumes "cron_inv P W" "cron_shrinks (cw_replica W i) r"
  shows "cron_inv P (put_replica i r W)"
  using shrinking_step [OF assms same_keys_refl, of "cw_events W"] by (simp add: put_replica_def)

text \<open>A new term.\<close>

lemma term_step:
  assumes "cron_inv P W" "cr_phase (cw_replica W i) = CronFollower"
    "r = (cw_replica W i) \<lparr>cr_phase := CronWaiting l, cr_renewing := True, cr_lost := False\<rparr>"
    "le_fence l = next_fence (lease_row (cw_store W) (trim_space (cp_name P)))" "lease_row s (trim_space (cp_name P)) = Some l"
    "db_idempotency s = db_idempotency (cw_store W)"
  shows "cron_inv P ((put_replica i r W) \<lparr>cw_store := s, cw_events := evs, cw_terms := cw_terms W + 1\<rparr>)"
proof -
  let ?W = "(put_replica i r W) \<lparr>cw_store := s, cw_events := evs, cw_terms := cw_terms W + 1\<rparr>" and ?R = "(cw_replica W) (i := r)"
  have none: "fence_of (cw_replica W i) = None" "minted_of (cw_replica W i) = None" "reserved_of (cw_replica W i) = None"
    "minted_of r = None" "reserved_of r = None" "cr_fires r = cr_fires (cw_replica W i)" "fence_of r = Some (le_fence l)"
    using assms(2,3) by (simp_all add: view_defs)
  have W: "cw_started ?W = cw_started W" "cw_minted ?W = cw_minted W" "cw_failed ?W = cw_failed W" "cw_terms ?W = cw_terms W + 1"
    "cw_store ?W = s" "cw_replica ?W = ?R" by simp_all
  have "fires_in_term ?W"
    using assms(1) none unfolding cron_inv_def fires_in_term_def W by fastforce
  moreover have "terms_fenced P ?W"
    unfolding terms_fenced_def W
  proof (rule impI)
    assume le: "cw_terms W + 1 \<le> u64_max"
    then have t: "reached_fence (lease_row (cw_store W) (trim_space (cp_name P))) = cw_terms W"
      "\<And>i n. fence_of (cw_replica W i) = Some n \<Longrightarrow> n \<le> cw_terms W"
      "\<And>i j n. fence_of (cw_replica W i) = Some n \<Longrightarrow> fence_of (cw_replica W j) = Some n \<Longrightarrow> i = j"
      using assms(1) unfolding cron_inv_def terms_fenced_def by auto
    then have l: "le_fence l = cw_terms W + 1"
      using assms(4) le by (auto simp: next_fence_def reached_fence_def u64_succ_small split: option.splits)
    have "n \<le> cw_terms W + 1" if "fence_of (?R j) = Some n" for j n
      using that t(2) [of j n] l none(7) by (cases "j = i") auto
    moreover have "j = k" if "fence_of (?R j) = Some n" "fence_of (?R k) = Some n" for j k n
      using that t(2) [of j n] t(2) [of k n] t(3) [of j n k] l none(7) by (cases "j = i"; cases "k = i") auto
    moreover have "reached_fence (lease_row s (trim_space (cp_name P))) = cw_terms W + 1"
      using l assms(5) by (simp add: reached_fence_def)
    ultimately show "reached_fence (lease_row s (trim_space (cp_name P))) = cw_terms W + 1
      \<and> (\<forall>i n. fence_of (?R i) = Some n \<longrightarrow> n \<le> cw_terms W + 1)
      \<and> (\<forall>i j n. fence_of (?R i) = Some n \<longrightarrow> fence_of (?R j) = Some n \<longrightarrow> i = j)"
      by blast
  qed
  moreover have "minted_of (?R j) = minted_of (cw_replica W j) \<and> cr_fires (?R j) = cr_fires (cw_replica W j)
      \<and> reserved_of (?R j) = reserved_of (cw_replica W j)" for j
    using none by simp
  then have same: "\<And>j. minted_of (?R j) = minted_of (cw_replica W j)" "\<And>j. cr_fires (?R j) = cr_fires (cw_replica W j)"
    "\<And>j. reserved_of (?R j) = reserved_of (cw_replica W j)" by blast+
  have "ids_unique ?W"
    using assms(1) unfolding cron_inv_def ids_unique_def W same by blast
  moreover have "idem_holder s = idem_holder (cw_store W)" using assms(6) by (simp add: idem_holder_def fun_eq_iff)
  moreover have "cron_claims ?W = cron_claims W" unfolding cron_claims_def W same ..
  ultimately show ?thesis using assms(1) unfolding cron_inv_def claims_hold_def W by auto
qed

text \<open>An identifier for a fire.\<close>

lemma session_step:
  assumes "cron_inv P W" "x \<notin> set (cw_minted W)" "cr_phase (cw_replica W i) = CronRenewed l due"
    "r = (cw_replica W i) \<lparr>cr_phase := CronMinted l due x\<rparr>"
  shows "cron_inv P ((put_replica i r W) \<lparr>cw_minted := x # cw_minted W\<rparr>)"
proof -
  let ?W = "(put_replica i r W) \<lparr>cw_minted := x # cw_minted W\<rparr>" and ?R = "(cw_replica W) (i := r)"
  have W: "cw_started ?W = cw_started W" "cw_minted ?W = x # cw_minted W" "cw_failed ?W = cw_failed W" "cw_terms ?W = cw_terms W"
    "cw_store ?W = cw_store W" "cw_replica ?W = ?R" by simp_all
  have same: "fence_of (?R j) = fence_of (cw_replica W j)" "cr_fires (?R j) = cr_fires (cw_replica W j)"
    "reserved_of (?R j) = reserved_of (cw_replica W j)" "minted_of (?R j) = (if j = i then Some x else minted_of (cw_replica W j))" for j
    using assms(3,4) by (simp_all add: view_defs)
  note inv = assms(1) [unfolded cron_inv_def]
  have "fires_in_term ?W" using inv unfolding fires_in_term_def W same by blast
  moreover have "terms_fenced P ?W" using inv unfolding terms_fenced_def W same by blast
  moreover have "ids_unique ?W"
    using inv assms(2) unfolding ids_unique_def W same by (auto split: if_splits)
  moreover have "cron_claims ?W = cron_claims W" unfolding cron_claims_def W same ..
  ultimately show ?thesis using inv unfolding cron_inv_def claims_hold_def W by auto
qed

text \<open>The reservation of its tick.\<close>

lemma reserve_step:
  assumes "cron_inv P W" "cr_phase (cw_replica W i) = CronMinted l due x"
    "r = (cw_replica W i) \<lparr>cr_phase := CronReserved l due x\<rparr>"
    "\<forall>y out. idem_holder (cw_store W) (cron_fire_key (cp_name P) due) = Some (y, out) \<longrightarrow> out = IdempotencyFailed"
    "idem_holder s = (idem_holder (cw_store W)) (cron_fire_key (cp_name P) due \<mapsto> (x, IdempotencyPending))"
    "db_leases s = db_leases (cw_store W)"
  shows "cron_inv P ((put_replica i r W) \<lparr>cw_store := s, cw_events := evs\<rparr>)"
proof -
  let ?W = "(put_replica i r W) \<lparr>cw_store := s, cw_events := evs\<rparr>" and ?R = "(cw_replica W) (i := r)"
  have W: "cw_started ?W = cw_started W" "cw_minted ?W = cw_minted W" "cw_failed ?W = cw_failed W" "cw_terms ?W = cw_terms W"
    "cw_store ?W = s" "cw_replica ?W = ?R" by simp_all
  have same: "fence_of (?R j) = fence_of (cw_replica W j)" "cr_fires (?R j) = cr_fires (cw_replica W j)"
    "minted_of (?R j) = minted_of (cw_replica W j)" "reserved_of (?R j) = (if j = i then Some (due, x) else reserved_of (cw_replica W j))" for j
    using assms(2,3) by (simp_all add: view_defs)
  note inv = assms(1) [unfolded cron_inv_def]
  have row: "lease_row s = lease_row (cw_store W)" using assms(6) by (simp add: lease_row_def fun_eq_iff)
  have "fires_in_term ?W" using inv unfolding fires_in_term_def W same by blast
  moreover have "terms_fenced P ?W" using inv unfolding terms_fenced_def W same row by blast
  moreover have "ids_unique ?W" using inv unfolding ids_unique_def W same by blast
  moreover have claims: "cron_claims ?W \<subseteq> insert (due, x) (cron_claims W)"
    unfolding cron_claims_def W same by (auto split: if_splits)
  have "claims_hold P ?W"
    unfolding claims_hold_def W
  proof (rule ballI, clarify)
    fix d y assume y: "(d, y) \<in> cron_claims ?W"
      and no: "\<nexists>out. out \<noteq> IdempotencyFailed \<and> idem_holder s (cron_fire_key (cp_name P) d) = Some (y, out)"
    show "y \<in> set (cw_failed W)"
    proof (cases "(d, y) = (due, x)")
      case True
      with no assms(5) show ?thesis by auto
    next
      case False
      with y claims have "(d, y) \<in> cron_claims W" by auto
      with inv have "y \<in> set (cw_failed W) \<or> (\<exists>out. out \<noteq> IdempotencyFailed
          \<and> idem_holder (cw_store W) (cron_fire_key (cp_name P) d) = Some (y, out))"
        unfolding claims_hold_def by auto
      with no assms(4,5) show ?thesis by (cases "cron_fire_key (cp_name P) d = cron_fire_key (cp_name P) due") auto
    qed
  qed
  ultimately show ?thesis unfolding cron_inv_def by blast
qed

text \<open>The start of its run.\<close>

lemma dispatch_step:
  assumes "cron_inv P W" "cr_phase (cw_replica W i) = CronReserved l due x"
    "r = (cw_replica W i) \<lparr>cr_phase := CronWaiting l, cr_fires := \<lparr>cf_exec = x, cf_at = due, cf_fence = le_fence l\<rparr> # cr_fires (cw_replica W i)\<rparr>"
  shows "cron_inv P ((put_replica i r W) \<lparr>cw_started := (due, x) # cw_started W\<rparr>)"
proof -
  let ?W = "(put_replica i r W) \<lparr>cw_started := (due, x) # cw_started W\<rparr>" and ?R = "(cw_replica W) (i := r)"
  have W: "cw_started ?W = (due, x) # cw_started W" "cw_minted ?W = cw_minted W" "cw_failed ?W = cw_failed W" "cw_terms ?W = cw_terms W"
    "cw_store ?W = cw_store W" "cw_replica ?W = ?R" by simp_all
  have old: "minted_of (cw_replica W i) = Some x" "reserved_of (cw_replica W i) = Some (due, x)" "fence_of (cw_replica W i) = Some (le_fence l)"
    using assms(2) by (simp_all add: view_defs)
  have same: "fence_of (?R j) = fence_of (cw_replica W j)"
    "minted_of (?R j) = (if j = i then None else minted_of (cw_replica W j))"
    "reserved_of (?R j) = (if j = i then None else reserved_of (cw_replica W j))"
    "cr_fires (?R j) = (if j = i then \<lparr>cf_exec = x, cf_at = due, cf_fence = le_fence l\<rparr> # cr_fires (cw_replica W i) else cr_fires (cw_replica W j))" for j
    using assms(2,3) by (simp_all add: view_defs)
  note inv = assms(1) [unfolded cron_inv_def]
  have "fires_in_term ?W" using inv old(3) unfolding fires_in_term_def W same by (auto split: if_splits)
  moreover have "terms_fenced P ?W" using inv unfolding terms_fenced_def W same by blast
  moreover have "ids_unique ?W"
    using inv old(1) unfolding ids_unique_def W same by (auto split: if_splits)
  moreover have "cron_claims ?W \<subseteq> cron_claims W"
    using old(2) unfolding cron_claims_def W same by (auto split: if_splits)
  ultimately show ?thesis using inv unfolding cron_inv_def claims_hold_def W by auto
qed

text \<open>The settlement of a fire.\<close>

lemma cron_settle_holder:
  "idem_holder (cron_settle now completed f s) (cron_fire_key name due) =
     (case idem_holder s (cron_fire_key name due) of
        Some (y, out) \<Rightarrow> if y = cf_exec f \<and> out = IdempotencyPending \<and> trim_space (cf_exec f) \<noteq> []
          then Some (y, if completed then IdempotencySucceeded else IdempotencyFailed) else Some (y, out)
      | None \<Rightarrow> None)"
  by (auto simp: cron_settle_def resolve_idempotency_by_execution_def idem_holder_def validate_resolved_idempotency_outcome_def
    cron_fire_key_def split: option.splits)

lemma settle_step:
  assumes "cron_inv P W" "f \<in> set (cr_fires (cw_replica W i))"
  shows "cron_inv P (cron_do P (ActSettle i f now completed) W)"
proof -
  let ?W = "cron_do P (ActSettle i f now completed) W"
  have W: "cw_started ?W = cw_started W" "cw_minted ?W = cw_minted W" "cw_terms ?W = cw_terms W" "cw_replica ?W = cw_replica W"
    "cw_store ?W = cron_settle now completed f (cw_store W)" by simp_all
  note inv = assms(1) [unfolded cron_inv_def]
  have row: "lease_row (cron_settle now completed f (cw_store W)) = lease_row (cw_store W)"
    by (auto simp: cron_settle_def resolve_idempotency_by_execution_def lease_row_def fun_eq_iff split: option.splits)
  have started: "(cf_at f, cf_exec f) \<in> set (cw_started W)" using inv assms(2) by (auto simp: ids_unique_def)
  have only: "due = cf_at f" if "(due, cf_exec f) \<in> cron_claims W" for due
  proof -
    have "cf_exec f \<in> snd ` set (cw_started W)" using started by force
    then have "minted_of (cw_replica W j) \<noteq> Some (cf_exec f)" for j using inv by (auto simp: ids_unique_def)
    with that have "(due, cf_exec f) \<in> set (cw_started W)" by (auto simp: cron_claims_def dest: reserved_minted)
    moreover have "inj_on snd (set (cw_started W))" using inv by (simp add: ids_unique_def distinct_map)
    ultimately have "(due, cf_exec f) = (cf_at f, cf_exec f)" using started by (elim inj_onD) simp_all
    then show ?thesis by simp
  qed
  have claims: "cron_claims ?W = cron_claims W" unfolding cron_claims_def W ..
  have "claims_hold P ?W"
    unfolding claims_hold_def claims W
  proof (rule ballI, clarify)
    fix due y assume y: "(due, y) \<in> cron_claims W" and no: "\<nexists>out. out \<noteq> IdempotencyFailed
      \<and> idem_holder (cron_settle now completed f (cw_store W)) (cron_fire_key (cp_name P) due) = Some (y, out)"
    from y inv have "y \<in> set (cw_failed W) \<or> (\<exists>out. out \<noteq> IdempotencyFailed
        \<and> idem_holder (cw_store W) (cron_fire_key (cp_name P) due) = Some (y, out))"
      unfolding claims_hold_def by auto
    then show "y \<in> set (cw_failed ?W)"
    proof
      assume "\<exists>out. out \<noteq> IdempotencyFailed \<and> idem_holder (cw_store W) (cron_fire_key (cp_name P) due) = Some (y, out)"
      then obtain out where out: "out \<noteq> IdempotencyFailed" "idem_holder (cw_store W) (cron_fire_key (cp_name P) due) = Some (y, out)"
        by blast
      with no have "y = cf_exec f" "out = IdempotencyPending" "\<not> completed"
        by (auto simp: cron_settle_holder split: if_splits)
      with out only [of due] y show ?thesis by auto
    qed simp
  qed
  moreover have "fires_in_term ?W = fires_in_term W" "terms_fenced P ?W = terms_fenced P W" "ids_unique ?W = ids_unique W"
    unfolding fires_in_term_def terms_fenced_def ids_unique_def W row by (rule refl)+
  ultimately show ?thesis using inv by (simp add: cron_inv_def del: cron_do.simps)
qed

section \<open>Every reachable state satisfies it\<close>

lemma cron_init_inv: "cron_inv P cron_init"
  by (simp add: cron_inv_def inv_defs claims_hold_def cron_claims_def cron_init_def cron_replica_init_def view_defs
    new_memory_store_def lease_row_def reached_fence_def)

lemma cron_do_inv:
  assumes "cron_inv P W" "cron_enabled W a"
  shows "cron_inv P (cron_do P a W)"
proof (cases a)
  case (ActFollow i now)
  obtain r s evs where out: "cron_follow (cp_config P i) (cp_name P) now (cw_replica W i) (cw_store W) = (r, s, evs)"
    by (metis prod.collapse)
  have follower: "cr_phase (cw_replica W i) = CronFollower" using assms(2) ActFollow by simp
  show ?thesis
  proof (cases rule: cron_follow_cases [OF out follower, case_names quiet gained])
    case quiet
    then have "cron_leading (cr_phase r) = None" by (simp add: fence_of_def)
    with shrinking_step [OF assms(1) quiet(1,2)] out ActFollow show ?thesis by (simp add: put_step_def)
  next
    case (gained l)
    with term_step [OF assms(1) follower gained] out ActFollow show ?thesis by (simp add: put_step_def cron_leading_def)
  qed
next
  case (ActSession i mint)
  show ?thesis
  proof (cases mint)
    case None
    with ActSession quiet_step [OF assms(1) cron_session_None_shrinks] show ?thesis by simp
  next
    case (Some x)
    with assms(2) ActSession have new: "x \<notin> set (cw_minted W)" by simp
    show ?thesis
    proof (cases rule: cron_session_cases [of x "cw_replica W i"])
      case none
      have "cron_do P a W = W \<lparr>cw_minted := x # cw_minted W\<rparr>"
        using ActSession Some none by (simp add: put_replica_def)
      moreover have "cron_inv P (W \<lparr>cw_minted := x # cw_minted W\<rparr>)"
        using assms(1) by (auto simp: cron_inv_def inv_defs claims_hold_def cron_claims_def)
      ultimately show ?thesis by simp
    next
      case (minted l due)
      with session_step [OF assms(1) new minted] ActSession Some show ?thesis by simp
    qed
  qed
next
  case (ActReserve i now)
  obtain r s evs where out: "cron_reserve (cp_config P i) (cp_name P) now (cw_replica W i) (cw_store W) = (r, s, evs)"
    by (metis prod.collapse)
  show ?thesis
  proof (cases rule: cron_reserve_cases [OF out, case_names quiet reserved])
    case quiet
    with shrinking_step [OF assms(1) quiet] out ActReserve show ?thesis by (simp add: put_step_def)
  next
    case (reserved l due x)
    with reserve_step [OF assms(1) reserved] out ActReserve show ?thesis by (simp add: put_step_def)
  qed
next
  case (ActDispatch i b)
  show ?thesis
  proof (cases rule: cron_dispatch_cases [of "cw_replica W i" "cp_limit P" b])
    case quiet
    with quiet_step [OF assms(1) quiet(1)] ActDispatch show ?thesis by (simp add: Let_def)
  next
    case (fire l due x)
    with dispatch_step [OF assms(1) fire(1) fire(2)] ActDispatch show ?thesis by (simp add: Let_def)
  qed
next
  case (ActTick i now)
  obtain r s evs where out: "cron_tick (cp_config P i) (cp_name P) now (cw_replica W i) (cw_store W) = (r, s, evs)"
    by (metis prod.collapse)
  from cron_tick_shrinks [OF out] show ?thesis using shrinking_step [OF assms(1)] out ActTick by (simp add: put_step_def)
next
  case (ActRenewer i now)
  obtain r s where out: "cron_renewer (cp_config P i) (cp_name P) now (cw_replica W i) (cw_store W) = (r, s)" by (metis prod.collapse)
  from cron_renewer_shrinks [OF out] show ?thesis using shrinking_step [OF assms(1)] out ActRenewer by (simp add: put_step_def)
next
  case (ActRelease i now)
  obtain r s where out: "cron_release (cp_config P i) (cp_name P) now (cw_replica W i) (cw_store W) = (r, s)" by (metis prod.collapse)
  from cron_release_shrinks [OF out] show ?thesis using shrinking_step [OF assms(1)] out ActRelease by (simp add: put_step_def)
next
  case (ActInterrupt i b)
  obtain r evs where out: "cron_interrupt (cp_config P i) (cp_name P) b (cw_replica W i) = (r, evs)" by (metis prod.collapse)
  from cron_interrupt_shrinks [OF out] show ?thesis
    using shrinking_step [OF assms(1) _ same_keys_refl] out ActInterrupt by (simp add: put_step_def)
next
  case (ActSettle i f now completed)
  with settle_step [OF assms(1)] assms(2) show ?thesis by simp
qed (use quiet_step [OF assms(1)] cron_timer_shrinks cron_stop_shrinks cron_returns_shrinks cron_cancel_shrinks in simp_all)

lemma cron_reachable_inv: "cron_reachable P W \<Longrightarrow> cron_inv P W"
  by (induction rule: cron_reachable.induct) (simp_all add: cron_init_inv cron_do_inv)

section \<open>What the leases and the reservations are for\<close>

text \<open>C2
  At most once: of two fires of one tick, whatever the interleaving of the replicas, of their fires and
  of the cancellations, and whoever leads, one has given the tick back as failed. Two fires of a tick
  are never both running, succeeded or suspended.
\<close>

theorem tick_fires_at_most_once:
  assumes "cron_reachable P W" "(due, x) \<in> set (cw_started W)" "(due, y) \<in> set (cw_started W)" "x \<noteq> y"
  shows "x \<in> set (cw_failed W) \<or> y \<in> set (cw_failed W)"
proof -
  have "claims_hold P W" using cron_reachable_inv [OF assms(1)] by (simp add: cron_inv_def)
  moreover have "(due, x) \<in> cron_claims W" "(due, y) \<in> cron_claims W" using assms(2,3) by (simp_all add: cron_claims_def)
  ultimately have "x \<in> set (cw_failed W) \<or> (\<exists>out. idem_holder (cw_store W) (cron_fire_key (cp_name P) due) = Some (x, out))"
    "y \<in> set (cw_failed W) \<or> (\<exists>out. idem_holder (cw_store W) (cron_fire_key (cp_name P) due) = Some (y, out))"
    unfolding claims_hold_def by blast+
  with assms(4) show ?thesis by auto
qed

text \<open>C12
  Terms do not overlap: every fire that a replica runs belongs to the term it leads, so that the lease
  is released, and a new term begins, only when the fires of the old one have returned; and no two
  replicas lead under the same fence, so that of two leaders only one passes the renewal before a
  fire - the other is sent back to follow.
\<close>

theorem one_leader_fires:
  assumes "cron_reachable P W" "cw_terms W \<le> u64_max" "i \<noteq> j" "cr_phase (cw_replica W i) = CronDue l0 due"
    "cron_tick (cp_config P i) (cp_name P) now (cw_replica W i) (cw_store W) = (r, s, evs)" "cr_phase r = CronRenewed l due"
    "cron_tick (cp_config P j) (cp_name P) later (cw_replica W j) s = (r', s', evs')"
  shows "(\<forall>f \<in> set (cr_fires r). cf_fence f = le_fence l) \<and> (\<forall>l' due'. cr_phase (cw_replica W j) = CronDue l' due' \<longrightarrow> cr_phase r' = CronTeardown l')"
proof -
  have inv: "fires_in_term W" "terms_fenced P W" using cron_reachable_inv [OF assms(1)] by (simp_all add: cron_inv_def)
  have l0: "cr_phase (cw_replica W i) = CronDue l0 due"
      "renew_lease (cr_ctx (cw_replica W i)) now (cp_name P) (cc_holder (cp_config P i)) (le_fence l0) (cc_ttl (cp_config P i)) (cw_store W)
        = (s, Inr (l, True))" "cr_fires r = cr_fires (cw_replica W i)"
    using assms(4-6) by (auto simp: cron_tick_def split: prod.splits sum.splits bool.splits)
  note ren = renew_lease_fence [OF l0(2)]
  have i: "fence_of (cw_replica W i) = Some (le_fence l)" using l0(1) ren(1) by (simp add: view_defs)
  have "\<forall>f \<in> set (cr_fires r). cf_fence f = le_fence l" using inv(1) i l0(3) by (auto simp: fires_in_term_def)
  moreover have "cr_phase r' = CronTeardown l'" if due: "cr_phase (cw_replica W j) = CronDue l' due'" for l' due'
  proof -
    obtain s1 res where res: "renew_lease (cr_ctx (cw_replica W j)) later (cp_name P) (cc_holder (cp_config P j)) (le_fence l')
        (cc_ttl (cp_config P j)) s = (s1, res)" by (metis prod.collapse)
    have j: "fence_of (cw_replica W j) = Some (le_fence l')" using due by (simp add: view_defs)
    have "\<And>n. fence_of (cw_replica W i) = Some n \<Longrightarrow> fence_of (cw_replica W j) = Some n \<Longrightarrow> i = j"
      using inv(2) assms(2) unfolding terms_fenced_def by blast
    from this [of "le_fence l"] i j assms(3) have "le_fence l' \<noteq> le_fence l" by auto
    have "\<forall>k. res \<noteq> Inr (k, True)"
    proof (intro allI notI)
      fix k assume "res = Inr (k, True)"
      with res have "renew_lease (cr_ctx (cw_replica W j)) later (cp_name P) (cc_holder (cp_config P j)) (le_fence l')
        (cc_ttl (cp_config P j)) s = (s1, Inr (k, True))" by simp
      from renew_lease_fence(2) [OF this] ren \<open>le_fence l' \<noteq> le_fence l\<close> show False by simp
    qed
    with assms(7) due res show ?thesis by (auto simp: cron_tick_def split: sum.splits bool.splits)
  qed
  ultimately show ?thesis by blast
qed

section \<open>Keys of different ticks\<close>

lemma cron_names_length [simp]: "length (cron_names_from sha seen exprs) = length exprs"
  by (induction exprs arbitrary: seen) simp_all

lemma cron_names_nth:
  "i < length exprs \<Longrightarrow> cron_names_from sha seen exprs ! i
     = cron_lease_name sha (exprs ! i) (count_list seen (exprs ! i) + count_list (take i exprs) (exprs ! i))"
proof (induction exprs arbitrary: seen i)
  case (Cons e exprs)
  then show ?case by (cases i) auto
qed simp

lemma count_list_take_less:
  assumes "i < j" "j \<le> length xs" "xs ! i = x"
  shows "count_list (take i xs) x < count_list (take j xs) x"
proof -
  have "count_list (take j xs) x = count_list (take (Suc i) xs) x + count_list (take (j - Suc i) (drop (Suc i) xs)) x"
    using assms(1) take_add [of "Suc i" "j - Suc i" xs] by simp
  moreover have "count_list (take (Suc i) xs) x = count_list (take i xs) x + 1"
    using assms by (simp add: take_Suc_conv_app_nth)
  ultimately show ?thesis by simp
qed

lemma cron_fire_key_inject:
  assumes "\<forall>e. CHR '':'' \<notin> set (sha e)" "0 \<le> s" "0 \<le> t"
    "cron_fire_key (cron_lease_name sha e m) s = cron_fire_key (cron_lease_name sha f n) t"
  shows "take 8 (sha e) = take 8 (sha f) \<and> m = n \<and> s = t"
proof -
  have hex: "CHR '':'' \<notin> set (take 8 (sha x))" for x using assms(1) set_take_subset [of 8 "sha x"] by blast
  have num: "CHR '':'' \<notin> set (nat_text k)" for k using nat_text_decimal [of _ k] zero_digit by blast
  have "take 8 (sha e) @ CHR '':'' # (nat_text m @ CHR '':'' # rfc3339_nano s) = take 8 (sha f) @ CHR '':'' # (nat_text n @ CHR '':'' # rfc3339_nano t)"
    using assms(4) by (simp add: cron_fire_key_def cron_lease_name_def)
  from head_tail [OF this hex hex] have 1: "take 8 (sha e) = take 8 (sha f)"
    "nat_text m @ CHR '':'' # rfc3339_nano s = nat_text n @ CHR '':'' # rfc3339_nano t" by simp_all
  from head_tail [OF 1(2) num num] have "nat_text m = nat_text n" "rfc3339_nano s = rfc3339_nano t" by simp_all
  with 1(1) assms(2,3) show ?thesis by (auto dest: nat_text_inject rfc3339_nano_inject)
qed

text \<open>
  A reservation is for one tick of one plan: two plans of a process never share a lease or the key of
  a tick, also when their expressions are the same, and two instants of a plan never share a key, down
  to the nanosecond - as long as the first four bytes of the hashes of the expressions differ.
\<close>

theorem cron_keys_separate:
  assumes "\<forall>e. CHR '':'' \<notin> set (sha e)" "inj_on (\<lambda>e. take 8 (sha e)) (set (map (\<lambda>p. tg_expr (pn_trigger p)) plans))"
    "i < length plans" "j < length plans" "0 \<le> s" "0 \<le> t"
  shows "cron_fire_key (cron_lease_names_for_plans sha plans ! i) s = cron_fire_key (cron_lease_names_for_plans sha plans ! j) t
    \<longleftrightarrow> i = j \<and> s = t"
proof
  let ?x = "map (\<lambda>p. tg_expr (pn_trigger p)) plans"
  have nth: "cron_lease_names_for_plans sha plans ! k = cron_lease_name sha (?x ! k) (count_list (take k ?x) (?x ! k))"
    if "k < length plans" for k using that by (simp add: cron_lease_names_for_plans_def cron_names_nth)
  assume "cron_fire_key (cron_lease_names_for_plans sha plans ! i) s = cron_fire_key (cron_lease_names_for_plans sha plans ! j) t"
  from cron_fire_key_inject [OF assms(1,5,6) this [unfolded nth [OF assms(3)] nth [OF assms(4)]]]
  have eq: "take 8 (sha (?x ! i)) = take 8 (sha (?x ! j))" "count_list (take i ?x) (?x ! i) = count_list (take j ?x) (?x ! j)" "s = t"
    by simp_all
  have "?x ! i = ?x ! j" using assms(2) eq(1) by (rule inj_onD) (use assms(3,4) in simp_all)
  with eq(2) count_list_take_less [of i j ?x "?x ! i"] count_list_take_less [of j i ?x "?x ! i"] assms(3,4)
  have "i = j" by (cases i j rule: linorder_cases) (simp_all del: nth_map)
  with eq(3) show "i = j \<and> s = t" by simp
qed simp

section \<open>Two replicas\<close>

definition two_replicas :: cron_setup where
  "two_replicas = \<lparr>cp_name = ''cron:c:0'', cp_schedule = IntervalSchedule 1, cp_limit = 1,
     cp_config = (\<lambda>i. \<lparr>cc_holder = (if i = 0 then ''a'' else ''b''), cc_ttl = 50, cc_poll = 10\<rparr>)\<rparr>"

text \<open>One fire of a replica whose clock reads the instant 0.\<close>

definition one_fire :: "nat \<Rightarrow> go_time \<Rightarrow> string \<Rightarrow> cron_action list" where
  "one_fire i now x = [ActFollow i now, ActTimer i 0, ActTick i now, ActSession i (Some x), ActReserve i now, ActDispatch i False]"

definition first_fire :: cron_fire where
  "first_fire = \<lparr>cf_exec = ''e1'', cf_at = 1, cf_fence = 1\<rparr>"

text \<open>The first replica fires, fails and shuts down; the second, whose clock lags, fires the tick again.\<close>

definition retried_tick :: "cron_action list" where
  "retried_tick = one_fire 0 100 ''e1'' @ [ActSettle 0 first_fire 110 False, ActReturn 0 first_fire, ActCancel 0 CtxCanceled,
     ActInterrupt 0 False, ActStop 0, ActRelease 0 120] @ one_fire 1 130 ''e2''"

theorem tick_fires_at_most_once_witness:
  "''e1'' \<in> set (cw_failed (fold (cron_do two_replicas) retried_tick cron_init))
   \<or> ''e2'' \<in> set (cw_failed (fold (cron_do two_replicas) retried_tick cron_init))"
proof -
  let ?W = "fold (cron_do two_replicas) retried_tick cron_init"
  have run: "cron_schedule_ok two_replicas retried_tick cron_init \<and> cw_started ?W = [(1, ''e2''), (1, ''e1'')]" by code_simp
  then have "cron_reachable two_replicas ?W" by (intro cron_reachable_fold cron_start) simp
  with run show ?thesis by (intro tick_fires_at_most_once [where due = 1]) simp_all
qed

text \<open>Both replicas believe that they lead; the lease of the first has expired.\<close>

definition two_leaders :: cron_cluster where
  "two_leaders = fold (cron_do two_replicas)
     [ActFollow 0 100, ActTimer 0 0, ActFollow 1 200, ActTimer 1 0] cron_init"

theorem one_leader_fires_witness:
  "\<exists>s l. cr_phase (fst (cron_tick (cp_config two_replicas 0) (cp_name two_replicas) 220 (cw_replica two_leaders 0) s)) = CronTeardown l"
proof -
  let ?tick = "cron_tick (cp_config two_replicas 1) (cp_name two_replicas) 210 (cw_replica two_leaders 1) (cw_store two_leaders)"
  have "cron_schedule_ok two_replicas [ActFollow 0 100, ActTimer 0 0, ActFollow 1 200, ActTimer 1 0] cron_init"
    by code_simp
  then have reach: "cron_reachable two_replicas two_leaders" unfolding two_leaders_def by (intro cron_reachable_fold cron_start)
  have terms: "cw_terms two_leaders \<le> u64_max" by code_simp
  have "case cr_phase (cw_replica two_leaders 1) of CronDue _ _ \<Rightarrow> True | _ \<Rightarrow> False" by code_simp
  then obtain l1 due where one: "cr_phase (cw_replica two_leaders 1) = CronDue l1 due" by (auto split: cron_phase.splits)
  have "case cr_phase (cw_replica two_leaders 0) of CronDue _ _ \<Rightarrow> True | _ \<Rightarrow> False" by code_simp
  then obtain l0 due0 where zero: "cr_phase (cw_replica two_leaders 0) = CronDue l0 due0" by (auto split: cron_phase.splits)
  obtain r s evs where tick: "?tick = (r, s, evs)" by (metis prod.collapse)
  have "case cr_phase (fst ?tick) of CronRenewed _ _ \<Rightarrow> True | _ \<Rightarrow> False" by code_simp
  then obtain l due' where ren: "cr_phase r = CronRenewed l due'" using tick by (auto split: cron_phase.splits)
  then have "due' = due" using tick one by (auto simp: cron_tick_def split: prod.splits sum.splits bool.splits)
  with ren have ren: "cr_phase r = CronRenewed l due" by simp
  obtain r' s' evs' where zomb: "cron_tick (cp_config two_replicas 0) (cp_name two_replicas) 220 (cw_replica two_leaders 0) s = (r', s', evs')"
    by (metis prod.collapse)
  from one_leader_fires [OF reach terms _ one tick ren zomb] zero have "cr_phase r' = CronTeardown l0" by simp
  with zomb show ?thesis by (intro exI [of _ s] exI [of _ l0]) simp
qed

text \<open>A plan, and the same plan again.\<close>

definition colon_free :: "string \<Rightarrow> string" where
  "colon_free = filter (\<lambda>c. c \<noteq> CHR '':'')"

theorem cron_keys_separate_witness:
  "cron_fire_key (cron_lease_names_for_plans colon_free [sample_plan ''a'' [], sample_plan ''b'' [] :: unit plan] ! 0) 0
   \<noteq> cron_fire_key (cron_lease_names_for_plans colon_free [sample_plan ''a'' [], sample_plan ''b'' [] :: unit plan] ! 1) 0"
proof -
  have "inj_on (\<lambda>e. take 8 (colon_free e)) (set (map (\<lambda>p. tg_expr (pn_trigger p)) [sample_plan ''a'' [], sample_plan ''b'' [] :: unit plan]))"
    by (simp add: sample_plan_def)
  from cron_keys_separate [OF _ this, of 0 1 0 0] show ?thesis by (simp add: colon_free_def)
qed

end
