(* ===== verification/Durable_Recovery.thy ===== *)
theory Durable_Recovery
  imports Plan_Run
begin

text \<open>
  The recovery of durable runs (\<open>durable_recovery.go\<close>): which journalled runs a scan may claim, the
  policy that decides whether a claimed run is abandoned, failed or replayed, the replay from the last
  checkpoint, and the forced recovery of an operator.

  The replays that a scan starts run one after the other, each with a free slot of the worker pool; a
  scan ends early when its context has ended.
\<close>

section \<open>Which runs may be claimed\<close>

definition has_pending_approval :: "'w run_store \<Rightarrow> 'w tool_env \<Rightarrow> string \<Rightarrow> 'w \<Rightarrow> go_error + bool" where
  "has_pending_approval db ctx execID w =
     (case us_approvals db (te_ctx_err ctx w) execID w of
        Inl err \<Rightarrow> Inl err
      | Inr approvals \<Rightarrow> Inr (list_ex (\<lambda>a. pa_status a = ApprovalPending) approvals))"

text \<open>The execution of a claimable row; \<open>Inr None\<close> when the row may not be claimed.\<close>

definition durable_run_claimable :: "'w run_store \<Rightarrow> 'w tool_env \<Rightarrow> run_journal \<Rightarrow> 'w \<Rightarrow> go_error + execution option" where
  "durable_run_claimable db ctx j w =
     (case us_execution db (te_ctx_err ctx w) (rj_exec_id j) w of
        Inl err \<Rightarrow> Inl err
      | Inr None \<Rightarrow> Inr None
      | Inr (Some x) \<Rightarrow>
          if ex_status x \<noteq> ExecutionRunning then Inr None
          else (case has_pending_approval db ctx (rj_exec_id j) w of
             Inl err \<Rightarrow> Inl err
           | Inr parked \<Rightarrow> Inr (if parked then None else Some x)))"

section \<open>What a replay starts from\<close>

definition durable_replay_input :: "run_journal \<Rightarrow> run_checkpoint list \<Rightarrow> int \<times> string \<times> bool \<times> string \<times> int" where
  "durable_replay_input j checkpoints =
     (if checkpoints = [] then (0, rj_input j, rj_replay_unsafe j, ''journal_input'', -1)
      else let c = last checkpoints in
        (rc_step_index c + 1, rc_output c, rc_replay_unsafe c, ''checkpoint_output'', rc_step_index c))"

text \<open>The plan of a row: the one with its key and hash, or else the first with its key.\<close>

definition durable_plan_for_journal :: "'w http_runtime \<Rightarrow> 'w plan list \<Rightarrow> run_journal \<Rightarrow> 'w plan option" where
  "durable_plan_for_journal rt plans j =
     (let same = filter (\<lambda>p. durable_plan_key (rx_display_uri rt) p = rj_plan_key j) plans in
      case find (\<lambda>p. durable_plan_hash (rx_sha rt) (rx_float_text rt) (rx_build rt) p = rj_plan_hash j) same of
        Some p \<Rightarrow> Some p
      | None \<Rightarrow> (case same of [] \<Rightarrow> None | p # _ \<Rightarrow> Some p))"

definition durable_run_client_gone :: "'w plan \<Rightarrow> bool" where
  "durable_run_client_gone p \<longleftrightarrow>
     tm_kind (pn_terminal p) = terminal_reply \<and> (tm_sse (pn_terminal p) \<or> \<not> tm_async (pn_terminal p))"

definition blocks_replay :: "int \<Rightarrow> tool_intent \<Rightarrow> bool" where
  "blocks_replay resumeIndex i \<longleftrightarrow>
     resumeIndex \<le> ti_step_index i \<and> (is_zero (ti_completed_at i) \<or> ti_effect i \<noteq> effect_text EffectIdempotent)"

definition durable_replay_blocking_intent :: "tool_intent list \<Rightarrow> int \<Rightarrow> tool_intent option" where
  "durable_replay_blocking_intent intents resumeIndex = find (blocks_replay resumeIndex) intents"

section \<open>The ends of a run that is not replayed\<close>

definition emit_recovery_event ::
  "'w http_runtime \<Rightarrow> 'w tool_env \<Rightarrow> run_journal \<Rightarrow> execution \<Rightarrow> string \<Rightarrow> payload \<Rightarrow> 'w \<Rightarrow> 'w" where
  "emit_recovery_event rt ctx j x kind p w =
     (if rx_store rt = None \<and> rx_stream rt = None then w
      else snd (append_runtime_event rt ctx
        (zero_event \<lparr>ev_kind := kind, ev_exec_id := rj_exec_id j, ev_trace_id := ex_trace_id x, ev_payload := p\<rparr>) w))"

definition fail_durable_run_execution :: "'w http_runtime \<Rightarrow> 'w run_store \<Rightarrow> 'w tool_env \<Rightarrow> execution \<Rightarrow> 'w \<Rightarrow> 'w" where
  "fail_durable_run_execution rt db ctx x0 w =
     (let x = (case us_execution db (te_ctx_err ctx w) (ex_exec_id x0) w of Inr (Some current) \<Rightarrow> current | _ \<Rightarrow> x0) in
      if ex_status x \<noteq> ExecutionRunning then w
      else snd (hs_save_execution (us_harness db) (te_ctx_err ctx w)
        (x \<lparr>ex_status := ExecutionFailed, ex_completed_at := rx_now rt w\<rparr>) w))"

definition mark_replay_unsafe ::
  "'w http_runtime \<Rightarrow> 'w run_store \<Rightarrow> 'w tool_env \<Rightarrow> run_journal \<Rightarrow> execution \<Rightarrow> string \<Rightarrow> int \<Rightarrow> 'w \<Rightarrow> 'w" where
  "mark_replay_unsafe rt db ctx j x source stepIndex w =
     fail_durable_run_execution rt db ctx x (emit_recovery_event rt ctx j x ''run_abandoned''
       ([(''plan_key'', AnyStr (rj_plan_key j)), (''reason'', AnyStr ''replay_input_redacted''), (''source'', AnyStr source)]
        @ (if 0 \<le> stepIndex then [(''step_index'', any_int stepIndex)] else [])) w)"

definition mark_indeterminate ::
  "'w http_runtime \<Rightarrow> 'w run_store \<Rightarrow> 'w tool_env \<Rightarrow> run_journal \<Rightarrow> execution \<Rightarrow> tool_intent \<Rightarrow> 'w \<Rightarrow> 'w" where
  "mark_indeterminate rt db ctx j x i w =
     fail_durable_run_execution rt db ctx x (emit_recovery_event rt ctx j x ''replay_indeterminate_tool''
       [(''plan_key'', AnyStr (rj_plan_key j)), (''tool'', AnyStr (ti_tool_name i)), (''tool_call_id'', AnyStr (ti_tool_call_id i)),
        (''step_index'', any_int (ti_step_index i)), (''effect'', AnyStr (ti_effect i)), (''idem_key'', AnyStr (ti_idem_key i)),
        (''open'', AnyBool (is_zero (ti_completed_at i)))] w)"

definition abandon_durable_run ::
  "'w http_runtime \<Rightarrow> 'w run_store \<Rightarrow> 'w tool_env \<Rightarrow> run_journal \<Rightarrow> execution \<Rightarrow> string \<Rightarrow> 'w \<Rightarrow> 'w" where
  "abandon_durable_run rt db ctx j x reason w =
     (let w1 = fail_durable_run_execution rt db ctx x (emit_recovery_event rt ctx j x ''run_abandoned''
                 [(''plan_key'', AnyStr (rj_plan_key j)), (''reason'', AnyStr reason)] w)
      in case us_prune db (te_ctx_err ctx w1) (rj_exec_id j) w1 of
           (Some err, w2) \<Rightarrow> rx_prune_failed rt err w2
         | (None, w2) \<Rightarrow> w2)"

section \<open>The replay\<close>

text \<open>A gated call is allowed by an approval of the execution that was granted for the same tool and arguments.\<close>

definition approved_for :: "pending_approval list \<Rightarrow> string \<Rightarrow> string \<Rightarrow> string option" where
  "approved_for approvals toolName argsHash =
     (if argsHash = [] then None
      else map_option pa_id (find (\<lambda>a. pa_status a = ApprovalApproved \<and> pa_tool_name a = toolName
             \<and> pa_args_hash a \<noteq> [] \<and> pa_args_hash a = argsHash) approvals))"

definition approval_replay_context :: "'w run_store \<Rightarrow> 'w tool_env \<Rightarrow> string \<Rightarrow> 'w \<Rightarrow> 'w tool_env" where
  "approval_replay_context db ctx execID w =
     (let approvals = (case us_approvals db (te_ctx_err ctx w) execID w of Inl _ \<Rightarrow> [] | Inr as \<Rightarrow> as) in
      ctx \<lparr>te_replay := True, te_resolver := Some (\<lambda>toolName argsHash _. approved_for approvals toolName argsHash)\<rparr>)"

definition replay_session :: "'w http_runtime \<Rightarrow> 'w plan \<Rightarrow> run_journal \<Rightarrow> execution \<Rightarrow> 'w \<Rightarrow> go_error + session" where
  "replay_session rt plan j x w =
     new_session (xe_fresh (rx_world rt) w) (rx_now rt w) (pipeline_session_model plan)
       [WithSessionIDs (rj_exec_id j) [] (ex_trace_id x), WithSessionBudget default_budget]"

text \<open>The terminal of a replay and its end; \<open>ctx0\<close> is the execution context, \<open>ctx\<close> that of the replay.\<close>

definition finish_replay ::
  "'w worker \<Rightarrow> 'w heartbeat option \<Rightarrow> 'w tool_env \<Rightarrow> 'w tool_env \<Rightarrow> session \<Rightarrow> 'w plan \<Rightarrow> plan_run_result \<Rightarrow> 'w \<Rightarrow> 'w" where
  "finish_replay wk hb ctx0 ctx s plan r w =
     (let rt = wk_rt wk;
          failed = (\<lambda>err w. snd (finish_pipeline_execution rt (without_cancel ctx0) s plan ''failed'' (Some (run_error rt hb w err)) w))
      in
      case heartbeat_confirm rt hb ctx w of
        (Some err, w1) \<Rightarrow> failed err w1
      | (None, w1) \<Rightarrow>
     (case apply_resumed_terminal rt (wk_egress wk)
             (intent_ctx rt (Some \<lparr>sj_exec_id = ss_exec_id s, sj_base = 0\<rparr>) (length (pn_steps plan)) ctx) plan r w1 of
        (Some err, w2) \<Rightarrow> failed err w2
      | (None, w2) \<Rightarrow>
     (case heartbeat_stop_and_confirm rt hb ctx (settle_terminal rt ctx s w2) of
        (Some err, w3) \<Rightarrow> snd (finish_pipeline_with_outcome rt (without_cancel ctx0) s plan ''failed'' ''completed''
                              (Some (run_error rt hb w3 err)) w3)
      | (None, w3) \<Rightarrow> snd (finish_pipeline_execution rt (without_cancel ctx0) s plan ''completed'' None w3))))"

definition replay_scope :: "'w http_runtime \<Rightarrow> 'w plan \<Rightarrow> session \<Rightarrow> int \<Rightarrow> plan_scope" where
  "replay_scope rt plan s resumeIndex = \<lparr>px_parent = Some s, px_ledger = None,
     px_durable = Some \<lparr>sj_exec_id = ss_exec_id s, sj_base = resumeIndex\<rparr>,
     px_namespace = plan_namespace (rx_sha rt) (rx_display_uri rt) plan, px_base = resumeIndex\<rparr>"

definition replay_durable_run ::
  "'w worker \<Rightarrow> 'w run_store \<Rightarrow> 'w heartbeat option \<Rightarrow> 'w tool_env \<Rightarrow> 'w plan \<Rightarrow> run_journal \<Rightarrow> execution \<Rightarrow> int \<Rightarrow> string \<Rightarrow> bool
     \<Rightarrow> 'w \<Rightarrow> 'w" where
  "replay_durable_run wk db hb ctx0 plan j x resumeIndex input forced w =
     (let rt = wk_rt wk in
      case replay_session rt plan j x w of
        Inl _ \<Rightarrow> w
      | Inr s \<Rightarrow>
     (let x1 = (if forced then x \<lparr>ex_status := ExecutionRunning, ex_completed_at := zero_time\<rparr> else x) in
      case (if forced then hs_save_execution (us_harness db) (te_ctx_err ctx0 w) x1 w else (None, w)) of
        (Some _, w1) \<Rightarrow> w1
      | (None, w1) \<Rightarrow>
     (case hs_save_session (us_harness db) (te_ctx_err ctx0 w1) s w1 of
        (Some _, w2) \<Rightarrow> w2
      | (None, w2) \<Rightarrow>
          (let w3 = emit_recovery_event rt ctx0 j x1 ''run_recovered''
                 [(''plan_key'', AnyStr (rj_plan_key j)), (''trigger'', AnyStr (rj_trigger_kind j)),
                  (''resumed_from_step'', any_int resumeIndex), (''forced'', AnyBool forced)] w2;
               ctx = approval_replay_context db ctx0 (rj_exec_id j) w3
           in
           if int (length (pn_steps plan)) \<le> resumeIndex
           then finish_replay wk hb ctx0 ctx s plan \<lparr>pr_output = input, pr_session = Some s\<rparr> w3
           else case run_steps rt ctx (replay_scope rt plan s resumeIndex) (drop (nat resumeIndex) (pn_steps plan)) input w3 of
             ((r, None, _), w4) \<Rightarrow> finish_replay wk hb ctx0 ctx s plan (with_session s r) w4
           | ((r, Some err0, sp), w4) \<Rightarrow>
               (let err = run_error rt hb w4 err0 in
                case (if errors_is err err_lease_lost then (False, w4) else remember_suspended_plan wk err sp plan s w4) of
                  (True, w5) \<Rightarrow> w5
                | (False, w5) \<Rightarrow> snd (finish_pipeline_execution rt (without_cancel ctx0) s plan ''failed'' (Some err) w5))))))"

section \<open>The policy\<close>

text \<open>
  The body of \<open>recoverClaimedDurableRun\<close>, with the replay as an argument, in the order of the code:
  a pending approval, the plan, its hash, the client, the checkpoints and the intents.
\<close>

definition apply_replay_policy ::
  "'w http_runtime \<Rightarrow> 'w run_store \<Rightarrow> ('w plan \<Rightarrow> int \<Rightarrow> string \<Rightarrow> 'w \<Rightarrow> 'w) \<Rightarrow> 'w tool_env \<Rightarrow> 'w plan list \<Rightarrow> run_journal \<Rightarrow> execution
     \<Rightarrow> bool \<Rightarrow> 'w \<Rightarrow> 'w" where
  "apply_replay_policy rt db replay ctx plans j x force w =
     (case has_pending_approval db ctx (rj_exec_id j) w of
        Inl _ \<Rightarrow> w
      | Inr True \<Rightarrow> w
      | Inr False \<Rightarrow>
     (case durable_plan_for_journal rt plans j of
        None \<Rightarrow> abandon_durable_run rt db ctx j x ''plan_missing'' w
      | Some plan \<Rightarrow>
          if durable_plan_hash (rx_sha rt) (rx_float_text rt) (rx_build rt) plan \<noteq> rj_plan_hash j
          then abandon_durable_run rt db ctx j x ''plan_hash_mismatch'' w
          else if durable_run_client_gone plan then abandon_durable_run rt db ctx j x ''client_gone'' w
          else case us_checkpoints db (te_ctx_err ctx w) (rj_exec_id j) w of
            Inl _ \<Rightarrow> w
          | Inr checkpoints \<Rightarrow>
              (case durable_replay_input j checkpoints of
                 (resumeIndex, input, unsafe, source, stepIndex) \<Rightarrow>
                   if unsafe then mark_replay_unsafe rt db ctx j x source stepIndex w
                   else if force then replay plan resumeIndex input w
                   else case us_intents db (te_ctx_err ctx w) (rj_exec_id j) w of
                     Inl _ \<Rightarrow> w
                   | Inr intents \<Rightarrow>
                       (case durable_replay_blocking_intent intents resumeIndex of
                          Some i \<Rightarrow> mark_indeterminate rt db ctx j x i w
                        | None \<Rightarrow> replay plan resumeIndex input w))))"

text \<open>The whole function: the heartbeat of the claim, the policy, and what its deferred function does.\<close>

definition recover_claimed_run ::
  "'w worker \<Rightarrow> 'w run_store \<Rightarrow> 'w lease_ops \<Rightarrow> 'w tool_env \<Rightarrow> 'w plan list \<Rightarrow> run_journal \<Rightarrow> execution \<Rightarrow> lease \<Rightarrow> bool \<Rightarrow> 'w \<Rightarrow> 'w" where
  "recover_claimed_run wk db ls ctx plans j x l force w =
     (let rt = wk_rt wk in
      case start_heartbeat rt ls (durable_run_lease_name (rj_exec_id j)) (rx_replica_id rt) (run_lease_ttl rt) l w of
        (h, w1) \<Rightarrow>
          (let ex = execution_context rt (Some h) ctx;
               w2 = apply_replay_policy rt db
                      (\<lambda>plan resumeIndex input. replay_durable_run wk db (Some h) ex plan j x resumeIndex input force) ex plans j x force w1;
               w3 = (if heartbeat_loss rt (Some h) w2 = None then w2
                     else fail_durable_run_execution rt db (background ctx) x w2)
           in heartbeat_release (Some h) w3))"

section \<open>The scan\<close>

fun scan_journals ::
  "'w worker \<Rightarrow> 'w run_store \<Rightarrow> 'w lease_ops \<Rightarrow> 'w tool_env \<Rightarrow> 'w plan list \<Rightarrow> run_journal list \<Rightarrow> 'w \<Rightarrow> 'w" where
  "scan_journals wk db ls ctx plans [] w = w"
| "scan_journals wk db ls ctx plans (j # js) w =
     (let rt = wk_rt wk in
      if te_ctx_err ctx w \<noteq> None then w
      else case durable_run_claimable db ctx j w of
        Inl _ \<Rightarrow> scan_journals wk db ls ctx plans js w
      | Inr None \<Rightarrow> scan_journals wk db ls ctx plans js w
      | Inr (Some x) \<Rightarrow>
          (case lo_acquire ls (te_ctx_err ctx w) (durable_run_lease_name (rj_exec_id j)) (rx_replica_id rt) (run_lease_ttl rt) w of
             (Inr (l, True), w1) \<Rightarrow>
               scan_journals wk db ls ctx plans js (recover_claimed_run wk db ls ctx plans j x l False w1)
           | (_, w1) \<Rightarrow> scan_journals wk db ls ctx plans js w1))"

definition recover_durable_runs_scan :: "'w worker \<Rightarrow> 'w run_store \<Rightarrow> 'w lease_ops \<Rightarrow> 'w tool_env \<Rightarrow> 'w plan list \<Rightarrow> 'w \<Rightarrow> 'w" where
  "recover_durable_runs_scan wk db ls ctx plans w =
     (case us_journals db (te_ctx_err ctx w) w of
        Inl _ \<Rightarrow> w
      | Inr journals \<Rightarrow> scan_journals wk db ls ctx plans journals w)"

end
