(* ===== verification/Approval_Resume.thy ===== *)
theory Approval_Resume
  imports Durable_Recovery
begin

text \<open>
  The resumption of a suspended run after its approval (\<open>runtime_http_resume.go\<close>) and the decision of an
  operator on an approval (\<open>runtime_http_approval.go\<close>). A resumed run is started in the background; here
  it runs when it is started.
\<close>

section \<open>Resuming\<close>

definition emit_approval_resume_event ::
  "'w http_runtime \<Rightarrow> 'w tool_env \<Rightarrow> string \<Rightarrow> session \<Rightarrow> string \<Rightarrow> payload \<Rightarrow> 'w \<Rightarrow> 'w" where
  "emit_approval_resume_event rt ctx approvalID s kind p w =
     (if rx_store rt = None \<and> rx_stream rt = None \<and> rx_hook_bus rt = None then w
      else snd (append_runtime_event rt ctx (session_event s kind (mput ''approval_id'' (AnyStr approvalID) p)) w))"

definition pipeline_budget :: "go_error \<Rightarrow> string" where
  "pipeline_budget err =
     (case filter (\<lambda>e. case e of ErrIncomplete _ _ \<Rightarrow> True | _ \<Rightarrow> False) (err_chain err) of
        ErrIncomplete _ b # _ \<Rightarrow> b
      | _ \<Rightarrow> [])"

definition resume_failed ::
  "'w http_runtime \<Rightarrow> 'w tool_env \<Rightarrow> string \<Rightarrow> 'w approval_resume \<Rightarrow> string \<Rightarrow> payload \<Rightarrow> go_error \<Rightarrow> 'w \<Rightarrow> 'w" where
  "resume_failed rt ctx0 approvalID r outcome extra err w =
     (let ctx = without_cancel ctx0;
          w1 = emit_approval_resume_event rt ctx approvalID (rm_session r) ''pipeline_failed''
                 ([(''approval_id'', AnyStr approvalID), (''error'', any_err err), (''resumed'', AnyBool True)] @ extra) w
      in snd (finish_pipeline_with_outcome rt ctx (rm_session r) (rm_plan r) ''failed'' outcome (Some err) w1))"

definition finish_approved_resume ::
  "'w worker \<Rightarrow> 'w heartbeat option \<Rightarrow> 'w tool_env \<Rightarrow> string \<Rightarrow> 'w approval_resume \<Rightarrow> plan_run_result \<Rightarrow> 'w \<Rightarrow> 'w" where
  "finish_approved_resume wk hb ctx approvalID r result w =
     (let rt = wk_rt wk; plan = rm_plan r; s = rm_session r in
      case heartbeat_confirm rt hb ctx w of
        (Some err, w1) \<Rightarrow> resume_failed rt ctx approvalID r ''failed'' [] (run_error rt hb w1 err) w1
      | (None, w1) \<Rightarrow>
     (let terminalCtx = (if rx_durable rt \<noteq> None \<and> rx_store rt \<noteq> None
            then intent_ctx rt (Some \<lparr>sj_exec_id = ss_exec_id s, sj_base = 0\<rparr>) (length (pn_steps plan)) ctx else ctx) in
      case apply_resumed_terminal rt (wk_egress wk) terminalCtx plan result w1 of
        (Some err, w2) \<Rightarrow> resume_failed rt ctx approvalID r ''failed'' [] (run_error rt hb w2 err) w2
      | (None, w2) \<Rightarrow>
          (case heartbeat_stop_and_confirm rt hb ctx (settle_terminal rt ctx s w2) of
             (Some err, w3) \<Rightarrow> resume_failed rt ctx approvalID r ''completed'' [] (run_error rt hb w3 err) w3
           | (None, w3) \<Rightarrow> snd (finish_pipeline_execution rt (without_cancel ctx) s plan ''completed'' None w3))))"

definition run_resumed_plan ::
  "'w worker \<Rightarrow> 'w heartbeat option \<Rightarrow> 'w tool_env \<Rightarrow> string \<Rightarrow> 'w approval_resume \<Rightarrow> 'w \<Rightarrow> 'w" where
  "run_resumed_plan wk hb ctx approvalID r w =
     (let rt = wk_rt wk;
          w1 = emit_approval_resume_event rt ctx approvalID (rm_session r) ''execution_resumed'' [(''approval_id'', AnyStr approvalID)] w
      in
      case resume_plan rt ctx (rm_suspended r) w1 of
        ((result, None, _), w2) \<Rightarrow> finish_approved_resume wk hb ctx approvalID r result w2
      | ((result, Some err0, sp), w2) \<Rightarrow>
          (let err = run_error rt hb w2 err0 in
           case (if errors_is err err_lease_lost then (False, w2)
                 else remember_suspended_plan wk err sp (rm_plan r) (rm_session r) w2) of
             (True, w3) \<Rightarrow> w3
           | (False, w3) \<Rightarrow> resume_failed rt ctx approvalID r ''failed''
               (if pipeline_budget err = [] then [] else [(''budget'', AnyStr (pipeline_budget err))]) err w3))"

definition run_approved_resume :: "'w worker \<Rightarrow> 'w tool_env \<Rightarrow> string \<Rightarrow> 'w approval_resume \<Rightarrow> 'w \<Rightarrow> 'w" where
  "run_approved_resume wk ctx approvalID r w =
     (let rt = wk_rt wk in
      if rx_durable rt \<noteq> None \<and> rx_store rt \<noteq> None then
        (case acquire_with_retry rt ctx (ss_exec_id (rm_session r)) w of
           (Inl _, w1) \<Rightarrow> w1
         | (Inr None, w1) \<Rightarrow> run_resumed_plan wk None ctx approvalID r w1
         | (Inr (Some h), w1) \<Rightarrow>
             heartbeat_release (Some h) (run_resumed_plan wk (Some h) (execution_context rt (Some h) ctx) approvalID r w1))
      else run_resumed_plan wk None ctx approvalID r w)"

definition start_approved_resume :: "'w worker \<Rightarrow> 'w tool_env \<Rightarrow> string \<Rightarrow> 'w \<Rightarrow> bool \<times> 'w" where
  "start_approved_resume wk async approvalID w =
     (if \<not> wk_has_registry wk then (False, w)
      else case registry_take approvalID (wk_registry wk w) of
        (None, _) \<Rightarrow> (False, w)
      | (Some r, reg) \<Rightarrow>
          (let w1 = wk_set_registry wk reg w in
           if wk_accepts_async wk w1 then (True, run_approved_resume wk async approvalID r w1)
           else (False, wk_set_registry wk (registry_store approvalID r (wk_registry wk w1)) w1)))"

section \<open>The decision\<close>

definition approval_status_for_decision :: "string \<Rightarrow> approval_status option" where
  "approval_status_for_decision raw =
     (let d = map lower_char (trim_space raw) in
      if d \<in> {''approve'', ''approved'', ''allow''} then Some ApprovalApproved
      else if d \<in> {''deny'', ''denied'', ''reject'', ''rejected''} then Some ApprovalDenied
      else None)"

definition emit_approval_event :: "'w http_runtime \<Rightarrow> 'w tool_env \<Rightarrow> pending_approval \<Rightarrow> string \<Rightarrow> payload \<Rightarrow> 'w \<Rightarrow> 'w" where
  "emit_approval_event rt ctx a kind p w =
     (if rx_store rt = None \<and> rx_stream rt = None \<and> rx_hook_bus rt = None then w
      else snd (append_runtime_event rt ctx (zero_event \<lparr>ev_kind := kind, ev_exec_id := pa_exec_id a,
        ev_session_id := pa_session_id a, ev_trace_id := pa_trace_id a, ev_payload := p\<rparr>) w))"

definition record_approval_decision :: "'w http_runtime \<Rightarrow> 'w run_store \<Rightarrow> 'w tool_env \<Rightarrow> pending_approval \<Rightarrow> 'w \<Rightarrow> 'w" where
  "record_approval_decision rt db ctx a w =
     (let base = [(''approval_id'', AnyStr (pa_id a)), (''tool'', AnyStr (pa_tool_name a)), (''tool_call_id'', AnyStr (pa_tool_call_id a))] in
      if pa_status a = ApprovalApproved then emit_approval_event rt ctx a ''approval_approved'' base w
      else let w1 = emit_approval_event rt ctx a ''approval_denied'' base w in
        if pa_exec_id a = [] then w1
        else case us_execution db (te_ctx_err ctx w1) (pa_exec_id a) w1 of
          Inr (Some x) \<Rightarrow>
            if ex_status x = ExecutionRunning
            then snd (hs_save_execution (us_harness db) (te_ctx_err ctx w1)
              (x \<lparr>ex_status := ExecutionFailed, ex_completed_at := rx_now rt w1\<rparr>) w1)
            else w1
        | _ \<Rightarrow> w1)"

text \<open>The store's operations on approvals that the handler uses.\<close>

record 'w approval_ops =
  ao_approval :: "go_error option \<Rightarrow> string \<Rightarrow> 'w \<Rightarrow> go_error + pending_approval option"
  ao_resolve :: "go_error option \<Rightarrow> string \<Rightarrow> approval_status \<Rightarrow> string \<Rightarrow> 'w \<Rightarrow> (go_error + pending_approval) \<times> 'w"

text \<open>The answer is the HTTP status, the text of the status and whether a run was resumed.\<close>

definition decide_approval ::
  "'w worker \<Rightarrow> 'w run_store \<Rightarrow> 'w approval_ops \<Rightarrow> 'w tool_env \<Rightarrow> 'w tool_env \<Rightarrow> string \<Rightarrow> (string \<times> string) option \<Rightarrow> 'w
     \<Rightarrow> (int \<times> string \<times> bool) \<times> 'w" where
  "decide_approval wk db ao ctx async rawID body w =
     (let approvalID = trim_space rawID in
      if approvalID = [] then ((404, ''not_found'', False), w)
      else case body of
        None \<Rightarrow> ((400, ''invalid_decision'', False), w)
      | Some (decision, decidedBy) \<Rightarrow>
     (case approval_status_for_decision decision of
        None \<Rightarrow> ((400, ''invalid_decision'', False), w)
      | Some st \<Rightarrow>
     (case ao_approval ao (te_ctx_err ctx w) approvalID w of
        Inl _ \<Rightarrow> ((500, ''state_store_error'', False), w)
      | Inr None \<Rightarrow> ((404, ''not_found'', False), w)
      | Inr (Some a) \<Rightarrow>
          if pa_status a \<noteq> ApprovalPending then ((409, ''already_decided'', False), w)
          else case ao_resolve ao (te_ctx_err ctx w) approvalID st (trim_space decidedBy) w of
            (Inl _, w1) \<Rightarrow> ((409, ''already_decided'', False), w1)
          | (Inr resolved, w1) \<Rightarrow>
              (let w2 = record_approval_decision (wk_rt wk) db ctx resolved w1 in
               if pa_status resolved = ApprovalApproved
               then (case start_approved_resume wk async (pa_id resolved) w2 of (resumed, w3) \<Rightarrow> ((200, ''ok'', resumed), w3))
               else ((200, ''ok'', False), w2)))))"

end
