(* ===== verification/Http_Serve.thy ===== *)
theory Http_Serve
  imports Http_Trigger Approval_Resume
begin

text \<open>
  The handlers of the HTTP and webhook triggers (\<open>runtime_http.go\<close>) and the stream of server-sent
  events of a reply (\<open>runtime_http_sse.go\<close>). A handler takes the context of the request, and the context
  of the background group where it starts a run there; the run of an asynchronous reply happens when
  it is started.
\<close>

section \<open>A plan without steps\<close>

definition err_durable_direct :: go_error where
  "err_durable_direct = ErrText ''invalid node: durable runs require at least one Pipe for direct HTTP/Webhook terminals''"

text \<open>\<open>startDirectPlanExecution\<close>: the session of the execution that has started.\<close>

definition start_direct :: "'w http_route \<Rightarrow> 'w tool_env \<Rightarrow> session option \<Rightarrow> 'w \<Rightarrow> (go_error + session) \<times> 'w" where
  "start_direct r ctx s w =
     (let rt = ht_rt r; plan = ht_plan r in
      if rx_durable rt \<noteq> None \<and> (tg_kind (pn_trigger plan) = trigger_http \<or> tg_kind (pn_trigger plan) = trigger_webhook)
      then (Inl err_durable_direct, w)
      else case pipeline_session_for_plan rt plan s w of
        Inl err \<Rightarrow> (Inl err, w)
      | Inr x \<Rightarrow>
          (case start_pipeline_execution rt ctx x plan w of
             (Some err, w1) \<Rightarrow> (Inl err, w1)
           | (None, w1) \<Rightarrow> (Inr x, w1)))"

definition finish_direct :: "'w http_route \<Rightarrow> 'w tool_env \<Rightarrow> session \<Rightarrow> go_error option \<Rightarrow> 'w io" where
  "finish_direct r ctx s err =
     finish_pipeline_execution (ht_rt r) ctx s (ht_plan r) (if err = None then ''completed'' else ''failed'') err"

definition execution_failed :: http_response where
  "execution_failed = HttpStatus 502 ''pipeline_execution_failed''"

text \<open>The execution finished with the answer \<open>resp\<close>, or failed by \<open>err\<close>.\<close>

definition answer_direct :: "'w http_route \<Rightarrow> 'w tool_env \<Rightarrow> session \<Rightarrow> http_response \<Rightarrow> go_error option \<times> 'w \<Rightarrow> http_response \<times> 'w" where
  "answer_direct r ctx s resp x =
     (case x of
        (Some err, w) \<Rightarrow> (execution_failed, snd (finish_direct r ctx s (Some err) w))
      | (None, w) \<Rightarrow>
          (case finish_direct r ctx s None w of
             (Some _, w1) \<Rightarrow> (execution_failed, w1)
           | (None, w1) \<Rightarrow> (resp, w1)))"

definition direct_reply_ok :: string where
  "direct_reply_ok = ''{'' @ [CHR 0x22] @ ''status'' @ [CHR 0x22] @ '':'' @ [CHR 0x22] @ ''ok'' @ [CHR 0x22] @ ''}''"

section \<open>Server-sent events\<close>

text \<open>The frame of an event: its name, a line of data for every line of the text, and an empty line.\<close>

definition sse_frame :: "string \<Rightarrow> string \<Rightarrow> string" where
  "sse_frame name output =
     (if trim_space name = [] then [] else ''event: '' @ name @ [CHR 0x0A])
     @ concat (map (\<lambda>line. ''data: '' @ line @ [CHR 0x0A]) (split_on (CHR 0x0A) output)) @ [CHR 0x0A]"

definition sse_output_event :: "ambient \<Rightarrow> string \<Rightarrow> string \<Rightarrow> string" where
  "sse_output_event E name output = sse_frame name (redact_json_text E output)"

definition sse_status :: "ambient \<Rightarrow> string \<Rightarrow> string \<Rightarrow> string \<Rightarrow> string" where
  "sse_status E name status budget =
     (case json_encode E (status_json status [] budget) of None \<Rightarrow> [] | Some t \<Rightarrow> sse_output_event E name t)"

definition pipeline_error_status :: "go_error \<Rightarrow> string" where
  "pipeline_error_status err =
     (if errors_is err err_http_provider_missing then ''provider_not_configured''
      else if errors_is err err_pipeline_incomplete then ''pipeline_execution_incomplete''
      else ''pipeline_execution_failed'')"

definition sse_pipeline_error :: "ambient \<Rightarrow> go_error \<Rightarrow> string" where
  "sse_pipeline_error E err = sse_status E ''error'' (pipeline_error_status err) (pipeline_budget err)"

definition err_event_history_gap :: go_error where
  "err_event_history_gap = ErrVar ''event stream history gap''"

definition sse_delivery_error :: "ambient \<Rightarrow> go_error \<Rightarrow> string" where
  "sse_delivery_error E err =
     sse_status E ''error'' (if errors_is err err_event_history_gap then ''event_history_gap'' else ''event_stream_error'') []"

definition sse_runtime_event :: "'w http_route \<Rightarrow> event \<Rightarrow> go_error + string" where
  "sse_runtime_event r e =
     (let E = rx_ambient (ht_rt r); e1 = sanitize_event E e in
      case ht_event_json r e1 of Inl err \<Rightarrow> Inl err | Inr t \<Rightarrow> Inr (sse_output_event E (ev_kind e1) t))"

definition sse_events_since :: "'w http_route \<Rightarrow> 'w tool_env \<Rightarrow> string \<Rightarrow> u64 \<Rightarrow> 'w \<Rightarrow> go_error + event list" where
  "sse_events_since r ctx execID after w =
     (let durable = (case rx_store (ht_rt r) of
            None \<Rightarrow> Inr []
          | Some _ \<Rightarrow> (case ht_events_since r (te_ctx_err ctx w) execID after w of
              Inl err \<Rightarrow> Inl (ErrWrap ''read durable SSE events: '' err []) | Inr es \<Rightarrow> Inr es)) in
      case rx_stream (ht_rt r) of
        None \<Rightarrow> durable
      | Some n \<Rightarrow>
          (case since_checked (rx_ambient (ht_rt r)) after (ht_stream r n w) of
             Inr es \<Rightarrow> Inr es
           | Inl _ \<Rightarrow> if rx_store (ht_rt r) = None then Inl (ErrWrap ''SSE event delivery: '' err_event_history_gap [])
               else durable))"

text \<open>The cursor after the events of the execution past \<open>after\<close>, the error of one that is not written, and the text.\<close>

fun write_sse_events :: "'w http_route \<Rightarrow> string \<Rightarrow> u64 \<Rightarrow> event list \<Rightarrow> u64 \<times> go_error option \<times> string" where
  "write_sse_events r execID after [] = (after, None, [])"
| "write_sse_events r execID after (e # es) =
     (if ev_exec_id e \<noteq> execID \<or> ev_id e \<le> after then write_sse_events r execID after es
      else case sse_runtime_event r e of
        Inl err \<Rightarrow> (after, Some (ErrWrap (''write SSE event '' @ nat_text (ev_id e) @ '': '') err []), [])
      | Inr t \<Rightarrow>
          (case write_sse_events r execID (ev_id e) es of (c, err, ts) \<Rightarrow> (c, err, t @ ts)))"

definition write_sse_events_since :: "'w http_route \<Rightarrow> 'w tool_env \<Rightarrow> string \<Rightarrow> u64 \<Rightarrow> 'w \<Rightarrow> u64 \<times> go_error option \<times> string" where
  "write_sse_events_since r ctx execID after w =
     (case sse_events_since r ctx execID after w of
        Inl err \<Rightarrow> (after, Some err, [])
      | Inr es \<Rightarrow> write_sse_events r execID after es)"

text \<open>
  What the handler does while the run goes on: a tick at which it sees a state of the world, or the end of
  the request. The result is the cursor when it waits for the end of the run, and the text so far.
\<close>

datatype 'w sse_signal = SseTick 'w | SseGone

fun sse_wait :: "'w http_route \<Rightarrow> 'w tool_env \<Rightarrow> string \<Rightarrow> u64 \<Rightarrow> 'w sse_signal list \<Rightarrow> u64 option \<times> string" where
  "sse_wait r ctx execID after [] = (Some after, [])"
| "sse_wait r ctx execID after (SseGone # _) = (None, [])"
| "sse_wait r ctx execID after (SseTick w # signals) =
     (case write_sse_events_since r ctx execID after w of
        (c, Some err, t) \<Rightarrow> (None, t @ sse_delivery_error (rx_ambient (ht_rt r)) err)
      | (c, None, t) \<Rightarrow> (case sse_wait r ctx execID c signals of (x, ts) \<Rightarrow> (x, t @ ts)))"

text \<open>What is written once the run has returned and its events are written.\<close>

definition sse_outcome :: "ambient \<Rightarrow> plan_run_result \<times> go_error option \<Rightarrow> string" where
  "sse_outcome E outcome =
     (case snd outcome of
        Some err \<Rightarrow> sse_pipeline_error E err
      | None \<Rightarrow> sse_output_event E ''output'' (pr_output (fst outcome)) @ sse_status E ''done'' ''completed'' [])"

definition sse_end :: "'w http_route \<Rightarrow> 'w tool_env \<Rightarrow> string \<Rightarrow> u64 \<Rightarrow> plan_run_result \<times> go_error option \<Rightarrow> 'w \<Rightarrow> string" where
  "sse_end r ctx execID after outcome w =
     (let E = rx_ambient (ht_rt r) in
      case write_sse_events_since r ctx execID after w of
        (_, Some err, t) \<Rightarrow> t @ sse_delivery_error E err
      | (_, None, t) \<Rightarrow> t @ sse_outcome E outcome)"

definition sse_body ::
  "'w http_route \<Rightarrow> 'w tool_env \<Rightarrow> string \<Rightarrow> u64 \<Rightarrow> 'w sse_signal list \<Rightarrow> plan_run_result \<times> go_error option \<Rightarrow> 'w \<Rightarrow> string" where
  "sse_body r ctx execID start signals outcome w =
     (case sse_wait r ctx execID start signals of
        (None, t) \<Rightarrow> t
      | (Some c, t) \<Rightarrow> t @ sse_end r ctx execID c outcome w)"

definition with_streaming :: "'w worker \<Rightarrow> 'w worker" where
  "with_streaming wk = wk \<lparr>wk_rt := (wk_rt wk) \<lparr>rx_stream_deltas := True\<rparr>\<rparr>"

definition serve_pipeline_sse ::
  "'w http_route \<Rightarrow> 'w tool_env \<Rightarrow> string \<Rightarrow> session option \<Rightarrow> u64 \<Rightarrow> 'w sse_signal list \<Rightarrow> 'w \<Rightarrow> http_response \<times> 'w" where
  "serve_pipeline_sse r ctx input reserved start signals w =
     (let rt = ht_rt r; plan = ht_plan r in
      case pipeline_session_for_plan rt plan reserved w of
        Inl _ \<Rightarrow> (execution_failed, snd (resolve_reserved_failure rt ctx reserved w))
      | Inr s \<Rightarrow>
     (case try_acquire_worker r w of
        (False, w1) \<Rightarrow> (HttpStatus 429 ''worker_pool_full'', snd (resolve_reserved_failure rt ctx reserved w1))
      | (True, w1) \<Rightarrow>
          (case run_plan (with_streaming (ht_worker r)) ctx plan input (Some s)
                  (Some (\<lambda>ctx result. validate_observed_reply rt (wk_egress (ht_worker r)) ctx plan result)) w1 of
             (outcome, w2) \<Rightarrow>
               (let w3 = release_worker r w2 in
                (HttpEvents (sse_body r ctx (ss_exec_id s) start signals outcome w3), w3)))))"

section \<open>The handlers\<close>

definition direct_sse_reply :: "ambient \<Rightarrow> http_response" where
  "direct_sse_reply E = HttpEvents (sse_output_event E ''output'' direct_reply_ok)"

text \<open>The terminal of a plan without steps, once the execution has started.\<close>

definition direct_terminal :: "'w http_route \<Rightarrow> 'w tool_env \<Rightarrow> session \<Rightarrow> string \<Rightarrow> 'w \<Rightarrow> http_response \<times> 'w" where
  "direct_terminal r ctx s input w =
     (let rt = ht_rt r; plan = ht_plan r; eg = wk_egress (ht_worker r); t = pn_terminal plan;
          result = \<lparr>pr_output = input, pr_session = Some s\<rparr>; accepted = HttpStatus 202 ''accepted'' in
      if tm_kind t = terminal_reply then
        (if tm_async t then answer_direct r ctx s accepted (None, w)
         else answer_direct r ctx s (if tm_sse t then direct_sse_reply (rx_ambient rt) else HttpStatus 200 ''ok'')
                (validate_observed_reply rt eg ctx plan (result \<lparr>pr_output := direct_reply_ok\<rparr>) w))
      else if tm_kind t = terminal_push then
        answer_direct r ctx s accepted
          (if tm_push_webhook_url t \<noteq> [] \<or> tm_push_queue_uri t \<noteq> [] then apply_push_terminal rt eg ctx t result input w else (None, w))
      else if tm_kind t = terminal_sink then
        answer_direct r ctx s accepted
          (if tm_sink_file_path t \<noteq> [] \<or> tm_sink_log t then apply_sink_terminal rt eg ctx t result ''input'' w else (None, w))
      else (HttpStatus 500 ''terminal_missing'', snd (finish_direct r ctx s (Some (ErrText ''terminal missing'')) w)))"

definition serve_direct :: "'w http_route \<Rightarrow> 'w tool_env \<Rightarrow> http_request \<Rightarrow> 'w \<Rightarrow> http_response \<times> 'w" where
  "serve_direct r ctx req w =
     (case prepare_request_input r ctx req w of
        (Inl resp, w1) \<Rightarrow> (resp, w1)
      | (Inr (input, reserved), w1) \<Rightarrow>
     (case try_acquire_worker r w1 of
        (False, w2) \<Rightarrow> (HttpStatus 429 ''worker_pool_full'', snd (resolve_reserved_failure (ht_rt r) ctx reserved w2))
      | (True, w2) \<Rightarrow>
          (case (case start_direct r ctx reserved w2 of
                   (Inl _, w3) \<Rightarrow> (execution_failed, snd (resolve_reserved_failure (ht_rt r) ctx reserved w3))
                 | (Inr s, w3) \<Rightarrow> direct_terminal r ctx s input w3) of
             (resp, w4) \<Rightarrow> (resp, release_worker r w4))))"

text \<open>The answer to a run that the request has waited for.\<close>

definition pipeline_answer :: "'w plan \<Rightarrow> plan_run_result \<times> go_error option \<Rightarrow> http_response" where
  "pipeline_answer plan outcome =
     (case outcome of
        (_, Some err) \<Rightarrow>
          (case as_suspended err of
             Some (approvalID, execID, tool, _) \<Rightarrow> HttpSuspended approvalID execID tool
           | None \<Rightarrow>
               if errors_is err err_http_provider_missing then HttpStatus 503 ''provider_not_configured''
               else if errors_is err err_pipeline_incomplete
               then HttpJson 502 ''pipeline_execution_incomplete'' [] (pipeline_budget err)
               else execution_failed)
      | (result, None) \<Rightarrow>
          (let k = tm_kind (pn_terminal plan) in
           if k = terminal_reply then HttpJson 200 ''ok'' (pr_output result) []
           else if k = terminal_push then HttpJson 202 ''accepted'' (pr_output result) []
           else if k = terminal_sink then HttpStatus 202 ''accepted''
           else HttpStatus 500 ''terminal_missing''))"

definition with_event_stream :: "'w http_route \<Rightarrow> 'w \<Rightarrow> 'w http_route \<times> 'w" where
  "with_event_stream r w =
     (if rx_stream (ht_rt r) \<noteq> None then (r, w)
      else case ht_new_stream r w of
        (n, w1) \<Rightarrow> (r \<lparr>ht_worker := (ht_worker r) \<lparr>wk_rt := (ht_rt r) \<lparr>rx_stream := Some n\<rparr>\<rparr>\<rparr>, w1))"

definition last_event_id :: "'w http_route \<Rightarrow> 'w \<Rightarrow> u64" where
  "last_event_id r w =
     (case rx_stream (ht_rt r) of None \<Rightarrow> 0
      | Some n \<Rightarrow> (case stream_list (rx_ambient (ht_rt r)) (ht_stream r n w) of [] \<Rightarrow> 0 | es \<Rightarrow> ev_id (last es)))"

definition serve_async ::
  "'w http_route \<Rightarrow> 'w tool_env \<Rightarrow> 'w tool_env \<Rightarrow> string \<Rightarrow> session option \<Rightarrow> 'w \<Rightarrow> http_response \<times> 'w" where
  "serve_async r ctx async input reserved w =
     (case try_acquire_worker r w of
        (False, w1) \<Rightarrow> (HttpStatus 429 ''worker_pool_full'', snd (resolve_reserved_failure (ht_rt r) ctx reserved w1))
      | (True, w1) \<Rightarrow>
          if wk_accepts_async (ht_worker r) w1
          then (HttpStatus 202 ''accepted'', release_worker r (snd (run_plan (ht_worker r) async (ht_plan r) input reserved None w1)))
          else (HttpStatus 503 ''shutting_down'', snd (resolve_reserved_failure (ht_rt r) ctx reserved (release_worker r w1))))"

definition serve_sync :: "'w http_route \<Rightarrow> 'w tool_env \<Rightarrow> string \<Rightarrow> session option \<Rightarrow> 'w \<Rightarrow> http_response \<times> 'w" where
  "serve_sync r ctx input reserved w =
     (case try_acquire_worker r w of
        (False, w1) \<Rightarrow> (HttpStatus 429 ''worker_pool_full'', snd (resolve_reserved_failure (ht_rt r) ctx reserved w1))
      | (True, w1) \<Rightarrow>
          (case run_plan (ht_worker r) ctx (ht_plan r) input reserved
                  (Some (\<lambda>ctx result. apply_resumed_terminal (ht_rt r) (wk_egress (ht_worker r)) ctx (ht_plan r) result)) w1 of
             (outcome, w2) \<Rightarrow> (pipeline_answer (ht_plan r) outcome, release_worker r w2)))"

definition serve_pipeline ::
  "'w http_route \<Rightarrow> 'w tool_env \<Rightarrow> 'w tool_env \<Rightarrow> 'w sse_signal list \<Rightarrow> http_request \<Rightarrow> 'w \<Rightarrow> http_response \<times> 'w" where
  "serve_pipeline r0 ctx async signals req w0 =
     (let t = pn_terminal (ht_plan r0); sse = (tm_kind t = terminal_reply \<and> tm_sse t) in
      case (if sse then with_event_stream r0 w0 else (r0, w0)) of
        (r, w) \<Rightarrow>
          (let start = (if sse then last_event_id r w else 0) in
           case prepare_request_input r ctx req w of
             (Inl resp, w1) \<Rightarrow> (resp, w1)
           | (Inr (input, reserved), w1) \<Rightarrow>
               if tm_async t then serve_async r ctx async input reserved w1
               else if sse then serve_pipeline_sse r ctx input reserved start signals w1
               else serve_sync r ctx input reserved w1))"

definition serve ::
  "'w http_route \<Rightarrow> 'w tool_env \<Rightarrow> 'w tool_env \<Rightarrow> 'w sse_signal list \<Rightarrow> http_request \<Rightarrow> 'w \<Rightarrow> http_response \<times> 'w" where
  "serve r ctx async signals req w =
     (if pn_steps (ht_plan r) \<noteq> [] then serve_pipeline r ctx async signals req w else serve_direct r ctx req w)"

end
