(* ===== verification/Streams.thy ===== *)
theory Streams
  imports Cron_Leases
begin

text \<open>
  The stream trigger (\<open>runtime_stream.go\<close>, \<open>runtime_stream_state.go\<close>, \<open>runtime_stream_dlq.go\<close>): the
  processing of one delivery - reservation of its idempotency key, run of the plan, acknowledgement,
  redelivery and dead-lettering - the in-memory and the routing dead-letter queue and the replay of it.

  The world holds the counts of attempts and the dead-letter buffers, read and written through the
  fields of \<open>stream_env\<close>. The receiver of a broker delivers messages with their closures \<open>ack\<close> and \<open>nack\<close>.
\<close>

section \<open>Messages and their environment\<close>

record stream_data =
  sm_id :: string
  sm_body :: string
  sm_metadata :: "(string \<times> string) list"

record 'w stream_message = stream_data +
  sm_ack :: "(go_error option \<Rightarrow> 'w io) option"
  sm_nack :: "(go_error option \<Rightarrow> go_error \<Rightarrow> 'w io) option"

record 'w stream_dlq =
  dq_route :: "go_error option \<Rightarrow> string \<Rightarrow> 'w stream_message \<Rightarrow> 'w io"
  dq_drain :: "go_error option \<Rightarrow> string \<Rightarrow> 'w \<Rightarrow> (go_error + 'w stream_message list) \<times> 'w"

record 'w stream_env =
  sv_worker :: "'w worker"
  sv_attempts :: "'w \<Rightarrow> (string, int) gomap"
  sv_set_attempts :: "(string, int) gomap \<Rightarrow> 'w \<Rightarrow> 'w"
  sv_dlq :: "'w stream_dlq option"

abbreviation sv_rt :: "'w stream_env \<Rightarrow> 'w http_runtime" where
  "sv_rt sv \<equiv> wk_rt (sv_worker sv)"

section \<open>Attempts\<close>

definition next_attempt :: "'w stream_env \<Rightarrow> string \<Rightarrow> 'w \<Rightarrow> int \<times> 'w" where
  "next_attempt sv i w =
     (if i = [] then (1, w)
      else let n = i64 ((case mget (sv_attempts sv w) i of None \<Rightarrow> 0 | Some k \<Rightarrow> k) + 1) in
        (n, sv_set_attempts sv (mput i n (sv_attempts sv w)) w))"

definition clear_attempts :: "'w stream_env \<Rightarrow> string \<Rightarrow> 'w \<Rightarrow> 'w" where
  "clear_attempts sv i w = (if i = [] then w else sv_set_attempts sv (mdel i (sv_attempts sv w)) w)"

section \<open>The dead-letter queues\<close>

text \<open>The buffers of \<open>memoryStreamDLQ\<close>, by target; a buffered message has no closures.\<close>

type_synonym dlq_buffers = "(string, stream_data list) gomap"

definition without_closures :: "stream_data \<Rightarrow> 'w stream_message" where
  "without_closures d = stream_data.extend d \<lparr>sm_ack = None, sm_nack = None\<rparr>"

definition memory_route :: "('w \<Rightarrow> dlq_buffers) \<Rightarrow> (dlq_buffers \<Rightarrow> 'w \<Rightarrow> 'w) \<Rightarrow> string \<Rightarrow> 'w stream_message \<Rightarrow> 'w io" where
  "memory_route get_buf put_buf target m w =
     (let held = (case mget (get_buf w) target of None \<Rightarrow> [] | Some ms \<Rightarrow> ms) in
      (None, put_buf (mput target (held @ [stream_data.truncate m]) (get_buf w)) w))"

definition memory_drain ::
  "('w \<Rightarrow> dlq_buffers) \<Rightarrow> (dlq_buffers \<Rightarrow> 'w \<Rightarrow> 'w) \<Rightarrow> string \<Rightarrow> 'w \<Rightarrow> (go_error + 'w stream_message list) \<times> 'w" where
  "memory_drain get_buf put_buf target w =
     (Inr (map without_closures (case mget (get_buf w) target of None \<Rightarrow> [] | Some ms \<Rightarrow> ms)), put_buf (mdel target (get_buf w)) w)"

definition memory_depth :: "('w \<Rightarrow> dlq_buffers) \<Rightarrow> string \<Rightarrow> 'w \<Rightarrow> nat" where
  "memory_depth get_buf target w = length (case mget (get_buf w) target of None \<Rightarrow> [] | Some ms \<Rightarrow> ms)"

definition memory_stream_dlq :: "('w \<Rightarrow> dlq_buffers) \<Rightarrow> (dlq_buffers \<Rightarrow> 'w \<Rightarrow> 'w) \<Rightarrow> 'w stream_dlq" where
  "memory_stream_dlq get_buf put_buf = \<lparr>dq_route = (\<lambda>_. memory_route get_buf put_buf), dq_drain = (\<lambda>_. memory_drain get_buf put_buf)\<rparr>"

text \<open>\<open>scheme\<close> is the scheme of a URL that parses, in lower case.\<close>

definition broker_dlq_scheme :: "(string \<Rightarrow> string option) \<Rightarrow> string \<Rightarrow> bool" where
  "broker_dlq_scheme scheme target =
     (let t = trim_space target in
      if t = [] then False
      else case scheme t of None \<Rightarrow> False
        | Some s \<Rightarrow> s \<in> {''kafka'', ''nats'', ''redis'', ''rediss'', ''sqs'', ''http'', ''https''})"

definition routing_stream_dlq ::
  "(string \<Rightarrow> string option) \<Rightarrow> (go_error option \<Rightarrow> string \<Rightarrow> string \<Rightarrow> 'w io) \<Rightarrow> ('w \<Rightarrow> dlq_buffers) \<Rightarrow> (dlq_buffers \<Rightarrow> 'w \<Rightarrow> 'w)
     \<Rightarrow> 'w stream_dlq" where
  "routing_stream_dlq scheme publish get_buf put_buf = \<lparr>
     dq_route = (\<lambda>err target m w.
       if broker_dlq_scheme scheme target
       then (case publish err target (sm_body m) w of
               (Some e, w1) \<Rightarrow> (Some e, w1)
             | (None, w1) \<Rightarrow> memory_route get_buf put_buf target m w1)
       else memory_route get_buf put_buf target m w),
     dq_drain = (\<lambda>_. memory_drain get_buf put_buf)\<rparr>"

section \<open>The input of a run\<close>

definition stream_metadata :: "(string \<times> string) list \<Rightarrow> (string \<times> string) list" where
  "stream_metadata kvs = sort_key fst (fold (\<lambda>(k, v) m. if trim_space k = [] then m else mput (trim_space k) v m) kvs [])"

definition stream_input :: "'w http_runtime \<Rightarrow> 'w plan \<Rightarrow> 'w stream_message \<Rightarrow> string option" where
  "stream_input rt plan m =
     (let E = rx_ambient rt; meta = stream_metadata (sm_metadata m) in
      json_encode E (JObj
        ((if trim_space (sm_body m) = [] then []
          else [(''body'', case json_decode E (sm_body m) of Some j \<Rightarrow> j | None \<Rightarrow> JStr (sm_body m))])
         @ (if trim_space (sm_id m) = [] then [] else [(''id'', JStr (trim_space (sm_id m)))])
         @ (if meta = [] then [] else [(''metadata'', JObj (map (\<lambda>(k, v). (k, JStr v)) meta))])
         @ [(''trigger'', JStr ''stream''), (''uri'', JStr (rx_display_uri rt (tg_uri (pn_trigger plan))))])))"

section \<open>The reservation of a delivery\<close>

definition err_stream_pending :: go_error where
  "err_stream_pending = ErrVar ''stream idempotency reservation is still pending''"

definition stream_reservation_key :: "'w http_runtime \<Rightarrow> 'w plan \<Rightarrow> string \<Rightarrow> string" where
  "stream_reservation_key rt plan i =
     join_with '':'' [''trigger'', ''stream'', ''stream-message-id'', rx_sha rt (tg_uri (pn_trigger plan) @ CHR 0x00 # i)]"

definition stream_reservation_failure ::
  "'w run_store \<Rightarrow> string \<Rightarrow> string \<Rightarrow> go_error \<Rightarrow> 'w io" where
  "stream_reservation_failure db key execID cause w =
     (case us_outcomes db of None \<Rightarrow> (Some cause, w)
      | Some os \<Rightarrow> (case oo_resolve os None key execID IdempotencyFailed w of (e, w1) \<Rightarrow> (errors_join [Some cause, e], w1)))"

definition stream_reservation_completed :: "'w run_store \<Rightarrow> 'w tool_env \<Rightarrow> string \<Rightarrow> 'w \<Rightarrow> go_error + bool" where
  "stream_reservation_completed db ctx execID w =
     (case us_execution db (te_ctx_err ctx w) execID w of
        Inl err \<Rightarrow> Inl err
      | Inr x \<Rightarrow> Inr (case x of None \<Rightarrow> False | Some e \<Rightarrow> ex_status e = ExecutionCompleted))"

definition stream_session_for_exec :: "'w run_store \<Rightarrow> 'w tool_env \<Rightarrow> string \<Rightarrow> 'w \<Rightarrow> go_error + session option" where
  "stream_session_for_exec db ctx execID w =
     (case us_sessions db (te_ctx_err ctx w) w of
        Inl err \<Rightarrow> Inl err
      | Inr ss \<Rightarrow> Inr (find (\<lambda>s. ss_exec_id s = execID) ss))"

text \<open>Whether the conflicting reservation has succeeded (a duplicate) or is still pending.\<close>

definition stream_conflict :: "'w run_store \<Rightarrow> 'w tool_env \<Rightarrow> string \<Rightarrow> string \<Rightarrow> 'w \<Rightarrow> go_error + bool" where
  "stream_conflict db ctx key existing w =
     (case us_outcomes db of
        Some os \<Rightarrow>
          (case oo_idempotency os (te_ctx_err ctx w) key w of
             Inl err \<Rightarrow> Inl err
           | Inr None \<Rightarrow> Inl (ErrText ''stream idempotency reservation disappeared after conflict'')
           | Inr (Some r) \<Rightarrow>
               (case ir_outcome r of
                  IdempotencySucceeded \<Rightarrow> Inr True
                | IdempotencyPending \<Rightarrow> Inr False
                | IdempotencyFailed \<Rightarrow> Inl (ErrText ''failed stream idempotency reservation was not made available for retry'')
                | IdempotencyText t \<Rightarrow> Inl (ErrText (''unknown stream idempotency outcome '' @ CHR 0x22 # t @ [CHR 0x22]))))
      | None \<Rightarrow> stream_reservation_completed db ctx existing w)"

definition stream_payload :: "'w http_runtime \<Rightarrow> 'w plan \<Rightarrow> payload" where
  "stream_payload rt plan = [(''scope'', AnyStr ''trigger''), (''trigger'', AnyStr ''stream''),
     (''uri'', AnyStr (rx_display_uri rt (tg_uri (pn_trigger plan))))]"

text \<open>The result: the session of the run, whether the delivery is a duplicate, and an error.\<close>

definition reserve_stream_idempotency ::
  "'w http_runtime \<Rightarrow> 'w tool_env \<Rightarrow> 'w plan \<Rightarrow> 'w stream_message \<Rightarrow> 'w \<Rightarrow> (session option \<times> bool \<times> go_error option) \<times> 'w" where
  "reserve_stream_idempotency rt ctx plan m w =
     (let i = trim_space (sm_id m) in
      case (i, rx_store rt) of
        ([], _) \<Rightarrow> ((None, False, None), w)
      | (_, None) \<Rightarrow> ((None, False, None), w)
      | (_, Some db) \<Rightarrow>
     (case new_pipeline_session rt plan w of
        Inl err \<Rightarrow> ((None, False, Some err), w)
      | Inr s \<Rightarrow>
     (let key = stream_reservation_key rt plan i in
      case (case us_outcomes db of None \<Rightarrow> Inr False
            | Some os \<Rightarrow> map_sum id (\<lambda>r. case r of None \<Rightarrow> False | Some r \<Rightarrow> ir_outcome r = IdempotencyFailed)
                (oo_idempotency os (te_ctx_err ctx w) key w)) of
        Inl err \<Rightarrow> ((None, False, Some err), w)
      | Inr retrying \<Rightarrow>
     (case us_reserve db (te_ctx_err ctx w) key (ss_exec_id s) w of
        (Inl err, w1) \<Rightarrow> ((None, False, Some err), w1)
      | (Inr (_, True), w1) \<Rightarrow>
          (case hs_save_session (us_harness db) (te_ctx_err ctx w1) s w1 of
             (Some err, w2) \<Rightarrow>
               (case stream_reservation_failure db key (ss_exec_id s) err w2 of (e, w3) \<Rightarrow> ((None, False, e), w3))
           | (None, w2) \<Rightarrow>
               (case emit_session_event rt ctx s ''idempotency_decision''
                       (stream_payload rt plan @ [(''decision'', AnyStr (if retrying then ''retry'' else ''reserved''))]) w2 of
                  (Some err, w3) \<Rightarrow>
                    (case stream_reservation_failure db key (ss_exec_id s) err w3 of (e, w4) \<Rightarrow> ((None, False, e), w4))
                | (None, w3) \<Rightarrow> ((Some s, False, None), w3)))
      | (Inr (existing, False), w1) \<Rightarrow>
          (case stream_session_for_exec db ctx existing w1 of
             Inl err \<Rightarrow> ((None, False, Some err), w1)
           | Inr found \<Rightarrow>
          (let t = (case found of None \<Rightarrow> s | Some t \<Rightarrow> t) in
           case stream_conflict db ctx key existing w1 of
             Inl err \<Rightarrow> ((None, False, Some err), w1)
           | Inr duplicate \<Rightarrow>
               (case emit_session_event rt ctx t ''idempotency_decision''
                       (stream_payload rt plan @ [(''existing_exec_id'', AnyStr existing),
                          (''decision'', AnyStr (if duplicate then ''duplicate'' else ''in_progress''))]) w1 of
                  (Some err, w2) \<Rightarrow> ((None, False, Some err), w2)
                | (None, w2) \<Rightarrow>
                    if duplicate then ((Some t, True, None), w2)
                    else ((Some t, False, Some (ErrWrap [] err_stream_pending ('' for execution '' @ existing))), w2))))))))"

section \<open>The run of a delivery\<close>

definition apply_stream_terminal :: "'w worker \<Rightarrow> 'w plan \<Rightarrow> 'w plan_terminal" where
  "apply_stream_terminal wk plan ctx result w =
     (let t = pn_terminal plan in
      if tm_kind t = terminal_push then apply_push_terminal (wk_rt wk) (wk_egress wk) ctx t result (pr_output result) w
      else if tm_kind t = terminal_sink then
        apply_sink_terminal (wk_rt wk) (wk_egress wk) ctx t result (if pn_steps plan = [] then ''input'' else ''output'') w
      else if tm_kind t = terminal_reply then (Some (ErrWrap [] err_incompatible_terminal '': Reply requires an HTTP trigger''), w)
      else (Some (ErrWrap [] err_incompatible_terminal '': terminal missing''), w))"

definition result_from_input :: "string \<Rightarrow> session option \<Rightarrow> plan_run_result" where
  "result_from_input input s = \<lparr>pr_output = input, pr_session = s\<rparr>"

definition run_stream_plan_once :: "'w stream_env \<Rightarrow> 'w tool_env \<Rightarrow> 'w plan \<Rightarrow> 'w stream_message \<Rightarrow> 'w run_result" where
  "run_stream_plan_once sv ctx plan m w =
     (let wk = sv_worker sv; rt = wk_rt wk; none = result_from_input [] None in
      if tg_kind (pn_trigger plan) \<noteq> trigger_stream
      then ((none, Some (ErrWrap [] err_run_not_implemented '': expected stream trigger'')), w)
      else case stream_input rt plan m of
        None \<Rightarrow> ((none, Some (ErrText ''json: unsupported value'')), w)
      | Some input \<Rightarrow>
     (case reserve_stream_idempotency rt ctx plan m w of
        ((s, duplicate, Some err), w1) \<Rightarrow> ((result_from_input input s, Some err), w1)
      | ((s, duplicate, None), w1) \<Rightarrow>
          if duplicate then ((result_from_input input s, None), w1)
          else if pn_steps plan = [] \<and> rx_durable rt = None \<and> s = None
          then (case apply_stream_terminal wk plan ctx (result_from_input input None) w1 of
                  (err, w2) \<Rightarrow> ((result_from_input input None, err), w2))
          else case run_plan wk ctx plan input s (Some (apply_stream_terminal wk plan)) w1 of
            ((r, None), w2) \<Rightarrow> ((r, None), w2)
          | ((r, Some err), w2) \<Rightarrow>
              (case resolve_reserved_failure rt (without_cancel ctx) s w2 of
                 (e, w3) \<Rightarrow> ((r, errors_join [Some err, e]), w3))))"

section \<open>The end of a delivery\<close>

definition ack_message :: "'w tool_env \<Rightarrow> 'w stream_message \<Rightarrow> 'w io" where
  "ack_message ctx m w = (case sm_ack m of None \<Rightarrow> (None, w) | Some f \<Rightarrow> f (te_ctx_err ctx w) w)"

definition nack_message :: "'w tool_env \<Rightarrow> 'w stream_message \<Rightarrow> go_error \<Rightarrow> 'w io" where
  "nack_message ctx m err w = (case sm_nack m of None \<Rightarrow> (None, w) | Some f \<Rightarrow> f (te_ctx_err ctx w) err w)"

text \<open>\<open>errors.Join\<close> of two calls, in their order.\<close>

definition both :: "'w io \<Rightarrow> 'w io \<Rightarrow> 'w io" where
  "both f g w = (case f w of (e1, w1) \<Rightarrow> case g w1 of (e2, w2) \<Rightarrow> (errors_join [e1, e2], w2))"

definition emit_dead_letter ::
  "'w http_runtime \<Rightarrow> 'w tool_env \<Rightarrow> 'w plan \<Rightarrow> plan_run_result \<Rightarrow> 'w stream_message \<Rightarrow> go_error \<Rightarrow> int \<Rightarrow> 'w io" where
  "emit_dead_letter rt ctx plan r m err attempt =
     (let target = trim_space (tg_dlq_target (pn_trigger plan)) in
      emit_runtime_event rt ctx r ''stream_dead_lettered''
        ([(''trigger'', AnyStr ''stream''), (''uri'', AnyStr (rx_display_uri rt (tg_uri (pn_trigger plan)))),
          (''terminal'', AnyStr (tm_kind (pn_terminal plan))), (''steps'', any_int (int (length (pn_steps plan)))),
          (''error'', any_err err), (''reason'', any_err err),
          (''dlq'', AnyStr (if target = [] then ''event_only'' else rx_display_uri rt target))]
         @ (if 0 < attempt then [(''attempt'', any_int attempt)] else [])
         @ (if trim_space (sm_id m) = [] then [] else [(''id'', AnyStr (trim_space (sm_id m)))])))"

definition emit_redelivered ::
  "'w http_runtime \<Rightarrow> 'w tool_env \<Rightarrow> 'w plan \<Rightarrow> plan_run_result \<Rightarrow> 'w stream_message \<Rightarrow> go_error \<Rightarrow> int \<Rightarrow> 'w io" where
  "emit_redelivered rt ctx plan r m err attempt =
     emit_runtime_event rt ctx r ''stream_redelivered''
       ([(''trigger'', AnyStr ''stream''), (''uri'', AnyStr (rx_display_uri rt (tg_uri (pn_trigger plan)))),
         (''reason'', any_err err), (''error'', any_err err), (''attempt'', any_int attempt)]
        @ (if trim_space (sm_id m) = [] then [] else [(''id'', AnyStr (trim_space (sm_id m)))]))"

definition dead_letter_message ::
  "'w stream_env \<Rightarrow> 'w tool_env \<Rightarrow> 'w plan \<Rightarrow> plan_run_result \<Rightarrow> 'w stream_message \<Rightarrow> go_error \<Rightarrow> int \<Rightarrow> 'w io" where
  "dead_letter_message sv ctx plan r m err attempt w =
     (let target = trim_space (tg_dlq_target (pn_trigger plan)); emit = emit_dead_letter (sv_rt sv) ctx plan r m err attempt in
      if target = [] then emit w
      else case sv_dlq sv of
        None \<Rightarrow> emit w
      | Some d \<Rightarrow>
          (case dq_route d (te_ctx_err ctx w) target m w of
             (Some e, w1) \<Rightarrow> (case nack_message ctx m err w1 of (e2, w2) \<Rightarrow> (errors_join [Some e, e2], w2))
           | (None, w1) \<Rightarrow> both (ack_message ctx m) emit w1))"

text \<open>\<open>strings.EqualFold\<close> with \<open>manual\<close>, a word of letters that fold to their other case only.\<close>

definition stream_manual_ack :: "trigger \<Rightarrow> bool" where
  "stream_manual_ack t = ascii_equal_fold (trim_space (tg_ack_policy t)) ''manual''"

definition stream_in_flight_limit :: "trigger \<Rightarrow> int" where
  "stream_in_flight_limit t = (if 0 < tg_max_in_flight t then tg_max_in_flight t else tg_worker_pool t)"

definition process_stream_message :: "'w stream_env \<Rightarrow> 'w tool_env \<Rightarrow> 'w plan \<Rightarrow> 'w stream_message \<Rightarrow> 'w io" where
  "process_stream_message sv ctx plan m w =
     (let rt = sv_rt sv in
      case next_attempt sv (sm_id m) w of (attempt, w0) \<Rightarrow>
      (case run_stream_plan_once sv ctx plan m w0 of
         ((r, None), w1) \<Rightarrow>
           (let w2 = clear_attempts sv (sm_id m) w1 in
            if stream_manual_ack (pn_trigger plan) then (None, w2)
            else case ack_message ctx m w2 of
              (None, w3) \<Rightarrow> (None, w3)
            | (Some err, w3) \<Rightarrow> dead_letter_message sv ctx plan r m err attempt w3)
       | ((r, Some err), w1) \<Rightarrow>
           if errors_is err err_stream_pending
           then both (emit_redelivered rt ctx plan r m err attempt) (nack_message ctx m err) w1
           else if errors_is err CtxCanceled \<or> errors_is err CtxDeadline then (Some err, w1)
           else let maxAttempts = tg_max_attempts (pn_trigger plan) in
             if maxAttempts \<le> 0
             then both (dead_letter_message sv ctx plan r m err attempt) (nack_message ctx m err) (clear_attempts sv (sm_id m) w1)
             else if attempt < maxAttempts
             then both (emit_redelivered rt ctx plan r m err attempt) (nack_message ctx m err) w1
             else dead_letter_message sv ctx plan r m err attempt (clear_attempts sv (sm_id m) w1)))"

section \<open>The replay of a dead-letter queue\<close>

fun replay_messages ::
  "'w stream_env \<Rightarrow> 'w stream_dlq \<Rightarrow> 'w tool_env \<Rightarrow> 'w plan \<Rightarrow> string \<Rightarrow> nat \<Rightarrow> 'w stream_message list \<Rightarrow> 'w
     \<Rightarrow> (nat \<times> go_error option) \<times> 'w" where
  "replay_messages sv d ctx plan target n [] w = ((n, None), w)"
| "replay_messages sv d ctx plan target n (m # ms) w =
     (case run_stream_plan_once sv ctx plan m w of
        ((_, Some err), w1) \<Rightarrow> ((n, Some err), snd (dq_route d (te_ctx_err ctx w1) target m w1))
      | ((_, None), w1) \<Rightarrow> replay_messages sv d ctx plan target (n + 1) ms w1)"

definition replay_stream_dlq :: "'w stream_env \<Rightarrow> 'w tool_env \<Rightarrow> 'w plan \<Rightarrow> 'w \<Rightarrow> (nat \<times> go_error option) \<times> 'w" where
  "replay_stream_dlq sv ctx plan w =
     (case sv_dlq sv of None \<Rightarrow> ((0, None), w)
      | Some d \<Rightarrow>
          (let target = tg_dlq_target (pn_trigger plan) in
           if target = [] then ((0, None), w)
           else case dq_drain d (te_ctx_err ctx w) target w of
             (Inl err, w1) \<Rightarrow> ((0, Some err), w1)
           | (Inr ms, w1) \<Rightarrow> replay_messages sv d ctx plan target 0 ms w1))"

end
