(* ===== verification/Stream_Facts.thy ===== *)
theory Stream_Facts
  imports Streams
begin

text \<open>
  What the processing of stream deliveries guarantees, and where it does not: when a delivery is
  acknowledged, how many attempts a poisoned message has, and what a replay of the queue loses.
\<close>

section \<open>The acknowledgement\<close>

lemma stream_input_ack [simp]: "stream_input rt plan (m \<lparr>sm_ack := a\<rparr>) = stream_input rt plan m"
  by (simp add: stream_input_def Let_def cong: option.case_cong)

lemma reserve_ack [simp]: "reserve_stream_idempotency rt ctx plan (m \<lparr>sm_ack := a\<rparr>) = reserve_stream_idempotency rt ctx plan m"
  by (rule ext) (simp add: reserve_stream_idempotency_def Let_def)

lemma run_once_ack [simp]: "run_stream_plan_once sv ctx plan (m \<lparr>sm_ack := a\<rparr>) = run_stream_plan_once sv ctx plan m"
  by (rule ext) (simp add: run_stream_plan_once_def Let_def cong: option.case_cong)

lemma nack_ack [simp]: "nack_message ctx (m \<lparr>sm_ack := a\<rparr>) = nack_message ctx m"
  by (intro ext) (simp add: nack_message_def)

lemma emit_dead_letter_ack [simp]: "emit_dead_letter rt ctx plan r (m \<lparr>sm_ack := a\<rparr>) = emit_dead_letter rt ctx plan r m"
  by (intro ext) (simp add: emit_dead_letter_def)

lemma emit_redelivered_ack [simp]: "emit_redelivered rt ctx plan r (m \<lparr>sm_ack := a\<rparr>) = emit_redelivered rt ctx plan r m"
  by (intro ext) (simp add: emit_redelivered_def)

text \<open>A queue that does not look at the acknowledgement of the message it stores.\<close>

definition routes_data :: "'w stream_dlq \<Rightarrow> bool" where
  "routes_data d \<longleftrightarrow> (\<forall>e t m a w. dq_route d e t (m \<lparr>sm_ack := a\<rparr>) w = dq_route d e t m w)"

lemma memory_routes_data: "routes_data (memory_stream_dlq get_buf put_buf)"
  by (simp add: routes_data_def memory_stream_dlq_def memory_route_def stream_data.defs)

lemma routing_routes_data: "routes_data (routing_stream_dlq scheme publish get_buf put_buf)"
  by (simp add: routes_data_def routing_stream_dlq_def memory_route_def stream_data.defs split: prod.split option.split)

lemma dead_letter_no_ack:
  assumes "\<forall>d. sv_dlq sv = Some d \<longrightarrow> routes_data d \<and> (\<forall>e t m w. fst (dq_route d e t m w) \<noteq> None)"
  shows "dead_letter_message sv ctx plan r (m \<lparr>sm_ack := a\<rparr>) err attempt = dead_letter_message sv ctx plan r m err attempt"
proof (rule ext)
  fix w
  show "dead_letter_message sv ctx plan r (m \<lparr>sm_ack := a\<rparr>) err attempt w = dead_letter_message sv ctx plan r m err attempt w"
  proof (cases "sv_dlq sv")
    case (Some d)
    obtain e w1 where route: "dq_route d (te_ctx_err ctx w) (trim_space (tg_dlq_target (pn_trigger plan))) m w = (Some e, w1)"
      using assms Some by (metis option.exhaust prod.collapse)
    then have "dq_route d (te_ctx_err ctx w) (trim_space (tg_dlq_target (pn_trigger plan))) (m \<lparr>sm_ack := a\<rparr>) w = (Some e, w1)"
      using assms Some by (simp add: routes_data_def)
    with Some route show ?thesis by (simp add: dead_letter_message_def Let_def)
  qed (simp add: dead_letter_message_def Let_def)
qed


section \<open>The budget of attempts\<close>

text \<open>
  The world of a poisoned message: every run fails with an error that is neither a pending reservation
  nor a cancellation, and nothing but the tracker touches the counts of attempts.
\<close>

definition poisoned :: "'w stream_env \<Rightarrow> 'w tool_env \<Rightarrow> 'w plan \<Rightarrow> 'w stream_message \<Rightarrow> bool" where
  "poisoned sv ctx plan m \<longleftrightarrow>
     (\<forall>a w. sv_attempts sv (sv_set_attempts sv a w) = a)
   \<and> (\<forall>w. \<exists>r err w1. run_stream_plan_once sv ctx plan m w = ((r, Some err), w1) \<and> sv_attempts sv w1 = sv_attempts sv w
        \<and> \<not> errors_is err err_stream_pending \<and> \<not> errors_is err CtxCanceled \<and> \<not> errors_is err CtxDeadline)
   \<and> (\<forall>r err n w. sv_attempts sv (snd (emit_redelivered (sv_rt sv) ctx plan r m err n w)) = sv_attempts sv w)
   \<and> (\<forall>err w. sv_attempts sv (snd (nack_message ctx m err w)) = sv_attempts sv w)"

lemma poisoned_run:
  assumes "poisoned sv ctx plan m"
  obtains r err w1 where "run_stream_plan_once sv ctx plan m w = ((r, Some err), w1)" "sv_attempts sv w1 = sv_attempts sv w"
    "\<not> errors_is err err_stream_pending" "\<not> errors_is err CtxCanceled" "\<not> errors_is err CtxDeadline"
  using assms unfolding poisoned_def by meson

definition deliver :: "'w stream_env \<Rightarrow> 'w tool_env \<Rightarrow> 'w plan \<Rightarrow> 'w stream_message \<Rightarrow> 'w \<Rightarrow> 'w" where
  "deliver sv ctx plan m w = snd (process_stream_message sv ctx plan m w)"

lemma deliver_within_budget:
  assumes "poisoned sv ctx plan m" "sm_id m \<noteq> []" "mget (sv_attempts sv w) (sm_id m) = (if k = 0 then None else Some (int k))"
    "int k + 1 < tg_max_attempts (pn_trigger plan)" "tg_max_attempts (pn_trigger plan) < 2 ^ 63"
  shows "mget (sv_attempts sv (deliver sv ctx plan m w)) (sm_id m) = Some (int (Suc k))"
proof -
  have "i64 (int k + 1) = int k + 1" using assms(4,5) by (intro i64_small) auto
  then have n: "next_attempt sv (sm_id m) w = (int k + 1, sv_set_attempts sv (mput (sm_id m) (int k + 1) (sv_attempts sv w)) w)"
    using assms(2,3) by (auto simp: next_attempt_def Let_def)
  let ?w0 = "sv_set_attempts sv (mput (sm_id m) (int k + 1) (sv_attempts sv w)) w"
  obtain r err w1 where run: "run_stream_plan_once sv ctx plan m ?w0 = ((r, Some err), w1)" "sv_attempts sv w1 = sv_attempts sv ?w0"
    "\<not> errors_is err err_stream_pending" "\<not> errors_is err CtxCanceled" "\<not> errors_is err CtxDeadline"
    using poisoned_run [OF assms(1)] by blast
  then have "process_stream_message sv ctx plan m w
      = both (emit_redelivered (sv_rt sv) ctx plan r m err (int k + 1)) (nack_message ctx m err) w1"
    using n assms(4) by (simp add: process_stream_message_def)
  moreover have "sv_attempts sv (snd (both (emit_redelivered (sv_rt sv) ctx plan r m err (int k + 1)) (nack_message ctx m err) w1))
      = sv_attempts sv w1"
    using assms(1) by (simp add: both_def poisoned_def split: prod.split) (metis snd_conv)
  moreover have "sv_attempts sv ?w0 = mput (sm_id m) (int k + 1) (sv_attempts sv w)" using assms(1) by (simp add: poisoned_def)
  ultimately show ?thesis using run(2) by (simp add: deliver_def)
qed


text \<open>
  A delivery that is parked because another worker owns it does consume the budget: it is counted as an
  attempt like a failed one before its reservation is looked at, and the count is kept, although the
  code says that it is not.
\<close>

theorem pending_consumes_budget:
  assumes "run_stream_plan_once sv ctx plan m (snd (next_attempt sv (sm_id m) w)) = ((r, Some err), w1)"
    "errors_is err err_stream_pending"
    "\<forall>n w. sv_attempts sv (snd (emit_redelivered (sv_rt sv) ctx plan r m err n w)) = sv_attempts sv w"
    "\<forall>w. sv_attempts sv (snd (nack_message ctx m err w)) = sv_attempts sv w"
    "sv_attempts sv w1 = sv_attempts sv (snd (next_attempt sv (sm_id m) w))"
  shows "sv_attempts sv (deliver sv ctx plan m w) = sv_attempts sv (snd (next_attempt sv (sm_id m) w))"
proof -
  obtain n w0 where n: "next_attempt sv (sm_id m) w = (n, w0)" by (metis prod.collapse)
  with assms(1,2) have "process_stream_message sv ctx plan m w
      = both (emit_redelivered (sv_rt sv) ctx plan r m err n) (nack_message ctx m err) w1"
    by (simp add: process_stream_message_def)
  moreover have "sv_attempts sv (snd (both (emit_redelivered (sv_rt sv) ctx plan r m err n) (nack_message ctx m err) w1))
      = sv_attempts sv w1"
    using assms(3,4) by (simp add: both_def split: prod.split) (metis snd_conv)
  ultimately show ?thesis using assms(5) n by (simp add: deliver_def)
qed

section \<open>The replay of the dead-letter queue\<close>

text \<open>
  A replay that fails loses the messages it did not come to: the queue was drained before the first of
  them was run, and only the message that failed is stored again, so that the caller cannot retry the
  remainder.
\<close>

theorem dlq_replay_loses_rest:
  assumes "sv_dlq sv = Some (memory_stream_dlq get_buf put_buf)" "tg_dlq_target (pn_trigger plan) \<noteq> []"
    "mget (get_buf w) (tg_dlq_target (pn_trigger plan)) = Some (d # ds)"
    "\<forall>b v. get_buf (put_buf b v) = b"
    "run_stream_plan_once sv ctx plan (without_closures d) (put_buf (mdel (tg_dlq_target (pn_trigger plan)) (get_buf w)) w) = ((r, Some err), w1)"
    "get_buf w1 = mdel (tg_dlq_target (pn_trigger plan)) (get_buf w)"
  shows "fst (replay_stream_dlq sv ctx plan w) = (0, Some err)
    \<and> mget (get_buf (snd (replay_stream_dlq sv ctx plan w))) (tg_dlq_target (pn_trigger plan)) = Some [d]"
proof -
  let ?t = "tg_dlq_target (pn_trigger plan)" and ?d = "memory_stream_dlq get_buf put_buf"
  have "dq_drain ?d (te_ctx_err ctx w) ?t w = (Inr (map without_closures (d # ds)), put_buf (mdel ?t (get_buf w)) w)"
    using assms(3) by (simp add: memory_stream_dlq_def memory_drain_def)
  with assms(1,2,5) have run: "replay_stream_dlq sv ctx plan w
      = ((0, Some err), snd (dq_route ?d (te_ctx_err ctx w1) ?t (without_closures d) w1))"
    by (simp add: replay_stream_dlq_def)
  have "stream_data.truncate (without_closures d :: 'a stream_message) = d" by (simp add: without_closures_def stream_data.defs)
  then show ?thesis using assms(4,6) unfolding run by (simp add: memory_stream_dlq_def memory_route_def Let_def)
qed

section \<open>A worker that runs messages\<close>

text \<open>
  The world of the example: the counts of attempts and the buffers of the queue. The plan has no step
  and no terminal, so that every run of it fails.
\<close>

record stream_world =
  aw_attempts :: "(string, int) gomap"
  aw_queue :: dlq_buffers

definition bare_world :: "'w harness_world" where
  "bare_world = \<lparr>xe_alloc_ledger = (\<lambda>_ w. (0, w)), xe_ledger = (\<lambda>_ _. new_budget_ledger zero_budget), xe_set_ledger = (\<lambda>_ _ w. w),
     xe_alloc_stream = (\<lambda>w. (0, w)), xe_append = (\<lambda>_ _ _ _ _ w. (None, w)), xe_acquire = (\<lambda>_ _ _ w. (None, w)),
     xe_release = (\<lambda>_ _ w. w), xe_now = (\<lambda>_. 5), xe_fresh = (\<lambda>_ pre. pre @ ''1''), xe_sleep = (\<lambda>_ _ w. (None, w)),
     xe_approval_id = (\<lambda>w. (''ap1'', w)), xe_schedule = (\<lambda>_ n. [0..<n]), xe_sha256 = (\<lambda>_. ''h''), xe_encode_cache = (\<lambda>_ _ _. None)\<rparr>"

definition bare_runtime :: "'w run_store option \<Rightarrow> 'w http_runtime" where
  "bare_runtime db = \<lparr>rx_world = bare_world, rx_registry = None, rx_provider = None, rx_executor = None, rx_store = db, rx_stream = None,
     rx_hook_bus = None, rx_schema_repairs = 0, rx_pricing = [], rx_stream_deltas = False, rx_gate = None, rx_cron_lease = None,
     rx_durable = None, rx_replica_id = ''r1'', rx_normalize = (\<lambda>_. Inr), rx_load_skill = (\<lambda>_ n w. (Inl (ErrText n), w)),
     rx_bash = (\<lambda>_. Inl (ErrText ''no sandbox'')), rx_mcp_connect = (\<lambda>_ n w. (Inl (ErrText ''no server''), w)), rx_num_cpu = 2,
     rx_raw_items = (\<lambda>_. Inr None), rx_schedule = (\<lambda>_ n. [0..<n]), rx_pick_done = (\<lambda>_. True), rx_prune_failed = (\<lambda>_ w. w),
     rx_new_heartbeat = (\<lambda>w. (0, w)), rx_lost = (\<lambda>_ _. None), rx_mark_lost = (\<lambda>_ _ w. w), rx_display_uri = id,
     rx_float_text = (\<lambda>_. []), rx_build = ''b'', rx_ambient = \<lparr>environ = [], json_decode = (\<lambda>_. None), json_encode = (\<lambda>_. Some ''{}''),
     parse_float = (\<lambda>_. 0)\<rparr>\<rparr>"

definition bare_worker :: "'w http_runtime \<Rightarrow> 'w worker" where
  "bare_worker rt = \<lparr>wk_rt = rt, wk_egress = \<lparr>eg_post_webhook = (\<lambda>_ _ _ w. (None, w)), eg_publish_queue = (\<lambda>_ _ _ w. (None, w)),
     eg_write_file = None, eg_validate_json = (\<lambda>_ _. None)\<rparr>, wk_has_registry = False, wk_registry = (\<lambda>_. []),
     wk_set_registry = (\<lambda>_ w. w), wk_accepts_async = (\<lambda>_. True)\<rparr>"

definition idle_env :: "'w tool_env" where
  "idle_env = \<lparr>te_ctx_err = (\<lambda>_. None), te_tool_ctx_err = (\<lambda>_. None), te_observe = (\<lambda>_ w. (None, w)), te_approved = None,
     te_resolver = None, te_gate = None, te_idem = None, te_replay = False, te_intents = None, te_max_retries = 0, te_backoff = 0,
     te_observe_retry = (\<lambda>_ w. (None, w)), te_wait = (\<lambda>_ w. (None, w)), te_sha256 = id,
     te_ambient = rx_ambient (bare_runtime None :: unit http_runtime), te_session = None, te_ledger = None, te_depth = 0\<rparr>"

definition stream_plan :: "string \<Rightarrow> 'w plan" where
  "stream_plan terminal = \<lparr>pn_trigger = \<lparr>tg_kind = trigger_stream, tg_method = [], tg_path = [], tg_expr = [], tg_value = [],
     tg_uri = ''nats://h/t'', tg_worker_pool = 0, tg_idempotency_header = [], tg_signature_env = [], tg_signature_header = [],
     tg_dlq_target = ''mem://dlq'', tg_max_attempts = 3, tg_max_in_flight = 0, tg_ack_policy = []\<rparr>, pn_steps = [],
     pn_terminal = \<lparr>tm_kind = terminal, tm_async = False, tm_sse = False, tm_result_schema = None, tm_sink_log = False,
       tm_sink_file_path = [], tm_push_webhook_url = [], tm_push_queue_uri = []\<rparr>\<rparr>"

definition counted_env :: "stream_world run_store option \<Rightarrow> stream_world stream_env" where
  "counted_env db = \<lparr>sv_worker = bare_worker (bare_runtime db), sv_attempts = aw_attempts, sv_set_attempts = (\<lambda>a w. w \<lparr>aw_attempts := a\<rparr>),
     sv_dlq = Some (memory_stream_dlq aw_queue (\<lambda>b w. w \<lparr>aw_queue := b\<rparr>))\<rparr>"

definition stream_message_of :: "string \<Rightarrow> stream_world stream_message" where
  "stream_message_of i = without_closures \<lparr>sm_id = i, sm_body = ''x'', sm_metadata = []\<rparr>"

lemma bare_run:
  "run_stream_plan_once (counted_env None) idle_env (stream_plan ''?'') m w
    = ((result_from_input ''{}'' None, Some (ErrWrap [] err_incompatible_terminal '': terminal missing'')), w)"
  by (simp add: run_stream_plan_once_def stream_plan_def counted_env_def bare_worker_def bare_runtime_def stream_input_def
    reserve_stream_idempotency_def apply_stream_terminal_def result_from_input_def Let_def split: list.split)

lemma bare_emits:
  "snd (emit_redelivered (sv_rt (counted_env db)) idle_env plan r m err n w) = w"
  by (cases "pr_session r") (simp_all add: emit_redelivered_def emit_runtime_event_def emit_session_event_def emit_through_hooks_def counted_env_def
    bare_worker_def bare_runtime_def bare_world_def)

lemma bare_nacks: "snd (nack_message idle_env (stream_message_of i) err w) = w"
  by (simp add: nack_message_def stream_message_of_def without_closures_def stream_data.defs)

lemma bare_poisoned: "poisoned (counted_env None) idle_env (stream_plan ''?'') (stream_message_of i)"
  unfolding poisoned_def bare_run bare_emits bare_nacks
  by (simp add: counted_env_def errors_is_def err_incompatible_terminal_def err_stream_pending_def)



theorem dlq_replay_loses_rest_witness:
  "mget (aw_queue (snd (replay_stream_dlq (counted_env None) idle_env (stream_plan ''?'')
     \<lparr>aw_attempts = [], aw_queue = [(''mem://dlq'', [\<lparr>sm_id = ''a'', sm_body = [], sm_metadata = []\<rparr>, \<lparr>sm_id = ''b'', sm_body = [], sm_metadata = []\<rparr>])]\<rparr>)))
     ''mem://dlq'' = Some [\<lparr>sm_id = ''a'', sm_body = [], sm_metadata = []\<rparr>]"
  using dlq_replay_loses_rest [of "counted_env None" aw_queue "\<lambda>b w. w \<lparr>aw_queue := b\<rparr>" "stream_plan ''?''"
      "\<lparr>aw_attempts = [], aw_queue = [(''mem://dlq'', [\<lparr>sm_id = ''a'', sm_body = [], sm_metadata = []\<rparr>, \<lparr>sm_id = ''b'', sm_body = [], sm_metadata = []\<rparr>])]\<rparr>",
      OF _ _ _ _ bare_run]
  by (simp add: counted_env_def stream_plan_def)

text \<open>A store in which another execution holds the key of every delivery.\<close>

definition busy_store :: "stream_world run_store" where
  "busy_store = \<lparr>us_harness = \<lparr>hs_save_execution = (\<lambda>_ _ w. (None, w)), hs_save_session = (\<lambda>_ _ w. (None, w)),
       hs_add_violation = (\<lambda>_ _ w. (None, w)), hs_save_approval = (\<lambda>_ _ w. (None, w)), hs_idem = (\<lambda>_ _ e ns. \<lparr>ie_exec_id = e,
         ie_namespace = ns, ie_reserve = (\<lambda>_ i w. (Inr (i, True), w)), ie_outcomes = None\<rparr>)\<rparr>,
     us_execution = (\<lambda>_ _ _. Inr None), us_sessions = (\<lambda>_ _. Inr []), us_reserve = (\<lambda>_ _ _ w. (Inr (''e0'', False), w)),
     us_outcomes = Some \<lparr>oo_idempotency = (\<lambda>_ k _. Inr (Some \<lparr>ir_key = k, ir_exec_id = ''e0'', ir_outcome = IdempotencyPending,
         ir_created_at = 1, ir_updated_at = 1\<rparr>)), oo_resolve = (\<lambda>_ _ _ _ w. (None, w)), oo_resolve_by_execution = (\<lambda>_ _ _ _ w. (None, w))\<rparr>,
     us_leases = None, us_save_journal = (\<lambda>_ _ w. (None, w)), us_journals = (\<lambda>_ _. Inr []), us_save_checkpoint = (\<lambda>_ _ w. (None, w)),
     us_checkpoints = (\<lambda>_ _ _. Inr []), us_begin_intent = (\<lambda>_ _ w. (None, w)), us_complete_intent = (\<lambda>_ _ _ w. (None, w)),
     us_intents = (\<lambda>_ _ _. Inr []), us_prune = (\<lambda>_ _ w. (None, w)), us_prune_before = (\<lambda>_ _ w. (None, w)), us_approvals = (\<lambda>_ _ _. Inr [])\<rparr>"

theorem pending_consumes_budget_witness:
  "mget (aw_attempts (deliver (counted_env (Some busy_store)) idle_env (stream_plan ''?'') (stream_message_of ''m'')
     \<lparr>aw_attempts = [], aw_queue = []\<rparr>)) ''m'' = Some 1"
proof -
  let ?sv = "counted_env (Some busy_store)" and ?m = "stream_message_of ''m''"
  let ?next = "next_attempt ?sv (sm_id ?m) \<lparr>aw_attempts = [], aw_queue = []\<rparr>"
  have counted: "snd ?next = \<lparr>aw_attempts = [(''m'', 1)], aw_queue = []\<rparr>" by code_simp
  have "case run_stream_plan_once ?sv idle_env (stream_plan ''?'') ?m (snd ?next) of
      ((_, Some e), w) \<Rightarrow> errors_is e err_stream_pending \<and> aw_attempts w = [(''m'', 1)] | _ \<Rightarrow> False" by code_simp
  then obtain r e w1 where run: "run_stream_plan_once ?sv idle_env (stream_plan ''?'') ?m (snd ?next) = ((r, Some e), w1)"
    "errors_is e err_stream_pending" "aw_attempts w1 = [(''m'', 1)]"
    by (auto split: prod.splits option.splits)
  have sel: "sv_attempts ?sv = aw_attempts" by (simp add: counted_env_def)
  have "sv_attempts ?sv (deliver ?sv idle_env (stream_plan ''?'') ?m \<lparr>aw_attempts = [], aw_queue = []\<rparr>) = sv_attempts ?sv (snd ?next)"
    by (rule pending_consumes_budget [OF run(1,2)]) (simp_all add: bare_emits bare_nacks sel counted run(3))
  then show ?thesis by (simp add: sel counted)
qed

end
