(* ===== verification/Http_Facts.thy ===== *)
theory Http_Facts
  imports Http_Serve Stream_Facts
begin

text \<open>
  What the HTTP trigger guarantees: which signatures it accepts, that a request that is not admitted
  runs nothing, and what the client of a server-sent reply receives.
\<close>

section \<open>Signatures\<close>

definition hex_char :: "nat \<Rightarrow> char" where
  "hex_char n = char_of (if n < 10 then 48 + n else 87 + n)"

definition hex_encode :: "string \<Rightarrow> string" where
  "hex_encode bs = concat (map (\<lambda>b. [hex_char (of_char b div 16), hex_char (of_char b mod 16)]) bs)"

lemma of_char_lower: "(of_char (lower_char c) :: nat) = (if 65 \<le> (of_char c :: nat) \<and> (of_char c :: nat) \<le> 90 then of_char c + 32 else of_char c)"
  by (auto simp: lower_char_def Let_def)

lemma hex_value_iff: "hex_value c = Some v \<longleftrightarrow> v < 16 \<and> lower_char c = hex_char v"
proof -
  have "lower_char c = hex_char v \<longleftrightarrow> (of_char (lower_char c) :: nat) = of_char (hex_char v)" by simp
  then show ?thesis
    by (auto simp: hex_value_def less_eq_char_def of_char_lower hex_char_def split: if_splits)
qed

lemma hex_decode_iff: "hex_decode ds = Some bs \<longleftrightarrow> map lower_char ds = hex_encode bs"
proof (induction ds arbitrary: bs rule: hex_decode.induct)
  case 1
  show ?case by (cases bs) (auto simp: hex_encode_def)
next
  case (2 c)
  show ?case by (cases bs) (auto simp: hex_encode_def)
next
  case (3 c d cs)
  show ?case
  proof (cases bs)
    case Nil
    then show ?thesis by (simp add: hex_encode_def split: option.split)
  next
    case (Cons b bt)
    have b: "char_of (16 * x + y) = b \<longleftrightarrow> x = (of_char b :: nat) div 16 \<and> y = of_char b mod 16" if "x < 16" "y < 16" for x y :: nat
    proof -
      have "(16 * x + y) mod 256 = 16 * x + y" using that by simp
      then have "char_of (16 * x + y) = b \<longleftrightarrow> 16 * x + y = (of_char b :: nat)" by (simp add: char_of_eq_iff take_bit_eq_mod)
      then show ?thesis using that by auto
    qed
    have bound: "(of_char b :: nat) div 16 < 16" "(of_char b :: nat) mod 16 < 16"
      by (simp_all add: less_mult_imp_div_less)
    have "hex_decode (c # d # cs) = Some bs
        \<longleftrightarrow> hex_value c = Some (of_char b div 16) \<and> hex_value d = Some (of_char b mod 16) \<and> hex_decode cs = Some bt"
    proof (cases "hex_value c"; cases "hex_value d")
      fix x y assume v: "hex_value c = Some x" "hex_value d = Some y"
      then have "x < 16" "y < 16" by (simp_all add: hex_value_iff)
      then show ?thesis using v b [of x y] by (auto simp: Cons split: option.split)
    qed auto
    also have "\<dots> \<longleftrightarrow> map lower_char (c # d # cs) = hex_encode bs"
      using bound 3 by (auto simp: hex_value_iff hex_encode_def Cons)
    finally show ?thesis .
  qed
qed

text \<open>C20: when the HMAC has 32 bytes, a signature is accepted exactly when its digits, in either case and with
  or without the prefix \<open>sha256=\<close>, are the hexadecimal text of the HMAC of the body under the secret.\<close>

theorem signature_accepted_iff:
  assumes "length (hmac secret payload) = 32"
  shows "valid_signature hmac secret payload raw \<longleftrightarrow> map lower_char (signature_digits raw) = hex_encode (hmac secret payload)"
  unfolding hex_decode_iff [symmetric]
  using assms by (auto simp: valid_signature_def decode_signature_def split: option.split)

theorem signature_accepted_iff_witness:
  "valid_signature (\<lambda>k p. replicate 32 (CHR 0xAB)) ''k'' ''p'' (''  SHA256='' @ concat (replicate 32 ''aB'')) "
  using signature_accepted_iff [of "\<lambda>k p. replicate 32 (CHR 0xAB)" "''k''" "''p''" "''  SHA256='' @ concat (replicate 32 ''aB'')"]
  by (simp only: length_replicate simp_thms) code_simp

section \<open>Requests that are not admitted\<close>

lemma http_paths:
  assumes "rx_stream (ht_rt r) \<noteq> None \<or> \<not> tm_sse (pn_terminal (ht_plan r))"
    "prepare_request_input r ctx req w = (Inl resp, w1)"
  shows "serve r ctx async signals req w = (resp, w1)"
  using assms by (auto simp: serve_def serve_pipeline_def serve_direct_def with_event_stream_def Let_def)

lemma io_answer: "(case x of (Some e, w1) \<Rightarrow> (a, w1) | (None, w1) \<Rightarrow> (b, w1)) = (if fst x = None then b else a, snd x)"
  by (auto split: prod.split option.split)

text \<open>C4: a request to a route with a signature that does not carry the HMAC of its body under the secret of
  the environment is answered 401, 403 or 500 and runs nothing: the world changes only by the event of
  the decision.\<close>

theorem unsigned_request_runs_nothing:
  assumes "rx_stream (ht_rt r) \<noteq> None \<or> \<not> tm_sse (pn_terminal (ht_plan r))"
    "trim_space (tg_signature_env (pn_trigger (ht_plan r))) \<noteq> []"
    "read_http_request_input req = Inr body"
    "\<not> valid_signature (ht_hmac r) (getenv (rx_ambient (ht_rt r)) (trim_space (tg_signature_env (pn_trigger (ht_plan r))))) body
        (trim_space (header_get req (trim_space (tg_signature_header (pn_trigger (ht_plan r))))))"
  shows "\<exists>decision resp. serve r ctx async signals req w = (resp, snd (emit_signature_decision r ctx decision w))
    \<and> response_code resp \<in> {401, 403, 500} \<and> decision \<noteq> ''valid''"
proof -
  have "\<exists>decision resp. verify_request_signature r ctx req body w = (Some resp, snd (emit_signature_decision r ctx decision w))
      \<and> response_code resp \<in> {401, 403, 500} \<and> decision \<noteq> ''valid''"
    using assms(2,4) unfolding verify_request_signature_def Let_def io_answer
    by (auto intro: exI [of _ "''missing''"] exI [of _ "''secret_missing''"] exI [of _ "''invalid''"])
  then obtain decision resp where v: "verify_request_signature r ctx req body w = (Some resp, snd (emit_signature_decision r ctx decision w))"
    "response_code resp \<in> {401, 403, 500}" "decision \<noteq> ''valid''" by blast
  then have "prepare_request_input r ctx req w = (Inl resp, snd (emit_signature_decision r ctx decision w))"
    using assms(3) by (simp add: prepare_request_input_def)
  then show ?thesis using http_paths [OF assms(1)] v by blast
qed


text \<open>A route whose requests are signed under \<open>SECRET\<close> and whose store holds the key of every request.\<close>

definition signed_plan :: "string \<Rightarrow> 'w plan" where
  "signed_plan env = \<lparr>pn_trigger = \<lparr>tg_kind = trigger_http, tg_method = ''POST'', tg_path = ''/x'', tg_expr = [], tg_value = [],
     tg_uri = [], tg_worker_pool = 0, tg_idempotency_header = ''Idem-Key'', tg_signature_env = env, tg_signature_header = ''X-Sig'',
     tg_dlq_target = [], tg_max_attempts = 0, tg_max_in_flight = 0, tg_ack_policy = []\<rparr>, pn_steps = [],
     pn_terminal = pn_terminal (stream_plan ''reply'' :: 'w plan)\<rparr>"

definition signed_route :: "string \<Rightarrow> stream_world http_route" where
  "signed_route env = \<lparr>ht_worker = bare_worker ((bare_runtime (Some busy_store)) \<lparr>rx_ambient := \<lparr>environ = [''SECRET=k''],
       json_decode = (\<lambda>_. None), json_encode = (\<lambda>_. Some ''{}''), parse_float = (\<lambda>_. 0)\<rparr>\<rparr>), ht_plan = signed_plan env,
     ht_pool = None, ht_in_use = (\<lambda>_. 0), ht_set_in_use = (\<lambda>_ w. w), ht_hmac = (\<lambda>_ _. replicate 32 (CHR 0xAB)),
     ht_new_stream = (\<lambda>w. (0, w)), ht_stream = (\<lambda>_ _. new_event_stream 0 3), ht_events_since = (\<lambda>_ _ _ _. Inr []),
     ht_event_json = (\<lambda>_. Inr ''{}'')\<rparr>"

definition keyed_request :: "string \<Rightarrow> http_request" where
  "keyed_request sig = \<lparr>rq_body = ''b'', rq_body_error = None,
     rq_headers = [(''Idem-Key'', [''k1'']), (''X-Sig'', [sig])], rq_path_value = (\<lambda>_. [])\<rparr>"

lemma signed_route_sel:
  "rx_stream (ht_rt (signed_route env)) = None" "\<not> tm_sse (pn_terminal (ht_plan (signed_route env)))"
  "rx_hook_bus (ht_rt (signed_route env)) = None" "rx_store (ht_rt (signed_route env)) = Some busy_store"
  by (simp_all add: signed_route_def bare_worker_def bare_runtime_def signed_plan_def stream_plan_def)

lemma read_keyed: "read_http_request_input (keyed_request sig) = Inr ''b''"
  by (simp add: read_http_request_input_def keyed_request_def max_request_body_def)

lemma signed_route_silent: "snd (emit_runtime_event (ht_rt (signed_route env)) ctx \<lparr>pr_output = out, pr_session = None\<rparr> kind p w) = w"
  by (simp add: emit_runtime_event_def emit_through_hooks_def signed_route_sel)

theorem unsigned_request_runs_nothing_witness:
  "\<exists>resp. serve (signed_route ''SECRET'') idle_env idle_env [] (keyed_request ''00'') \<lparr>aw_attempts = [], aw_queue = []\<rparr>
     = (resp, \<lparr>aw_attempts = [], aw_queue = []\<rparr>)"
proof -
  have "\<not> valid_signature (ht_hmac (signed_route ''SECRET'')) (getenv (rx_ambient (ht_rt (signed_route ''SECRET'')))
      (trim_space (tg_signature_env (pn_trigger (ht_plan (signed_route ''SECRET'')))))) ''b''
      (trim_space (header_get (keyed_request ''00'') (trim_space (tg_signature_header (pn_trigger (ht_plan (signed_route ''SECRET'')))))))"
    "trim_space (tg_signature_env (pn_trigger (ht_plan (signed_route ''SECRET'')))) \<noteq> []" by code_simp+
  from unsigned_request_runs_nothing [OF _ this(2) read_keyed this(1)] show ?thesis
    unfolding emit_signature_decision_def Let_def signed_route_silent using signed_route_sel by blast
qed

lemma signed_route_decides: "emit_signature_decision (signed_route env) ctx decision w = (None, w)"
  by (simp add: emit_signature_decision_def emit_runtime_event_def emit_through_hooks_def signed_route_sel Let_def)


section \<open>Server-sent events\<close>

text \<open>
  A feed of the events of a growing history: what it answers after a cursor is the history from there to
  its newest event. The polls of a handler over such a feed write each event of the execution once, in order.
\<close>

fun sse_pick :: "string \<Rightarrow> u64 \<Rightarrow> event list \<Rightarrow> u64 \<times> event list" where
  "sse_pick execID after [] = (after, [])"
| "sse_pick execID after (e # es) =
     (if ev_exec_id e \<noteq> execID \<or> ev_id e \<le> after then sse_pick execID after es
      else case sse_pick execID (ev_id e) es of (c, xs) \<Rightarrow> (c, e # xs))"

fun feed_polls :: "(u64 \<Rightarrow> 's \<Rightarrow> 'e + event list) \<Rightarrow> string \<Rightarrow> u64 \<Rightarrow> 's list \<Rightarrow> (u64 \<times> event list) option" where
  "feed_polls feed execID after [] = Some (after, [])"
| "feed_polls feed execID after (s # ss) =
     (case feed after s of Inl _ \<Rightarrow> None
      | Inr es \<Rightarrow> (case sse_pick execID after es of (c, xs) \<Rightarrow> map_option (apsnd ((@) xs)) (feed_polls feed execID c ss)))"

lemma sse_pick_sorted:
  assumes "sse_pick execID after es = (c, xs)" "sorted_wrt (<) (map ev_id es)" "\<forall>e \<in> set es. after < ev_id e"
  shows "xs = filter (\<lambda>e. ev_exec_id e = execID) es \<and> after \<le> c \<and> (\<forall>e \<in> set xs. ev_id e \<le> c)
    \<and> (c = after \<or> c \<in> ev_id ` set es)"
  using assms
proof (induction execID after es arbitrary: c xs rule: sse_pick.induct)
  case (1 execID after)
  then show ?case by simp
next
  case (2 execID after e es)
  show ?case
  proof (cases "ev_exec_id e = execID")
    case True
    then have nc: "\<not> (ev_exec_id e \<noteq> execID \<or> ev_id e \<le> after)" using 2(5) by simp
    obtain d ys where d: "sse_pick execID (ev_id e) es = (d, ys)" by (metis surj_pair)
    then have "c = d" "xs = e # ys" using 2(3) nc by simp_all
    moreover from 2(2) [OF nc d] have "ys = filter (\<lambda>e. ev_exec_id e = execID) es \<and> ev_id e \<le> d \<and> (\<forall>e \<in> set ys. ev_id e \<le> d)
        \<and> (d = ev_id e \<or> d \<in> ev_id ` set es)" using 2(4) by simp
    ultimately show ?thesis using True 2(5) by auto
  next
    case False
    then show ?thesis using 2(1) [of c xs] 2(3-5) by auto
  qed
qed

locale event_feed =
  fixes ok :: "'s \<Rightarrow> bool" and feed :: "u64 \<Rightarrow> 's \<Rightarrow> 'e + event list" and newest :: "'s \<Rightarrow> u64" and hist :: "u64 \<Rightarrow> event"
  assumes feed_ids: "ok s \<Longrightarrow> after < u64_max \<Longrightarrow> feed after s = Inr es \<Longrightarrow> map ev_id es = [Suc after..<Suc (newest s)]"
    and feed_hist: "ok s \<Longrightarrow> after < u64_max \<Longrightarrow> feed after s = Inr es \<Longrightarrow> e \<in> set es \<Longrightarrow> e = hist (ev_id e)"
    and newest_bound: "ok s \<Longrightarrow> newest s < u64_max"
begin

abbreviation between :: "string \<Rightarrow> u64 \<Rightarrow> u64 \<Rightarrow> event list" where
  "between execID a b \<equiv> filter (\<lambda>e. ev_exec_id e = execID) (map hist [Suc a..<Suc b])"

lemma feed_is_history:
  assumes "ok s" "after < u64_max" "feed after s = Inr es"
  shows "es = map hist [Suc after..<Suc (newest s)]"
proof -
  have "map hist (map ev_id es) = es" unfolding map_map using feed_hist [OF assms] by (auto intro!: map_idI)
  then show ?thesis unfolding feed_ids [OF assms] by simp
qed

lemma hist_id:
  assumes "ok s" "after < u64_max" "feed after s = Inr es" "after < i" "i \<le> newest s"
  shows "ev_id (hist i) = i"
proof -
  have "map (\<lambda>i. ev_id (hist i)) [Suc after..<Suc (newest s)] = map id [Suc after..<Suc (newest s)]"
    using feed_ids [OF assms(1-3)] unfolding feed_is_history [OF assms(1-3)] by (simp del: upt_Suc add: comp_def)
  then have "\<forall>i \<in> set [Suc after..<Suc (newest s)]. ev_id (hist i) = id i" unfolding map_eq_conv .
  then show ?thesis using assms(4,5) by (simp del: upt_Suc)
qed

lemma between_split: "a \<le> c \<Longrightarrow> c \<le> b \<Longrightarrow> between execID a b = between execID a c @ between execID c b"
  by (metis Suc_le_mono filter_append map_append upt_add_eq_append le_Suc_ex)

lemma poll_writes:
  assumes "ok s" "after < u64_max" "feed after s = Inr es" "sse_pick execID after es = (c, xs)"
  shows "xs = between execID after (newest s) \<and> after \<le> c \<and> (\<forall>e \<in> set xs. ev_id e \<le> c) \<and> (c = after \<or> c \<le> newest s)"
proof -
  have ids: "map ev_id es = [Suc after..<Suc (newest s)]" by (rule feed_ids [OF assms(1-3)])
  then have sorted: "sorted_wrt (<) (map ev_id es)" by (simp del: upt_Suc)
  have range: "ev_id ` set es = {Suc after..<Suc (newest s)}" unfolding set_map [symmetric] ids set_upt ..
  then have "\<forall>e \<in> set es. after < ev_id e" by (metis Suc_le_eq atLeastLessThan_iff imageI)
  from sse_pick_sorted [OF assms(4) sorted this] show ?thesis
    unfolding feed_is_history [OF assms(1-3), symmetric] range by auto
qed

lemma poll_advances:
  assumes "ok s" "after < u64_max" "feed after s = Inr es" "sse_pick execID after es = (c, xs)" "newest s \<le> n"
  shows "c < u64_max \<and> between execID after n = xs @ between execID c n"
proof -
  note p = poll_writes [OF assms(1-4)]
  have up: "after < ev_id e" if "e \<in> set xs" for e
  proof -
    from that p obtain i where "i \<in> set [Suc after..<Suc (newest s)]" "e = hist i" by (auto simp del: upt_Suc)
    then show ?thesis using hist_id [OF assms(1-3), of i] by (simp del: upt_Suc)
  qed
  show ?thesis
  proof (cases "c = after")
    case True
    then have "e \<notin> set xs" for e using p up [of e] by (meson leD)
    then have "xs = []" by (cases xs) auto
    then show ?thesis using True assms(2) by simp
  next
    case False
    then have c: "after \<le> c" "c \<le> newest s" using p by auto
    have "ev_exec_id (hist i) \<noteq> execID" if i: "c < i" "i \<le> newest s" for i
    proof
      assume "ev_exec_id (hist i) = execID"
      then have "hist i \<in> set xs" using i c p by (auto simp del: upt_Suc)
      then show False using p hist_id [OF assms(1-3), of i] i c by fastforce
    qed
    then have "between execID c (newest s) = []" by (auto simp: filter_empty_conv simp del: upt_Suc)
    then show ?thesis using c p between_split [of after c "newest s" execID] between_split [of after c n execID]
        newest_bound [OF assms(1)] assms(5) by simp
  qed
qed

lemma polls_deliver_history:
  assumes "\<forall>s \<in> set ss. ok s" "after < u64_max" "sorted (map newest ss)" "ss \<noteq> []"
    "feed_polls feed execID after ss = Some (c, xs)"
  shows "xs = between execID after (newest (last ss))"
  using assms
proof (induction ss arbitrary: after xs)
  case Nil
  then show ?case by simp
next
  case (Cons s ss)
  obtain es where es: "feed after s = Inr es" using Cons.prems(5) by (cases "feed after s") auto
  obtain d ys where d: "sse_pick execID after es = (d, ys)" by (metis surj_pair)
  obtain zs where z: "feed_polls feed execID d ss = Some (c, zs)" "xs = ys @ zs" using Cons.prems(5) es d by auto
  have ok: "ok s" using Cons.prems(1) by simp
  show ?case
  proof (cases "ss = []")
    case True
    then show ?thesis using z poll_writes [OF ok Cons.prems(2) es d] by (simp del: upt_Suc)
  next
    case False
    have n: "newest s \<le> newest (last ss)" using Cons.prems(3) False by simp
    note a = poll_advances [OF ok Cons.prems(2) es d n]
    then have "zs = between execID d (newest (last ss))" using Cons.IH [OF _ _ _ False z(1)] Cons.prems by simp
    then show ?thesis using a z False by (simp del: upt_Suc)
  qed
qed

end

text \<open>The window of an event stream, as long as it answers, is such a feed.\<close>

definition newest_retained :: "event_stream \<Rightarrow> u64" where
  "newest_retained s = (case ring_content (es_events s) of [] \<Rightarrow> 0 | es \<Rightarrow> ev_id (last es))"

definition window_of_history :: "ambient \<Rightarrow> (u64 \<Rightarrow> event) \<Rightarrow> event_stream \<Rightarrow> bool" where
  "window_of_history E hist s \<longleftrightarrow> stream_inv s \<and> es_next_id s < u64_max
     \<and> (\<forall>e \<in> set (ring_content (es_events s)). clone_event E e = hist (ev_id e))"

lemma sorted_ids_last:
  assumes "sorted_wrt (<) (map ev_id es)" "es \<noteq> []"
  shows "e \<in> set es \<Longrightarrow> ev_id e \<le> ev_id (last es)"
  using assms by (induction es) (auto split: if_splits simp: le_less)

lemma window_feed_ids:
  assumes "window_of_history E hist s" "after < u64_max" "since_checked E after s = Inr es"
  shows "map ev_id es = [Suc after..<Suc (newest_retained s)]"
proof -
  let ?content = "ring_content (es_events s)"
  have inv: "stream_inv s" "sorted_wrt (<) (map ev_id ?content)" using assms(1) by (simp_all add: window_of_history_def stream_inv_def)
  have es: "es = map (clone_event E) (filter (\<lambda>e. after < ev_id e) ?content)" "map ev_id es = [Suc after..<Suc after + length es]"
    using since_checked_exact [OF inv(1) assms(2), of E] unfolding assms(3) sum.case by blast+
  show ?thesis
  proof (cases "es = []")
    case True
    then have "\<forall>e \<in> set ?content. ev_id e \<le> after" using es(1) by (auto simp: filter_empty_conv not_less)
    then have "newest_retained s \<le> after" by (simp add: newest_retained_def split: list.split)
    then show ?thesis using True by simp
  next
    case False
    then obtain e where "e \<in> set ?content" "after < ev_id e" using es(1) by (auto simp: filter_empty_conv)
    moreover from this have "?content \<noteq> []" by auto
    ultimately have last: "?content \<noteq> []" "after < ev_id (last ?content)" using sorted_ids_last [OF inv(2)] by fastforce+
    then have "last (filter (\<lambda>e. after < ev_id e) ?content) = last ?content" "filter (\<lambda>e. after < ev_id e) ?content \<noteq> []"
      by (cases ?content rule: rev_cases; simp)+
    then have "ev_id (last es) = newest_retained s"
      using last(1) by (simp add: es(1) last_map newest_retained_def split: list.split)
    moreover have "ev_id (last es) = last (map ev_id es)" using False by (simp add: last_map)
    moreover have "last (map ev_id es) = after + length es" unfolding es(2) using False by (cases es) simp_all
    ultimately show ?thesis using es(2) by simp
  qed
qed

lemma newest_retained_bound: "window_of_history E hist s \<Longrightarrow> newest_retained s < u64_max"
  by (auto simp: window_of_history_def stream_inv_def newest_retained_def u64_max_def split: list.split dest!: bspec [OF _ last_in_set])

interpretation window: event_feed "window_of_history E hist" "since_checked E" newest_retained hist for E hist
proof unfold_locales
  fix s after es
  assume w: "window_of_history E hist s" "after < u64_max" "since_checked E after s = Inr es"
  show "map ev_id es = [Suc after..<Suc (newest_retained s)]" by (rule window_feed_ids [OF w])
  have "stream_inv s" using w(1) by (simp add: window_of_history_def)
  then have "es = map (clone_event E) (filter (\<lambda>e. after < ev_id e) (ring_content (es_events s)))"
    using since_checked_exact [of s after E] w(2,3) by simp
  then show "e = hist (ev_id e)" if e: "e \<in> set es" for e
  proof -
    from e \<open>es = _\<close> obtain d where d: "d \<in> set (ring_content (es_events s))" "e = clone_event E d" by auto
    then have "clone_event E d = hist (ev_id d)" using w(1) by (simp add: window_of_history_def)
    moreover have "ev_id e = ev_id d" using d(2) by simp
    ultimately show ?thesis using d(2) by metis
  qed
qed (rule newest_retained_bound)

definition sse_event_text :: "'w http_route \<Rightarrow> event \<Rightarrow> string" where
  "sse_event_text r e = (case sse_runtime_event r e of Inl _ \<Rightarrow> [] | Inr t \<Rightarrow> t)"

lemma write_sse_events_pick:
  "write_sse_events r execID after es = (c, None, t) \<Longrightarrow>
     \<exists>xs. sse_pick execID after es = (c, xs) \<and> t = concat (map (sse_event_text r) xs)"
proof (induction r execID after es arbitrary: t rule: write_sse_events.induct)
  case (2 r execID after e es)
  show ?case
  proof (cases "ev_exec_id e \<noteq> execID \<or> ev_id e \<le> after")
    case False
    then obtain u where u: "sse_runtime_event r e = Inr u" using "2.prems" by (cases "sse_runtime_event r e") auto
    obtain d err ts where d: "write_sse_events r execID (ev_id e) es = (d, err, ts)" by (metis surj_pair)
    then have "d = c" "err = None" "t = u @ ts" using "2.prems" False u by auto
    then show ?thesis using 2(2) [OF False u, of ts] d False u by (auto simp: sse_event_text_def)
  qed (use 2 in auto)
qed simp

lemma sse_wait_polls:
  assumes "rx_stream (ht_rt r) = Some n" "rx_store (ht_rt r) = None"
  shows "sse_wait r ctx execID after (map SseTick ws) = (Some c, t) \<Longrightarrow>
    \<exists>xs. feed_polls (since_checked (rx_ambient (ht_rt r))) execID after (map (ht_stream r n) ws) = Some (c, xs)
      \<and> t = concat (map (sse_event_text r) xs)"
proof (induction ws arbitrary: after t)
  case (Cons w ws)
  let ?E = "rx_ambient (ht_rt r)"
  obtain d err u where d: "write_sse_events_since r ctx execID after w = (d, err, u)" by (metis surj_pair)
  then have err: "err = None" using Cons.prems by (cases err) auto
  obtain es where es: "since_checked ?E after (ht_stream r n w) = Inr es"
    using d err assms by (cases "since_checked ?E after (ht_stream r n w)") (auto simp: write_sse_events_since_def sse_events_since_def)
  then have "write_sse_events r execID after es = (d, None, u)"
    using d err assms by (simp add: write_sse_events_since_def sse_events_since_def)
  from write_sse_events_pick [OF this] obtain xs where xs: "sse_pick execID after es = (d, xs)" "u = concat (map (sse_event_text r) xs)" by blast
  obtain v where v: "sse_wait r ctx execID d (map SseTick ws) = (Some c, v)" "t = u @ v"
    using Cons.prems d err by (auto split: prod.splits)
  show ?case using Cons.IH [OF v(1)] es xs v(2) by auto
qed simp

lemma sse_wait_append:
  "sse_wait r ctx execID after (xs @ ys) = (case sse_wait r ctx execID after xs of
     (None, t) \<Rightarrow> (None, t) | (Some c, t) \<Rightarrow> (case sse_wait r ctx execID c ys of (x, u) \<Rightarrow> (x, t @ u)))"
  by (induction r ctx execID after xs rule: sse_wait.induct) (auto split: prod.split option.split)

lemma sse_body_delivered:
  assumes "sse_wait r ctx execID start (signals @ [SseTick w]) = (Some c, t)"
  shows "sse_body r ctx execID start signals outcome w = t @ sse_outcome (rx_ambient (ht_rt r)) outcome"
proof -
  obtain d u where d: "sse_wait r ctx execID start signals = (Some d, u)"
    using assms unfolding sse_wait_append by (auto split: prod.splits option.splits)
  obtain x err v where x: "write_sse_events_since r ctx execID d w = (x, err, v)" by (metis surj_pair)
  then have "err = None" "t = u @ v" using assms d unfolding sse_wait_append by (auto split: option.splits)
  then show ?thesis using d x by (simp add: sse_body_def sse_end_def Let_def)
qed


definition streamed_route :: "stream_world http_route" where
  "streamed_route = (signed_route []) \<lparr>ht_worker := bare_worker ((bare_runtime None) \<lparr>rx_stream := Some 0\<rparr>),
     ht_stream := (\<lambda>_ _. sample_stream)\<rparr>"

definition sample_history :: "u64 \<Rightarrow> event" where
  "sample_history i = clone_event (rx_ambient (ht_rt streamed_route)) (ring_content (es_events sample_stream) ! (i - 2))"

lemma sample_window: "window_of_history (rx_ambient (ht_rt streamed_route)) sample_history sample_stream"
proof -
  let ?c = "ring_content (es_events sample_stream)"
  have "clone_event E e = clone_event E (?c ! (ev_id e - 2))" if e: "e \<in> set ?c" for e E
  proof -
    have l: "length ?c = 3" using sample_stream_ids by (metis length_map length_Cons list.size(3) numeral_3_eq_3)
    then obtain k where "k < 3" "e = ?c ! k" using e by (metis in_set_conv_nth)
    moreover have "map ev_id ?c ! k = k + 2" if "k < 3" for k
      unfolding sample_stream_ids using that by (auto simp: less_Suc_eq numeral_3_eq_3)
    ultimately show ?thesis using l by simp
  qed
  moreover have "es_next_id sample_stream < u64_max" by code_simp
  ultimately show ?thesis using sample_stream_inv by (simp add: window_of_history_def sample_history_def)
qed


section \<open>Frames\<close>

text \<open>
  How a client reads the stream (the processing model of the HTML standard): a line ends with LF, CR or
  both; a line without a value adds nothing; an empty line dispatches the event when it has data.
\<close>

fun sse_lines :: "bool \<Rightarrow> string \<Rightarrow> string \<Rightarrow> string list" where
  "sse_lines cr acc [] = []"
| "sse_lines cr acc (c # cs) =
     (if c = CHR 0x0A then (if cr then sse_lines False [] cs else acc # sse_lines False [] cs)
      else if c = CHR 0x0D then acc # sse_lines True [] cs
      else sse_lines False (acc @ [c]) cs)"

fun sse_client :: "string \<Rightarrow> string list \<Rightarrow> string list \<Rightarrow> (string \<times> string) list" where
  "sse_client kind data [] = []"
| "sse_client kind data (line # lines) =
     (if line = [] then (if data = [] then [] else [(kind, join_with [CHR 0x0A] data)]) @ sse_client [] [] lines
      else if has_prefix line ''event: '' then sse_client (drop 7 line) data lines
      else if has_prefix line ''data: '' then sse_client kind (data @ [drop 6 line]) lines
      else sse_client kind data lines)"

definition sse_received :: "string \<Rightarrow> (string \<times> string) list" where
  "sse_received text = sse_client [] [] (sse_lines False [] text)"

lemma sse_lines_plain:
  "CHR 0x0A \<notin> set line \<Longrightarrow> CHR 0x0D \<notin> set line \<Longrightarrow> sse_lines False acc (line @ CHR 0x0A # rest) = (acc @ line) # sse_lines False [] rest"
  by (induction line arbitrary: acc) auto

lemma split_on_subset: "p \<in> set (split_on d s) \<Longrightarrow> set p \<subseteq> set s"
proof (induction s arbitrary: p)
  case (Cons c s)
  obtain q qs where q: "split_on d s = q # qs" using split_on_nonempty [of d s] by (cases "split_on d s") blast+
  then have "set q \<subseteq> set s" using Cons.IH by simp
  moreover have "p \<in> {[], c # q} \<union> set (split_on d s)" using Cons.prems q by (auto split: if_splits)
  ultimately show ?case using Cons.IH [of p] by auto
qed simp

lemma sse_client_data:
  assumes "\<forall>l \<in> set ls. CHR 0x0A \<notin> set l \<and> CHR 0x0D \<notin> set l"
  shows "sse_client kind data (sse_lines False [] (concat (map (\<lambda>l. ''data: '' @ l @ [CHR 0x0A]) ls) @ rest))
    = sse_client kind (data @ ls) (sse_lines False [] rest)"
  using assms
proof (induction ls arbitrary: data)
  case (Cons l ls)
  then have "sse_lines False [] ((''data: '' @ l) @ CHR 0x0A # concat (map (\<lambda>l. ''data: '' @ l @ [CHR 0x0A]) ls) @ rest)
      = (''data: '' @ l) # sse_lines False [] (concat (map (\<lambda>l. ''data: '' @ l @ [CHR 0x0A]) ls) @ rest)"
    by (subst sse_lines_plain) auto
  then show ?case using Cons by simp
qed simp

text \<open>
  : a client reads a frame back as the name of the event and its text, when the text has no carriage return.\<close>

theorem sse_frame_roundtrip:
  assumes "trim_space name \<noteq> []" "CHR 0x0A \<notin> set name" "CHR 0x0D \<notin> set name" "CHR 0x0D \<notin> set output"
  shows "sse_received (sse_frame name output @ rest) = (name, output) # sse_received rest"
proof -
  let ?ls = "split_on (CHR 0x0A) output"
  have parts: "\<forall>l \<in> set ?ls. CHR 0x0A \<notin> set l \<and> CHR 0x0D \<notin> set l"
    using split_on_no_sep split_on_subset assms(4) by blast
  have "sse_lines False [] ((''event: '' @ name) @ CHR 0x0A # u) = (''event: '' @ name) # sse_lines False [] u" for u
    by (subst sse_lines_plain) (use assms in auto)
  then have "sse_received (sse_frame name output @ rest)
      = sse_client name [] (sse_lines False [] (concat (map (\<lambda>l. ''data: '' @ l @ [CHR 0x0A]) ?ls) @ CHR 0x0A # rest))"
    using assms(1) by (simp add: sse_received_def sse_frame_def)
  then show ?thesis unfolding sse_client_data [OF parts] by (simp add: sse_received_def join_split_on)
qed

theorem sse_frame_roundtrip_witness:
  "sse_received (sse_frame ''output'' (''a'' @ [CHR 0x0A] @ ''b'')) = [(''output'', ''a'' @ [CHR 0x0A] @ ''b'')]"
  using sse_frame_roundtrip [of "''output''" "''a'' @ [CHR 0x0A] @ ''b''" "[]"] by code_simp

text \<open>
  : an output that is not JSON reaches the client with its carriage returns, and a carriage return ends a
  line: the output renames its own event.\<close>

theorem sse_carriage_return_injects:
  "sse_received (sse_output_event (rx_ambient (ht_rt streamed_route)) ''output'' (''a'' @ [CHR 0x0D] @ ''event: done''))
   = [(''done'', ''a'')]"
  by code_simp

end
