(* ===== verification/Tool_Safety.thy ===== *)
theory Tool_Safety
  imports Tool_Executor
begin

text \<open>
  What the executor of tool calls guarantees: a tool that requires approval never runs without one,
  retries are bounded and never repeat a side effect, a tool with an idempotency key runs at most
  once per key on the in-memory store, and an intent stays open exactly when the call is
  indeterminate. The stores of the environment are the operations of \<open>State_Store\<close> and
  \<open>Run_Journal\<close> on a world that contains the memory store.
\<close>

section \<open>Approval\<close>

definition approval_granted :: "'w tool_env \<Rightarrow> 'w registered_tool \<Rightarrow> tool_call \<Rightarrow> 'w \<Rightarrow> bool" where
  "approval_granted env t call w =
     (approved_from_context env (tc_id call) \<noteq> None
      \<or> (case te_resolver env of None \<Rightarrow> False
         | Some resolve \<Rightarrow> resolve (rt_name t) (tool_intent_idem_key env t call) w \<noteq> None))"

text \<open>An executor that knows the tool \<open>t\<close> under the name the call uses.\<close>

definition knows :: "'w executor \<Rightarrow> tool_call \<Rightarrow> 'w registered_tool \<Rightarrow> bool" where
  "knows ex call t = (mget (xr_tools ex) (tc_name call) = Some t)"

lemma action_of_call_simps [simp]:
  "ac_requires_approval (action_of_call t call) = md_requires_approval (rt_metadata t)"
  "ac_tool_name (action_of_call t call) = rt_name t"
  "ac_tool_call_id (action_of_call t call) = tc_id call"
  "md_action_kind (rt_metadata t) \<in> {ActionKindText [], ActionToolCall} \<Longrightarrow> ac_kind (action_of_call t call) = ActionToolCall"
  by (auto simp: action_of_call_def Let_def)

lemma authorize_unapproved:
  assumes "md_requires_approval (rt_metadata t)" "\<not> approval_granted env t call w"
  shows "authorize_tool_call env ex t call w =
    (case te_gate env of
       Some (gate, ap) \<Rightarrow> suspend_for_approval env t (action_of_call t call) call gate ap w
     | None \<Rightarrow> decide_by_policy env (executor_policy ex) (action_of_call t call) call w)"
  using assms by (auto simp: authorize_tool_call_def approval_granted_def Let_def split: option.splits)

lemma suspend_not_allowed: "suspend_for_approval env t a call gate ap w = ((res, ok, err), w') \<Longrightarrow> \<not> ok \<and> err \<noteq> None"
  by (auto simp: suspend_for_approval_def Let_def split: sum.splits option.splits prod.splits)

context permission_policy
begin

lemma decide_not_allowed:
  assumes "decide_by_policy env authorize a call w = ((res, ok, err), w')"
    "ac_kind a = ActionToolCall" "ac_requires_approval a"
  shows "\<not> ok \<and> (err \<noteq> None \<or> tr_is_error res)"
proof -
  have "\<not> de_allowed (fst (authorize (te_ctx_err env w) a))" using approval_not_allowed assms by blast
  with assms(1) show ?thesis
    by (auto simp: decide_by_policy_def denied_result_def error_result_def Let_def errors_join_None
      split: prod.splits if_splits)
qed

lemma unapproved_not_allowed:
  assumes "executor_policy ex = authorize" "md_requires_approval (rt_metadata t)"
    "md_action_kind (rt_metadata t) \<in> {ActionKindText [], ActionToolCall}"
    "\<not> approval_granted env t call w"
    "authorize_tool_call env ex t call w = ((res, ok, err), w')"
  shows "\<not> ok \<and> (err \<noteq> None \<or> tr_is_error res)"
proof (cases "te_gate env")
  case None
  with assms show ?thesis
    by (intro decide_not_allowed [of env "action_of_call t call" call w res ok err w'])
      (simp_all add: authorize_unapproved)
next
  case (Some g)
  with assms(2,4,5) show ?thesis
    by (cases g) (simp add: authorize_unapproved, blast dest: suspend_not_allowed)
qed

end

text \<open>Executing a known tool, once the context and the call are valid.\<close>

lemma execute_known:
  assumes "te_ctx_err env w = None" "validate_tool_call call = None" "knows ex call t"
  shows "execute_tool_call env ex call w =
    (case authorize_tool_call env ex t call w of
       ((res, allowed, err), w1) \<Rightarrow> if err \<noteq> None \<or> \<not> allowed then ((res, err), w1) else run_tool env t call w1)"
  using assms by (simp add: execute_tool_call_def knows_def)

text \<open>C33
  A tool that requires approval does not run without one: under the default policy, and with or without
  a gate for approvals, executing the call leaves the world exactly as its authorization left it, and
  the caller gets an error or an error result.
\<close>

theorem unapproved_tool_never_runs:
  assumes "te_ctx_err env w = None" "validate_tool_call call = None" "knows ex call t"
    "xr_policy ex = None \<or> xr_policy ex = Some (default_authorize p)"
    "md_requires_approval (rt_metadata t)"
    "md_action_kind (rt_metadata t) \<in> {ActionKindText [], ActionToolCall}"
    "\<not> approval_granted env t call w"
  shows "snd (execute_tool_call env ex call w) = snd (authorize_tool_call env ex t call w)
    \<and> (snd (fst (execute_tool_call env ex call w)) \<noteq> None \<or> tr_is_error (fst (fst (execute_tool_call env ex call w))))"
proof -
  obtain res ok err w' where a: "authorize_tool_call env ex t call w = ((res, ok, err), w')"
    by (metis prod_cases3 surj_pair)
  obtain q where "executor_policy ex = default_authorize q"
    using assms(4) by (auto simp: executor_policy_def)
  from default_pol.unapproved_not_allowed [OF this assms(5-7) a]
  show ?thesis by (auto simp: execute_known [OF assms(1-3)] a)
qed

text \<open>
  Suspension: with a gate that records the approval, executing the call ends in the typed suspension
  error carrying the recorded approval, the execution, the tool and the call; the world has changed
  only by the record and the audit of the decision.
\<close>

theorem approval_suspends:
  assumes "te_ctx_err env w = None" "validate_tool_call call = None" "knows ex call t"
    "md_requires_approval (rt_metadata t)" "\<not> approval_granted env t call w"
    "te_gate env = Some (gate, ap)" "\<And>r. gate r w = (Inr a, w1)" "\<And>au. te_observe env au w1 = (None, w2)"
  shows "execute_tool_call env ex call w =
    ((zero_result, Some (ErrSuspended a (ap_exec_id ap) (rt_name t) (tc_id call))), w2)"
  using assms by (simp add: execute_known authorize_unapproved suspend_for_approval_def Let_def)

section \<open>Retries\<close>

text \<open>
  A counter on the world that only the invocation of the tool moves, by one each time.
\<close>

definition counts_calls :: "('w \<Rightarrow> nat) \<Rightarrow> 'w tool_env \<Rightarrow> 'w invocation \<Rightarrow> bool" where
  "counts_calls cnt env invoke =
     ((\<forall>w. cnt (snd (invoke w)) = cnt w + 1)
      \<and> (\<forall>au w. cnt (snd (te_observe_retry env au w)) = cnt w)
      \<and> (\<forall>d w. cnt (snd (te_wait env d w)) = cnt w))"

lemma counts_callsD:
  assumes "counts_calls cnt env invoke"
  shows "invoke w = (r, w') \<Longrightarrow> cnt w' = cnt w + 1"
    "te_observe_retry env au w = (o1, w') \<Longrightarrow> cnt w' = cnt w"
    "te_wait env d w = (o2, w') \<Longrightarrow> cnt w' = cnt w"
  using assms unfolding counts_calls_def by (metis snd_conv)+

lemma wait_counts:
  "counts_calls cnt env invoke \<Longrightarrow> wait_tool_retry_backoff env k w = (o2, w') \<Longrightarrow> cnt w' = cnt w"
  by (auto simp: wait_tool_retry_backoff_def dest: counts_callsD split: option.splits if_splits)

lemma should_retry_less: "should_retry_tool_call env t err k \<Longrightarrow> k < te_max_retries env"
  by (auto simp: should_retry_tool_call_def split: option.splits if_splits)

lemma retry_loop_count:
  assumes "counts_calls cnt env invoke"
  shows "retry_loop env t call invoke k r w = (o1, w') \<Longrightarrow> cnt w \<le> cnt w' \<and> cnt w' \<le> cnt w + nat (te_max_retries env - k)"
  using assms
proof (induction env t call invoke k r w arbitrary: o1 w' rule: retry_loop.induct)
  case (1 env t call invoke k r w)
  show ?case
  proof (cases "should_retry_tool_call env t (snd r) k")
    case False
    with 1(2) show ?thesis by (subst (asm) retry_loop.simps) simp
  next
    case retry: True
    obtain e1 w1 where ob: "te_observe_retry env \<lparr>ta_tool_name = tc_name call, ta_tool_call_id = tc_id call,
        ta_attempt = k + 1, ta_max_retries = te_max_retries env,
        ta_effect = normalize_effect (md_effect (rt_metadata t)), ta_err = the (snd r)\<rparr> w = (e1, w1)"
      by fastforce
    obtain e2 w2 where wa: "wait_tool_retry_backoff env k w1 = (e2, w2)" by fastforce
    obtain r' w3 where inv: "invoke w2 = (r', w3)" by fastforce
    note cs = counts_callsD(2) [OF 1(3) ob] wait_counts [OF 1(3) wa] counts_callsD(1) [OF 1(3) inv]
    show ?thesis
    proof (cases "e1 = None \<and> e2 = None")
      case True
      with 1(2) retry ob wa inv have rest: "retry_loop env t call invoke (k + 1) r' w3 = (o1, w')"
        by (subst (asm) retry_loop.simps) simp
      have "cnt w3 \<le> cnt w' \<and> cnt w' \<le> cnt w3 + nat (te_max_retries env - (k + 1))"
        using 1(1) [OF _ ob [symmetric] _ wa [symmetric] _ inv [symmetric] rest 1(3)] retry True by simp
      with cs should_retry_less [OF retry] show ?thesis by linarith
    next
      case False
      with 1(2) retry ob wa cs show ?thesis
        by (subst (asm) retry_loop.simps) (auto split: option.splits)
    qed
  qed
qed

text \<open>
  Retries are bounded: executing a call invokes the tool at least once and at most once more than the
  configured number of retries, whatever errors it returns; a tool with a side effect is invoked
  exactly once.
\<close>

theorem tool_retries_bounded:
  assumes "counts_calls cnt env invoke"
  shows "cnt w + 1 \<le> cnt (snd (execute_with_retry env t call invoke w))
    \<and> cnt (snd (execute_with_retry env t call invoke w)) \<le> cnt w + 1 + nat (te_max_retries env)
    \<and> (normalize_effect (md_effect (rt_metadata t)) \<notin> {EffectReadOnly, EffectIdempotent} \<longrightarrow>
         cnt (snd (execute_with_retry env t call invoke w)) = cnt w + 1)"
proof -
  obtain r w1 where inv: "invoke w = (r, w1)" by fastforce
  obtain o1 w2 where loop: "retry_loop env t call invoke 0 r w1 = (o1, w2)" by fastforce
  have fin: "snd (execute_with_retry env t call invoke w) = w2"
    by (auto simp: execute_with_retry_def inv loop split: sum.splits option.splits)
  have "\<not> should_retry_tool_call env t (snd r) 0"
    if "normalize_effect (md_effect (rt_metadata t)) \<notin> {EffectReadOnly, EffectIdempotent}"
    using that by (simp add: should_retry_tool_call_def split: option.splits)
  with loop have "normalize_effect (md_effect (rt_metadata t)) \<notin> {EffectReadOnly, EffectIdempotent} \<Longrightarrow> w2 = w1"
    by (subst (asm) retry_loop.simps) auto
  with counts_callsD(1) [OF assms inv] retry_loop_count [OF assms loop] show ?thesis
    unfolding fin by (auto simp del: insert_iff)
qed

section \<open>Idempotency on the memory store\<close>

text \<open>The world is the memory store and the rest; the store checks the context \<open>ctx\<close> it is called with.\<close>

definition memory_idem_env ::
  "go_error option \<Rightarrow> go_time \<Rightarrow> string \<Rightarrow> string \<Rightarrow> (memory_store \<times> 'v) idem_env" where
  "memory_idem_env ctx now x ns =
     \<lparr>ie_exec_id = x, ie_namespace = ns,
      ie_reserve = (\<lambda>key y (s, v). case reserve_idempotency ctx now key y s of (s', r) \<Rightarrow> (r, (s', v))),
      ie_outcomes = Some
        \<lparr>os_lookup = (\<lambda>key (s, v). get_idempotency ctx key s),
         os_resolve = (\<lambda>key y out (s, v). case resolve_idempotency ctx now key y out s of (s', e) \<Rightarrow> (e, (s', v)))\<rparr>\<rparr>"

lemma memory_idem_env_sel [simp]:
  "ie_exec_id (memory_idem_env ctx now x ns) = x"
  "ie_namespace (memory_idem_env ctx now x ns) = ns"
  by (simp_all add: memory_idem_env_def)

text \<open>The key under which a call of the tool is reserved.\<close>

definition call_key :: "'w tool_env \<Rightarrow> 'w registered_tool \<Rightarrow> tool_call \<Rightarrow> string \<Rightarrow> bool" where
  "call_key env t call key =
     (normalize_effect (md_effect (rt_metadata t)) = EffectIdempotent
      \<and> trim_space (md_idempotency_key (rt_metadata t)) \<noteq> []
      \<and> idempotency_reservation_key env (idempotency_namespace env) (rt_name t)
          (trim_space (md_idempotency_key (rt_metadata t))) (tc_args call) = Inr key)"

lemma call_key_nonempty: "call_key env t call key \<Longrightarrow> key \<noteq> [] \<and> trim_space key \<noteq> []"
  by (auto simp: call_key_def idempotency_reservation_key_def intro!: trim_space_colon split: sum.splits)

lemma reserve_memory_taken:
  assumes "te_idem env = Some (memory_idem_env None now x ns)" "call_key env t call key" "x \<noteq> []"
    "mget (db_idempotency s) key = Some r" "ir_outcome r \<noteq> IdempotencyFailed"
  shows "reserve_tool_key env t (tc_args call) (s, v) =
    (outcome_decision env (memory_idem_env None now x ns) (the (ie_outcomes (memory_idem_env None now x ns))) key (Some r), (s, v))"
  using assms call_key_nonempty [OF assms(2)]
  by (simp add: reserve_tool_key_def call_key_def idempotency_namespace_def memory_idem_env_def
    reserve_idempotency_def get_idempotency_def Let_def)

lemma reserve_memory_free:
  assumes "te_idem env = Some (memory_idem_env None now x ns)" "call_key env t call key" "x \<noteq> []"
    "\<forall>y out. idem_holder s key = Some (y, out) \<longrightarrow> out = IdempotencyFailed"
    "reserve_idempotency None now key x s = (s1, q)"
  shows "reserve_tool_key env t (tc_args call) (s, v) =
    ((False, Some \<lparr>cl_store = the (ie_outcomes (memory_idem_env None now x ns)), cl_key = key, cl_exec_id = x\<rparr>, None), (s1, v))
    \<and> idem_holder s1 key = Some (x, IdempotencyPending)"
proof -
  have "q = Inr ([], True)" "idem_holder s1 key = Some (x, IdempotencyPending)"
    using idem.reserve_free [OF _ _ assms(3,4), of "(None, now)"] call_key_nonempty [OF assms(2)] assms(5)
    by (simp_all add: idem_live_def idem_reserve_def)
  with assms(1,2,5) show ?thesis
    by (simp add: reserve_tool_key_def call_key_def idempotency_namespace_def memory_idem_env_def Let_def)
qed

text \<open>The arguments of the call pass the checks that come before the reservation.\<close>

definition args_accepted :: "'w registered_tool \<Rightarrow> tool_call \<Rightarrow> bool" where
  "args_accepted t call =
     (rt_validate t (tc_args call) = None
      \<and> (case rt_body t of GoFunc decode fn \<Rightarrow> decode (tc_args call) = None | Handler h \<Rightarrow> True))"

lemma run_tool_accepted:
  "args_accepted t call \<Longrightarrow> run_tool env t call w =
    (case reserve_tool_key env t (tc_args call) w of
        ((skip, claim, Some err), w1) \<Rightarrow> ((error_result call err, None), w1)
      | ((skip, claim, None), w1) \<Rightarrow>
          if skip then ((duplicate_idempotent_result call, None), w1)
          else case execute_with_intent env t call (invoke_tool env t call) w1 of
            ((res, executeErr), w2) \<Rightarrow> settle_idempotency claim res executeErr w2)"
  by (auto simp: run_tool_def args_accepted_def split: tool_body.splits)


text \<open>What the body of a tool says about its effect, for the settlement of its key.\<close>

definition body_outcome :: "tool_result \<times> go_error option \<Rightarrow> idempotency_outcome" where
  "body_outcome r = (case snd r of
       None \<Rightarrow> if tr_is_error (fst r) then IdempotencyFailed else IdempotencySucceeded
     | Some err \<Rightarrow> if as_tool_failure err = None then IdempotencyPending else IdempotencyFailed)"

lemma settle_indeterminate:
  "as_tool_failure e = None \<Longrightarrow> settle_idempotency claim res (Some e) w = ((res, Some e), w)"
  by (cases claim) (simp_all add: settle_idempotency_def)

lemma settle_memory:
  assumes "idem_holder s key = Some (x, IdempotencyPending)" "trim_space key \<noteq> []" "trim_space x \<noteq> []"
    "c = \<lparr>cl_store = the (ie_outcomes (memory_idem_env None now x ns)), cl_key = key, cl_exec_id = x\<rparr>"
    "\<forall>e. err = Some e \<longrightarrow> as_tool_failure e = None"
  shows "\<exists>s'. settle_idempotency (Some c) res err (s, v) = ((res, err), (s', v))
    \<and> idem_holder s' key = Some (x, body_outcome (res, err))"
proof (cases err)
  case None
  obtain r where "mget (db_idempotency s) key = Some r" "ir_exec_id r = x" "ir_outcome r = IdempotencyPending"
    using assms(1) by (auto simp: idem_holder_def)
  with assms(2,3) None show ?thesis
    by (simp add: assms(4) settle_idempotency_def memory_idem_env_def body_outcome_def idem_holder_def
      resolve_idempotency_def validate_idempotency_resolution_def validate_resolved_idempotency_outcome_def Let_def)
next
  case (Some e)
  with assms(1,5) show ?thesis by (simp add: settle_indeterminate body_outcome_def)
qed

text \<open>The answer of a call that is not retried: definite tool failures become error results.\<close>

definition tool_answer :: "tool_call \<Rightarrow> tool_result \<times> go_error option \<Rightarrow> tool_result \<times> go_error option" where
  "tool_answer call r = (case snd r of None \<Rightarrow> (fst r, None)
     | Some err \<Rightarrow> (case as_tool_failure err of Some inner \<Rightarrow> (error_result call inner, None)
                 | None \<Rightarrow> (zero_result, Some err)))"

lemma execute_once:
  assumes "te_intents env = None" "invoke w = (r, w')" "\<not> should_retry_tool_call env t (snd r) 0"
  shows "execute_with_intent env t call invoke w = (tool_answer call r, w')"
  using assms
  by (cases r) (auto simp: execute_with_intent_def begin_tool_call_intent_def execute_with_retry_def tool_answer_def
    retry_loop.simps [of env] split: option.splits)

lemma tool_answer_outcome:
  "body_outcome (tool_answer call r) = body_outcome r"
  "\<forall>e. snd (tool_answer call r) = Some e \<longrightarrow> as_tool_failure e = None"
  "snd (tool_answer call r) = None \<longleftrightarrow> body_outcome r \<noteq> IdempotencyPending"
  by (auto simp: tool_answer_def body_outcome_def error_result_def split: option.splits)

text \<open>
  Settlement: a first call under a free key reserves it for the execution, runs the tool once and
  settles the key by what the tool said: succeeded for a result, failed for an error result, an error
  of the tool or a panic; it stays pending exactly when the call itself ends in an error.
\<close>

theorem tool_outcome_settles:
  assumes "te_idem env = Some (memory_idem_env None now x ns)" "call_key env t call key" "trim_space x \<noteq> []"
    "args_accepted t call" "te_intents env = None"
    "\<forall>y out. idem_holder s key = Some (y, out) \<longrightarrow> out = IdempotencyFailed"
    "invoke_tool env t call (fst (reserve_idempotency None now key x s), v) = (r, (s2, v2))"
    "idem_holder s2 key = Some (x, IdempotencyPending)" "\<not> should_retry_tool_call env t (snd r) 0"
  shows "\<exists>res err s3. run_tool env t call (s, v) = ((res, err), (s3, v2))
    \<and> idem_holder s3 key = Some (x, body_outcome r) \<and> (err \<noteq> None \<longleftrightarrow> body_outcome r = IdempotencyPending)"
proof -
  obtain s1 q where s1: "reserve_idempotency None now key x s = (s1, q)" by fastforce
  have x: "x \<noteq> []" using assms(3) by auto
  let ?c = "\<lparr>cl_store = the (ie_outcomes (memory_idem_env None now x ns)), cl_key = key, cl_exec_id = x\<rparr>
    :: (memory_store \<times> 'a) idem_claim"
  obtain res err where a: "tool_answer call r = (res, err)" by fastforce
  have ex: "execute_with_intent env t call (invoke_tool env t call) (s1, v) = ((res, err), (s2, v2))"
    using execute_once [OF assms(5) _ assms(9), of "invoke_tool env t call"] assms(7) s1 a by simp
  note out = tool_answer_outcome [of call r, unfolded a snd_conv]
  obtain s3 where "settle_idempotency (Some ?c) res err (s2, v2) = ((res, err), (s3, v2))"
    "idem_holder s3 key = Some (x, body_outcome (res, err))"
    using settle_memory [OF assms(8) conjunct2 [OF call_key_nonempty [OF assms(2)]] assms(3) refl out(2),
      of now ns res v2] by auto
  with out(1,3) show ?thesis
    by (auto simp: run_tool_accepted [OF assms(4)] reserve_memory_free [OF assms(1,2) x assms(6) s1] ex)
qed

section \<open>Intents on the memory store\<close>

definition memory_intent_env ::
  "ambient \<Rightarrow> go_time \<Rightarrow> go_error option \<Rightarrow> go_time \<Rightarrow> string \<Rightarrow> int \<Rightarrow> (memory_store \<times> 'v) intent_env" where
  "memory_intent_env E now ctx later x step =
     \<lparr>in_exec_id = x, in_step_index = step,
      in_begin = (\<lambda>i (s, v). case begin_tool_intent E None now i s of (s', e) \<Rightarrow> (e, (s', v))),
      in_complete = (\<lambda>y c (s, v). case complete_tool_intent ctx later y c s of (s', e) \<Rightarrow> (e, (s', v)))\<rparr>"

text \<open>Neither the tool nor the observers of its retries touch the intents of the store.\<close>

definition keeps_intents :: "(memory_store \<times> 'v) tool_env \<Rightarrow> (memory_store \<times> 'v) invocation \<Rightarrow> bool" where
  "keeps_intents env invoke =
     ((\<forall>w. db_tool_intents (fst (snd (invoke w))) = db_tool_intents (fst w))
      \<and> (\<forall>au w. db_tool_intents (fst (snd (te_observe_retry env au w))) = db_tool_intents (fst w))
      \<and> (\<forall>d w. db_tool_intents (fst (snd (te_wait env d w))) = db_tool_intents (fst w)))"

text \<open>What every call of the tool, every observer and every wait preserves, the retries preserve.\<close>

definition preserved :: "('w \<Rightarrow> bool) \<Rightarrow> 'w tool_env \<Rightarrow> 'w invocation \<Rightarrow> bool" where
  "preserved P env invoke =
     ((\<forall>w. P w \<longrightarrow> P (snd (invoke w))) \<and> (\<forall>au w. P w \<longrightarrow> P (snd (te_observe_retry env au w)))
      \<and> (\<forall>d w. P w \<longrightarrow> P (snd (te_wait env d w))))"

lemma preservedD:
  assumes "preserved P env invoke" "P w"
  shows "invoke w = (r, w') \<Longrightarrow> P w'" "te_observe_retry env au w = (o1, w') \<Longrightarrow> P w'"
    "te_wait env d w = (o2, w') \<Longrightarrow> P w'" "wait_tool_retry_backoff env k w = (o2, w') \<Longrightarrow> P w'"
proof -
  note p = assms(1) [unfolded preserved_def]
  show "invoke w = (r, w') \<Longrightarrow> P w'" "te_observe_retry env au w = (o1, w') \<Longrightarrow> P w'"
    and w: "te_wait env d w = (o2, w') \<Longrightarrow> P w'" for d o2
    using p assms(2) by (metis snd_conv)+
  show "wait_tool_retry_backoff env k w = (o2, w') \<Longrightarrow> P w'"
    using assms(2) w by (auto simp: wait_tool_retry_backoff_def split: option.splits if_splits)
qed

lemma retry_loop_preserves:
  "retry_loop env t call invoke k r w = (o1, w') \<Longrightarrow> preserved P env invoke \<Longrightarrow> P w \<Longrightarrow> P w'"
proof (induction env t call invoke k r w arbitrary: o1 w' rule: retry_loop.induct)
  case (1 env t call invoke k r w)
  show ?case
  proof (cases "should_retry_tool_call env t (snd r) k")
    case False
    with 1(2,4) show ?thesis by (subst (asm) retry_loop.simps) simp
  next
    case retry: True
    obtain e1 w1 where ob: "te_observe_retry env \<lparr>ta_tool_name = tc_name call, ta_tool_call_id = tc_id call,
        ta_attempt = k + 1, ta_max_retries = te_max_retries env,
        ta_effect = normalize_effect (md_effect (rt_metadata t)), ta_err = the (snd r)\<rparr> w = (e1, w1)" by fastforce
    obtain e2 w2 where wa: "wait_tool_retry_backoff env k w1 = (e2, w2)" by fastforce
    obtain r' w3 where inv: "invoke w2 = (r', w3)" by fastforce
    have ps: "P w1" "P w2" "P w3"
      using preservedD [OF 1(3)] 1(4) ob wa inv by metis+
    show ?thesis
    proof (cases "e1 = None \<and> e2 = None")
      case True
      with 1(2) retry ob wa inv have rest: "retry_loop env t call invoke (k + 1) r' w3 = (o1, w')"
        by (subst (asm) retry_loop.simps) simp
      show ?thesis
        using 1(1) [OF _ ob [symmetric] _ wa [symmetric] _ inv [symmetric] rest 1(3) ps(3)] retry True by simp
    next
      case False
      with 1(2) retry ob wa ps show ?thesis
        by (subst (asm) retry_loop.simps) (auto split: option.splits)
    qed
  qed
qed

lemma execute_with_retry_preserves:
  assumes "preserved P env invoke" "execute_with_retry env t call invoke w = (o1, w')" "P w"
  shows "P w'"
proof -
  obtain r w1 where inv: "invoke w = (r, w1)" by fastforce
  obtain o2 w2 where loop: "retry_loop env t call invoke 0 r w1 = (o2, w2)" by fastforce
  have "w' = w2" using assms(2) by (auto simp: execute_with_retry_def inv loop split: sum.splits option.splits)
  with retry_loop_preserves [OF loop assms(1) preservedD(1) [OF assms(1,3) inv]] show ?thesis by simp
qed

lemma keeps_intents_preserved:
  "keeps_intents env invoke \<Longrightarrow> preserved (\<lambda>w. db_tool_intents (fst w) = X) env invoke"
  by (simp add: keeps_intents_def preserved_def)

text \<open>
  An intent is left open exactly when the call is indeterminate: with the journal as recorder, after
  executing a tool that is not read-only the intent of its call is open if and only if the call ended
  in an error, also when recording the completion is what failed.
\<close>

theorem intent_open_iff_indeterminate:
  assumes "te_intents env = Some (memory_intent_env E now ctx later x step)"
    "normalize_effect (md_effect (rt_metadata t)) \<noteq> EffectReadOnly"
    "trim_space x \<noteq> []" "trim_space (tc_id call) \<noteq> []" "trim_space (rt_name t) \<noteq> []" "0 \<le> step" "\<not> is_zero later"
    "keeps_intents env invoke" "execute_with_intent env t call invoke w = ((res, err), w')"
  shows "trim_space (tc_id call) \<in> open_intents (fst w') (trim_space x) \<longleftrightarrow> err \<noteq> None"
proof -
  obtain s v where w: "w = (s, v)" by fastforce
  let ?c = "trim_space (tc_id call)" and ?x = "trim_space x"
  obtain i s1 where b: "begin_tool_call_intent env t call w = (Inr (Some (\<lambda>w2.
        case in_complete (memory_intent_env E now ctx later x step) x (tc_id call) w2 of
          (None, w3) \<Rightarrow> (None, w3)
        | (Some err, w3) \<Rightarrow> (Some (ErrWrap ''complete tool intent: '' err []), w3))), (s1, v))"
    "mget (bucket (db_tool_intents s1) ?x) ?c = Some i" "is_zero (ti_completed_at i)"
    using assms(1-6) by (auto simp: begin_tool_call_intent_def memory_intent_env_def begin_tool_intent_def
      normalize_tool_intent_def is_zero_def w Let_def)
  obtain r2 e2 s2 v2 where ex: "execute_with_retry env t call invoke (s1, v) = ((r2, e2), (s2, v2))"
    by (metis surj_pair)
  have "db_tool_intents s2 = db_tool_intents s1"
    using execute_with_retry_preserves [OF keeps_intents_preserved [OF assms(8)] ex] by simp
  with b assms(3,4,7,9) show ?thesis
    by (auto simp: execute_with_intent_def ex memory_intent_env_def complete_tool_intent_def normalize_journal_key_def
      open_intents_def split: option.splits)
qed

section \<open>Concrete calls\<close>

text \<open>A tool that counts its calls in the second part of the world, and the plainest environment.\<close>

definition counting_tool :: "effect \<Rightarrow> bool \<Rightarrow> func_outcome \<Rightarrow> (memory_store \<times> nat) registered_tool" where
  "counting_tool e approval out =
     \<lparr>rt_name = ''pay'', rt_body = GoFunc (\<lambda>_. None) (\<lambda>c (s, n). (out, (s, n + 1))), rt_validate = (\<lambda>_. None),
      rt_metadata = zero_metadata \<lparr>md_effect := e, md_idempotency_key := ''id'', md_requires_approval := approval\<rparr>\<rparr>"

definition plain_env :: "(memory_store \<times> nat) tool_env" where
  "plain_env = \<lparr>te_ctx_err = (\<lambda>_. None), te_tool_ctx_err = (\<lambda>_. None), te_observe = (\<lambda>_ w. (None, w)),
     te_approved = None, te_resolver = None, te_gate = None, te_idem = None, te_replay = False, te_intents = None,
     te_max_retries = 2, te_backoff = 0, te_observe_retry = (\<lambda>_ w. (None, w)), te_wait = (\<lambda>_ w. (None, w)),
     te_sha256 = id, te_ambient = bare_ambient, te_session = None, te_ledger = None, te_depth = 0\<rparr>"

definition sample_call :: tool_call where
  "sample_call = \<lparr>tc_id = ''c1'', tc_name = ''pay'', tc_args = ''{}''\<rparr>"

definition sample_executor :: "(memory_store \<times> nat) registered_tool \<Rightarrow> (memory_store \<times> nat) executor" where
  "sample_executor t = \<lparr>xr_tools = mput ''pay'' t [], xr_policy = None\<rparr>"

lemma sample_knows: "knows (sample_executor t) sample_call t"
  by (simp add: knows_def sample_executor_def sample_call_def)

lemma sample_valid: "validate_tool_call sample_call = None"
  by code_simp

lemma plain_not_granted: "\<not> approval_granted (plain_env \<lparr>te_gate := g\<rparr>) t c w"
  by (simp add: approval_granted_def approved_from_context_def plain_env_def)

theorem unapproved_tool_never_runs_witness:
  "snd (execute_tool_call plain_env (sample_executor (counting_tool EffectSideEffecting True FuncOk)) sample_call
     (new_memory_store, 0)) = (new_memory_store, 0)"
  using unapproved_tool_never_runs [of plain_env "(new_memory_store, 0)" sample_call _
      "counting_tool EffectSideEffecting True FuncOk", OF _ sample_valid sample_knows]
    plain_not_granted [of None]
  by (simp add: plain_env_def sample_executor_def counting_tool_def zero_metadata_def authorize_tool_call_def
    approved_from_context_def decide_by_policy_def Let_def split: prod.splits)

theorem approval_suspends_witness:
  "execute_tool_call (plain_env \<lparr>te_gate := Some (\<lambda>r w. (Inr ''a1'', w), zero_approval_context)\<rparr>)
     (sample_executor (counting_tool EffectSideEffecting True FuncOk)) sample_call (new_memory_store, 0)
   = ((zero_result, Some (ErrSuspended ''a1'' [] ''pay'' ''c1'')), (new_memory_store, 0))"
proof -
  let ?gate = "\<lambda>r w. (Inr ''a1'', w)" and ?w = "(new_memory_store, 0)"
  let ?env = "plain_env \<lparr>te_gate := Some (?gate, zero_approval_context)\<rparr>"
  show ?thesis
    using approval_suspends [OF _ sample_valid sample_knows _ plain_not_granted, of "Some (?gate, zero_approval_context)" ?w
        "counting_tool EffectSideEffecting True FuncOk" ?gate zero_approval_context "''a1''" ?w ?w]
    by (simp add: plain_env_def counting_tool_def zero_metadata_def zero_approval_context_def sample_call_def)
qed

theorem tool_retries_bounded_witness:
  "snd (snd (execute_with_retry plain_env (counting_tool EffectSideEffecting False FuncOk) sample_call
     (invoke_tool plain_env (counting_tool EffectSideEffecting False (FuncError (ErrClassified KTransient CtxDeadline))) sample_call)
     (new_memory_store, 4))) = 5"
  using tool_retries_bounded [of snd plain_env
      "invoke_tool plain_env (counting_tool EffectSideEffecting False (FuncError (ErrClassified KTransient CtxDeadline))) sample_call"
      "(new_memory_store, 4)" "counting_tool EffectSideEffecting False FuncOk" sample_call]
  by (simp add: counts_calls_def invoke_tool_def counting_tool_def plain_env_def zero_metadata_def normalize_effect_def
    split: prod.splits)

text \<open>An environment with the memory store, in which every argument decodes to an object with a field.\<close>

definition store_env :: "(memory_store \<times> nat) tool_env" where
  "store_env = plain_env \<lparr>te_idem := Some (memory_idem_env None 7 ''x1'' ''ns''),
     te_ambient := bare_ambient \<lparr>json_decode := \<lambda>_. Some (JObj [(''id'', JStr ''42'')]), json_encode := \<lambda>_. Some ''42''\<rparr>\<rparr>"

definition pay_key :: string where
  "pay_key = ''tool:pay:id:ns'' @ nul @ ''pay'' @ nul @ ''id'' @ nul @ ''42''"

lemma pay_call_key: "call_key store_env (counting_tool EffectIdempotent False out) sample_call pay_key"
proof -
  have "trim_space ''id'' = ''id''" "trim_space ''pay'' = ''pay''" "trim_space ''ns'' = ''ns''" "trim_space ''{}'' = ''{}''"
    "split_on (CHR ''.'') ''id'' = [''id'']"
    by code_simp+
  then show ?thesis
    by (simp add: call_key_def counting_tool_def zero_metadata_def normalize_effect_def store_env_def plain_env_def
      idempotency_reservation_key_def idempotency_namespace_def resolve_idempotency_value_def sample_call_def pay_key_def
      Let_def)
qed

lemma sample_accepted: "args_accepted (counting_tool e b out) sample_call"
  by (simp add: args_accepted_def counting_tool_def)

definition held_store :: memory_store where
  "held_store = fst (reserve_idempotency None 1 pay_key ''x2'' new_memory_store)"

lemma pay_key_simps [simp]: "pay_key \<noteq> []" "trim_space ''x1'' = ''x1''"
  by (simp add: pay_key_def) code_simp


text \<open>A tool that times out by itself: its key is failed, so that it can be reserved again.\<close>

theorem tool_outcome_settles_witness:
  "\<exists>res s3. run_tool store_env (counting_tool EffectIdempotent False (FuncError CtxDeadline)) sample_call (new_memory_store, 0)
      = ((res, None), (s3, 1)) \<and> idem_holder s3 pay_key = Some (''x1'', IdempotencyFailed)"
proof -
  let ?t = "counting_tool EffectIdempotent False (FuncError CtxDeadline)"
  let ?s = "fst (reserve_idempotency None 7 pay_key ''x1'' new_memory_store)"
  have out: "invoke_tool store_env ?t sample_call (?s, 0) = ((zero_result, Some (ErrToolFailure CtxDeadline)), (?s, 1))"
    by (simp add: invoke_tool_def counting_tool_def)
  have free: "idem_holder new_memory_store pay_key = None" by (simp add: idem_holder_def new_memory_store_def)
  have held: "idem_holder ?s pay_key = Some (''x1'', IdempotencyPending)"
    by (simp add: idem_defs new_memory_store_def Let_def)
  show ?thesis
    using tool_outcome_settles [OF _ pay_call_key _ sample_accepted _ _ out held, of "''ns''"] free
    by (simp add: store_env_def plain_env_def should_retry_tool_call_def is_transient_error_def as_classified_def
      body_outcome_def as_tool_failure_def)
qed

definition intent_env :: "(memory_store \<times> nat) tool_env" where
  "intent_env = plain_env \<lparr>te_intents := Some (memory_intent_env bare_ambient 3 (Some CtxCanceled) 4 ''x1'' 0)\<rparr>"

theorem intent_open_iff_indeterminate_witness:
  "\<exists>res err w'. execute_with_intent intent_env (counting_tool EffectSideEffecting False FuncOk) sample_call
      (invoke_tool intent_env (counting_tool EffectSideEffecting False FuncOk) sample_call) (new_memory_store, 0) = ((res, err), w')
    \<and> (''c1'' \<in> open_intents (fst w') ''x1'' \<longleftrightarrow> err \<noteq> None)"
proof -
  let ?t = "counting_tool EffectSideEffecting False FuncOk"
  obtain res err w' where ex: "execute_with_intent intent_env ?t sample_call
      (invoke_tool intent_env ?t sample_call) (new_memory_store, 0) = ((res, err), w')"
    by (metis surj_pair)
  have t: "trim_space ''c1'' = ''c1''" "trim_space ''pay'' \<noteq> []" by code_simp+
  have k: "keeps_intents intent_env (invoke_tool intent_env ?t sample_call)"
    by (simp add: keeps_intents_def invoke_tool_def counting_tool_def intent_env_def plain_env_def split: prod.splits)
  show ?thesis
    using intent_open_iff_indeterminate [OF _ _ _ _ _ _ _ k ex, of bare_ambient 3 "Some CtxCanceled" 4 "''x1''" 0] ex t
    by (simp add: intent_env_def counting_tool_def zero_metadata_def normalize_effect_def sample_call_def is_zero_def zero_time_def)
qed

end
