(* ===== verification/Harness_Memory.thy ===== *)
theory Harness_Memory
  imports Harness_Loop
begin

text \<open>
  The harness on the components of this development: its events go through the hook bus and the event
  stream, persisted first by the in-memory store (\<open>emit\<close>, \<open>emitHookFailure\<close> and \<open>appendEvent\<close> of
  \<open>harness.go\<close>), its executions, sessions, violations, approvals and reservations are those of the
  in-memory store. The hooks and the providers, code of others, act on the rest of the world.
\<close>

record 'v mworld =
  mw_ledger :: budget_ledger
  mw_stream :: event_stream
  mw_db :: memory_store
  mw_rest :: 'v

text \<open>\<open>appendEvent\<close> for a store that allocates the identifiers of the events, as the in-memory store does.\<close>

definition append_event :: "ambient \<Rightarrow> ('v \<Rightarrow> go_time) \<Rightarrow> go_error option \<Rightarrow> event \<Rightarrow> 'v mworld \<Rightarrow> go_error option \<times> 'v mworld" where
  "append_event E clock ctx ev w =
     (case append_persisted E ctx ctx (clock (mw_rest w))
        (Some (\<lambda>e db. prod.swap (add_event E ctx (clock (mw_rest w)) e db))) (sanitize_event E ev) (mw_stream w, mw_db w) of
        ((st, db), r, deliveries) \<Rightarrow>
          ((case r of Inl err \<Rightarrow> Some err | Inr _ \<Rightarrow> None), w \<lparr>mw_stream := st, mw_db := db\<rparr>))"

definition emit_hook_failure :: "ambient \<Rightarrow> ('v \<Rightarrow> go_time) \<Rightarrow> go_error option \<Rightarrow> event \<Rightarrow> go_error \<Rightarrow> 'v mworld \<Rightarrow> go_error option \<times> 'v mworld" where
  "emit_hook_failure E clock ctx blocked err w =
     append_event E clock ctx (zero_event \<lparr>ev_kind := ''hook_failed'', ev_exec_id := ev_exec_id blocked,
        ev_session_id := ev_session_id blocked, ev_trace_id := ev_trace_id blocked,
        ev_payload := [(''blocked_kind'', AnyStr (canonical_kind (ev_kind blocked))), (''error'', any_err err)]\<rparr>) w"

definition emit_event :: "ambient \<Rightarrow> ('v \<Rightarrow> go_time) \<Rightarrow> 'v hook_bus option \<Rightarrow> go_error option \<Rightarrow> event \<Rightarrow> 'v mworld \<Rightarrow> go_error option \<times> 'v mworld" where
  "emit_event E clock bus ctx ev w =
     (let event = sanitize_event E ev in
      case hook_emit E ctx bus event (mw_rest w) of
        (Inl err, v) \<Rightarrow>
          (case emit_hook_failure E clock ctx event err (w \<lparr>mw_rest := v\<rparr>) of (e, w1) \<Rightarrow> (errors_join [Some err, e], w1))
      | (Inr updated, v) \<Rightarrow> append_event E clock ctx (sanitize_event E updated) (w \<lparr>mw_rest := v\<rparr>))"

definition on_db :: "(memory_store \<Rightarrow> memory_store \<times> 'a) \<Rightarrow> 'v mworld \<Rightarrow> 'a \<times> 'v mworld" where
  "on_db f w = (case f (mw_db w) of (db, a) \<Rightarrow> (a, w \<lparr>mw_db := db\<rparr>))"

definition memory_store_env :: "ambient \<Rightarrow> ('v \<Rightarrow> go_time) \<Rightarrow> 'v mworld harness_store" where
  "memory_store_env E clock =
     \<lparr>hs_save_execution = (\<lambda>ctx x. on_db (save_execution ctx x)),
      hs_save_session = (\<lambda>ctx s. on_db (save_session ctx s)),
      hs_add_violation = (\<lambda>ctx v w. case on_db (add_schema_violation E ctx (clock (mw_rest w)) v) w of
         (r, w1) \<Rightarrow> ((case r of Inl err \<Rightarrow> Some err | Inr _ \<Rightarrow> None), w1)),
      hs_save_approval = (\<lambda>ctx a w. on_db (save_approval E ctx (clock (mw_rest w)) a) w),
      hs_idem = (\<lambda>err1 err2 x ns.
        \<lparr>ie_exec_id = x, ie_namespace = ns,
         ie_reserve = (\<lambda>key y w. on_db (reserve_idempotency (err1 w) (clock (mw_rest w)) key y) w),
         ie_outcomes = Some
           \<lparr>os_lookup = (\<lambda>key w. get_idempotency (err1 w) key (mw_db w)),
            os_resolve = (\<lambda>key y out w. on_db (resolve_idempotency (err2 w) (clock (mw_rest w)) key y out) w)\<rparr>\<rparr>)\<rparr>"

definition lift_provider :: "'v provider_impl \<Rightarrow> 'v mworld provider_impl" where
  "lift_provider p = \<lparr>pv_name = pv_name p,
     pv_complete = (\<lambda>err req w. case pv_complete p (\<lambda>v. err (w \<lparr>mw_rest := v\<rparr>)) req (mw_rest w) of
        (r, v) \<Rightarrow> (r, w \<lparr>mw_rest := v\<rparr>))\<rparr>"

definition memory_harness ::
  "ambient \<Rightarrow> ('v \<Rightarrow> go_time) \<Rightarrow> 'v hook_bus option \<Rightarrow> (string \<Rightarrow> go_error + 'v provider_impl) \<Rightarrow> 'v mworld harness \<Rightarrow> 'v mworld harness" where
  "memory_harness E clock bus resolve base = base
     \<lparr>hn_resolver := Some (\<lambda>m. map_sum id lift_provider (resolve m)), hn_store := Some (memory_store_env E clock),
      hn_append := emit_event E clock bus, hn_ledger := mw_ledger, hn_set_ledger := (\<lambda>l w. w \<lparr>mw_ledger := l\<rparr>),
      hn_now := clock \<circ> mw_rest, hn_acquire := (\<lambda>_ _ w. (None, w)), hn_release := (\<lambda>_ w. w),
      hn_sleep := (\<lambda>err d w. (err w, w))\<rparr>"

end
