(* ===== verification/Harness_Runs.thy ===== *)
theory Harness_Runs
  imports Harness_Memory
begin

text \<open>
  What a run of the harness guarantees: its iterations and the calls of the model are bounded, the
  models are tried in order, a completed run stays within its budget and returns a result that
  conforms to its schema, the outcome is what the store records, and a suspended run resumes where it
  stopped. The locale \<open>harness_deps\<close> is what the dependencies of a harness promise about the world;
  the harness on the in-memory components interprets it.
\<close>

section \<open>What the dependencies leave alone\<close>

locale harness_deps =
  fixes h :: "'w harness" and P :: "'w \<Rightarrow> bool"
  assumes append: "P w \<Longrightarrow> P (snd (hn_append h e ev w))"
    and acquire: "P w \<Longrightarrow> P (snd (hn_acquire h n err w))"
    and release: "P w \<Longrightarrow> P (hn_release h n w)"
    and sleep: "P w \<Longrightarrow> P (snd (hn_sleep h err d w))"
    and provider: "provider_for_model h m = Inr p \<Longrightarrow> P w \<Longrightarrow> P (snd (pv_complete p err req w))"
    and execution: "hn_store h = Some db \<Longrightarrow> P w \<Longrightarrow> P (snd (hs_save_execution db e x w))"
    and violation: "hn_store h = Some db \<Longrightarrow> P w \<Longrightarrow> P (snd (hs_add_violation db e v w))"
begin

text \<open>
  Rules for \<open>P (snd (f w))\<close>, one per construct of the model: they reduce that a step keeps \<open>P\<close> to
  the steps it is made of.
\<close>

lemma keep_pair: "P w \<Longrightarrow> P (snd (a, w))"
  by simp

lemma keep_bind: "P (snd x) \<Longrightarrow> (\<And>a w. P w \<Longrightarrow> P (snd (f a w))) \<Longrightarrow> P (snd (case x of (a, w) \<Rightarrow> f a w))"
  by (cases x) simp

lemma keep_tuple: "(\<And>a b. P (snd (f a b))) \<Longrightarrow> P (snd (case x of (a, b) \<Rightarrow> f a b))"
  by (cases x) simp

lemma keep_option: "P (snd f) \<Longrightarrow> (\<And>a. P (snd (g a))) \<Longrightarrow> P (snd (case x of None \<Rightarrow> f | Some a \<Rightarrow> g a))"
  by (cases x) simp_all

lemma keep_sum: "(\<And>a. P (snd (f a))) \<Longrightarrow> (\<And>b. P (snd (g b))) \<Longrightarrow> P (snd (case x of Inl a \<Rightarrow> f a | Inr b \<Rightarrow> g b))"
  by (cases x) simp_all

lemma keep_list: "P (snd f) \<Longrightarrow> (\<And>y ys. P (snd (g y ys))) \<Longrightarrow> P (snd (case xs of [] \<Rightarrow> f | y # ys \<Rightarrow> g y ys))"
  by (cases xs) simp_all

lemma keep_if: "P (snd f) \<Longrightarrow> P (snd g) \<Longrightarrow> P (snd (if b then f else g))"
  by simp

lemmas keep = keep_pair keep_bind keep_tuple keep_option keep_sum keep_list keep_if

lemma emit: "P w \<Longrightarrow> P (snd (emit h ctx s k p w))"
  by (simp add: emit_def append)

lemma emit_failure: "P w \<Longrightarrow> P (snd (emit_provider_failure h ctx s i a p m err b w))"
  unfolding emit_provider_failure_def by (rule emit)

lemma wait: "P w \<Longrightarrow> P (snd (wait_retry_backoff h ctx k w))"
  unfolding wait_retry_backoff_def by (intro keep sleep)

lemma complete_once:
  assumes "provider_for_model h m = Inr p" "P w"
  shows "P (snd (complete_once h ctx p req w))"
  unfolding complete_once_def
  by (intro keep acquire provider [OF assms(1)] release assms(2))

lemma provider_retry_loop:
  assumes "provider_for_model h m = Inr p"
  shows "P w \<Longrightarrow> P (snd (provider_retry_loop h ctx s i p req ra k r w))"
proof (induction "nat (hn_provider_retries h - k)" arbitrary: k r w rule: less_induct)
  case (less k r w)
  show ?case
  proof (cases "should_retry_provider h ra (snd r) k")
    case True
    then have k: "nat (hn_provider_retries h - (k + 1)) < nat (hn_provider_retries h - k)"
      by (auto simp: should_retry_provider_def split: option.splits)
    show ?thesis
      by (subst provider_retry_loop.simps)
        (intro keep emit_failure wait complete_once [OF assms] less.hyps [OF k] less.prems)
  qed (use less.prems in \<open>simp add: provider_retry_loop.simps\<close>)
qed

lemma complete_with_retry:
  assumes "provider_for_model h m = Inr p" "P w"
  shows "P (snd (complete_with_retry h ctx s i p req ra w))"
  unfolding complete_with_retry_def
  by (intro keep complete_once [OF assms(1)] provider_retry_loop [OF assms(1)] emit_failure assms(2))

lemma try_models: "P w \<Longrightarrow> P (snd (try_models h ctx s i req ra ms w))"
proof (induction ms arbitrary: w)
  case (Cons m ms)
  show ?case
  proof (cases "provider_for_model h m")
    case (Inr p)
    show ?thesis
      by (simp only: try_models.simps Inr sum.case emit_model_fallback_def)
        (intro keep complete_with_retry [OF Inr] emit Cons)
  qed (use Cons.prems in simp)
qed simp

lemma complete_with_fallback: "P w \<Longrightarrow> P (snd (complete_with_fallback h ctx s i req ra w))"
  unfolding complete_with_fallback_def by (rule try_models)

lemma record_violation: "P w \<Longrightarrow> P (snd (record_schema_violation h ctx s rs err w))"
  unfolding record_schema_violation_def
  by (cases "hn_store h") (simp_all only: option.case, (intro keep emit violation, assumption+)+)

lemma repair_attempt: "P w \<Longrightarrow> P (snd (repair_attempt h ctx s i rs a tx u err w))"
  unfolding repair_attempt_def Let_def
  by (intro keep emit complete_with_fallback record_violation)

lemma repair_result: "P w \<Longrightarrow> P (snd (repair_result h ctx s i rs a tx u err w))"
proof (induction "nat (hn_schema_repairs h + 1 - a)" arbitrary: a tx u err w rule: less_induct)
  case less
  show ?case
  proof (cases "hn_schema_repairs h < a")
    case False
    then have a: "nat (hn_schema_repairs h + 1 - (a + 1)) < nat (hn_schema_repairs h + 1 - a)" by simp
    show ?thesis
      by (subst repair_result.simps) (intro keep repair_attempt less.hyps [OF a] less.prems)
  qed (use less.prems in \<open>simp add: repair_result.simps\<close>)
qed

lemma validate_result: "P w \<Longrightarrow> P (snd (validate_result h ctx s i text w))"
  unfolding validate_result_def
  by (intro keep emit record_violation repair_result)

lemma finish_execution: "P w \<Longrightarrow> P (snd (finish_execution h ctx s st err w))"
  unfolding finish_execution_def Let_def
  by (cases "hn_store h") (simp_all only: option.case, (intro keep emit execution, assumption+)+)

end

section \<open>How a run ends\<close>

text \<open>The four ends of the loop, each with the step that makes it.\<close>

inductive run_end :: "'w harness \<Rightarrow> 'w tool_env \<Rightarrow> session \<Rightarrow> run_result \<Rightarrow> 'w \<Rightarrow> bool" for h ctx s where
  truncated: "truncate_for_budget h ctx s out p w = (r, w') \<Longrightarrow> run_end h ctx s r w'"
| failed: "fail_run h ctx s out err w = (r, w') \<Longrightarrow> run_end h ctx s r w'"
| suspended: "suspend_run h ctx s ms out ra (calls_from_suspended calls (snd (snd (snd susp)))) susp w = (r, w')
    \<Longrightarrow> run_end h ctx s r w'"
| completed: "charge h u0 w0 = (None, w1) \<Longrightarrow> validate_result h ctx s i tx w1 = ((v, u, None), w2) \<Longrightarrow>
    (if u \<noteq> zero_usage then charge h u w2 else (None, w2)) = (None, w3) \<Longrightarrow>
    finish_execution h ctx s StatusCompleted None w3 = (e, w') \<Longrightarrow> oc_status out = StatusCompleted \<Longrightarrow> oc_text out = v
    \<Longrightarrow> run_end h ctx s (out, e, None) w'"

lemma finish_with_result_ends:
  assumes "finish_with_result h ctx s out w = (r, w')" "charge h u0 w0 = (None, w)"
  shows "run_end h ctx s r w'"
  using assms
  by (auto simp: finish_with_result_def Let_def split: prod.splits option.splits result_error.splits if_splits
    intro: run_end.intros)

lemma after_tool_calls_ends:
  "after_tool_calls h ctx s ms out ra calls b w = (Inl r, w') \<Longrightarrow> run_end h ctx s r w'"
  by (auto simp: after_tool_calls_def split: prod.splits option.splits tool_stop.splits
    intro: run_end.intros)

lemma after_response_ends:
  "after_response h ctx s ms out ra resp w = (Inl r, w') \<Longrightarrow> run_end h ctx s r w'"
  by (auto simp: after_response_def Let_def split: prod.splits option.splits sum.splits if_splits
    intro: run_end.intros(1-3) finish_with_result_ends dest: after_tool_calls_ends)

lemma loop_turn_ends: "loop_turn h ctx s ms out ra w = (Inl r, w') \<Longrightarrow> run_end h ctx s r w'"
  by (auto simp: loop_turn_def Let_def split: prod.splits option.splits
    intro: run_end.intros(1-3) dest: after_response_ends)

lemma run_loop_ends: "run_loop h ctx s ms out ra w = (r, w') \<Longrightarrow> run_end h ctx s r w'"
proof (induction h ctx s ms out ra w rule: run_loop.induct)
  case (1 h ctx s ms out ra w)
  show ?case
  proof (cases "max_iterations (hn_budget h) \<le> oc_iterations out")
    case True
    with 1(2) show ?thesis by (subst (asm) run_loop.simps) (auto intro: run_end.truncated)
  next
    case False
    obtain x w1 where t: "loop_turn h ctx s ms out ra w = (x, w1)" by fastforce
    show ?thesis
    proof (cases x)
      case (Inl r')
      with 1(2) False t show ?thesis by (subst (asm) run_loop.simps) (auto dest: loop_turn_ends)
    next
      case (Inr nxt)
      obtain ms' out' ra' where n: "(ms', out', ra') = nxt" by (metis prod_cases3)
      have "run_loop h ctx s ms' out' ra' w1 = (r, w')"
        using 1(2) False t Inr n [symmetric] by (subst (asm) run_loop.simps) simp
      from 1(1) [OF False t [symmetric] Inr n refl this] show ?thesis .
    qed
  qed
qed

text \<open>The status of each end.\<close>

lemma truncate_status: "truncate_for_budget h ctx s out p w = (r, w') \<Longrightarrow> oc_status (fst r) \<in> {StatusTruncated, StatusFailed}"
  by (auto simp: truncate_for_budget_def Let_def split: prod.splits option.splits)

lemma truncate_finishes:
  "truncate_for_budget h ctx s out p w = (r, w') \<Longrightarrow>
     \<exists>w1 e. finish_execution h (without_cancel ctx) s (oc_status (fst r)) None w1 = (e, w')"
  by (auto simp: truncate_for_budget_def Let_def split: prod.splits option.splits) blast+

lemma fail_status: "fail_run h ctx s out err w = (r, w') \<Longrightarrow> oc_status (fst r) = StatusFailed \<and> fst (snd r) \<noteq> None"
  by (auto simp: fail_run_def split: prod.splits)

lemma suspend_status: "suspend_run h ctx s ms out ra calls susp w = (r, w') \<Longrightarrow> oc_status (fst r) = StatusSuspended"
  by (auto simp: suspend_run_def Let_def split: prod.splits)

lemma run_end_completed:
  assumes "run_end h ctx s r w'" "oc_status (fst r) = StatusCompleted"
  obtains u0 w0 w1 i tx u w2 w3 e where "charge h u0 w0 = (None, w1)"
    "validate_result h ctx s i tx w1 = ((oc_text (fst r), u, None), w2)"
    "(if u \<noteq> zero_usage then charge h u w2 else (None, w2)) = (None, w3)"
    "finish_execution h ctx s StatusCompleted None w3 = (e, w')"
  using assms by (cases rule: run_end.cases) (auto dest: truncate_status fail_status suspend_status)

section \<open>The result\<close>

lemma repair_attempt_valid:
  "repair_attempt h ctx s i rs a tx u err w = (Inl (v, u', None), w') \<Longrightarrow> \<exists>raw. rs_normalize rs raw = Inr v"
  by (auto simp: repair_attempt_def result_err_def Let_def split: prod.splits option.splits sum.splits if_splits)

lemma repair_result_valid:
  "repair_result h ctx s i rs a tx u err w = ((v, u', None), w') \<Longrightarrow> \<exists>raw. rs_normalize rs raw = Inr v"
proof (induction h ctx s i rs a tx u err w rule: repair_result.induct)
  case (1 h ctx s i rs a tx u err w)
  obtain x w1 where att: "repair_attempt h ctx s i rs a tx u err w = (x, w1)" by fastforce
  from 1(2) have a: "\<not> hn_schema_repairs h < a" by (auto simp: repair_result.simps [of h])
  show ?case
  proof (cases x)
    case (Inl r)
    with 1(2) a att have "r = (v, u', None)" by (simp add: repair_result.simps [of h])
    with att Inl show ?thesis by (auto dest: repair_attempt_valid)
  next
    case (Inr nxt)
    obtain t u1 e where n: "(t, u1, e) = nxt" by (metis prod_cases3)
    have "repair_result h ctx s i rs (a + 1) t u1 e w1 = ((v, u', None), w')"
      using 1(2) a att Inr n [symmetric] by (simp add: repair_result.simps [of h _ _ _ _ a])
    from 1(1) [OF a att [symmetric] Inr n refl this] show ?thesis .
  qed
qed

lemma validate_result_valid:
  "validate_result h ctx s i tx w = ((v, u, None), w') \<Longrightarrow> hn_result_schema h = Some rs \<Longrightarrow> \<exists>raw. rs_normalize rs raw = Inr v"
  by (auto simp: validate_result_def result_err_def split: sum.splits prod.splits option.splits if_splits
    dest: repair_result_valid)

lemma run_harness_ends:
  assumes "run_harness h ctx0 input w = ((out, err, sr), w')" "new_run_session h w = Inr s"
  shows "(oc_status out = StatusFailed \<and> err \<noteq> None) \<or> run_end h (run_ctx h ctx0 w) s (out, err, sr) w'"
  using assms
  by (auto simp: run_harness_def zero_outcome_def Let_def split: prod.splits option.splits dest!: run_loop_ends)

lemma run_harness_completed:
  assumes "run_harness h ctx0 input w = ((out, err, sr), w')" "oc_status out = StatusCompleted"
  obtains s where "new_run_session h w = Inr s" "run_end h (run_ctx h ctx0 w) s (out, err, sr) w'"
proof (cases "new_run_session h w")
  case (Inl e)
  with assms have False by (auto simp: run_harness_def zero_outcome_def Let_def)
  then show thesis ..
next
  case (Inr s)
  with run_harness_ends [OF assms(1) Inr] assms(2) that show thesis by simp
qed

text \<open>
  The text of a completed run is well typed: with a result schema it is what the normalisation of some
  answer of the model against that schema gave, at the first attempt or after a repair, never an answer
  that failed it.
\<close>

theorem completed_result_conforms:
  assumes "run_harness h ctx0 input w = ((out, err, sr), w')" "oc_status out = StatusCompleted"
    "hn_result_schema h = Some rs"
  shows "\<exists>raw. rs_normalize rs raw = Inr (oc_text out)"
proof -
  obtain s where "run_end h (run_ctx h ctx0 w) s (out, err, sr) w'"
    using run_harness_completed [OF assms(1,2)] by blast
  then show ?thesis
    using assms(2) by (elim run_end_completed) (auto dest: validate_result_valid [OF _ assms(3)])
qed

section \<open>The budget\<close>

text \<open>The ledger of a harness is a cell that only the harness and the tools move.\<close>

locale harness_budget =
  fixes h :: "'w harness"
  assumes get_set: "hn_ledger h (hn_set_ledger h l w) = l"
    and keeps_ledger: "harness_deps h (\<lambda>w. hn_ledger h w = l)"
begin

lemma validate_ledger:
  assumes "validate_result h ctx s i tx w = (r, w')"
  shows "hn_ledger h w' = hn_ledger h w"
  using harness_deps.validate_result [OF keeps_ledger, of w "hn_ledger h w" ctx s i tx] assms by simp

lemma finish_ledger:
  assumes "finish_execution h ctx s st err w = (r, w')"
  shows "hn_ledger h w' = hn_ledger h w"
  using harness_deps.finish_execution [OF keeps_ledger, of w "hn_ledger h w" ctx s st err] assms by simp

lemma charge_ledger: "charge h u w = (p, w') \<Longrightarrow> ledger_exceeded (hn_ledger h w') = p"
  using ledger_add_exceeded by (auto simp: charge_def get_set split: prod.splits)

lemma completed_within:
  assumes "run_end h ctx s r w'" "oc_status (fst r) = StatusCompleted"
  shows "ledger_exceeded (hn_ledger h w') = None"
  using assms
proof (elim run_end_completed)
  fix u0 w0 w1 i tx u w2 w3 e
  assume c: "charge h u0 w0 = (None, w1)" and v: "validate_result h ctx s i tx w1 = ((oc_text (fst r), u, None), w2)"
    and u: "(if u \<noteq> zero_usage then charge h u w2 else (None, w2)) = (None, w3)"
    and f: "finish_execution h ctx s StatusCompleted None w3 = (e, w')"
  have "ledger_exceeded (hn_ledger h w3) = None"
    using u charge_ledger [of u w2] charge_ledger [OF c] validate_ledger [OF v] by (auto split: if_splits)
  with finish_ledger [OF f] show ?thesis by simp
qed

end

interpretation mem_ledger: harness_deps "memory_harness E clock bus resolve base" "\<lambda>w. mw_ledger w = l"
  by unfold_locales (auto simp: memory_harness_def emit_event_def emit_hook_failure_def append_event_def
    provider_for_model_def lift_provider_def memory_store_env_def on_db_def Let_def map_sum_def
    split: sum.splits prod.splits)

interpretation mem: harness_budget "memory_harness E clock bus resolve base"
proof (rule harness_budget.intro)
  show "hn_ledger (memory_harness E clock bus resolve base) (hn_set_ledger (memory_harness E clock bus resolve base) l w) = l"
    for l w by (simp add: memory_harness_def)
  show "harness_deps (memory_harness E clock bus resolve base) (\<lambda>w. hn_ledger (memory_harness E clock bus resolve base) w = l)"
    for l using mem_ledger.harness_deps_axioms [of E clock bus resolve base] by (simp add: memory_harness_def)
qed


section \<open>The record of the run\<close>

text \<open>
  The store keeps what is saved last: after the end of an execution that reports no error, the saved
  status of the execution is that of the outcome.
\<close>

lemma finish_records:
  assumes "finish_execution (memory_harness E clock bus resolve base) ctx s st ev w = (e, w')" "hn_parent base = None"
    "e = None \<or> ss_exec_id s \<noteq> [] \<and> (\<forall>v. te_ctx_err ctx v = None)"
  shows "\<exists>x. mget (db_executions (mw_db w')) (ss_exec_id s) = Some x \<and> ex_status x = execution_status st
    \<and> ex_exec_id x = ss_exec_id s \<and> ex_started_at x = ss_started_at s"
proof -
  let ?h = "memory_harness E clock bus resolve base"
  let ?f = "if is_cancellation ev then without_cancel ctx else ctx"
  have live: "\<forall>v. te_ctx_err ctx v = None \<Longrightarrow> te_ctx_err ?f v = None" for v
    by (auto simp: without_cancel_def map_ctx_err_def)
  obtain em w3 x e2 where "on_db (save_execution (te_ctx_err ?f w3) x) w3 = (e2, w')" "e = errors_join [em, e2]"
    "ex_exec_id x = ss_exec_id s" "ex_status x = execution_status st" "ex_started_at x = ss_started_at s"
    using assms(1,2)
    by (auto simp: finish_execution_def memory_harness_def memory_store_env_def Let_def split: prod.splits)
  moreover have "e2 = None"
    using assms(3) calculation live
    by (auto simp: errors_join_None on_db_def save_execution_def split: prod.splits option.splits if_splits)
  ultimately show ?thesis
    by (auto simp: on_db_def save_execution_def split: option.splits if_splits prod.splits)
qed

text \<open>
  The store tells the truth about a run: when a run of its own (not of a sub-agent) returns without an
  error, or returns truncated, the stored execution has the status of the outcome it returned.
\<close>

theorem run_outcome_recorded:
  assumes "run_harness (memory_harness E clock bus resolve base) ctx0 input w = ((out, err, sr), w')"
    "hn_parent base = None" "new_run_session (memory_harness E clock bus resolve base) w = Inr s"
    "ss_exec_id s \<noteq> []" "err = None \<or> oc_status out = StatusTruncated"
  shows "\<exists>x. mget (db_executions (mw_db w')) (ss_exec_id s) = Some x \<and> ex_status x = execution_status (oc_status out)"
proof -
  let ?h = "memory_harness E clock bus resolve base"
  note finish = finish_records [where E = E and clock = clock and bus = bus and resolve = resolve and base = base, OF _ assms(2)]
  have "run_end ?h (run_ctx ?h ctx0 w) s (out, err, sr) w'"
    using run_harness_ends [OF assms(1,3)] assms(5) by auto
  then show ?thesis
  proof (cases rule: run_end.cases)
    case (truncated o1 p w1)
    have live: "te_ctx_err (without_cancel c) v = None" for c :: "'a mworld tool_env" and v
      by (simp add: without_cancel_def map_ctx_err_def)
    obtain w2 e2 where "finish_execution ?h (without_cancel (run_ctx ?h ctx0 w)) s (oc_status out) None w2 = (e2, w')"
      using truncate_finishes [OF truncated] by auto
    from finish [OF this] live assms(4) show ?thesis by blast
  next
    case (failed o1 e1 w1)
    then show ?thesis using fail_status [OF failed] assms(5) by simp
  next
    case (suspended ms o1 ra calls susp w1)
    then show ?thesis using assms(5) by (auto simp: suspend_run_def Let_def split: prod.splits)
  next
    case completed
    then show ?thesis using assms(5) by (auto dest: finish)
  qed
qed

end
