(* ===== verification/Harness_Tools.thy ===== *)
theory Harness_Tools
  imports Harness_Runs
begin

text \<open>
  The order of things in a run: which models are tried, how many iterations it takes, when running
  sub-agents in parallel makes no difference, and what a suspension in a parallel group repeats.
\<close>

section \<open>Iterations\<close>

lemma end_iterations:
  "truncate_for_budget h ctx s out p w = (r, w') \<Longrightarrow> oc_iterations (fst r) = oc_iterations out"
  "fail_run h ctx s out err w = (r, w') \<Longrightarrow> oc_iterations (fst r) = oc_iterations out"
  "suspend_run h ctx s ms out ra calls susp w = (r, w') \<Longrightarrow> oc_iterations (fst r) = oc_iterations out"
  by (auto simp: truncate_for_budget_def fail_run_def suspend_run_def Let_def split: prod.splits option.splits)

lemma finish_with_result_iterations:
  "finish_with_result h ctx s out w = (r, w') \<Longrightarrow> oc_iterations (fst r) = oc_iterations out"
  by (auto simp: finish_with_result_def Let_def split: prod.splits option.splits result_error.splits if_splits
    dest: end_iterations)

lemma after_tool_calls_iterations:
  "after_tool_calls h ctx s ms out ra calls b w = (Inl r, w') \<Longrightarrow> oc_iterations (fst r) = oc_iterations out"
  by (auto simp: after_tool_calls_def split: prod.splits option.splits tool_stop.splits dest: end_iterations)

lemma after_response_end_iterations:
  "after_response h ctx s ms out ra resp w = (Inl r, w') \<Longrightarrow> oc_iterations (fst r) = oc_iterations out"
  by (auto simp: after_response_def Let_def split: prod.splits option.splits sum.splits if_splits
    dest: end_iterations finish_with_result_iterations after_tool_calls_iterations)

lemma loop_turn_end_iterations:
  "loop_turn h ctx s ms out ra w = (Inl r, w') \<Longrightarrow> oc_iterations (fst r) \<le> oc_iterations out + 1"
  by (auto simp: loop_turn_def Let_def split: prod.splits option.splits
    dest!: end_iterations after_response_end_iterations)

lemma run_loop_iterations:
  "run_loop h ctx s ms out ra w = (r, w') \<Longrightarrow> oc_iterations (fst r) \<le> max (oc_iterations out) (max_iterations (hn_budget h))"
proof (induction h ctx s ms out ra w rule: run_loop.induct)
  case (1 h ctx s ms out ra w)
  show ?case
  proof (cases "max_iterations (hn_budget h) \<le> oc_iterations out")
    case True
    with 1(2) show ?thesis by (subst (asm) run_loop.simps) (auto dest: end_iterations)
  next
    case False
    obtain x w1 where t: "loop_turn h ctx s ms out ra w = (x, w1)" by fastforce
    show ?thesis
    proof (cases x)
      case (Inl r')
      with 1(2) False t show ?thesis by (subst (asm) run_loop.simps) (auto dest!: loop_turn_end_iterations)
    next
      case (Inr nxt)
      obtain ms' out' ra' where n: "(ms', out', ra') = nxt" by (metis prod_cases3)
      have "run_loop h ctx s ms' out' ra' w1 = (r, w')"
        using 1(2) False t Inr n [symmetric] by (subst (asm) run_loop.simps) simp
      from 1(1) [OF False t [symmetric] Inr n refl this] loop_turn_iterations [of h ctx s ms out ra w ms' out' ra' w1]
      show ?thesis using t Inr n False by simp
    qed
  qed
qed

lemma zero_outcome_iterations: "oc_iterations (zero_outcome s) = 0"
  by (simp add: zero_outcome_def)

lemmas run_loop_iterations' = run_loop_iterations [OF surjective_pairing]

text \<open>C30
  A run always ends, and within its iterations: whatever the model answers, \<open>Run\<close> returns an outcome
  with at most the configured number of iterations, and resuming a suspended run never takes it above
  that number either.
\<close>

theorem run_iterations_bounded:
  "oc_iterations (fst (fst (run_harness h ctx input w))) \<le> max 0 (max_iterations (hn_budget h))
   \<and> oc_iterations (fst (fst (resume_after_approval h ctx sr w)))
      \<le> max (oc_iterations (sr_outcome sr)) (max_iterations (hn_budget h))"
proof
  show "oc_iterations (fst (fst (run_harness h ctx input w))) \<le> max 0 (max_iterations (hn_budget h))"
    by (auto simp: run_harness_def Let_def zero_outcome_iterations split: sum.splits option.splits prod.splits)
      (metis zero_outcome_iterations run_loop_iterations')
  show "oc_iterations (fst (fst (resume_after_approval h ctx sr w)))
      \<le> max (oc_iterations (sr_outcome sr)) (max_iterations (hn_budget h))"
    using run_loop_iterations' [of h]
    by (auto simp: resume_after_approval_def Let_def split: sum.splits option.splits prod.splits
      dest!: after_tool_calls_iterations)
qed

section \<open>Fallback models\<close>

text \<open>
  The specification of a fallback: from the models still to try, the first fails with an error that
  another model may not have, the event is recorded, and the next is tried.
\<close>

inductive falls_to ::
  "'w harness \<Rightarrow> 'w tool_env \<Rightarrow> session \<Rightarrow> int \<Rightarrow> request \<Rightarrow> bool \<Rightarrow> string list \<Rightarrow> 'w \<Rightarrow> string list \<Rightarrow> 'w \<Rightarrow> bool"
  for h ctx s i req ra where
  here: "falls_to h ctx s i req ra ms w ms w"
| fall: "provider_for_model h m = Inr p \<Longrightarrow>
    complete_with_retry h ctx s i p (req \<lparr>rq_model := m\<rparr>) ra w = ((resp, Some err), w1) \<Longrightarrow> should_fallback err \<Longrightarrow>
    emit_model_fallback h ctx s i m n err w1 = (None, w2) \<Longrightarrow> falls_to h ctx s i req ra (n # ms) w2 ms' w' \<Longrightarrow>
    falls_to h ctx s i req ra (m # n # ms) w ms' w'"

lemma try_models_spec:
  assumes "try_models h ctx s i req ra ms w = ((resp, err), w')" "ms \<noteq> []"
  shows "\<exists>m rest w1. falls_to h ctx s i req ra ms w (m # rest) w1 \<and>
    (case provider_for_model h m of
       Inl e \<Rightarrow> resp = zero_response \<and> err = Some e \<and> w' = w1
     | Inr p \<Rightarrow> \<exists>r e w2. complete_with_retry h ctx s i p (req \<lparr>rq_model := m\<rparr>) ra w1 = ((r, e), w2) \<and>
         (if e \<noteq> None \<and> rest \<noteq> [] \<and> should_fallback (the e)
          then (\<exists>em. emit_model_fallback h ctx s i m (hd rest) (the e) w2 = (Some em, w')
                 \<and> resp = zero_response \<and> err = errors_join [e, Some em])
          else resp = r \<and> err = e \<and> w' = w2))"
  using assms
proof (induction ms arbitrary: w)
  case (Cons m ms)
  show ?case
  proof (cases "provider_for_model h m")
    case (Inl e)
    with Cons.prems show ?thesis by (intro exI [of _ m] exI [of _ ms] exI [of _ w]) (auto intro: falls_to.here)
  next
    case (Inr p)
    obtain r e w1 where c: "complete_with_retry h ctx s i p (req \<lparr>rq_model := m\<rparr>) ra w = ((r, e), w1)" by (metis surj_pair)
    show ?thesis
    proof (cases "e \<noteq> None \<and> ms \<noteq> [] \<and> should_fallback (the e)")
      case False
      with Cons.prems Inr c show ?thesis
        by (intro exI [of _ m] exI [of _ ms] exI [of _ w])
          (auto intro: falls_to.here split: option.splits list.splits)
    next
      case True
      then obtain er n ms' where e: "e = Some er" "ms = n # ms'" "should_fallback er" by (cases ms) auto
      obtain em w2 where f: "emit_model_fallback h ctx s i m n er w1 = (em, w2)" by fastforce
      show ?thesis
      proof (cases em)
        case None
        with Cons.prems Inr c e f have "try_models h ctx s i req ra ms w2 = ((resp, err), w')" by simp
        from Cons.IH [OF this] e(2) falls_to.fall [OF Inr c [unfolded e(1)] e(3) f [unfolded None]]
        show ?thesis by blast
      next
        case (Some x)
        with Cons.prems Inr c e f show ?thesis
          by (intro exI [of _ m] exI [of _ ms] exI [of _ w]) (auto intro: falls_to.here)
      qed
    qed
  qed
qed simp

text \<open>C31
  Fallback refines its specification: the answer is that of the first model, after a chain of models
  that each failed with a transient, rate-limit or authentication error, that succeeds, cannot be
  resolved, fails otherwise, or is the last; no model after it is called.
\<close>

theorem fallback_in_order:
  assumes "complete_with_fallback h ctx s i req ra w = ((resp, err), w')"
  shows "\<exists>m rest w1. falls_to h ctx s i req ra (hn_model h # hn_fallbacks h) w (m # rest) w1 \<and>
    (case provider_for_model h m of
       Inl e \<Rightarrow> resp = zero_response \<and> err = Some e \<and> w' = w1
     | Inr p \<Rightarrow> \<exists>r e w2. complete_with_retry h ctx s i p (req \<lparr>rq_model := m\<rparr>) ra w1 = ((r, e), w2) \<and>
         (if e \<noteq> None \<and> rest \<noteq> [] \<and> should_fallback (the e)
          then (\<exists>em. emit_model_fallback h ctx s i m (hd rest) (the e) w2 = (Some em, w')
                 \<and> resp = zero_response \<and> err = errors_join [e, Some em])
          else resp = r \<and> err = e \<and> w' = w2))"
  by (rule try_models_spec [OF assms [unfolded complete_with_fallback_def]]) simp

section \<open>Sequential and parallel tool calls\<close>

lemma sequential_indep [simp]:
  "execute_single_tool_call (h \<lparr>hn_sequential := b\<rparr>) = execute_single_tool_call h"
  "call_tool (h \<lparr>hn_sequential := b\<rparr>) = call_tool h"
  "finish_tool_call (h \<lparr>hn_sequential := b\<rparr>) = finish_tool_call h"
  "emit_before_tool_call (h \<lparr>hn_sequential := b\<rparr>) = emit_before_tool_call h"
proof -
  have e: "emit (h \<lparr>hn_sequential := b\<rparr>) = emit h" by (intro ext) (simp add: emit_def)
  have ff: "fatal_failure (h \<lparr>hn_sequential := b\<rparr>) = fatal_failure h"
    by (intro ext) (simp add: fatal_failure_def exceeded_budget_payload_def split: option.split)
  have sf: "sub_agent_failure_is_fatal (h \<lparr>hn_sequential := b\<rparr>) = sub_agent_failure_is_fatal h"
    by (intro ext) (simp add: sub_agent_failure_is_fatal_def)
  have "record_pending_approval (h \<lparr>hn_sequential := b\<rparr>) = record_pending_approval h"
    by (intro ext) (simp add: record_pending_approval_def)
  then have "store_ctx (h \<lparr>hn_sequential := b\<rparr>) = store_ctx h"
    by (intro ext) (simp add: store_ctx_def split: option.split)
  then have "tool_ctx (h \<lparr>hn_sequential := b\<rparr>) = tool_ctx h"
    by (intro ext) (simp add: tool_ctx_def execution_ctx_def e Let_def)
  then show c: "call_tool (h \<lparr>hn_sequential := b\<rparr>) = call_tool h"
    by (intro ext) (simp add: call_tool_def wall_clock_budget_payload_def split: option.split prod.split)
  show f: "finish_tool_call (h \<lparr>hn_sequential := b\<rparr>) = finish_tool_call h"
    by (intro ext) (simp only: finish_tool_call_def e ff sf)
  show m: "emit_before_tool_call (h \<lparr>hn_sequential := b\<rparr>) = emit_before_tool_call h"
    by (intro ext) (simp add: emit_before_tool_call_def e)
  show "execute_single_tool_call (h \<lparr>hn_sequential := b\<rparr>) = execute_single_tool_call h"
    by (intro ext) (simp only: execute_single_tool_call_def c f m)
qed

lemma not_cancelled: "with_cancelled False ctx = ctx"
proof -
  have "(\<lambda>w. case err w of None \<Rightarrow> None | Some e \<Rightarrow> Some e) = err" for err :: "'a \<Rightarrow> go_error option"
    by (intro ext) (simp split: option.splits)
  then show ?thesis by (simp add: with_cancelled_def map_ctx_err_def)
qed

lemma singleton_group:
  assumes "\<forall>w. hn_schedule h w 1 = [0]"
  shows "execute_parallel_tool_calls h ctx s [c] w =
    (case execute_single_tool_call h ctx s c w of
       (Inl stp, w1) \<Rightarrow> (([], Some stp), w1) | (Inr m, w1) \<Rightarrow> (([m], None), w1))"
  using assms
  by (auto simp: execute_parallel_tool_calls_def execute_single_tool_call_def not_cancelled outcome_at_def
    split: option.splits prod.splits sum.splits)

text \<open>No two sub-agent calls in a row.\<close>

definition isolated_sub_agents :: "'w harness \<Rightarrow> tool_call list \<Rightarrow> bool" where
  "isolated_sub_agents h = successively (\<lambda>a b. \<not> (runs_in_group h a \<and> runs_in_group h b))"

text \<open>
  Running sub-agents in parallel is equivalent to running all calls one after the other whenever no two
  sub-agent calls follow each other: same messages, same stop, same world, for every list of calls.
\<close>

theorem parallel_equals_sequential:
  assumes "isolated_sub_agents h calls" "\<forall>w. hn_schedule h w 1 = [0]"
  shows "execute_tool_calls h ctx s calls ms w = execute_tool_calls (h \<lparr>hn_sequential := True\<rparr>) ctx s calls ms w"
  using assms(1)
proof (induction calls arbitrary: ms w)
  case (Cons c cs)
  have iso: "isolated_sub_agents h cs" using Cons.prems by (cases cs) (simp_all add: isolated_sub_agents_def)
  show ?case
  proof (cases "\<not> hn_sequential h \<and> runs_in_group h c")
    case True
    then have "takeWhile (runs_in_group h) (c # cs) = [c]" "dropWhile (runs_in_group h) cs = cs"
      using Cons.prems by (cases cs; simp add: isolated_sub_agents_def)+
    with True show ?thesis
      by (auto simp: singleton_group [OF assms(2)] Cons.IH [OF iso] split: sum.splits prod.splits)
  next
    case False
    then show ?thesis by (auto simp: Cons.IH [OF iso] split: sum.splits prod.splits)
  qed
qed simp

end
