(* ===== verification/Harness_Samples.thy ===== *)
theory Harness_Samples
  imports Harness_Tools
begin

text \<open>
  Runs that succeed: on the in-memory components a run whose model answers at once completes; then the
  concrete runs at which the properties of the harness are applied, and the group of sub-agents in
  which a suspension repeats the calls that had already run.
\<close>

section \<open>A run that completes\<close>

text \<open>The stream and the store count the same events, with room for \<open>n\<close> more.\<close>

definition room :: "nat \<Rightarrow> 'v mworld \<Rightarrow> bool" where
  "room n w = (es_next_id (mw_stream w) = db_next_event_id (mw_db w) \<and> db_next_event_id (mw_db w) + n < 2 ^ 64)"

lemma sanitize_event_id [simp]: "ev_id (sanitize_event E e) = ev_id e"
  by (simp add: sanitize_event_def)

lemma append_event_ok:
  assumes "room (Suc n) w" "ev_id ev = 0"
  shows "\<exists>w'. append_event E clock None ev w = (None, w') \<and> room n w' \<and> mw_ledger w' = mw_ledger w \<and> mw_rest w' = mw_rest w"
  using assms
  by (simp add: append_event_def append_persisted_def stream_append_def add_event_def stream_record_def room_def
    u64_succ_def u64_max_def Let_def)

abbreviation live :: "'w tool_env \<Rightarrow> bool" where
  "live ctx \<equiv> \<forall>v. te_ctx_err ctx v = None"

lemma emit_ok:
  assumes "room (Suc n) w" "live ctx"
  shows "\<exists>w'. emit (memory_harness E clock None resolve base) ctx s k p w = (None, w')
    \<and> room n w' \<and> mw_ledger w' = mw_ledger w \<and> mw_rest w' = mw_rest w"
  using assms append_event_ok [OF assms(1)]
  by (simp add: emit_def memory_harness_def emit_event_def hook_emit_def zero_event_def Let_def)

lemma save_ok:
  "room n w \<Longrightarrow> ex_exec_id x \<noteq> [] \<Longrightarrow> \<exists>w'. hs_save_execution (memory_store_env E clock) None x w = (None, w')
     \<and> room n w' \<and> mw_ledger w' = mw_ledger w \<and> mw_rest w' = mw_rest w"
  "room n w \<Longrightarrow> ss_session_id s \<noteq> [] \<Longrightarrow> \<exists>w'. hs_save_session (memory_store_env E clock) None s w = (None, w')
     \<and> room n w' \<and> mw_ledger w' = mw_ledger w \<and> mw_rest w' = mw_rest w"
  by (simp_all add: memory_store_env_def on_db_def save_execution_def save_session_def room_def)

lemma memory_harness_sel [simp]:
  "hn_store (memory_harness E clock bus resolve base) = Some (memory_store_env E clock)"
  "hn_parent (memory_harness E clock bus resolve base) = hn_parent base"
  "hn_budget (memory_harness E clock bus resolve base) = hn_budget base"
  "hn_model (memory_harness E clock bus resolve base) = hn_model base"
  "hn_fallbacks (memory_harness E clock bus resolve base) = hn_fallbacks base"
  "hn_pricing (memory_harness E clock bus resolve base) = hn_pricing base"
  "hn_result_schema (memory_harness E clock bus resolve base) = hn_result_schema base"
  "hn_ledger (memory_harness E clock bus resolve base) = mw_ledger"
  "hn_set_ledger (memory_harness E clock bus resolve base) l w = w \<lparr>mw_ledger := l\<rparr>"
  by (simp_all add: memory_harness_def)

lemma finish_ok:
  assumes "room (Suc (Suc n)) w" "live ctx" "hn_parent base = None" "ss_exec_id s \<noteq> []"
  shows "\<exists>w'. finish_execution (memory_harness E clock None resolve base) ctx s st None w = (None, w')
    \<and> room n w' \<and> mw_ledger w' = mw_ledger w"
proof -
  let ?h = "memory_harness E clock None resolve base"
  obtain w1 where 1: "emit ?h ctx s (if st = StatusCompleted then ''pipe_completed'' else ''pipe_failed'')
      [(''model'', AnyStr (hn_model ?h)), (''status'', AnyStr (status_text st))] w = (None, w1)"
    "room (Suc n) w1" "mw_ledger w1 = mw_ledger w"
    using emit_ok [OF assms(1,2)] by blast
  obtain w2 where 2: "emit ?h ctx s ''session_saved'' [(''status'', AnyStr (status_text st))] w1 = (None, w2)"
    "room n w2" "mw_ledger w2 = mw_ledger w1"
    using emit_ok [OF 1(2) assms(2)] by blast
  define x where "x = \<lparr>ex_exec_id = ss_exec_id s, ex_trace_id = ss_trace_id s, ex_status = execution_status st,
    ex_started_at = ss_started_at s, ex_completed_at = hn_now ?h w2\<rparr>"
  obtain w3 where 3: "hs_save_execution (memory_store_env E clock) None x w2 = (None, w3)" "room n w3" "mw_ledger w3 = mw_ledger w2"
    using save_ok(1) [OF 2(2), of x] assms(4) by (auto simp: x_def)
  show ?thesis
    using 1 2 3 assms(2,3)
    by (simp add: finish_execution_def is_cancellation_def errors_join_def List.map_filter_simps x_def)
qed

lemma start_ok:
  assumes "room (Suc (Suc n)) w" "live ctx" "hn_parent base = None" "ss_exec_id s \<noteq> []" "ss_session_id s \<noteq> []"
  shows "\<exists>w'. start_execution (memory_harness E clock None resolve base) ctx s w = (None, w')
    \<and> room n w' \<and> mw_ledger w' = mw_ledger w \<and> mw_rest w' = mw_rest w"
proof -
  let ?h = "memory_harness E clock None resolve base"
  define x where "x = \<lparr>ex_exec_id = ss_exec_id s, ex_trace_id = ss_trace_id s, ex_status = ExecutionRunning,
    ex_started_at = ss_started_at s, ex_completed_at = zero_time\<rparr>"
  obtain w1 where 1: "hs_save_execution (memory_store_env E clock) None x w = (None, w1)" "room (Suc (Suc n)) w1"
    "mw_ledger w1 = mw_ledger w" "mw_rest w1 = mw_rest w"
    using save_ok(1) [OF assms(1), of x] assms(4) by (auto simp: x_def)
  obtain w2 where 2: "hs_save_session (memory_store_env E clock) None s w1 = (None, w2)" "room (Suc (Suc n)) w2"
    "mw_ledger w2 = mw_ledger w1" "mw_rest w2 = mw_rest w1"
    using save_ok(2) [OF 1(2) assms(5)] by blast
  obtain w3 where 3: "emit ?h ctx s ''session_started'' [(''model'', AnyStr (hn_model ?h))] w2 = (None, w3)"
    "room (Suc n) w3" "mw_ledger w3 = mw_ledger w2" "mw_rest w3 = mw_rest w2"
    using emit_ok [OF 2(2) assms(2)] by blast
  obtain w4 where 4: "emit ?h ctx s ''pipe_started'' [(''model'', AnyStr (hn_model ?h))] w3 = (None, w4)"
    "room n w4" "mw_ledger w4 = mw_ledger w3" "mw_rest w4 = mw_rest w3"
    using emit_ok [OF 3(2) assms(2)] by blast
  show ?thesis using 1 2 3 4 assms(2,3) by (simp add: start_execution_def emit_started_def x_def)
qed

text \<open>The model that the harness asks first answers every request with \<open>resp\<close>.\<close>

definition answers :: "(string \<Rightarrow> go_error + 'v provider_impl) \<Rightarrow> string \<Rightarrow> response \<Rightarrow> bool" where
  "answers resolve m resp = (case resolve m of Inl _ \<Rightarrow> False
     | Inr p \<Rightarrow> \<forall>err req v. fst (pv_complete p err req v) = (resp, None))"

lemma complete_ok:
  assumes "answers resolve (hn_model base) resp" "hn_pricing base = []"
  shows "\<exists>v. complete_with_fallback (memory_harness E clock bus resolve base) ctx s i req ra w = ((resp, None), w \<lparr>mw_rest := v\<rparr>)"
proof -
  obtain p where p: "resolve (hn_model base) = Inr p" "\<And>err req v. fst (pv_complete p err req v) = (resp, None)"
    using assms(1) by (auto simp: answers_def split: sum.splits)
  let ?h = "memory_harness E clock bus resolve base"
  have prov: "provider_for_model ?h (hn_model base) = Inr (lift_provider p)"
    by (simp add: provider_for_model_def memory_harness_def p)
  have "\<exists>v. complete_once ?h ctx (lift_provider p) req w = ((resp, None), w \<lparr>mw_rest := v\<rparr>)" for req
  proof -
    let ?e = "\<lambda>v. te_ctx_err ctx (w \<lparr>mw_rest := v\<rparr>)"
    have "pv_complete p ?e req (mw_rest w) = ((resp, None), snd (pv_complete p ?e req (mw_rest w)))"
      using p(2) by (metis prod.collapse)
    then show ?thesis by (auto simp: complete_once_def memory_harness_def lift_provider_def split: prod.splits)
  qed
  then obtain v where v: "complete_once ?h ctx (lift_provider p) (req \<lparr>rq_model := hn_model base\<rparr>) w
      = ((resp, None), w \<lparr>mw_rest := v\<rparr>)" by blast
  show ?thesis
    using assms(2)
    by (intro exI [of _ v]) (simp add: complete_with_fallback_def prov complete_with_retry_def v provider_retry_loop.simps [of ?h]
      should_retry_provider_def apply_pricing_def pricing_cost_def)
qed

lemma room_rest [simp]: "room n (w \<lparr>mw_rest := v\<rparr>) = room n w" "room n (w \<lparr>mw_ledger := l\<rparr>) = room n w"
  by (simp_all add: room_def)

lemma validate_ok:
  assumes "room (Suc n) w" "live ctx"
    "case hn_result_schema base of None \<Rightarrow> v = tx | Some rs \<Rightarrow> rs_normalize rs tx = Inr v"
  shows "\<exists>w'. validate_result (memory_harness E clock None resolve base) ctx s i tx w = ((v, zero_usage, None), w')
    \<and> room n w' \<and> mw_ledger w' = mw_ledger w"
proof (cases "hn_result_schema base")
  case None
  with assms show ?thesis by (simp add: validate_result_def room_def)
next
  case (Some rs)
  obtain w' where "emit (memory_harness E clock None resolve base) ctx s ''schema_validation_passed''
      [(''schema'', AnyStr (rs_name rs))] w = (None, w')" "room n w'" "mw_ledger w' = mw_ledger w"
    using emit_ok [OF assms(1,2)] by blast
  with Some assms(3) show ?thesis by (simp add: validate_result_def result_err_def)
qed

lemma run_completes:
  assumes "room 7 w" "live ctx" "hn_parent base = None" "max_wall_clock (hn_budget base) \<le> 0"
    "0 < max_iterations (hn_budget base)" "hn_pricing base = []"
    "new_run_session (memory_harness E clock None resolve base) w = Inr s" "ss_exec_id s \<noteq> []" "ss_session_id s \<noteq> []"
    "answers resolve (hn_model base) resp" "rp_tool_calls resp = []" "rp_stop resp \<noteq> StopMaxTokens"
    "ledger_exceeded (mw_ledger w) = None" "fst (ledger_add (rp_usage resp) (mw_ledger w)) = None"
    "case hn_result_schema base of None \<Rightarrow> v = rp_text resp | Some rs \<Rightarrow> rs_normalize rs (rp_text resp) = Inr v"
  shows "\<exists>out w'. run_harness (memory_harness E clock None resolve base) ctx input w = ((out, None, None), w')
    \<and> oc_status out = StatusCompleted \<and> oc_text out = v \<and> oc_iterations out = 1"
proof -
  let ?h = "memory_harness E clock None resolve base"
  have room: "room (Suc (Suc (Suc (Suc (Suc (Suc (Suc 0))))))) w" using assms(1) by (simp add: numeral_eq_Suc)
  obtain w1 where 1: "start_execution ?h ctx s w = (None, w1)" "room (Suc (Suc (Suc (Suc (Suc 0))))) w1" "mw_ledger w1 = mw_ledger w"
    using start_ok [OF room assms(2,3,8,9)] by blast
  let ?o = "zero_outcome s \<lparr>oc_iterations := 1\<rparr>"
  obtain w2 where 2: "emit ?h ctx s ''llm_call_started'' [(''iteration'', any_int 1), (''model'', AnyStr (hn_model ?h))] w1 = (None, w2)"
    "room (Suc (Suc (Suc (Suc 0)))) w2" "mw_ledger w2 = mw_ledger w1"
    using emit_ok [OF 1(2) assms(2)] by blast
  obtain u where 3: "complete_with_fallback ?h ctx s 1 (turn_request ?h [user_text input]) True w2 = ((resp, None), w2 \<lparr>mw_rest := u\<rparr>)"
    using complete_ok [OF assms(10,6)] by blast
  obtain w4 where 4: "emit ?h ctx s ''llm_call_completed'' (after_llm_fields ?h 1 resp @ llm_metadata_fields (rp_metadata resp))
      (w2 \<lparr>mw_rest := u\<rparr>) = (None, w4)" "room (Suc (Suc (Suc 0))) w4" "mw_ledger w4 = mw_ledger w2"
    using emit_ok [of "Suc (Suc (Suc 0))" "w2 \<lparr>mw_rest := u\<rparr>", OF _ assms(2)] 2(2) by fastforce
  define w5 where "w5 = w4 \<lparr>mw_ledger := snd (ledger_add (rp_usage resp) (mw_ledger w))\<rparr>"
  have 5: "charge ?h (rp_usage resp) w4 = (None, w5)"
    using assms(14) 1(3) 2(3) 4(3) by (auto simp: charge_def w5_def split: prod.splits)
  obtain w6 where 6: "validate_result ?h ctx s 1 (rp_text resp) w5 = ((v, zero_usage, None), w6)" "room (Suc (Suc 0)) w6"
    using validate_ok [OF _ assms(2,15), of "Suc (Suc 0)" w5 E clock resolve s 1] 4(2) by (auto simp: w5_def)
  obtain w7 where 7: "finish_execution ?h ctx s StatusCompleted None w6 = (None, w7)"
    using finish_ok [OF 6(2) assms(2,3,8)] by blast
  have ctx: "run_ctx ?h ctx w = ctx" using assms(4) by (simp add: run_ctx_def)
  have "loop_turn ?h ctx s [user_text input] (zero_outcome s) True w1
    = (Inl ((?o \<lparr>oc_usage := usage_add zero_usage (rp_usage resp), oc_text := v, oc_status := StatusCompleted\<rparr>, None, None)), w7)"
    using 1(3) 2(1) 3 4(1) 5 6(1) 7 assms(11-13)
    by (simp add: loop_turn_def after_response_def finish_with_result_def zero_outcome_def)
  then have "run_loop ?h ctx s [user_text input] (zero_outcome s) True w1
    = ((?o \<lparr>oc_usage := usage_add zero_usage (rp_usage resp), oc_text := v, oc_status := StatusCompleted\<rparr>, None, None), w7)"
    using assms(5) by (subst run_loop.simps) (simp add: zero_outcome_def)
  then show ?thesis using 1(1) assms(7) by (simp add: run_harness_def ctx)
qed


section \<open>Concrete runs\<close>

definition sample_budget :: budget where
  "sample_budget = \<lparr>max_iterations = 2, max_tokens = 10, max_cost_usd = 1, max_wall_clock = 0\<rparr>"

definition answer :: "string \<Rightarrow> tool_call list \<Rightarrow> response" where
  "answer tx calls = zero_response \<lparr>rp_text := tx, rp_tool_calls := calls, rp_stop := StopEndTurn,
     rp_usage := \<lparr>us_input = 2, us_output = 1, us_cost = 0\<rparr>\<rparr>"

text \<open>A provider with one answer for every request.\<close>

definition one_answer :: "response \<Rightarrow> go_error option \<Rightarrow> 'w provider_impl" where
  "one_answer r err = \<lparr>pv_name = ''p'', pv_complete = (\<lambda>_ _ w. ((r, err), w))\<rparr>"

definition quiet_ctx :: "'w tool_env" where
  "quiet_ctx = \<lparr>te_ctx_err = (\<lambda>_. None), te_tool_ctx_err = (\<lambda>_. None), te_observe = (\<lambda>_ w. (None, w)),
     te_approved = None, te_resolver = None, te_gate = None, te_idem = None, te_replay = False, te_intents = None,
     te_max_retries = 0, te_backoff = 0, te_observe_retry = (\<lambda>_ w. (None, w)), te_wait = (\<lambda>_ w. (None, w)),
     te_sha256 = id, te_ambient = bare_ambient, te_session = None, te_ledger = None, te_depth = 0\<rparr>"

definition plain_harness :: "'w executor \<Rightarrow> 'w provider_impl \<Rightarrow> 'w harness" where
  "plain_harness ex p = \<lparr>hn_provider = p, hn_model = ''p/m'', hn_system_prompt = [], hn_budget = sample_budget,
     hn_parent = None, hn_executor = ex, hn_tools = [], hn_store = None, hn_append = (\<lambda>_ _ w. (None, w)),
     hn_result_schema = Some \<lparr>rs_name = ''r'', rs_json = ''{}'', rs_normalize = (\<lambda>tx. if tx = ''ok'' then Inr ''OK'' else Inl CtxCanceled)\<rparr>,
     hn_schema_repairs = 0, hn_provider_retries = 0, hn_retry_backoff = 0, hn_sequential = False, hn_pricing = [],
     hn_fallbacks = [''q/m''], hn_resolver = None, hn_acquire = (\<lambda>_ _ w. (None, w)), hn_release = (\<lambda>_ w. w),
     hn_idem_scope = [], hn_ledger_ref = 0, hn_ledger = (\<lambda>_. new_budget_ledger sample_budget), hn_set_ledger = (\<lambda>_ w. w), hn_now = (\<lambda>_. 5),
     hn_fresh = (\<lambda>_ pre. pre @ ''1''), hn_sleep = (\<lambda>_ _ w. (None, w)), hn_approval_id = (\<lambda>w. (''a1'', w)),
     hn_schedule = (\<lambda>_ n. [0..<n]), hn_cache_key = (\<lambda>_ _. [])\<rparr>"

definition no_tools :: "'w executor" where "no_tools = \<lparr>xr_tools = [], xr_policy = None\<rparr>"

definition sample_memory_harness :: "unit mworld harness" where
  "sample_memory_harness = memory_harness bare_ambient (\<lambda>_. 5) None (\<lambda>_. Inr (one_answer (answer ''ok'' []) None))
     (plain_harness no_tools (one_answer (answer [] []) None))"

definition sample_world :: "unit mworld" where
  "sample_world = \<lparr>mw_ledger = new_budget_ledger sample_budget, mw_stream = new_event_stream 0 8, mw_db = new_memory_store, mw_rest = ()\<rparr>"


lemma sample_room: "room 7 sample_world"
  by (simp add: room_def sample_world_def new_memory_store_def new_event_stream_def)

lemma sample_session:
  "new_run_session sample_memory_harness sample_world = Inr \<lparr>ss_exec_id = ''exec1'', ss_session_id = ''sess1'',
     ss_parent_session_id = [], ss_trace_id = ''trace1'', ss_model = ''p/m'', ss_started_at = 5, ss_budget = sample_budget\<rparr>"
  by code_simp

lemma sample_ledger:
  "ledger_exceeded (mw_ledger sample_world) = None"
  "fst (ledger_add \<lparr>us_input = 2, us_output = 1, us_cost = 0\<rparr> (mw_ledger sample_world)) = None"
  by code_simp+

lemma sample_answers: "answers (\<lambda>_. Inr (one_answer (answer ''ok'' []) None)) m (answer ''ok'' [])"
  by (simp add: answers_def one_answer_def)

lemma plain_harness_sel:
  "hn_parent (plain_harness ex p) = None" "hn_budget (plain_harness ex p) = sample_budget" "hn_pricing (plain_harness ex p) = []"
  "hn_result_schema (plain_harness ex p)
    = Some \<lparr>rs_name = ''r'', rs_json = ''{}'', rs_normalize = (\<lambda>tx. if tx = ''ok'' then Inr ''OK'' else Inl CtxCanceled)\<rparr>"
  by (simp_all add: plain_harness_def)

lemmas sample_facts = sample_room sample_ledger sample_answers sample_session [unfolded sample_memory_harness_def]
  plain_harness_sel

lemma sample_completes:
  "\<exists>out w'. run_harness sample_memory_harness quiet_ctx ''hi'' sample_world = ((out, None, None), w')
    \<and> oc_status out = StatusCompleted \<and> oc_text out = ''OK'' \<and> oc_iterations out = 1"
  unfolding sample_memory_harness_def
  by (rule run_completes [OF sample_room _ _ _ _ _ sample_session [unfolded sample_memory_harness_def] _ _ sample_answers])
    (simp_all add: sample_facts quiet_ctx_def sample_budget_def answer_def zero_response_def)


theorem completed_result_conforms_witness:
  "\<exists>out w' raw. run_harness sample_memory_harness quiet_ctx ''hi'' sample_world = ((out, None, None), w')
    \<and> (if raw = ''ok'' then Inr ''OK'' else Inl CtxCanceled) = Inr (oc_text out)"
proof -
  obtain out w' where run: "run_harness sample_memory_harness quiet_ctx ''hi'' sample_world = ((out, None, None), w')"
    "oc_status out = StatusCompleted"
    using sample_completes by blast
  have rs: "hn_result_schema sample_memory_harness
    = Some \<lparr>rs_name = ''r'', rs_json = ''{}'', rs_normalize = (\<lambda>tx. if tx = ''ok'' then Inr ''OK'' else Inl CtxCanceled)\<rparr>"
    by (simp add: sample_memory_harness_def plain_harness_sel)
  from completed_result_conforms [OF run rs] run show ?thesis by (simp only: result_schema.select_convs) blast
qed


theorem run_outcome_recorded_witness:
  "\<exists>w' x. snd (run_harness sample_memory_harness quiet_ctx ''hi'' sample_world) = w'
    \<and> mget (db_executions (mw_db w')) ''exec1'' = Some x \<and> ex_status x = ExecutionCompleted"
proof -
  obtain out w' where run: "run_harness sample_memory_harness quiet_ctx ''hi'' sample_world = ((out, None, None), w')"
    "oc_status out = StatusCompleted"
    using sample_completes by blast
  from run_outcome_recorded [OF run(1) [unfolded sample_memory_harness_def] plain_harness_sel(1) sample_session [unfolded sample_memory_harness_def]]
    run plain_harness_sel(1) show ?thesis by (auto simp: execution_status_def)
qed

text \<open>Both models fail with a transient error: the second is tried, and its error is returned.\<close>

definition failing_harness :: "unit harness" where
  "failing_harness = plain_harness no_tools (one_answer zero_response (Some (ErrClassified KTransient CtxDeadline)))"

theorem fallback_in_order_witness:
  "\<exists>m rest w1. falls_to failing_harness quiet_ctx zero_session 1 (turn_request failing_harness []) True
     [''p/m'', ''q/m''] () (m # rest) w1"
proof -
  obtain resp err w' where c: "complete_with_fallback failing_harness quiet_ctx zero_session 1 (turn_request failing_harness []) True ()
      = ((resp, err), w')"
    by (metis surj_pair)
  have "hn_model failing_harness # hn_fallbacks failing_harness = [''p/m'', ''q/m'']"
    by (simp add: failing_harness_def plain_harness_def)
  with fallback_in_order [OF c] show ?thesis by auto
qed

section \<open>Parallel sub-agents\<close>

text \<open>The two sub-agents of a group; \<open>b\<close> counts its calls in the world.\<close>

definition sub_agent :: "string \<Rightarrow> (nat \<Rightarrow> nat) \<Rightarrow> nat registered_tool" where
  "sub_agent name f = \<lparr>rt_name = name, rt_body = Handler (\<lambda>env c w. (HandlerResult (success_result c JNull), f w)),
     rt_validate = (\<lambda>_. None), rt_metadata = zero_metadata \<lparr>md_kind := ToolKindSubAgent\<rparr>\<rparr>"

text \<open>A policy that suspends \<open>a\<close> until it has been approved.\<close>

definition suspending_policy :: "bool \<Rightarrow> policy_fn" where
  "suspending_policy approved ctx a =
     ((if ac_tool_name a = ''a'' \<and> \<not> approved
       then \<lparr>de_allowed = False, de_reason = [], de_suspended = True, de_approval_id = ''ap1''\<rparr>
       else \<lparr>de_allowed = True, de_reason = [], de_suspended = False, de_approval_id = []\<rparr>), None)"

definition group_harness :: "bool \<Rightarrow> nat harness" where
  "group_harness approved = plain_harness
     \<lparr>xr_tools = [(''a'', sub_agent ''a'' id), (''b'', sub_agent ''b'' Suc)], xr_policy = Some (suspending_policy approved)\<rparr>
     (one_answer zero_response None)"

definition group_calls :: "tool_call list" where
  "group_calls = [\<lparr>tc_id = ''c1'', tc_name = ''a'', tc_args = ''{}''\<rparr>, \<lparr>tc_id = ''c2'', tc_name = ''b'', tc_args = ''{}''\<rparr>]"

text \<open>The schedule in which \<open>b\<close> has run when \<open>a\<close> suspends.\<close>

definition b_first :: "nat harness \<Rightarrow> nat harness" where
  "b_first h = h \<lparr>hn_schedule := (\<lambda>_ n. rev [0..<n])\<rparr>"

theorem parallel_equals_sequential_witness:
  "execute_tool_calls (group_harness True) quiet_ctx zero_session [hd group_calls] [] 0
   = execute_tool_calls ((group_harness True) \<lparr>hn_sequential := True\<rparr>) quiet_ctx zero_session [hd group_calls] [] 0"
  by (rule parallel_equals_sequential) (simp_all add: isolated_sub_agents_def group_harness_def plain_harness_def)

text \<open>
  A suspension in a parallel group repeats what the group has already done: with the calls \<open>a\<close> and
  \<open>b\<close> in one group, where \<open>b\<close> has run when \<open>a\<close> is suspended by the policy, the suspended run
  keeps both calls, and resuming it runs \<open>b\<close> a second time.
\<close>

theorem parallel_suspension_repeats_calls:
  "snd (execute_tool_calls (b_first (group_harness False)) quiet_ctx zero_session group_calls [] 0) = 1
   \<and> fst (execute_tool_calls (b_first (group_harness False)) quiet_ctx zero_session group_calls [] 0)
     = ([], Some (StopError (ErrSuspended ''ap1'' [] ''a'' ''c1'')))
   \<and> snd (execute_tool_calls (b_first (group_harness True)) (with_approved ''ap1'' ''c1'' quiet_ctx) zero_session
       (calls_from_suspended group_calls ''c1'') [] 1) = 2"
  by code_simp

end
