(* ===== verification/Pipeline_Facts.thy ===== *)
theory Pipeline_Facts
  imports Pipelines Harness_Samples
begin

text \<open>
  What the execution of the steps of a plan guarantees: the steps after a checkpoint run as in the
  uninterrupted run, a partial composition isolates its pipelines and keeps their order, and what the
  continuation of a suspended step covers.
\<close>

section \<open>The steps after a checkpoint\<close>

text \<open>The scope in which the steps after the first \<open>k\<close> are run again.\<close>

definition shift_scope :: "nat \<Rightarrow> plan_scope \<Rightarrow> plan_scope" where
  "shift_scope k scope = scope \<lparr>px_durable := journal_with_base (px_durable scope) k, px_base := px_base scope + int k\<rparr>"

lemma shift_scope_sel [simp]:
  "px_parent (shift_scope k scope) = px_parent scope" "px_ledger (shift_scope k scope) = px_ledger scope"
  "px_namespace (shift_scope k scope) = px_namespace scope"
  by (simp_all add: shift_scope_def)

lemma checkpoint_shift: "checkpoint_step rt ctx (px_durable (shift_scope k scope)) i = checkpoint_step rt ctx (px_durable scope) (k + i)"
  by (intro ext, cases "px_durable scope"; cases "rx_store rt")
    (simp_all add: checkpoint_step_def shift_scope_def journal_with_base_def add.assoc split: prod.split option.split)

lemma intent_shift: "intent_ctx rt (px_durable (shift_scope k scope)) i = intent_ctx rt (px_durable scope) (k + i)"
  by (intro ext, cases "px_durable scope"; cases "rx_store rt")
    (simp_all add: intent_ctx_def shift_scope_def journal_with_base_def add.assoc)

lemma step_scope_shift:
  "px_namespace (step_scope rt (shift_scope k scope) i s) = px_namespace (step_scope rt scope (k + i) s)"
  "without_journal (step_scope rt (shift_scope k scope) i s) = without_journal (step_scope rt scope (k + i) s)"
  by (simp_all add: step_scope_def shift_scope_def without_journal_def add.assoc)

lemma skill_prompts_shift: "skill_prompts rt ctx (shift_scope k scope) ns acc w = skill_prompts rt ctx scope ns acc w"
  by (induction rt ctx scope ns acc w rule: skill_prompts.induct)
    (simp_all add: emit_skill_loaded_def split: sum.split prod.split option.split)

lemma step_harness_shift: "step_harness rt ctx (shift_scope k scope) c ns sas w = step_harness rt ctx scope c ns sas w"
proof -
  have 1: "system_prompt_for_step rt ctx (shift_scope k scope) = system_prompt_for_step rt ctx scope"
    by (intro ext) (simp add: system_prompt_for_step_def skill_prompts_shift)
  have 2: "step_harness_options rt (shift_scope k scope) = step_harness_options rt scope"
    by (intro ext) (simp add: step_harness_options_def)
  show ?thesis unfolding step_harness_def 1 2 ..
qed

lemma run_parallel_shift:
  "run_parallel_step rt ctx (step_scope rt (shift_scope k scope) i s) c = run_parallel_step rt ctx (step_scope rt scope (k + i) s) c"
  by (intro ext) (unfold run_parallel_step_def step_scope_shift, rule refl)

lemma run_map_shift:
  "run_map_step rt ctx (step_scope rt (shift_scope k scope) i s) c = run_map_step rt ctx (step_scope rt scope (k + i) s) c"
  by (intro ext) (unfold run_map_step_def step_scope_shift, rule refl)

text \<open>Two ends of a loop that differ at most in the session of the result and in the form of the continuation.\<close>

definition same_end :: "'w plan_outcome \<times> 'w \<Rightarrow> 'w plan_outcome \<times> 'w \<Rightarrow> bool" where
  "same_end a b \<longleftrightarrow> (case (a, b) of (((r, e, s), w), ((r', e', s'), w')) \<Rightarrow>
     pr_output r = pr_output r' \<and> e = e' \<and> (s = None \<longleftrightarrow> s' = None) \<and> w = w')"

lemma same_end_refl [simp]: "same_end a a"
  by (simp add: same_end_def split: prod.split)

lemma same_end_trans: "same_end a b \<Longrightarrow> same_end b c \<Longrightarrow> same_end a c"
  by (auto simp: same_end_def split: prod.splits)

definition same_step :: "('w plan_outcome + plan_run_result) \<times> 'w \<Rightarrow> ('w plan_outcome + plan_run_result) \<times> 'w \<Rightarrow> bool" where
  "same_step a b \<longleftrightarrow> (case (a, b) of
       ((Inl x, w), (Inl y, w')) \<Rightarrow> same_end (x, w) (y, w')
     | ((Inr r, w), (Inr r', w')) \<Rightarrow> r = r' \<and> w = w'
     | _ \<Rightarrow> False)"

lemma same_step_refl [simp]: "same_step a a"
  by (simp add: same_step_def split: prod.split sum.split)

lemma run_pipe_same:
  assumes "pr_output r = pr_output r'"
  shows "same_step (run_pipe_step rt ctx (shift_scope k scope) i c ns sas rest cur r w)
    (run_pipe_step rt ctx scope (k + i) c ns sas rest' cur r' w)"
proof (cases "step_harness rt ctx scope c ns sas w")
  case (Pair x w1)
  note defs = run_pipe_step_def step_harness_shift intent_shift checkpoint_shift Let_def
  show ?thesis
  proof (cases x)
    case (Inl err)
    with Pair assms show ?thesis unfolding defs by (simp add: same_step_def same_end_def)
  next
    case (Inr hm)
    obtain h mcp where hm: "hm = (h, mcp)" by (cases hm)
    obtain out err sr w2 where run: "run_harness h (intent_ctx rt (px_durable scope) (k + i) ctx) cur w1 = ((out, err, sr), w2)"
      by (metis prod.collapse)
    obtain cl w3 where cl: "close_sessions mcp None w2 = (cl, w3)" by (metis prod.collapse)
    obtain ck w4 where ck: "checkpoint_step rt ctx (px_durable scope) (k + i) (oc_text out) w3 = (ck, w4)"
      by (metis prod.collapse)
    from Pair Inr hm run cl ck assms show ?thesis
      unfolding defs by (cases err; cases cl; cases ck) (simp_all add: same_step_def same_end_def)
  qed
qed

lemma after_composed_same:
  "same_step (after_composed_step rt ctx (shift_scope k scope) i x) (after_composed_step rt ctx scope (k + i) x)"
  by (simp add: after_composed_step_def checkpoint_shift same_step_def same_end_def split: prod.split sum.split option.split)

lemma shift_scope_0 [simp]: "shift_scope 0 scope = scope"
  by (simp add: shift_scope_def journal_with_base_def option.map_ident)

lemma step_loop_cons_same:
  assumes "same_step a b"
    "\<And>res v. a = (Inr res, v) \<Longrightarrow> same_end (f res v) (g res v)"
  shows "same_end (case a of (Inl out, v) \<Rightarrow> (out, v) | (Inr res, v) \<Rightarrow> f res v)
    (case b of (Inl out, v) \<Rightarrow> (out, v) | (Inr res, v) \<Rightarrow> g res v)"
  using assms by (cases a; cases b; cases "fst a"; cases "fst b") (auto simp: same_step_def)

lemma step_loop_shift:
  "pr_output r = pr_output r' \<Longrightarrow>
   same_end (step_loop rt ctx (shift_scope k scope) ss i cur r w) (step_loop rt ctx scope ss (k + i) cur r' w)"
proof (induction ss arbitrary: i cur r r' w)
  case Nil
  then show ?case by (simp add: step_loop.simps same_end_def)
next
  case (Cons s ss)
  obtain c sas bs m where s: "s = Step c sas bs m" by (cases s)
  show ?case
    unfolding s step_loop.simps Let_def intent_shift run_parallel_shift run_map_shift step_scope_shift
    by (rule step_loop_cons_same)
      (use Cons.prems in \<open>auto intro!: Cons.IH [simplified] after_composed_same run_pipe_same
        simp: add.assoc simp del: add_Suc_right\<close>)
qed

text \<open>The loop returns an error as soon as a step returns, so that a prefix without one goes on with the rest.\<close>

lemma run_pipe_Inl: "run_pipe_step rt ctx scope i c ns sas rest cur r w = (Inl (r', e, sp), w') \<Longrightarrow> e \<noteq> None"
  by (auto simp: run_pipe_step_def Let_def split: prod.splits sum.splits option.splits if_splits)

lemma after_composed_Inl: "after_composed_step rt ctx scope i x = (Inl (r', e, sp), w') \<Longrightarrow> e \<noteq> None"
  by (auto simp: after_composed_step_def split: prod.splits option.splits)

lemma run_pipe_rest:
  "run_pipe_step rt ctx scope i c ns sas rest cur r w = (Inr res, w') \<Longrightarrow>
   run_pipe_step rt ctx scope i c ns sas rest' cur r w = (Inr res, w')"
  using run_pipe_same [of r r rt ctx 0 scope i c ns sas rest cur w rest']
  by (auto simp: same_step_def split: prod.splits sum.splits)

text \<open>What the step \<open>i\<close> does, with the steps that a continuation would have left.\<close>

definition step_end ::
  "'w http_runtime \<Rightarrow> 'w tool_env \<Rightarrow> plan_scope \<Rightarrow> nat \<Rightarrow> 'w step \<Rightarrow> 'w step list \<Rightarrow> string \<Rightarrow> plan_run_result \<Rightarrow> 'w
     \<Rightarrow> ('w plan_outcome + plan_run_result) \<times> 'w" where
  "step_end rt ctx scope i s remaining cur r w =
     (if sp_kind (st_config s) = step_parallel
      then after_composed_step rt ctx scope i (run_parallel_step rt (intent_ctx rt (px_durable scope) i ctx) (step_scope rt scope i s)
        (st_config s) (map (\<lambda>b ctx input sc. run_steps rt ctx sc (pl_steps b) input) (st_branches s)) cur w)
      else if sp_kind (st_config s) = step_map
      then after_composed_step rt ctx scope i (run_map_step rt (intent_ctx rt (px_durable scope) i ctx) (step_scope rt scope i s)
        (st_config s) (\<lambda>ctx input sc. run_steps rt ctx sc (pl_steps (st_map_pipeline s)) input) cur w)
      else run_pipe_step rt ctx scope i (st_config s) (px_namespace (step_scope rt scope i s))
        (map (\<lambda>a. (sa_name a, sa_partial_ok a, Handler (sub_agent_handler rt (sa_name a) (sa_max_parallel a)
           (\<lambda>ctx input sc. run_steps rt ctx sc (pl_steps (sa_pipeline a)) input)))) (st_sub_agents s)) remaining cur r w)"

definition step_cont :: "('w plan_outcome + plan_run_result) \<times> 'w \<Rightarrow> (plan_run_result \<Rightarrow> 'w plan_run) \<Rightarrow> 'w plan_outcome \<times> 'w" where
  "step_cont a f = (case a of (Inl out, v) \<Rightarrow> (out, v) | (Inr res, v) \<Rightarrow> f res v)"

lemma step_loop_Cons:
  "step_loop rt ctx scope (s # ss) i cur r w
    = step_cont (step_end rt ctx scope i s ss cur r w) (\<lambda>res. step_loop rt ctx scope ss (i + 1) (pr_output res) res)"
  by (cases s) (simp only: step_loop.simps step_end_def step_cont_def run_steps_def Let_def step.sel)

lemma step_end_error: "step_end rt ctx scope i s rest cur r w = (Inl (r', e, sp), w') \<Longrightarrow> e \<noteq> None"
  by (auto simp: step_end_def split: if_splits dest: run_pipe_Inl after_composed_Inl)

lemma step_end_rest:
  "step_end rt ctx scope i s rest cur r w = (Inr res, w') \<Longrightarrow> step_end rt ctx scope i s rest' cur r w = (Inr res, w')"
  by (auto simp: step_end_def split: if_splits intro: run_pipe_rest)

lemma step_cont_ok:
  assumes "step_cont (step_end rt ctx scope i s rest cur r w) f = ((r1, None, sp), w1)"
  obtains res v where "step_end rt ctx scope i s rest cur r w = (Inr res, v)" "f res v = ((r1, None, sp), w1)"
proof (cases "step_end rt ctx scope i s rest cur r w")
  case (Pair x v)
  with assms that show ?thesis by (cases x) (auto simp: step_cont_def dest: step_end_error)
qed

lemma step_loop_append:
  assumes "step_loop rt ctx scope xs i cur r w = ((r1, None, sp), w1)" "cur = pr_output r"
  shows "step_loop rt ctx scope (xs @ ys) i cur r w = step_loop rt ctx scope ys (i + length xs) (pr_output r1) r1 w1"
  using assms
proof (induction xs arbitrary: i cur r w)
  case Nil
  then show ?case by (simp add: step_loop.simps)
next
  case (Cons s xs)
  obtain res v where 1: "step_end rt ctx scope i s xs cur r w = (Inr res, v)"
    and 2: "step_loop rt ctx scope xs (i + 1) (pr_output res) res v = ((r1, None, sp), w1)"
    using Cons.prems(1) unfolding step_loop_Cons by (rule step_cont_ok)
  show ?case using Cons.IH [OF 2 refl] step_end_rest [OF 1, of "xs @ ys"]
    by (simp add: step_loop_Cons step_cont_def)
qed

lemma resume_same:
  assumes "run_steps rt ctx scope (take k steps) input w = ((r, None, sp), w1)" "k \<le> length steps"
  shows "same_end (run_steps rt ctx (shift_scope k scope) (drop k steps) (pr_output r) w1)
    (run_steps rt ctx scope steps input w)"
proof -
  have "run_steps rt ctx scope (take k steps @ drop k steps) input w
      = step_loop rt ctx scope (drop k steps) (0 + length (take k steps)) (pr_output r) r w1"
    using assms(1) unfolding run_steps_def by (rule step_loop_append) simp
  moreover have "length (take k steps) = k" using assms(2) by simp
  ultimately show ?thesis
    using step_loop_shift [of "\<lparr>pr_output = pr_output r, pr_session = None\<rparr>" r rt ctx k scope "drop k steps" 0 "pr_output r" w1]
    unfolding run_steps_def append_take_drop_id add_0 by (simp only: plan_run_result.select_convs add_0_right simp_thms)
qed

text \<open>C13
  Recovery continues the run: when the first \<open>k\<close> steps of a plan have run, running the others from
  the checkpoint of the last one - the remaining steps, on its output, with the step indices of the
  journal and of the idempotency keys shifted by \<open>k\<close>, as a replay and an approval resume do - ends as
  the uninterrupted run: the same output and error, suspended or not, and the same effects on the world
  (checkpoints, intents, events, tool calls).
\<close>

theorem checkpoint_resume_continues:
  assumes "run_steps rt ctx scope (take k steps) input w = ((r, None, sp), w1)" "k \<le> length steps"
  shows "same_end (run_steps rt ctx (shift_scope k scope) (drop k steps) (pr_output r) w1)
    (run_steps rt ctx scope steps input w)"
  using assms by (rule resume_same)

section \<open>A partial composition\<close>

text \<open>
  With \<open>PartialOK\<close> no pipeline cancels another: each runs in the context of the step, whatever the
  others returned, and its outcome stands at its own index.
\<close>

fun branch_trace :: "'w http_runtime \<Rightarrow> 'w tool_env \<Rightarrow> plan_scope \<Rightarrow> 'w composition_run list \<Rightarrow> nat list \<Rightarrow> 'w \<Rightarrow> (nat \<times> 'w) list" where
  "branch_trace rt ctx scope runs [] w = []"
| "branch_trace rt ctx scope runs (i # is) w = (i, w) # branch_trace rt ctx scope runs is (snd (run_branch rt ctx scope (runs ! i) w))"

lemma run_branches_partial:
  assumes "distinct is" "i < length outs" "set is \<subseteq> {..<length outs}"
  shows "fst (run_branches rt ctx scope True runs is False outs w) ! i =
    (case map_of (branch_trace rt ctx scope runs is w) i of
       None \<Rightarrow> outs ! i | Some v \<Rightarrow> fst (run_branch rt ctx scope (runs ! i) v))"
  using assms
proof (induction "is" arbitrary: outs w)
  case (Cons j js)
  note not_cancelled [simp]
  have "map_of (branch_trace rt ctx scope runs js v) j = None" if "j \<notin> set js" for v
    using that by (induction js arbitrary: v) auto
  with Cons show ?case by (auto split: prod.splits option.splits)
qed simp

lemma branch_trace_dom: "fst ` set (branch_trace rt ctx scope runs is w) = set is"
  by (induction "is" arbitrary: w) auto

lemma run_branches_length: "length (fst (run_branches rt ctx scope p runs is cc outs w)) = length outs"
  by (induction "is" arbitrary: cc outs w) (auto split: prod.splits)

lemma run_branches_full:
  assumes "distinct is" "set is = {..<length runs}" "i < length runs"
  shows "\<exists>v. fst (run_branches rt ctx scope True runs is False (replicate (length runs) o0) w) ! i
    = fst (run_branch rt ctx scope (runs ! i) v)"
proof -
  from assms have "i \<in> fst ` set (branch_trace rt ctx scope runs is w)" by (simp add: branch_trace_dom)
  then obtain v where "map_of (branch_trace rt ctx scope runs is w) i = Some v"
    by (metis not_None_eq map_of_eq_None_iff)
  with run_branches_partial [of "is" i "replicate (length runs) o0" rt ctx scope runs w] assms show ?thesis by auto
qed

text \<open>C18
  A \<open>Parallel\<close> step with \<open>PartialOK\<close> isolates its pipelines and keeps their order: whatever the order in
  which they are scheduled, pipeline \<open>i\<close> runs in the context of the step, uncancelled, on the input of
  the step; its output or error is item \<open>i\<close> of the JSON array; no error of a pipeline fails the step and
  none suspends it.
\<close>

theorem partial_parallel_isolates:
  assumes "run_parallel_step rt ctx scope c branches input w = ((r, err, sp), w')" "sp_partial_ok c"
    "distinct (rx_schedule rt w (length branches))" "set (rx_schedule rt w (length branches)) = {..<length branches}"
  shows "sp = None \<and> (\<exists>outs. length outs = length branches
    \<and> (\<forall>i < length branches. \<exists>v. outs ! i = fst (run_branch rt ctx (without_journal scope)
          (branches ! i, input, child_namespace (rx_sha rt) (px_namespace scope) ''parallel'' i) v))
    \<and> (case json_encode (rx_ambient rt) (JArr (map (partial_outcome_value (rx_ambient rt)) outs)) of
         None \<Rightarrow> err = Some (ErrText ''json: unsupported value'')
       | Some text \<Rightarrow> err = None \<and> pr_output r = text))"
proof -
  let ?runs = "map (\<lambda>(i, run). (run, input, child_namespace (rx_sha rt) (px_namespace scope) ''parallel'' i)) (enumerate 0 branches)"
  let ?outs = "fst (run_composition rt ctx (without_journal scope) True ?runs w)"
  have len: "length ?outs = length branches" by (simp add: run_composition_def run_branches_length)
  have "\<exists>v. ?outs ! i = fst (run_branch rt ctx (without_journal scope)
      (branches ! i, input, child_namespace (rx_sha rt) (px_namespace scope) ''parallel'' i) v)" if "i < length branches" for i
    using run_branches_full [of "rx_schedule rt w (length branches)" ?runs i rt ctx "without_journal scope" zero_plan_outcome w]
      that assms(3,4) by (simp add: run_composition_def nth_enumerate_eq)
  moreover have "composition_outcome (rx_ambient rt) True ?outs = (r, err, sp)"
    using assms(1,2) by (auto simp: run_parallel_step_def Let_def split: prod.splits)
  ultimately show ?thesis
    using len by (intro conjI exI [of _ ?outs])
      (auto simp: composition_outcome_def encode_composition_output_def composition_items_def composition_result_def split: option.splits)
qed

section \<open>An all-or-nothing composition\<close>

text \<open>
  The error of a \<open>Parallel\<close> step without \<open>PartialOK\<close> is that of its first pipeline by index, not that of the
  one that failed: when the second pipeline fails while the first waits for a slot, the failure cancels
  the first and the step reports the cancellation, for which the run is recorded as cancelled. The
  cause, and a suspension of the second pipeline, are lost.
\<close>

theorem parallel_cancellation_masks_cause:
  assumes "\<not> sp_partial_ok c" "rx_schedule rt w 2 = [1, 0]" "te_ctx_err ctx w = None"
    "second ctx input (scope \<lparr>px_durable := None, px_namespace := child_namespace (rx_sha rt) (px_namespace scope) ''parallel'' 1, px_base := 0\<rparr>) w
       = ((res, Some cause, sp), w1)"
    "te_ctx_err ctx w1 = None" "rx_pick_done rt w1"
    "json_encode (rx_ambient rt) (JArr [output_json_value (rx_ambient rt) [], output_json_value (rx_ambient rt) (pr_output res)]) \<noteq> None"
  shows "\<exists>r. run_parallel_step rt ctx scope c [first, second] input w = ((r, Some CtxCanceled, None), w1)"
proof -
  have "te_ctx_err (with_cancelled True ctx) w1 = Some CtxCanceled"
    using assms(5) by (simp add: with_cancelled_def map_ctx_err_def)
  with assms show ?thesis
    by (auto simp: run_parallel_step_def run_composition_def run_branch_def without_journal_def zero_plan_outcome_def
      composition_outcome_def encode_composition_output_def composition_items_def zero_plan_result_def eval_nat_numeral not_cancelled
      split: option.splits)
qed

lemma parallel_first_fails:
  assumes "\<not> sp_partial_ok c" "rx_schedule rt w 2 = [0, 1]" "te_ctx_err ctx w = None"
    "first ctx input (scope \<lparr>px_durable := None, px_namespace := child_namespace (rx_sha rt) (px_namespace scope) ''parallel'' 0, px_base := 0\<rparr>) w
       = ((res, Some cause, sp), w1)"
    "te_ctx_err ctx w1 = None" "rx_pick_done rt w1"
    "json_encode (rx_ambient rt) (JArr [output_json_value (rx_ambient rt) (pr_output res), output_json_value (rx_ambient rt) []]) \<noteq> None"
  shows "\<exists>r. run_parallel_step rt ctx scope c [first, second] input w = ((r, Some cause, sp), w1)"
proof -
  have "te_ctx_err (with_cancelled True ctx) w1 = Some CtxCanceled"
    using assms(5) by (simp add: with_cancelled_def map_ctx_err_def)
  with assms show ?thesis
    by (auto simp: run_parallel_step_def run_composition_def run_branch_def without_journal_def zero_plan_outcome_def
      composition_outcome_def encode_composition_output_def composition_items_def zero_plan_result_def eval_nat_numeral not_cancelled
      split: option.splits)
qed

text \<open>
  A suspension inside a \<open>Parallel\<close> or \<open>Map\<close> step loses the rest of the plan: the continuation that the
  loop returns is that of the pipeline that was suspended, the same whatever steps follow the composed
  one, so that an approval resumes the pipeline and none of them runs.
\<close>

theorem composed_suspension_drops_rest:
  assumes "sp_kind (st_config s) = step_parallel \<or> sp_kind (st_config s) = step_map"
    "step_loop rt ctx scope [s] i cur r w = ((res, Some e, Some sp), w')"
  shows "step_loop rt ctx scope (s # rest) i cur r w = ((res, Some e, Some sp), w')"
proof -
  have same: "step_end rt ctx scope i s rest cur r w = step_end rt ctx scope i s [] cur r w"
    using assms(1) by (auto simp: step_end_def)
  obtain x v where x: "step_end rt ctx scope i s [] cur r w = (x, v)" by (metis prod.collapse)
  with assms(2) same show ?thesis
    by (cases x) (auto simp: step_loop_Cons step_cont_def step_loop.simps)
qed

text \<open>
  The MCP sessions of a step are closed before its continuation is returned: when a step is suspended
  for an approval, the world in which it waits is the one in which \<open>Close\<close> was called on every session
  that the step connected, so that an approved MCP tool runs on a closed session.
\<close>

theorem suspended_step_closes_mcp:
  assumes "run_pipe_step rt ctx scope i c ns sas rest cur r w = (Inl (res, e, Some sp), w')"
  shows "\<exists>h mcp w1 out err run w2. step_harness rt ctx scope c ns sas w = (Inr (h, mcp), w1)
    \<and> run_harness h (intent_ctx rt (px_durable scope) i ctx) cur w1 = ((out, Some err, Some run), w2)
    \<and> e = Some err \<and> up_run sp = run \<and> up_harness sp = h \<and> up_remaining sp = rest \<and> w' = snd (close_sessions mcp None w2)"
  using assms
  by (auto simp: run_pipe_step_def Let_def split: prod.splits sum.splits option.splits if_splits)

end
