(* ===== verification/Pipeline_Samples.thy ===== *)
theory Pipeline_Samples
  imports Pipeline_Facts Plan_Identity
begin

text \<open>
  A concrete runtime, and the runs of plans at which the properties of \<open>Pipeline_Facts\<close> and of
  \<open>Harness_Options\<close> are applied.
\<close>

section \<open>A runtime\<close>

text \<open>
  The world counts the sessions of MCP servers that were closed. Every ledger is empty, the clock stands
  still and the pipelines of a composition run in the order of the schedule.
\<close>

definition still_world :: "(nat \<Rightarrow> nat list) \<Rightarrow> nat harness_world" where
  "still_world schedule = \<lparr>xe_alloc_ledger = (\<lambda>_ w. (0, w)), xe_ledger = (\<lambda>_ _. new_budget_ledger sample_budget), xe_set_ledger = (\<lambda>_ _ w. w),
     xe_alloc_stream = (\<lambda>w. (0, w)), xe_append = (\<lambda>_ _ _ _ _ w. (None, w)), xe_acquire = (\<lambda>_ _ _ w. (None, w)),
     xe_release = (\<lambda>_ _ w. w), xe_now = (\<lambda>_. 5), xe_fresh = (\<lambda>_ pre. pre @ ''1''), xe_sleep = (\<lambda>_ _ w. (None, w)),
     xe_approval_id = (\<lambda>w. (''ap1'', w)), xe_schedule = (\<lambda>_. schedule), xe_sha256 = (\<lambda>_. ''h''), xe_encode_cache = (\<lambda>_ _ _. None)\<rparr>"

text \<open>An encoder that renders what the compositions of the examples produce.\<close>

fun sample_encode :: "json \<Rightarrow> string option" where
  "sample_encode (JStr s) = Some (CHR 34 # s @ [CHR 34])"
| "sample_encode (JBool b) = Some (bool_text b)"
| "sample_encode (JArr [a, b]) = (case (sample_encode a, sample_encode b) of
     (Some x, Some y) \<Rightarrow> Some (''['' @ x @ '','' @ y @ '']'') | _ \<Rightarrow> None)"
| "sample_encode (JObj [(k, a), (l, b)]) = (case (sample_encode a, sample_encode b) of
     (Some x, Some y) \<Rightarrow> Some (''{'' @ k @ '':'' @ x @ '','' @ l @ '':'' @ y @ ''}'') | _ \<Rightarrow> None)"
| "sample_encode _ = None"

definition sample_ambient :: ambient where
  "sample_ambient = \<lparr>environ = [], json_decode = (\<lambda>_. None), json_encode = sample_encode, parse_float = (\<lambda>_. 0)\<rparr>"

text \<open>The only MCP server has one tool \<open>a\<close>, which the policy suspends.\<close>

definition mcp_tool :: "nat tool_body" where
  "mcp_tool = Handler (\<lambda>env c w. (if w = 0 then HandlerResult (success_result c JNull) else HandlerError (ErrText ''session closed''), w))"

definition sample_mcp :: "nat mcp_session" where
  "sample_mcp = \<lparr>mc_register = (\<lambda>ex w. ((ex \<lparr>xr_tools := mput ''a'' (\<lparr>rt_name = ''a'', rt_body = mcp_tool,
       rt_validate = (\<lambda>_. None), rt_metadata = zero_metadata\<rparr>) (xr_tools ex)\<rparr>, Inr [\<lparr>tp_name = ''a'', tp_description = [], tp_input_schema = []\<rparr>]), w)),
     mc_close = (\<lambda>w. (None, Suc w))\<rparr>"

definition sample_runtime :: "(nat \<Rightarrow> nat list) \<Rightarrow> nat provider_impl \<Rightarrow> nat http_runtime" where
  "sample_runtime schedule p = \<lparr>rx_world = still_world schedule, rx_registry = None, rx_provider = Some p,
     rx_executor = Some \<lparr>xr_tools = [], xr_policy = Some (suspending_policy False)\<rparr>, rx_store = None, rx_stream = None, rx_hook_bus = None,
     rx_schema_repairs = 0, rx_pricing = [], rx_stream_deltas = False, rx_gate = None, rx_cron_lease = None, rx_durable = None,
     rx_replica_id = ''r1'', rx_normalize = (\<lambda>_. Inr), rx_load_skill = (\<lambda>_ n w. (Inl (ErrText (''no skill '' @ n)), w)),
     rx_bash = (\<lambda>_. Inl (ErrText ''no sandbox'')), rx_mcp_connect = (\<lambda>_ _ w. (Inr sample_mcp, w)), rx_num_cpu = 2,
     rx_raw_items = (\<lambda>_. Inr None), rx_schedule = (\<lambda>_. schedule), rx_pick_done = (\<lambda>_. True), rx_prune_failed = (\<lambda>_ w. w),
     rx_new_heartbeat = (\<lambda>w. (0, w)), rx_lost = (\<lambda>_ _. None), rx_mark_lost = (\<lambda>_ _ w. w), rx_display_uri = id,
     rx_float_text = fraction_text, rx_build = ''b'', rx_ambient = sample_ambient\<rparr>"

text \<open>A model that answers at once, and one that asks for the tool \<open>a\<close>.\<close>

abbreviation "talker \<equiv> one_answer (answer ''done'' []) None"
abbreviation "caller \<equiv> one_answer (answer [] [\<lparr>tc_id = ''c1'', tc_name = ''a'', tc_args = ''{}''\<rparr>]) None"

abbreviation in_order :: "nat \<Rightarrow> nat list" where "in_order n \<equiv> [0..<n]"
abbreviation last_first :: "nat \<Rightarrow> nat list" where "last_first n \<equiv> rev [0..<n]"

definition pipe_step :: "nat step_config \<Rightarrow> nat step" where
  "pipe_step c = Step c [] [] (Pipeline [])"

definition plain_step :: "nat step" where
  "plain_step = pipe_step (sample_config ''g'' ''p/m'')"

definition skilled_step :: "nat step" where
  "skilled_step = pipe_step (sample_config ''g'' ''p/m'' \<lparr>sp_skills := [''k'']\<rparr>)"

definition mcp_step :: "nat step" where
  "mcp_step = pipe_step (sample_config ''g'' ''p/m'' \<lparr>sp_mcp_servers := [''srv'']\<rparr>)"

definition parallel_step :: "bool \<Rightarrow> nat step list list \<Rightarrow> nat step" where
  "parallel_step partialOK bs = Step (sample_config [] [] \<lparr>sp_kind := step_parallel, sp_partial_ok := partialOK\<rparr>) []
     (map Pipeline bs) (Pipeline [])"

definition top_scope :: plan_scope where
  "top_scope = \<lparr>px_parent = None, px_ledger = None, px_durable = None, px_namespace = ''ns'', px_base = 0\<rparr>"

section \<open>The properties at these runs\<close>


definition two_steps :: "nat step list" where
  "two_steps = [parallel_step False [[], []], parallel_step True [[parallel_step False [[], []]], []]]"

theorem checkpoint_resume_continues_witness:
  "\<exists>(r :: plan_run_result) w1. same_end (run_steps (sample_runtime in_order talker) quiet_ctx (shift_scope 1 top_scope) (drop 1 two_steps) (pr_output r) w1)
     (run_steps (sample_runtime in_order talker) quiet_ctx top_scope two_steps ''in'' 0)"
proof -
  let ?run = "run_steps (sample_runtime in_order talker) quiet_ctx top_scope (take 1 two_steps) ''in'' 0"
  have "fst (snd (fst ?run)) = None" by code_simp
  then obtain r sp w1 where r: "?run = ((r, None, sp), w1)" by (metis prod.collapse)
  have "same_end (run_steps (sample_runtime in_order talker) quiet_ctx (shift_scope 1 top_scope) (drop 1 two_steps) (pr_output r) w1)
     (run_steps (sample_runtime in_order talker) quiet_ctx top_scope two_steps ''in'' 0)"
    by (rule checkpoint_resume_continues [OF r]) (simp add: two_steps_def)
  then show ?thesis by (intro exI [of _ r] exI [of _ w1])
qed

text \<open>The harness of a step with the MCP server, whose model calls the tool; the policy suspends it.\<close>

definition caller_config :: "string \<Rightarrow> nat harness_config" where
  "caller_config ns = default_harness_config \<lparr>cf_model := ''p/m'', cf_system_prompt := ''g'',
     cf_executor := \<lparr>xr_tools = [(''a'', \<lparr>rt_name = ''a'', rt_body = mcp_tool, rt_validate = (\<lambda>_. None), rt_metadata = zero_metadata\<rparr>)],
       xr_policy = Some (suspending_policy False)\<rparr>,
     cf_tools := [\<lparr>tp_name = ''a'', tp_description = [], tp_input_schema = []\<rparr>], cf_idem_scope := ns\<rparr>"

definition caller_harness :: "string \<Rightarrow> nat harness" where
  "caller_harness ns = build_harness (still_world in_order) caller (caller_config ns) 0 0"

lemma caller_step_harness:
  assumes "px_parent scope = None" "px_ledger scope = None"
  shows "step_harness (sample_runtime in_order caller) ctx scope (st_config mcp_step) ''pipe:h'' [] w
    = (Inr (caller_harness ''pipe:h'', [sample_mcp]), w)"
proof -
  have trims: "trim_space ''p/m'' = ''p/m''" "trim_space ''pipe:h'' = ''pipe:h''" "parse_model_id ''p/m'' = Inr \<lparr>mf_provider = ''p'', mf_name = ''m''\<rparr>"
    by code_simp+
  show ?thesis using assms
    by (simp add: step_harness_def step_harness_options_def register_step_tools_def mcp_step_def pipe_step_def sample_config_def
      sample_runtime_def sample_mcp_def executor_scope_def runtime_provider_for_model_def system_prompt_for_step_def
      harness_store_of_def runtime_budget_configured_def zero_budget_def new_harness_def trims required_def still_world_def
      default_harness_config_def caller_harness_def caller_config_def)
qed

lemma caller_suspends: "\<exists>out err run. run_harness (caller_harness ''pipe:h'') quiet_ctx ''in'' 0 = ((out, Some err, Some run), 0)"
proof -
  let ?r = "run_harness (caller_harness ''pipe:h'') quiet_ctx ''in'' 0"
  have "case ?r of ((_, Some _, Some _), v) \<Rightarrow> v = 0 | _ \<Rightarrow> False" by code_simp
  then show ?thesis by (auto split: prod.splits option.splits)
qed

lemma caller_step_suspends:
  assumes "px_parent scope = None" "px_ledger scope = None" "px_durable scope = None"
  shows "\<exists>res err sp. run_pipe_step (sample_runtime in_order caller) quiet_ctx scope i (st_config mcp_step) ''pipe:h'' [] rest ''in'' r 0
    = (Inl (res, Some err, Some sp), 1)"
proof -
  obtain out err run where "run_harness (caller_harness ''pipe:h'') quiet_ctx ''in'' 0 = ((out, Some err, Some run), 0)"
    using caller_suspends by blast
  with assms caller_step_harness [OF assms(1,2), of quiet_ctx 0] show ?thesis
    by (simp add: run_pipe_step_def intent_ctx_def sample_mcp_def)
qed

theorem suspended_step_closes_mcp_witness:
  "\<exists>sp :: nat suspended_plan. snd (run_pipe_step (sample_runtime in_order caller) quiet_ctx top_scope 0 (st_config mcp_step) ''pipe:h'' [] [plain_step] ''in''
      \<lparr>pr_output = ''in'', pr_session = None\<rparr> 0) = snd (close_sessions [sample_mcp] None 0) \<and> up_remaining sp = [plain_step]"
proof -
  have top: "px_parent top_scope = None" "px_ledger top_scope = None" "px_durable top_scope = None" by (simp_all add: top_scope_def)
  let ?run = "run_pipe_step (sample_runtime in_order caller) quiet_ctx top_scope 0 (st_config mcp_step) ''pipe:h'' [] [plain_step] ''in''
      \<lparr>pr_output = ''in'', pr_session = None\<rparr> 0"
  obtain res err sp where run: "?run = (Inl (res, Some err, Some sp), 1)"
    using caller_step_suspends [OF top] by blast
  from suspended_step_closes_mcp [OF run] run caller_step_harness [OF top(1,2)] caller_suspends
  show ?thesis by (auto simp: intent_ctx_def top(3))
qed

theorem composed_suspension_drops_rest_witness:
  "\<exists>res e sp. step_loop (sample_runtime in_order caller) quiet_ctx top_scope [parallel_step False [[mcp_step], []], plain_step] 0 ''in''
     \<lparr>pr_output = ''in'', pr_session = None\<rparr> 0 = ((res, Some e, Some sp), 1)"
proof -
  let ?one = "step_loop (sample_runtime in_order caller) quiet_ctx top_scope [parallel_step False [[mcp_step], []]] 0 ''in''
     \<lparr>pr_output = ''in'', pr_session = None\<rparr> 0"
  let ?inner = "step_scope (sample_runtime in_order caller) top_scope 0 (parallel_step False [[mcp_step], []])"
  define scope where "scope = (without_journal ?inner) \<lparr>px_namespace := child_namespace (\<lambda>_. ''h'') (px_namespace ?inner) ''parallel'' 0, px_base := 0\<rparr>"
  have sc: "px_parent scope = None" "px_ledger scope = None" "px_durable scope = None"
    by (simp_all add: scope_def without_journal_def step_scope_def top_scope_def)
  have kind: "sp_kind (st_config mcp_step) = step_pipe" by (simp add: mcp_step_def pipe_step_def sample_config_def)
  have ns: "px_namespace (step_scope (sample_runtime in_order caller) scope 0 mcp_step) = ''pipe:h''"
    by (simp add: step_scope_def sample_runtime_def still_world_def rx_sha_def step_namespace_def)
  have sub: "st_sub_agents mcp_step = []" by (simp add: mcp_step_def pipe_step_def)
  obtain res err sp where "step_end (sample_runtime in_order caller) quiet_ctx scope 0 mcp_step [] ''in''
      \<lparr>pr_output = ''in'', pr_session = None\<rparr> 0 = (Inl (res, Some err, Some sp), 1)"
    using caller_step_suspends [OF sc, of 0 "[]" "\<lparr>pr_output = ''in'', pr_session = None\<rparr>"]
    by (auto simp: step_end_def kind ns sub)
  then have run: "run_steps (sample_runtime in_order caller) quiet_ctx scope [mcp_step] ''in'' 0 = ((res, Some err, Some sp), 1)"
    by (simp add: run_steps_def step_loop_Cons step_cont_def)
  have "\<exists>r. run_parallel_step (sample_runtime in_order caller) quiet_ctx ?inner (st_config (parallel_step False [[], []]))
      [\<lambda>ctx input sc. run_steps (sample_runtime in_order caller) ctx sc [mcp_step] input,
       \<lambda>ctx input sc. run_steps (sample_runtime in_order caller) ctx sc [] input] ''in'' 0 = ((r, Some err, Some sp), 1)"
  proof (rule parallel_first_fails)
    show "run_steps (sample_runtime in_order caller) quiet_ctx (?inner \<lparr>px_durable := None, px_namespace := child_namespace
        (rx_sha (sample_runtime in_order caller)) (px_namespace ?inner) ''parallel'' 0, px_base := 0\<rparr>) [mcp_step] ''in'' 0
      = ((res, Some err, Some sp), 1)"
      using run by (simp add: scope_def without_journal_def child_namespace_def rx_sha_def sample_runtime_def still_world_def)
  qed (simp_all add: parallel_step_def sample_config_def sample_runtime_def quiet_ctx_def sample_ambient_def output_json_value_def upt_rec)
  then have "\<exists>res e sp. ?one = ((res, Some e, Some sp), 1)"
    by (auto simp: step_loop_Cons step_end_def step_cont_def after_composed_step_def parallel_step_def intent_ctx_def top_scope_def
      sample_config_def)
  then obtain res e sp where one: "?one = ((res, Some e, Some sp), 1)" by blast
  from composed_suspension_drops_rest [OF _ one, of "[plain_step]"] show ?thesis
    by (auto simp: parallel_step_def)
qed

theorem partial_parallel_isolates_witness:
  "\<exists>r. run_parallel_step (sample_runtime last_first talker) quiet_ctx top_scope (st_config (parallel_step True [[], []]))
      (map (\<lambda>b ctx input sc. run_steps (sample_runtime last_first talker) ctx sc b input) [[], [skilled_step]]) ''in'' 0
    = ((r, None, None), 0)"
proof -
  let ?run = "run_parallel_step (sample_runtime last_first talker) quiet_ctx top_scope (st_config (parallel_step True [[], []]))
      (map (\<lambda>b ctx input sc. run_steps (sample_runtime last_first talker) ctx sc b input) [[], [skilled_step]]) ''in'' 0"
  obtain r err sp w' where run: "?run = ((r, err, sp), w')" by (metis prod.collapse)
  have "sp = None"
    using partial_parallel_isolates [OF run] by (simp add: parallel_step_def sample_config_def sample_runtime_def lessThan_Suc)
  moreover have "snd ?run = 0 \<and> fst (snd (fst ?run)) = None" by code_simp
  ultimately show ?thesis using run by auto
qed

theorem parallel_cancellation_masks_cause_witness:
  "\<exists>r. run_parallel_step (sample_runtime last_first talker) quiet_ctx top_scope (st_config (parallel_step False [[], []]))
      [\<lambda>ctx input sc. run_steps (sample_runtime last_first talker) ctx sc [] input,
       \<lambda>ctx input sc. run_steps (sample_runtime last_first talker) ctx sc [skilled_step] input] ''in'' 0
    = ((r, Some CtxCanceled, None), 0)"
proof (rule parallel_cancellation_masks_cause)
  show "run_steps (sample_runtime last_first talker) quiet_ctx
      (top_scope \<lparr>px_durable := None, px_namespace := child_namespace (rx_sha (sample_runtime last_first talker)) (px_namespace top_scope) ''parallel'' 1,
         px_base := 0\<rparr>) [skilled_step] ''in'' 0
    = ((\<lparr>pr_output = ''in'', pr_session = None\<rparr>, Some (ErrText ''no skill k''), None), 0)" (is "?run = _")
  proof -
    have "case ?run of ((r, e, None), v) \<Rightarrow> r = \<lparr>pr_output = ''in'', pr_session = None\<rparr> \<and> e = Some (ErrText ''no skill k'') \<and> v = 0
      | _ \<Rightarrow> False" by code_simp
    then show ?thesis by (auto split: prod.splits option.splits)
  qed
qed (simp_all add: parallel_step_def sample_config_def sample_runtime_def quiet_ctx_def sample_ambient_def output_json_value_def upt_rec)

end
