(* ===== verification/Plan_Run_Facts.thy ===== *)
theory Plan_Run_Facts
  imports Plan_Run Pipeline_Samples
begin

text \<open>
  What the run of a plan guarantees: the lease is held when a durable run starts its steps and proved
  before its terminal and before its completion, and a terminal that succeeded settles the keys of the
  trigger as succeeded whatever happens afterwards.
\<close>

section \<open>Operations that keep a predicate of the world\<close>

definition kept :: "('w \<Rightarrow> bool) \<Rightarrow> ('w \<Rightarrow> 'x \<times> 'w) \<Rightarrow> bool" where
  "kept P m \<longleftrightarrow> (\<forall>w. P w \<longrightarrow> P (snd (m w)))"

lemma keptD: "kept P m \<Longrightarrow> P w \<Longrightarrow> m w = (x, w') \<Longrightarrow> P w'"
  by (metis kept_def snd_conv)

lemma kept_snd: "kept P m \<Longrightarrow> P w \<Longrightarrow> P (snd (m w))"
  by (simp add: kept_def)

text \<open>
  The operations of the runtime and its store keep \<open>P\<close>, except that a key may be resolved as failed.
\<close>

definition keeps_but_failure :: "'w http_runtime \<Rightarrow> ('w \<Rightarrow> bool) \<Rightarrow> bool" where
  "keeps_but_failure rt P \<longleftrightarrow>
     (\<forall>st stream bus err ev. kept P (xe_append (rx_world rt) st stream bus err ev))
     \<and> (\<forall>err w. P w \<longrightarrow> P (rx_prune_failed rt err w)) \<and> (\<forall>i err w. P w \<longrightarrow> P (rx_mark_lost rt i err w))
     \<and> (\<forall>db. rx_store rt = Some db \<longrightarrow>
          (\<forall>e x. kept P (hs_save_execution (us_harness db) e x)) \<and> (\<forall>e s. kept P (us_prune db e s))
          \<and> (\<forall>e t. kept P (us_prune_before db e t))
          \<and> (\<forall>os. us_outcomes db = Some os \<longrightarrow> (\<forall>e x p. kept P (oo_resolve_by_execution os e x p IdempotencySucceeded)))
          \<and> (\<forall>ls. us_leases db = Some ls \<longrightarrow> (\<forall>e n h f d. kept P (lo_renew ls e n h f d))))"

lemma keeps_storeD:
  assumes "keeps_but_failure rt P" "rx_store rt = Some db"
  shows "kept P (hs_save_execution (us_harness db) e x)" "kept P (us_prune db e s)" "kept P (us_prune_before db e t)"
    "us_outcomes db = Some os \<Longrightarrow> kept P (oo_resolve_by_execution os e i p IdempotencySucceeded)"
    "us_leases db = Some ls \<Longrightarrow> kept P (lo_renew ls e n h f d)"
  using assms by (simp_all add: keeps_but_failure_def)

lemma emit_session_kept: "keeps_but_failure rt P \<Longrightarrow> kept P (emit_session_event rt ctx s k p)"
  by (simp add: kept_def emit_session_event_def emit_through_hooks_def keeps_but_failure_def)

lemma emit_runtime_kept: "keeps_but_failure rt P \<Longrightarrow> kept P (emit_runtime_event rt ctx r k p)"
  using emit_session_kept [of rt P]
  by (cases "pr_session r") (simp_all add: kept_def emit_runtime_event_def emit_through_hooks_def keeps_but_failure_def)

lemma emit_pipeline_kept: "keeps_but_failure rt P \<Longrightarrow> kept P (emit_pipeline_event rt ctx r plan k st e)"
  using emit_runtime_kept [of rt P] by (simp add: kept_def emit_pipeline_event_def)

lemma note_prune_kept: "keeps_but_failure rt P \<Longrightarrow> P (snd x) \<Longrightarrow> P (note_prune_failure rt ctx s sc x)"
  using emit_session_kept [of rt P]
  by (cases x; cases "fst x") (auto simp: kept_def note_prune_failure_def record_prune_failure_def keeps_but_failure_def)

lemma prune_kept:
  assumes "keeps_but_failure rt P" "P w"
  shows "P (prune_durable_run_journal rt ctx s st w)"
proof (cases "rx_durable rt = None \<or> rx_store rt = None")
  case True
  with assms show ?thesis by (auto simp: prune_durable_run_journal_def split: option.split)
next
  case False
  then obtain du db where d: "rx_durable rt = Some du" "rx_store rt = Some db" by auto
  note kept = keeps_storeD [OF assms(1) d(2)]
  let ?w1 = "if st = ''completed'' then note_prune_failure rt ctx s ''completed_run'' (us_prune db (te_ctx_err ctx w) (ss_exec_id s) w) else w"
  have "P ?w1" using kept(2) assms by (simp add: kept_def note_prune_kept)
  with kept(3) assms(1) d show ?thesis
    by (simp add: prune_durable_run_journal_def Let_def kept_def note_prune_kept)
qed

lemma save_final_kept: "keeps_but_failure rt P \<Longrightarrow> kept P (save_final_execution rt ctx s st)"
  by (auto simp: kept_def save_final_execution_def keeps_but_failure_def split: option.split)

lemma resolve_completed_kept:
  assumes "keeps_but_failure rt P"
  shows "kept P (resolve_trigger_idempotency rt ctx execID ''completed'')"
proof (cases "\<exists>db os. rx_store rt = Some db \<and> us_outcomes db = Some os")
  case True
  then obtain db os where d: "rx_store rt = Some db" "us_outcomes db = Some os" by auto
  note kept = keeps_storeD(4) [OF assms d]
  have "P (snd (resolve_trigger_idempotency rt ctx execID ''completed'' w))" if "P w" for w
  proof -
    obtain e1 w1 where 1: "oo_resolve_by_execution os (te_ctx_err ctx w) execID ''trigger:'' IdempotencySucceeded w = (e1, w1)"
      by (metis prod.collapse)
    obtain e2 w2 where 2: "oo_resolve_by_execution os (te_ctx_err ctx w1) execID ''cron_fire:'' IdempotencySucceeded w1 = (e2, w2)"
      by (metis prod.collapse)
    from keptD [OF kept keptD [OF kept that 1] 2] d 1 2 show ?thesis by (simp add: resolve_trigger_idempotency_def)
  qed
  then show ?thesis by (simp add: kept_def)
next
  case False
  then show ?thesis by (auto simp: kept_def resolve_trigger_idempotency_def split: option.split)
qed

lemma finish_kept:
  assumes k: "keeps_but_failure rt P"
  shows "kept P (finish_pipeline_with_outcome rt ctx s plan st ''completed'' e)"
proof -
  let ?ctx = "finalization_ctx ctx" and ?kind = "if st = ''completed'' then ''pipeline_completed'' else ''pipeline_failed''"
  have "P (snd (finish_pipeline_with_outcome rt ctx s plan st ''completed'' e w))" if "P w" for w
  proof -
    obtain e0 w1 where 1: "resolve_trigger_idempotency rt ?ctx (ss_exec_id s) ''completed'' w = (e0, w1)" by (metis prod.collapse)
    obtain e1 w2 where 2: "(if is_cancellation e then emit_session_event rt ?ctx s ''session_cancelled''
        [(''status'', AnyStr st), (''error'', any_err (the e))] w1 else (None, w1)) = (e1, w2)" by (metis prod.collapse)
    obtain e2 w3 where 3: "emit_pipeline_event rt ?ctx \<lparr>pr_output = [], pr_session = Some s\<rparr> plan ?kind st e w2 = (e2, w3)"
      by (metis prod.collapse)
    obtain e3 w4 where 4: "emit_session_event rt ?ctx s ''session_saved'' [(''status'', AnyStr st)] w3 = (e3, w4)"
      by (metis prod.collapse)
    obtain e4 w5 where 5: "save_final_execution rt ?ctx s st w4 = (e4, w5)" by (metis prod.collapse)
    have "P w1" by (rule keptD [OF resolve_completed_kept [OF k] that 1])
    then have "P w2" using 2 by (auto split: if_splits dest: keptD [OF emit_session_kept [OF k]])
    then have "P w5"
      using 3 4 5 by (meson k keptD emit_pipeline_kept emit_session_kept save_final_kept)
    then show ?thesis
      using prune_kept [OF k] 1 2 3 4 5 by (simp add: finish_pipeline_with_outcome_def Let_def)
  qed
  then show ?thesis by (simp add: kept_def)
qed

lemma confirm_kept:
  assumes k: "keeps_but_failure rt P" and "rx_store rt = Some db" "us_leases db = Some (hb_leases h)"
  shows "kept P (heartbeat_confirm rt (Some h) ctx)"
proof -
  note lo = keeps_storeD(5) [OF assms]
  have renew: "kept P (heartbeat_renew h ctx)"
    by (auto simp: kept_def heartbeat_renew_def Let_def split: prod.split sum.split option.split bool.split dest: keptD [OF lo])
  from k have "P w \<Longrightarrow> P (rx_mark_lost rt i err w)" for i err w by (simp add: keeps_but_failure_def)
  with renew show ?thesis
    by (auto simp: kept_def [of P "heartbeat_confirm rt (Some h) ctx"] heartbeat_confirm_def Let_def split: option.split prod.split
      dest: keptD [OF renew])
qed

section \<open>The terminal and the keys of the trigger\<close>

definition lease_of_store :: "'w http_runtime \<Rightarrow> 'w heartbeat option \<Rightarrow> bool" where
  "lease_of_store rt hb \<longleftrightarrow> (\<forall>h. hb = Some h \<longrightarrow> (\<exists>db. rx_store rt = Some db \<and> us_leases db = Some (hb_leases h)))"

lemma complete_kept:
  assumes k: "keeps_but_failure rt P" and l: "lease_of_store rt hb"
  shows "kept P (complete_run rt hb ctx s plan r True)"
proof -
  have c: "kept P (heartbeat_stop_and_confirm rt hb ctx)"
  proof (cases hb)
    case None
    then show ?thesis by (simp add: kept_def heartbeat_stop_and_confirm_def heartbeat_confirm_def)
  next
    case (Some h)
    with l confirm_kept [OF k] show ?thesis by (auto simp: kept_def heartbeat_stop_and_confirm_def lease_of_store_def)
  qed
  show ?thesis
    unfolding complete_run_def kept_def
    by (auto simp: Let_def finish_pipeline_execution_def split: option.split prod.split dest: keptD [OF c] keptD [OF finish_kept [OF k]])
qed


section \<open>A durable run that completes\<close>

lemma finish_failed_error: "finish_failed rt ctx s plan r err w \<noteq> ((r', None), w')"
  by (auto simp: finish_failed_def split: prod.splits dest: sym)

text \<open>A renewal by which the store proves that the holder still has the lease at its fence.\<close>

definition renews :: "'w heartbeat \<Rightarrow> 'w tool_env \<Rightarrow> 'w \<Rightarrow> 'w \<Rightarrow> bool" where
  "renews h ctx w w' \<longleftrightarrow> (\<exists>current. lo_renew (hb_leases h) (te_ctx_err ctx w) (hb_name h) (hb_holder h)
     (le_fence (hb_lease h)) (hb_ttl h) w = (Inr (current, True), w'))"

lemma run_terminal_completes:
  assumes "marks_losses rt" "run_terminal rt (Some h) ctx scope s plan (Some t) r w = ((r', None), w')"
  shows "\<exists>w1 w2 w3. renews h ctx w w1 \<and> t (intent_ctx rt (px_durable scope) (length (pn_steps plan)) ctx) r w1 = (None, w2)
    \<and> renews h (without_cancel ctx) (settle_terminal rt ctx s w2) w3
    \<and> finish_pipeline_execution rt ctx s plan ''completed'' None w3 = (None, w') \<and> r' = r"
proof -
  obtain c1 w1 where 1: "heartbeat_confirm rt (Some h) ctx w = (c1, w1)" by (metis prod.collapse)
  with assms(2) have c1: "c1 = None" by (cases c1) (auto simp: run_terminal_def dest: finish_failed_error [THEN notE])
  obtain c2 w2 where 2: "t (intent_ctx rt (px_durable scope) (length (pn_steps plan)) ctx) r w1 = (c2, w2)" by (metis prod.collapse)
  with assms(2) 1 c1 have c2: "c2 = None" by (cases c2) (auto simp: run_terminal_def dest: finish_failed_error [THEN notE])
  obtain c3 w3 where 3: "heartbeat_confirm rt (Some h) (without_cancel ctx) (settle_terminal rt ctx s w2) = (c3, w3)"
    by (metis prod.collapse)
  from assms(2) 1 2 3 c1 c2 have c3: "c3 = None"
    by (cases c3) (auto simp: run_terminal_def complete_run_def heartbeat_stop_and_confirm_def Let_def split: prod.splits dest: sym)
  from assms(2) 1 2 3 c1 c2 c3 have "finish_pipeline_execution rt ctx s plan ''completed'' None w3 = (None, w')" "r' = r"
    by (auto simp: run_terminal_def complete_run_def heartbeat_stop_and_confirm_def split: prod.splits)
  moreover from 1 3 c1 c3 assms(1) have "renews h ctx w w1" "renews h (without_cancel ctx) (settle_terminal rt ctx s w2) w3"
    unfolding renews_def by (auto dest: heartbeat_confirm_None)
  ultimately show ?thesis using 2 c2 by blast
qed

text \<open>C10
  A durable run reports success only as the owner of its lease: it acquired the lease, then journalled
  its plan and input, then ran its steps without an error, proved the lease to the store before the
  terminal, applied the terminal without an error, proved the lease once more with the renewer stopped,
  and recorded the completion; the lease is released last. Every step works in the execution context,
  which the loss of the lease ends.
\<close>

theorem durable_success_is_fenced:
  assumes "marks_losses (wk_rt wk)" "rx_durable (wk_rt wk) = Some du" "rx_store (wk_rt wk) = Some db" "us_leases db = Some ls"
    "run_started_plan wk ctx s plan (Some t) input w = ((r, None), w')"
  shows "\<exists>h w1 w2 r0 w3 w4 w5 w6 w7.
    acquire_run_lease (wk_rt wk) ctx (ss_exec_id s) w = (Inr (Some h), w1)
    \<and> (let ex = execution_context (wk_rt wk) (Some h) ctx; j = Some \<lparr>sj_exec_id = ss_exec_id s, sj_base = 0\<rparr> in
        us_save_journal db (te_ctx_err ex w1) (new_run_journal (wk_rt wk) plan input s) w1 = (None, w2)
      \<and> (\<exists>sp. run_steps (wk_rt wk) ex (run_scope (wk_rt wk) plan s \<lparr>px_durable := j\<rparr>) (pn_steps plan) input w2 = ((r0, None, sp), w3))
      \<and> r = with_session s r0 \<and> renews h ex w3 w4
      \<and> t (intent_ctx (wk_rt wk) j (length (pn_steps plan)) ex) r w4 = (None, w5)
      \<and> renews h (without_cancel ex) (settle_terminal (wk_rt wk) ex s w5) w6
      \<and> finish_pipeline_execution (wk_rt wk) ex s plan ''completed'' None w6 = (None, w7)
      \<and> w' = heartbeat_release (Some h) w7)"
proof -
  let ?rt = "wk_rt wk"
  obtain a w1 where a: "acquire_run_lease ?rt ctx (ss_exec_id s) w = (a, w1)" by (metis prod.collapse)
  from assms(2-4) a have "\<exists>e. a = Inl e \<or> (\<exists>h. a = Inr (Some h))"
    by (auto simp: acquire_run_lease_def Let_def split: prod.splits sum.splits bool.splits)
  with assms(2,3,5) a obtain h where h: "a = Inr (Some h)"
    by (auto simp: run_started_plan_def Let_def dest: finish_failed_error [THEN notE])
  let ?ex = "execution_context ?rt (Some h) ctx" and ?j = "Some \<lparr>sj_exec_id = ss_exec_id s, sj_base = 0\<rparr>"
  let ?scope = "run_scope ?rt plan s \<lparr>px_durable := ?j\<rparr>"
  obtain c w2 where c: "us_save_journal db (te_ctx_err ?ex w1) (new_run_journal ?rt plan input s) w1 = (c, w2)" by (metis prod.collapse)
  obtain out w8 where body: "(case c of Some err \<Rightarrow> finish_failed ?rt ?ex s plan \<lparr>pr_output = input, pr_session = Some s\<rparr>
        (run_error ?rt (Some h) w2 (ErrWrap ''durable run journal: '' err [])) w2
      | None \<Rightarrow> run_plan_steps wk (Some h) ?ex ?scope s plan (Some t) input w2) = (out, w8)" by (metis prod.collapse)
  from assms(2,3,5) a h c body have out: "out = (r, None)" "w' = heartbeat_release (Some h) w8"
    by (auto simp: run_started_plan_def Let_def split: option.splits)
  with body have c0: "c = None" by (cases c) (auto dest: finish_failed_error [THEN notE])
  obtain r0 e sp w3 where r0: "run_steps ?rt ?ex ?scope (pn_steps plan) input w2 = ((r0, e, sp), w3)" by (metis prod.collapse)
  from body out c0 r0 have e0: "e = None"
    by (cases e) (auto simp: run_plan_steps_def Let_def split: prod.splits bool.splits if_splits dest: finish_failed_error [THEN notE])
  with body out c0 r0 have "run_terminal ?rt (Some h) ?ex ?scope s plan (Some t) (with_session s r0) w3 = ((r, None), w8)"
    by (simp add: run_plan_steps_def Let_def)
  from run_terminal_completes [OF assms(1) this] obtain w4 w5 w6 where
    "renews h ?ex w3 w4" "t (intent_ctx ?rt ?j (length (pn_steps plan)) ?ex) (with_session s r0) w4 = (None, w5)"
    "renews h (without_cancel ?ex) (settle_terminal ?rt ?ex s w5) w6"
    "finish_pipeline_execution ?rt ?ex s plan ''completed'' None w6 = (None, w8)" "r = with_session s r0"
    by auto
  with a h c c0 r0 e0 out show ?thesis unfolding Let_def by blast
qed

section \<open>Concrete runs\<close>

text \<open>
  A store in a world that counts: a failed resolution of a key adds ten, and a lease can be renewed
  while the count is below the number \<open>limit\<close>.
\<close>

definition counting_leases :: "nat \<Rightarrow> nat lease_ops" where
  "counting_leases limit = \<lparr>lo_acquire = (\<lambda>_ _ _ _ w. (Inr (zero_lease, True), w)),
     lo_renew = (\<lambda>_ _ _ _ _ w. (Inr (zero_lease, w < limit), w)), lo_release = (\<lambda>_ _ _ _ w. (None, w))\<rparr>"

definition counting_outcomes :: "nat outcome_ops" where
  "counting_outcomes = \<lparr>oo_idempotency = (\<lambda>_ _ _. Inr None),
     oo_resolve = (\<lambda>_ _ _ out w. (None, if out = IdempotencyFailed then w + 10 else w)),
     oo_resolve_by_execution = (\<lambda>_ _ _ out w. (None, if out = IdempotencyFailed then w + 10 else w))\<rparr>"

definition idle_harness_store :: "nat harness_store" where
  "idle_harness_store = \<lparr>hs_save_execution = (\<lambda>_ _ w. (None, w)), hs_save_session = (\<lambda>_ _ w. (None, w)),
     hs_add_violation = (\<lambda>_ _ w. (None, w)), hs_save_approval = (\<lambda>_ _ w. (None, w)), hs_idem = (\<lambda>_ _ e ns. \<lparr>ie_exec_id = e, ie_namespace = ns,
     ie_reserve = (\<lambda>_ i w. (Inr (i, True), w)), ie_outcomes = None\<rparr>)\<rparr>"

definition counting_store :: "nat \<Rightarrow> nat run_store" where
  "counting_store limit = \<lparr>us_harness = idle_harness_store, us_execution = (\<lambda>_ _ _. Inr None), us_sessions = (\<lambda>_ _. Inr []),
     us_reserve = (\<lambda>_ _ i w. (Inr (i, True), w)), us_outcomes = Some counting_outcomes, us_leases = Some (counting_leases limit),
     us_save_journal = (\<lambda>_ _ w. (None, w)), us_journals = (\<lambda>_ _. Inr []), us_save_checkpoint = (\<lambda>_ _ w. (None, w)),
     us_checkpoints = (\<lambda>_ _ _. Inr []), us_begin_intent = (\<lambda>_ _ w. (None, w)), us_complete_intent = (\<lambda>_ _ _ w. (None, w)),
     us_intents = (\<lambda>_ _ _. Inr []), us_prune = (\<lambda>_ _ w. (None, w)), us_prune_before = (\<lambda>_ _ w. (None, w)),
     us_approvals = (\<lambda>_ _ _. Inr [])\<rparr>"

text \<open>The heartbeat of the example reads its loss from the count.\<close>

definition durable_runtime :: "nat \<Rightarrow> nat http_runtime" where
  "durable_runtime limit = (sample_runtime in_order talker) \<lparr>rx_store := Some (counting_store limit),
     rx_durable := Some \<lparr>du_retention = 10, du_lease_ttl = 30\<rparr>, rx_lost := (\<lambda>_ w. if 5 \<le> w then Some err_lease_lost else None),
     rx_mark_lost := (\<lambda>_ _ w. max w 5)\<rparr>"

definition durable_worker :: "nat worker" where
  "durable_worker = \<lparr>wk_rt = durable_runtime 5, wk_egress = \<lparr>eg_post_webhook = (\<lambda>_ _ _ w. (None, w)),
     eg_publish_queue = (\<lambda>_ _ _ w. (None, w)), eg_write_file = None, eg_validate_json = (\<lambda>_ _. None)\<rparr>,
     wk_has_registry = True, wk_registry = (\<lambda>_. []), wk_set_registry = (\<lambda>_ w. w), wk_accepts_async = (\<lambda>_. True)\<rparr>"

definition demo_session :: session where
  "demo_session = \<lparr>ss_exec_id = ''e1'', ss_session_id = ''s1'', ss_parent_session_id = [], ss_trace_id = ''t1'', ss_model = ''p/m'',
     ss_started_at = 5, ss_budget = default_budget\<rparr>"

definition parallel_plan :: "nat plan" where
  "parallel_plan = (sample_plan [] []) \<lparr>pn_steps := [parallel_step False [[], []]]\<rparr>"


theorem durable_success_is_fenced_witness:
  "\<exists>h w1. acquire_run_lease (wk_rt durable_worker) quiet_ctx ''e1'' 0 = (Inr (Some h), w1) \<and> hb_name h = ''run:e1''"
proof -
  let ?run = "run_started_plan durable_worker quiet_ctx demo_session parallel_plan (Some (\<lambda>_ _ w. (None, w))) ''in'' 0"
  have ok: "snd (fst ?run) = None" by code_simp
  have "marks_losses (wk_rt durable_worker)" "rx_durable (wk_rt durable_worker) = Some \<lparr>du_retention = 10, du_lease_ttl = 30\<rparr>"
    "rx_store (wk_rt durable_worker) = Some (counting_store 5)" "us_leases (counting_store 5) = Some (counting_leases 5)"
    by (simp_all add: marks_losses_def durable_worker_def durable_runtime_def counting_store_def)
  from durable_success_is_fenced [OF this, of quiet_ctx demo_session parallel_plan "\<lambda>_ _ w. (None, w)" "''in''" 0 "fst (fst ?run)" "snd ?run"] ok
  obtain h w1 where h: "acquire_run_lease (wk_rt durable_worker) quiet_ctx ''e1'' 0 = (Inr (Some h), w1)"
    by (auto simp: prod_eq_iff demo_session_def)
  then have "hb_name h = ''run:e1''"
    by (auto simp: acquire_run_lease_def start_heartbeat_def durable_run_lease_name_def Let_def split: option.splits prod.splits sum.splits bool.splits)
  with h show ?thesis by blast
qed

end
