(* ===== verification/Recovery_Facts.thy ===== *)
theory Recovery_Facts
  imports Approval_Resume Plan_Run_Facts
begin

text \<open>
  What the recovery of durable runs and the approvals guarantee, and where they do not.
\<close>

section \<open>When a claimed run is replayed\<close>

lemma find_Some_in: "find P xs = Some x \<Longrightarrow> x \<in> set xs \<and> P x"
  by (auto simp: find_Some_iff)

lemma plan_for_journal_in:
  assumes "durable_plan_for_journal rt plans j = Some p"
  shows "p \<in> set plans \<and> durable_plan_key (rx_display_uri rt) p = rj_plan_key j"
proof -
  let ?same = "filter (\<lambda>p. durable_plan_key (rx_display_uri rt) p = rj_plan_key j) plans"
  let ?hash = "\<lambda>p. durable_plan_hash (rx_sha rt) (rx_float_text rt) (rx_build rt) p = rj_plan_hash j"
  have "p \<in> set ?same"
  proof (cases "find ?hash ?same")
    case None
    with assms show ?thesis by (cases ?same) (simp_all add: durable_plan_for_journal_def)
  next
    case (Some q)
    with assms find_Some_in [OF Some] show ?thesis by (simp add: durable_plan_for_journal_def)
  qed
  then show ?thesis by simp
qed

lemma no_blocking_intent:
  "durable_replay_blocking_intent intents k = None \<longleftrightarrow>
   (\<forall>i \<in> set intents. k \<le> ti_step_index i \<longrightarrow> \<not> is_zero (ti_completed_at i) \<and> ti_effect i = ''idempotent'')"
  by (auto simp: durable_replay_blocking_intent_def find_None_iff blocks_replay_def)

text \<open>The conditions under which the policy may replay a run from a step on an input.\<close>

definition replay_allowed ::
  "'w http_runtime \<Rightarrow> 'w run_store \<Rightarrow> 'w tool_env \<Rightarrow> 'w plan list \<Rightarrow> run_journal \<Rightarrow> bool \<Rightarrow> 'w \<Rightarrow> 'w plan \<Rightarrow> int \<Rightarrow> string \<Rightarrow> bool" where
  "replay_allowed rt db ctx plans j force w plan k input \<longleftrightarrow>
     (\<exists>approvals checkpoints source st.
        us_approvals db (te_ctx_err ctx w) (rj_exec_id j) w = Inr approvals \<and> (\<forall>a \<in> set approvals. pa_status a \<noteq> ApprovalPending)
      \<and> plan \<in> set plans \<and> durable_plan_key (rx_display_uri rt) plan = rj_plan_key j
      \<and> durable_plan_hash (rx_sha rt) (rx_float_text rt) (rx_build rt) plan = rj_plan_hash j
      \<and> \<not> durable_run_client_gone plan
      \<and> us_checkpoints db (te_ctx_err ctx w) (rj_exec_id j) w = Inr checkpoints
      \<and> durable_replay_input j checkpoints = (k, input, False, source, st)
      \<and> (force \<or> (\<exists>intents. us_intents db (te_ctx_err ctx w) (rj_exec_id j) w = Inr intents
           \<and> (\<forall>i \<in> set intents. k \<le> ti_step_index i \<longrightarrow> \<not> is_zero (ti_completed_at i) \<and> ti_effect i = ''idempotent''))))"

lemma replay_policy_cases:
  "(\<exists>w'. \<forall>replay. apply_replay_policy rt db replay ctx plans j x force w = w')
   \<or> (\<exists>plan k input. replay_allowed rt db ctx plans j force w plan k input
        \<and> (\<forall>replay. apply_replay_policy rt db replay ctx plans j x force w = replay plan k input w))"
proof (cases "has_pending_approval db ctx (rj_exec_id j) w")
  case (Inl err)
  then show ?thesis by (simp add: apply_replay_policy_def)
next
  case pending: (Inr pending)
  show ?thesis
  proof (cases "pending \<or> durable_plan_for_journal rt plans j = None")
    case True
    with pending show ?thesis by (cases pending) (simp_all add: apply_replay_policy_def)
  next
    case False
    then obtain plan where plan: "durable_plan_for_journal rt plans j = Some plan" by auto
    obtain approvals where as: "us_approvals db (te_ctx_err ctx w) (rj_exec_id j) w = Inr approvals"
      "\<forall>a \<in> set approvals. pa_status a \<noteq> ApprovalPending"
      using pending False by (auto simp: has_pending_approval_def list_ex_iff split: sum.splits)
    note eqs = pending plan apply_replay_policy_def
    show ?thesis
    proof (cases "durable_plan_hash (rx_sha rt) (rx_float_text rt) (rx_build rt) plan \<noteq> rj_plan_hash j \<or> durable_run_client_gone plan")
      case True
      with False show ?thesis
        by (cases "durable_plan_hash (rx_sha rt) (rx_float_text rt) (rx_build rt) plan = rj_plan_hash j") (simp_all add: eqs)
    next
      case contract: False
      show ?thesis
      proof (cases "us_checkpoints db (te_ctx_err ctx w) (rj_exec_id j) w")
        case (Inl err)
        with False contract show ?thesis by (auto simp: eqs)
      next
        case cps: (Inr cps)
        obtain k input unsafe source st where i: "durable_replay_input j cps = (k, input, unsafe, source, st)" by (metis prod_cases5)
        have ok: "replay_allowed rt db ctx plans j force w plan k input"
          if "\<not> unsafe" "force \<or> (\<exists>intents. us_intents db (te_ctx_err ctx w) (rj_exec_id j) w = Inr intents
               \<and> durable_replay_blocking_intent intents k = None)"
          using that as plan_for_journal_in [OF plan] contract cps i unfolding replay_allowed_def no_blocking_intent
          by (intro exI [of _ approvals] exI [of _ cps] exI [of _ source] exI [of _ st]) auto
        show ?thesis
        proof (cases "unsafe \<or> force")
          case True
          with False contract cps i ok show ?thesis by (auto simp: eqs)
        next
          case opn: False
          show ?thesis
          proof (cases "us_intents db (te_ctx_err ctx w) (rj_exec_id j) w")
            case (Inl err)
            with False contract cps i opn show ?thesis by (auto simp: eqs)
          next
            case (Inr intents)
            with False contract cps i opn ok show ?thesis
              by (cases "durable_replay_blocking_intent intents k") (auto simp: eqs)
          qed
        qed
      qed
    qed
  qed
qed

text \<open>C3
  A claimed run is replayed only when it is safe: whenever what the policy does depends on the replay at
  all, no approval of the run is pending, the replayed plan is served by this worker with the key and
  the hash of the journal, no client waits for its reply, its input was not redacted, and - unless an
  operator forces it - no tool call of the steps to repeat is open or had an effect that is not
  idempotent. The replay then starts after the last checkpoint, on its output.
\<close>

theorem replay_only_when_safe:
  assumes "apply_replay_policy rt db f ctx plans j x force w \<noteq> apply_replay_policy rt db g ctx plans j x force w"
  shows "\<exists>plan k input. replay_allowed rt db ctx plans j force w plan k input
    \<and> apply_replay_policy rt db f ctx plans j x force w = f plan k input w"
  using assms replay_policy_cases [of rt db ctx plans j x force w] by auto

text \<open>
  The recovery does not look at the execution again once it holds the lease: a run that completed, and
  pruned its checkpoints and intents, between the scan that found it running and the claim of its lease
  is replayed from its first step on its first input, although the store already holds its completion.
\<close>

theorem completed_run_replayed_from_start:
  assumes "us_execution db (te_ctx_err ctx w) (rj_exec_id j) w = Inr (Some fin)" "ex_status fin = ExecutionCompleted"
    "us_approvals db (te_ctx_err ctx w) (rj_exec_id j) w = Inr []"
    "durable_plan_for_journal rt plans j = Some plan"
    "durable_plan_hash (rx_sha rt) (rx_float_text rt) (rx_build rt) plan = rj_plan_hash j"
    "\<not> durable_run_client_gone plan" "\<not> rj_replay_unsafe j"
    "us_checkpoints db (te_ctx_err ctx w) (rj_exec_id j) w = Inr []" "us_intents db (te_ctx_err ctx w) (rj_exec_id j) w = Inr []"
  shows "apply_replay_policy rt db replay ctx plans j x force w = replay plan 0 (rj_input j) w"
  using assms
  by (simp add: apply_replay_policy_def has_pending_approval_def durable_replay_input_def durable_replay_blocking_intent_def)

section \<open>What a scan touches\<close>

text \<open>
  A scan leaves alone every run that is not an orphan: when each journalled run is unknown, finished,
  failed or parked on a pending approval, or cannot be read, the scan changes nothing at all.
\<close>

theorem scan_leaves_others_alone:
  assumes "us_journals db (te_ctx_err ctx w) w = Inr journals"
    "\<forall>j \<in> set journals. (case us_execution db (te_ctx_err ctx w) (rj_exec_id j) w of
        Inr (Some x) \<Rightarrow> ex_status x \<noteq> ExecutionRunning
          \<or> (\<exists>as. us_approvals db (te_ctx_err ctx w) (rj_exec_id j) w = Inr as \<and> (\<exists>a \<in> set as. pa_status a = ApprovalPending))
      | _ \<Rightarrow> True)"
  shows "recover_durable_runs_scan wk db ls ctx plans w = w"
proof -
  have "scan_journals wk db ls ctx plans js w = w" if "set js \<subseteq> set journals" for js
    using that
  proof (induction js)
    case (Cons j js)
    then have "case us_execution db (te_ctx_err ctx w) (rj_exec_id j) w of
        Inr (Some x) \<Rightarrow> ex_status x \<noteq> ExecutionRunning
          \<or> (\<exists>as. us_approvals db (te_ctx_err ctx w) (rj_exec_id j) w = Inr as \<and> (\<exists>a \<in> set as. pa_status a = ApprovalPending))
      | _ \<Rightarrow> True" using assms(2) by simp
    then have "durable_run_claimable db ctx j w = Inr None \<or> (\<exists>err. durable_run_claimable db ctx j w = Inl err)"
      by (auto simp: durable_run_claimable_def has_pending_approval_def list_ex_iff split: sum.splits option.splits)
    with Cons show ?case by (auto simp: Let_def)
  qed simp
  with assms(1) show ?thesis by (simp add: recover_durable_runs_scan_def)
qed

section \<open>A replay continues the run\<close>

text \<open>The scope in which the run itself executes its steps, and a replay from step \<open>k\<close>.\<close>

definition durable_scope :: "'w http_runtime \<Rightarrow> 'w plan \<Rightarrow> session \<Rightarrow> plan_scope" where
  "durable_scope rt plan s = run_scope rt plan s \<lparr>px_durable := Some \<lparr>sj_exec_id = ss_exec_id s, sj_base = 0\<rparr>\<rparr>"

lemma replay_scope_shift: "replay_scope rt plan s (int k) = shift_scope k (durable_scope rt plan s)"
  by (simp add: replay_scope_def shift_scope_def durable_scope_def run_scope_def journal_with_base_def)

text \<open>
  A replay continues the run it replaces: when the last checkpoint is that of step \<open>k - 1\<close> with its
  output, the replay starts at step \<open>k\<close> on this output, and from the state after the first \<open>k\<close> steps it
  ends as the uninterrupted run, with the same output, error, checkpoints and effects.
\<close>

theorem replay_continues_run:
  assumes "run_steps rt ctx (durable_scope rt plan s) (take k (pn_steps plan)) input w = ((r, None, sp), w1)" "k \<le> length (pn_steps plan)"
    "checkpoints \<noteq> []" "rc_step_index (last checkpoints) = int k - 1" "rc_output (last checkpoints) = pr_output r"
  shows "\<exists>from unsafe source st. durable_replay_input j checkpoints = (from, pr_output r, unsafe, source, st) \<and> from = int k
    \<and> same_end (run_steps rt ctx (replay_scope rt plan s from) (drop (nat from) (pn_steps plan)) (pr_output r) w1)
        (run_steps rt ctx (durable_scope rt plan s) (pn_steps plan) input w)"
  using resume_same [OF assms(1,2)] assms(3-5)
  by (simp add: durable_replay_input_def Let_def replay_scope_shift)

section \<open>Approvals\<close>

text \<open>
  A run that is suspended a second time cannot be resumed: when the resumed leg of a suspended step
  reaches another call that needs an approval, there is no continuation to store for it; the run is
  finished as failed, its keys are resolved as failed and the registry does not change, while the
  second approval waits for a decision that can resume nothing.
\<close>

theorem second_suspension_is_lost:
  assumes "resume_after_approval (up_harness sp) (intent_ctx (wk_rt wk) (px_durable (up_scope sp)) (up_index sp) ctx) (up_run sp)
      (emit_approval_resume_event (wk_rt wk) ctx approvalID s ''execution_resumed'' [(''approval_id'', AnyStr approvalID)] w)
    = ((out, Some err, Some again), w1)"
  shows "\<exists>e extra. run_resumed_plan wk hb ctx approvalID \<lparr>rm_plan = plan, rm_session = s, rm_suspended = sp\<rparr> w
    = resume_failed (wk_rt wk) ctx approvalID \<lparr>rm_plan = plan, rm_session = s, rm_suspended = sp\<rparr> ''failed'' extra e w1"
  using assms
  by (auto simp: run_resumed_plan_def resume_plan_def Let_def remember_suspended_plan_def split: if_splits)

text \<open>
  A denial does not settle the trigger: an operator who denies an approval fails the execution, but no
  key of the run is resolved, so that whatever the recording of events and executions leaves as it is -
  the pending reservation of the trigger's key - is unchanged, and the client's retry with the same key
  is a duplicate for ever.
\<close>

theorem denial_keeps_reservation:
  assumes "approval_status_for_decision decision = Some ApprovalDenied"
    "\<forall>e i by w a w'. ao_resolve ao e i ApprovalDenied by w = (a, w') \<longrightarrow> P w \<longrightarrow> P w'"
    "\<forall>e i by w a w'. ao_resolve ao e i ApprovalDenied by w = (Inr a, w') \<longrightarrow> pa_status a = ApprovalDenied"
    "\<forall>st stream bus e ev. kept P (xe_append (rx_world (wk_rt wk)) st stream bus e ev)"
    "\<forall>e x. kept P (hs_save_execution (us_harness db) e x)" "P w"
  shows "P (snd (decide_approval wk db ao ctx async i (Some (decision, decidedBy)) w))"
proof -
  have emit: "P (emit_approval_event (wk_rt wk) ctx a k p v)" if "P v" for a k p v
    using that assms(4) by (simp add: emit_approval_event_def append_runtime_event_def kept_def)
  have rec: "P (record_approval_decision (wk_rt wk) db ctx a v)" if "P v" for a v
    using emit [OF that] assms(5)
    by (auto simp: record_approval_decision_def Let_def kept_def split: sum.split option.split)
  show ?thesis
    using assms(1,2,6) rec
    by (auto simp: decide_approval_def Let_def split: sum.split option.split prod.split dest: assms(3) [rule_format])
qed

end
