(* ===== verification/Recovery_Samples.thy ===== *)
theory Recovery_Samples
  imports Recovery_Facts
begin

text \<open>
  Recoveries and approvals of a concrete worker, at which the properties of \<open>Recovery_Facts\<close> are applied.
\<close>

section \<open>A journalled run\<close>

definition demo_journal :: run_journal where
  "demo_journal = new_run_journal (durable_runtime 5) parallel_plan ''in'' demo_session"

definition demo_execution :: "execution_status \<Rightarrow> execution" where
  "demo_execution st = \<lparr>ex_exec_id = ''e1'', ex_trace_id = ''t1'', ex_status = st, ex_started_at = 5, ex_completed_at = 5\<rparr>"

text \<open>The store after the run: it holds the row of the journal and the execution.\<close>

definition journalled_store :: "execution_status \<Rightarrow> nat run_store" where
  "journalled_store st = counting_store 5 \<lparr>us_journals := (\<lambda>_ _. Inr [demo_journal]),
     us_execution := (\<lambda>_ _ _. Inr (Some (demo_execution st)))\<rparr>"

lemmas demo_defs = demo_journal_def demo_execution_def journalled_store_def counting_store_def new_run_journal_def durable_runtime_def
  sample_runtime_def still_world_def rx_sha_def demo_session_def parallel_plan_def sample_plan_def

lemma demo_plan: "durable_plan_for_journal (durable_runtime 5) [parallel_plan] demo_journal = Some parallel_plan"
  "durable_plan_hash (rx_sha (durable_runtime 5)) (rx_float_text (durable_runtime 5)) (rx_build (durable_runtime 5)) parallel_plan
    = rj_plan_hash demo_journal"
  "\<not> durable_run_client_gone (parallel_plan :: nat plan)" "\<not> rj_replay_unsafe demo_journal" "rj_exec_id demo_journal = ''e1''" "rj_input demo_journal = ''in''"
proof -
  show key: "durable_plan_for_journal (durable_runtime 5) [parallel_plan] demo_journal = Some parallel_plan"
    by (simp add: durable_plan_for_journal_def demo_journal_def new_run_journal_def)
qed (simp_all add: demo_journal_def new_run_journal_def durable_run_client_gone_def parallel_plan_def sample_plan_def demo_session_def)

lemma demo_store: "us_execution (journalled_store st) e i w = Inr (Some (demo_execution st))"
  "us_approvals (journalled_store st) e i w = Inr []" "us_checkpoints (journalled_store st) e i w = Inr []"
  "us_intents (journalled_store st) e i w = Inr []" "us_journals (journalled_store st) e w = Inr [demo_journal]"
  by (simp_all add: demo_defs)

theorem completed_run_replayed_from_start_witness:
  "apply_replay_policy (durable_runtime 5) (journalled_store ExecutionCompleted) (\<lambda>_ k _ w. if k = 0 then w + 1 else w) quiet_ctx
     [parallel_plan] demo_journal (demo_execution ExecutionRunning) False 0 = 1"
proof -
  have st: "ex_status (demo_execution ExecutionCompleted) = ExecutionCompleted" by (simp add: demo_execution_def)
  show ?thesis
    unfolding completed_run_replayed_from_start [OF demo_store(1) st demo_store(2) demo_plan(1-4) demo_store(3,4)] by simp
qed

theorem replay_only_when_safe_witness:
  "replay_allowed (durable_runtime 5) (journalled_store ExecutionRunning) quiet_ctx [parallel_plan] demo_journal False 0 parallel_plan 0 ''in''"
proof -
  let ?run = "\<lambda>f. apply_replay_policy (durable_runtime 5) (journalled_store ExecutionRunning) f quiet_ctx [parallel_plan] demo_journal
     (demo_execution ExecutionRunning) False 0"
  have run: "?run f = f parallel_plan 0 ''in'' 0" for f
    using demo_plan
    by (simp add: apply_replay_policy_def has_pending_approval_def demo_store durable_replay_input_def durable_replay_blocking_intent_def)
  have "?run (\<lambda>p k i w. if k = 0 \<and> i = ''in'' then 1 else 2) \<noteq> ?run (\<lambda>p k i w. 0)" by (simp add: run)
  from replay_only_when_safe [OF this] obtain plan k input where
    r: "replay_allowed (durable_runtime 5) (journalled_store ExecutionRunning) quiet_ctx [parallel_plan] demo_journal False 0 plan k input"
    by blast
  then have "plan = parallel_plan \<and> k = 0 \<and> input = ''in''"
    using demo_plan by (auto simp: replay_allowed_def demo_store durable_replay_input_def)
  with r show ?thesis by simp
qed

theorem scan_leaves_others_alone_witness:
  "recover_durable_runs_scan durable_worker (journalled_store ExecutionCompleted) (counting_leases 5) quiet_ctx [parallel_plan] 0 = 0"
  by (rule scan_leaves_others_alone [OF demo_store(5)]) (simp add: demo_store demo_execution_def)

section \<open>A replay\<close>

definition two_step_plan :: "nat plan" where
  "two_step_plan = parallel_plan \<lparr>pn_steps := two_steps\<rparr>"

theorem replay_continues_run_witness:
  "\<exists>(r :: plan_run_result) w1. same_end (run_steps (durable_runtime 5) quiet_ctx (replay_scope (durable_runtime 5) two_step_plan demo_session 1)
        (drop 1 (pn_steps two_step_plan)) (pr_output r) w1)
     (run_steps (durable_runtime 5) quiet_ctx (durable_scope (durable_runtime 5) two_step_plan demo_session) (pn_steps two_step_plan) ''in'' 0)"
proof -
  let ?run = "run_steps (durable_runtime 5) quiet_ctx (durable_scope (durable_runtime 5) two_step_plan demo_session)
     (take 1 (pn_steps two_step_plan)) ''in'' 0"
  have "fst (snd (fst ?run)) = None" by code_simp
  then obtain r sp w1 where r: "?run = ((r, None, sp), w1)" by (metis prod.collapse)
  let ?c = "[\<lparr>rc_exec_id = ''e1'', rc_step_index = 0, rc_output = pr_output r, rc_replay_unsafe = False, rc_completed_at = 5\<rparr>]"
  from replay_continues_run [OF r, of ?c demo_journal]
  have "same_end (run_steps (durable_runtime 5) quiet_ctx (replay_scope (durable_runtime 5) two_step_plan demo_session 1)
        (drop 1 (pn_steps two_step_plan)) (pr_output r) w1)
     (run_steps (durable_runtime 5) quiet_ctx (durable_scope (durable_runtime 5) two_step_plan demo_session) (pn_steps two_step_plan) ''in'' 0)"
    by (simp add: two_step_plan_def two_steps_def)
  then show ?thesis by (intro exI [of _ r] exI [of _ w1])
qed

section \<open>Approvals\<close>

definition caller_worker :: "nat worker" where
  "caller_worker = durable_worker \<lparr>wk_rt := sample_runtime in_order caller\<rparr>"

definition caller_suspended :: "suspended_run \<Rightarrow> nat suspended_plan" where
  "caller_suspended run = \<lparr>up_harness = caller_harness ''pipe:h'', up_run = run, up_index = 0, up_remaining = [plain_step], up_scope = top_scope\<rparr>"

text \<open>The model of the example asks for the tool again once the approved call has run.\<close>

theorem second_suspension_is_lost_witness:
  "\<exists>run e extra w1. run_resumed_plan caller_worker None quiet_ctx ''ap1''
       \<lparr>rm_plan = parallel_plan, rm_session = demo_session, rm_suspended = caller_suspended run\<rparr> 0
     = resume_failed (sample_runtime in_order caller) quiet_ctx ''ap1''
       \<lparr>rm_plan = parallel_plan, rm_session = demo_session, rm_suspended = caller_suspended run\<rparr> ''failed'' extra e w1"
proof -
  let ?again = "\<lambda>run. resume_after_approval (caller_harness ''pipe:h'') quiet_ctx run 0"
  have ok: "case snd (snd (fst (run_harness (caller_harness ''pipe:h'') quiet_ctx ''in'' 0))) of None \<Rightarrow> False
    | Some run \<Rightarrow> fst (snd (fst (?again run))) \<noteq> None \<and> (case snd (snd (fst (?again run))) of None \<Rightarrow> False | Some _ \<Rightarrow> True)"
    by code_simp
  then obtain run where run: "fst (snd (fst (?again run))) \<noteq> None \<and> (case snd (snd (fst (?again run))) of None \<Rightarrow> False | Some _ \<Rightarrow> True)"
    by (cases "snd (snd (fst (run_harness (caller_harness ''pipe:h'') quiet_ctx ''in'' 0)))") (simp_all only: option.case simp_thms)
  then obtain out err again w1 where again: "?again run = ((out, Some err, Some again), w1)"
    by (cases "?again run"; cases "fst (?again run)"; cases "fst (snd (fst (?again run)))"; cases "snd (snd (fst (?again run)))") simp_all
  have "resume_after_approval (up_harness (caller_suspended run)) (intent_ctx (wk_rt caller_worker) (px_durable (up_scope (caller_suspended run)))
      (up_index (caller_suspended run)) quiet_ctx) (up_run (caller_suspended run))
      (emit_approval_resume_event (wk_rt caller_worker) quiet_ctx ''ap1'' demo_session ''execution_resumed'' [(''approval_id'', AnyStr ''ap1'')] 0)
    = ((out, Some err, Some again), w1)"
    using again by (simp add: caller_suspended_def caller_worker_def intent_ctx_def top_scope_def emit_approval_resume_event_def sample_runtime_def)
  from second_suspension_is_lost [OF this, of None parallel_plan] show ?thesis
    by (simp add: caller_worker_def) blast
qed

definition demo_approval :: "approval_status \<Rightarrow> pending_approval" where
  "demo_approval st = \<lparr>pa_id = ''ap1'', pa_exec_id = ''e1'', pa_session_id = ''s1'', pa_trace_id = ''t1'', pa_tool_name = ''a'',
     pa_tool_call_id = ''c1'', pa_tool_kind = [], pa_effect = [], pa_reason = [], pa_args_hash = ''h'', pa_status = st, pa_created_at = 5,
     pa_decided_at = zero_time, pa_decided_by = []\<rparr>"

definition demo_approvals :: "nat approval_ops" where
  "demo_approvals = \<lparr>ao_approval = (\<lambda>_ _ _. Inr (Some (demo_approval ApprovalPending))),
     ao_resolve = (\<lambda>_ _ st _ w. (Inr (demo_approval st), w))\<rparr>"

theorem denial_keeps_reservation_witness:
  "snd (decide_approval durable_worker (journalled_store ExecutionRunning) demo_approvals quiet_ctx quiet_ctx ''ap1'' (Some (''Deny '', ''ops'')) 0) < 10"
proof (rule denial_keeps_reservation [where P = "\<lambda>w. w < 10"])
  show "approval_status_for_decision ''Deny '' = Some ApprovalDenied" by code_simp
qed (auto simp: demo_approvals_def demo_approval_def kept_def durable_worker_def demo_defs idle_harness_store_def)

end
