(* ===== verification/Text_Stream.thy ===== *)
theory Text_Stream
  imports Redaction
begin

text \<open>
  \<open>internal/events/text_stream_redactor.go\<close> and \<open>text_stream_redactor_helpers.go\<close>: the incremental redaction
  of the deltas of a model. The loop of \<open>process\<close> is a partial function, one iteration of it a function of its
  own; that the loop returns is a theorem.
\<close>

section \<open>The patterns\<close>

definition stream_space :: "char \<Rightarrow> bool" where
  "stream_space c \<longleftrightarrow> c \<in> {CHR '' '', CHR 0x09, CHR 0x0D, CHR 0x0A}"

definition any_quote :: regex where "any_quote = ROpt (ROneOf [CHR 0x22, CHR 0x27])"

definition credential_name :: regex where
  "credential_name = RAlts [
     RWord ''authorization'', RWord ''token'',
     RSeqs [RWord ''api'', opt_dash, RWord ''key''],
     RSeqs [RWord ''access'', opt_dash, RWord ''key''],
     RSeqs [RWord ''access'', opt_dash, RWord ''token''],
     RSeqs [RWord ''auth'', opt_dash, RWord ''token''],
     RSeqs [RWord ''bearer'', opt_dash, RWord ''token''],
     RWord ''password'', RWord ''passwd'', RWord ''secret'',
     RSeqs [RWord ''client'', opt_dash, RWord ''secret''],
     RSeqs [RWord ''private'', opt_dash, RWord ''key''],
     RSeqs [RWord ''secret'', opt_dash, RWord ''key''],
     RWord ''cookie'',
     RSeqs [RWord ''database'', opt_dash, RAlts [RWord ''url'', RWord ''dsn'']],
     RSeqs [RWord ''connection'', opt_dash, RWord ''string'']]"

definition assignment_tail :: regex where
  "assignment_tail = RSeqs [any_quote, credential_name, any_quote, RStar (RChar stream_space)]"

definition assignment_start :: regex where
  "assignment_start = RSeqs [assignment_tail, ROneOf ''=:'', RStar (RChar stream_space)]"

definition bearer_start :: regex where
  "bearer_start = RSeqs [RBoundary, RWord ''bearer'', RPlus (RChar stream_space)]"

definition known_token_start :: regex where
  "known_token_start = RSeqs [RBoundary, RAlts [RText ''sk-'', RText ''AKIA'', RSeqs [RText ''gh'', ROneOf ''pousr'', RText ''_'']]]"

definition key_label :: regex where
  "key_label = RStar (RChar (\<lambda>c. is_upper c \<or> is_digit c \<or> c = CHR '' ''))"

definition private_key_start :: regex where
  "private_key_start = RSeqs [RText ''-----BEGIN '', key_label, RText ''PRIVATE KEY-----'']"

definition private_key_tail :: regex where
  "private_key_tail = RSeqs [RText ''-----BEGIN '', key_label]"

definition private_key_end :: regex where
  "private_key_end = RSeqs [RText ''-----END '', key_label, RText ''PRIVATE KEY-----'']"

text \<open>
  \<open>FindStringIndex\<close>: the start and the end of the preferred match at the first position that has one. With
  \<open>toEnd\<close> the expression ends with \<open>$\<close>, so that only matches up to the end of the text count.
\<close>

fun find_index_from :: "regex \<Rightarrow> bool \<Rightarrow> nat \<Rightarrow> char option \<Rightarrow> string \<Rightarrow> (nat \<times> nat) option" where
  "find_index_from r toEnd i pr [] =
     (case filter (\<lambda>(q, g). toEnd \<longrightarrow> snd q = []) (rmatch r (pr, []) []) of
        (q, _) # _ \<Rightarrow> Some (i, i) | [] \<Rightarrow> None)"
| "find_index_from r toEnd i pr (c # s) =
     (case filter (\<lambda>(q, g). toEnd \<longrightarrow> snd q = []) (rmatch r (pr, c # s) []) of
        (q, _) # _ \<Rightarrow> Some (i, i + length (c # s) - length (snd q))
      | [] \<Rightarrow> find_index_from r toEnd (Suc i) (Some c) s)"

definition find_string_index :: "regex \<Rightarrow> string \<Rightarrow> (nat \<times> nat) option" where
  "find_string_index r s = find_index_from r False 0 None s"

definition find_tail_index :: "regex \<Rightarrow> string \<Rightarrow> (nat \<times> nat) option" where
  "find_tail_index r s = find_index_from r True 0 None s"

text \<open>\<open>strings.Index\<close>.\<close>

fun str_index :: "string \<Rightarrow> string \<Rightarrow> nat option" where
  "str_index [] p = (if p = [] then Some 0 else None)"
| "str_index (c # s) p = (if prefix p (c # s) then Some 0 else map_option Suc (str_index s p))"

section \<open>The scanner\<close>

datatype text_mode = TextNormal | TextBearerAwait | TextBearer | TextAssignmentPrefix | TextAssignmentAwait
  | TextAssignmentUnquoted | TextAssignmentQuoted | TextKnownToken | TextPrivateKey | TextConfigured

datatype token_kind = TokenGeneral | TokenAWS

record text_redactor =
  tr_values :: "string list"
  tr_pending :: string
  tr_mode :: text_mode
  tr_quote :: char
  tr_escaped :: bool
  tr_token_kind :: token_kind
  tr_configured :: string
  tr_matched :: nat
  tr_wide_value :: bool

definition max_pending :: nat where "max_pending = 4 * 1024"

definition redactor_over :: "string list \<Rightarrow> text_redactor" where
  "redactor_over vs = \<lparr>tr_values = vs, tr_pending = [], tr_mode = TextNormal, tr_quote = CHR 0x00, tr_escaped = False,
     tr_token_kind = TokenGeneral, tr_configured = [], tr_matched = 0, tr_wide_value = False\<rparr>"

definition new_text_redactor :: "ambient \<Rightarrow> text_redactor" where
  "new_text_redactor E = redactor_over (sort_key (\<lambda>v. - int (length v)) (sensitive_environment_values E))"

text \<open>The start, the end, the mode and the configured value of a candidate.\<close>

type_synonym text_candidate = "nat \<times> nat \<times> text_mode \<times> string"

definition select_candidate :: "(nat \<times> nat) option \<times> text_mode \<times> string \<Rightarrow> text_candidate \<Rightarrow> text_candidate" where
  "select_candidate c best =
     (case c of (None, _, _) \<Rightarrow> best
      | (Some (i, j), m, v) \<Rightarrow> if i < fst best then (i, j, m, v) else best)"

definition text_candidates :: "text_redactor \<Rightarrow> ((nat \<times> nat) option \<times> text_mode \<times> string) list" where
  "text_candidates s = (let p = tr_pending s in
     map (\<lambda>v. (map_option (\<lambda>i. (i, i + length v)) (str_index p v), TextConfigured, v)) (tr_values s)
     @ [(find_string_index assignment_start p, TextAssignmentAwait, []),
        (find_string_index bearer_start p, TextBearerAwait, []),
        (find_string_index known_token_start p, TextKnownToken, []),
        (find_string_index private_key_start p, TextPrivateKey, [])])"

definition next_candidate :: "text_redactor \<Rightarrow> text_candidate option" where
  "next_candidate s =
     (let best = fold select_candidate (text_candidates s) (length (tr_pending s) + 1, 0, TextNormal, []) in
      if fst best \<le> length (tr_pending s) then Some best else None)"

text \<open>The longest size at most \<open>n\<close> and above \<open>lo\<close> whose prefix of \<open>w\<close> ends the text.\<close>

fun suffix_size :: "string \<Rightarrow> string \<Rightarrow> nat \<Rightarrow> nat \<Rightarrow> nat option" where
  "suffix_size t w lo 0 = None"
| "suffix_size t w lo (Suc n) =
     (if Suc n \<le> lo then None else if suffix (take (Suc n) w) t then Some (Suc n) else suffix_size t w lo n)"

definition partial_secret_suffix_match :: "text_redactor \<Rightarrow> string \<Rightarrow> string \<times> nat" where
  "partial_secret_suffix_match s t =
     fold (\<lambda>v (selected, longest).
        case suffix_size t v longest (min (length t) (length v - 1)) of None \<Rightarrow> (selected, longest) | Some n \<Rightarrow> (v, n))
       (tr_values s) ([], 0)"

text \<open>
  \<open>strings.ToLower\<close> as far as the starters can tell: the ASCII letters, and the Kelvin sign and the dotted
  capital i, whose lower case is an ASCII letter.
\<close>

fun lower_text :: "string \<Rightarrow> string" where
  "lower_text [] = []"
| "lower_text (c # s) =
     (case s of
        d # e # t \<Rightarrow>
          if c = CHR 0xE2 \<and> d = CHR 0x84 \<and> e = CHR 0xAA then CHR ''k'' # lower_text t
          else if c = CHR 0xC4 \<and> d = CHR 0xB0 then CHR ''i'' # lower_text (e # t)
          else lower_char c # lower_text s
      | [d] \<Rightarrow> if c = CHR 0xC4 \<and> d = CHR 0xB0 then ''i'' else lower_char c # lower_text s
      | [] \<Rightarrow> [lower_char c])"

definition text_starters :: "string list" where
  "text_starters = [''authorization'', ''token'', ''api_key'', ''api-key'', ''apikey'', ''access_key'', ''access-key'',
     ''access_token'', ''access-token'', ''auth_token'', ''auth-token'', ''bearer_token'', ''bearer-token'',
     ''password'', ''passwd'', ''secret'', ''client_secret'', ''client-secret'', ''private_key'', ''private-key'',
     ''secret_key'', ''secret-key'', ''cookie'', ''database_url'', ''database_dsn'', ''connection_string'',
     ''bearer'', ''sk-'', ''akia'', ''ghp_'', ''gho_'', ''ghu_'', ''ghs_'', ''ghr_'', ''-----begin '']"

definition structural_prefix_hold :: "string \<Rightarrow> nat" where
  "structural_prefix_hold text =
     (let lower = lower_text text;
          grow = (\<lambda>w longest. case suffix_size lower w longest (min (length lower) (length w)) of None \<Rightarrow> longest | Some n \<Rightarrow> n) in
      fold (\<lambda>w. grow (CHR 0x27 # w) \<circ> grow (CHR 0x22 # w) \<circ> grow w) text_starters 0)"

definition pending_hold :: "text_redactor \<Rightarrow> nat \<times> text_mode \<times> string \<times> nat" where
  "pending_hold s =
     (let p = tr_pending s;
          h0 = (structural_prefix_hold p, TextNormal);
          h1 = (case find_tail_index assignment_tail p of
                  Some (i, _) \<Rightarrow> if fst h0 < length p - i then (length p - i, TextAssignmentPrefix) else h0 | None \<Rightarrow> h0);
          h2 = (case find_tail_index private_key_tail p of
                  Some (i, _) \<Rightarrow> if fst h1 < length p - i then (length p - i, TextPrivateKey) else h1 | None \<Rightarrow> h1) in
      case partial_secret_suffix_match s p of
        (v, n) \<Rightarrow> if fst h2 < n then (n, TextConfigured, v, n) else (fst h2, snd h2, [], 0))"

definition assignment_delimiter :: "char \<Rightarrow> bool" where
  "assignment_delimiter c \<longleftrightarrow> stream_space c \<or> c \<in> {CHR '','', CHR '';'', CHR ''}'', CHR '']''}"

definition assignment_value_delimiter :: "char \<Rightarrow> bool \<Rightarrow> bool" where
  "assignment_value_delimiter c wide \<longleftrightarrow>
     (if wide then c \<in> {CHR 0x0D, CHR 0x0A, CHR '','', CHR '';'', CHR ''}'', CHR '']''} else assignment_delimiter c)"

definition bearer_byte :: "char \<Rightarrow> bool" where
  "bearer_byte c \<longleftrightarrow> is_lower c \<or> is_upper c \<or> is_digit c \<or> c \<in> set ''._~+/=-''"

definition token_byte :: "token_kind \<Rightarrow> char \<Rightarrow> bool" where
  "token_byte k c \<longleftrightarrow> is_upper c \<or> is_digit c \<or> (k = TokenGeneral \<and> (is_lower c \<or> c \<in> set ''_-''))"

definition token_kind_for_prefix :: "string \<Rightarrow> token_kind" where
  "token_kind_for_prefix p = (if p = ''AKIA'' then TokenAWS else TokenGeneral)"

text \<open>Where a quoted value ends, and whether the scan ends after a backslash.\<close>

fun quoted_value_end :: "char \<Rightarrow> bool \<Rightarrow> nat \<Rightarrow> string \<Rightarrow> nat option \<times> bool" where
  "quoted_value_end q escaped i [] = (None, escaped)"
| "quoted_value_end q escaped i (c # s) =
     (if escaped then quoted_value_end q False (Suc i) s
      else if c = CHR 0x5C then quoted_value_end q True (Suc i) s
      else if c = q then (Some (Suc i), False)
      else if c = CHR 0x0D \<or> c = CHR 0x0A then (Some i, False)
      else quoted_value_end q False (Suc i) s)"

section \<open>One iteration\<close>

text \<open>The text that is written, and whether the loop goes on.\<close>

datatype text_step = TextGoesOn string text_redactor | TextReturns string text_redactor

definition enter_candidate :: "ambient \<Rightarrow> text_candidate \<Rightarrow> text_redactor \<Rightarrow> text_step" where
  "enter_candidate E c s =
     (case c of (i, j, m, v) \<Rightarrow>
        let p = tr_pending s; matched = drop i (take j p);
            s1 = s \<lparr>tr_pending := drop j p, tr_mode := m, tr_configured := v, tr_matched := length v,
              tr_wide_value := (m = TextAssignmentAwait \<and> contains_str (lower_text matched) ''authorization''),
              tr_token_kind := (if m = TextKnownToken then token_kind_for_prefix matched else tr_token_kind s)\<rparr> in
        TextGoesOn (redact_text E (take i p)
          @ (if m = TextBearerAwait \<or> m = TextAssignmentAwait then redact_text E matched
             else if m \<in> {TextKnownToken, TextPrivateKey, TextConfigured} then redacted else [])) s1)"

definition step_normal :: "ambient \<Rightarrow> bool \<Rightarrow> text_redactor \<Rightarrow> text_step" where
  "step_normal E final s =
     (let p = tr_pending s in
      case next_candidate s of
        Some c \<Rightarrow> enter_candidate E c s
      | None \<Rightarrow>
          if final then TextReturns (redact_text E p) (s \<lparr>tr_pending := []\<rparr>)
          else case pending_hold s of (hold, m, v, n) \<Rightarrow>
            let safe = length p - hold in
            if max_pending < hold
            then TextGoesOn (redact_text E (take safe p) @ redacted)
                   (s \<lparr>tr_pending := [], tr_mode := m, tr_configured := v, tr_matched := n\<rparr>)
            else if safe = 0 then TextReturns [] s
            else TextReturns (redact_text E (take safe p)) (s \<lparr>tr_pending := drop safe p\<rparr>))"

text \<open>A mode that consumes the characters of a value and then goes back to the normal one.\<close>

definition step_consume :: "(char \<Rightarrow> bool) \<Rightarrow> text_redactor \<Rightarrow> text_step" where
  "step_consume accept s =
     (let rest = dropWhile accept (tr_pending s); s1 = s \<lparr>tr_pending := rest\<rparr> in
      if rest = [] then TextReturns [] s1 else TextGoesOn [] (s1 \<lparr>tr_mode := TextNormal\<rparr>))"

definition step_configured :: "bool \<Rightarrow> text_redactor \<Rightarrow> text_step" where
  "step_configured final s =
     (if length (tr_configured s) \<le> tr_matched s then TextGoesOn [] (s \<lparr>tr_mode := TextNormal\<rparr>)
      else let rest = drop (tr_matched s) (tr_configured s); p = tr_pending s;
               limit = min (length rest) (length p);
               matched = length (takeWhile (\<lambda>(a, b). a = b) (zip rest p));
               s1 = s \<lparr>tr_matched := tr_matched s + matched, tr_pending := drop matched p\<rparr> in
           if matched < limit \<or> tr_matched s1 = length (tr_configured s) then TextGoesOn [] (s1 \<lparr>tr_mode := TextNormal\<rparr>)
           else TextReturns [] (if final then s1 \<lparr>tr_pending := []\<rparr> else s1))"

fun iterate_text :: "ambient \<Rightarrow> bool \<Rightarrow> text_mode \<Rightarrow> text_redactor \<Rightarrow> text_step" where
  "iterate_text E final TextNormal s = step_normal E final s"
| "iterate_text E final TextBearerAwait s =
     (let spaces = takeWhile stream_space (tr_pending s); rest = dropWhile stream_space (tr_pending s);
          s1 = s \<lparr>tr_pending := rest\<rparr> in
      case rest of
        [] \<Rightarrow> TextReturns spaces s1
      | c # _ \<Rightarrow> if bearer_byte c then TextGoesOn (spaces @ redacted) (s1 \<lparr>tr_mode := TextBearer\<rparr>)
               else TextGoesOn spaces (s1 \<lparr>tr_mode := TextNormal\<rparr>))"
| "iterate_text E final TextBearer s = step_consume bearer_byte s"
| "iterate_text E final TextAssignmentPrefix s =
     (let rest = dropWhile (\<lambda>c. stream_space c \<or> c = CHR 0x27 \<or> c = CHR 0x22) (tr_pending s) in
      case rest of
        [] \<Rightarrow> TextReturns [] (s \<lparr>tr_pending := []\<rparr>)
      | c # cs \<Rightarrow> if c = CHR ''='' \<or> c = CHR '':'' then TextGoesOn [] (s \<lparr>tr_pending := cs, tr_mode := TextAssignmentAwait\<rparr>)
                else TextGoesOn [] (s \<lparr>tr_pending := rest, tr_mode := TextNormal\<rparr>))"
| "iterate_text E final TextAssignmentAwait s =
     (let spaces = takeWhile stream_space (tr_pending s); rest = dropWhile stream_space (tr_pending s) in
      case rest of
        [] \<Rightarrow> TextReturns spaces (s \<lparr>tr_pending := []\<rparr>)
      | c # cs \<Rightarrow>
          if assignment_delimiter c then TextGoesOn spaces (s \<lparr>tr_pending := rest, tr_mode := TextNormal\<rparr>)
          else if c = CHR 0x27 \<or> c = CHR 0x22
          then TextGoesOn (spaces @ redacted) (s \<lparr>tr_pending := cs, tr_quote := c, tr_mode := TextAssignmentQuoted\<rparr>)
          else TextGoesOn (spaces @ redacted) (s \<lparr>tr_pending := rest, tr_mode := TextAssignmentUnquoted\<rparr>))"
| "iterate_text E final TextAssignmentUnquoted s =
     (case step_consume (\<lambda>c. \<not> assignment_value_delimiter c (tr_wide_value s)) s of
        TextGoesOn out s1 \<Rightarrow> TextGoesOn out (s1 \<lparr>tr_wide_value := False\<rparr>)
      | TextReturns out s1 \<Rightarrow> TextReturns out s1)"
| "iterate_text E final TextAssignmentQuoted s =
     (case quoted_value_end (tr_quote s) (tr_escaped s) 0 (tr_pending s) of
        (Some n, _) \<Rightarrow> TextGoesOn [] (s \<lparr>tr_pending := drop n (tr_pending s), tr_mode := TextNormal, tr_quote := CHR 0x00, tr_escaped := False\<rparr>)
      | (None, escaped) \<Rightarrow>
          (let s1 = s \<lparr>tr_escaped := escaped\<rparr> in
           TextReturns [] (if final \<or> max_pending < length (tr_pending s) then s1 \<lparr>tr_pending := []\<rparr> else s1)))"
| "iterate_text E final TextKnownToken s = step_consume (token_byte (tr_token_kind s)) s"
| "iterate_text E final TextPrivateKey s =
     (let p = tr_pending s in
      case find_string_index private_key_end p of
        Some (_, j) \<Rightarrow> TextGoesOn [] (s \<lparr>tr_pending := drop j p, tr_mode := TextNormal\<rparr>)
      | None \<Rightarrow> TextReturns [] (if final then s \<lparr>tr_pending := []\<rparr>
          else s \<lparr>tr_pending := drop (length p - max_pending) p\<rparr>))"
| "iterate_text E final TextConfigured s = step_configured final s"

section \<open>Push and flush\<close>

partial_function (option) text_process :: "ambient \<Rightarrow> bool \<Rightarrow> string \<Rightarrow> text_redactor \<Rightarrow> (string \<times> text_redactor) option" where
  [code]: "text_process E final out s =
     (case iterate_text E final (tr_mode s) s of
        TextReturns t s1 \<Rightarrow> Some (out @ t, s1)
      | TextGoesOn t s1 \<Rightarrow> text_process E final (out @ t) s1)"

definition text_push :: "ambient \<Rightarrow> string \<Rightarrow> text_redactor \<Rightarrow> (string \<times> text_redactor) option" where
  "text_push E chunk s =
     (if chunk = [] then Some ([], s) else text_process E False [] (s \<lparr>tr_pending := tr_pending s @ chunk\<rparr>))"

definition reset_secret_state :: "text_redactor \<Rightarrow> text_redactor" where
  "reset_secret_state s = s \<lparr>tr_quote := CHR 0x00, tr_escaped := False, tr_token_kind := TokenGeneral,
     tr_configured := [], tr_matched := 0, tr_wide_value := False\<rparr>"

definition text_flush :: "ambient \<Rightarrow> text_redactor \<Rightarrow> (string \<times> text_redactor) option" where
  "text_flush E s =
     map_option (\<lambda>(out, s1). (out, reset_secret_state (s1 \<lparr>tr_pending := [], tr_mode := TextNormal\<rparr>))) (text_process E True [] s)"

text \<open>The deltas of one call of a model: what is written for the chunks and the flush.\<close>

fun text_deltas :: "ambient \<Rightarrow> text_redactor \<Rightarrow> string list \<Rightarrow> string list option" where
  "text_deltas E s [] = map_option (\<lambda>(out, _). [out]) (text_flush E s)"
| "text_deltas E s (c # cs) =
     (case text_push E c s of None \<Rightarrow> None
      | Some (out, s1) \<Rightarrow> map_option ((#) out) (text_deltas E s1 cs))"

end
