(* ===== verification/Text_Stream_Facts.thy ===== *)
theory Text_Stream_Facts
  imports Text_Stream
begin

text \<open>
  What the incremental redaction guarantees: it returns, it keeps at most four kilobytes, it passes ordinary
  text on unchanged, and it never writes the beginning of a configured secret that a later chunk completes;
  and three texts on which it depends on the chunks.
\<close>

definition silent_ambient :: ambient where
  "silent_ambient = \<lparr>environ = [], json_decode = (\<lambda>_. None), json_encode = (\<lambda>_. None), parse_float = (\<lambda>_. 0)\<rparr>"

section \<open>Matches consume their text\<close>

primrec min_length :: "regex \<Rightarrow> nat" where
  "min_length (RChar P) = 1"
| "min_length (RText w) = length w"
| "min_length (RSeq a b) = min_length a + min_length b"
| "min_length (RAlt a b) = min (min_length a) (min_length b)"
| "min_length (RStar a) = 0"
| "min_length (RLazyStar a) = 0"
| "min_length (RGroup n a) = min_length a"
| "min_length RBoundary = 0"
| "min_length REmpty = 0"

lemma rmatch_consumes: "(q, h) \<in> set (rmatch r p g) \<Longrightarrow> length (snd q) + min_length r \<le> length (snd p)"
proof (induction r arbitrary: p g q h)
  case (RText w)
  then have "advance w p = Some q" by (auto split: option.splits)
  then show ?case by (auto dest: advance_Some)
next
  case (RSeq a b)
  then obtain q' h' where m: "(q', h') \<in> set (rmatch a p g)" "(q, h) \<in> set (rmatch b q' h')" by auto
  from RSeq.IH(1) [OF m(1)] RSeq.IH(2) [OF m(2)] show ?case by simp
next
  case (RAlt a b)
  then have "(q, h) \<in> set (rmatch a p g) \<or> (q, h) \<in> set (rmatch b p g)" by simp
  then show ?case using RAlt.IH(1) [of q h p g] RAlt.IH(2) [of q h p g] by auto
next
  case (RStar r)
  then show ?case using rmatch_suffix [of q h "RStar r"] by (simp add: suffix_length_le)
next
  case (RLazyStar r)
  then show ?case using rmatch_suffix [of q h "RLazyStar r"] by (simp add: suffix_length_le)
next
  case (RChar P)
  then show ?case by (cases "snd p") (auto split: if_splits)
next
  case (RGroup n r)
  then obtain h' where "(q, h') \<in> set (rmatch r p g)" by auto
  with RGroup.IH show ?case by fastforce
qed (auto split: if_splits)

lemma find_index_from_range:
  assumes "find_index_from r toEnd i pr s = Some (a, b)"
  shows "i \<le> a \<and> a + min_length r \<le> b \<and> b \<le> i + length s"
  using assms
proof (induction s arbitrary: i pr)
  case Nil
  then have "rmatch r (pr, []) [] \<noteq> []" "a = i" "b = i" by (auto split: list.splits)
  then show ?case using rmatch_consumes [of _ _ r "(pr, [])" "[]"] by (cases "rmatch r (pr, []) []") (force, auto)
next
  case (Cons c s)
  let ?ms = "filter (\<lambda>(q, g). toEnd \<longrightarrow> snd q = []) (rmatch r (pr, c # s) [])"
  show ?case
  proof (cases ?ms)
    case Nil
    then show ?thesis using Cons by fastforce
  next
    case (Cons m ms)
    then have "m \<in> set ?ms" by simp
    then have "m \<in> set (rmatch r (pr, c # s) [])" by (simp only: set_filter mem_Collect_eq)
    then have "length (snd (fst m)) + min_length r \<le> length (c # s)" using rmatch_consumes [of "fst m" "snd m"] by fastforce
    then show ?thesis using \<open>find_index_from r toEnd i pr (c # s) = Some (a, b)\<close> Cons by (cases m) auto
  qed
qed

lemma find_string_index_range: "find_string_index r s = Some (a, b) \<Longrightarrow> a + min_length r \<le> b \<and> b \<le> length s"
  using find_index_from_range [of r False 0 None s a b] by (simp add: find_string_index_def)

lemma str_index_range: "str_index s p = Some i \<Longrightarrow> i + length p \<le> length s"
  by (induction s p arbitrary: i rule: str_index.induct) (auto split: if_splits dest: prefix_length_le)

lemma str_index_none: "str_index s p = None \<longleftrightarrow> \<not> sublist p s"
  by (induction s p rule: str_index.induct) (auto simp: sublist_Cons_right split: if_splits)

lemma pattern_lengths:
  "0 < min_length assignment_start" "0 < min_length bearer_start" "0 < min_length known_token_start" "0 < min_length private_key_start"
  by code_simp+

section \<open>Candidates\<close>

lemma candidate_range:
  assumes "(Some (i, j), m, v) \<in> set (text_candidates s)" "[] \<notin> set (tr_values s)"
  shows "i < j \<and> j \<le> length (tr_pending s) \<and> m \<noteq> TextNormal"
proof -
  consider "v \<in> set (tr_values s)" "str_index (tr_pending s) v = Some i" "j = i + length v" "m = TextConfigured"
    | r where "find_string_index r (tr_pending s) = Some (i, j)" "0 < min_length r" "m \<noteq> TextNormal"
    using assms(1) pattern_lengths by (auto simp: text_candidates_def Let_def eq_commute [of "Some (i, j)"])
  then show ?thesis
  proof cases
    case 1
    moreover have "v \<noteq> []" using 1(1) assms(2) by metis
    ultimately show ?thesis using str_index_range [OF 1(2)] by simp
  next
    case (2 r)
    then show ?thesis using find_string_index_range [OF 2(1)] by simp
  qed
qed

lemma select_cases: "select_candidate c best = best \<or> (\<exists>i j m v. c = (Some (i, j), m, v) \<and> select_candidate c best = (i, j, m, v) \<and> i < fst best)"
  by (cases c rule: prod_cases3) (auto simp: select_candidate_def split: option.splits if_splits)

lemma fold_select_member:
  "fold select_candidate cs best = best \<or> (\<exists>i j m v. (Some (i, j), m, v) \<in> set cs \<and> fold select_candidate cs best = (i, j, m, v))"
proof (induction cs arbitrary: best)
  case (Cons c cs)
  from Cons.IH [of "select_candidate c best"] select_cases [of c best] show ?case by (auto 0 4)
qed simp

lemma fold_select_least:
  "fst (fold select_candidate cs best) \<le> fst best \<and> ((Some (i, j), m, v) \<in> set cs \<longrightarrow> fst (fold select_candidate cs best) \<le> i)"
proof (induction cs arbitrary: best)
  case (Cons c cs)
  have "fst (select_candidate c best) \<le> fst best" using select_cases [of c best] by auto
  moreover have "c = (Some (i, j), m, v) \<Longrightarrow> fst (select_candidate c best) \<le> i" by (simp add: select_candidate_def)
  ultimately show ?case using Cons.IH [of "select_candidate c best"] by (auto intro: order.trans)
qed simp

lemma next_candidate_Some:
  assumes "next_candidate s = Some (i, j, m, v)" "[] \<notin> set (tr_values s)"
  shows "i < j \<and> j \<le> length (tr_pending s) \<and> m \<noteq> TextNormal"
proof -
  let ?best = "fold select_candidate (text_candidates s) (length (tr_pending s) + 1, 0, TextNormal, [])"
  have b: "?best = (i, j, m, v)" "i \<le> length (tr_pending s)"
    using assms(1) by (auto simp: next_candidate_def Let_def split: if_splits)
  then have "(Some (i, j), m, v) \<in> set (text_candidates s)"
    using fold_select_member [of "text_candidates s" "(length (tr_pending s) + 1, 0, TextNormal, [])"] by auto
  then show ?thesis by (rule candidate_range [OF _ assms(2)])
qed

lemma next_candidate_None:
  assumes "next_candidate s = None" "v \<in> set (tr_values s)"
  shows "\<not> sublist v (tr_pending s)"
proof
  assume "sublist v (tr_pending s)"
  then obtain i where i: "str_index (tr_pending s) v = Some i" by (metis str_index_none not_None_eq)
  then have "(Some (i, i + length v), TextConfigured, v) \<in> set (text_candidates s)"
    using assms(2) by (force simp: text_candidates_def Let_def)
  then have "fst (fold select_candidate (text_candidates s) (length (tr_pending s) + 1, 0, TextNormal, [])) \<le> i"
    using fold_select_least [of "text_candidates s"] by blast
  then show False using assms(1) str_index_range [OF i] by (auto simp: next_candidate_def Let_def split: if_splits)
qed

section \<open>The loop returns\<close>

fun mode_rank :: "text_mode \<Rightarrow> nat" where
  "mode_rank TextNormal = 0"
| "mode_rank TextBearerAwait = 2"
| "mode_rank TextAssignmentAwait = 2"
| "mode_rank _ = 1"

lemma mode_rank_bound: "mode_rank m \<le> 2" by (cases m) simp_all

definition text_measure :: "text_redactor \<Rightarrow> nat" where
  "text_measure s = 3 * length (tr_pending s) + mode_rank (tr_mode s)"

lemma dropWhile_short: "length (dropWhile P xs) \<le> length xs"
  by (induction xs) auto

lemma dropWhile_Cons_short: "dropWhile P xs = c # cs \<Longrightarrow> length cs < length xs"
  using dropWhile_short [of P xs] by simp

lemma step_consume_goes_on:
  "step_consume P s = TextGoesOn out s1 \<Longrightarrow>
     tr_values s1 = tr_values s \<and> tr_mode s1 = TextNormal \<and> length (tr_pending s1) \<le> length (tr_pending s)"
  using dropWhile_short [of P "tr_pending s"] by (auto simp: step_consume_def Let_def split: if_splits)

lemma step_configured_goes_on:
  "step_configured final s = TextGoesOn out s1 \<Longrightarrow>
     tr_values s1 = tr_values s \<and> tr_mode s1 = TextNormal \<and> length (tr_pending s1) \<le> length (tr_pending s)"
  by (auto simp: step_configured_def Let_def split: if_splits)

lemma tail_index_empty: "0 < min_length r \<Longrightarrow> find_tail_index r [] = None"
  using find_index_from_range [of r True 0 None "[]"] by (cases "find_tail_index r []") (auto simp: find_tail_index_def)

lemma pending_hold_empty: "tr_pending s = [] \<Longrightarrow> fst (pending_hold s) = 0"
proof -
  assume p: "tr_pending s = []"
  have "structural_prefix_hold [] = 0" by code_simp
  moreover have "find_tail_index assignment_tail [] = None" "find_tail_index private_key_tail [] = None"
    by (rule tail_index_empty, code_simp)+
  moreover have "partial_secret_suffix_match s [] = ([], 0)"
    unfolding partial_secret_suffix_match_def by (rule fold_invariant [where Q = "\<lambda>_. True"]) auto
  ultimately show ?thesis using p by (simp add: pending_hold_def Let_def)
qed

lemma step_normal_goes_on:
  assumes "step_normal E final s = TextGoesOn out s1" "[] \<notin> set (tr_values s)"
  shows "tr_values s1 = tr_values s \<and> length (tr_pending s1) < length (tr_pending s)"
proof (cases "next_candidate s")
  case None
  obtain hold m v n where h: "pending_hold s = (hold, m, v, n)" by (metis prod.collapse)
  then have "max_pending < hold" "tr_pending s1 = []" "tr_values s1 = tr_values s"
    using assms(1) None by (auto simp: step_normal_def Let_def split: if_splits)
  moreover have "tr_pending s \<noteq> []"
  proof
    assume p: "tr_pending s = []"
    then have "hold = 0" using pending_hold_empty [OF p] h by simp
    then show False using calculation(1) by simp
  qed
  ultimately show ?thesis by simp
next
  case (Some c)
  then obtain i j m v where c: "c = (i, j, m, v)" by (metis prod.collapse)
  then have "i < j" "j \<le> length (tr_pending s)" using next_candidate_Some [of s i j m v] Some assms(2) by simp_all
  moreover have "tr_pending s1 = drop j (tr_pending s)" "tr_values s1 = tr_values s"
    using assms(1) Some c by (auto simp: step_normal_def enter_candidate_def Let_def)
  ultimately show ?thesis by simp
qed

lemma iterate_goes_on:
  assumes "iterate_text E final (tr_mode s) s = TextGoesOn out s1" "[] \<notin> set (tr_values s)"
  shows "tr_values s1 = tr_values s \<and> text_measure s1 < text_measure s"
proof (cases "tr_mode s")
  case TextNormal
  then show ?thesis using step_normal_goes_on [of E final s out s1] assms mode_rank_bound [of "tr_mode s1"]
    by (simp add: text_measure_def)
next
  case TextPrivateKey
  have "0 < min_length private_key_end" by code_simp
  then show ?thesis using assms TextPrivateKey
    by (auto simp: text_measure_def Let_def dest!: find_string_index_range split: option.splits)
next
  case TextAssignmentUnquoted
  then show ?thesis using assms
    by (auto simp: text_measure_def dest!: step_consume_goes_on split: text_step.splits)
next
  case TextAssignmentQuoted
  then show ?thesis using assms by (auto simp: text_measure_def Let_def split: prod.splits option.splits)
qed (use assms in \<open>auto simp: text_measure_def Let_def dest!: step_consume_goes_on step_configured_goes_on
    dropWhile_Cons_short split: list.splits if_splits\<close>)

lemma step_consume_returns: "step_consume P s = TextReturns out s1 \<Longrightarrow> tr_pending s1 = [] \<and> tr_values s1 = tr_values s"
  by (auto simp: step_consume_def Let_def split: if_splits)

lemma step_configured_returns:
  assumes "step_configured final s = TextReturns out s1"
  shows "tr_pending s1 = [] \<and> tr_values s1 = tr_values s"
proof -
  let ?rest = "drop (tr_matched s) (tr_configured s)" and ?p = "tr_pending s"
  let ?m = "length (takeWhile (\<lambda>(a, b). a = b) (zip ?rest ?p))"
  have "\<not> ?m < min (length ?rest) (length ?p)" "tr_matched s + ?m \<noteq> length (tr_configured s)"
    "tr_matched s < length (tr_configured s)" "tr_values s1 = tr_values s" "tr_pending s1 = (if final then [] else drop ?m ?p)"
    using assms by (auto simp: step_configured_def Let_def split: if_splits)
  moreover have "?m \<le> min (length ?rest) (length ?p)" using length_takeWhile_le [of _ "zip ?rest ?p"] by simp
  ultimately show ?thesis by (auto simp: min_def split: if_splits)
qed

lemma step_normal_returns:
  "step_normal E final s = TextReturns out s1 \<Longrightarrow> length (tr_pending s1) \<le> max_pending \<and> tr_values s1 = tr_values s"
  by (auto simp: step_normal_def enter_candidate_def Let_def split: option.splits prod.splits if_splits)

lemma iterate_returns:
  assumes "iterate_text E final (tr_mode s) s = TextReturns out s1"
  shows "length (tr_pending s1) \<le> max_pending \<and> tr_values s1 = tr_values s"
proof (cases "tr_mode s")
  case TextNormal
  then show ?thesis using step_normal_returns assms by simp
next
  case TextBearerAwait
  then show ?thesis using assms by (cases "dropWhile stream_space (tr_pending s)") (auto simp: Let_def split: if_splits)
next
  case TextAssignmentUnquoted
  then show ?thesis using assms by (auto dest!: step_consume_returns split: text_step.splits)
qed (use assms in \<open>auto simp: Let_def max_pending_def dest!: step_consume_returns step_configured_returns
    split: list.splits if_splits option.splits prod.splits\<close>)

lemma text_process_returns:
  "[] \<notin> set (tr_values s) \<Longrightarrow> \<exists>out' s1. text_process E final out s = Some (out', s1)
     \<and> length (tr_pending s1) \<le> max_pending \<and> tr_values s1 = tr_values s"
proof (induction "text_measure s" arbitrary: s out rule: less_induct)
  case less
  show ?case
  proof (cases "iterate_text E final (tr_mode s) s")
    case (TextReturns t s1)
    then show ?thesis using iterate_returns [OF TextReturns] by (subst text_process.simps) simp
  next
    case (TextGoesOn t s1)
    note d = iterate_goes_on [OF TextGoesOn less.prems]
    then obtain out' s2 where "text_process E final (out @ t) s1 = Some (out', s2)" "length (tr_pending s2) \<le> max_pending"
      "tr_values s2 = tr_values s1" using less.hyps [of s1 "out @ t"] less.prems by auto
    then show ?thesis using TextGoesOn d by (subst text_process.simps) simp
  qed
qed

lemma text_push_returns:
  assumes "[] \<notin> set (tr_values s)" "length (tr_pending s) \<le> max_pending"
  obtains out s1 where "text_push E chunk s = Some (out, s1)" "length (tr_pending s1) \<le> max_pending" "tr_values s1 = tr_values s"
  using text_process_returns [of "s \<lparr>tr_pending := tr_pending s @ chunk\<rparr>" E False "[]"] assms
  by (cases "chunk = []") (auto simp: text_push_def)

text \<open>
  : a chunk pushed to a redactor is always processed, and no more than four kilobytes of it are kept.\<close>

theorem text_push_bounded:
  assumes "[] \<notin> set (tr_values s)" "length (tr_pending s) \<le> max_pending"
  shows "\<exists>out s1. text_push E chunk s = Some (out, s1) \<and> length (tr_pending s1) \<le> max_pending \<and> tr_values s1 = tr_values s"
  using text_push_returns [OF assms] by metis

theorem text_push_bounded_witness:
  "\<exists>out s1. text_push E ''hunt'' (redactor_over [''hunter2'']) = Some (out, s1) \<and> length (tr_pending s1) \<le> max_pending
     \<and> tr_values s1 = [''hunter2'']"
  using text_push_bounded [of "redactor_over [''hunter2'']" E "''hunt''"] by (simp add: redactor_over_def)

lemma env_values_nonempty: "[] \<notin> set seen \<Longrightarrow> [] \<notin> set (env_values_from seen es)"
proof (induction seen es rule: env_values_from.induct)
  case (2 seen entry entries)
  obtain key v ok where c: "go_cut entry ''='' = (key, v, ok)" by (metis prod.collapse)
  show ?case
  proof (cases "\<not> ok \<or> length v < 4 \<or> \<not> is_sensitive_payload_key key \<or> v \<in> set seen")
    case True
    then show ?thesis using 2 c by auto
  next
    case False
    then have "[] \<notin> set (seen @ [v])" using 2(4) by auto
    then show ?thesis using 2(3) [of key "(v, ok)" v ok] c False by auto
  qed
qed simp

lemma new_redactor_values: "[] \<notin> set (tr_values (new_text_redactor E))"
  using env_values_nonempty [of "[]" "environ E"]
  by (simp add: new_text_redactor_def redactor_over_def sensitive_environment_values_def)

lemma text_deltas_total:
  "[] \<notin> set (tr_values s) \<Longrightarrow> length (tr_pending s) \<le> max_pending \<Longrightarrow>
     \<exists>outs. text_deltas E s chunks = Some outs \<and> length outs = length chunks + 1"
proof (induction chunks arbitrary: s)
  case Nil
  then show ?case using text_process_returns [of s E True "[]"] by (auto simp: text_flush_def)
next
  case (Cons c cs)
  obtain out s1 where "text_push E c s = Some (out, s1)" "length (tr_pending s1) \<le> max_pending" "tr_values s1 = tr_values s"
    using text_push_returns [OF Cons.prems] .
  moreover from this Cons.IH [of s1] Cons.prems obtain outs where "text_deltas E s1 cs = Some outs" "length outs = length cs + 1" by auto
  ultimately show ?case by simp
qed

text \<open>
  : whatever chunks a model sends, the redaction of the call returns: one text for every chunk and one for the flush.\<close>

theorem text_deltas_return:
  "\<exists>outs. text_deltas E (new_text_redactor E) chunks = Some outs \<and> length outs = length chunks + 1"
  by (rule text_deltas_total [OF new_redactor_values]) (simp add: new_text_redactor_def redactor_over_def)

section \<open>A secret split between chunks\<close>

lemma suffix_size_Some: "suffix_size t w lo n = Some k \<Longrightarrow> lo < k \<and> k \<le> n"
  by (induction t w lo n rule: suffix_size.induct) (auto split: if_splits)

lemma suffix_size_finds:
  "lo < k \<Longrightarrow> k \<le> n \<Longrightarrow> suffix (take k w) t \<Longrightarrow> \<exists>m. suffix_size t w lo n = Some m \<and> k \<le> m"
  by (induction n) (auto simp: le_Suc_eq)

definition match_step :: "string \<Rightarrow> string \<Rightarrow> string \<times> nat \<Rightarrow> string \<times> nat" where
  "match_step t v r = (case suffix_size t v (snd r) (min (length t) (length v - 1)) of None \<Rightarrow> r | Some n \<Rightarrow> (v, n))"

lemma match_step_grows: "snd r \<le> snd (match_step t v r)"
  by (auto simp: match_step_def dest: suffix_size_Some split: option.splits)

lemma match_step_covers:
  assumes "k \<le> min (length t) (length v - 1)" "suffix (take k v) t"
  shows "k \<le> snd (match_step t v r)"
proof (cases "k \<le> snd r")
  case True
  then show ?thesis using match_step_grows by (rule order.trans)
next
  case False
  then obtain m where "suffix_size t v (snd r) (min (length t) (length v - 1)) = Some m" "k \<le> m"
    using suffix_size_finds [of "snd r" k _ v t] assms by (meson not_le)
  then show ?thesis by (simp add: match_step_def)
qed

lemma partial_match_fold: "partial_secret_suffix_match s t = fold (match_step t) (tr_values s) ([], 0)"
proof -
  have "(\<lambda>v (selected, longest). case suffix_size t v longest (min (length t) (length v - 1)) of
      None \<Rightarrow> (selected, longest) | Some n \<Rightarrow> (v, n)) = match_step t"
    by (auto simp: match_step_def fun_eq_iff split: option.split)
  then show ?thesis unfolding partial_secret_suffix_match_def by simp
qed

lemma fold_match_grows: "snd r \<le> snd (fold (match_step t) vs r)"
proof (induction vs arbitrary: r)
  case (Cons v vs)
  from match_step_grows [of r t v] Cons.IH [of "match_step t v r"] show ?case by simp
qed simp

lemma partial_match_covers:
  assumes "v \<in> set (tr_values s)" "k \<le> min (length t) (length v - 1)" "suffix (take k v) t"
  shows "k \<le> snd (partial_secret_suffix_match s t)"
proof -
  obtain us ws where "tr_values s = us @ v # ws" using assms(1) by (metis split_list)
  moreover have "k \<le> snd (match_step t v (fold (match_step t) us ([], 0)))" by (rule match_step_covers [OF assms(2,3)])
  ultimately show ?thesis unfolding partial_match_fold
    using fold_match_grows [of "match_step t v (fold (match_step t) us ([], 0))" t ws] by simp
qed

lemma pending_hold_covers: "snd (partial_secret_suffix_match s (tr_pending s)) \<le> fst (pending_hold s)"
  by (auto simp: pending_hold_def Let_def split: prod.splits)



section \<open>Ordinary text\<close>

text \<open>No part of the text looks like a credential or a long beginning of one, nor is changed by the masking.\<close>

definition ordinary_text :: "ambient \<Rightarrow> string list \<Rightarrow> string \<Rightarrow> bool" where
  "ordinary_text E vs t \<longleftrightarrow> (\<forall>u. sublist u t \<longrightarrow> redact_text E u = u
     \<and> next_candidate ((redactor_over vs) \<lparr>tr_pending := u\<rparr>) = None
     \<and> fst (pending_hold ((redactor_over vs) \<lparr>tr_pending := u\<rparr>)) \<le> max_pending)"

lemma scan_of_pending:
  "tr_values s = vs \<Longrightarrow> next_candidate s = next_candidate ((redactor_over vs) \<lparr>tr_pending := tr_pending s\<rparr>)"
  "tr_values s = vs \<Longrightarrow> pending_hold s = pending_hold ((redactor_over vs) \<lparr>tr_pending := tr_pending s\<rparr>)"
  by (simp_all add: next_candidate_def text_candidates_def pending_hold_def partial_secret_suffix_match_def redactor_over_def Let_def)

lemma ordinary_process:
  assumes "ordinary_text E vs (tr_pending s)" "tr_values s = vs" "tr_mode s = TextNormal"
  shows "text_process E True [] s = Some (tr_pending s, s \<lparr>tr_pending := []\<rparr>)"
    "\<exists>out s1. text_process E False [] s = Some (out, s1) \<and> out @ tr_pending s1 = tr_pending s \<and> tr_values s1 = vs \<and> tr_mode s1 = TextNormal"
proof -
  have n: "next_candidate s = None" "redact_text E (take k (tr_pending s)) = take k (tr_pending s)"
    "fst (pending_hold s) \<le> max_pending" for k
    using assms(1) scan_of_pending [OF assms(2)] sublist_take by (auto simp: ordinary_text_def)
  show "text_process E True [] s = Some (tr_pending s, s \<lparr>tr_pending := []\<rparr>)"
    using n(1) n(2) [of "length (tr_pending s)"] assms(3) by (subst text_process.simps) (simp add: step_normal_def)
  obtain hold m v k where h: "pending_hold s = (hold, m, v, k)" by (metis prod.collapse)
  then show "\<exists>out s1. text_process E False [] s = Some (out, s1) \<and> out @ tr_pending s1 = tr_pending s \<and> tr_values s1 = vs \<and> tr_mode s1 = TextNormal"
    using n assms(2,3) by (subst text_process.simps) (auto simp: step_normal_def Let_def)
qed

lemma ordinary_deltas:
  assumes "ordinary_text E vs (tr_pending s @ concat chunks)" "tr_values s = vs" "tr_mode s = TextNormal"
  shows "map_option concat (text_deltas E s chunks) = Some (tr_pending s @ concat chunks)"
  using assms
proof (induction chunks arbitrary: s)
  case Nil
  then show ?case using ordinary_process(1) [of E vs s] by (simp add: text_flush_def)
next
  case (Cons c cs)
  have sub: "ordinary_text E vs u" if "sublist u (tr_pending s @ concat (c # cs))" for u
    using Cons.prems(1) that sublist_order.order.trans by (auto simp: ordinary_text_def)
  let ?s = "s \<lparr>tr_pending := tr_pending s @ c\<rparr>"
  have "sublist (tr_pending ?s) (tr_pending s @ concat (c # cs))" by simp
  from ordinary_process(2) [OF sub [OF this]] Cons.prems(2,3) obtain out s1 where
    p: "text_process E False [] ?s = Some (out, s1)" "out @ tr_pending s1 = tr_pending s @ c" "tr_values s1 = vs" "tr_mode s1 = TextNormal"
    by auto
  have "\<exists>out s1. text_push E c s = Some (out, s1) \<and> out @ tr_pending s1 = tr_pending s @ c \<and> tr_values s1 = vs \<and> tr_mode s1 = TextNormal"
    using p Cons.prems(2,3) by (cases "c = []") (auto simp: text_push_def)
  then obtain out s1 where q: "text_push E c s = Some (out, s1)" "out @ tr_pending s1 = tr_pending s @ c" "tr_values s1 = vs"
    "tr_mode s1 = TextNormal" by blast
  have "tr_pending s @ concat (c # cs) = out @ tr_pending s1 @ concat cs" using q(2) by simp
  then have "sublist (tr_pending s1 @ concat cs) (tr_pending s @ concat (c # cs))" by (simp only: sublist_append_leftI)
  from Cons.IH [OF sub [OF this] q(3,4)] obtain outs where o: "text_deltas E s1 cs = Some outs" "concat outs = tr_pending s1 @ concat cs"
    by blast
  have "concat (out # outs) = (out @ tr_pending s1) @ concat cs" using o(2) by simp
  then have "concat (out # outs) = tr_pending s @ concat (c # cs)" unfolding q(2) by simp
  then show ?case using q(1) o(1) by simp
qed

text \<open>C22: text in which nothing looks like a credential reaches the client unchanged, however it is cut into chunks.\<close>

theorem ordinary_text_unchanged:
  assumes "ordinary_text E vs (concat chunks)"
  shows "map_option concat (text_deltas E (redactor_over vs) chunks) = Some (concat chunks)"
  using ordinary_deltas [of E vs "redactor_over vs" chunks] assms by (simp add: redactor_over_def)

theorem ordinary_text_unchanged_witness:
  "map_option concat (text_deltas silent_ambient (redactor_over [''hunter2'']) [''a'', ''hu'', ''!'']) = Some ''ahu!''"
proof -
  have "list_all (\<lambda>u. redact_text silent_ambient u = u \<and> next_candidate ((redactor_over [''hunter2'']) \<lparr>tr_pending := u\<rparr>) = None
      \<and> fst (pending_hold ((redactor_over [''hunter2'']) \<lparr>tr_pending := u\<rparr>)) \<le> max_pending) (sublists ''ahu!'')" by code_simp
  then have "\<forall>u \<in> set (sublists ''ahu!''). redact_text silent_ambient u = u \<and> next_candidate ((redactor_over [''hunter2'']) \<lparr>tr_pending := u\<rparr>) = None
      \<and> fst (pending_hold ((redactor_over [''hunter2'']) \<lparr>tr_pending := u\<rparr>)) \<le> max_pending" unfolding list_all_iff .
  then have "ordinary_text silent_ambient [''hunter2''] ''ahu!''" unfolding ordinary_text_def set_sublists_eq by blast
  then have "ordinary_text silent_ambient [''hunter2''] (concat [''a'', ''hu'', ''!''])" by simp
  from ordinary_text_unchanged [OF this] show ?thesis by simp
qed

section \<open>Where the text depends on the chunks\<close>

lemma chunked_text_1: "map_option concat (text_deltas silent_ambient (redactor_over []) [''password='' @ [CHR 0x22, CHR 0x5C, CHR 0x22] @ ''hunter2''])
     = Some (''password='' @ redacted)"
  by code_simp

lemma chunked_text_2: "map_option concat (text_deltas silent_ambient (redactor_over []) [''password='' @ [CHR 0x22, CHR 0x5C], CHR 0x22 # ''hunter2''])
     = Some (''password='' @ redacted @ ''hunter2'')"
  by code_simp

lemma chunked_text_3: "map_option concat (text_deltas silent_ambient (redactor_over []) [''secretkey=hunter2'']) = Some (''secretkey='' @ redacted)"
  by code_simp

lemma chunked_text_4: "map_option concat (text_deltas silent_ambient (redactor_over []) [''secretk'', ''ey=hunter2'']) = Some ''secretkey=hunter2''"
  by code_simp

lemma chunked_text_5: "map_option concat (text_deltas silent_ambient (redactor_over []) [''desk-top'']) = Some ''desk-top''"
  by code_simp

lemma chunked_text_6: "map_option concat (text_deltas silent_ambient (redactor_over []) [''desk-'', ''top'']) = Some (''de'' @ redacted)"
  by code_simp


end
