(* ===== verification/Spec2Isabelle.thy ===== *)
theory Spec2Isabelle
  imports Compile_Claims Cron_Cluster Http_Facts Run_Journal Tool_Safety Recovery_Samples Text_Stream_Facts
begin

text \<open>
  \<^bold>\<open>ouvrier\<close> is a runtime for agents written in Go: a worker declares pipelines of model and tool calls,
  compiles them to plans and serves them over HTTP, webhooks, cron and streams. This development models the
  core of it, function by function, and proves what makes each part correct. Names of definitions follow the
  source in snake case; every component below names the files under \<open>src/\<close> it translates.

  \<^bold>\<open>How the parts interact.\<close> The nodes of a program are validated and compiled to plans (\<open>Compile\<close>). A trigger (\<open>Http_Serve\<close>, \<open>Cron_Leases\<close>, \<open>Streams\<close>) admits an input, reserves
  its idempotency key in the state store and starts a run of its plan (\<open>Plan_Run\<close>). The run takes the lease of a
  durable run (\<open>Run_Lease\<close>, \<open>Lease_Store\<close>), journals its input and checkpoints (\<open>Run_Journal\<close>), walks the steps
  (\<open>Pipelines\<close>), each of them a harness (\<open>Harness_Loop\<close>) that calls the provider under a budget (\<open>Budget_Gate\<close>)
  and the tools under the permission policy (\<open>Tool_Executor\<close>, \<open>Policy\<close>), ends with the terminal (\<open>Terminals\<close>),
  settles the key and emits the events (\<open>Event_Stream\<close>) after masking credentials (\<open>Redaction\<close>). A run that
  crashed is taken up again by \<open>Durable_Recovery\<close>, one that waits for an approval by \<open>Approval_Resume\<close>.

  \<^bold>\<open>Theories and sources.\<close>

  \<^item> Prelude: \<open>Go_Prelude\<close> (Go maps as association lists, integers of 64 bits, the error values with
    \<open>errors.Is\<close>/\<open>As\<close>/\<open>Join\<close>), \<open>Go_Strings\<close> (package \<open>strings\<close>), \<open>Go_Time\<close> and \<open>Go_Format\<close> (civil dates and
    RFC 3339), \<open>Go_Regex\<close> (the part of \<open>regexp\<close> the redaction uses), \<open>Ring_Buffer\<close> (\<open>internal/events/event_buffer.go\<close>).
  \<^item> \<open>internal/events\<close>: \<open>Redaction\<close>, \<open>Event_Stream\<close> (stream, metrics, retention, hooks), \<open>Text_Stream\<close> and
    \<open>Text_Stream_Facts\<close> (the incremental redaction of model deltas).
  \<^item> \<open>internal/state\<close>: \<open>Sessions\<close>, \<open>State_Store\<close>, \<open>Lease_Store\<close>, \<open>Run_Journal\<close>, the in-memory backend.
  \<^item> \<open>internal/policy\<close> and \<open>internal/tools\<close>: \<open>Policy\<close>, \<open>Tool_Executor\<close>, \<open>Tool_Safety\<close>.
  \<^item> \<open>internal/provider\<close> and \<open>internal/harness\<close>: \<open>Provider\<close>, \<open>Budget_Gate\<close>, \<open>Harness\<close>, \<open>Harness_Loop\<close>,
    \<open>Harness_Memory\<close>, \<open>Harness_Runs\<close>, \<open>Harness_Tools\<close>, \<open>Harness_Options\<close>, \<open>Harness_Samples\<close>.
  \<^item> Declarations: \<open>Declarations\<close> (\<open>pipeline.go\<close>, \<open>tool.go\<close>, \<open>bash.go\<close>, \<open>skill.go\<close>, \<open>mcp.go\<close>), \<open>Declared_Plans\<close>
    (\<open>trigger.go\<close>, \<open>composition.go\<close>, \<open>options.go\<close>), \<open>Compile\<close>, \<open>Compile_Facts\<close>, \<open>Compile_Claims\<close> (\<open>compile*.go\<close>,
    \<open>tool_schema.go\<close>).
  \<^item> Plans and their runs: \<open>Plans\<close> and \<open>Plan_Identity\<close> (\<open>internal/runtime/plan.go\<close>, \<open>durable_runs.go\<close>), \<open>Runtime\<close>,
    \<open>Pipelines\<close>, \<open>Pipeline_Facts\<close>, \<open>Pipeline_Samples\<close> (\<open>http_runtime.go\<close>, \<open>http_runtime_composition.go\<close>,
    \<open>subagent_runtime.go\<close>), \<open>Terminals\<close>, \<open>Run_Lease\<close>, \<open>Plan_Run\<close>, \<open>Plan_Run_Facts\<close>.
  \<^item> Recovery and approvals: \<open>Durable_Recovery\<close>, \<open>Approval_Resume\<close>, \<open>Recovery_Facts\<close>, \<open>Recovery_Samples\<close>
    (\<open>durable_recovery.go\<close>, \<open>runtime_http_resume.go\<close>, \<open>runtime_http_approval.go\<close>).
  \<^item> Triggers: \<open>Cron_Schedule\<close>, \<open>Cron_Leases\<close>, \<open>Cron_Cluster\<close> (\<open>runtime_cron.go\<close>, \<open>runtime_cron_lease.go\<close>), \<open>Streams\<close>,
    \<open>Stream_Facts\<close> (\<open>runtime_stream*.go\<close>), \<open>Http_Trigger\<close>, \<open>Http_Serve\<close>, \<open>Http_Facts\<close> (\<open>runtime_http.go\<close>,
    \<open>runtime_http_sse.go\<close>).

  \<^bold>\<open>State and effects.\<close> A component that owns its state is a record with one function per method, run under its
  mutex (stores, stream, ledger, gate, replica of the cron cluster). A component that calls others takes the
  world as a type variable and returns it changed; what it calls is a record of functions of the world (the
  store of a run, the provider, the terminals' egress), so that every call happens in the order of the source.
  Errors are values of \<open>go_error\<close>; every early return is a branch. A context is the function from the world to
  its error.

  \<^bold>\<open>What the lemmas show.\<close> Invariants of the stores, the stream and the lease table over every interleaving of
  their methods; mutual exclusion of leases, ticks and keys; what the policy and the approval gate let through;
  the bounds of a harness run (iterations, budget) and its outcome; equality of a resumed with an uninterrupted
  plan; injectivity of the bytes that identify a plan; the safety of recovery; that compilation returns, composes and yields well-formed plans within the limits of the run time; what an HTTP
  request that is not
  admitted leaves unchanged and what a client of server-sent events receives; exactness of masking, of the
  calendar search and of the circular buffer. The contracts of the lease store, the permission policy, the ring
  log, the queue of deliveries and the feed of events are locales, interpreted on the definitions of the model.

  \<^bold>\<open>Parameters, bounds and fuel.\<close> Outside the model and given as parameters: SHA-256 and HMAC, the JSON codec,
  schema validation, reflection over Go functions, URL parsing, the text of a float, random identifiers, the
  clock (a function of the world), brokers, webhooks, files, MCP servers and the models. Floats are exact
  rationals. Fuel appears in the repetitions of the regular expressions (the length of the text) and in the
  searches of the cron schedule, whose bounds are those of the source; the run loop is bounded by
  its iterations and the termination of every other recursion is proved.

  \<^bold>\<open>Concurrency.\<close> Interleavings are explicit where the source depends on them: the operations of the stores, the
  provider gate, and the replicas of a cron cluster are step relations; the goroutines of one run (parallel
  branches, tool groups) run atomically in the order of a schedule that is a parameter.

  \<^bold>\<open>Not modelled.\<close> The adapters of the model vendors, the brokers and the SQL stores (clients of libraries and
  servers), the administration, metrics and development pages, the command line, the terminal user interface, the
  deployment, the tunnels and the coding agent under \<open>internal/operate\<close>, which are programs of their own around
  this core; see the components of the manifest for the reason of each.
\<close>

end
